(* ===== verification/Prelude.thy ===== *)
theory Prelude
  imports Main "HOL-Library.AList" "HOL-Library.List_Lexorder" "HOL-Library.Char_ord"
    "HOL-Library.Product_Lexorder"
begin

text \<open>
  Shared vocabulary of the development: the exceptions the modelled modules raise and the
  \<open>except\<close> clauses that rewrap them, the result type of a Python call, UTC timestamps,
  the pydantic string constraints and Python dictionaries as association lists.
\<close>

named_theorems result_simps \<open>unfolding rules for calls that may raise\<close>
named_theorems check_defs \<open>definitions of field constraints\<close>

section \<open>Exceptions and results\<close>

text \<open>
  One constructor per exception class the modelled code raises; the message is the source's
  literal. \<open>ValidationError\<close> is pydantic's, raised when a field constraint or a model
  validator rejects a value (the validator's own message is kept). \<open>BaseException\<close> stands for the
  exceptions that are no \<open>Exception\<close> and pass its \<open>except\<close> clauses.
\<close>

datatype exn =
    TypeError string
  | ValueError string
  | ValidationError string
  | OverflowError
  | IntegrityError
  | UsageLedgerError string
  | UsageLimitExceeded string
  | SearchStateError string
  | SearchJobInputError
  | SearchJobNotFoundError
  | SearchJobStateError string
  | SearchJobStorageError
  | SearchJobCancelled
  | SearchOrchestrationError string
  | TypedRequirementError
  | RequirementEvaluationError
  | TypedIntentAdapterError
  | RankingError
  | TypedRankingError
  | ProductEvidenceError
  | ProductNormalizationError
  | OutscraperAuthorizationError string
  | AssertionError
  | IndexError
  | KeyError
  | RunnerError
  | StopIteration
  | BaseException

text \<open>The subclass tests behind the \<open>except\<close> clauses of the modelled modules.\<close>

fun is_ValueError :: "exn \<Rightarrow> bool" where
  "is_ValueError (ValueError _) = True"
| "is_ValueError (ValidationError _) = True"
| "is_ValueError (UsageLedgerError _) = True"
| "is_ValueError (UsageLimitExceeded _) = True"
| "is_ValueError (SearchStateError _) = True"
| "is_ValueError (SearchOrchestrationError _) = True"
| "is_ValueError TypedRequirementError = True"
| "is_ValueError RequirementEvaluationError = True"
| "is_ValueError TypedIntentAdapterError = True"
| "is_ValueError RankingError = True"
| "is_ValueError TypedRankingError = True"
| "is_ValueError ProductEvidenceError = True"
| "is_ValueError ProductNormalizationError = True"
| "is_ValueError (OutscraperAuthorizationError _) = True"
| "is_ValueError _ = False"

fun is_SearchJobError :: "exn \<Rightarrow> bool" where
  "is_SearchJobError SearchJobInputError = True"
| "is_SearchJobError SearchJobNotFoundError = True"
| "is_SearchJobError (SearchJobStateError _) = True"
| "is_SearchJobError SearchJobStorageError = True"
| "is_SearchJobError SearchJobCancelled = True"
| "is_SearchJobError _ = False"

fun is_TypeError :: "exn \<Rightarrow> bool" where
  "is_TypeError (TypeError _) = True"
| "is_TypeError _ = False"

type_synonym 'a result = "exn + 'a"

definition bind :: "'a result \<Rightarrow> ('a \<Rightarrow> 'b result) \<Rightarrow> 'b result" where
  "bind r k = (case r of Inl e \<Rightarrow> Inl e | Inr x \<Rightarrow> k x)"

definition require :: "bool \<Rightarrow> exn \<Rightarrow> unit result" where
  "require ok e = (if ok then Inr () else Inl e)"

text \<open>\<open>except\<close>: exceptions the test accepts are replaced, the others pass through.\<close>

definition rewrap :: "(exn \<Rightarrow> bool) \<Rightarrow> exn \<Rightarrow> 'a result \<Rightarrow> 'a result" where
  "rewrap catches e' r =
     (case r of Inl e \<Rightarrow> (if catches e then Inl e' else Inl e) | Inr x \<Rightarrow> Inr x)"

fun is_ok :: "'a result \<Rightarrow> bool" where
  "is_ok (Inl _) = False"
| "is_ok (Inr _) = True"

lemma bind_Inl [simp, result_simps]: "bind (Inl e) k = Inl e"
  by (simp add: bind_def)

lemma bind_Inr [simp, result_simps]: "bind (Inr x) k = k x"
  by (simp add: bind_def)

lemma bind_eq_Inr [simp]: "bind r k = Inr y \<longleftrightarrow> (\<exists>x. r = Inr x \<and> k x = Inr y)"
  by (cases r) auto

lemma bind_eq_Inl: "bind r k = Inl e \<longleftrightarrow> r = Inl e \<or> (\<exists>x. r = Inr x \<and> k x = Inl e)"
  by (cases r) auto

lemma bind_assoc: "bind (bind r k) h = bind r (\<lambda>x. bind (k x) h)"
  by (cases r) auto

lemma require_eq_Inr [simp]: "require ok e = Inr u \<longleftrightarrow> ok"
  by (simp add: require_def)

lemma require_eq_Inl [simp]: "require ok e = Inl e' \<longleftrightarrow> \<not> ok \<and> e' = e"
  by (auto simp: require_def)

lemma require_True [simp]: "require True e = Inr ()"
  by (simp add: require_def)

lemma require_False [simp]: "require False e = Inl e"
  by (simp add: require_def)

lemma rewrap_eq_Inr [simp]: "rewrap c e r = Inr x \<longleftrightarrow> r = Inr x"
  by (cases r) (auto simp: rewrap_def)

lemma rewrap_Inr [simp, result_simps]: "rewrap c e (Inr x) = Inr x"
  by (simp add: rewrap_def)

lemma rewrap_Inl [simp, result_simps]: "rewrap c e' (Inl e) = Inl (if c e then e' else e)"
  by (simp add: rewrap_def)

lemma if_Inl_eq_Inr: "(if a then Inl e else k) = Inr x \<longleftrightarrow> \<not> a \<and> k = Inr x"
  by simp

lemma is_ok_iff: "is_ok r \<longleftrightarrow> (\<exists>x. r = Inr x)"
  by (cases r) auto

lemma is_ok_unit: "is_ok r \<longleftrightarrow> r = Inr ()"
  by (cases r) auto

lemma is_ok_bind [simp]: "is_ok (bind r k) \<longleftrightarrow> (\<exists>x. r = Inr x \<and> is_ok (k x))"
  by (cases r) auto

lemma is_ok_require [simp]: "is_ok (require ok e) \<longleftrightarrow> ok"
  by (simp add: require_def)

lemma is_ok_rewrap [simp]: "is_ok (rewrap c e r) \<longleftrightarrow> is_ok r"
  by (cases r) auto

text \<open>A loop that raises at the first element its check rejects.\<close>

fun check_all :: "('a \<Rightarrow> unit result) \<Rightarrow> 'a list \<Rightarrow> unit result" where
  "check_all f [] = Inr ()"
| "check_all f (x # xs) = bind (f x) (\<lambda>_. check_all f xs)"

lemma check_all_eq_Inr [simp]: "check_all f xs = Inr u \<longleftrightarrow> (\<forall>x\<in>set xs. f x = Inr ())"
  by (induction xs) auto

lemma check_all_ok [simp]: "(\<forall>x\<in>set xs. f x = Inr ()) \<Longrightarrow> check_all f xs = Inr ()"
  by simp

lemma sort_key_idem [simp]: "sort_key f (sort_key f xs) = sort_key f xs"
  by (simp add: sort_key_id_if_sorted)

lemma distinct_sort_key [simp]: "distinct (map g (sort_key f xs)) \<longleftrightarrow> distinct (map g xs)"
  by (metis distinct_map distinct_sort set_sort)

lemma sort_key_eq_Nil [simp]: "sort_key f xs = [] \<longleftrightarrow> xs = []"
  by (metis length_0_conv length_sort)

section \<open>Time\<close>

text \<open>
  A validated timestamp is a number of microseconds since the Unix epoch, in UTC.
  An argument that a caller passes as a timestamp may also be a datetime that is naive or not
  in UTC, or no datetime at all; the code distinguishes the three. \<open>datetime\<close> arithmetic
  raises \<open>OverflowError\<close> beyond the year 9999 (\<open>time_max\<close>).
\<close>

type_synonym time = int

datatype time_arg = Utc time | Not_utc | Not_datetime

definition time_max :: time where "time_max = 253402300799999999"
definition time_min :: time where "time_min = - 62135596800000000"
definition seconds :: "int \<Rightarrow> int" where "seconds n = n * 1000000"
definition minutes :: "int \<Rightarrow> int" where "minutes n = seconds (n * 60)"
definition hours :: "int \<Rightarrow> int" where "hours n = minutes (n * 60)"
definition days :: "int \<Rightarrow> int" where "days n = hours (n * 24)"

lemmas duration_defs = seconds_def minutes_def hours_def days_def

definition time_add :: "time \<Rightarrow> int \<Rightarrow> time result" where
  "time_add t d = (if t + d \<le> time_max \<and> time_min \<le> t + d then Inr (t + d) else Inl OverflowError)"

text \<open>The \<open>date()\<close> of a UTC timestamp, as a day number.\<close>

definition day_of :: "time \<Rightarrow> int" where
  "day_of t = t div days 1"

definition utc_datetime :: "string \<Rightarrow> time_arg \<Rightarrow> time result" where
  "utc_datetime field_name v =
     (case v of
        Not_datetime \<Rightarrow> Inl (TypeError (field_name @ '' must be a datetime''))
      | Not_utc \<Rightarrow> Inl (ValueError (field_name @ '' must use UTC''))
      | Utc t \<Rightarrow> Inr t)"

lemma utc_datetime_Utc [simp, result_simps]: "utc_datetime f (Utc t) = Inr t"
  by (simp add: utc_datetime_def)

lemma utc_datetime_eq_Inr [simp]: "utc_datetime f v = Inr t \<longleftrightarrow> v = Utc t"
  by (cases v) (auto simp: utc_datetime_def)

lemma time_add_eq_Inr:
  "time_add t d = Inr u \<longleftrightarrow> u = t + d \<and> t + d \<le> time_max \<and> time_min \<le> t + d"
  by (auto simp: time_add_def)

section \<open>String constraints\<close>

definition chars_in :: "string \<Rightarrow> string \<Rightarrow> bool" where
  "chars_in alphabet s \<longleftrightarrow> list_all (\<lambda>c. c \<in> set alphabet) s"

definition hex_chars :: string where "hex_chars = ''0123456789abcdef''"
definition alnum_chars :: string where
  "alnum_chars = ''ABCDEFGHIJKLMNOPQRSTUVWXYZabcdefghijklmnopqrstuvwxyz0123456789''"
definition urlsafe_chars :: string where "urlsafe_chars = alnum_chars @ ''_-''"
definition subject_chars :: string where "subject_chars = alnum_chars @ ''._:-''"

text \<open>\<open>Digest\<close>: 64 lower-case hexadecimal characters.\<close>

definition is_digest :: "string \<Rightarrow> bool" where
  "is_digest s \<longleftrightarrow> length s = 64 \<and> chars_in hex_chars s"

text \<open>\<open>SubjectId\<close>: 1 to 128 characters, the first alphanumeric.\<close>

definition is_subject_id :: "string \<Rightarrow> bool" where
  "is_subject_id s \<longleftrightarrow>
     1 \<le> length s \<and> length s \<le> 128 \<and> chars_in alnum_chars (take 1 s) \<and> chars_in subject_chars s"

text \<open>\<open>ReservationId\<close>: 32 to 128 URL-safe base64 characters.\<close>

definition is_reservation_id :: "string \<Rightarrow> bool" where
  "is_reservation_id s \<longleftrightarrow> 32 \<le> length s \<and> length s \<le> 128 \<and> chars_in urlsafe_chars s"

text \<open>Approval tokens and job locators: 43 to 128 URL-safe base64 characters.\<close>

definition is_token :: "string \<Rightarrow> bool" where
  "is_token s \<longleftrightarrow> 43 \<le> length s \<and> length s \<le> 128 \<and> chars_in urlsafe_chars s"

text \<open>A constraint on an optional field.\<close>

definition opt_all :: "('a \<Rightarrow> bool) \<Rightarrow> 'a option \<Rightarrow> bool" where
  "opt_all p v = (case v of None \<Rightarrow> True | Some x \<Rightarrow> p x)"

lemma opt_all_None [simp]: "opt_all p None"
  by (simp add: opt_all_def)

lemma opt_all_Some [simp]: "opt_all p (Some x) = p x"
  by (simp add: opt_all_def)

lemmas [check_defs] = is_digest_def is_subject_id_def is_reservation_id_def is_token_def
  chars_in_def

lemma chars_in_replicate: "chars_in a (replicate n c) \<longleftrightarrow> n = 0 \<or> c \<in> set a"
  by (induction n) (auto simp: chars_in_def)

lemma is_digest_replicate [simp]: "is_digest (replicate 64 c) \<longleftrightarrow> c \<in> set hex_chars"
  by (simp add: is_digest_def chars_in_replicate)

lemma is_token_replicate [simp]: "is_token (replicate 43 c) \<longleftrightarrow> c \<in> set urlsafe_chars"
  by (simp add: is_token_def chars_in_replicate)

lemma is_reservation_id_replicate [simp]:
  "is_reservation_id (replicate 32 c) \<longleftrightarrow> c \<in> set urlsafe_chars"
  by (simp add: is_reservation_id_def chars_in_replicate)

lemma is_digest_nonempty: "is_digest s \<Longrightarrow> s \<noteq> []"
  by (auto simp: is_digest_def)


section \<open>Dictionaries in insertion order\<close>

text \<open>A Python dict is an association list; \<open>AList.update\<close> is its item assignment.\<close>

lemma update_fresh: "k \<notin> set (map fst d) \<Longrightarrow> AList.update k v d = d @ [(k, v)]"
  by (induction d) auto

lemma map_snd_update_fresh: "k \<notin> set (map fst d) \<Longrightarrow> map snd (AList.update k v d) = map snd d @ [v]"
  by (simp add: update_fresh)

lemma keys_update_present: "k \<in> set (map fst d) \<Longrightarrow> map fst (AList.update k v d) = map fst d"
  by (induction d) (auto simp: image_iff)

lemma sum_update_present:
  fixes g :: "'v \<Rightarrow> int"
  assumes "distinct (map fst d)" and "map_of d k = Some old"
  shows "sum_list (map (g \<circ> snd) (AList.update k new d)) = sum_list (map (g \<circ> snd) d) - g old + g new"
  using assms by (induction d) (auto split: if_splits)

lemma sum_update_le:
  fixes g :: "'v \<Rightarrow> int"
  assumes "distinct (map fst d)" and "map_of d k = Some old" and "g new \<le> g old"
  shows "sum_list (map (g \<circ> snd) (AList.update k new d)) \<le> sum_list (map (g \<circ> snd) d)"
  using sum_update_present [OF assms(1,2), of g new] assms(3) by simp

lemma update_set_subset:
  "distinct (map fst d) \<Longrightarrow> set (AList.update k v d) = insert (k, v) {p \<in> set d. fst p \<noteq> k}"
  by (induction d) (auto simp: image_iff)

lemma fold_update_distinct:
  assumes "distinct (map f xs)" and "set (map f xs) \<inter> set (map fst d) = {}"
  shows "foldl (\<lambda>d x. AList.update (f x) x d) d xs = d @ map (\<lambda>x. (f x, x)) xs"
  using assms
proof (induction xs arbitrary: d)
  case (Cons x xs)
  have "f x \<notin> set (map fst d)" using Cons.prems by auto
  then have upd: "AList.update (f x) x d = d @ [(f x, x)]" by (rule update_fresh)
  have "foldl (\<lambda>d x. AList.update (f x) x d) (d @ [(f x, x)]) xs =
      (d @ [(f x, x)]) @ map (\<lambda>x. (f x, x)) xs"
    using Cons.prems by (intro Cons.IH) auto
  with upd show ?case by simp
qed simp

lemma dict_of_list:
  "distinct (map f xs) \<Longrightarrow> foldl (\<lambda>d x. AList.update (f x) x d) [] xs = map (\<lambda>x. (f x, x)) xs"
  by (simp add: fold_update_distinct)

lemma map_of_keyed:
  assumes "distinct (map fst d)" and "\<And>k v. (k, v) \<in> set d \<Longrightarrow> f v = k"
    and "set xs = set (map snd d)" and "distinct (map f xs)"
  shows "map_of (map (\<lambda>x. (f x, x)) xs) = map_of d"
proof
  fix k
  show "map_of (map (\<lambda>x. (f x, x)) xs) k = map_of d k"
  proof (cases "map_of d k")
    case None
    then have "k \<notin> fst ` set d" by (simp add: map_of_eq_None_iff)
    then have "k \<notin> f ` set xs" using assms(2,3) by force
    then have "map_of (map (\<lambda>x. (f x, x)) xs) k = None"
      by (auto simp: map_of_eq_None_iff image_iff)
    with None show ?thesis by simp
  next
    case (Some v)
    then have "(k, v) \<in> set d" by (rule map_of_SomeD)
    then have "v \<in> set xs" and "f v = k" using assms(2,3) by force+
    then have "(k, v) \<in> set (map (\<lambda>x. (f x, x)) xs)" by auto
    moreover have "distinct (map fst (map (\<lambda>x. (f x, x)) xs))" using assms(4) by (simp add: comp_def)
    ultimately show ?thesis using Some by (simp only: map_of_is_SomeI)
  qed
qed

lemma map_of_rev_distinct: "distinct (map fst xs) \<Longrightarrow> map_of (rev xs) = map_of xs"
  by (subst map_of_inject_set) (simp_all add: rev_map [symmetric])

text \<open>Lists with the same elements have one sorted order when their keys are distinct.\<close>

lemma sort_key_unique:
  fixes f :: "'a \<Rightarrow> 'b::linorder"
  assumes "distinct (map f xs)" and "distinct (map f ys)" and "set xs = set ys"
  shows "sort_key f xs = sort_key f ys"
proof -
  have "map f (sort_key f xs) = map f (sort_key f ys)"
    using assms by (intro sorted_distinct_set_unique) simp_all
  moreover have "inj_on f (set (sort_key f xs) \<union> set (sort_key f ys))"
    using assms by (simp add: distinct_map)
  ultimately show ?thesis by (simp only: inj_on_map_eq_map)
qed

lemma map_of_map_snd_some:
  "map_of d k = Some v \<Longrightarrow> v \<in> set (map snd d)"
  by (force dest: map_of_SomeD)

end
