(* ===== verification/Interfaces.thy ===== *)
theory Interfaces
  imports Prelude
begin

text \<open>
  The contracts that components of the program share, stated once: a guarded system (an
  operation either raises and changes nothing or moves to the next state), its versioned
  refinement (every operation names the revision it was computed from), a single-use claim
  store and a bounded life cycle. Each is interpreted on the component that provides it.
\<close>

section \<open>Guarded systems\<close>

text \<open>
  A run of events: an event that raises leaves the state as it was, as the modelled code does
  for every operation interpreted here.
\<close>

definition attempt :: "('e \<Rightarrow> 's \<Rightarrow> 's result) \<Rightarrow> 'e \<Rightarrow> 's \<Rightarrow> 's" where
  "attempt step e s = (case step e s of Inl _ \<Rightarrow> s | Inr s' \<Rightarrow> s')"

fun run_events :: "('e \<Rightarrow> 's \<Rightarrow> 's result) \<Rightarrow> 's \<Rightarrow> 'e list \<Rightarrow> 's" where
  "run_events step s [] = s"
| "run_events step s (e # es) = run_events step (attempt step e s) es"

text \<open>How many events of a run were accepted.\<close>

fun accepted :: "('e \<Rightarrow> 's \<Rightarrow> 's result) \<Rightarrow> 's \<Rightarrow> 'e list \<Rightarrow> nat" where
  "accepted step s [] = 0"
| "accepted step s (e # es) =
     (if is_ok (step e s) then 1 else 0) + accepted step (attempt step e s) es"

lemma attempt_Inr [simp]: "step e s = Inr s' \<Longrightarrow> attempt step e s = s'"
  by (simp add: attempt_def)

lemma attempt_Inl [simp]: "step e s = Inl x \<Longrightarrow> attempt step e s = s"
  by (simp add: attempt_def)

lemma run_events_append: "run_events step s (xs @ ys) = run_events step (run_events step s xs) ys"
  by (induction xs arbitrary: s) auto

locale guarded_system =
  fixes step :: "'e \<Rightarrow> 's \<Rightarrow> 's result"
    and inv :: "'s \<Rightarrow> bool"
  assumes step_inv: "inv s \<Longrightarrow> step e s = Inr s' \<Longrightarrow> inv s'"
begin

lemma attempt_inv: "inv s \<Longrightarrow> inv (attempt step e s)"
  using step_inv by (cases "step e s") auto

lemma run_inv: "inv s \<Longrightarrow> inv (run_events step s es)"
  by (induction es arbitrary: s) (auto intro: attempt_inv)

text \<open>A relation that every accepted step satisfies holds between the ends of a run.\<close>

lemma run_relation:
  assumes "inv s" and refl: "\<And>s. R s s" and trans: "\<And>a b c. R a b \<Longrightarrow> R b c \<Longrightarrow> R a c"
    and step: "\<And>e s s'. inv s \<Longrightarrow> step e s = Inr s' \<Longrightarrow> R s s'"
  shows "R s (run_events step s es)"
  using \<open>inv s\<close>
proof (induction es arbitrary: s)
  case Nil
  show ?case by (simp add: refl)
next
  case (Cons e es)
  have "R s (attempt step e s)"
    using step [OF Cons.prems] refl by (cases "step e s") auto
  moreover have "R (attempt step e s) (run_events step (attempt step e s) es)"
    by (intro Cons.IH attempt_inv Cons.prems)
  ultimately show ?case by (auto intro: trans)
qed

text \<open>The accepted events of a run are a chain of moves between the views of its states.\<close>

lemma accepted_chain:
  assumes "inv s" and step: "\<And>e s s'. inv s \<Longrightarrow> step e s = Inr s' \<Longrightarrow> moves (view s) (view s')"
  shows "(moves ^^ accepted step s es) (view s) (view (run_events step s es))"
  using \<open>inv s\<close>
proof (induction es arbitrary: s)
  case (Cons e es)
  show ?case
  proof (cases "step e s")
    case (Inl x)
    with Cons show ?thesis by simp
  next
    case (Inr s')
    have "(moves ^^ accepted step s' es) (view s') (view (run_events step s' es))"
      using Cons Inr step_inv by blast
    with step [OF Cons.prems Inr] have "(moves ^^ Suc (accepted step s' es)) (view s) (view (run_events step s' es))"
      by (rule relpowp_Suc_I2)
    with Inr show ?thesis by simp
  qed
qed simp

end

section \<open>Optimistic concurrency\<close>

text \<open>
  Every operation names the revision its caller has read; it is accepted only on that
  revision and produces the next one.
\<close>

locale versioned_system = guarded_system step inv
  for step :: "'e \<Rightarrow> 's \<Rightarrow> 's result" and inv :: "'s \<Rightarrow> bool" +
  fixes version :: "'s \<Rightarrow> int"
    and expected :: "'e \<Rightarrow> int"
  assumes fresh: "step e s = Inr s' \<Longrightarrow> expected e = version s"
    and bump: "step e s = Inr s' \<Longrightarrow> version s' = version s + 1"
begin

lemma version_counts: "version (run_events step s es) = version s + int (accepted step s es)"
proof (induction es arbitrary: s)
  case (Cons e es)
  then show ?case by (cases "step e s") (auto simp: bump)
qed simp

lemma version_mono: "version s \<le> version (run_events step s es)"
  by (simp add: version_counts)

text \<open>Of two operations computed from one revision, whatever happens between them, at most one
  is accepted.\<close>

lemma no_lost_update:
  assumes "step e s = Inr s'" and "expected e2 = expected e"
  shows "\<exists>x. step e2 (run_events step s' es) = Inl x"
proof (cases "step e2 (run_events step s' es)")
  case (Inr t)
  have "version s' \<le> version (run_events step s' es)" by (rule version_mono)
  with fresh [OF Inr] fresh [OF assms(1)] bump [OF assms(1)] assms(2) show ?thesis by simp
qed simp

end

section \<open>Single-use claims\<close>

locale claim_store =
  fixes claim :: "'c \<Rightarrow> 's \<Rightarrow> 's result"
    and claimed :: "'s \<Rightarrow> 'k \<Rightarrow> bool"
    and key :: "'c \<Rightarrow> 'k"
  assumes claim_fresh: "claim c s = Inr s' \<Longrightarrow> \<not> claimed s (key c)"
    and claim_records: "claim c s = Inr s' \<Longrightarrow> claimed s' (key c)"
    and claim_keeps: "claim c s = Inr s' \<Longrightarrow> claimed s k \<Longrightarrow> claimed s' k"
begin

lemma claimed_stays: "claimed s k \<Longrightarrow> claimed (run_events claim s cs) k"
proof (induction cs arbitrary: s)
  case (Cons c cs)
  have "claimed (attempt claim c s) k"
    using Cons.prems claim_keeps by (cases "claim c s") auto
  then show ?case using Cons.IH by simp
qed simp

lemma claim_once:
  assumes "claim c s = Inr s'" and "key d = key c"
  shows "\<exists>x. claim d (run_events claim s' cs) = Inl x"
proof (cases "claim d (run_events claim s' cs)")
  case (Inr t)
  have "claimed (run_events claim s' cs) (key d)"
    using claimed_stays claim_records [OF assms(1)] assms(2) by simp
  with claim_fresh [OF Inr] show ?thesis by simp
qed simp

end

section \<open>Bounded life cycles\<close>

locale lifecycle =
  fixes moves :: "'s \<Rightarrow> 's \<Rightarrow> bool"
    and rank :: "'s \<Rightarrow> nat"
    and top_rank :: nat
  assumes move_rank: "moves s t \<Longrightarrow> rank s < rank t"
    and rank_top: "moves s t \<Longrightarrow> rank t \<le> top_rank"
begin

lemma chain_rank: "(moves ^^ n) s t \<Longrightarrow> rank s + n \<le> rank t"
proof (induction n arbitrary: t)
  case (Suc n)
  from Suc.prems obtain u where "(moves ^^ n) s u" and "moves u t" by auto
  with Suc.IH move_rank show ?case by fastforce
qed simp

lemma chain_bounded: "(moves ^^ n) s t \<Longrightarrow> n \<le> top_rank - rank s"
proof (cases n)
  case (Suc m)
  assume c: "(moves ^^ n) s t"
  with Suc obtain u where "moves u t" by auto
  with rank_top chain_rank [OF c] show ?thesis by fastforce
qed simp

lemma top_is_final: "top_rank \<le> rank s \<Longrightarrow> \<not> moves s t"
  using move_rank rank_top by fastforce

end

end
