(* ===== verification/Canonical_Json.thy ===== *)
theory Canonical_Json
  imports Prelude
begin

text \<open>
  The canonical JSON text that every digest of the program is computed over:
  \<open>json.dumps(value, ensure_ascii=False, sort_keys=True, separators=(",", ":"))\<close>.
  Object members are sorted by key, strings are escaped as CPython's encoder does, numbers
  are integers or the decimal texts \<open>repr\<close> gives a float. The section ends with unique
  decodability: two values with the same text have the same sorted form.
\<close>

section \<open>Values and their text\<close>

text \<open>
  The text of a non-negative float: \<open>Fixed i z v\<close> is \<open>i\<close>, a point, \<open>z\<close> zeros and the numeral \<open>v\<close>;
  \<open>Scaled i f e\<close> has an optional fraction of that kind and the exponent \<open>-e\<close>.
\<close>

datatype real_text = Fixed nat nat nat | Scaled nat "(nat \<times> nat) option" nat

datatype json =
    JNull
  | JBool bool
  | JInt int
  | JReal real_text
  | JStr string
  | JArr "json list"
  | JObj "(string \<times> json) list"

definition hex_digit :: "nat \<Rightarrow> char" where
  "hex_digit n = hex_chars ! n"

definition code_of :: "char \<Rightarrow> nat" where
  "code_of c = of_char c"

text \<open>One character: the two-character escapes, \<open>\uXXXX\<close> for the other controls.\<close>

definition escape_char :: "char \<Rightarrow> string" where
  "escape_char c =
     (if c = CHR 0x22 then [CHR 0x5C, CHR 0x22]
      else if c = CHR 0x5C then [CHR 0x5C, CHR 0x5C]
      else if c = CHR 0x0A then [CHR 0x5C, CHR ''n'']
      else if c = CHR 0x0D then [CHR 0x5C, CHR ''r'']
      else if c = CHR 0x09 then [CHR 0x5C, CHR ''t'']
      else if c = CHR 0x0C then [CHR 0x5C, CHR ''f'']
      else if c = CHR 0x08 then [CHR 0x5C, CHR ''b'']
      else if code_of c < 32 then
        [CHR 0x5C, CHR ''u'', CHR ''0'', CHR ''0'', hex_digit (code_of c div 16),
         hex_digit (code_of c mod 16)]
      else [c])"

definition json_string :: "string \<Rightarrow> string" where
  "json_string s = CHR 0x22 # concat (map escape_char s) @ [CHR 0x22]"

definition dec_digit :: "nat \<Rightarrow> char" where
  "dec_digit n = ''0123456789'' ! n"

fun dec_nat :: "nat \<Rightarrow> string" where
  "dec_nat n = (if n < 10 then [dec_digit n] else dec_nat (n div 10) @ [dec_digit (n mod 10)])"

declare dec_nat.simps [simp del]

definition dec_int :: "int \<Rightarrow> string" where
  "dec_int i = (if i < 0 then CHR ''-'' # dec_nat (nat (- i)) else dec_nat (nat i))"

fun fraction_text :: "(nat \<times> nat) option \<Rightarrow> string" where
  "fraction_text None = []"
| "fraction_text (Some (z, v)) = CHR ''.'' # replicate z CHR ''0'' @ dec_nat v"

definition two_digits :: "nat \<Rightarrow> string" where
  "two_digits n = (if n < 10 then CHR ''0'' # dec_nat n else dec_nat n)"

fun real_string :: "real_text \<Rightarrow> string" where
  "real_string (Fixed i z v) = dec_nat i @ fraction_text (Some (z, v))"
| "real_string (Scaled i f e) = dec_nat i @ fraction_text f @ ''e-'' @ two_digits e"

fun join_comma :: "string list \<Rightarrow> string" where
  "join_comma [] = []"
| "join_comma [x] = x"
| "join_comma (x # y # zs) = x @ CHR '','' # join_comma (y # zs)"

text \<open>Recursive sorting of object members by key (\<open>sort_keys=True\<close>).\<close>

fun sort_keys :: "json \<Rightarrow> json" where
  "sort_keys (JArr xs) = JArr (map sort_keys xs)"
| "sort_keys (JObj kvs) = JObj (sort_key fst (map (\<lambda>(k, v). (k, sort_keys v)) kvs))"
| "sort_keys j = j"

text \<open>The text of a value in the order its members have.\<close>

fun plain :: "json \<Rightarrow> string" where
  "plain JNull = ''null''"
| "plain (JBool b) = (if b then ''true'' else ''false'')"
| "plain (JInt i) = dec_int i"
| "plain (JReal x) = real_string x"
| "plain (JStr s) = json_string s"
| "plain (JArr xs) = CHR ''['' # join_comma (map plain xs) @ '']''"
| "plain (JObj kvs) =
     CHR ''{'' # join_comma (map (\<lambda>(k, v). json_string k @ CHR '':'' # plain v) kvs) @ ''}''"

definition dumps :: "json \<Rightarrow> string" where
  "dumps j = plain (sort_keys j)"

definition json_opt :: "('a \<Rightarrow> json) \<Rightarrow> 'a option \<Rightarrow> json" where
  "json_opt f v = (case v of None \<Rightarrow> JNull | Some x \<Rightarrow> f x)"


section \<open>Unique decodability\<close>

lemma code_of_eq_iff [simp]: "code_of c = code_of d \<longleftrightarrow> c = d"
  by (simp add: code_of_def)

lemma code_of_less: "code_of c < 256"
  by (simp add: code_of_def)

lemma hex_digit_eq_iff: "m < 16 \<Longrightarrow> n < 16 \<Longrightarrow> hex_digit m = hex_digit n \<longleftrightarrow> m = n"
  unfolding hex_digit_def by (subst nth_eq_iff_index_eq) (auto simp: hex_chars_def)

lemma control_escape_inj:
  assumes "code_of c < 32" and "code_of d < 32"
    and "hex_digit (code_of c div 16) = hex_digit (code_of d div 16)"
    and "hex_digit (code_of c mod 16) = hex_digit (code_of d mod 16)"
  shows "c = d"
proof -
  have "code_of c div 16 = code_of d div 16" and "code_of c mod 16 = code_of d mod 16"
    using assms by (simp_all add: hex_digit_eq_iff)
  then have "code_of c = code_of d" by (metis div_mult_mod_eq)
  then show ?thesis by simp
qed

lemma escape_char_prefix: "escape_char c @ r = escape_char d @ s \<Longrightarrow> c = d \<and> r = s"
  unfolding escape_char_def
  by (auto split: if_splits dest: control_escape_inj)

lemma escape_char_nonquote: "escape_char c @ r \<noteq> CHR 0x22 # s"
  by (auto simp: escape_char_def)

lemma escaped_prefix:
  "concat (map escape_char s) @ CHR 0x22 # r = concat (map escape_char t) @ CHR 0x22 # r'
     \<Longrightarrow> s = t \<and> r = r'"
proof (induction s arbitrary: t)
  case Nil
  then show ?case by (cases t) (auto dest: escape_char_nonquote [THEN notE, OF sym])
next
  case (Cons c s)
  show ?case
  proof (cases t)
    case Nil
    with Cons.prems escape_char_nonquote show ?thesis by auto
  next
    case t: (Cons d t')
    with Cons.prems have eq: "escape_char c @ concat (map escape_char s) @ CHR 0x22 # r =
        escape_char d @ concat (map escape_char t') @ CHR 0x22 # r'" by simp
    from escape_char_prefix [OF eq] Cons.IH [of t'] t show ?thesis by simp
  qed
qed

lemma json_string_prefix: "json_string s @ r = json_string t @ r' \<Longrightarrow> s = t \<and> r = r'"
  by (auto simp: json_string_def dest: escaped_prefix)

text \<open>Decimal numerals read back to the number, and consist of digits only.\<close>

definition digit_val :: "char \<Rightarrow> nat" where
  "digit_val c = code_of c - 48"

definition dec_val :: "string \<Rightarrow> nat" where
  "dec_val s = foldl (\<lambda>a c. 10 * a + digit_val c) 0 s"

definition is_digit :: "char \<Rightarrow> bool" where
  "is_digit c \<longleftrightarrow> c \<in> set ''0123456789''"

lemma dec_digit_val: "n < 10 \<Longrightarrow> digit_val (dec_digit n) = n \<and> is_digit (dec_digit n)"
proof -
  assume "n < 10"
  then have "n \<in> set [0..<10]" by simp
  also have "[0..<10] = [0, 1, 2, 3, 4, 5, 6, 7, 8, 9]" by code_simp
  finally show ?thesis
    by (auto simp: digit_val_def dec_digit_def code_of_def is_digit_def)
qed

lemma dec_nat_digits: "list_all is_digit (dec_nat n) \<and> dec_nat n \<noteq> []"
proof (induction n rule: dec_nat.induct)
  case (1 n)
  then show ?case
    by (subst (1 2) dec_nat.simps) (auto simp: dec_digit_val)
qed

lemma dec_val_dec_nat: "dec_val (dec_nat n) = n"
proof (induction n rule: dec_nat.induct)
  case (1 n)
  show ?case
  proof (cases "n < 10")
    case True
    then show ?thesis by (subst dec_nat.simps) (simp add: dec_val_def dec_digit_val)
  next
    case False
    with 1 have "dec_val (dec_nat (n div 10)) = n div 10" by simp
    with False show ?thesis
      by (subst dec_nat.simps) (simp add: dec_val_def dec_digit_val)
  qed
qed

text \<open>What may follow a value: the end of the text or a closing or separating character.\<close>

definition delimited :: "string \<Rightarrow> bool" where
  "delimited r \<longleftrightarrow> r = [] \<or> hd r \<in> {CHR '','', CHR '']'', CHR ''}''}"

lemma delimited_Nil [simp]: "delimited []"
  by (simp add: delimited_def)

lemma delimited_Cons [simp]: "delimited (c # r) \<longleftrightarrow> c \<in> {CHR '','', CHR '']'', CHR ''}''}"
  by (simp add: delimited_def)

lemma delimited_not_digit: "delimited r \<Longrightarrow> r = [] \<or> \<not> is_digit (hd r)"
  by (cases r) (auto simp: is_digit_def)

lemma digits_prefix:
  assumes "list_all is_digit xs" and "list_all is_digit ys"
    and "delimited r" and "delimited r'" and "xs @ r = ys @ r'"
  shows "xs = ys \<and> r = r'"
proof -
  have take_digits: "takeWhile is_digit (zs @ q) = zs" if "list_all is_digit zs" "delimited q" for zs q
    using that delimited_not_digit [of q]
    by (cases q) (auto simp: takeWhile_append list_all_iff)
  from take_digits [OF assms(1,3)] take_digits [OF assms(2,4)] assms(5) show ?thesis by simp
qed

lemma digit_not_minus: "is_digit c \<Longrightarrow> c \<noteq> CHR ''-''"
  by (auto simp: is_digit_def)

lemma dec_nat_no_minus: "dec_nat n @ r \<noteq> CHR ''-'' # s"
  using dec_nat_digits [of n] digit_not_minus by (cases "dec_nat n") auto

lemma dec_nat_prefix:
  assumes "delimited r" and "delimited r'" and "dec_nat m @ r = dec_nat n @ r'"
  shows "m = n \<and> r = r'"
proof -
  have "dec_nat m = dec_nat n \<and> r = r'"
    using digits_prefix [OF _ _ assms] dec_nat_digits by simp
  then show ?thesis by (metis dec_val_dec_nat)
qed

lemma dec_int_prefix:
  assumes "delimited r" and "delimited r'" and eq: "dec_int i @ r = dec_int j @ r'"
  shows "i = j \<and> r = r'"
proof (cases "i < 0"; cases "j < 0")
  assume "i < 0" "j < 0"
  with eq have "dec_nat (nat (- i)) @ r = dec_nat (nat (- j)) @ r'" by (simp add: dec_int_def)
  from dec_nat_prefix [OF assms(1,2) this] \<open>i < 0\<close> \<open>j < 0\<close> show ?thesis by linarith
next
  assume "i < 0" "\<not> j < 0"
  with eq have "dec_nat (nat j) @ r' = CHR ''-'' # dec_nat (nat (- i)) @ r" by (simp add: dec_int_def)
  with dec_nat_no_minus show ?thesis by blast
next
  assume "\<not> i < 0" "j < 0"
  with eq have "dec_nat (nat i) @ r = CHR ''-'' # dec_nat (nat (- j)) @ r'" by (simp add: dec_int_def)
  with dec_nat_no_minus show ?thesis by blast
next
  assume "\<not> i < 0" "\<not> j < 0"
  with eq have "dec_nat (nat i) @ r = dec_nat (nat j) @ r'" by (simp add: dec_int_def)
  from dec_nat_prefix [OF assms(1,2) this] \<open>\<not> i < 0\<close> \<open>\<not> j < 0\<close> show ?thesis by linarith
qed

text \<open>The texts of floats: the digits up to a point, the fraction, the exponent.\<close>

lemma digit_span:
  assumes "list_all is_digit xs" and "list_all is_digit ys"
    and "q = [] \<or> \<not> is_digit (hd q)" and "q' = [] \<or> \<not> is_digit (hd q')" and "xs @ q = ys @ q'"
  shows "xs = ys \<and> q = q'"
proof -
  have take_digits: "takeWhile is_digit (zs @ p) = zs"
    if "list_all is_digit zs" "p = [] \<or> \<not> is_digit (hd p)" for zs p
    using that by (cases p) (auto simp: takeWhile_append list_all_iff)
  from take_digits [OF assms(1,3)] take_digits [OF assms(2,4)] assms(5) show ?thesis by simp
qed

lemma dec_nat_span:
  assumes "q = [] \<or> \<not> is_digit (hd q)" and "q' = [] \<or> \<not> is_digit (hd q')" and "dec_nat m @ q = dec_nat n @ q'"
  shows "m = n \<and> q = q'"
proof -
  have "dec_nat m = dec_nat n \<and> q = q'"
    using digit_span [OF _ _ assms] dec_nat_digits by simp
  then show ?thesis by (metis dec_val_dec_nat)
qed

lemma zero_digit: "is_digit CHR ''0''" "digit_val CHR ''0'' = 0"
  by (simp_all add: is_digit_def digit_val_def code_of_def)

lemma marks_not_digits [simp]: "\<not> is_digit CHR ''.''" "\<not> is_digit CHR ''e''"
  by (simp_all add: is_digit_def)

lemma dec_val_padded: "dec_val (replicate z CHR ''0'' @ s) = dec_val s"
  by (induction z) (simp_all add: dec_val_def zero_digit)

lemma zeros_digits: "list_all is_digit (replicate z CHR ''0'' @ dec_nat v)"
  using dec_nat_digits [of v] zero_digit(1) by (induction z) auto

lemma zeros_inj:
  assumes "replicate z CHR ''0'' @ dec_nat v = replicate z' CHR ''0'' @ dec_nat v'"
  shows "z = z' \<and> v = v'"
proof -
  from arg_cong [OF assms, of dec_val] have v: "v = v'" by (simp only: dec_val_padded dec_val_dec_nat)
  from arg_cong [OF assms, of length] show ?thesis by (simp add: v)
qed

lemma two_digits_digits: "list_all is_digit (two_digits n)"
  using dec_nat_digits [of n] zero_digit(1) by (auto simp: two_digits_def)

lemma dec_val_two_digits: "dec_val (two_digits n) = n"
  using dec_val_padded [of 1 "dec_nat n"] by (simp add: two_digits_def dec_val_dec_nat)

lemma two_digits_prefix:
  assumes "delimited r" and "delimited r'" and "two_digits m @ r = two_digits n @ r'"
  shows "m = n \<and> r = r'"
  using digits_prefix [OF two_digits_digits two_digits_digits assms] by (metis dec_val_two_digits)

lemma fraction_prefix:
  assumes f: "fraction_text f @ q = fraction_text g @ q'"
    and q: "q = [] \<or> \<not> is_digit (hd q)" "q' = [] \<or> \<not> is_digit (hd q')"
    and dot: "take 1 q \<noteq> ''.''" "take 1 q' \<noteq> ''.''"
  shows "f = g \<and> q = q'"
proof (cases f; cases g)
  fix a b
  assume fg: "f = Some a" "g = Some b"
  obtain z v z' v' where ab: "a = (z, v)" "b = (z', v')" by fastforce
  from f fg ab have "(replicate z CHR ''0'' @ dec_nat v) @ q = (replicate z' CHR ''0'' @ dec_nat v') @ q'"
    by simp
  from digit_span [OF zeros_digits zeros_digits q this] zeros_inj fg ab show ?thesis by blast
next
  fix b
  assume fg: "f = None" "g = Some b"
  obtain z v where "b = (z, v)" by fastforce
  with f fg dot show ?thesis by auto
next
  fix a
  assume fg: "f = Some a" "g = None"
  obtain z v where "a = (z, v)" by fastforce
  with f fg dot show ?thesis by auto
qed (use f in auto)

fun real_parts :: "real_text \<Rightarrow> nat \<times> (nat \<times> nat) option \<times> nat option" where
  "real_parts (Fixed i z v) = (i, Some (z, v), None)"
| "real_parts (Scaled i f e) = (i, f, Some e)"

definition exponent_text :: "nat option \<Rightarrow> string" where
  "exponent_text e = (case e of None \<Rightarrow> [] | Some n \<Rightarrow> ''e-'' @ two_digits n)"

lemma real_string_parts:
  "real_string x = (case real_parts x of (i, f, e) \<Rightarrow> dec_nat i @ fraction_text f @ exponent_text e)"
  by (cases x) (auto simp: exponent_text_def)

lemma real_parts_inj: "real_parts x = real_parts y \<longleftrightarrow> x = y"
  by (cases x; cases y) auto

lemma fraction_start: "fraction_text f @ q = [] \<or> \<not> is_digit (hd (fraction_text f @ q))"
  if "q = [] \<or> \<not> is_digit (hd q)"
  using that by (cases f) auto

lemma exponent_start:
  "delimited r \<Longrightarrow> exponent_text e @ r = [] \<or> \<not> is_digit (hd (exponent_text e @ r))"
  "delimited r \<Longrightarrow> take 1 (exponent_text e @ r) \<noteq> ''.''"
  using delimited_not_digit [of r] by (cases r; auto simp: exponent_text_def split: option.splits)+

lemma exponent_prefix:
  assumes "delimited r" and "delimited r'" and "exponent_text e @ r = exponent_text e' @ r'"
  shows "e = e' \<and> r = r'"
proof -
  have start: "q \<noteq> CHR ''e'' # s" if "delimited q" for q s
    using that by (cases q) auto
  show ?thesis
  proof (cases e; cases e')
    fix m n
    assume "e = Some m" "e' = Some n"
    with assms(3) have "two_digits m @ r = two_digits n @ r'" by (simp add: exponent_text_def)
    from two_digits_prefix [OF assms(1,2) this] \<open>e = Some m\<close> \<open>e' = Some n\<close> show ?thesis by simp
  qed (use assms(3) start [OF assms(1)] start [OF assms(2)] in
      \<open>simp_all add: exponent_text_def, metis\<close>)
qed

lemma real_string_prefix:
  assumes d: "delimited r" "delimited r'" and eq: "real_string x @ r = real_string y @ r'"
  shows "x = y \<and> r = r'"
proof -
  obtain i f e where x: "real_parts x = (i, f, e)" by (cases "real_parts x")
  obtain i' f' e' where y: "real_parts y = (i', f', e')" by (cases "real_parts y")
  note stop = exponent_start(1) [OF d(1), of e] exponent_start(1) [OF d(2), of e']
  from eq x y have "dec_nat i @ fraction_text f @ exponent_text e @ r =
      dec_nat i' @ fraction_text f' @ exponent_text e' @ r'" by (simp add: real_string_parts)
  note int = dec_nat_span [OF fraction_start [OF stop(1)] fraction_start [OF stop(2)] this]
  have i: "i = i'" using int by (rule conjunct1)
  have fs: "fraction_text f @ exponent_text e @ r = fraction_text f' @ exponent_text e' @ r'"
    using int by (rule conjunct2)
  note frac = fraction_prefix [OF fs stop exponent_start(2) [OF d(1)] exponent_start(2) [OF d(2)]]
  have f: "f = f'" using frac by (rule conjunct1)
  have es: "exponent_text e @ r = exponent_text e' @ r'" using frac by (rule conjunct2)
  note exps = exponent_prefix [OF d es]
  have "real_parts x = real_parts y" by (simp only: x y i f exps)
  then show ?thesis using exps by (simp add: real_parts_inj)
qed

lemma real_not_int:
  assumes d: "delimited r" "delimited r'"
  shows "real_string x @ r \<noteq> dec_int n @ r'"
proof
  assume eq: "real_string x @ r = dec_int n @ r'"
  obtain i f e where x: "real_parts x = (i, f, e)" by (cases "real_parts x")
  have fe: "f \<noteq> None \<or> e \<noteq> None" using x by (cases x) auto
  from eq x have eq': "dec_nat i @ fraction_text f @ exponent_text e @ r = dec_int n @ r'"
    by (simp add: real_string_parts)
  have pos: "\<not> n < 0" using eq' dec_nat_no_minus by (auto simp: dec_int_def)
  then have eq'': "dec_nat i @ fraction_text f @ exponent_text e @ r = dec_nat (nat n) @ r'"
    using eq' by (simp add: dec_int_def)
  have "fraction_text f @ exponent_text e @ r = r'"
    using dec_nat_span [OF fraction_start [OF exponent_start(1) [OF d(1)]] delimited_not_digit [OF d(2)] eq'']
    by simp
  with fe d(2) show False by (cases f; cases e) (auto simp: exponent_text_def)
qed

text \<open>Comma-separated items: if each item's text can be told from what follows, so can the list.\<close>

definition comma_tail :: "string list \<Rightarrow> string" where
  "comma_tail xs = (if xs = [] then [] else CHR '','' # join_comma xs)"

lemma join_comma_Cons: "join_comma (x # xs) = x @ comma_tail xs"
  by (cases xs) (auto simp: comma_tail_def)

lemma join_comma_prefix:
  assumes item: "\<And>x y r r'. x \<in> set xs \<Longrightarrow> delimited r \<Longrightarrow> delimited r' \<Longrightarrow> f x @ r = f y @ r'
      \<Longrightarrow> x = y \<and> r = r'"
    and start: "\<And>y. f y \<noteq> [] \<and> \<not> delimited (f y)"
    and close: "close = CHR '']'' \<or> close = CHR ''}''"
    and eq: "join_comma (map f xs) @ close # r = join_comma (map f ys) @ close # r'"
  shows "xs = ys \<and> r = r'"
  using item eq
proof (induction xs arbitrary: ys)
  case Nil
  show ?case
  proof (cases ys)
    case Nil
    with Nil.prems show ?thesis by simp
  next
    case (Cons y ys')
    with Nil.prems(2) have "close # r = f y @ comma_tail (map f ys') @ close # r'"
      by (simp add: join_comma_Cons)
    with start [of y] close show ?thesis by (cases "f y") auto
  qed
next
  case (Cons x xs)
  have delim: "delimited (comma_tail zs @ close # q)" for zs q
    using close by (auto simp: comma_tail_def)
  show ?case
  proof (cases ys)
    case Nil
    with Cons.prems(2) have "close # r' = f x @ comma_tail (map f xs) @ close # r"
      by (simp add: join_comma_Cons)
    with start [of x] close show ?thesis by (cases "f x") auto
  next
    case ys: (Cons y ys')
    with Cons.prems(2) have "f x @ comma_tail (map f xs) @ close # r =
        f y @ comma_tail (map f ys') @ close # r'" by (simp add: join_comma_Cons)
    then have "x = y \<and> comma_tail (map f xs) @ close # r = comma_tail (map f ys') @ close # r'"
      by (intro Cons.prems(1)) (auto intro: delim)
    then have xy: "x = y" and tails: "comma_tail (map f xs) @ close # r =
        comma_tail (map f ys') @ close # r'" by auto
    have "xs = ys' \<and> r = r'"
    proof (cases "xs = [] \<or> ys' = []")
      case True
      with tails close show ?thesis by (auto simp: comma_tail_def split: if_splits)
    next
      case False
      with tails have "join_comma (map f xs) @ close # r = join_comma (map f ys') @ close # r'"
        by (simp add: comma_tail_def)
      from Cons.IH [OF _ this] Cons.prems(1) show ?thesis by (meson list.set_intros(2))
    qed
    with xy ys show ?thesis by simp
  qed
qed

lemma plain_start: "plain j \<noteq> [] \<and> \<not> delimited (plain j)"
proof (cases j)
  case (JInt i)
  have "dec_int i \<noteq> []" using dec_nat_digits by (simp add: dec_int_def)
  moreover have "\<not> delimited (dec_nat n)" for n
    using dec_nat_digits [of n] delimited_not_digit [of "dec_nat n"] by (cases "dec_nat n") auto
  ultimately show ?thesis using JInt by (simp add: dec_int_def)
next
  case (JReal x)
  have "\<not> delimited (dec_nat n @ s) \<and> dec_nat n @ s \<noteq> []" for n s
    using dec_nat_digits [of n] delimited_not_digit [of "dec_nat n"] by (cases "dec_nat n") auto
  with JReal show ?thesis by (cases x) auto
qed (auto simp: json_string_def)

text \<open>The first character tells the kind of value.\<close>

definition kind_char :: "json \<Rightarrow> char" where
  "kind_char j = hd (plain j)"

lemma kind_char_Int: "kind_char (JInt i) = CHR ''-'' \<or> is_digit (kind_char (JInt i))"
  using dec_nat_digits [of "nat i"]
  by (cases "dec_nat (nat i)") (auto simp: kind_char_def dec_int_def)

lemma kind_char_Real: "is_digit (kind_char (JReal x))"
proof -
  have "is_digit (hd (dec_nat n @ s))" for n s
    using dec_nat_digits [of n] by (cases "dec_nat n") auto
  then show ?thesis by (cases x) (auto simp: kind_char_def)
qed

lemma kind_char_simps:
  "kind_char JNull = CHR ''n''" "kind_char (JBool True) = CHR ''t''"
  "kind_char (JBool False) = CHR ''f''" "kind_char (JStr s) = CHR 0x22"
  "kind_char (JArr xs) = CHR ''[''" "kind_char (JObj kvs) = CHR ''{''"
  by (auto simp: kind_char_def json_string_def)

lemma kind_char_eq:
  assumes "plain i @ r = plain j @ r'"
  shows "kind_char i = kind_char j"
  using assms plain_start [of i] plain_start [of j]
  by (cases "plain i"; cases "plain j") (auto simp: kind_char_def)

definition decodable :: "json \<Rightarrow> bool" where
  "decodable i \<longleftrightarrow> (\<forall>j r r'. delimited r \<longrightarrow> delimited r' \<longrightarrow> plain i @ r = plain j @ r'
     \<longrightarrow> i = j \<and> r = r')"

lemma decodableD:
  "decodable i \<Longrightarrow> delimited r \<Longrightarrow> delimited r' \<Longrightarrow> plain i @ r = plain j @ r' \<Longrightarrow> i = j \<and> r = r'"
  unfolding decodable_def by blast

fun kind :: "json \<Rightarrow> nat" where
  "kind JNull = 0"
| "kind (JBool b) = (if b then 1 else 2)"
| "kind (JInt _) = 3"
| "kind (JReal _) = 3"
| "kind (JStr _) = 4"
| "kind (JArr _) = 5"
| "kind (JObj _) = 6"

definition kind_of_char :: "char \<Rightarrow> nat" where
  "kind_of_char c =
     (if c = CHR ''n'' then 0 else if c = CHR ''t'' then 1 else if c = CHR ''f'' then 2
      else if c = CHR 0x22 then 4 else if c = CHR ''['' then 5 else if c = CHR ''{'' then 6 else 3)"

lemma kind_of_kind_char: "kind_of_char (kind_char j) = kind j"
proof (cases j)
  case (JInt n)
  have "kind_char (JInt n) \<in> set ''-0123456789''"
    using kind_char_Int [of n] by (auto simp: is_digit_def)
  with JInt show ?thesis by (auto simp: kind_of_char_def)
next
  case (JReal x)
  have "kind_char (JReal x) \<in> set ''0123456789''"
    using kind_char_Real [of x] by (simp add: is_digit_def)
  with JReal show ?thesis by (auto simp: kind_of_char_def)
next
  case (JBool b)
  then show ?thesis by (cases b) (simp_all add: kind_char_simps kind_of_char_def)
qed (simp_all add: kind_char_simps kind_of_char_def)

lemma same_kind: "plain i @ r = plain j @ r' \<Longrightarrow> kind i = kind j"
  by (metis kind_char_eq kind_of_kind_char)

lemma plain_decodable: "decodable i"
proof (induction i)
  case (JArr xs)
  show ?case
    unfolding decodable_def
  proof (intro allI impI)
    fix j r r'
    assume eq: "plain (JArr xs) @ r = plain j @ r'"
    from same_kind [OF eq] obtain ys where j: "j = JArr ys" by (cases j) (auto split: if_splits)
    with eq have "join_comma (map plain xs) @ CHR '']'' # r = join_comma (map plain ys) @ CHR '']'' # r'"
      by simp
    then have "xs = ys \<and> r = r'"
      by (intro join_comma_prefix [where f = plain and close = "CHR '']''"])
        (use JArr decodableD plain_start in \<open>blast+\<close>)
    with j show "JArr xs = j \<and> r = r'" by simp
  qed
next
  case (JObj kvs)
  let ?f = "\<lambda>(k, v). json_string k @ CHR '':'' # plain v"
  have item: "x = y \<and> q = q'"
    if x: "x \<in> set kvs" and d: "delimited q" "delimited q'" and e: "?f x @ q = ?f y @ q'"
    for x y q q'
  proof -
    obtain k v k' v' where xy: "x = (k, v)" "y = (k', v')" by fastforce
    with e have "json_string k @ CHR '':'' # plain v @ q = json_string k' @ CHR '':'' # plain v' @ q'"
      by simp
    then have k: "k = k'" and v: "plain v @ q = plain v' @ q'"
      by (auto dest: json_string_prefix)
    have "decodable v" using JObj [of x v] x xy by (auto simp: snds.simps)
    from decodableD [OF this d v] k xy show ?thesis by simp
  qed
  show ?case
    unfolding decodable_def
  proof (intro allI impI)
    fix j r r'
    assume eq: "plain (JObj kvs) @ r = plain j @ r'"
    from same_kind [OF eq] obtain ys where j: "j = JObj ys" by (cases j) (auto split: if_splits)
    with eq have e: "join_comma (map ?f kvs) @ CHR ''}'' # r = join_comma (map ?f ys) @ CHR ''}'' # r'"
      by simp
    have "kvs = ys \<and> r = r'"
      by (rule join_comma_prefix [where f = ?f and close = "CHR ''}''", OF item _ _ e])
        (auto simp: json_string_def)
    with j show "JObj kvs = j \<and> r = r'" by simp
  qed
next
  case (JInt n)
  have "i = j \<and> r = r'" if i: "i = JInt n" and d: "delimited r" "delimited r'" and e: "plain i @ r = plain j @ r'"
    for i j r r'
  proof -
    from same_kind [OF e] i e real_not_int [OF d(2,1), THEN not_sym] obtain m where j: "j = JInt m"
      by (cases j) (auto split: if_splits)
    with e i have "dec_int n @ r = dec_int m @ r'" by simp
    from dec_int_prefix [OF d this] i j show ?thesis by simp
  qed
  then show ?case unfolding decodable_def by blast
next
  case (JReal x)
  have "i = j \<and> r = r'" if i: "i = JReal x" and d: "delimited r" "delimited r'" and e: "plain i @ r = plain j @ r'"
    for i j r r'
  proof -
    from same_kind [OF e] i e real_not_int [OF d] obtain y where j: "j = JReal y"
      by (cases j) (auto split: if_splits)
    with e i have "real_string x @ r = real_string y @ r'" by simp
    from real_string_prefix [OF d this] i j show ?thesis by simp
  qed
  then show ?case unfolding decodable_def by blast
next
  case (JStr s)
  have "i = j \<and> r = r'" if i: "i = JStr s" and e: "plain i @ r = plain j @ r'" for i j r r'
  proof -
    from same_kind [OF e] i obtain t where j: "j = JStr t" by (cases j) (auto split: if_splits)
    with e i have "json_string s @ r = json_string t @ r'" by simp
    from json_string_prefix [OF this] i j show ?thesis by simp
  qed
  then show ?case unfolding decodable_def by blast
next
  case JNull
  have "JNull = j \<and> r = r'" if e: "plain JNull @ r = plain j @ r'" for j r r'
    using same_kind [OF e] e by (cases j) (auto split: if_splits)
  then show ?case unfolding decodable_def by blast
next
  case (JBool b)
  have "JBool b = j \<and> r = r'" if e: "plain (JBool b) @ r = plain j @ r'" for j r r'
    using same_kind [OF e] e by (cases j) (auto split: if_splits)
  then show ?case unfolding decodable_def by blast
qed

lemma plain_inj: "plain i = plain j \<longleftrightarrow> i = j"
  using decodableD [OF plain_decodable, of "[]" "[]" i j] by auto

lemma dumps_eq_iff: "dumps i = dumps j \<longleftrightarrow> sort_keys i = sort_keys j"
  by (simp add: dumps_def plain_inj)

text \<open>Records are objects over one list of member names: their sorted forms agree exactly when
  their members do.\<close>

lemma alist_from_lookup:
  "distinct (map fst xs) \<Longrightarrow> xs = map (\<lambda>k. (k, the (map_of xs k))) (map fst xs)"
proof (rule nth_equalityI)
  fix i
  assume d: "distinct (map fst xs)" and i: "i < length xs"
  then have "(fst (xs ! i), snd (xs ! i)) \<in> set xs" by simp
  then have "map_of xs (fst (xs ! i)) = Some (snd (xs ! i))" using d by (simp only: map_of_is_SomeI)
  with i show "xs ! i = map (\<lambda>k. (k, the (map_of xs k))) (map fst xs) ! i" by simp
qed simp

lemma sort_keys_record:
  assumes "map fst xs = map fst ys" and "distinct (map fst xs)"
  shows "sort_keys (JObj xs) = sort_keys (JObj ys) \<longleftrightarrow>
    map (\<lambda>(k, v). (k, sort_keys v)) xs = map (\<lambda>(k, v). (k, sort_keys v)) ys"
proof
  let ?f = "map (\<lambda>(k, v). (k, sort_keys v)) :: (string \<times> json) list \<Rightarrow> _"
  have keys: "map fst (?f zs) = map fst zs" for zs by (induction zs) auto
  assume "sort_keys (JObj xs) = sort_keys (JObj ys)"
  then have "set (sort_key fst (?f xs)) = set (sort_key fst (?f ys))" by simp
  then have "set (?f xs) = set (?f ys)" by (simp only: set_sort)
  moreover have d: "distinct (map fst (?f xs))" "distinct (map fst (?f ys))"
    using assms by (simp_all only: keys)
  ultimately have "map_of (?f xs) = map_of (?f ys)" by (simp only: map_of_inject_set)
  then show "?f xs = ?f ys"
    using alist_from_lookup [OF d(1)] alist_from_lookup [OF d(2)] assms(1) by (simp only: keys)
qed simp

lemma sort_keys_arr: "sort_keys (JArr xs) = sort_keys (JArr ys) \<longleftrightarrow> map sort_keys xs = map sort_keys ys"
  by simp

lemma sort_keys_opt:
  assumes "\<And>x y. sort_keys (f x) = sort_keys (f y) \<longleftrightarrow> x = y" and "\<And>x. sort_keys (f x) \<noteq> JNull"
  shows "sort_keys (json_opt f u) = sort_keys (json_opt f v) \<longleftrightarrow> u = v"
  using assms assms(2) [symmetric] by (cases u; cases v) (simp_all add: json_opt_def)

end
