(* ===== verification/Usage_Ledger.thy ===== *)
theory Usage_Ledger
  imports Interfaces Canonical_Json
begin

text \<open>
  \<open>src/search_v2/usage_ledger.py\<close>: usage policies and reservations, the in-memory ledger that
  reserves, starts, finishes and releases provider usage under per-user-day, per-session and
  global-day limits, and the snapshots it is saved to and restored from.
\<close>

section \<open>Data\<close>

datatype provider = Bonsai | Cloudflare | Outscraper

datatype usage_operation =
    Op_intent | Op_image_set | Op_reference_image | Op_counterfactual_images
  | Op_counterfactual_reference_set | Op_product_search

datatype reservation_status = Reserved | Started | Succeeded | Failed | Released

datatype quota_enforcement = Enforced | Disabled

fun provider_name :: "provider \<Rightarrow> string" where
  "provider_name Bonsai = ''bonsai''"
| "provider_name Cloudflare = ''cloudflare''"
| "provider_name Outscraper = ''outscraper''"

fun quota_name :: "quota_enforcement \<Rightarrow> string" where
  "quota_name Enforced = ''enforced''"
| "quota_name Disabled = ''disabled''"

text \<open>Providers are ordered as their names are.\<close>

instantiation provider :: linorder
begin

definition less_eq_provider :: "provider \<Rightarrow> provider \<Rightarrow> bool" where
  "less_eq_provider p q \<longleftrightarrow> provider_name p \<le> provider_name q"

definition less_provider :: "provider \<Rightarrow> provider \<Rightarrow> bool" where
  "less_provider p q \<longleftrightarrow> provider_name p < provider_name q"

instance
proof
  fix p q r :: provider
  show "p < q \<longleftrightarrow> p \<le> q \<and> \<not> q \<le> p"
    unfolding less_eq_provider_def less_provider_def by (rule less_le_not_le)
  show "p \<le> p" unfolding less_eq_provider_def by (rule order_refl)
  show "p \<le> q \<Longrightarrow> q \<le> r \<Longrightarrow> p \<le> r"
    unfolding less_eq_provider_def by (rule order_trans)
  show "p \<le> q \<or> q \<le> p" unfolding less_eq_provider_def by (rule linear)
  assume "p \<le> q" and "q \<le> p"
  then have "provider_name p = provider_name q"
    unfolding less_eq_provider_def by (rule antisym)
  then show "p = q" by (cases p; cases q) simp_all
qed

end

definition max_ledger_reservations :: nat where "max_ledger_reservations = 10000"
definition max_usage_calls :: int where "max_usage_calls = 1000000"
definition max_usage_tokens :: int where "max_usage_tokens = 1000000000000"
definition max_usage_cost_microusd :: int where "max_usage_cost_microusd = 1000000000000000"

record usage_amount =
  calls :: int
  tokens :: int
  cost_microusd :: int

definition is_zero :: "usage_amount \<Rightarrow> bool" where
  "is_zero a \<longleftrightarrow> calls a = 0 \<and> tokens a = 0 \<and> cost_microusd a = 0"

definition amount_ok :: "usage_amount \<Rightarrow> bool" where
  "amount_ok a \<longleftrightarrow> 0 \<le> calls a \<and> calls a \<le> max_usage_calls \<and>
     0 \<le> tokens a \<and> tokens a \<le> max_usage_tokens \<and>
     0 \<le> cost_microusd a \<and> cost_microusd a \<le> max_usage_cost_microusd"

record usage_limits =
  lim_provider :: provider
  lim_pricing_policy :: string
  lim_enforcement :: quota_enforcement
  per_user_day :: usage_amount
  per_session :: usage_amount
  global_day :: usage_amount

definition validate_limits :: "usage_limits \<Rightarrow> unit result" where
  "validate_limits p =
     (if \<not> (is_digest (lim_pricing_policy p) \<and> amount_ok (per_user_day p) \<and>
              amount_ok (per_session p) \<and> amount_ok (global_day p))
      then Inl (ValidationError ''usage limits field'')
      else if lim_enforcement p = Disabled \<and>
              \<not> list_all is_zero [per_user_day p, per_session p, global_day p]
      then Inl (ValidationError ''disabled quota must not contain limit values'')
      else Inr ())"

definition build_no_quota_usage_policies :: "string \<Rightarrow> string \<Rightarrow> string \<Rightarrow> usage_limits list result" where
  "build_no_quota_usage_policies bonsai_pricing cloudflare_pricing outscraper_pricing =
     (let zero = \<lparr>calls = 0, tokens = 0, cost_microusd = 0\<rparr>;
          ps = map (\<lambda>(p, pricing).
                 \<lparr>lim_provider = p, lim_pricing_policy = pricing, lim_enforcement = Disabled,
                  per_user_day = zero, per_session = zero, global_day = zero\<rparr>)
               [(Bonsai, bonsai_pricing), (Cloudflare, cloudflare_pricing),
                (Outscraper, outscraper_pricing)]
      in bind (check_all validate_limits ps) (\<lambda>_. Inr ps))"

subsection \<open>The policy digest\<close>

definition amount_json :: "usage_amount \<Rightarrow> json" where
  "amount_json a = JObj [(''calls'', JInt (calls a)), (''tokens'', JInt (tokens a)),
     (''cost_microusd'', JInt (cost_microusd a))]"

definition limits_json :: "usage_limits \<Rightarrow> json" where
  "limits_json p = JObj
     [(''provider'', JStr (provider_name (lim_provider p))),
      (''pricing_policy_sha256'', JStr (lim_pricing_policy p)),
      (''quota_enforcement'', JStr (quota_name (lim_enforcement p))),
      (''per_user_day'', amount_json (per_user_day p)),
      (''per_session'', amount_json (per_session p)),
      (''global_day'', amount_json (global_day p))]"

text \<open>\<open>H\<close> is \<open>hashlib.sha256(_).hexdigest()\<close>, a parameter of the model.\<close>

definition policy_text :: "usage_limits list \<Rightarrow> string" where
  "policy_text ps = ''amazon-explorer-usage-policy-v2'' @ CHR 0x0A #
     dumps (JArr (map limits_json (sort_key lim_provider ps)))"

definition policy_digest_from_validated :: "(string \<Rightarrow> string) \<Rightarrow> usage_limits list \<Rightarrow> string" where
  "policy_digest_from_validated H ps = H (policy_text ps)"

subsection \<open>Requests and reservations\<close>

record usage_request =
  req_provider :: provider
  req_operation :: usage_operation
  req_owner :: string
  req_session :: string
  req_binding :: string
  req_amount :: usage_amount
  req_pricing_policy :: string

fun operation_provider :: "usage_operation \<Rightarrow> provider" where
  "operation_provider Op_intent = Bonsai"
| "operation_provider Op_image_set = Cloudflare"
| "operation_provider Op_reference_image = Cloudflare"
| "operation_provider Op_counterfactual_images = Cloudflare"
| "operation_provider Op_counterfactual_reference_set = Cloudflare"
| "operation_provider Op_product_search = Outscraper"

definition validate_request :: "usage_request \<Rightarrow> unit result" where
  "validate_request q =
     (if \<not> (is_subject_id (req_owner q) \<and> is_subject_id (req_session q) \<and>
              is_digest (req_binding q) \<and> amount_ok (req_amount q) \<and>
              is_digest (req_pricing_policy q))
      then Inl (ValidationError ''usage request field'')
      else if req_provider q \<noteq> operation_provider (req_operation q)
      then Inl (ValidationError ''usage operation does not match provider'')
      else if is_zero (req_amount q)
      then Inl (ValidationError ''usage reservation must reserve at least one dimension'')
      else Inr ())"

record usage_reservation =
  res_id :: string
  res_request :: usage_request
  res_policy :: string
  res_status :: reservation_status
  reserved_at :: time
  started_at :: "time option"
  finished_at :: "time option"

definition res_provider :: "usage_reservation \<Rightarrow> provider" where
  "res_provider r = req_provider (res_request r)"
definition res_operation :: "usage_reservation \<Rightarrow> usage_operation" where
  "res_operation r = req_operation (res_request r)"
definition res_owner :: "usage_reservation \<Rightarrow> string" where
  "res_owner r = req_owner (res_request r)"
definition res_session :: "usage_reservation \<Rightarrow> string" where
  "res_session r = req_session (res_request r)"
definition res_binding :: "usage_reservation \<Rightarrow> string" where
  "res_binding r = req_binding (res_request r)"
definition res_amount :: "usage_reservation \<Rightarrow> usage_amount" where
  "res_amount r = req_amount (res_request r)"

lemmas res_props = res_provider_def res_operation_def res_owner_def res_session_def
  res_binding_def res_amount_def

text \<open>Which lifecycle timestamps each status requires.\<close>

definition validate_status_times :: "usage_reservation \<Rightarrow> unit result" where
  "validate_status_times r =
     (case res_status r of
        Reserved \<Rightarrow> require (started_at r = None \<and> finished_at r = None)
          (ValidationError ''reserved usage must not have lifecycle timestamps'')
      | Started \<Rightarrow> require (started_at r \<noteq> None \<and> finished_at r = None)
          (ValidationError ''started usage requires only started_at'')
      | Succeeded \<Rightarrow> require (started_at r \<noteq> None \<and> finished_at r \<noteq> None)
          (ValidationError ''finished attempt requires start and finish timestamps'')
      | Failed \<Rightarrow> require (started_at r \<noteq> None \<and> finished_at r \<noteq> None)
          (ValidationError ''finished attempt requires start and finish timestamps'')
      | Released \<Rightarrow> require (started_at r = None \<and> finished_at r \<noteq> None)
          (ValidationError ''released usage requires finish without start''))"

definition validate_lifecycle :: "usage_reservation \<Rightarrow> unit result" where
  "validate_lifecycle r =
     bind (validate_status_times r) (\<lambda>_.
       if (case started_at r of None \<Rightarrow> False | Some s \<Rightarrow> s < reserved_at r)
       then Inl (ValidationError ''usage start precedes reservation'')
       else if (case finished_at r of None \<Rightarrow> False
                | Some f \<Rightarrow> f < (case started_at r of None \<Rightarrow> reserved_at r | Some s \<Rightarrow> s))
       then Inl (ValidationError ''usage finish precedes its prior lifecycle event'')
       else Inr ())"

definition validate_reservation :: "usage_reservation \<Rightarrow> unit result" where
  "validate_reservation r =
     (if \<not> (is_reservation_id (res_id r) \<and> is_digest (res_policy r))
      then Inl (ValidationError ''usage reservation field'')
      else bind (validate_request (res_request r)) (\<lambda>_. validate_lifecycle r))"

section \<open>Snapshots\<close>

record ledger_snapshot =
  snap_policies :: "usage_limits list"
  snap_reservations :: "usage_reservation list"

definition policy_by_provider :: "usage_limits list \<Rightarrow> provider \<Rightarrow> usage_limits option" where
  "policy_by_provider ps = map_of (rev (map (\<lambda>p. (lim_provider p, p)) ps))"

definition validate_snapshot_entry ::
  "(string \<Rightarrow> string) \<Rightarrow> usage_limits list \<Rightarrow> usage_reservation \<Rightarrow> unit result" where
  "validate_snapshot_entry H ps r =
     (case policy_by_provider ps (res_provider r) of
        None \<Rightarrow> Inl (ValidationError ''usage reservation has no provider policy'')
      | Some p \<Rightarrow>
          if req_pricing_policy (res_request r) \<noteq> lim_pricing_policy p
          then Inl (ValidationError ''usage reservation pricing policy does not match'')
          else if res_policy r \<noteq> policy_digest_from_validated H ps
          then Inl (ValidationError ''usage reservation does not match the ledger policy'')
          else Inr ())"

definition validate_snapshot :: "(string \<Rightarrow> string) \<Rightarrow> ledger_snapshot \<Rightarrow> unit result" where
  "validate_snapshot H s =
     bind (require (1 \<le> length (snap_policies s) \<and> length (snap_policies s) \<le> 3 \<and>
                    length (snap_reservations s) \<le> max_ledger_reservations)
             (ValidationError ''usage ledger snapshot field'')) (\<lambda>_.
     bind (check_all validate_limits (snap_policies s)) (\<lambda>_.
     bind (check_all validate_reservation (snap_reservations s)) (\<lambda>_.
     bind (require (distinct (map lim_provider (snap_policies s)))
             (ValidationError ''usage ledger requires one policy per provider'')) (\<lambda>_.
     bind (require (distinct (map res_id (snap_reservations s)))
             (ValidationError ''usage ledger contains duplicate reservation IDs'')) (\<lambda>_.
     check_all (validate_snapshot_entry H (snap_policies s)) (snap_reservations s))))))"

definition validated_policies :: "(string \<Rightarrow> string) \<Rightarrow> usage_limits list \<Rightarrow> usage_limits list result" where
  "validated_policies H ps =
     (case validate_snapshot H \<lparr>snap_policies = ps, snap_reservations = []\<rparr> of
        Inl e \<Rightarrow>
          if e = ValidationError ''usage ledger requires one policy per provider''
          then Inl (UsageLedgerError ''usage ledger requires one policy per provider'')
          else if is_ValueError e then Inl (UsageLedgerError ''usage policies are invalid'')
          else Inl e
      | Inr _ \<Rightarrow> Inr (sort_key lim_provider ps))"

definition usage_policy_sha256 :: "(string \<Rightarrow> string) \<Rightarrow> usage_limits list \<Rightarrow> string result" where
  "usage_policy_sha256 H ps =
     bind (validated_policies H ps) (\<lambda>v. Inr (policy_digest_from_validated H v))"

section \<open>The in-memory ledger\<close>

text \<open>
  The two dictionaries of \<open>InMemoryUsageLedger\<close>, in insertion order. Every method holds the
  ledger's lock from its first read to its last write, so a run of the ledger is a sequence of
  whole operations; a method that raises has written nothing.
\<close>

record usage_ledger =
  led_policies :: "(provider \<times> usage_limits) list"
  led_reservations :: "(string \<times> usage_reservation) list"

type_synonym usage_total = "int \<times> int \<times> int"

definition add_amount :: "usage_total \<Rightarrow> usage_amount \<Rightarrow> usage_total" where
  "add_amount t a = (case t of (c, k, m) \<Rightarrow> (c + calls a, k + tokens a, m + cost_microusd a))"

definition within_limit :: "usage_total \<Rightarrow> usage_amount \<Rightarrow> bool" where
  "within_limit t l = (case t of (c, k, m) \<Rightarrow> c \<le> calls l \<and> k \<le> tokens l \<and> m \<le> cost_microusd l)"

definition charged_statuses :: "reservation_status list" where
  "charged_statuses = [Reserved, Started, Succeeded, Failed]"

definition reservations_of :: "usage_ledger \<Rightarrow> usage_reservation list" where
  "reservations_of L = map snd (led_reservations L)"

definition charged_reservations :: "usage_ledger \<Rightarrow> provider \<Rightarrow> usage_reservation list" where
  "charged_reservations L p =
     filter (\<lambda>r. res_provider r = p \<and> res_status r \<in> set charged_statuses) (reservations_of L)"

definition scope_total :: "usage_reservation list \<Rightarrow> (usage_reservation \<Rightarrow> bool) \<Rightarrow> usage_total" where
  "scope_total rs pred =
     foldl (\<lambda>t r. if pred r then add_amount t (res_amount r) else t) (0, 0, 0) rs"

definition would_exceed :: "usage_ledger \<Rightarrow> usage_request \<Rightarrow> usage_limits \<Rightarrow> time \<Rightarrow> bool" where
  "would_exceed L q policy now =
     (if lim_enforcement policy = Disabled then False
      else let rs = charged_reservations L (req_provider q); day = day_of now in
        list_ex (\<lambda>(total, limit). \<not> within_limit (add_amount total (req_amount q)) limit)
          [(scope_total rs (\<lambda>r. res_owner r = req_owner q \<and> day_of (reserved_at r) = day),
            per_user_day policy),
           (scope_total rs (\<lambda>r. res_owner r = req_owner q \<and> res_session r = req_session q),
            per_session policy),
           (scope_total rs (\<lambda>r. day_of (reserved_at r) = day), global_day policy)])"

text \<open>
  \<open>_validate_current_limits\<close>: one pass over the charged reservations that accumulates the
  three groups of totals in dictionaries, then a test of every total.
\<close>

definition dict_add :: "('k \<times> usage_total) list \<Rightarrow> 'k \<Rightarrow> usage_amount \<Rightarrow> ('k \<times> usage_total) list" where
  "dict_add d k a =
     AList.update k (add_amount (case map_of d k of None \<Rightarrow> (0, 0, 0) | Some t \<Rightarrow> t) a) d"

definition group_totals ::
  "(usage_reservation \<Rightarrow> 'k) \<Rightarrow> usage_reservation list \<Rightarrow> ('k \<times> usage_total) list" where
  "group_totals key rs = foldl (\<lambda>d r. dict_add d (key r) (res_amount r)) [] rs"

definition user_day_key :: "usage_reservation \<Rightarrow> string \<times> int" where
  "user_day_key r = (res_owner r, day_of (reserved_at r))"
definition session_key :: "usage_reservation \<Rightarrow> string \<times> string" where
  "session_key r = (res_owner r, res_session r)"
definition global_day_key :: "usage_reservation \<Rightarrow> int" where
  "global_day_key r = day_of (reserved_at r)"

definition provider_limits_hold :: "usage_ledger \<Rightarrow> provider \<Rightarrow> usage_limits \<Rightarrow> bool" where
  "provider_limits_hold L p policy \<longleftrightarrow>
     (let rs = charged_reservations L p in
        list_all (\<lambda>(_, t). within_limit t (per_user_day policy)) (group_totals user_day_key rs) \<and>
        list_all (\<lambda>(_, t). within_limit t (per_session policy)) (group_totals session_key rs) \<and>
        list_all (\<lambda>(_, t). within_limit t (global_day policy)) (group_totals global_day_key rs))"

definition validate_current_limits :: "usage_ledger \<Rightarrow> unit result" where
  "validate_current_limits L =
     check_all (\<lambda>(p, policy).
       if lim_enforcement policy = Disabled then Inr ()
       else require (provider_limits_hold L p policy)
              (UsageLedgerError ''usage ledger snapshot exceeds an approved limit''))
       (led_policies L)"

definition new_usage_ledger :: "(string \<Rightarrow> string) \<Rightarrow> usage_limits list \<Rightarrow> usage_ledger result" where
  "new_usage_ledger H ps =
     bind (validated_policies H ps) (\<lambda>v.
       Inr \<lparr>led_policies = foldl (\<lambda>d p. AList.update (lim_provider p) p d) [] v,
            led_reservations = []\<rparr>)"

definition from_snapshot :: "(string \<Rightarrow> string) \<Rightarrow> ledger_snapshot \<Rightarrow> usage_ledger result" where
  "from_snapshot H s =
     bind (rewrap is_ValueError (UsageLedgerError ''usage ledger snapshot is invalid'')
             (validate_snapshot H s)) (\<lambda>_.
     bind (new_usage_ledger H (snap_policies s)) (\<lambda>L0.
       let L = L0\<lparr>led_reservations :=
                 foldl (\<lambda>d r. AList.update (res_id r) r d) [] (snap_reservations s)\<rparr>
       in bind (validate_current_limits L) (\<lambda>_. Inr L)))"

definition snapshot :: "(string \<Rightarrow> string) \<Rightarrow> usage_ledger \<Rightarrow> ledger_snapshot result" where
  "snapshot H L =
     (let s = \<lparr>snap_policies = sort_key lim_provider (map snd (led_policies L)),
               snap_reservations =
                 sort_key (\<lambda>r. (reserved_at r, res_id r)) (reservations_of L)\<rparr>
      in bind (validate_snapshot H s) (\<lambda>_. Inr s))"

text \<open>
  \<open>secrets.token_urlsafe\<close> is a parameter: \<open>draws i\<close> is the token the \<open>i\<close>-th call returns.
\<close>

definition new_reservation_id :: "usage_ledger \<Rightarrow> (nat \<Rightarrow> string) \<Rightarrow> string result" where
  "new_reservation_id L draws =
     (case find (\<lambda>c. c \<notin> set (map fst (led_reservations L))) (map draws [0..<10]) of
        Some c \<Rightarrow> Inr c
      | None \<Rightarrow> Inl (UsageLedgerError ''could not allocate a unique usage reservation ID''))"

definition put_reservation :: "usage_ledger \<Rightarrow> string \<Rightarrow> usage_reservation \<Rightarrow> usage_ledger" where
  "put_reservation L i r = L\<lparr>led_reservations := AList.update i r (led_reservations L)\<rparr>"

definition reserve ::
  "(string \<Rightarrow> string) \<Rightarrow> usage_request \<Rightarrow> time_arg \<Rightarrow> (nat \<Rightarrow> string) \<Rightarrow> usage_ledger
     \<Rightarrow> (usage_reservation \<times> usage_ledger) result" where
  "reserve H q now draws L =
     bind (rewrap is_ValueError (UsageLedgerError ''usage reservation request is invalid'')
             (validate_request q)) (\<lambda>_.
     bind (utc_datetime ''now'' now) (\<lambda>t.
       case map_of (led_policies L) (req_provider q) of
         None \<Rightarrow> Inl (UsageLedgerError ''usage provider has no approved policy'')
       | Some policy \<Rightarrow>
           if req_pricing_policy q \<noteq> lim_pricing_policy policy
           then Inl (UsageLedgerError ''usage reservation pricing policy does not match'')
           else if would_exceed L q policy t
           then Inl (UsageLimitExceeded ''usage reservation exceeds an approved limit'')
           else if max_ledger_reservations \<le> length (led_reservations L)
           then Inl (UsageLimitExceeded ''usage ledger reservation capacity is exhausted'')
           else
             bind (new_reservation_id L draws) (\<lambda>i.
             bind (usage_policy_sha256 H (map snd (led_policies L))) (\<lambda>d.
               let r = \<lparr>res_id = i, res_request = q, res_policy = d, res_status = Reserved,
                        reserved_at = t, started_at = None, finished_at = None\<rparr>
               in bind (validate_reservation r) (\<lambda>_. Inr (r, put_reservation L i r))))))"

definition owned_reservation ::
  "usage_ledger \<Rightarrow> string \<Rightarrow> string \<Rightarrow> string \<Rightarrow> usage_reservation result" where
  "owned_reservation L i owner session =
     (case map_of (led_reservations L) i of
        None \<Rightarrow> Inl (UsageLedgerError ''usage reservation does not exist'')
      | Some r \<Rightarrow>
          if res_owner r \<noteq> owner \<or> res_session r \<noteq> session
          then Inl (UsageLedgerError ''usage reservation owner or session does not match'')
          else Inr r)"

definition updated_reservation ::
  "usage_reservation \<Rightarrow> reservation_status \<Rightarrow> time option \<Rightarrow> time option \<Rightarrow> usage_reservation result" where
  "updated_reservation r status started finished =
     (let r' = r\<lparr>res_status := status, started_at := started, finished_at := finished\<rparr>
      in bind (rewrap is_ValueError (UsageLedgerError ''usage reservation lifecycle is invalid'')
                (validate_reservation r')) (\<lambda>_. Inr r'))"

definition start ::
  "string \<Rightarrow> string \<Rightarrow> string \<Rightarrow> time_arg \<Rightarrow> usage_ledger \<Rightarrow> (usage_reservation \<times> usage_ledger) result" where
  "start i owner session now L =
     bind (utc_datetime ''now'' now) (\<lambda>t.
     bind (owned_reservation L i owner session) (\<lambda>r.
       if res_status r \<noteq> Reserved
       then Inl (UsageLedgerError ''only a reserved usage attempt can start'')
       else bind (updated_reservation r Started (Some t) None) (\<lambda>r'.
              Inr (r', put_reservation L i r'))))"

definition finish ::
  "string \<Rightarrow> string \<Rightarrow> string \<Rightarrow> bool \<Rightarrow> time_arg \<Rightarrow> usage_ledger
     \<Rightarrow> (usage_reservation \<times> usage_ledger) result" where
  "finish i owner session success now L =
     bind (utc_datetime ''now'' now) (\<lambda>t.
     bind (owned_reservation L i owner session) (\<lambda>r.
       if res_status r \<noteq> Started
       then Inl (UsageLedgerError ''only a started usage attempt can finish'')
       else bind (updated_reservation r (if success then Succeeded else Failed)
                    (started_at r) (Some t)) (\<lambda>r'.
              Inr (r', put_reservation L i r'))))"

definition release ::
  "string \<Rightarrow> string \<Rightarrow> string \<Rightarrow> time_arg \<Rightarrow> usage_ledger \<Rightarrow> (usage_reservation \<times> usage_ledger) result" where
  "release i owner session now L =
     bind (utc_datetime ''now'' now) (\<lambda>t.
     bind (owned_reservation L i owner session) (\<lambda>r.
       if res_status r = Started
       then Inl (UsageLedgerError ''started reservation cannot be released'')
       else if res_status r \<noteq> Reserved
       then Inl (UsageLedgerError ''only an unstarted reservation can be released'')
       else bind (updated_reservation r Released None (Some t)) (\<lambda>r'.
              Inr (r', put_reservation L i r'))))"

text \<open>The ledger's mutating methods as events, and one step of the ledger.\<close>

datatype ledger_event =
    Reserve usage_request time_arg "nat \<Rightarrow> string"
  | Start string string string time_arg
  | Finish string string string bool time_arg
  | Release string string string time_arg

fun ledger_call ::
  "(string \<Rightarrow> string) \<Rightarrow> ledger_event \<Rightarrow> usage_ledger \<Rightarrow> (usage_reservation \<times> usage_ledger) result" where
  "ledger_call H (Reserve q now draws) L = reserve H q now draws L"
| "ledger_call H (Start i owner session now) L = start i owner session now L"
| "ledger_call H (Finish i owner session ok now) L = finish i owner session ok now L"
| "ledger_call H (Release i owner session now) L = release i owner session now L"

definition ledger_step :: "(string \<Rightarrow> string) \<Rightarrow> ledger_event \<Rightarrow> usage_ledger \<Rightarrow> usage_ledger result" where
  "ledger_step H e L = bind (ledger_call H e L) (\<lambda>(_, L'). Inr L')"

end
