(* ===== verification/Usage_Ledger_Props.thy ===== *)
theory Usage_Ledger_Props
  imports Usage_Ledger
begin

text \<open>
  What the usage ledger guarantees: its invariant (valid reservations, one per identifier, the
  policy they were made under, the quota of every scope), the snapshot round trip, the
  reservation life cycle and the policy digest.
\<close>

section \<open>Scope totals as sums\<close>

definition total_of :: "(usage_amount \<Rightarrow> int) \<Rightarrow> (usage_reservation \<Rightarrow> bool) \<Rightarrow> usage_reservation list \<Rightarrow> int" where
  "total_of d pred rs = sum_list (map (\<lambda>r. if pred r then d (res_amount r) else 0) rs)"

lemma total_of_simps [simp]:
  "total_of d pred [] = 0"
  "total_of d pred (r # rs) = (if pred r then d (res_amount r) else 0) + total_of d pred rs"
  "total_of d pred (xs @ ys) = total_of d pred xs + total_of d pred ys"
  by (simp_all add: total_of_def)

lemma scope_total_acc:
  "foldl (\<lambda>t r. if pred r then add_amount t (res_amount r) else t) (a, b, c) rs =
     (a + total_of calls pred rs, b + total_of tokens pred rs, c + total_of cost_microusd pred rs)"
  by (induction rs arbitrary: a b c) (auto simp: add_amount_def)

lemma scope_total_eq:
  "scope_total rs pred = (total_of calls pred rs, total_of tokens pred rs, total_of cost_microusd pred rs)"
  by (simp add: scope_total_def scope_total_acc)

lemma total_of_filter: "total_of d pred (filter q rs) = total_of d (\<lambda>r. q r \<and> pred r) rs"
  by (induction rs) auto

text \<open>The accumulated dictionaries hold, for every key that occurs, the total of its scope.\<close>

lemma map_of_dict_add:
  "map_of (dict_add d k a) = (map_of d)(k \<mapsto>
     add_amount (case map_of d k of None \<Rightarrow> (0, 0, 0) | Some t \<Rightarrow> t) a)"
  by (simp add: dict_add_def update_conv')

lemma group_totals_snoc:
  "group_totals key (rs @ [r]) = dict_add (group_totals key rs) (key r) (res_amount r)"
  by (simp add: group_totals_def)

lemma total_of_absent: "k \<notin> key ` set rs \<Longrightarrow> total_of d (\<lambda>r. key r = k) rs = 0"
  by (induction rs) auto

lemma map_of_group_totals:
  "map_of (group_totals key rs) k =
     (if k \<in> key ` set rs then Some (scope_total rs (\<lambda>r. key r = k)) else None)"
proof (induction rs rule: rev_induct)
  case Nil
  show ?case by (simp add: group_totals_def)
next
  case (snoc r rs)
  show ?case
  proof (cases "k = key r")
    case True
    have "(case map_of (group_totals key rs) (key r) of None \<Rightarrow> (0, 0, 0) | Some t \<Rightarrow> t) =
        scope_total rs (\<lambda>x. key x = key r)"
      using snoc [unfolded True] total_of_absent [of "key r" key rs]
      by (simp add: scope_total_eq split: if_splits)
    with True show ?thesis
      by (simp add: group_totals_snoc map_of_dict_add scope_total_eq add_amount_def)
  next
    case False
    with snoc show ?thesis
      by (auto simp: group_totals_snoc map_of_dict_add scope_total_eq)
  qed
qed

lemma distinct_group_totals: "distinct (map fst (group_totals key rs))"
  by (induction rs rule: rev_induct)
    (simp_all add: group_totals_def dict_add_def distinct_update)

lemma group_totals_all:
  "list_all (\<lambda>(_, t). within_limit t l) (group_totals key rs) \<longleftrightarrow>
     (\<forall>r\<in>set rs. within_limit (scope_total rs (\<lambda>x. key x = key r)) l)"
proof -
  let ?d = "group_totals key rs"
  have "list_all (\<lambda>(_, t). within_limit t l) ?d \<longleftrightarrow>
      (\<forall>k t. map_of ?d k = Some t \<longrightarrow> within_limit t l)"
    using distinct_group_totals [of key rs]
    by (auto simp: list_all_iff map_of_eq_Some_iff dest: map_of_SomeD)
  also have "\<dots> \<longleftrightarrow> (\<forall>r\<in>set rs. within_limit (scope_total rs (\<lambda>x. key x = key r)) l)"
  proof (intro iffI allI ballI impI)
    fix r
    assume all: "\<forall>k t. map_of ?d k = Some t \<longrightarrow> within_limit t l" and r: "r \<in> set rs"
    have "map_of ?d (key r) = Some (scope_total rs (\<lambda>x. key x = key r))"
      using r by (simp add: map_of_group_totals)
    with all show "within_limit (scope_total rs (\<lambda>x. key x = key r)) l" by blast
  next
    fix k t
    assume all: "\<forall>r\<in>set rs. within_limit (scope_total rs (\<lambda>x. key x = key r)) l"
      and "map_of ?d k = Some t"
    with all show "within_limit t l" by (auto simp: map_of_group_totals split: if_splits)
  qed
  finally show ?thesis .
qed

lemma group_totals_all_keys:
  assumes "amount_ok l"
  shows "list_all (\<lambda>(_, t). within_limit t l) (group_totals key rs) \<longleftrightarrow>
     (\<forall>k. within_limit (scope_total rs (\<lambda>x. key x = k)) l)"
proof -
  have absent: "within_limit (scope_total rs (\<lambda>x. key x = k)) l" if "k \<notin> key ` set rs" for k
    using that assms by (simp add: scope_total_eq total_of_absent within_limit_def amount_ok_def)
  show ?thesis
    unfolding group_totals_all
  proof (intro iffI allI ballI)
    fix k
    assume all: "\<forall>r\<in>set rs. within_limit (scope_total rs (\<lambda>x. key x = key r)) l"
    show "within_limit (scope_total rs (\<lambda>x. key x = k)) l"
      using all absent [of k] by (cases "k \<in> key ` set rs") auto
  qed simp
qed


section \<open>The quota, stated on totals\<close>

definition quota_ok :: "usage_ledger \<Rightarrow> provider \<Rightarrow> usage_limits \<Rightarrow> bool" where
  "quota_ok L p policy \<longleftrightarrow>
     (\<forall>owner day. within_limit (scope_total (charged_reservations L p)
        (\<lambda>r. res_owner r = owner \<and> day_of (reserved_at r) = day)) (per_user_day policy)) \<and>
     (\<forall>owner session. within_limit (scope_total (charged_reservations L p)
        (\<lambda>r. res_owner r = owner \<and> res_session r = session)) (per_session policy)) \<and>
     (\<forall>day. within_limit (scope_total (charged_reservations L p)
        (\<lambda>r. day_of (reserved_at r) = day)) (global_day policy))"

lemma validate_limits_eq_Inr:
  "validate_limits p = Inr u \<longleftrightarrow>
     is_digest (lim_pricing_policy p) \<and> amount_ok (per_user_day p) \<and> amount_ok (per_session p) \<and>
     amount_ok (global_day p) \<and>
     (lim_enforcement p = Disabled \<longrightarrow>
        is_zero (per_user_day p) \<and> is_zero (per_session p) \<and> is_zero (global_day p))"
  by (auto simp: validate_limits_def split: if_splits)

lemma provider_limits_hold_iff:
  assumes "validate_limits policy = Inr ()"
  shows "provider_limits_hold L p policy \<longleftrightarrow> quota_ok L p policy"
proof -
  have ok: "amount_ok (per_user_day policy)" "amount_ok (per_session policy)" "amount_ok (global_day policy)"
    using assms by (auto simp: validate_limits_eq_Inr)
  show ?thesis
    by (simp add: provider_limits_hold_def Let_def group_totals_all_keys [OF ok(1)]
        group_totals_all_keys [OF ok(2)] group_totals_all_keys [OF ok(3)] quota_ok_def
        user_day_key_def session_key_def global_day_key_def)
qed

section \<open>The ledger invariant\<close>

definition reservation_bound :: "(string \<Rightarrow> string) \<Rightarrow> usage_ledger \<Rightarrow> usage_reservation \<Rightarrow> bool" where
  "reservation_bound H L r \<longleftrightarrow>
     validate_reservation r = Inr () \<and>
     (\<exists>policy. map_of (led_policies L) (res_provider r) = Some policy \<and>
        req_pricing_policy (res_request r) = lim_pricing_policy policy) \<and>
     res_policy r = policy_digest_from_validated H (map snd (led_policies L))"

definition policies_ok :: "(provider \<times> usage_limits) list \<Rightarrow> bool" where
  "policies_ok ps \<longleftrightarrow> ps \<noteq> [] \<and> distinct (map fst ps) \<and>
     (\<forall>(p, l) \<in> set ps. lim_provider l = p \<and> validate_limits l = Inr ())"

definition ledger_inv :: "(string \<Rightarrow> string) \<Rightarrow> usage_ledger \<Rightarrow> bool" where
  "ledger_inv H L \<longleftrightarrow>
     policies_ok (led_policies L) \<and>
     distinct (map fst (led_reservations L)) \<and>
     length (led_reservations L) \<le> max_ledger_reservations \<and>
     (\<forall>(i, r) \<in> set (led_reservations L). res_id r = i \<and> reservation_bound H L r) \<and>
     (\<forall>(p, policy) \<in> set (led_policies L). lim_enforcement policy = Enforced \<longrightarrow> quota_ok L p policy)"

lemma length_provider_list: "distinct ps \<Longrightarrow> length ps \<le> 3" for ps :: "provider list"
proof -
  assume "distinct ps"
  have "set ps \<subseteq> {Bonsai, Cloudflare, Outscraper}"
    using provider.exhaust by blast
  then have "card (set ps) \<le> card {Bonsai, Cloudflare, Outscraper}" by (intro card_mono) auto
  with \<open>distinct ps\<close> show ?thesis by (simp add: distinct_card)
qed

text \<open>What one reservation adds to a scope, so that a scope's total is a sum over the ledger.\<close>

definition contribution ::
  "(usage_amount \<Rightarrow> int) \<Rightarrow> provider \<Rightarrow> (usage_reservation \<Rightarrow> bool) \<Rightarrow> usage_reservation \<Rightarrow> int" where
  "contribution d p pred r =
     (if res_provider r = p \<and> res_status r \<in> set charged_statuses \<and> pred r then d (res_amount r) else 0)"

lemma total_of_charged:
  "total_of d pred (charged_reservations L p) =
     sum_list (map (contribution d p pred \<circ> snd) (led_reservations L))"
proof -
  have "total_of d pred (filter (\<lambda>r. res_provider r = p \<and> res_status r \<in> set charged_statuses) rs) =
      sum_list (map (contribution d p pred) rs)" for rs
    by (induction rs) (auto simp: contribution_def)
  then show ?thesis by (simp add: charged_reservations_def reservations_of_def)
qed

lemma within_limit_mono:
  "a' \<le> a \<Longrightarrow> b' \<le> b \<Longrightarrow> c' \<le> c \<Longrightarrow> within_limit (a, b, c) l \<Longrightarrow> within_limit (a', b', c') l"
  by (auto simp: within_limit_def)

lemma scope_within_mono:
  assumes "\<And>d. d \<in> {calls, tokens, cost_microusd} \<Longrightarrow>
      total_of d pred (charged_reservations L' p) \<le> total_of d pred (charged_reservations L p)"
    and "within_limit (scope_total (charged_reservations L p) pred) l"
  shows "within_limit (scope_total (charged_reservations L' p) pred) l"
  using assms(2) unfolding scope_total_eq
  by (rule within_limit_mono [rotated 3]) (simp_all add: assms(1))

text \<open>
  Replacing a reservation by one with the same request and reservation time that is charged
  only if the old one was, no total grows.
\<close>

lemma put_reservation_totals:
  assumes "distinct (map fst (led_reservations L))" and "map_of (led_reservations L) i = Some r"
    and same: "res_request r' = res_request r" "reserved_at r' = reserved_at r"
    and charged: "res_status r' \<in> set charged_statuses \<Longrightarrow> res_status r \<in> set charged_statuses"
    and amount: "amount_ok (res_amount r)"
    and pred: "pred r' = pred r"
    and d: "d \<in> {calls, tokens, cost_microusd}"
  shows "total_of d pred (charged_reservations (put_reservation L i r') p)
     \<le> total_of d pred (charged_reservations L p)"
proof -
  have "0 \<le> d (res_amount r)" using amount d by (auto simp: amount_ok_def)
  then have "contribution d p pred r' \<le> contribution d p pred r"
    using same charged pred by (auto simp: contribution_def res_props)
  with sum_update_le [OF assms(1,2)] show ?thesis
    by (simp add: total_of_charged put_reservation_def)
qed

lemma put_reservation_quota:
  assumes "distinct (map fst (led_reservations L))" and "map_of (led_reservations L) i = Some r"
    and "res_request r' = res_request r" "reserved_at r' = reserved_at r"
    and "res_status r' \<in> set charged_statuses \<Longrightarrow> res_status r \<in> set charged_statuses"
    and "amount_ok (res_amount r)" and "quota_ok L p policy"
  shows "quota_ok (put_reservation L i r') p policy"
proof -
  note totals = put_reservation_totals [OF assms(1-6)]
  have "pred r' = pred r" if "pred = (\<lambda>x. Q (res_owner x) (res_session x) (day_of (reserved_at x)))"
    for pred Q using that assms(3,4) by (simp add: res_props)
  with assms(3,4) show ?thesis
    using assms(7) unfolding quota_ok_def
    by (intro conjI allI; elim conjE)
      (rule scope_within_mono [OF totals]; (assumption | simp add: res_props))+
qed

section \<open>Policies\<close>

lemma not_policies_ok_Nil [simp]: "\<not> policies_ok []"
  by (simp add: policies_ok_def)

lemma policies_okD:
  assumes "policies_ok ps"
  shows "ps \<noteq> []" "distinct (map fst ps)" "map lim_provider (map snd ps) = map fst ps"
    "\<And>p l. (p, l) \<in> set ps \<Longrightarrow> lim_provider l = p \<and> validate_limits l = Inr ()"
  using assms by (auto simp: policies_ok_def)

lemma validated_policies_eq_Inr:
  "validated_policies H ps = Inr v \<longleftrightarrow>
     ps \<noteq> [] \<and> distinct (map lim_provider ps) \<and> (\<forall>p\<in>set ps. validate_limits p = Inr ()) \<and>
     v = sort_key lim_provider ps"
proof -
  have "length ps \<le> 3" if "distinct (map lim_provider ps)"
    using length_provider_list [OF that] by simp
  then show ?thesis
    by (auto simp: validated_policies_def validate_snapshot_def Suc_le_eq
        split: sum.splits if_splits)
qed

lemma policies_ok_keyed:
  "policies_ok (map (\<lambda>p. (lim_provider p, p)) ps) \<longleftrightarrow>
     ps \<noteq> [] \<and> distinct (map lim_provider ps) \<and> (\<forall>p\<in>set ps. validate_limits p = Inr ())"
  by (auto simp: policies_ok_def comp_def)

lemma usage_policy_sha256_ok:
  assumes "policies_ok ps"
  shows "usage_policy_sha256 H (map snd ps) = Inr (policy_digest_from_validated H (map snd ps))"
proof -
  have "validated_policies H (map snd ps) = Inr (sort_key lim_provider (map snd ps))"
    using policies_okD [OF assms] by (auto simp: validated_policies_eq_Inr simp flip: map_map)
  then show ?thesis
    by (simp add: usage_policy_sha256_def policy_digest_from_validated_def policy_text_def)
qed

lemma new_usage_ledger_eq_Inr:
  "new_usage_ledger H ps = Inr L \<longleftrightarrow>
     policies_ok (led_policies L) \<and> led_reservations L = [] \<and>
     led_policies L = map (\<lambda>p. (lim_provider p, p)) (sort_key lim_provider ps)"
proof -
  have "foldl (\<lambda>d p. AList.update (lim_provider p) p d) [] (sort_key lim_provider ps) =
      map (\<lambda>p. (lim_provider p, p)) (sort_key lim_provider ps)" if "distinct (map lim_provider ps)"
    using that by (intro dict_of_list) simp
  then show ?thesis
    by (cases L) (auto simp: new_usage_ledger_def validated_policies_eq_Inr policies_ok_keyed)
qed

lemma quota_ok_empty:
  assumes "led_reservations L = []" and "validate_limits policy = Inr ()"
  shows "quota_ok L p policy"
  using assms by (auto simp: quota_ok_def charged_reservations_def reservations_of_def
      scope_total_def within_limit_def validate_limits_eq_Inr amount_ok_def)

lemma new_ledger_inv:
  assumes "new_usage_ledger H ps = Inr L"
  shows "ledger_inv H L"
proof -
  have L: "policies_ok (led_policies L)" "led_reservations L = []"
    using assms unfolding new_usage_ledger_eq_Inr by blast+
  then have "quota_ok L p policy" if "(p, policy) \<in> set (led_policies L)" for p policy
    using that policies_okD(4) by (blast intro: quota_ok_empty)
  with L show ?thesis by (auto simp: ledger_inv_def)
qed

section \<open>Reserving\<close>

lemma new_reservation_id_fresh:
  "new_reservation_id L draws = Inr i \<Longrightarrow> i \<notin> set (map fst (led_reservations L)) \<and> (\<exists>n<10. i = draws n)"
  by (auto simp: new_reservation_id_def find_Some_iff split: option.splits)

lemma total_of_put_fresh:
  assumes "i \<notin> set (map fst (led_reservations L))"
  shows "total_of d pred (charged_reservations (put_reservation L i r) p) =
    total_of d pred (charged_reservations L p) + contribution d p pred r"
  using assms by (simp add: total_of_charged put_reservation_def update_fresh)

text \<open>What a successful reservation established.\<close>

lemma reserve_eq_Inr:
  "reserve H q now draws L = Inr (r, L') \<longleftrightarrow>
     validate_request q = Inr () \<and>
     (\<exists>t policy. now = Utc t \<and> map_of (led_policies L) (req_provider q) = Some policy \<and>
        req_pricing_policy q = lim_pricing_policy policy \<and> \<not> would_exceed L q policy t \<and>
        length (led_reservations L) < max_ledger_reservations \<and>
        new_reservation_id L draws = Inr (res_id r) \<and>
        usage_policy_sha256 H (map snd (led_policies L)) = Inr (res_policy r) \<and>
        r = \<lparr>res_id = res_id r, res_request = q, res_policy = res_policy r, res_status = Reserved,
             reserved_at = t, started_at = None, finished_at = None\<rparr>) \<and>
     validate_reservation r = Inr () \<and> L' = put_reservation L (res_id r) r"
  by (auto simp: reserve_def Let_def split: option.splits if_splits)

lemma quota_ok_reserve:
  assumes "quota_ok L p policy" and fresh: "i \<notin> set (map fst (led_reservations L))"
    and policy: "res_provider r = p \<Longrightarrow> \<not> would_exceed L (res_request r) policy (reserved_at r)"
    and "lim_enforcement policy = Enforced"
  shows "quota_ok (put_reservation L i r) p policy"
proof -
  let ?cs = "charged_reservations L p"
  have total: "scope_total (charged_reservations (put_reservation L i r) p) pred =
      (if res_provider r = p \<and> res_status r \<in> set charged_statuses \<and> pred r
       then add_amount (scope_total ?cs pred) (res_amount r) else scope_total ?cs pred)" for pred
    by (simp add: scope_total_eq total_of_put_fresh [OF fresh] contribution_def add_amount_def)
  show ?thesis
  proof (cases "res_provider r = p")
    case True
    from policy [OF True] True assms(4) have
      "within_limit (add_amount (scope_total ?cs (\<lambda>x. res_owner x = res_owner r \<and>
          day_of (reserved_at x) = day_of (reserved_at r))) (res_amount r)) (per_user_day policy)"
      "within_limit (add_amount (scope_total ?cs (\<lambda>x. res_owner x = res_owner r \<and>
          res_session x = res_session r)) (res_amount r)) (per_session policy)"
      "within_limit (add_amount (scope_total ?cs (\<lambda>x.
          day_of (reserved_at x) = day_of (reserved_at r))) (res_amount r)) (global_day policy)"
      by (simp_all add: would_exceed_def Let_def res_props)
    with assms(1) show ?thesis unfolding quota_ok_def total by auto
  next
    case False
    with assms(1) show ?thesis unfolding quota_ok_def total by simp
  qed
qed

lemma ledger_invD:
  assumes "ledger_inv H L"
  shows "policies_ok (led_policies L)" "distinct (map fst (led_reservations L))"
    "length (led_reservations L) \<le> max_ledger_reservations"
    "\<And>i r. map_of (led_reservations L) i = Some r \<Longrightarrow> res_id r = i \<and> reservation_bound H L r"
    "\<And>p policy. map_of (led_policies L) p = Some policy \<Longrightarrow> lim_enforcement policy = Enforced \<Longrightarrow>
       quota_ok L p policy"
  using assms by (fastforce simp: ledger_inv_def dest: map_of_SomeD)+

lemma put_reservation_sel [simp]:
  "led_policies (put_reservation L i r) = led_policies L"
  "led_reservations (put_reservation L i r) = AList.update i r (led_reservations L)"
  by (simp_all add: put_reservation_def)

lemma reservation_bound_put [simp]:
  "reservation_bound H (put_reservation L i r) x \<longleftrightarrow> reservation_bound H L x"
  by (simp add: reservation_bound_def)

text \<open>Writing a reservation preserves the invariant when the reservation is bound to the
  ledger's policy, the capacity holds and no enforced quota is exceeded.\<close>

lemma put_reservation_inv:
  assumes inv: "ledger_inv H L" and "res_id r = i" and "reservation_bound H L r"
    and "length (AList.update i r (led_reservations L)) \<le> max_ledger_reservations"
    and quota: "\<And>p policy. map_of (led_policies L) p = Some policy \<Longrightarrow> lim_enforcement policy = Enforced
       \<Longrightarrow> quota_ok L p policy \<Longrightarrow> quota_ok (put_reservation L i r) p policy"
  shows "ledger_inv H (put_reservation L i r)"
proof -
  note d = ledger_invD [OF inv]
  have pol: "map_of (led_policies L) p = Some policy" if "(p, policy) \<in> set (led_policies L)" for p policy
    using that policies_okD(2) [OF d(1)] by simp
  have "\<forall>(p, policy) \<in> set (led_policies L). lim_enforcement policy = Enforced \<longrightarrow>
      quota_ok (put_reservation L i r) p policy"
    using quota d(5) pol by fastforce
  moreover have "\<forall>(k, x) \<in> set (AList.update i r (led_reservations L)). res_id x = k \<and> reservation_bound H L x"
    using inv assms(2,3) by (auto simp: update_set_subset [OF d(2)] ledger_inv_def)
  ultimately show ?thesis
    using d(1,2) assms(4) by (simp add: ledger_inv_def distinct_update)
qed

lemma reserve_inv:
  assumes inv: "ledger_inv H L" and res: "reserve H q now draws L = Inr (r, L')"
  shows "ledger_inv H L'"
proof -
  from res obtain t policy where q: "validate_request q = Inr ()" "validate_reservation r = Inr ()"
    and p: "map_of (led_policies L) (req_provider q) = Some policy" "req_pricing_policy q = lim_pricing_policy policy"
    and ok: "\<not> would_exceed L q policy t" "length (led_reservations L) < max_ledger_reservations"
    and i: "new_reservation_id L draws = Inr (res_id r)"
    and digest: "usage_policy_sha256 H (map snd (led_policies L)) = Inr (res_policy r)"
    and r: "res_request r = q" "reserved_at r = t"
    and L': "L' = put_reservation L (res_id r) r"
    unfolding reserve_eq_Inr by (metis usage_reservation.select_convs)
  have fresh: "res_id r \<notin> set (map fst (led_reservations L))"
    using new_reservation_id_fresh [OF i] by simp
  show ?thesis
    unfolding L'
  proof (rule put_reservation_inv [OF inv refl])
    show "reservation_bound H L r"
      using q p digest r usage_policy_sha256_ok [OF ledger_invD(1) [OF inv], of H]
      by (simp add: reservation_bound_def res_props)
    show "length (AList.update (res_id r) r (led_reservations L)) \<le> max_ledger_reservations"
      using ok(2) fresh by (simp add: update_fresh)
    show "quota_ok (put_reservation L (res_id r) r) p' policy'"
      if "map_of (led_policies L) p' = Some policy'" "lim_enforcement policy' = Enforced" "quota_ok L p' policy'"
      for p' policy'
      using that p(1) ok(1) r by (intro quota_ok_reserve [OF _ fresh]) (auto simp: res_props)
  qed
qed


section \<open>Moving a reservation through its life cycle\<close>

lemma owned_reservation_eq_Inr:
  "owned_reservation L i owner session = Inr r \<longleftrightarrow>
     map_of (led_reservations L) i = Some r \<and> res_owner r = owner \<and> res_session r = session"
  by (auto simp: owned_reservation_def split: option.splits if_splits)

lemma updated_reservation_eq_Inr:
  "updated_reservation r status s f = Inr r' \<longleftrightarrow>
     r' = r\<lparr>res_status := status, started_at := s, finished_at := f\<rparr> \<and> validate_reservation r' = Inr ()"
  by (auto simp: updated_reservation_def Let_def)

lemma validate_lifecycle_eq_Inr:
  "validate_lifecycle r = Inr u \<longleftrightarrow>
     (case res_status r of
        Reserved \<Rightarrow> started_at r = None \<and> finished_at r = None
      | Started \<Rightarrow> (\<exists>s. started_at r = Some s \<and> reserved_at r \<le> s) \<and> finished_at r = None
      | Released \<Rightarrow> started_at r = None \<and> (\<exists>f. finished_at r = Some f \<and> reserved_at r \<le> f)
      | _ \<Rightarrow> \<exists>s f. started_at r = Some s \<and> finished_at r = Some f \<and> reserved_at r \<le> s \<and> s \<le> f)"
  by (cases "started_at r"; cases "finished_at r"; cases "res_status r")
    (auto simp: validate_lifecycle_def validate_status_times_def)

lemma validate_reservation_eq_Inr:
  "validate_reservation r = Inr u \<longleftrightarrow>
     is_reservation_id (res_id r) \<and> is_digest (res_policy r) \<and>
     validate_request (res_request r) = Inr () \<and> validate_lifecycle r = Inr ()"
  by (auto simp: validate_reservation_def)

lemma validate_request_eq_Inr:
  "validate_request q = Inr u \<longleftrightarrow>
     is_subject_id (req_owner q) \<and> is_subject_id (req_session q) \<and> is_digest (req_binding q) \<and>
     amount_ok (req_amount q) \<and> is_digest (req_pricing_policy q) \<and>
     req_provider q = operation_provider (req_operation q) \<and> \<not> is_zero (req_amount q)"
  by (auto simp: validate_request_def)

text \<open>The three transitions, each with the only case in which it succeeds.\<close>

definition moved ::
  "usage_ledger \<Rightarrow> string \<Rightarrow> string \<Rightarrow> string \<Rightarrow> usage_reservation \<Rightarrow> usage_reservation \<Rightarrow> usage_ledger \<Rightarrow> bool" where
  "moved L i owner session r r' L' \<longleftrightarrow>
     map_of (led_reservations L) i = Some r \<and> res_owner r = owner \<and> res_session r = session \<and>
     L' = put_reservation L i r' \<and> validate_reservation r' = Inr ()"

lemma start_eq_Inr:
  "start i owner session now L = Inr (r', L') \<longleftrightarrow>
     (\<exists>t r. now = Utc t \<and> moved L i owner session r r' L' \<and> res_status r = Reserved \<and>
        r' = r\<lparr>res_status := Started, started_at := Some t, finished_at := None\<rparr>)"
  by (auto simp: start_def owned_reservation_eq_Inr updated_reservation_eq_Inr moved_def)

lemma finish_eq_Inr:
  "finish i owner session ok now L = Inr (r', L') \<longleftrightarrow>
     (\<exists>t r. now = Utc t \<and> moved L i owner session r r' L' \<and> res_status r = Started \<and>
        r' = r\<lparr>res_status := if ok then Succeeded else Failed, finished_at := Some t\<rparr>)"
  by (auto simp: finish_def owned_reservation_eq_Inr updated_reservation_eq_Inr moved_def)

lemma release_eq_Inr:
  "release i owner session now L = Inr (r', L') \<longleftrightarrow>
     (\<exists>t r. now = Utc t \<and> moved L i owner session r r' L' \<and> res_status r = Reserved \<and>
        r' = r\<lparr>res_status := Released, started_at := None, finished_at := Some t\<rparr>)"
  by (auto simp: release_def owned_reservation_eq_Inr updated_reservation_eq_Inr moved_def)

lemma moved_inv:
  assumes inv: "ledger_inv H L" and moved: "moved L i owner session r r' L'"
    and same: "res_id r' = res_id r" "res_request r' = res_request r" "res_policy r' = res_policy r"
      "reserved_at r' = reserved_at r"
    and charged: "res_status r' \<in> set charged_statuses \<Longrightarrow> res_status r \<in> set charged_statuses"
  shows "ledger_inv H L'"
proof -
  have r: "map_of (led_reservations L) i = Some r" "L' = put_reservation L i r'" "validate_reservation r' = Inr ()"
    using moved by (auto simp: moved_def)
  note d = ledger_invD [OF inv]
  have "amount_ok (res_amount r)"
    using r(3) same by (simp add: validate_reservation_eq_Inr validate_request_eq_Inr res_props)
  then have quota: "quota_ok L p policy \<Longrightarrow> quota_ok (put_reservation L i r') p policy" for p policy
    using put_reservation_quota [OF d(2) r(1) same(2,4) charged] by blast
  have "length (AList.update i r' (led_reservations L)) = length (led_reservations L)"
    using keys_update_present [of i "led_reservations L" r'] r(1)
    by (metis length_map map_of_eq_None_iff option.distinct(1) set_map)
  then show ?thesis
    unfolding r(2) using d(3,4) r same quota
    by (intro put_reservation_inv [OF inv]) (auto simp: reservation_bound_def res_props)
qed

lemma ledger_step_inv: "ledger_inv H L \<Longrightarrow> ledger_step H e L = Inr L' \<Longrightarrow> ledger_inv H L'"
  by (cases e)
    (auto simp: ledger_step_def start_eq_Inr finish_eq_Inr release_eq_Inr charged_statuses_def
      elim: reserve_inv moved_inv)

interpretation ledger: guarded_system "ledger_step H" "ledger_inv H" for H
  by unfold_locales (rule ledger_step_inv)

section \<open>Snapshots\<close>

lemma policy_by_provider_ok:
  assumes "policies_ok ps" and "set qs = set (map snd ps)" and "distinct (map lim_provider qs)"
  shows "policy_by_provider qs = map_of ps"
  unfolding policy_by_provider_def rev_map
  using assms policies_okD [OF assms(1)]
  by (intro map_of_keyed) (auto simp: rev_map [symmetric])

lemma digest_sorted [simp]:
  "policy_digest_from_validated H (sort_key lim_provider ps) = policy_digest_from_validated H ps"
  by (simp add: policy_digest_from_validated_def policy_text_def)

text \<open>The dictionary a list of policies becomes.\<close>

definition keyed :: "usage_limits list \<Rightarrow> (provider \<times> usage_limits) list" where
  "keyed ps = map (\<lambda>p. (lim_provider p, p)) ps"

lemma snd_keyed [simp]: "map snd (keyed ps) = ps"
  by (simp add: keyed_def comp_def)

lemma policies_ok_keyed':
  "policies_ok (keyed ps) \<longleftrightarrow>
     ps \<noteq> [] \<and> distinct (map lim_provider ps) \<and> (\<forall>p\<in>set ps. validate_limits p = Inr ())"
  by (simp add: keyed_def policies_ok_keyed)

lemma validate_snapshot_entry_eq_Inr:
  assumes "policies_ok (keyed ps)"
  shows "validate_reservation r = Inr () \<and> validate_snapshot_entry H ps r = Inr u \<longleftrightarrow>
    reservation_bound H \<lparr>led_policies = keyed ps, led_reservations = []\<rparr> r"
proof -
  have "policy_by_provider ps = map_of (keyed ps)"
    using assms by (intro policy_by_provider_ok) (auto simp: policies_ok_keyed' simp flip: list.set_map)
  then show ?thesis
    by (auto simp: validate_snapshot_entry_def reservation_bound_def split: option.splits)
qed

lemma validate_snapshot_eq_Inr:
  "validate_snapshot H s = Inr u \<longleftrightarrow>
     policies_ok (keyed (snap_policies s)) \<and> length (snap_reservations s) \<le> max_ledger_reservations \<and>
     distinct (map res_id (snap_reservations s)) \<and>
     (\<forall>r\<in>set (snap_reservations s).
        reservation_bound H \<lparr>led_policies = keyed (snap_policies s), led_reservations = []\<rparr> r)"
proof -
  have len: "length (snap_policies s) \<le> 3" if "distinct (map lim_provider (snap_policies s))"
    using length_provider_list [OF that] by simp
  have "validate_snapshot H s = Inr u \<longleftrightarrow>
     policies_ok (keyed (snap_policies s)) \<and> length (snap_reservations s) \<le> max_ledger_reservations \<and>
     distinct (map res_id (snap_reservations s)) \<and>
     (\<forall>r\<in>set (snap_reservations s). validate_reservation r = Inr () \<and>
        validate_snapshot_entry H (snap_policies s) r = Inr ())"
    using len unfolding validate_snapshot_def policies_ok_keyed'
    by (auto simp: Suc_le_eq)
  then show ?thesis using validate_snapshot_entry_eq_Inr by meson
qed

lemma validate_current_limits_eq_Inr:
  assumes "policies_ok (led_policies L)"
  shows "validate_current_limits L = Inr u \<longleftrightarrow>
    (\<forall>(p, policy) \<in> set (led_policies L). lim_enforcement policy = Enforced \<longrightarrow> quota_ok L p policy)"
proof -
  have "(if lim_enforcement policy = Disabled then Inr ()
         else require (provider_limits_hold L p policy) e) = Inr () \<longleftrightarrow>
        (lim_enforcement policy = Enforced \<longrightarrow> quota_ok L p policy)"
    if "(p, policy) \<in> set (led_policies L)" for p policy e
    using policies_okD(4) [OF assms that] provider_limits_hold_iff
    by (cases "lim_enforcement policy") auto
  then show ?thesis
    unfolding validate_current_limits_def check_all_eq_Inr by (intro ball_cong [OF refl]) auto
qed

lemma from_snapshot_eq_Inr:
  "from_snapshot H s = Inr L \<longleftrightarrow>
     validate_snapshot H s = Inr () \<and>
     L = \<lparr>led_policies = keyed (sort_key lim_provider (snap_policies s)),
          led_reservations = map (\<lambda>r. (res_id r, r)) (snap_reservations s)\<rparr> \<and>
     validate_current_limits L = Inr ()"
proof (cases "validate_snapshot H s = Inr ()")
  case True
  have d: "foldl (\<lambda>d r. AList.update (res_id r) r d) [] (snap_reservations s) =
      map (\<lambda>r. (res_id r, r)) (snap_reservations s)"
    using True by (intro dict_of_list) (simp add: validate_snapshot_eq_Inr)
  have pol: "policies_ok (keyed (sort_key lim_provider (snap_policies s)))"
    using True by (simp add: validate_snapshot_eq_Inr policies_ok_keyed')
  have n: "new_usage_ledger H (snap_policies s) = Inr L0 \<longleftrightarrow>
      L0 = \<lparr>led_policies = keyed (sort_key lim_provider (snap_policies s)), led_reservations = []\<rparr>" for L0
    using pol unfolding new_usage_ledger_eq_Inr keyed_def [symmetric] by (cases L0) auto
  show ?thesis
    by (simp add: from_snapshot_def Let_def d n True) auto
next
  case False
  then show ?thesis by (simp add: from_snapshot_def)
qed

lemma reservation_bound_permuted:
  assumes "policies_ok ps" and "set qs = set (map snd ps)" and "distinct (map lim_provider qs)"
    and digest: "policy_digest_from_validated H qs = policy_digest_from_validated H (map snd ps)"
  shows "reservation_bound H \<lparr>led_policies = keyed qs, led_reservations = rs\<rparr> r \<longleftrightarrow>
    reservation_bound H \<lparr>led_policies = ps, led_reservations = rs'\<rparr> r"
proof -
  have "map_of (keyed qs) = map_of ps"
    unfolding keyed_def using assms policies_okD [OF assms(1)] by (intro map_of_keyed) auto
  with digest show ?thesis by (simp add: reservation_bound_def)
qed

lemma from_snapshot_inv:
  assumes "from_snapshot H s = Inr L"
  shows "ledger_inv H L"
proof -
  let ?ps = "snap_policies s"
  note L = assms [unfolded from_snapshot_eq_Inr validate_snapshot_eq_Inr]
  have ps: "policies_ok (keyed (sort_key lim_provider ?ps))" "policies_ok (keyed ?ps)"
    using L by (simp_all add: policies_ok_keyed')
  have "reservation_bound H L r" if "r \<in> set (snap_reservations s)" for r
  proof -
    have "distinct (map lim_provider (sort_key lim_provider ?ps))"
      using ps(1) by (simp add: policies_ok_keyed')
    then show ?thesis
      using L that reservation_bound_permuted [OF ps(2), of "sort_key lim_provider ?ps" H]
      by (metis digest_sorted set_sort snd_keyed)
  qed
  moreover have "led_policies L = keyed (sort_key lim_provider ?ps)"
    "led_reservations L = map (\<lambda>r. (res_id r, r)) (snap_reservations s)"
    using L by (metis usage_ledger.select_convs)+
  ultimately show ?thesis
    using L ps(1) validate_current_limits_eq_Inr [of L]
    by (auto simp: ledger_inv_def comp_def)
qed

lemma policies_ok_map_snd: "policies_ok ps \<Longrightarrow> policies_ok (keyed (map snd ps))"
  using policies_okD [of ps] by (auto simp: policies_ok_keyed' simp flip: map_map)

lemma map_of_keyed_policies:
  assumes "policies_ok ps" and "set qs = set (map snd ps)" and "distinct (map lim_provider qs)"
  shows "map_of (keyed qs) = map_of ps"
  unfolding keyed_def using assms policies_okD [OF assms(1)] by (intro map_of_keyed) auto

lemma total_of_insort: "total_of d pred (insort_key f x xs) = total_of d pred (x # xs)"
  by (induction xs) (auto simp: total_of_def)

lemma total_of_sort: "total_of d pred (sort_key f xs) = total_of d pred xs"
  by (induction xs) (auto simp: total_of_insort)

lemma quota_ok_sorted:
  assumes "reservations_of L' = sort_key f (reservations_of L)"
  shows "quota_ok L' p policy \<longleftrightarrow> quota_ok L p policy"
  using assms by (simp add: quota_ok_def scope_total_eq charged_reservations_def total_of_filter total_of_sort)

text \<open>A ledger that satisfies the invariant can always be saved, and what is restored from the
  saved form has the same policies and reservations.\<close>

definition saved_form :: "usage_ledger \<Rightarrow> ledger_snapshot" where
  "saved_form L = \<lparr>snap_policies = sort_key lim_provider (map snd (led_policies L)),
     snap_reservations = sort_key (\<lambda>r. (reserved_at r, res_id r)) (reservations_of L)\<rparr>"

definition restored_form :: "usage_ledger \<Rightarrow> usage_ledger" where
  "restored_form L = \<lparr>led_policies = keyed (snap_policies (saved_form L)),
     led_reservations = map (\<lambda>r. (res_id r, r)) (snap_reservations (saved_form L))\<rparr>"

lemma saved_ids:
  assumes inv: "ledger_inv H L"
  shows "distinct (map res_id (snap_reservations (saved_form L)))"
proof -
  have "map res_id (reservations_of L) = map fst (led_reservations L)"
    using inv by (auto simp: reservations_of_def ledger_inv_def)
  then have "distinct (map res_id (reservations_of L))" using inv by (simp add: ledger_inv_def)
  then show ?thesis unfolding saved_form_def distinct_map by simp
qed

lemma snapshot_ok:
  assumes inv: "ledger_inv H L"
  shows "snapshot H L = Inr (saved_form L)" "validate_snapshot H (saved_form L) = Inr ()"
proof -
  note d = ledger_invD [OF inv]
  let ?ps = "led_policies L" and ?qs = "sort_key lim_provider (map snd (led_policies L))"
  have pol: "policies_ok (keyed (map snd ?ps))" by (rule policies_ok_map_snd [OF d(1)])
  then have pol': "policies_ok (keyed ?qs)" "distinct (map lim_provider ?qs)"
    by (simp_all add: policies_ok_keyed')
  have "reservation_bound H L r" if "r \<in> set (reservations_of L)" for r
    using that inv by (auto simp: reservations_of_def ledger_inv_def)
  then have "reservation_bound H \<lparr>led_policies = keyed ?qs, led_reservations = []\<rparr> r"
    if "r \<in> set (reservations_of L)" for r
    using that reservation_bound_permuted [OF d(1) _ pol'(2), of H "[]" r "led_reservations L"]
    by (simp add: reservation_bound_def)
  moreover have "distinct (map res_id (sort_key (\<lambda>r. (reserved_at r, res_id r)) (reservations_of L)))"
    using saved_ids [OF inv] by (simp add: saved_form_def)
  ultimately show v: "validate_snapshot H (saved_form L) = Inr ()"
    using pol' d(3) by (simp add: validate_snapshot_eq_Inr saved_form_def reservations_of_def)
  then show "snapshot H L = Inr (saved_form L)"
    by (simp add: snapshot_def saved_form_def Let_def)
qed

lemma from_saved_form:
  assumes inv: "ledger_inv H L"
  shows "from_snapshot H (saved_form L) = Inr (restored_form L)"
proof -
  note d = ledger_invD [OF inv]
  let ?qs = "sort_key lim_provider (map snd (led_policies L))"
  have pol: "policies_ok (keyed ?qs)" "map_of (keyed ?qs) = map_of (led_policies L)"
    using policies_ok_map_snd [OF d(1)] map_of_keyed_policies [OF d(1), of ?qs]
    by (simp_all add: policies_ok_keyed')
  have rs: "reservations_of (restored_form L) = sort_key (\<lambda>r. (reserved_at r, res_id r)) (reservations_of L)"
    by (simp add: restored_form_def saved_form_def reservations_of_def comp_def)
  have "quota_ok (restored_form L) p policy"
    if "(p, policy) \<in> set (keyed ?qs)" "lim_enforcement policy = Enforced" for p policy
  proof -
    have "map_of (led_policies L) p = Some policy"
      using that(1) policies_okD(2) [OF pol(1)] pol(2) map_of_is_SomeI by metis
    with d(5) that(2) quota_ok_sorted [OF rs] show ?thesis by blast
  qed
  then have "validate_current_limits (restored_form L) = Inr ()"
    using pol(1) by (subst validate_current_limits_eq_Inr) (auto simp: restored_form_def saved_form_def)
  with snapshot_ok(2) [OF inv] show ?thesis
    by (simp add: from_snapshot_eq_Inr restored_form_def saved_form_def)
qed

lemma restored_form_lookups:
  assumes inv: "ledger_inv H L"
  shows "map_of (led_policies (restored_form L)) = map_of (led_policies L)"
    "map_of (led_reservations (restored_form L)) = map_of (led_reservations L)"
    "saved_form (restored_form L) = saved_form L"
proof -
  note d = ledger_invD [OF inv]
  show "map_of (led_policies (restored_form L)) = map_of (led_policies L)"
    using policies_ok_map_snd [OF d(1)] map_of_keyed_policies [OF d(1)]
    by (simp add: restored_form_def saved_form_def policies_ok_keyed')
  show "map_of (led_reservations (restored_form L)) = map_of (led_reservations L)"
    unfolding restored_form_def usage_ledger.select_convs
  proof (rule map_of_keyed [OF d(2)])
    show "(k, v) \<in> set (led_reservations L) \<Longrightarrow> res_id v = k" for k v
      using inv by (auto simp: ledger_inv_def)
    show "distinct (map res_id (snap_reservations (saved_form L)))"
      by (rule saved_ids [OF inv])
  qed (simp add: saved_form_def reservations_of_def)
  show "saved_form (restored_form L) = saved_form L"
    by (simp add: restored_form_def saved_form_def reservations_of_def comp_def)
qed

section \<open>One reservation at a time\<close>

text \<open>What an accepted call did: it wrote exactly the reservation it returns.\<close>

fun call_origin :: "ledger_event \<Rightarrow> usage_reservation option \<Rightarrow> usage_reservation \<Rightarrow> bool" where
  "call_origin (Reserve q now draws) old r \<longleftrightarrow> old = None \<and> res_request r = q \<and>
     res_status r = Reserved \<and> now = Utc (reserved_at r) \<and> started_at r = None \<and> finished_at r = None"
| "call_origin (Start i owner session now) old r \<longleftrightarrow>
     (\<exists>r0 t. old = Some r0 \<and> i = res_id r \<and> res_owner r0 = owner \<and> res_session r0 = session \<and>
        now = Utc t \<and> res_status r0 = Reserved \<and> r = r0\<lparr>res_status := Started, started_at := Some t\<rparr>)"
| "call_origin (Finish i owner session ok now) old r \<longleftrightarrow>
     (\<exists>r0 t. old = Some r0 \<and> i = res_id r \<and> res_owner r0 = owner \<and> res_session r0 = session \<and>
        now = Utc t \<and> res_status r0 = Started \<and>
        r = r0\<lparr>res_status := if ok then Succeeded else Failed, finished_at := Some t\<rparr>)"
| "call_origin (Release i owner session now) old r \<longleftrightarrow>
     (\<exists>r0 t. old = Some r0 \<and> i = res_id r \<and> res_owner r0 = owner \<and> res_session r0 = session \<and>
        now = Utc t \<and> res_status r0 = Reserved \<and> r = r0\<lparr>res_status := Released, finished_at := Some t\<rparr>)"

lemma reservation_boundD:
  "reservation_bound H L r \<Longrightarrow> validate_lifecycle r = Inr () \<and> validate_request (res_request r) = Inr ()"
  by (simp add: reservation_bound_def validate_reservation_eq_Inr)

lemma ledger_call_effect:
  assumes inv: "ledger_inv H L" and call: "ledger_call H e L = Inr (r, L')"
  shows "L' = put_reservation L (res_id r) r \<and> call_origin e (map_of (led_reservations L) (res_id r)) r"
proof -
  have moved: "L' = put_reservation L (res_id r0) r' \<and> map_of (led_reservations L) (res_id r0) = Some r0 \<and>
      i = res_id r0 \<and> res_owner r0 = owner \<and> res_session r0 = session"
    if "moved L i owner session r0 r' L'" for i owner session r0 r'
    using that ledger_invD(4) [OF inv, of i r0] by (auto simp: moved_def)
  have times: "started_at r0 = None \<and> finished_at r0 = None"
    if "map_of (led_reservations L) i = Some r0" "res_status r0 = Reserved" for i r0
    using reservation_boundD ledger_invD(4) [OF inv that(1)] that(2)
    by (fastforce simp: validate_lifecycle_eq_Inr)
  show ?thesis
  proof (cases e)
    case (Reserve q now draws)
    with call have res: "reserve H q now draws L = Inr (r, L')" by simp
    then have "map_of (led_reservations L) (res_id r) = None"
      unfolding reserve_eq_Inr by (metis map_of_eq_None_iff new_reservation_id_fresh set_map)
    moreover from res have "res_request r = q \<and> res_status r = Reserved \<and> now = Utc (reserved_at r) \<and>
        started_at r = None \<and> finished_at r = None" "L' = put_reservation L (res_id r) r"
      unfolding reserve_eq_Inr by (metis usage_reservation.select_convs)+
    ultimately show ?thesis using Reserve by simp
  next
    case (Start i owner session now)
    then obtain t r0 where *: "now = Utc t" "moved L i owner session r0 r L'" "res_status r0 = Reserved"
      "r = r0\<lparr>res_status := Started, started_at := Some t, finished_at := None\<rparr>"
      using call by (auto simp: start_eq_Inr)
    with moved [OF *(2)] times [of "res_id r0" r0] Start show ?thesis by simp
  next
    case (Finish i owner session ok now)
    then obtain t r0 where *: "now = Utc t" "moved L i owner session r0 r L'" "res_status r0 = Started"
      "r = r0\<lparr>res_status := if ok then Succeeded else Failed, finished_at := Some t\<rparr>"
      using call by (auto simp: finish_eq_Inr)
    with moved [OF *(2)] Finish show ?thesis by simp
  next
    case (Release i owner session now)
    then obtain t r0 where *: "now = Utc t" "moved L i owner session r0 r L'" "res_status r0 = Reserved"
      "r = r0\<lparr>res_status := Released, started_at := None, finished_at := Some t\<rparr>"
      using call by (auto simp: release_eq_Inr)
    with moved [OF *(2)] times [of "res_id r0" r0] Release show ?thesis by simp
  qed
qed

lemma ledger_step_call: "ledger_step H e L = Inr L' \<longleftrightarrow> (\<exists>r. ledger_call H e L = Inr (r, L'))"
  by (auto simp: ledger_step_def)

section \<open>The life cycle of a reservation\<close>

fun status_moves :: "reservation_status \<Rightarrow> reservation_status \<Rightarrow> bool" where
  "status_moves Reserved s \<longleftrightarrow> s = Started \<or> s = Released"
| "status_moves Started s \<longleftrightarrow> s = Succeeded \<or> s = Failed"
| "status_moves _ _ \<longleftrightarrow> False"

fun status_rank :: "reservation_status \<Rightarrow> nat" where
  "status_rank Reserved = 0"
| "status_rank Started = 1"
| "status_rank _ = 2"

interpretation reservation_life: lifecycle status_moves status_rank 2
  by unfold_locales (auto elim: status_moves.elims)

text \<open>What one run makes of a reservation it starts with.\<close>

definition reservation_evolves :: "usage_reservation \<Rightarrow> usage_reservation \<Rightarrow> bool" where
  "reservation_evolves r r' \<longleftrightarrow>
     res_id r' = res_id r \<and> res_request r' = res_request r \<and> res_policy r' = res_policy r \<and>
     reserved_at r' = reserved_at r \<and>
     (started_at r \<noteq> None \<longrightarrow> started_at r' = started_at r) \<and>
     (finished_at r \<noteq> None \<longrightarrow> r' = r) \<and>
     status_moves\<^sup>*\<^sup>* (res_status r) (res_status r')"

lemma reservation_evolves_refl: "reservation_evolves r r"
  by (simp add: reservation_evolves_def)

lemma reservation_evolves_trans:
  "reservation_evolves a b \<Longrightarrow> reservation_evolves b c \<Longrightarrow> reservation_evolves a c"
  by (auto simp: reservation_evolves_def)

definition ledger_evolves :: "usage_ledger \<Rightarrow> usage_ledger \<Rightarrow> bool" where
  "ledger_evolves L L' \<longleftrightarrow> led_policies L' = led_policies L \<and>
     (\<forall>i r. map_of (led_reservations L) i = Some r \<longrightarrow>
        (\<exists>r'. map_of (led_reservations L') i = Some r' \<and> reservation_evolves r r'))"

lemma ledger_evolves_refl: "ledger_evolves L L"
  by (auto simp: ledger_evolves_def intro: reservation_evolves_refl)

lemma ledger_evolves_trans: "ledger_evolves a b \<Longrightarrow> ledger_evolves b c \<Longrightarrow> ledger_evolves a c"
  unfolding ledger_evolves_def by (metis reservation_evolves_trans)

lemma status_moves_unfinished:
  assumes "validate_lifecycle r = Inr ()" and "res_status r \<in> {Reserved, Started}"
  shows "finished_at r = None" "res_status r = Reserved \<Longrightarrow> started_at r = None"
  using assms by (auto simp: validate_lifecycle_eq_Inr)

lemma call_origin_evolves:
  assumes "call_origin e (Some r) r'" and "validate_lifecycle r = Inr ()"
  shows "reservation_evolves r r'"
  using assms status_moves_unfinished [OF assms(2)]
  by (cases e) (auto simp: reservation_evolves_def)

lemma ledger_step_evolves:
  assumes inv: "ledger_inv H L" and "ledger_step H e L = Inr L'"
  shows "ledger_evolves L L'"
proof -
  from assms(2) obtain r where "ledger_call H e L = Inr (r, L')" by (auto simp: ledger_step_call)
  from ledger_call_effect [OF inv this]
  have L': "L' = put_reservation L (res_id r) r"
    and origin: "call_origin e (map_of (led_reservations L) (res_id r)) r" by auto
  have "reservation_evolves r0 r" if r0: "map_of (led_reservations L) (res_id r) = Some r0" for r0
    using origin ledger_invD(4) [OF inv r0] reservation_boundD r0
    by (auto intro: call_origin_evolves)
  then show ?thesis
    unfolding ledger_evolves_def L' by (auto simp: update_conv' intro: reservation_evolves_refl)
qed

lemma ledger_run_evolves: "ledger_inv H L \<Longrightarrow> ledger_evolves L (run_events (ledger_step H) L es)"
  by (rule ledger.run_relation)
    (auto intro: ledger_evolves_refl ledger_evolves_trans ledger_step_evolves)

section \<open>What a scope is charged\<close>

definition charge_delta :: "ledger_event \<Rightarrow> int \<Rightarrow> int" where
  "charge_delta e n = (case e of Reserve _ _ _ \<Rightarrow> n | Release _ _ _ _ \<Rightarrow> - n | _ \<Rightarrow> 0)"

lemma total_of_put_present:
  assumes "distinct (map fst (led_reservations L))" and "map_of (led_reservations L) i = Some old"
  shows "total_of d pred (charged_reservations (put_reservation L i r) p) =
    total_of d pred (charged_reservations L p) - contribution d p pred old + contribution d p pred r"
  using sum_update_present [OF assms] by (simp add: total_of_charged)

lemma call_origin_charged:
  assumes "call_origin e (Some old) r"
  shows "res_request r = res_request old \<and> reserved_at r = reserved_at old \<and>
    res_status old \<in> set charged_statuses \<and>
    (if res_status r \<in> set charged_statuses then n else 0) = n + charge_delta e n"
  using assms by (cases e) (auto simp: charged_statuses_def charge_delta_def split: if_splits)

lemma ledger_call_charge:
  assumes inv: "ledger_inv H L" and call: "ledger_call H e L = Inr (r, L')"
    and scope: "\<And>x. pred x = Q (res_request x) (reserved_at x)"
  shows "total_of d pred (charged_reservations L' p) = total_of d pred (charged_reservations L p) +
    (if res_provider r = p \<and> pred r then charge_delta e (d (res_amount r)) else 0)"
proof -
  note eff = ledger_call_effect [OF inv call]
  note d = ledger_invD [OF inv]
  show ?thesis
  proof (cases "map_of (led_reservations L) (res_id r)")
    case None
    then have "res_id r \<notin> set (map fst (led_reservations L))" by (simp add: map_of_eq_None_iff)
    moreover have "contribution d p pred r =
        (if res_provider r = p \<and> pred r then charge_delta e (d (res_amount r)) else 0)"
      using eff None by (cases e) (simp_all add: contribution_def charged_statuses_def charge_delta_def)
    ultimately show ?thesis using eff by (simp add: total_of_put_fresh)
  next
    case (Some old)
    with eff have origin: "call_origin e (Some old) r" by simp
    note same = call_origin_charged [OF origin]
    have "contribution d p pred r = contribution d p pred old +
        (if res_provider r = p \<and> pred r then charge_delta e (d (res_amount r)) else 0)"
      using same [of "d (res_amount r)"] by (auto simp: contribution_def scope res_props)
    with eff total_of_put_present [OF d(2) Some] show ?thesis by simp
  qed
qed

section \<open>Admission\<close>

text \<open>Under an enforced policy a request is admitted exactly when the ledger that holds its
  reservation still satisfies the quota.\<close>

lemma admitted_iff_quota:
  assumes inv: "ledger_inv H L" and fresh: "res_id r \<notin> set (map fst (led_reservations L))"
    and policy: "map_of (led_policies L) (res_provider r) = Some policy" "lim_enforcement policy = Enforced"
    and r: "res_status r = Reserved"
  shows "\<not> would_exceed L (res_request r) policy (reserved_at r) \<longleftrightarrow>
    quota_ok (put_reservation L (res_id r) r) (res_provider r) policy"
proof
  assume "\<not> would_exceed L (res_request r) policy (reserved_at r)"
  then show "quota_ok (put_reservation L (res_id r) r) (res_provider r) policy"
    using ledger_invD(5) [OF inv policy] policy(2) by (intro quota_ok_reserve [OF _ fresh])
next
  let ?p = "res_provider r"
  have total: "scope_total (charged_reservations (put_reservation L (res_id r) r) ?p) pred =
      add_amount (scope_total (charged_reservations L ?p) pred) (res_amount r)" if "pred r" for pred
    using that r by (simp add: scope_total_eq total_of_put_fresh [OF fresh] contribution_def add_amount_def
        charged_statuses_def)
  assume q: "quota_ok (put_reservation L (res_id r) r) ?p policy"
  have "within_limit (add_amount (scope_total (charged_reservations L ?p)
      (\<lambda>x. res_owner x = res_owner r \<and> day_of (reserved_at x) = day_of (reserved_at r)))
        (res_amount r)) (per_user_day policy)"
    "within_limit (add_amount (scope_total (charged_reservations L ?p)
      (\<lambda>x. res_owner x = res_owner r \<and> res_session x = res_session r)) (res_amount r)) (per_session policy)"
    "within_limit (add_amount (scope_total (charged_reservations L ?p)
      (\<lambda>x. day_of (reserved_at x) = day_of (reserved_at r))) (res_amount r)) (global_day policy)"
    using q unfolding quota_ok_def by (simp_all flip: total)
  then show "\<not> would_exceed L (res_request r) policy (reserved_at r)"
    by (simp add: would_exceed_def Let_def res_props)
qed

section \<open>The policy digest\<close>

lemma amount_json_inj: "sort_keys (amount_json a) = sort_keys (amount_json b) \<longleftrightarrow> a = b"
  unfolding amount_json_def by (subst sort_keys_record) auto

lemma provider_name_inj: "provider_name p = provider_name q \<longleftrightarrow> p = q"
  by (cases p; cases q) simp_all

lemma quota_name_inj: "quota_name p = quota_name q \<longleftrightarrow> p = q"
  by (cases p; cases q) simp_all

lemma limits_json_inj: "sort_keys (limits_json p) = sort_keys (limits_json q) \<longleftrightarrow> p = q"
  unfolding limits_json_def
  by (subst sort_keys_record) (auto simp: amount_json_inj provider_name_inj quota_name_inj)

lemma policy_text_eq_iff:
  assumes "distinct (map lim_provider ps)" and "distinct (map lim_provider qs)"
  shows "policy_text ps = policy_text qs \<longleftrightarrow> set ps = set qs"
proof
  assume "policy_text ps = policy_text qs"
  then have "map (sort_keys \<circ> limits_json) (sort_key lim_provider ps) =
      map (sort_keys \<circ> limits_json) (sort_key lim_provider qs)"
    by (simp add: policy_text_def dumps_eq_iff)
  then have "sort_key lim_provider ps = sort_key lim_provider qs"
    by (rule map_injective) (simp add: inj_def limits_json_inj)
  then show "set ps = set qs" by (metis set_sort)
next
  assume "set ps = set qs"
  from sort_key_unique [OF assms this] show "policy_text ps = policy_text qs"
    by (simp add: policy_text_def)
qed

end
