(* ===== verification/Usage_Ledger_Theorems.thy ===== *)
theory Usage_Ledger_Theorems
  imports Usage_Ledger_Props
begin

text \<open>
  The properties of the usage ledger, over any sequence of calls, with concrete instances.
\<close>

section \<open>A concrete ledger\<close>

text \<open>One enforced policy for the image provider, two calls per user and day; a constant
  stands for the hash.\<close>

definition sample_hash :: "string \<Rightarrow> string" where
  "sample_hash x = replicate 64 (CHR ''a'')"

definition sample_amount :: "int \<Rightarrow> usage_amount" where
  "sample_amount n = \<lparr>calls = n, tokens = 0, cost_microusd = 0\<rparr>"

definition sample_limits :: usage_limits where
  "sample_limits = \<lparr>lim_provider = Cloudflare, lim_pricing_policy = replicate 64 (CHR ''b''),
     lim_enforcement = Enforced, per_user_day = sample_amount 2, per_session = sample_amount 2,
     global_day = sample_amount 3\<rparr>"

definition sample_request :: usage_request where
  "sample_request = \<lparr>req_provider = Cloudflare, req_operation = Op_image_set, req_owner = ''owner'',
     req_session = ''session'', req_binding = replicate 64 (CHR ''c''), req_amount = sample_amount 1,
     req_pricing_policy = replicate 64 (CHR ''b'')\<rparr>"

definition sample_draws :: "char \<Rightarrow> nat \<Rightarrow> string" where
  "sample_draws c n = replicate 32 c"

definition sample_reservation :: usage_reservation where
  "sample_reservation = \<lparr>res_id = replicate 32 (CHR ''x''), res_request = sample_request,
     res_policy = replicate 64 (CHR ''a''), res_status = Reserved, reserved_at = 5,
     started_at = None, finished_at = None\<rparr>"

definition sample_ledger :: usage_ledger where
  "sample_ledger = \<lparr>led_policies = [(Cloudflare, sample_limits)],
     led_reservations = [(replicate 32 (CHR ''x''), sample_reservation)]\<rparr>"

definition sample_empty :: usage_ledger where
  "sample_empty = \<lparr>led_policies = [(Cloudflare, sample_limits)], led_reservations = []\<rparr>"

lemma sample_new: "new_usage_ledger sample_hash [sample_limits] = Inr sample_empty"
  by code_simp

lemma sample_reserve:
  "reserve sample_hash sample_request (Utc 5) (sample_draws (CHR ''x'')) sample_empty =
     Inr (sample_reservation, sample_ledger)"
  by code_simp

lemma sample_inv: "ledger_inv sample_hash sample_ledger"
  by (rule reserve_inv [OF new_ledger_inv [OF sample_new] sample_reserve])

section \<open>Properties\<close>

text \<open>C1. Quota safety: however the ledger came to be (freshly built from approved policies, or
  restored from a snapshot) and whatever calls follow, accepted or refused, the charged usage of
  every owner's day, every owner's session and every day stays within the limits of each enforced
  provider policy.\<close>

theorem ledger_quota_safety:
  assumes "new_usage_ledger H ps = Inr L \<or> from_snapshot H s = Inr L"
    and "map_of (led_policies (run_events (ledger_step H) L es)) p = Some policy"
    and "lim_enforcement policy = Enforced"
  shows "quota_ok (run_events (ledger_step H) L es) p policy"
proof -
  have "ledger_inv H L" using assms(1) new_ledger_inv from_snapshot_inv by blast
  from ledger_invD(5) [OF ledger.run_inv [OF this] assms(2,3)] show ?thesis .
qed

theorem ledger_quota_safety_witness:
  "quota_ok (run_events (ledger_step sample_hash) sample_empty
     [Reserve sample_request (Utc 5) (sample_draws (CHR ''x'')),
      Reserve sample_request (Utc 6) (sample_draws (CHR ''y'')),
      Reserve sample_request (Utc 7) (sample_draws (CHR ''z''))]) Cloudflare sample_limits"
proof (rule ledger_quota_safety [where H = sample_hash and ps = "[sample_limits]" and L = sample_empty])
  show "new_usage_ledger sample_hash [sample_limits] = Inr sample_empty \<or>
      from_snapshot sample_hash undefined = Inr sample_empty"
    by (rule disjI1 [OF sample_new])
qed (code_simp)+

text \<open>C2. The ledger invariant (well-formed reservations with unique identifiers, each under a
  policy of the ledger with its pricing policy and the ledger's policy digest, at most ten
  thousand of them, every enforced quota kept) holds in every state a ledger can reach.\<close>

theorem ledger_invariant:
  assumes "new_usage_ledger H ps = Inr L \<or> from_snapshot H s = Inr L"
  shows "ledger_inv H (run_events (ledger_step H) L es)"
  using assms new_ledger_inv from_snapshot_inv by (blast intro: ledger.run_inv)

theorem ledger_invariant_witness:
  "ledger_inv sample_hash (run_events (ledger_step sample_hash) sample_empty
     [Reserve sample_request (Utc 5) (sample_draws (CHR ''x''))])"
  by (rule ledger_invariant [where ps = "[sample_limits]", OF disjI1 [OF sample_new]])

text \<open>C3. Snapshot round trip: a ledger in a reachable state can be saved, its snapshot is
  accepted again, and the restored ledger has the same policies and the same reservation under
  every identifier, and saves to the same snapshot.\<close>

theorem ledger_snapshot_roundtrip:
  assumes "ledger_inv H L"
  shows "\<exists>s L'. snapshot H L = Inr s \<and> from_snapshot H s = Inr L' \<and>
    map_of (led_policies L') = map_of (led_policies L) \<and>
    map_of (led_reservations L') = map_of (led_reservations L) \<and> snapshot H L' = Inr s"
proof (intro exI conjI)
  show "from_snapshot H (saved_form L) = Inr (restored_form L)" by (rule from_saved_form [OF assms])
  have "ledger_inv H (restored_form L)" using from_snapshot_inv [OF from_saved_form [OF assms]] .
  then show "snapshot H (restored_form L) = Inr (saved_form L)"
    using snapshot_ok(1) restored_form_lookups(3) [OF assms] by metis
qed (use snapshot_ok(1) restored_form_lookups assms in blast)+

theorem ledger_snapshot_roundtrip_witness:
  "\<exists>s L'. snapshot sample_hash sample_ledger = Inr s \<and> from_snapshot sample_hash s = Inr L' \<and>
    map_of (led_policies L') = map_of (led_policies sample_ledger) \<and>
    map_of (led_reservations L') = map_of (led_reservations sample_ledger) \<and>
    snapshot sample_hash L' = Inr s"
  by (rule ledger_snapshot_roundtrip [OF sample_inv])

text \<open>C4. A snapshot is accepted exactly when its fields validate and the usage it records stays
  within every enforced limit, scope by scope: the single pass that accumulates per-key totals
  decides the same as the sums over the reservations of each scope.\<close>

theorem from_snapshot_accepts:
  "is_ok (from_snapshot H s) \<longleftrightarrow> validate_snapshot H s = Inr () \<and>
    list_all (\<lambda>policy. lim_enforcement policy = Disabled \<or>
      quota_ok \<lparr>led_policies = keyed (sort_key lim_provider (snap_policies s)),
                led_reservations = map (\<lambda>r. (res_id r, r)) (snap_reservations s)\<rparr>
        (lim_provider policy) policy) (snap_policies s)"
proof (cases "validate_snapshot H s = Inr ()")
  case True
  let ?L = "\<lparr>led_policies = keyed (sort_key lim_provider (snap_policies s)),
    led_reservations = map (\<lambda>r. (res_id r, r)) (snap_reservations s)\<rparr>"
  have "policies_ok (led_policies ?L)"
    using True by (simp add: validate_snapshot_eq_Inr policies_ok_keyed')
  moreover have en: "(x = Enforced \<longrightarrow> Q) \<longleftrightarrow> x = Disabled \<or> Q" for x Q by (cases x) auto
  ultimately have "validate_current_limits ?L = Inr () \<longleftrightarrow> list_all (\<lambda>policy. lim_enforcement policy = Disabled \<or>
      quota_ok ?L (lim_provider policy) policy) (snap_policies s)"
    by (simp add: validate_current_limits_eq_Inr keyed_def list_all_iff en)
  with True show ?thesis by (simp add: is_ok_iff from_snapshot_eq_Inr)
qed (simp add: is_ok_iff from_snapshot_eq_Inr)

text \<open>C5. A reservation keeps its identity through any run: its request, policy and reservation
  time never change, it moves only along reserved, started, succeeded or failed, or from reserved
  to released, at most two moves in all, and once finished or released it is never altered.\<close>

theorem reservation_lifecycle:
  assumes "ledger_inv H L" and "map_of (led_reservations L) i = Some r"
  shows "\<exists>r' n. map_of (led_reservations (run_events (ledger_step H) L es)) i = Some r' \<and>
    reservation_evolves r r' \<and> n \<le> 2 - status_rank (res_status r) \<and>
    (status_moves ^^ n) (res_status r) (res_status r')"
proof -
  from ledger_run_evolves [OF assms(1), of es] assms(2) obtain r'
    where r': "map_of (led_reservations (run_events (ledger_step H) L es)) i = Some r'"
      "reservation_evolves r r'" unfolding ledger_evolves_def by blast
  then obtain n where n: "(status_moves ^^ n) (res_status r) (res_status r')"
    by (auto simp: reservation_evolves_def rtranclp_power)
  from r' n reservation_life.chain_bounded [OF n] show ?thesis by blast
qed

theorem reservation_lifecycle_witness:
  "\<exists>r' n. map_of (led_reservations (run_events (ledger_step sample_hash) sample_ledger
      [Start (replicate 32 (CHR ''x'')) ''owner'' ''session'' (Utc 6)])) (replicate 32 (CHR ''x'')) = Some r' \<and>
    reservation_evolves sample_reservation r' \<and> n \<le> 2 - status_rank (res_status sample_reservation) \<and>
    (status_moves ^^ n) (res_status sample_reservation) (res_status r')"
  by (rule reservation_lifecycle [OF sample_inv]) code_simp

text \<open>C6. An accepted call writes exactly the reservation it returns and nothing else: a new
  identifier for \<open>reserve\<close>, and otherwise the reservation named, only for the owner and session
  that made it and only from the status the operation requires.\<close>

theorem ledger_call_isolation:
  assumes "ledger_inv H L" and "ledger_call H e L = Inr (r, L')"
  shows "led_policies L' = led_policies L \<and>
    map_of (led_reservations L') = (map_of (led_reservations L))(res_id r \<mapsto> r) \<and>
    call_origin e (map_of (led_reservations L) (res_id r)) r"
  using ledger_call_effect [OF assms] by (simp add: update_conv')

theorem ledger_call_isolation_witness:
  "led_policies sample_ledger = led_policies sample_empty \<and>
    map_of (led_reservations sample_ledger) =
      (map_of (led_reservations sample_empty))(res_id sample_reservation \<mapsto> sample_reservation) \<and>
    call_origin (Reserve sample_request (Utc 5) (sample_draws (CHR ''x'')))
      (map_of (led_reservations sample_empty) (res_id sample_reservation)) sample_reservation"
  by (rule ledger_call_isolation [OF new_ledger_inv [OF sample_new]])
    (simp only: ledger_call.simps sample_reserve)

text \<open>Charging: reserving adds the reserved amount to every scope the reservation belongs to,
  starting and finishing (successfully or not) change no total, and releasing takes back exactly
  what was reserved; scopes the reservation is not in keep their totals.\<close>

theorem ledger_charging:
  assumes "ledger_inv H L" and "ledger_call H e L = Inr (r, L')"
  shows "total_of d (\<lambda>x. Q (res_request x) (reserved_at x)) (charged_reservations L' p) =
    total_of d (\<lambda>x. Q (res_request x) (reserved_at x)) (charged_reservations L p) +
    (if res_provider r = p \<and> Q (res_request r) (reserved_at r)
     then charge_delta e (d (res_amount r)) else 0)"
  using assms by (rule ledger_call_charge) (rule refl)

theorem ledger_charging_witness:
  "total_of calls (\<lambda>x. req_owner (res_request x) = ''owner'') (charged_reservations sample_ledger Cloudflare) =
    total_of calls (\<lambda>x. req_owner (res_request x) = ''owner'') (charged_reservations sample_empty Cloudflare) + 1"
proof -
  have "ledger_call sample_hash (Reserve sample_request (Utc 5) (sample_draws (CHR ''x''))) sample_empty =
      Inr (sample_reservation, sample_ledger)" by (simp only: ledger_call.simps sample_reserve)
  from ledger_charging [OF new_ledger_inv [OF sample_new] this, of calls "\<lambda>q t. req_owner q = ''owner''" Cloudflare]
  show ?thesis
    by (simp add: sample_reservation_def sample_request_def sample_amount_def charge_delta_def res_props)
qed

text \<open>C7. Admission is exact: a valid request for a provider with an approved policy and matching
  pricing, on a ledger with room and a fresh identifier, is accepted precisely when the policy is
  not enforced or the ledger holding the new reservation still keeps the quota; otherwise it is
  refused with the limit error.\<close>

theorem reserve_admission:
  assumes "ledger_inv H L" and "\<And>x. is_digest (H x)" and "validate_request q = Inr ()"
    and "map_of (led_policies L) (req_provider q) = Some policy"
    and "req_pricing_policy q = lim_pricing_policy policy"
    and "length (led_reservations L) < max_ledger_reservations"
    and "new_reservation_id L draws = Inr i" and "is_reservation_id i"
    and "r = \<lparr>res_id = i, res_request = q,
      res_policy = policy_digest_from_validated H (map snd (led_policies L)), res_status = Reserved,
      reserved_at = t, started_at = None, finished_at = None\<rparr>"
  shows "reserve H q (Utc t) draws L =
    (if lim_enforcement policy = Disabled \<or> quota_ok (put_reservation L i r) (req_provider q) policy
     then Inr (r, put_reservation L i r)
     else Inl (UsageLimitExceeded ''usage reservation exceeds an approved limit''))"
proof -
  have fresh: "i \<notin> set (map fst (led_reservations L))"
    using new_reservation_id_fresh [OF assms(7)] by simp
  have "\<not> would_exceed L q policy t \<longleftrightarrow>
      lim_enforcement policy = Disabled \<or> quota_ok (put_reservation L i r) (req_provider q) policy"
    using admitted_iff_quota [OF assms(1), of r policy] fresh assms(4,9)
    by (cases "lim_enforcement policy") (simp_all add: res_props would_exceed_def)
  moreover have "validate_reservation r = Inr ()"
    using assms(2,3,8,9)
    by (simp add: validate_reservation_eq_Inr validate_lifecycle_eq_Inr policy_digest_from_validated_def)
  ultimately show ?thesis
    using assms(3-7,9) usage_policy_sha256_ok [OF ledger_invD(1) [OF assms(1)], of H]
    by (auto simp: reserve_def Let_def)
qed

theorem reserve_admission_witness:
  "reserve sample_hash sample_request (Utc 6) (sample_draws (CHR ''y'')) sample_ledger =
    (let r = sample_reservation\<lparr>res_id := replicate 32 (CHR ''y''), reserved_at := 6\<rparr> in
     if lim_enforcement sample_limits = Disabled \<or>
        quota_ok (put_reservation sample_ledger (replicate 32 (CHR ''y'')) r) Cloudflare sample_limits
     then Inr (r, put_reservation sample_ledger (replicate 32 (CHR ''y'')) r)
     else Inl (UsageLimitExceeded ''usage reservation exceeds an approved limit''))"
proof -
  let ?i = "replicate 32 (CHR ''y'')"
  have "is_digest (sample_hash x)" for x by (simp add: sample_hash_def hex_chars_def)
  moreover have "validate_request sample_request = Inr ()" by code_simp
  moreover have "map_of (led_policies sample_ledger) (req_provider sample_request) = Some sample_limits"
    by code_simp
  moreover have "req_pricing_policy sample_request = lim_pricing_policy sample_limits" by code_simp
  moreover have "length (led_reservations sample_ledger) < max_ledger_reservations" by code_simp
  moreover have "new_reservation_id sample_ledger (sample_draws (CHR ''y'')) = Inr ?i" by code_simp
  moreover have "is_reservation_id ?i" by code_simp
  moreover have "sample_reservation\<lparr>res_id := ?i, reserved_at := 6\<rparr> = \<lparr>res_id = ?i, res_request = sample_request,
      res_policy = policy_digest_from_validated sample_hash (map snd (led_policies sample_ledger)),
      res_status = Reserved, reserved_at = 6, started_at = None, finished_at = None\<rparr>"
    by (simp add: sample_reservation_def policy_digest_from_validated_def sample_hash_def)
  moreover have "req_provider sample_request = Cloudflare" by code_simp
  ultimately show ?thesis
    using reserve_admission [OF sample_inv, of sample_request sample_limits _ ?i _ 6] by (simp only: Let_def)
qed

text \<open>The policy digest is that of the set of policies: it does not depend on their order,
  and two sets with the same digest are the same as long as the hash does not collide on the two
  texts.\<close>

theorem policy_digest_identifies:
  assumes "usage_policy_sha256 H ps = Inr x" and "usage_policy_sha256 H qs = Inr y"
    and "inj_on H {policy_text ps, policy_text qs}"
  shows "x = y \<longleftrightarrow> set ps = set qs"
proof -
  have "distinct (map lim_provider ps)" "distinct (map lim_provider qs)"
    "x = H (policy_text ps)" "y = H (policy_text qs)"
    using assms(1,2) by (auto simp: usage_policy_sha256_def validated_policies_eq_Inr
        policy_digest_from_validated_def policy_text_def)
  moreover have "H (policy_text ps) = H (policy_text qs) \<longleftrightarrow> policy_text ps = policy_text qs"
    using assms(3) by (rule inj_on_eq_iff) simp_all
  ultimately show ?thesis by (simp add: policy_text_eq_iff)
qed

text \<open>Two policies listed in either order.\<close>

definition sample_limits2 :: usage_limits where
  "sample_limits2 = sample_limits\<lparr>lim_provider := Bonsai\<rparr>"

lemma sample_limits_digest:
  "\<exists>x. usage_policy_sha256 id [sample_limits, sample_limits2] = Inr x"
  "\<exists>x. usage_policy_sha256 id [sample_limits2, sample_limits] = Inr x"
proof -
  have "validate_limits sample_limits = Inr ()" "validate_limits sample_limits2 = Inr ()"
    "lim_provider sample_limits \<noteq> lim_provider sample_limits2" by code_simp+
  then show "\<exists>x. usage_policy_sha256 id [sample_limits, sample_limits2] = Inr x"
    "\<exists>x. usage_policy_sha256 id [sample_limits2, sample_limits] = Inr x"
    by (auto simp: usage_policy_sha256_def validated_policies_eq_Inr)
qed

theorem policy_digest_identifies_witness:
  "\<exists>x. usage_policy_sha256 id [sample_limits, sample_limits2] = Inr x \<and>
     usage_policy_sha256 id [sample_limits2, sample_limits] = Inr x"
proof -
  obtain x y where xy: "usage_policy_sha256 id [sample_limits, sample_limits2] = Inr x"
    "usage_policy_sha256 id [sample_limits2, sample_limits] = Inr y"
    using sample_limits_digest by blast
  from policy_digest_identifies [OF xy] have "x = y" by auto
  with xy show ?thesis by blast
qed

end
