(* ===== verification/Approval_Ledger.thy ===== *)
theory Approval_Ledger
  imports Interfaces
begin

text \<open>
  The single-use approval claims of \<open>src/search_v2/state_machine.py\<close>: the grant a session holds,
  the consumption a claim records and \<open>InMemoryApprovalLedger\<close> with its snapshots. The ledger
  stores token digests only. \<open>claim\<close> checks and writes under one lock.
\<close>

section \<open>Data\<close>

definition max_approval_consumptions :: nat where "max_approval_consumptions = 10000"

record approval_grant =
  grant_plan :: string
  grant_token :: string
  issued_at :: time
  expires_at :: time
  consumed_at :: "time option"

definition validate_grant :: "approval_grant \<Rightarrow> unit result" where
  "validate_grant g =
     (if \<not> (is_digest (grant_plan g) \<and> is_digest (grant_token g))
      then Inl (ValidationError ''approval grant field'')
      else if expires_at g \<le> issued_at g
      then Inl (ValidationError ''approval expiry must follow issuance'')
      else if \<not> opt_all (\<lambda>c. issued_at g \<le> c \<and> c < expires_at g) (consumed_at g)
      then Inl (ValidationError ''approval consumption is outside its lifetime'')
      else Inr ())"

record consumption =
  con_owner :: string
  con_session :: string
  con_plan :: string
  con_token :: string
  con_at :: time

definition validate_consumption :: "consumption \<Rightarrow> unit result" where
  "validate_consumption c =
     require (is_subject_id (con_owner c) \<and> is_subject_id (con_session c) \<and>
              is_digest (con_plan c) \<and> is_digest (con_token c))
       (ValidationError ''approval consumption field'')"

type_synonym consumption_snapshot = "consumption list"

definition validate_consumptions :: "consumption_snapshot \<Rightarrow> unit result" where
  "validate_consumptions cs =
     bind (require (length cs \<le> max_approval_consumptions)
             (ValidationError ''approval consumption snapshot field'')) (\<lambda>_.
     bind (check_all validate_consumption cs) (\<lambda>_.
     require (distinct (map con_token cs))
       (ValidationError ''approval consumption ledger contains duplicate tokens'')))"

section \<open>The ledger\<close>

text \<open>The dictionary of consumptions by token digest, in insertion order.\<close>

type_synonym approval_ledger = "(string \<times> consumption) list"

definition new_approval_ledger :: approval_ledger where
  "new_approval_ledger = []"

definition approvals_from_snapshot :: "consumption_snapshot \<Rightarrow> approval_ledger result" where
  "approvals_from_snapshot cs =
     bind (rewrap is_ValueError (SearchStateError ''approval consumption snapshot is invalid'')
             (validate_consumptions cs)) (\<lambda>_.
     Inr (foldl (\<lambda>d c. AList.update (con_token c) c d) [] cs))"

definition approvals_snapshot :: "approval_ledger \<Rightarrow> consumption_snapshot result" where
  "approvals_snapshot l =
     (let cs = sort_key (\<lambda>c. (con_at c, con_token c)) (map snd l)
      in bind (validate_consumptions cs) (\<lambda>_. Inr cs))"

definition claim ::
  "approval_grant \<Rightarrow> string \<Rightarrow> string \<Rightarrow> time_arg \<Rightarrow> approval_ledger
     \<Rightarrow> (consumption \<times> approval_ledger) result" where
  "claim g owner session now l =
     bind (rewrap is_ValueError (SearchStateError ''search approval grant is invalid'')
             (validate_grant g)) (\<lambda>_.
     bind (utc_datetime ''now'' now) (\<lambda>t.
       if consumed_at g \<noteq> None
       then Inl (SearchStateError ''search approval has already been consumed'')
       else if \<not> (issued_at g \<le> t \<and> t < expires_at g)
       then Inl (SearchStateError ''search approval has expired'')
       else
         let c = \<lparr>con_owner = owner, con_session = session, con_plan = grant_plan g,
                  con_token = grant_token g, con_at = t\<rparr>
         in bind (validate_consumption c) (\<lambda>_.
              if grant_token g \<in> set (map fst l)
              then Inl (SearchStateError ''search approval has already been consumed'')
              else if max_approval_consumptions \<le> length l
              then Inl (SearchStateError ''approval consumption ledger capacity is exhausted'')
              else Inr (c, AList.update (grant_token g) c l))))"

section \<open>What the ledger guarantees\<close>

record claim_call =
  call_grant :: approval_grant
  call_owner :: string
  call_session :: string
  call_now :: time_arg

definition claim_step :: "claim_call \<Rightarrow> approval_ledger \<Rightarrow> approval_ledger result" where
  "claim_step c l =
     bind (claim (call_grant c) (call_owner c) (call_session c) (call_now c) l) (\<lambda>(_, l'). Inr l')"

definition token_claimed :: "approval_ledger \<Rightarrow> string \<Rightarrow> bool" where
  "token_claimed l d \<longleftrightarrow> d \<in> set (map fst l)"

definition approvals_inv :: "approval_ledger \<Rightarrow> bool" where
  "approvals_inv l \<longleftrightarrow> length l \<le> max_approval_consumptions \<and> distinct (map fst l) \<and>
     (\<forall>(d, c) \<in> set l. con_token c = d \<and> validate_consumption c = Inr ())"

lemma validate_grant_eq_Inr:
  "validate_grant g = Inr u \<longleftrightarrow> is_digest (grant_plan g) \<and> is_digest (grant_token g) \<and>
     issued_at g < expires_at g \<and>
     (\<forall>c. consumed_at g = Some c \<longrightarrow> issued_at g \<le> c \<and> c < expires_at g)"
  by (cases "consumed_at g") (auto simp: validate_grant_def)

lemma claim_eq_Inr:
  "claim g owner session now l = Inr (c, l') \<longleftrightarrow>
     validate_grant g = Inr () \<and> consumed_at g = None \<and>
     (\<exists>t. now = Utc t \<and> issued_at g \<le> t \<and> t < expires_at g \<and>
        c = \<lparr>con_owner = owner, con_session = session, con_plan = grant_plan g,
             con_token = grant_token g, con_at = t\<rparr>) \<and>
     validate_consumption c = Inr () \<and> \<not> token_claimed l (grant_token g) \<and>
     length l < max_approval_consumptions \<and> l' = l @ [(grant_token g, c)]"
  by (auto simp: claim_def Let_def token_claimed_def update_fresh split: if_splits)

lemma claim_step_eq_Inr:
  "claim_step c l = Inr l' \<longleftrightarrow>
     (\<exists>x. claim (call_grant c) (call_owner c) (call_session c) (call_now c) l = Inr (x, l'))"
  by (auto simp: claim_step_def)

interpretation approvals: claim_store claim_step token_claimed "\<lambda>c. grant_token (call_grant c)"
  by unfold_locales (auto simp: claim_step_eq_Inr claim_eq_Inr token_claimed_def)

interpretation approvals: guarded_system claim_step approvals_inv
  by unfold_locales
    (auto simp: claim_step_eq_Inr claim_eq_Inr approvals_inv_def token_claimed_def)

lemma validate_consumptions_eq_Inr:
  "validate_consumptions cs = Inr u \<longleftrightarrow> length cs \<le> max_approval_consumptions \<and>
     (\<forall>c\<in>set cs. validate_consumption c = Inr ()) \<and> distinct (map con_token cs)"
  by (auto simp: validate_consumptions_def)

lemma approvals_from_snapshot_eq_Inr:
  "approvals_from_snapshot cs = Inr l \<longleftrightarrow>
     validate_consumptions cs = Inr () \<and> l = map (\<lambda>c. (con_token c, c)) cs"
proof (cases "validate_consumptions cs = Inr ()")
  case True
  then have "distinct (map con_token cs)" by (simp add: validate_consumptions_eq_Inr)
  from dict_of_list [OF this] True show ?thesis by (auto simp: approvals_from_snapshot_def)
qed (simp add: approvals_from_snapshot_def)

lemma approvals_from_snapshot_inv: "approvals_from_snapshot cs = Inr l \<Longrightarrow> approvals_inv l"
  by (auto simp: approvals_from_snapshot_eq_Inr validate_consumptions_eq_Inr approvals_inv_def comp_def)

lemma new_approvals_inv: "approvals_inv new_approval_ledger"
  by (simp add: approvals_inv_def new_approval_ledger_def)

lemma approvals_tokens:
  assumes "approvals_inv l"
  shows "map con_token (map snd l) = map fst l"
  using assms by (auto simp: approvals_inv_def)

lemma approvals_snapshot_ok:
  assumes inv: "approvals_inv l"
  shows "approvals_snapshot l = Inr (sort_key (\<lambda>c. (con_at c, con_token c)) (map snd l))"
proof -
  have "distinct (map con_token (map snd l))"
    using inv unfolding approvals_tokens [OF inv] by (simp add: approvals_inv_def)
  with inv show ?thesis
    by (fastforce simp: approvals_snapshot_def Let_def validate_consumptions_def approvals_inv_def)
qed

text \<open>What a restored ledger answers.\<close>

lemma approvals_restored:
  assumes inv: "approvals_inv l" and cs: "set cs = set (map snd l)" "distinct (map con_token cs)"
  shows "map_of (map (\<lambda>c. (con_token c, c)) cs) = map_of l"
  using inv cs by (intro map_of_keyed) (auto simp: approvals_inv_def)

end
