(* ===== verification/Text_Values.thy ===== *)
theory Text_Values
  imports Canonical_Json
begin

text \<open>
  The values the requirement modules work on. A Python string is the list of the bytes of its
  UTF-8 encoding: equality, dictionary keys, canonical JSON and order by code points are those of
  the bytes, the length in characters is counted. The functions of \<open>unicodedata\<close> and \<open>str\<close> that
  depend on the Unicode tables are parameters, collected in \<open>text_library\<close>. A \<open>Decimal\<close> is a
  coefficient and an exponent, compared as a number and printed as \<open>str\<close> prints it.
\<close>

section \<open>Text\<close>

text \<open>Bytes \<open>10xxxxxx\<close> continue a character.\<close>

definition text_length :: "string \<Rightarrow> nat" where
  "text_length s = length (filter (\<lambda>c. code_of c div 64 \<noteq> 2) s)"

definition lower_chars :: string where "lower_chars = ''abcdefghijklmnopqrstuvwxyz''"
definition digit_chars :: string where "digit_chars = ''0123456789''"

text \<open>\<open>Identifier\<close> and \<open>RegistryValue\<close>: a lower-case letter, then up to 63 letters, digits, \<open>_\<close> or \<open>-\<close>.\<close>

definition is_identifier :: "string \<Rightarrow> bool" where
  "is_identifier s \<longleftrightarrow> 1 \<le> length s \<and> length s \<le> 64 \<and> chars_in lower_chars (take 1 s) \<and>
     chars_in (lower_chars @ digit_chars @ ''_-'') s"

text \<open>\<open>AttributeKey\<close>: at least two dotted segments, each starting with a lower-case letter.\<close>

fun split_dots :: "string \<Rightarrow> string list" where
  "split_dots [] = [[]]"
| "split_dots (c # s) =
     (if c = CHR ''.'' then [] # split_dots s
      else case split_dots s of [] \<Rightarrow> [[c]] | w # ws \<Rightarrow> (c # w) # ws)"

definition is_key_segment :: "string \<Rightarrow> bool" where
  "is_key_segment w \<longleftrightarrow> w \<noteq> [] \<and> chars_in lower_chars (take 1 w) \<and>
     chars_in (lower_chars @ digit_chars @ ''_'') w"

definition is_attribute_key :: "string \<Rightarrow> bool" where
  "is_attribute_key s \<longleftrightarrow> 2 \<le> length (split_dots s) \<and> list_all is_key_segment (split_dots s)"

text \<open>\<open>VersionText\<close>: 1 to 32 characters, the first alphanumeric.\<close>

definition is_version :: "string \<Rightarrow> bool" where
  "is_version s \<longleftrightarrow> 1 \<le> length s \<and> length s \<le> 32 \<and> chars_in alnum_chars (take 1 s) \<and>
     chars_in (alnum_chars @ ''._-'') s"

section \<open>Decimals\<close>

text \<open>\<open>Dec neg c e\<close> is the sign, the coefficient and the exponent of a finite \<open>Decimal\<close>.\<close>

datatype decimal = Dec bool nat int

fun dec_coefficient :: "decimal \<Rightarrow> nat" where
  "dec_coefficient (Dec neg c e) = c"

fun dec_exponent :: "decimal \<Rightarrow> int" where
  "dec_exponent (Dec neg c e) = e"

text \<open>The number as a multiple of \<open>10 ^ k\<close>, for \<open>k\<close> at most the exponent.\<close>

fun dec_at :: "int \<Rightarrow> decimal \<Rightarrow> int" where
  "dec_at k (Dec neg c e) = (if neg then - 1 else 1) * int c * 10 ^ nat (e - k)"

text \<open>Comparison brings both numbers to the smaller exponent.\<close>

definition common_exponent :: "decimal \<Rightarrow> decimal \<Rightarrow> int" where
  "common_exponent a b = min (dec_exponent a) (dec_exponent b)"

definition dec_le :: "decimal \<Rightarrow> decimal \<Rightarrow> bool" where
  "dec_le a b \<longleftrightarrow> dec_at (common_exponent a b) a \<le> dec_at (common_exponent a b) b"

definition dec_eq :: "decimal \<Rightarrow> decimal \<Rightarrow> bool" where
  "dec_eq a b \<longleftrightarrow> dec_at (common_exponent a b) a = dec_at (common_exponent a b) b"

text \<open>\<open>Decimal.normalize\<close>: trailing zeros move from the coefficient to the exponent. A validated
  number has at most 24 digits, so the 28 digits of the context never round it.\<close>

fun strip_zeros :: "nat \<Rightarrow> int \<Rightarrow> nat \<times> int" where
  "strip_zeros c e = (if c = 0 \<or> c mod 10 \<noteq> 0 then (c, e) else strip_zeros (c div 10) (e + 1))"

declare strip_zeros.simps [simp del]

definition canonical_decimal :: "decimal \<Rightarrow> decimal" where
  "canonical_decimal d =
     (case d of Dec neg c e \<Rightarrow>
        if c = 0 then Dec False 0 0
        else (case strip_zeros c e of (c', e') \<Rightarrow> Dec neg c' e'))"

text \<open>\<open>str(Decimal)\<close>: plain notation for an exponent of at most zero and more than \<open>-6\<close> digits left
  of the point, scientific notation otherwise.\<close>

definition decimal_str :: "decimal \<Rightarrow> string" where
  "decimal_str d =
     (case d of Dec neg c e \<Rightarrow>
        let ds = dec_nat c;
            leftdigits = e + int (length ds);
            dotplace = (if e \<le> 0 \<and> - 6 < leftdigits then leftdigits else 1);
            mantissa =
              (if dotplace \<le> 0 then ''0.'' @ replicate (nat (- dotplace)) CHR ''0'' @ ds
               else if int (length ds) \<le> dotplace
               then ds @ replicate (nat (dotplace - int (length ds))) CHR ''0''
               else take (nat dotplace) ds @ ''.'' @ drop (nat dotplace) ds);
            exponent = leftdigits - dotplace
        in (if neg then ''-'' else []) @ mantissa @
           (if exponent = 0 then []
            else if 0 < exponent then ''E+'' @ dec_nat (nat exponent)
            else ''E-'' @ dec_nat (nat (- exponent))))"

section \<open>The library functions\<close>

text \<open>
  \<open>unicodedata.normalize("NFKC", _)\<close>, \<open>str.casefold\<close>, \<open>str.split()\<close>, the test for a character of a
  control category that is no white space, pydantic's digit limits of a \<open>Decimal\<close> field
  (24 digits, 6 decimal places), the value of a decimal digit and the test
  \<open>str.isalnum\<close> of one character, and
  \<open>str.upper\<close>.
\<close>

record text_library =
  nfkc :: "string \<Rightarrow> string"
  casefold :: "string \<Rightarrow> string"
  split_words :: "string \<Rightarrow> string list"
  has_control :: "string \<Rightarrow> bool"
  digits_ok :: "decimal \<Rightarrow> bool"
  digit_of :: "string \<Rightarrow> nat option"
  alphanumeric :: "string \<Rightarrow> bool"
  upper_text :: "string \<Rightarrow> string"

fun join_words :: "string list \<Rightarrow> string" where
  "join_words [] = []"
| "join_words [w] = w"
| "join_words (w # v # ws) = w @ CHR '' '' # join_words (v # ws)"

definition max_text_characters :: nat where "max_text_characters = 200"

definition bounded_text :: "string \<Rightarrow> bool" where
  "bounded_text s \<longleftrightarrow> 1 \<le> text_length s \<and> text_length s \<le> max_text_characters"

definition text_identity :: "text_library \<Rightarrow> string \<Rightarrow> string" where
  "text_identity U s = casefold U (nfkc U s)"

definition normalize_text :: "text_library \<Rightarrow> string \<Rightarrow> string result" where
  "normalize_text U s =
     (let n = nfkc U s in
      if has_control U n then Inl (ValueError ''text contains a forbidden control character'')
      else let c = join_words (split_words U n) in
        if c = [] \<or> max_text_characters < text_length c
        then Inl (ValueError ''text length is outside the allowed range'')
        else Inr c)"

definition has_unique_text :: "text_library \<Rightarrow> string list \<Rightarrow> bool" where
  "has_unique_text U vs \<longleftrightarrow> distinct (map (text_identity U) vs)"

text \<open>What the documentation of these functions promises for the ASCII names the registry uses:
  a registry value or attribute key is its own NFKC form and its own case folding, one word and
  free of control characters.\<close>

definition plain_name :: "text_library \<Rightarrow> string \<Rightarrow> bool" where
  "plain_name U s \<longleftrightarrow> nfkc U s = s \<and> casefold U s = s \<and> split_words U s = [s] \<and> \<not> has_control U s"

definition ascii_library :: "text_library \<Rightarrow> bool" where
  "ascii_library U \<longleftrightarrow> (\<forall>s. is_identifier s \<or> is_attribute_key s \<longrightarrow> plain_name U s)"

end
