(* ===== verification/Utf8_Text.thy ===== *)
theory Utf8_Text
  imports Text_Values
begin

text \<open>
  Characters of UTF-8 text: the modelled modules search, slice and strip strings by code point.
  \<open>str.isspace\<close> and the control characters among the spaces are listed; everything else that
  depends on the Unicode tables stays in \<open>text_library\<close>.
\<close>

section \<open>Characters\<close>

definition continues :: "char \<Rightarrow> bool" where
  "continues c \<longleftrightarrow> code_of c div 64 = 2"

function chars_of :: "string \<Rightarrow> string list" where
  "chars_of [] = []"
| "chars_of (c # s) = (c # takeWhile continues s) # chars_of (dropWhile continues s)"
  by pat_completeness auto
termination
  by (relation "measure length") (auto simp: length_dropWhile_le less_Suc_eq_le)

text \<open>The code point of one character.\<close>

fun char_code :: "string \<Rightarrow> nat" where
  "char_code [a] = code_of a"
| "char_code [a, b] = (code_of a - 192) * 64 + (code_of b - 128)"
| "char_code [a, b, c] = ((code_of a - 224) * 64 + (code_of b - 128)) * 64 + (code_of c - 128)"
| "char_code [a, b, c, d] =
     (((code_of a - 240) * 64 + (code_of b - 128)) * 64 + (code_of c - 128)) * 64 + (code_of d - 128)"
| "char_code s = 0"

definition char_codes :: "string \<Rightarrow> nat list" where
  "char_codes s = map char_code (chars_of s)"

definition space_codes :: "nat list" where
  "space_codes =
     [0x9, 0xA, 0xB, 0xC, 0xD, 0x1C, 0x1D, 0x1E, 0x1F, 0x20, 0x85, 0xA0, 0x1680, 0x2000,
      0x2001, 0x2002, 0x2003, 0x2004, 0x2005, 0x2006, 0x2007, 0x2008, 0x2009, 0x200A,
      0x2028, 0x2029, 0x202F, 0x205F, 0x3000]"

definition is_space :: "string \<Rightarrow> bool" where
  "is_space ch \<longleftrightarrow> char_code ch \<in> set space_codes"

text \<open>The control characters that are white space: category \<open>C\<close> and \<open>isspace\<close>.\<close>

definition space_controls :: "nat list" where
  "space_controls = [0x9, 0xA, 0xB, 0xC, 0xD, 0x1C, 0x1D, 0x1E, 0x1F, 0x85]"

definition any_control :: "text_library \<Rightarrow> string \<Rightarrow> bool" where
  "any_control U s \<longleftrightarrow> has_control U s \<or> list_ex (\<lambda>n. n \<in> set space_controls) (char_codes s)"

section \<open>Operations of \<open>str\<close>\<close>

text \<open>\<open>text[a:b]\<close>, \<open>text.strip()\<close>, \<open>text.startswith\<close> and the suffix after a prefix.\<close>

definition slice :: "nat \<Rightarrow> nat \<Rightarrow> string \<Rightarrow> string" where
  "slice a b s = concat (take (b - a) (drop a (chars_of s)))"

definition skip_spaces :: "string \<Rightarrow> string" where
  "skip_spaces s = concat (dropWhile is_space (chars_of s))"

definition strip_text :: "string \<Rightarrow> string" where
  "strip_text s = concat (rev (dropWhile is_space (rev (dropWhile is_space (chars_of s)))))"

definition starts_with :: "string \<Rightarrow> string \<Rightarrow> bool" where
  "starts_with p s \<longleftrightarrow> take (length p) s = p"

definition after_prefix :: "string \<Rightarrow> string \<Rightarrow> string option" where
  "after_prefix p s = (if starts_with p s then Some (drop (length p) s) else None)"

text \<open>\<open>needle in text\<close> and the positions, in bytes, where a text occurs.\<close>

fun contains_text :: "string \<Rightarrow> string \<Rightarrow> bool" where
  "contains_text needle [] \<longleftrightarrow> needle = []"
| "contains_text needle (c # s) \<longleftrightarrow> starts_with needle (c # s) \<or> contains_text needle s"

section \<open>Facts\<close>

lemma concat_chars_of [simp]: "concat (chars_of s) = s"
  by (induction s rule: chars_of.induct) simp_all

lemma chars_of_nonempty: "ch \<in> set (chars_of s) \<Longrightarrow> ch \<noteq> []"
  by (induction s rule: chars_of.induct) auto

lemma contains_text_iff: "contains_text p s \<longleftrightarrow> (\<exists>a b. s = a @ p @ b)"
proof (induction s)
  case (Cons c s)
  show ?case
  proof
    assume "contains_text p (c # s)"
    then consider "starts_with p (c # s)" | "contains_text p s" by auto
    then show "\<exists>a b. c # s = a @ p @ b"
    proof cases
      case 1
      then have "c # s = [] @ p @ drop (length p) (c # s)"
        by (metis append_Nil append_take_drop_id starts_with_def)
      then show ?thesis by blast
    next
      case 2
      with Cons.IH obtain a b where "c # s = (c # a) @ p @ b" by auto
      then show ?thesis by blast
    qed
  next
    assume "\<exists>a b. c # s = a @ p @ b"
    then obtain a b where eq: "c # s = a @ p @ b" by blast
    show "contains_text p (c # s)"
    proof (cases a)
      case Nil
      with eq have "starts_with p (c # s)" by (simp add: starts_with_def)
      then show ?thesis by simp
    next
      case (Cons d a')
      with eq Cons.IH show ?thesis by auto
    qed
  qed
qed auto

end
