(* ===== verification/Approval_Plan.thy ===== *)
theory Approval_Plan
  imports Usage_Ledger Utf8_Text
begin

text \<open>
  \<open>src/search_v2/approval.py\<close>: the plan a user approves before a product search runs (intent,
  query plan, image bindings, per-provider allowances, runtime bindings, a lifetime of exactly
  fifteen minutes), its validation and its digest. The intent, the query plan and the typed
  requirement proposal come from \<open>intent.py\<close>, \<open>query_planner.py\<close> and \<open>typed_intent_adapter.py\<close>;
  what this module calls of them is the record \<open>planner\<close>.
\<close>

section \<open>What the planning modules provide\<close>

text \<open>
  \<open>validate_\<close> functions are \<open>model_validate\<close> of the class; \<open>_sha256\<close> the module's digest
  function; \<open>_json\<close> the \<open>model_dump(mode="json")\<close> of a value. \<open>json_time\<close> is the text pydantic
  gives a timestamp. The next three are the constants of \<open>typed_ranking.py\<close> and
  \<open>product_evidence.py\<close> that runtime bindings are compared with; \<open>text_tables\<close> are the functions of the
  Unicode tables.
\<close>

record ('i, 'q, 'p) planner =
  validate_intent :: "'i \<Rightarrow> 'i result"
  intent_sha256 :: "'i \<Rightarrow> string"
  intent_prompt_sha256 :: "'i \<Rightarrow> string"
  intent_schema_sha256 :: "'i \<Rightarrow> string"
  intent_json :: "'i \<Rightarrow> json"
  validate_query_plan :: "'q \<Rightarrow> 'q result"
  query_plan_sha256 :: "'q \<Rightarrow> string"
  query_plan_intent_sha256 :: "'q \<Rightarrow> string"
  query_plan_json :: "'q \<Rightarrow> json"
  build_proposal :: "'i \<Rightarrow> 'p result"
  validate_proposal :: "'p \<Rightarrow> 'p result"
  proposal_sha256 :: "'p \<Rightarrow> string"
  proposal_blocking :: "'p \<Rightarrow> bool"
  json_time :: "time \<Rightarrow> string"
  ranking_profile_id :: string
  ranking_profile_sha256 :: string
  evidence_profile_sha256 :: string
  text_tables :: text_library

section \<open>Data\<close>

definition approval_ttl :: int where "approval_ttl = minutes 15"

text \<open>\<open>BoundedIdentifier\<close> with \<open>_bounded_identifier\<close>: 1 to 200 characters, none of a control category and
  no white space at either end.\<close>

definition is_bounded_identifier :: "text_library \<Rightarrow> string \<Rightarrow> bool" where
  "is_bounded_identifier U s \<longleftrightarrow> 1 \<le> text_length s \<and> text_length s \<le> 200 \<and>
     s = strip_text s \<and> \<not> any_control U s"

record approved_usage =
  allow_provider :: provider
  allow_calls :: int
  allow_tokens :: int
  allow_cost_microusd :: int
  allow_pricing_policy :: string

definition approved_usage_ok :: "approved_usage \<Rightarrow> bool" where
  "approved_usage_ok a \<longleftrightarrow> 0 \<le> allow_calls a \<and> allow_calls a \<le> max_usage_calls \<and>
     0 \<le> allow_tokens a \<and> allow_tokens a \<le> max_usage_tokens \<and>
     0 \<le> allow_cost_microusd a \<and> allow_cost_microusd a \<le> max_usage_cost_microusd \<and>
     is_digest (allow_pricing_policy a)"

record runtime_bindings =
  rt_bonsai_model :: string
  rt_bonsai_prompt :: string
  rt_bonsai_schema :: string
  rt_cloudflare_model :: "string option"
  rt_image_prompt :: "string option"
  rt_ranking_profile :: string
  rt_ranking_sha256 :: string
  rt_evidence_sha256 :: string
  rt_implementation :: string
  rt_usage_policy :: string

definition runtime_fields_ok :: "text_library \<Rightarrow> runtime_bindings \<Rightarrow> bool" where
  "runtime_fields_ok U b \<longleftrightarrow> is_bounded_identifier U (rt_bonsai_model b) \<and>
     is_digest (rt_bonsai_prompt b) \<and> is_digest (rt_bonsai_schema b) \<and>
     opt_all (is_bounded_identifier U) (rt_cloudflare_model b) \<and> opt_all is_digest (rt_image_prompt b) \<and>
     is_bounded_identifier U (rt_ranking_profile b) \<and> is_digest (rt_ranking_sha256 b) \<and>
     is_digest (rt_evidence_sha256 b) \<and> is_digest (rt_implementation b) \<and>
     is_digest (rt_usage_policy b)"

definition validate_runtime :: "('i, 'q, 'p) planner \<Rightarrow> runtime_bindings \<Rightarrow> unit result" where
  "validate_runtime P b =
     (if \<not> runtime_fields_ok (text_tables P) b
      then Inl (ValidationError ''runtime bindings field'')
      else if (rt_cloudflare_model b = None) \<noteq> (rt_image_prompt b = None)
      then Inl (ValidationError ''Cloudflare runtime bindings must be present together'')
      else if rt_ranking_profile b \<noteq> ranking_profile_id P \<or>
              rt_ranking_sha256 b \<noteq> ranking_profile_sha256 P \<or>
              rt_evidence_sha256 b \<noteq> evidence_profile_sha256 P
      then Inl (ValidationError ''typed ranking runtime bindings are unsupported'')
      else Inr ())"

datatype plan_image_mode = Images_off | Images_approved

datatype image_profile = Legacy_four_views | Reference_counterfactual

record ('i, 'q) approval_plan =
  plan_owner :: string
  plan_session :: string
  plan_intent :: 'i
  plan_intent_sha256 :: string
  plan_proposal_sha256 :: string
  plan_query :: 'q
  plan_request_sha256 :: string
  plan_image_mode :: plan_image_mode
  plan_image_set :: "string option"
  plan_image_metadata :: "string option"
  plan_reference :: "string option"
  plan_profile :: image_profile
  plan_allowances :: "approved_usage list"
  plan_runtime :: runtime_bindings
  plan_created :: time
  plan_expires :: time

section \<open>Validation\<close>

definition plan_fields_ok :: "('i, 'q) approval_plan \<Rightarrow> bool" where
  "plan_fields_ok a \<longleftrightarrow> is_subject_id (plan_owner a) \<and> is_subject_id (plan_session a) \<and>
     is_digest (plan_intent_sha256 a) \<and> is_digest (plan_proposal_sha256 a) \<and>
     is_digest (plan_request_sha256 a) \<and> opt_all is_digest (plan_image_set a) \<and>
     opt_all is_digest (plan_image_metadata a) \<and> opt_all is_digest (plan_reference a) \<and>
     length (plan_allowances a) = 3 \<and> list_all approved_usage_ok (plan_allowances a)"

text \<open>The dictionary of allowances by provider; a later entry replaces an earlier one.\<close>

definition allowance_of :: "approved_usage list \<Rightarrow> provider \<Rightarrow> approved_usage option" where
  "allowance_of as = map_of (rev (map (\<lambda>a. (allow_provider a, a)) as))"

definition allowed_calls :: "('i, 'q) approval_plan \<Rightarrow> int list result" where
  "allowed_calls a =
     (if plan_profile a = Reference_counterfactual
      then (if plan_reference a = None
            then Inl (ValidationError ''reference-only flow requires its generation binding'')
            else Inr [2..8])
      else Inr (if plan_reference a = None then [4, 8] else [6..16]))"

definition check_plan_identity :: "('i, 'q, 'p) planner \<Rightarrow> ('i, 'q) approval_plan \<Rightarrow> unit result" where
  "check_plan_identity P a =
     bind (rewrap is_ValueError (ValidationError ''typed proposal'')
             (build_proposal P (plan_intent a))) (\<lambda>proposal.
     bind (require (plan_intent_sha256 a = intent_sha256 P (plan_intent a))
             (ValidationError ''approval intent digest does not match intent'')) (\<lambda>_.
     bind (require (\<not> proposal_blocking P proposal \<and>
                    plan_proposal_sha256 a = proposal_sha256 P proposal)
             (ValidationError ''approval typed proposal does not match intent'')) (\<lambda>_.
     bind (require (query_plan_intent_sha256 P (plan_query a) = intent_sha256 P (plan_intent a))
             (ValidationError ''query plan does not match intent'')) (\<lambda>_.
     require (rt_bonsai_prompt (plan_runtime a) = intent_prompt_sha256 P (plan_intent a) \<and>
              rt_bonsai_schema (plan_runtime a) = intent_schema_sha256 P (plan_intent a))
       (ValidationError ''runtime prompt or schema does not match intent provenance'')))))"

definition check_plan_images :: "('i, 'q) approval_plan \<Rightarrow> approved_usage \<Rightarrow> unit result" where
  "check_plan_images a cloudflare =
     (let bindings = plan_image_set a \<noteq> None \<and> plan_image_metadata a \<noteq> None;
          runtime = rt_cloudflare_model (plan_runtime a) \<noteq> None
      in if (plan_image_set a = None) \<noteq> (plan_image_metadata a = None)
         then Inl (ValidationError ''image bindings must be all present or all absent'')
         else case plan_image_mode a of
           Images_off \<Rightarrow>
             if bindings \<or> plan_reference a \<noteq> None \<or> plan_profile a \<noteq> Legacy_four_views
             then Inl (ValidationError ''image-off plan must not contain image bindings'')
             else if runtime
             then Inl (ValidationError ''image-off plan must not contain Cloudflare runtime'')
             else require (allow_calls cloudflare = 0 \<and> allow_tokens cloudflare = 0 \<and>
                           allow_cost_microusd cloudflare = 0)
                    (ValidationError ''image-off plan must have a zero Cloudflare allowance'')
         | Images_approved \<Rightarrow>
             if \<not> bindings
             then Inl (ValidationError ''approved image plan requires image bindings'')
             else if \<not> runtime
             then Inl (ValidationError ''approved image plan requires Cloudflare runtime'')
             else bind (allowed_calls a) (\<lambda>ns.
                    require (allow_calls cloudflare \<in> set ns)
                      (ValidationError ''approved image plan has an invalid generation allowance'')))"

definition check_plan_bindings :: "('i, 'q, 'p) planner \<Rightarrow> ('i, 'q) approval_plan \<Rightarrow> unit result" where
  "check_plan_bindings P a =
     bind (check_plan_identity P a) (\<lambda>_.
     bind (require (plan_expires a - plan_created a = approval_ttl)
             (ValidationError ''search approval plan must expire after exactly 15 minutes'')) (\<lambda>_.
     case (allowance_of (plan_allowances a) Bonsai, allowance_of (plan_allowances a) Cloudflare,
           allowance_of (plan_allowances a) Outscraper) of
       (Some b, Some c, Some s) \<Rightarrow>
         bind (require (allow_calls s = 1)
                 (ValidationError ''approval plan must allow exactly one Outscraper search call''))
           (\<lambda>_. check_plan_images a c)
     | _ \<Rightarrow> Inl (ValidationError ''approval plan requires one allowance per provider'')))"

text \<open>\<open>SearchApprovalPlan.model_validate\<close>: the nested values are validated again first.\<close>

definition validate_plan ::
  "('i, 'q, 'p) planner \<Rightarrow> ('i, 'q) approval_plan \<Rightarrow> ('i, 'q) approval_plan result" where
  "validate_plan P a =
     bind (require (plan_fields_ok a) (ValidationError ''approval plan field'')) (\<lambda>_.
     bind (rewrap is_ValueError (ValidationError ''intent'') (validate_intent P (plan_intent a))) (\<lambda>i.
     bind (rewrap is_ValueError (ValidationError ''query_plan'')
             (validate_query_plan P (plan_query a))) (\<lambda>q.
     bind (validate_runtime P (plan_runtime a)) (\<lambda>_.
       let a' = a\<lparr>plan_intent := i, plan_query := q\<rparr>
       in bind (check_plan_bindings P a') (\<lambda>_. Inr a')))))"

definition build_search_approval_plan ::
  "('i, 'q, 'p) planner \<Rightarrow> string \<Rightarrow> string \<Rightarrow> 'i \<Rightarrow> 'q \<Rightarrow> string \<Rightarrow> string option \<Rightarrow> string option
     \<Rightarrow> approved_usage list \<Rightarrow> runtime_bindings \<Rightarrow> time \<Rightarrow> string option \<Rightarrow> image_profile
     \<Rightarrow> ('i, 'q) approval_plan result" where
  "build_search_approval_plan P owner session intent query request image_set metadata allowances
       runtime created reference profile =
     bind (build_proposal P intent) (\<lambda>proposal.
     bind (time_add created approval_ttl) (\<lambda>expires.
     validate_plan P
       \<lparr>plan_owner = owner, plan_session = session, plan_intent = intent,
        plan_intent_sha256 = intent_sha256 P intent,
        plan_proposal_sha256 = proposal_sha256 P proposal, plan_query = query,
        plan_request_sha256 = request,
        plan_image_mode = (if image_set = None \<and> metadata = None then Images_off else Images_approved),
        plan_image_set = image_set, plan_image_metadata = metadata, plan_reference = reference,
        plan_profile = profile, plan_allowances = allowances, plan_runtime = runtime,
        plan_created = created, plan_expires = expires\<rparr>))"

section \<open>The digest of a plan\<close>

definition allowance_json :: "approved_usage \<Rightarrow> json" where
  "allowance_json a = JObj
     [(''provider'', JStr (provider_name (allow_provider a))), (''calls'', JInt (allow_calls a)),
      (''tokens'', JInt (allow_tokens a)), (''cost_microusd'', JInt (allow_cost_microusd a)),
      (''pricing_policy_sha256'', JStr (allow_pricing_policy a))]"

definition runtime_json :: "runtime_bindings \<Rightarrow> json" where
  "runtime_json b = JObj
     [(''bonsai_model_id'', JStr (rt_bonsai_model b)),
      (''bonsai_prompt_sha256'', JStr (rt_bonsai_prompt b)),
      (''bonsai_schema_sha256'', JStr (rt_bonsai_schema b)),
      (''cloudflare_model_id'', json_opt JStr (rt_cloudflare_model b)),
      (''image_prompt_sha256'', json_opt JStr (rt_image_prompt b)),
      (''ranking_profile_id'', JStr (rt_ranking_profile b)),
      (''ranking_profile_sha256'', JStr (rt_ranking_sha256 b)),
      (''product_evidence_profile_sha256'', JStr (rt_evidence_sha256 b)),
      (''implementation_sha256'', JStr (rt_implementation b)),
      (''usage_policy_sha256'', JStr (rt_usage_policy b))]"

fun image_mode_name :: "plan_image_mode \<Rightarrow> string" where
  "image_mode_name Images_off = ''off''"
| "image_mode_name Images_approved = ''approved''"

fun image_profile_name :: "image_profile \<Rightarrow> string" where
  "image_profile_name Legacy_four_views = ''legacy_four_views''"
| "image_profile_name Reference_counterfactual = ''reference_counterfactual''"

definition plan_json :: "('i, 'q, 'p) planner \<Rightarrow> ('i, 'q) approval_plan \<Rightarrow> json" where
  "plan_json P a = JObj
     [(''schema_version'', JStr ''3.0''),
      (''owner_id'', JStr (plan_owner a)),
      (''session_id'', JStr (plan_session a)),
      (''intent'', intent_json P (plan_intent a)),
      (''intent_sha256'', JStr (plan_intent_sha256 a)),
      (''typed_requirement_proposal_sha256'', JStr (plan_proposal_sha256 a)),
      (''query_plan'', query_plan_json P (plan_query a)),
      (''outscraper_request_sha256'', JStr (plan_request_sha256 a)),
      (''image_mode'', JStr (image_mode_name (plan_image_mode a))),
      (''image_set_sha256'', json_opt JStr (plan_image_set a)),
      (''image_request_metadata_sha256'', json_opt JStr (plan_image_metadata a)),
      (''reference_generation_sha256'', json_opt JStr (plan_reference a)),
      (''image_generation_profile'', JStr (image_profile_name (plan_profile a))),
      (''usage_allowances'', JArr (map allowance_json (sort_key allow_provider (plan_allowances a)))),
      (''runtime_bindings'', runtime_json (plan_runtime a)),
      (''created_at'', JStr (json_time P (plan_created a))),
      (''expires_at'', JStr (json_time P (plan_expires a)))]"

definition plan_text :: "('i, 'q, 'p) planner \<Rightarrow> ('i, 'q) approval_plan \<Rightarrow> string" where
  "plan_text P a = ''amazon-explorer-approved-search-plan-v3'' @ CHR 0x0A # dumps (plan_json P a)"

definition search_approval_plan_sha256 ::
  "('i, 'q, 'p) planner \<Rightarrow> (string \<Rightarrow> string) \<Rightarrow> ('i, 'q) approval_plan \<Rightarrow> string result" where
  "search_approval_plan_sha256 P H a = bind (validate_plan P a) (\<lambda>a'. Inr (H (plan_text P a')))"

end
