(* ===== verification/Session.thy ===== *)
theory Session
  imports Approval_Ledger Approval_Plan
begin

text \<open>
  The search session of \<open>src/search_v2/state_machine.py\<close>: the snapshot with its state contract
  and every transition, each from the snapshot it is given to the next one or an exception.
  Arguments have their annotated types; timestamps are \<open>time_arg\<close> values.
\<close>

section \<open>Data\<close>

definition max_image_set_attempts :: int where "max_image_set_attempts = 2"

datatype search_state =
    Draft | Intent_processing | Intent_review | Image_generating | Image_generation_failed
  | Image_review | Search_approval | Scrape_submitted | Products_received | Products_normalized
  | Search_completed | Search_failed

datatype search_outcome = Results | Empty

datatype failure_stage = Product_search | Product_normalization | Ranking

datatype failure_code = Product_search_failed | Product_normalization_failed | Ranking_failed

datatype requirement_status = Ready | Blocking

datatype session_image_mode = Image_off | Image_on

record session =
  owner :: string
  session_id :: string
  revision :: int
  state :: search_state
  intent_digest :: "string option"
  query_digest :: "string option"
  proposal_digest :: "string option"
  proposal_status :: "requirement_status option"
  image_mode :: session_image_mode
  image_attempts :: int
  active_image :: "string option"
  failed_image :: "string option"
  image_set :: "string option"
  image_metadata :: "string option"
  usage_policy :: "string option"
  approval :: "approval_grant option"
  created_at :: time
  updated_at :: time
  received_count :: "int option"
  normalized_count :: "int option"
  rejected_count :: "int option"
  ranked_count :: "int option"
  normalized_batch :: "string option"
  ranked_batch :: "string option"
  outcome :: "search_outcome option"
  failed_stage :: "failure_stage option"
  failed_code :: "failure_code option"

section \<open>The state contract\<close>

definition count_ok :: "int \<Rightarrow> bool" where
  "count_ok n \<longleftrightarrow> 0 \<le> n \<and> n \<le> 48"

definition session_fields_ok :: "session \<Rightarrow> bool" where
  "session_fields_ok s \<longleftrightarrow>
     is_subject_id (owner s) \<and> is_subject_id (session_id s) \<and> 0 \<le> revision s \<and>
     opt_all is_digest (intent_digest s) \<and> opt_all is_digest (query_digest s) \<and>
     opt_all is_digest (proposal_digest s) \<and>
     0 \<le> image_attempts s \<and> image_attempts s \<le> max_image_set_attempts \<and>
     opt_all is_reservation_id (active_image s) \<and> opt_all is_reservation_id (failed_image s) \<and>
     opt_all is_digest (image_set s) \<and> opt_all is_digest (image_metadata s) \<and>
     opt_all is_digest (usage_policy s) \<and>
     opt_all (\<lambda>g. validate_grant g = Inr ()) (approval s) \<and>
     opt_all count_ok (received_count s) \<and> opt_all count_ok (normalized_count s) \<and>
     opt_all count_ok (rejected_count s) \<and> opt_all count_ok (ranked_count s) \<and>
     opt_all is_digest (normalized_batch s) \<and> opt_all is_digest (ranked_batch s)"

definition has_review :: "session \<Rightarrow> bool" where
  "has_review s \<longleftrightarrow> intent_digest s \<noteq> None \<and> proposal_digest s \<noteq> None \<and> proposal_status s \<noteq> None"

definition any_review :: "session \<Rightarrow> bool" where
  "any_review s \<longleftrightarrow> intent_digest s \<noteq> None \<or> proposal_digest s \<noteq> None \<or> proposal_status s \<noteq> None"

definition check_review :: "session \<Rightarrow> unit result" where
  "check_review s =
     (if any_review s \<noteq> has_review s
      then Inl (ValidationError ''intent and typed proposal bindings must be present together'')
      else if state s \<in> {Draft, Intent_processing} \<and> (has_review s \<or> query_digest s \<noteq> None)
      then Inl (ValidationError ''pre-review state must not contain a reviewed plan'')
      else if state s \<notin> {Draft, Intent_processing} \<and> \<not> has_review s
      then Inl (ValidationError ''review and execution states require a reviewed plan'')
      else if proposal_status s = Some Blocking
      then require (state s = Intent_review \<and> query_digest s = None)
             (ValidationError ''blocking typed conditions require a query-less intent review'')
      else require (\<not> (has_review s \<and> query_digest s = None))
             (ValidationError ''ready typed conditions require a query plan''))"

definition image_bindings_present :: "session \<Rightarrow> bool" where
  "image_bindings_present s \<longleftrightarrow> image_set s \<noteq> None \<and> image_metadata s \<noteq> None"

definition execution_states :: "search_state set" where
  "execution_states =
     {Scrape_submitted, Products_received, Products_normalized, Search_completed, Search_failed}"

definition check_images_off :: "session \<Rightarrow> unit result" where
  "check_images_off s =
     (if image_attempts s \<noteq> 0 \<or> active_image s \<noteq> None \<or> failed_image s \<noteq> None \<or>
         image_bindings_present s \<or> usage_policy s \<noteq> None
      then Inl (ValidationError ''image-off session must not contain image execution state'')
      else require (state s \<notin> {Image_generating, Image_generation_failed, Image_review})
             (ValidationError ''image state requires image mode on''))"

definition check_images_on :: "session \<Rightarrow> unit result" where
  "check_images_on s =
     (if image_attempts s < 1 \<or> usage_policy s = None
      then Inl (ValidationError ''image-on session requires a started set and usage policy'')
      else if state s = Image_generating
      then require (active_image s \<noteq> None \<and> failed_image s = None \<and> \<not> image_bindings_present s)
             (ValidationError ''image generation requires an active reservation only'')
      else if state s = Image_generation_failed
      then require (active_image s = None \<and> failed_image s \<noteq> None \<and> \<not> image_bindings_present s)
             (ValidationError ''failed image generation requires a failed reservation only'')
      else if state s \<in> {Image_review, Search_approval} \<union> execution_states
      then require (active_image s = None \<and> failed_image s = None \<and> image_bindings_present s)
             (ValidationError ''post-generation state requires completed image bindings'')
      else Inl (ValidationError ''image mode on is invalid in the current state''))"

definition check_images :: "session \<Rightarrow> unit result" where
  "check_images s =
     bind (require ((image_set s = None) = (image_metadata s = None))
             (ValidationError ''image result bindings must be present together'')) (\<lambda>_.
     case image_mode s of Image_off \<Rightarrow> check_images_off s | Image_on \<Rightarrow> check_images_on s)"

definition check_approval :: "session \<Rightarrow> unit result" where
  "check_approval s =
     (case approval s of
        None \<Rightarrow> require (state s \<notin> execution_states)
          (ValidationError ''submitted search requires a consumed approval'')
      | Some g \<Rightarrow>
          if state s = Search_approval
          then require (consumed_at g = None)
                 (ValidationError ''search approval state cannot contain a consumed approval'')
          else if state s \<in> execution_states
          then require (consumed_at g \<noteq> None)
                 (ValidationError ''submitted search requires consumed approval'')
          else Inl (ValidationError ''approval grant is invalid in the current state''))"

definition has_normalized :: "session \<Rightarrow> bool" where
  "has_normalized s \<longleftrightarrow>
     normalized_count s \<noteq> None \<and> rejected_count s \<noteq> None \<and> normalized_batch s \<noteq> None"

definition any_normalized :: "session \<Rightarrow> bool" where
  "any_normalized s \<longleftrightarrow>
     normalized_count s \<noteq> None \<or> rejected_count s \<noteq> None \<or> normalized_batch s \<noteq> None"

definition any_ranked :: "session \<Rightarrow> bool" where
  "any_ranked s \<longleftrightarrow> ranked_count s \<noteq> None \<or> ranked_batch s \<noteq> None"

definition any_verdict :: "session \<Rightarrow> bool" where
  "any_verdict s \<longleftrightarrow> outcome s \<noteq> None \<or> failed_stage s \<noteq> None \<or> failed_code s \<noteq> None"

definition counts_match :: "session \<Rightarrow> bool" where
  "counts_match s \<longleftrightarrow>
     (case (normalized_count s, rejected_count s, received_count s) of
        (Some n, Some r, Some c) \<Rightarrow> n + r = c
      | _ \<Rightarrow> False)"

definition completed_ok :: "session \<Rightarrow> bool" where
  "completed_ok s \<longleftrightarrow> has_normalized s \<and> ranked_batch s \<noteq> None \<and>
     failed_stage s = None \<and> failed_code s = None \<and>
     (case (ranked_count s, outcome s) of
        (Some k, Some x) \<Rightarrow> normalized_count s = Some k \<and> (x = Results \<longleftrightarrow> 0 < k)
      | _ \<Rightarrow> False)"

fun expected_failure :: "failure_stage \<Rightarrow> failure_code \<times> bool \<times> bool" where
  "expected_failure Product_search = (Product_search_failed, False, False)"
| "expected_failure Product_normalization = (Product_normalization_failed, True, False)"
| "expected_failure Ranking = (Ranking_failed, True, True)"

definition check_failed :: "session \<Rightarrow> unit result" where
  "check_failed s =
     (if outcome s \<noteq> None \<or> any_ranked s
      then Inl (ValidationError ''failed search must not contain a completed result'')
      else case failed_stage s of
        None \<Rightarrow> Inl (ValidationError ''failed search requires a failure stage'')
      | Some stage \<Rightarrow>
          (case expected_failure stage of (code, received, normalized) \<Rightarrow>
             if failed_code s \<noteq> Some code
             then Inl (ValidationError ''failed search code does not match its stage'')
             else if (received_count s \<noteq> None) \<noteq> received
             then Inl (ValidationError ''failed search received progress is inconsistent'')
             else require (has_normalized s = normalized)
                    (ValidationError ''failed search normalized progress is inconsistent'')))"

definition check_progress :: "session \<Rightarrow> unit result" where
  "check_progress s =
     (if state s \<notin> {Products_received, Products_normalized, Search_completed, Search_failed}
      then require (\<not> (received_count s \<noteq> None \<or> any_normalized s \<or> any_ranked s \<or> any_verdict s))
             (ValidationError ''pre-result state must not contain product progress'')
      else if any_normalized s \<noteq> has_normalized s
      then Inl (ValidationError ''normalized product progress must be present together'')
      else if has_normalized s \<and> \<not> counts_match s
      then Inl (ValidationError ''normalized product counts do not match received candidates'')
      else if state s = Products_received
      then require (received_count s \<noteq> None \<and> \<not> (any_normalized s \<or> any_ranked s \<or> any_verdict s))
             (ValidationError ''received product state is inconsistent'')
      else if state s = Products_normalized
      then require (has_normalized s \<and> \<not> (any_ranked s \<or> any_verdict s))
             (ValidationError ''normalized product state is inconsistent'')
      else if state s = Search_completed
      then require (completed_ok s) (ValidationError ''completed search state is inconsistent'')
      else check_failed s)"

text \<open>\<open>SearchSessionSnapshot.model_validate\<close>.\<close>

definition validate_session :: "session \<Rightarrow> unit result" where
  "validate_session s =
     bind (require (session_fields_ok s) (ValidationError ''session field'')) (\<lambda>_.
     bind (require (created_at s \<le> updated_at s)
             (ValidationError ''session update precedes creation'')) (\<lambda>_.
     bind (check_review s) (\<lambda>_.
     bind (check_images s) (\<lambda>_.
     bind (check_approval s) (\<lambda>_. check_progress s)))))"

section \<open>Shared steps of a transition\<close>

definition prepare_transition ::
  "session \<Rightarrow> int \<Rightarrow> search_state list \<Rightarrow> time_arg \<Rightarrow> unit result" where
  "prepare_transition s expected allowed now =
     bind (rewrap is_ValueError (SearchStateError ''search session snapshot is invalid'')
             (validate_session s)) (\<lambda>_.
     bind (require (expected = revision s) (SearchStateError ''stale session revision'')) (\<lambda>_.
     bind (require (state s \<in> set allowed) (SearchStateError ''state transition is not allowed'')) (\<lambda>_.
     bind (utc_datetime ''now'' now) (\<lambda>t.
     require (updated_at s \<le> t)
       (SearchStateError ''state transition time precedes the current snapshot'')))))"

definition advance :: "session \<Rightarrow> time_arg \<Rightarrow> (session \<Rightarrow> session) \<Rightarrow> session result" where
  "advance s now updates =
     bind (utc_datetime ''now'' now) (\<lambda>t.
       let s' = (updates s)\<lparr>revision := revision s + 1, updated_at := t\<rparr>
       in bind (rewrap is_ValueError (SearchStateError ''state transition produced an invalid snapshot'')
                 (validate_session s')) (\<lambda>_. Inr s'))"

definition validated_digest :: "string \<Rightarrow> string \<Rightarrow> string result" where
  "validated_digest field_name v =
     bind (require (is_digest v) (SearchStateError (field_name @ '' is not a SHA-256 digest''))) (\<lambda>_. Inr v)"

text \<open>\<open>value or ""\<close>.\<close>

definition or_empty :: "string option \<Rightarrow> string" where
  "or_empty v = (case v of None \<Rightarrow> [] | Some s \<Rightarrow> s)"

definition validated_intent_plan ::
  "('i, 'q, 'p) planner \<Rightarrow> 'i \<Rightarrow> 'q option \<Rightarrow> 'p \<Rightarrow> ('i \<times> 'q option \<times> 'p) result" where
  "validated_intent_plan P intent query proposal =
     (let invalid = SearchStateError ''intent, query plan, or typed proposal is invalid'';
          caught = (\<lambda>e. is_TypeError e \<or> is_ValueError e)
      in bind (rewrap caught invalid (validate_intent P intent)) (\<lambda>i.
         bind (rewrap caught invalid (validate_proposal P proposal)) (\<lambda>p.
         bind (rewrap caught invalid (build_proposal P i)) (\<lambda>expected.
           if p \<noteq> expected
           then Inl (SearchStateError ''typed proposal does not match intent'')
           else if proposal_blocking P p
           then (if query \<noteq> None
                 then Inl (SearchStateError ''blocking typed proposal must not include a query plan'')
                 else Inr (i, None, p))
           else case query of
             None \<Rightarrow> Inl (SearchStateError ''ready typed proposal requires a query plan'')
           | Some q \<Rightarrow>
               bind (rewrap is_ValueError invalid (validate_query_plan P q)) (\<lambda>q'.
                 if query_plan_intent_sha256 P q' \<noteq> intent_sha256 P i
                 then Inl (SearchStateError ''query plan does not match intent'')
                 else Inr (i, Some q', p))))))"

text \<open>The clauses a session's image reservation has in common at its start, its end and its failure.\<close>

definition image_set_reservation :: "session \<Rightarrow> usage_reservation \<Rightarrow> bool" where
  "image_set_reservation s r \<longleftrightarrow>
     res_provider r = Cloudflare \<and> res_operation r = Op_image_set \<and>
     res_owner r = owner s \<and> res_session r = session_id s \<and>
     calls (res_amount r) = 4 \<and> tokens (res_amount r) = 0 \<and>
     res_binding r = or_empty (query_digest s)"

definition validated_image_reservation ::
  "session \<Rightarrow> usage_reservation option \<Rightarrow> time_arg \<Rightarrow> usage_reservation result" where
  "validated_image_reservation s reservation now =
     (case reservation of
        None \<Rightarrow> Inl (SearchStateError ''started image reservation is required'')
      | Some r \<Rightarrow>
          bind (rewrap is_ValueError (SearchStateError ''started image reservation is invalid'')
                  (validate_reservation r)) (\<lambda>_.
            if \<not> (res_status r = Started \<and> image_set_reservation s r)
            then Inl (SearchStateError ''started image reservation does not match the session'')
            else bind (utc_datetime ''now'' now) (\<lambda>t.
              if \<not> (\<exists>a\<in>set_option (started_at r). a \<le> t)
              then Inl (SearchStateError ''started image reservation time is invalid'')
              else Inr r)))"

definition validated_completed_image_reservation ::
  "session \<Rightarrow> usage_reservation \<Rightarrow> time_arg \<Rightarrow> usage_reservation result" where
  "validated_completed_image_reservation s r now =
     bind (rewrap is_ValueError (SearchStateError ''succeeded image reservation is invalid'')
             (validate_reservation r)) (\<lambda>_.
       if \<not> (res_status r = Succeeded \<and> image_set_reservation s r \<and>
              Some (res_id r) = active_image s \<and> res_policy r = or_empty (usage_policy s))
       then Inl (SearchStateError ''succeeded image reservation does not match the session'')
       else bind (utc_datetime ''now'' now) (\<lambda>t.
         if \<not> (\<exists>f\<in>set_option (finished_at r). f \<le> t)
         then Inl (SearchStateError ''succeeded image reservation time is invalid'')
         else Inr r))"

definition validated_failed_image_reservation ::
  "session \<Rightarrow> usage_reservation \<Rightarrow> time_arg \<Rightarrow> usage_reservation result" where
  "validated_failed_image_reservation s r now =
     bind (rewrap is_ValueError (SearchStateError ''failed image reservation is invalid'')
             (validate_reservation r)) (\<lambda>_.
       if \<not> (res_status r = Failed \<and> image_set_reservation s r \<and>
              Some (res_id r) = active_image s \<and> res_policy r = or_empty (usage_policy s))
       then Inl (SearchStateError ''failed image reservation does not match the session'')
       else bind (utc_datetime ''now'' now) (\<lambda>t.
         if \<not> (\<exists>f\<in>set_option (finished_at r). f \<le> t)
         then Inl (SearchStateError ''failed image reservation time is invalid'')
         else Inr r))"

section \<open>Creation and intent\<close>

definition create_search_session :: "string \<Rightarrow> string \<Rightarrow> time_arg \<Rightarrow> session result" where
  "create_search_session own sid now =
     bind (utc_datetime ''now'' now) (\<lambda>t.
       let s = \<lparr>owner = own, session_id = sid, revision = 0, state = Draft, intent_digest = None,
                query_digest = None, proposal_digest = None, proposal_status = None,
                image_mode = Image_off, image_attempts = 0, active_image = None,
                failed_image = None, image_set = None, image_metadata = None,
                usage_policy = None, approval = None, created_at = t, updated_at = t,
                received_count = None, normalized_count = None, rejected_count = None,
                ranked_count = None, normalized_batch = None, ranked_batch = None,
                outcome = None, failed_stage = None, failed_code = None\<rparr>
       in bind (validate_session s) (\<lambda>_. Inr s))"

definition start_intent_processing :: "session \<Rightarrow> int \<Rightarrow> time_arg \<Rightarrow> session result" where
  "start_intent_processing s expected now =
     bind (prepare_transition s expected [Draft] now) (\<lambda>_.
     advance s now (\<lambda>x. x\<lparr>state := Intent_processing\<rparr>))"

definition status_of_proposal :: "('i, 'q, 'p) planner \<Rightarrow> 'p \<Rightarrow> requirement_status" where
  "status_of_proposal P p = (if proposal_blocking P p then Blocking else Ready)"

definition review_update ::
  "('i, 'q, 'p) planner \<Rightarrow> 'i \<Rightarrow> 'q option \<Rightarrow> 'p \<Rightarrow> session \<Rightarrow> session" where
  "review_update P i q p x = x\<lparr>state := Intent_review, intent_digest := Some (intent_sha256 P i),
     query_digest := map_option (query_plan_sha256 P) q,
     proposal_digest := Some (proposal_sha256 P p),
     proposal_status := Some (status_of_proposal P p)\<rparr>"

definition record_intent_plan ::
  "('i, 'q, 'p) planner \<Rightarrow> session \<Rightarrow> 'i \<Rightarrow> 'q option \<Rightarrow> 'p \<Rightarrow> int \<Rightarrow> time_arg \<Rightarrow> session result" where
  "record_intent_plan P s intent query proposal expected now =
     bind (prepare_transition s expected [Intent_processing] now) (\<lambda>_.
     bind (validated_intent_plan P intent query proposal) (\<lambda>(i, q, p).
     advance s now (review_update P i q p)))"

text \<open>The image fields of a session that runs without images.\<close>

definition clear_images :: "session \<Rightarrow> session" where
  "clear_images x = x\<lparr>image_mode := Image_off, image_attempts := 0, active_image := None,
     failed_image := None, image_set := None, image_metadata := None, usage_policy := None\<rparr>"

definition replace_intent_plan ::
  "('i, 'q, 'p) planner \<Rightarrow> session \<Rightarrow> 'i \<Rightarrow> 'q option \<Rightarrow> 'p \<Rightarrow> int \<Rightarrow> time_arg \<Rightarrow> session result" where
  "replace_intent_plan P s intent query proposal expected now =
     bind (prepare_transition s expected [Intent_review, Image_review, Search_approval] now) (\<lambda>_.
     bind (validated_intent_plan P intent query proposal) (\<lambda>(i, q, p).
     advance s now (\<lambda>x. (review_update P i q p (clear_images x))\<lparr>approval := None\<rparr>)))"

section \<open>Images\<close>

text \<open>The updates of the image transitions.\<close>

definition begin_images :: "usage_reservation \<Rightarrow> session \<Rightarrow> session" where
  "begin_images r x = x\<lparr>state := Image_generating, image_mode := Image_on, image_attempts := 1,
     active_image := Some (res_id r), failed_image := None, usage_policy := Some (res_policy r)\<rparr>"

definition finish_images :: "string \<Rightarrow> string \<Rightarrow> session \<Rightarrow> session" where
  "finish_images d m x = x\<lparr>state := Image_review, active_image := None, failed_image := None,
     image_set := Some d, image_metadata := Some m\<rparr>"

definition fail_images :: "usage_reservation \<Rightarrow> session \<Rightarrow> session" where
  "fail_images r x = x\<lparr>state := Image_generation_failed, active_image := None,
     failed_image := Some (res_id r), image_set := None, image_metadata := None\<rparr>"

definition next_attempt :: "usage_reservation \<Rightarrow> session \<Rightarrow> session" where
  "next_attempt r x = x\<lparr>state := Image_generating, image_attempts := image_attempts x + 1,
     active_image := Some (res_id r), failed_image := None, image_set := None, image_metadata := None\<rparr>"

definition compare_images :: "usage_reservation \<Rightarrow> string \<Rightarrow> string \<Rightarrow> session \<Rightarrow> session" where
  "compare_images r d m x = x\<lparr>state := Image_review, image_mode := Image_on, image_attempts := 1,
     usage_policy := Some (res_policy r), image_set := Some d, image_metadata := Some m\<rparr>"

definition approve_intent_review ::
  "session \<Rightarrow> bool \<Rightarrow> usage_reservation option \<Rightarrow> int \<Rightarrow> time_arg \<Rightarrow> session result" where
  "approve_intent_review s use_images reservation expected now =
     bind (prepare_transition s expected [Intent_review] now) (\<lambda>_.
       if proposal_status s \<noteq> Some Ready
       then Inl (SearchStateError ''blocking typed conditions require review'')
       else if \<not> use_images
       then (if reservation \<noteq> None
             then Inl (SearchStateError ''image-off approval must not include a reservation'')
             else advance s now (\<lambda>x. x\<lparr>state := Search_approval\<rparr>))
       else bind (validated_image_reservation s reservation now) (\<lambda>r.
              advance s now (begin_images r)))"

definition record_image_set ::
  "session \<Rightarrow> usage_reservation \<Rightarrow> string \<Rightarrow> string \<Rightarrow> int \<Rightarrow> time_arg \<Rightarrow> session result" where
  "record_image_set s r set_sha256 metadata_sha256 expected now =
     bind (prepare_transition s expected [Image_generating] now) (\<lambda>_.
     bind (validated_completed_image_reservation s r now) (\<lambda>_.
     bind (validated_digest ''image_set_sha256'' set_sha256) (\<lambda>d.
     bind (validated_digest ''image_request_metadata_sha256'' metadata_sha256) (\<lambda>m.
     advance s now (finish_images d m)))))"

text \<open>The disjunction is evaluated in order: the digest of the preimage plan is checked after the
  clauses before it and raises its own error.\<close>

definition record_counterfactual_images ::
  "session \<Rightarrow> usage_reservation \<Rightarrow> string \<Rightarrow> int \<Rightarrow> string \<Rightarrow> string \<Rightarrow> int \<Rightarrow> time_arg \<Rightarrow> session result" where
  "record_counterfactual_images s r preimage_plan condition_count set_sha256 metadata_sha256 expected now =
     bind (prepare_transition s expected [Intent_review] now) (\<lambda>_.
     bind (validate_reservation r) (\<lambda>_.
       let mismatch = SearchStateError ''counterfactual images do not match the session'' in
       if proposal_status s \<noteq> Some Ready \<or> \<not> (1 \<le> condition_count \<and> condition_count \<le> 3) \<or>
          res_status r \<noteq> Succeeded \<or> res_provider r \<noteq> Cloudflare \<or>
          res_operation r \<noteq> Op_counterfactual_images \<or>
          res_owner r \<noteq> owner s \<or> res_session r \<noteq> session_id s \<or>
          calls (res_amount r) \<noteq> condition_count \<or> tokens (res_amount r) \<noteq> 0
       then Inl mismatch
       else bind (validated_digest ''preimage_plan_sha256'' preimage_plan) (\<lambda>d.
         if res_binding r \<noteq> d \<or> \<not> (\<exists>a\<in>set_option (started_at r). updated_at s \<le> a) \<or>
            finished_at r = None
         then Inl mismatch
         else bind (utc_datetime ''now'' now) (\<lambda>t.
           if \<not> (\<exists>f\<in>set_option (finished_at r). f \<le> t)
           then Inl mismatch
           else
             bind (validated_digest ''image_set_sha256'' set_sha256) (\<lambda>d.
             bind (validated_digest ''image_request_metadata_sha256'' metadata_sha256) (\<lambda>m.
             advance s now (compare_images r d m)))))))"

definition record_image_generation_failure ::
  "session \<Rightarrow> usage_reservation \<Rightarrow> int \<Rightarrow> time_arg \<Rightarrow> session result" where
  "record_image_generation_failure s r expected now =
     bind (prepare_transition s expected [Image_generating] now) (\<lambda>_.
     bind (validated_failed_image_reservation s r now) (\<lambda>r.
     advance s now (fail_images r)))"

definition request_image_regeneration ::
  "session \<Rightarrow> usage_reservation \<Rightarrow> int \<Rightarrow> time_arg \<Rightarrow> session result" where
  "request_image_regeneration s reservation expected now =
     bind (prepare_transition s expected [Image_review] now) (\<lambda>_.
       if max_image_set_attempts \<le> image_attempts s
       then Inl (SearchStateError ''image set limit has been reached'')
       else bind (validated_image_reservation s (Some reservation) now) (\<lambda>r.
         if res_policy r \<noteq> or_empty (usage_policy s)
         then Inl (SearchStateError ''image reservation usage policy does not match'')
         else advance s now (next_attempt r)))"

definition retry_failed_image_set ::
  "session \<Rightarrow> usage_reservation \<Rightarrow> int \<Rightarrow> time_arg \<Rightarrow> session result" where
  "retry_failed_image_set s reservation expected now =
     bind (prepare_transition s expected [Image_generation_failed] now) (\<lambda>_.
       if max_image_set_attempts \<le> image_attempts s
       then Inl (SearchStateError ''image set limit has been reached'')
       else bind (validated_image_reservation s (Some reservation) now) (\<lambda>r.
         if Some (res_id r) = failed_image s
         then Inl (SearchStateError ''a new image reservation is required'')
         else if res_policy r \<noteq> or_empty (usage_policy s)
         then Inl (SearchStateError ''image reservation usage policy does not match'')
         else advance s now (next_attempt r)))"

definition approve_image_review :: "session \<Rightarrow> int \<Rightarrow> time_arg \<Rightarrow> session result" where
  "approve_image_review s expected now =
     bind (prepare_transition s expected [Image_review] now) (\<lambda>_.
     advance s now (\<lambda>x. x\<lparr>state := Search_approval\<rparr>))"

definition discard_image_set :: "session \<Rightarrow> int \<Rightarrow> time_arg \<Rightarrow> session result" where
  "discard_image_set s expected now =
     bind (prepare_transition s expected [Image_review] now) (\<lambda>_.
     advance s now (\<lambda>x. (clear_images x)\<lparr>state := Search_approval\<rparr>))"

definition discard_failed_image_attempt :: "session \<Rightarrow> int \<Rightarrow> time_arg \<Rightarrow> session result" where
  "discard_failed_image_attempt s expected now =
     bind (prepare_transition s expected [Image_generation_failed] now) (\<lambda>_.
     advance s now (\<lambda>x. (clear_images x)\<lparr>state := Search_approval\<rparr>))"

section \<open>Approval and execution\<close>

definition check_plan_images_for_session :: "session \<Rightarrow> ('i, 'q) approval_plan \<Rightarrow> unit result" where
  "check_plan_images_for_session s a =
     (case image_mode s of
        Image_off \<Rightarrow> require (plan_image_mode a = Images_off)
          (SearchStateError ''approved plan image mode does not match'')
      | Image_on \<Rightarrow>
          if plan_image_mode a \<noteq> Images_approved \<or>
             or_empty (plan_image_set a) \<noteq> or_empty (image_set s) \<or>
             or_empty (plan_image_metadata a) \<noteq> or_empty (image_metadata s)
          then Inl (SearchStateError ''approved plan image bindings do not match'')
          else require (rt_usage_policy (plan_runtime a) = or_empty (usage_policy s))
                 (SearchStateError ''approved plan usage policy does not match''))"

definition validated_plan_for_session ::
  "('i, 'q, 'p) planner \<Rightarrow> session \<Rightarrow> ('i, 'q) approval_plan \<Rightarrow> ('i, 'q) approval_plan result" where
  "validated_plan_for_session P s plan =
     bind (rewrap is_ValueError (SearchStateError ''approved plan is invalid'')
             (validate_plan P plan)) (\<lambda>a.
     bind (require (plan_owner a = owner s \<and> plan_session a = session_id s)
             (SearchStateError ''approved plan owner or session does not match'')) (\<lambda>_.
     bind (require (plan_intent_sha256 a = or_empty (intent_digest s))
             (SearchStateError ''approved plan intent does not match'')) (\<lambda>_.
     bind (require (query_plan_sha256 P (plan_query a) = or_empty (query_digest s))
             (SearchStateError ''approved plan query does not match'')) (\<lambda>_.
     bind (require (plan_proposal_sha256 a = or_empty (proposal_digest s))
             (SearchStateError ''approved plan typed proposal does not match'')) (\<lambda>_.
     bind (check_plan_images_for_session s a) (\<lambda>_. Inr a))))))"

text \<open>\<open>H\<close> is SHA-256 in hexadecimal; \<open>drawn\<close> is what \<open>secrets.token_urlsafe(32)\<close> returned.\<close>

definition approval_token_sha256 :: "(string \<Rightarrow> string) \<Rightarrow> string \<Rightarrow> string" where
  "approval_token_sha256 H token =
     H (''amazon-explorer-search-approval-token-v2'' @ CHR 0x0A # token)"

definition issue_search_approval ::
  "('i, 'q, 'p) planner \<Rightarrow> (string \<Rightarrow> string) \<Rightarrow> session \<Rightarrow> ('i, 'q) approval_plan \<Rightarrow> string \<Rightarrow> int \<Rightarrow> time_arg
     \<Rightarrow> (session \<times> string) result" where
  "issue_search_approval P H s plan drawn expected now =
     bind (prepare_transition s expected [Search_approval] now) (\<lambda>_.
       if approval s \<noteq> None
       then Inl (SearchStateError ''search approval has already been issued'')
       else bind (validated_plan_for_session P s plan) (\<lambda>a.
         bind (utc_datetime ''now'' now) (\<lambda>t.
           if t < plan_created a
           then Inl (SearchStateError ''search approval plan is not active yet'')
           else if plan_expires a \<le> t
           then Inl (SearchStateError ''search approval plan has expired'')
           else if \<not> is_token drawn
           then Inl (SearchStateError ''could not issue a valid search approval token'')
           else bind (search_approval_plan_sha256 P H a) (\<lambda>d.
             let g = \<lparr>grant_plan = d, grant_token = approval_token_sha256 H drawn,
                      issued_at = t, expires_at = plan_expires a, consumed_at = None\<rparr>
             in bind (validate_grant g) (\<lambda>_.
                bind (advance s now (\<lambda>x. x\<lparr>approval := Some g\<rparr>)) (\<lambda>s'. Inr (s', drawn)))))))"

definition outscraper_reservation_matches ::
  "session \<Rightarrow> ('i, 'q) approval_plan \<Rightarrow> approved_usage \<Rightarrow> usage_reservation \<Rightarrow> string \<Rightarrow> bool" where
  "outscraper_reservation_matches s a allowance r plan_sha256 \<longleftrightarrow>
     res_status r = Started \<and> res_provider r = Outscraper \<and> res_operation r = Op_product_search \<and>
     res_owner r = owner s \<and> res_session r = session_id s \<and> calls (res_amount r) = 1 \<and>
     tokens (res_amount r) \<le> allow_tokens allowance \<and>
     cost_microusd (res_amount r) \<le> allow_cost_microusd allowance \<and>
     res_binding r = plan_sha256 \<and>
     req_pricing_policy (res_request r) = allow_pricing_policy allowance \<and>
     res_policy r = rt_usage_policy (plan_runtime a)"

definition validated_outscraper_reservation ::
  "session \<Rightarrow> ('i, 'q) approval_plan \<Rightarrow> usage_reservation \<Rightarrow> string \<Rightarrow> time \<Rightarrow> usage_reservation result" where
  "validated_outscraper_reservation s a r plan_sha256 t =
     bind (rewrap is_ValueError (SearchStateError ''started Outscraper reservation is invalid'')
             (validate_reservation r)) (\<lambda>_.
     case find (\<lambda>x. allow_provider x = Outscraper) (plan_allowances a) of
       None \<Rightarrow> Inl StopIteration
     | Some allowance \<Rightarrow>
         if \<not> outscraper_reservation_matches s a allowance r plan_sha256
         then Inl (SearchStateError ''started Outscraper reservation does not match approval'')
         else if \<not> (\<exists>x\<in>set_option (started_at r). x \<le> t)
         then Inl (SearchStateError ''started Outscraper reservation time is invalid'')
         else if \<not> (\<exists>g\<in>set_option (approval s). \<exists>x\<in>set_option (started_at r). issued_at g \<le> x)
         then Inl (SearchStateError ''Outscraper reservation started before search approval'')
         else Inr r)"

text \<open>
  The checks of \<open>consume_search_approval\<close> before it touches the approval ledger; it returns the
  session's grant and the time.
\<close>

definition consumption_checks ::
  "('i, 'q, 'p) planner \<Rightarrow> (string \<Rightarrow> string) \<Rightarrow> session \<Rightarrow> string \<Rightarrow> ('i, 'q) approval_plan
     \<Rightarrow> usage_reservation \<Rightarrow> string \<Rightarrow> string \<Rightarrow> int \<Rightarrow> time_arg \<Rightarrow> (approval_grant \<times> time) result" where
  "consumption_checks P H s token plan r own sid expected now =
     bind (prepare_transition s expected [Search_approval] now) (\<lambda>_.
       if own \<noteq> owner s \<or> sid \<noteq> session_id s
       then Inl (SearchStateError ''approval owner or session does not match'')
       else case approval s of
         None \<Rightarrow> Inl (SearchStateError ''search approval has not been issued'')
       | Some g \<Rightarrow>
           bind (validated_plan_for_session P s plan) (\<lambda>a.
           bind (search_approval_plan_sha256 P H a) (\<lambda>d.
             if grant_plan g \<noteq> d
             then Inl (SearchStateError ''approved plan does not match'')
             else if expires_at g \<noteq> plan_expires a
             then Inl (SearchStateError ''approved plan expiry does not match'')
             else bind (utc_datetime ''now'' now) (\<lambda>t.
               if expires_at g \<le> t
               then Inl (SearchStateError ''search approval has expired'')
               else if \<not> is_token token \<or> grant_token g \<noteq> approval_token_sha256 H token
               then Inl (SearchStateError ''approval token does not match'')
               else bind (validated_outscraper_reservation s a r d t) (\<lambda>_. Inr (g, t))))))"

text \<open>
  The claim is recorded in the ledger before the next snapshot is built, so the ledger is part of
  the result also when the call raises.
\<close>

definition consume_search_approval ::
  "('i, 'q, 'p) planner \<Rightarrow> (string \<Rightarrow> string) \<Rightarrow> session \<Rightarrow> approval_ledger \<Rightarrow> string
     \<Rightarrow> ('i, 'q) approval_plan \<Rightarrow> usage_reservation \<Rightarrow> string \<Rightarrow> string \<Rightarrow> int \<Rightarrow> time_arg
     \<Rightarrow> session result \<times> approval_ledger" where
  "consume_search_approval P H s ledger token plan r own sid expected now =
     (case consumption_checks P H s token plan r own sid expected now of
        Inl e \<Rightarrow> (Inl e, ledger)
      | Inr (g, t) \<Rightarrow>
          (case claim g (owner s) (session_id s) (Utc t) ledger of
             Inl e \<Rightarrow> (Inl e, ledger)
           | Inr (_, ledger') \<Rightarrow>
               let g' = g\<lparr>consumed_at := Some t\<rparr>
               in (bind (validate_grant g') (\<lambda>_.
                     advance s (Utc t) (\<lambda>x. x\<lparr>state := Scrape_submitted, approval := Some g'\<rparr>)),
                   ledger')))"

definition record_products_received :: "session \<Rightarrow> int \<Rightarrow> int \<Rightarrow> time_arg \<Rightarrow> session result" where
  "record_products_received s n expected now =
     bind (prepare_transition s expected [Scrape_submitted] now) (\<lambda>_.
     advance s now (\<lambda>x. x\<lparr>state := Products_received, received_count := Some n\<rparr>))"

definition record_products_normalized ::
  "session \<Rightarrow> int \<Rightarrow> int \<Rightarrow> string \<Rightarrow> int \<Rightarrow> time_arg \<Rightarrow> session result" where
  "record_products_normalized s n rejected batch expected now =
     bind (prepare_transition s expected [Products_received] now) (\<lambda>_.
     bind (validated_digest ''normalized_product_batch_sha256'' batch) (\<lambda>d.
     advance s now (\<lambda>x. x\<lparr>state := Products_normalized, normalized_count := Some n,
       rejected_count := Some rejected, normalized_batch := Some d\<rparr>)))"

definition record_search_completed :: "session \<Rightarrow> int \<Rightarrow> string \<Rightarrow> int \<Rightarrow> time_arg \<Rightarrow> session result" where
  "record_search_completed s n batch expected now =
     bind (require (count_ok n) (SearchStateError ''ranked product count is invalid'')) (\<lambda>_.
     bind (prepare_transition s expected [Products_normalized] now) (\<lambda>_.
     bind (validated_digest ''ranked_product_batch_sha256'' batch) (\<lambda>d.
     advance s now (\<lambda>x. x\<lparr>state := Search_completed, ranked_count := Some n,
       ranked_batch := Some d, outcome := Some (if 0 < n then Results else Empty)\<rparr>))))"

fun failing_state :: "failure_stage \<Rightarrow> search_state" where
  "failing_state Product_search = Scrape_submitted"
| "failing_state Product_normalization = Products_received"
| "failing_state Ranking = Products_normalized"

definition record_search_failed :: "session \<Rightarrow> failure_stage \<Rightarrow> int \<Rightarrow> time_arg \<Rightarrow> session result" where
  "record_search_failed s stage expected now =
     bind (prepare_transition s expected [failing_state stage] now) (\<lambda>_.
     advance s now (\<lambda>x. x\<lparr>state := Search_failed, failed_stage := Some stage,
       failed_code := Some (fst (expected_failure stage))\<rparr>))"

end
