(* ===== verification/Session_Props.thy ===== *)
theory Session_Props
  imports Session Usage_Ledger_Props
begin

text \<open>
  The session contract as a predicate per state, the exact conditions under which each transition
  is accepted, and what every accepted transition keeps.
\<close>

section \<open>The contract, state by state\<close>

text \<open>What a valid snapshot looks like in each state, stated independently of the order in which
  the validator raises.\<close>

definition review_ok :: "session \<Rightarrow> bool" where
  "review_ok s \<longleftrightarrow>
     (if state s \<in> {Draft, Intent_processing}
      then intent_digest s = None \<and> proposal_digest s = None \<and> proposal_status s = None \<and>
        query_digest s = None
      else intent_digest s \<noteq> None \<and> proposal_digest s \<noteq> None \<and>
        (proposal_status s = Some Ready \<and> query_digest s \<noteq> None \<or>
         proposal_status s = Some Blocking \<and> query_digest s = None \<and> state s = Intent_review))"

definition no_images :: "session \<Rightarrow> bool" where
  "no_images s \<longleftrightarrow> image_set s = None \<and> image_metadata s = None"

definition both_images :: "session \<Rightarrow> bool" where
  "both_images s \<longleftrightarrow> image_set s \<noteq> None \<and> image_metadata s \<noteq> None"

definition images_ok :: "session \<Rightarrow> bool" where
  "images_ok s \<longleftrightarrow>
     (case image_mode s of
        Image_off \<Rightarrow> image_attempts s = 0 \<and> active_image s = None \<and> failed_image s = None \<and>
          no_images s \<and> usage_policy s = None \<and>
          state s \<notin> {Image_generating, Image_generation_failed, Image_review}
      | Image_on \<Rightarrow> 1 \<le> image_attempts s \<and> usage_policy s \<noteq> None \<and>
          (case state s of
             Image_generating \<Rightarrow> active_image s \<noteq> None \<and> failed_image s = None \<and> no_images s
           | Image_generation_failed \<Rightarrow> active_image s = None \<and> failed_image s \<noteq> None \<and> no_images s
           | Draft \<Rightarrow> False | Intent_processing \<Rightarrow> False | Intent_review \<Rightarrow> False
           | _ \<Rightarrow> active_image s = None \<and> failed_image s = None \<and> both_images s))"

definition approval_ok :: "session \<Rightarrow> bool" where
  "approval_ok s \<longleftrightarrow>
     (if state s \<in> execution_states then \<exists>g. approval s = Some g \<and> consumed_at g \<noteq> None
      else if state s = Search_approval then \<forall>g. approval s = Some g \<longrightarrow> consumed_at g = None
      else approval s = None)"

definition no_normalized :: "session \<Rightarrow> bool" where
  "no_normalized s \<longleftrightarrow> normalized_count s = None \<and> rejected_count s = None \<and> normalized_batch s = None"

definition normalized_ok :: "session \<Rightarrow> bool" where
  "normalized_ok s \<longleftrightarrow> normalized_batch s \<noteq> None \<and>
     (\<exists>n r. normalized_count s = Some n \<and> rejected_count s = Some r \<and> received_count s = Some (n + r))"

definition no_verdict :: "session \<Rightarrow> bool" where
  "no_verdict s \<longleftrightarrow> outcome s = None \<and> failed_stage s = None \<and> failed_code s = None"

definition no_ranked :: "session \<Rightarrow> bool" where
  "no_ranked s \<longleftrightarrow> ranked_count s = None \<and> ranked_batch s = None"

definition failed_ok :: "session \<Rightarrow> bool" where
  "failed_ok s \<longleftrightarrow> outcome s = None \<and> no_ranked s \<and>
     (case failed_stage s of
        None \<Rightarrow> False
      | Some Product_search \<Rightarrow> failed_code s = Some Product_search_failed \<and> received_count s = None \<and> no_normalized s
      | Some Product_normalization \<Rightarrow> failed_code s = Some Product_normalization_failed \<and>
          received_count s \<noteq> None \<and> no_normalized s
      | Some Ranking \<Rightarrow> failed_code s = Some Ranking_failed \<and> normalized_ok s)"

definition progress_ok :: "session \<Rightarrow> bool" where
  "progress_ok s \<longleftrightarrow>
     (case state s of
        Products_received \<Rightarrow> received_count s \<noteq> None \<and> no_normalized s \<and> no_ranked s \<and> no_verdict s
      | Products_normalized \<Rightarrow> normalized_ok s \<and> no_ranked s \<and> no_verdict s
      | Search_completed \<Rightarrow> normalized_ok s \<and> ranked_batch s \<noteq> None \<and> failed_stage s = None \<and>
          failed_code s = None \<and>
          (\<exists>k. ranked_count s = Some k \<and> normalized_count s = Some k \<and>
             outcome s = Some (if 0 < k then Results else Empty))
      | Search_failed \<Rightarrow> failed_ok s
      | _ \<Rightarrow> received_count s = None \<and> no_normalized s \<and> no_ranked s \<and> no_verdict s)"

lemma check_review_iff: "check_review s = Inr u \<longleftrightarrow> review_ok s"
proof -
  have "proposal_status s = None \<or> proposal_status s = Some Ready \<or> proposal_status s = Some Blocking"
    by (metis option.exhaust requirement_status.exhaust)
  then show ?thesis
    by (elim disjE) (auto simp: check_review_def review_ok_def has_review_def any_review_def)
qed

lemma check_images_iff: "check_images s = Inr u \<longleftrightarrow> images_ok s"
  by (cases "image_mode s"; cases "state s")
    (auto simp: check_images_def images_ok_def check_images_off_def check_images_on_def
      image_bindings_present_def no_images_def both_images_def execution_states_def)

lemma check_approval_iff: "check_approval s = Inr u \<longleftrightarrow> approval_ok s"
  by (cases "approval s") (auto simp: check_approval_def approval_ok_def execution_states_def)

lemma normalized_iff:
  "any_normalized s = has_normalized s \<and> (has_normalized s \<longrightarrow> counts_match s) \<longleftrightarrow>
     no_normalized s \<or> normalized_ok s"
  by (cases "normalized_count s"; cases "rejected_count s"; cases "received_count s")
    (auto simp: any_normalized_def has_normalized_def counts_match_def no_normalized_def normalized_ok_def)

lemma has_normalized_cases:
  "no_normalized s \<Longrightarrow> \<not> has_normalized s \<and> \<not> any_normalized s \<and> \<not> normalized_ok s"
  "normalized_ok s \<Longrightarrow> has_normalized s \<and> any_normalized s \<and> received_count s \<noteq> None"
  by (auto simp: no_normalized_def has_normalized_def any_normalized_def normalized_ok_def)

lemma check_failed_iff:
  assumes "no_normalized s \<or> normalized_ok s"
  shows "check_failed s = Inr u \<longleftrightarrow> failed_ok s"
proof -
  have "failed_stage s = None \<or> (\<exists>st. failed_stage s = Some st)" by auto
  then show ?thesis
    using assms has_normalized_cases [of s]
    by (elim disjE exE; cases "the (failed_stage s)")
      (auto simp: check_failed_def failed_ok_def any_ranked_def no_ranked_def)
qed

lemma completed_iff:
  assumes "no_normalized s \<or> normalized_ok s"
  shows "completed_ok s \<longleftrightarrow> normalized_ok s \<and> ranked_batch s \<noteq> None \<and> failed_stage s = None \<and>
    failed_code s = None \<and> (\<exists>k. ranked_count s = Some k \<and> normalized_count s = Some k \<and>
       outcome s = Some (if 0 < k then Results else Empty))"
proof -
  have "outcome s = None \<or> outcome s = Some Results \<or> outcome s = Some Empty"
    by (metis option.exhaust search_outcome.exhaust)
  then show ?thesis
    using assms has_normalized_cases [of s]
    by (elim disjE; cases "ranked_count s") (auto simp: completed_ok_def)
qed

lemma check_progress_iff: "check_progress s = Inr u \<longleftrightarrow> progress_ok s"
proof (cases "no_normalized s \<or> normalized_ok s")
  case True
  have h: "any_normalized s \<longleftrightarrow> normalized_ok s" "has_normalized s \<longleftrightarrow> normalized_ok s"
    "normalized_ok s \<Longrightarrow> counts_match s" "no_normalized s \<longleftrightarrow> \<not> normalized_ok s"
    "normalized_ok s \<Longrightarrow> received_count s \<noteq> None"
    using True has_normalized_cases [of s] normalized_iff [of s] by blast+
  have r: "any_ranked s \<longleftrightarrow> \<not> no_ranked s" "any_verdict s \<longleftrightarrow> \<not> no_verdict s"
    by (simp_all add: any_ranked_def no_ranked_def any_verdict_def no_verdict_def)
  show ?thesis
    unfolding check_progress_def progress_ok_def
    by (cases "state s"; simp add: h r check_failed_iff [OF True] completed_iff [OF True];
        (use h(3) in blast)?)
next
  case False
  then have "any_normalized s" unfolding any_normalized_def no_normalized_def by auto
  moreover have "\<not> (any_normalized s = has_normalized s \<and> (has_normalized s \<longrightarrow> counts_match s))"
    using False normalized_iff by blast
  moreover have "\<not> progress_ok s"
    using False by (auto simp: progress_ok_def failed_ok_def split: search_state.splits failure_stage.splits option.splits)
  ultimately show ?thesis by (auto simp: check_progress_def)
qed

lemma validate_session_iff:
  "validate_session s = Inr u \<longleftrightarrow> session_fields_ok s \<and> created_at s \<le> updated_at s \<and>
     review_ok s \<and> images_ok s \<and> approval_ok s \<and> progress_ok s"
  by (simp add: validate_session_def check_review_iff check_images_iff check_approval_iff check_progress_iff)

section \<open>When a transition is accepted\<close>

lemmas contract_defs = review_ok_def images_ok_def approval_ok_def progress_ok_def execution_states_def

text \<open>A call that may go through: the snapshot is valid, the caller has its revision, the state
  allows the operation and time has not gone back.\<close>

definition ready :: "session \<Rightarrow> int \<Rightarrow> search_state list \<Rightarrow> time_arg \<Rightarrow> time \<Rightarrow> bool" where
  "ready s expected allowed now t \<longleftrightarrow> validate_session s = Inr () \<and> expected = revision s \<and>
     state s \<in> set allowed \<and> now = Utc t \<and> updated_at s \<le> t"

definition stamp :: "time \<Rightarrow> session \<Rightarrow> session \<Rightarrow> session" where
  "stamp t s x = x\<lparr>revision := revision s + 1, updated_at := t\<rparr>"

lemma stamp_sel [simp]:
  "owner (stamp t s x) = owner x" "session_id (stamp t s x) = session_id x"
  "revision (stamp t s x) = revision s + 1" "state (stamp t s x) = state x"
  "created_at (stamp t s x) = created_at x" "updated_at (stamp t s x) = t"
  "approval (stamp t s x) = approval x" "image_attempts (stamp t s x) = image_attempts x"
  "image_mode (stamp t s x) = image_mode x" "intent_digest (stamp t s x) = intent_digest x"
  "query_digest (stamp t s x) = query_digest x" "proposal_digest (stamp t s x) = proposal_digest x"
  "image_set (stamp t s x) = image_set x" "image_metadata (stamp t s x) = image_metadata x"
  "usage_policy (stamp t s x) = usage_policy x" "active_image (stamp t s x) = active_image x"
  "failed_image (stamp t s x) = failed_image x" "proposal_status (stamp t s x) = proposal_status x"
  by (simp_all add: stamp_def)

lemma prepare_transition_eq_Inr:
  "prepare_transition s expected allowed now = Inr u \<longleftrightarrow> (\<exists>t. ready s expected allowed now t)"
  by (auto simp: prepare_transition_def ready_def)

lemma advance_eq_Inr:
  "advance s now f = Inr s' \<longleftrightarrow>
     (\<exists>t. now = Utc t \<and> s' = stamp t s (f s) \<and> validate_session (stamp t s (f s)) = Inr ())"
  by (auto simp: advance_def Let_def stamp_def)

lemma ready_now: "ready s expected allowed now t \<Longrightarrow> now = Utc u \<longleftrightarrow> u = t"
  by (auto simp: ready_def)

lemma transition_eq_Inr:
  "bind (prepare_transition s expected allowed now) (\<lambda>_. advance s now f) = Inr s' \<longleftrightarrow>
     (\<exists>t. ready s expected allowed now t \<and> s' = stamp t s (f s) \<and>
        validate_session (stamp t s (f s)) = Inr ())"
  by (fastforce simp: prepare_transition_eq_Inr advance_eq_Inr ready_def)

text \<open>The time and revision stamps of a ready call are always valid.\<close>

lemma validate_stamp_iff:
  assumes "ready s expected allowed now t" and "created_at x = created_at s"
  shows "validate_session (stamp t s x) = Inr u \<longleftrightarrow>
    session_fields_ok (x\<lparr>revision := revision s + 1\<rparr>) \<and> review_ok x \<and> images_ok x \<and> approval_ok x \<and> progress_ok x"
proof -
  have t: "created_at s \<le> t" using assms(1) by (auto simp: ready_def validate_session_iff)
  have "session_fields_ok (stamp t s x) = session_fields_ok (x\<lparr>revision := revision s + 1\<rparr>)"
    by (simp add: session_fields_ok_def stamp_def)
  moreover have "review_ok (stamp t s x) = review_ok x" by (simp add: review_ok_def stamp_def)
  moreover have "images_ok (stamp t s x) = images_ok x"
    by (simp add: images_ok_def stamp_def no_images_def both_images_def
        cong: session_image_mode.case_cong search_state.case_cong)
  moreover have "approval_ok (stamp t s x) = approval_ok x" by (simp add: approval_ok_def stamp_def)
  moreover have "progress_ok (stamp t s x) = progress_ok x"
    by (simp add: progress_ok_def stamp_def failed_ok_def normalized_ok_def no_normalized_def
        no_ranked_def no_verdict_def cong: search_state.case_cong failure_stage.case_cong option.case_cong)
  ultimately show ?thesis using t assms(2) by (simp add: validate_session_iff)
qed

lemma readyD:
  assumes "ready s expected allowed now t"
  shows "session_fields_ok s" "review_ok s" "images_ok s" "approval_ok s" "progress_ok s"
    "state s \<in> set allowed" "validate_session s = Inr ()" "0 \<le> revision s"
  using assms by (auto simp: ready_def validate_session_iff session_fields_ok_def)

lemmas progress_defs = failed_ok_def normalized_ok_def no_normalized_def no_ranked_def no_verdict_def
lemmas image_defs = no_images_def both_images_def

lemma start_intent_processing_eq_Inr:
  "start_intent_processing s expected now = Inr s' \<longleftrightarrow>
     (\<exists>t. ready s expected [Draft] now t \<and> s' = stamp t s (s\<lparr>state := Intent_processing\<rparr>))"
proof -
  have "validate_session (stamp t s (s\<lparr>state := Intent_processing\<rparr>)) = Inr ()"
    if r: "ready s expected [Draft] now t" for t
    using readyD [OF r] unfolding validate_stamp_iff [OF r, of "s\<lparr>state := Intent_processing\<rparr>", simplified]
    by (simp add: contract_defs progress_defs image_defs session_fields_ok_def split: session_image_mode.splits)
  then show ?thesis unfolding start_intent_processing_def transition_eq_Inr by blast
qed

lemma approve_image_review_eq_Inr:
  "approve_image_review s expected now = Inr s' \<longleftrightarrow>
     (\<exists>t. ready s expected [Image_review] now t \<and> s' = stamp t s (s\<lparr>state := Search_approval\<rparr>))"
proof -
  have "validate_session (stamp t s (s\<lparr>state := Search_approval\<rparr>)) = Inr ()"
    if r: "ready s expected [Image_review] now t" for t
    using readyD [OF r] unfolding validate_stamp_iff [OF r, of "s\<lparr>state := Search_approval\<rparr>", simplified]
    by (simp add: contract_defs progress_defs image_defs session_fields_ok_def split: session_image_mode.splits)
  then show ?thesis unfolding approve_image_review_def transition_eq_Inr by blast
qed

lemma clear_images_sel [simp]:
  "state (clear_images x) = state x" "image_mode (clear_images x) = Image_off"
  "owner (clear_images x) = owner x" "session_id (clear_images x) = session_id x"
  "created_at (clear_images x) = created_at x"
  by (simp_all add: clear_images_def)

lemma discard_valid:
  assumes r: "ready s expected allowed now t" and "allowed = [Image_review] \<or> allowed = [Image_generation_failed]"
  shows "validate_session (stamp t s ((clear_images s)\<lparr>state := Search_approval\<rparr>)) = Inr ()"
  using readyD [OF r] assms(2)
  unfolding validate_stamp_iff [OF r, of "(clear_images s)\<lparr>state := Search_approval\<rparr>", simplified]
  by (auto simp: contract_defs progress_defs image_defs session_fields_ok_def clear_images_def split: session_image_mode.splits)

lemma discard_image_set_eq_Inr:
  "discard_image_set s expected now = Inr s' \<longleftrightarrow>
     (\<exists>t. ready s expected [Image_review] now t \<and> s' = stamp t s ((clear_images s)\<lparr>state := Search_approval\<rparr>))"
  unfolding discard_image_set_def transition_eq_Inr using discard_valid by blast

lemma discard_failed_image_attempt_eq_Inr:
  "discard_failed_image_attempt s expected now = Inr s' \<longleftrightarrow>
     (\<exists>t. ready s expected [Image_generation_failed] now t \<and>
        s' = stamp t s ((clear_images s)\<lparr>state := Search_approval\<rparr>))"
  unfolding discard_failed_image_attempt_def transition_eq_Inr using discard_valid by blast

subsection \<open>Images\<close>

definition image_started :: "session \<Rightarrow> usage_reservation \<Rightarrow> time \<Rightarrow> bool" where
  "image_started s r t \<longleftrightarrow> validate_reservation r = Inr () \<and> res_status r = Started \<and>
     image_set_reservation s r \<and> (\<exists>a. started_at r = Some a \<and> a \<le> t)"

definition image_ended :: "session \<Rightarrow> reservation_status \<Rightarrow> usage_reservation \<Rightarrow> time \<Rightarrow> bool" where
  "image_ended s status r t \<longleftrightarrow> validate_reservation r = Inr () \<and> res_status r = status \<and>
     image_set_reservation s r \<and> Some (res_id r) = active_image s \<and>
     res_policy r = or_empty (usage_policy s) \<and> (\<exists>f. finished_at r = Some f \<and> f \<le> t)"

lemma started_valid: "image_started s r t \<Longrightarrow> validate_reservation r = Inr ()"
  by (simp add: image_started_def)

lemma ended_valid: "image_ended s status r t \<Longrightarrow> validate_reservation r = Inr ()"
  by (simp add: image_ended_def)

lemma validated_image_reservation_eq_Inr:
  "validated_image_reservation s v (Utc t) = Inr r \<longleftrightarrow> v = Some r \<and> image_started s r t"
  by (auto simp: validated_image_reservation_def image_started_def split: option.splits)

lemma validated_completed_eq_Inr:
  "validated_completed_image_reservation s r (Utc t) = Inr r' \<longleftrightarrow> r' = r \<and> image_ended s Succeeded r t"
  by (auto simp: validated_completed_image_reservation_def image_ended_def)

lemma validated_failed_eq_Inr:
  "validated_failed_image_reservation s r (Utc t) = Inr r' \<longleftrightarrow> r' = r \<and> image_ended s Failed r t"
  by (auto simp: validated_failed_image_reservation_def image_ended_def)

lemma validated_digest_eq_Inr [simp]: "validated_digest f v = Inr d \<longleftrightarrow> d = v \<and> is_digest v"
  by (auto simp: validated_digest_def)

lemma prepared_iff:
  assumes "\<And>t. now = Utc t \<Longrightarrow> ready s expected allowed now t \<Longrightarrow> k () = Inr s' \<longleftrightarrow> Q t"
  shows "bind (prepare_transition s expected allowed now) k = Inr s' \<longleftrightarrow>
    (\<exists>t. ready s expected allowed now t \<and> Q t)"
  using assms by (auto simp: prepare_transition_eq_Inr ready_def)

lemma advance_Utc_eq_Inr:
  "advance s (Utc t) f = Inr s' \<longleftrightarrow>
     s' = stamp t s (f s) \<and> validate_session (stamp t s (f s)) = Inr ()"
  by (auto simp: advance_eq_Inr)

lemma valid_reservation_ids:
  "validate_reservation r = Inr () \<Longrightarrow> is_reservation_id (res_id r) \<and> is_digest (res_policy r)"
  by (simp add: validate_reservation_eq_Inr)

lemma begin_images_valid:
  assumes r: "ready s expected [Intent_review] now t" and "proposal_status s = Some Ready"
    and v: "validate_reservation x = Inr ()"
  shows "validate_session (stamp t s (begin_images x s)) = Inr ()"
  using readyD [OF r] assms(2) valid_reservation_ids [OF v]
  unfolding validate_stamp_iff [OF r, of "begin_images x s", unfolded begin_images_def, simplified, folded begin_images_def]
  by (auto simp: contract_defs progress_defs image_defs session_fields_ok_def begin_images_def
      max_image_set_attempts_def split: session_image_mode.splits)

lemma skip_images_valid:
  assumes r: "ready s expected [Intent_review] now t" and "proposal_status s = Some Ready"
  shows "validate_session (stamp t s (s\<lparr>state := Search_approval\<rparr>)) = Inr ()"
  using readyD [OF r] assms(2) unfolding validate_stamp_iff [OF r, of "s\<lparr>state := Search_approval\<rparr>", simplified]
  by (auto simp: contract_defs progress_defs image_defs session_fields_ok_def split: session_image_mode.splits)

lemma approve_intent_review_eq_Inr:
  "approve_intent_review s use_images reservation expected now = Inr s' \<longleftrightarrow>
     (\<exists>t. ready s expected [Intent_review] now t \<and> proposal_status s = Some Ready \<and>
        (if use_images
         then \<exists>r. reservation = Some r \<and> image_started s r t \<and> s' = stamp t s (begin_images r s)
         else reservation = None \<and> s' = stamp t s (s\<lparr>state := Search_approval\<rparr>)))"
  unfolding approve_intent_review_def
  using skip_images_valid begin_images_valid started_valid
  by (intro prepared_iff) (auto simp: validated_image_reservation_eq_Inr advance_Utc_eq_Inr split: if_splits)

lemma next_attempt_valid:
  assumes r: "ready s expected [a] now t" and "a = Image_review \<or> a = Image_generation_failed"
    and "image_attempts s < max_image_set_attempts" and v: "validate_reservation x = Inr ()"
  shows "validate_session (stamp t s (next_attempt x s)) = Inr ()"
  using readyD [OF r] assms(2,3) valid_reservation_ids [OF v]
  unfolding validate_stamp_iff [OF r, of "next_attempt x s", unfolded next_attempt_def, simplified, folded next_attempt_def]
  by (auto simp: contract_defs progress_defs image_defs session_fields_ok_def next_attempt_def
      max_image_set_attempts_def split: session_image_mode.splits)

lemma request_image_regeneration_eq_Inr:
  "request_image_regeneration s r expected now = Inr s' \<longleftrightarrow>
     (\<exists>t. ready s expected [Image_review] now t \<and> image_attempts s < max_image_set_attempts \<and>
        image_started s r t \<and> res_policy r = or_empty (usage_policy s) \<and> s' = stamp t s (next_attempt r s))"
  unfolding request_image_regeneration_def
  using next_attempt_valid [where a = Image_review] started_valid
  by (intro prepared_iff) (auto simp: validated_image_reservation_eq_Inr advance_Utc_eq_Inr split: if_splits)

lemma retry_failed_image_set_eq_Inr:
  "retry_failed_image_set s r expected now = Inr s' \<longleftrightarrow>
     (\<exists>t. ready s expected [Image_generation_failed] now t \<and> image_attempts s < max_image_set_attempts \<and>
        image_started s r t \<and> Some (res_id r) \<noteq> failed_image s \<and>
        res_policy r = or_empty (usage_policy s) \<and> s' = stamp t s (next_attempt r s))"
  unfolding retry_failed_image_set_def
  using next_attempt_valid [where a = Image_generation_failed] started_valid
  by (intro prepared_iff) (auto simp: validated_image_reservation_eq_Inr advance_Utc_eq_Inr split: if_splits)

lemma finish_images_valid:
  assumes r: "ready s expected [Image_generating] now t" and "is_digest d" "is_digest m"
  shows "validate_session (stamp t s (finish_images d m s)) = Inr ()"
  using readyD [OF r] assms(2,3)
  unfolding validate_stamp_iff [OF r, of "finish_images d m s", unfolded finish_images_def, simplified, folded finish_images_def]
  by (auto simp: contract_defs progress_defs image_defs session_fields_ok_def finish_images_def
      split: session_image_mode.splits)

lemma record_image_set_eq_Inr:
  "record_image_set s r d m expected now = Inr s' \<longleftrightarrow>
     (\<exists>t. ready s expected [Image_generating] now t \<and> image_ended s Succeeded r t \<and>
        is_digest d \<and> is_digest m \<and> s' = stamp t s (finish_images d m s))"
  unfolding record_image_set_def
  using finish_images_valid
  by (intro prepared_iff) (auto simp: validated_completed_eq_Inr advance_Utc_eq_Inr split: if_splits)

lemma fail_images_valid:
  assumes r: "ready s expected [Image_generating] now t" and v: "validate_reservation x = Inr ()"
  shows "validate_session (stamp t s (fail_images x s)) = Inr ()"
  using readyD [OF r] valid_reservation_ids [OF v]
  unfolding validate_stamp_iff [OF r, of "fail_images x s", unfolded fail_images_def, simplified, folded fail_images_def]
  by (auto simp: contract_defs progress_defs image_defs session_fields_ok_def fail_images_def
      split: session_image_mode.splits)

lemma record_image_generation_failure_eq_Inr:
  "record_image_generation_failure s r expected now = Inr s' \<longleftrightarrow>
     (\<exists>t. ready s expected [Image_generating] now t \<and> image_ended s Failed r t \<and>
        s' = stamp t s (fail_images r s))"
  unfolding record_image_generation_failure_def
  using fail_images_valid ended_valid
  by (intro prepared_iff) (auto simp: validated_failed_eq_Inr advance_Utc_eq_Inr split: if_splits)

text \<open>The comparison images of an approved reference, recorded from the intent review.\<close>

definition comparison_ended :: "session \<Rightarrow> usage_reservation \<Rightarrow> string \<Rightarrow> int \<Rightarrow> time \<Rightarrow> bool" where
  "comparison_ended s r preimage_plan n t \<longleftrightarrow> validate_reservation r = Inr () \<and> 1 \<le> n \<and> n \<le> 3 \<and>
     res_status r = Succeeded \<and> res_provider r = Cloudflare \<and> res_operation r = Op_counterfactual_images \<and>
     res_owner r = owner s \<and> res_session r = session_id s \<and> calls (res_amount r) = n \<and>
     tokens (res_amount r) = 0 \<and> res_binding r = preimage_plan \<and>
     (\<exists>a. started_at r = Some a \<and> updated_at s \<le> a) \<and> (\<exists>f. finished_at r = Some f \<and> f \<le> t)"

lemma compare_images_valid:
  assumes r: "ready s expected [Intent_review] now t" and "proposal_status s = Some Ready"
    and v: "validate_reservation x = Inr ()" and "is_digest d" "is_digest m"
  shows "validate_session (stamp t s (compare_images x d m s)) = Inr ()"
  using readyD [OF r] assms(2,4,5) valid_reservation_ids [OF v]
  unfolding validate_stamp_iff [OF r, of "compare_images x d m s", unfolded compare_images_def, simplified, folded compare_images_def]
  by (auto simp: contract_defs progress_defs image_defs session_fields_ok_def compare_images_def
      max_image_set_attempts_def split: session_image_mode.splits)

lemma binding_digest: "validate_reservation r = Inr () \<Longrightarrow> is_digest (res_binding r)"
  by (simp add: validate_reservation_eq_Inr validate_request_eq_Inr res_props)

lemma record_counterfactual_images_eq_Inr:
  "record_counterfactual_images s r plan n d m expected now = Inr s' \<longleftrightarrow>
     (\<exists>t. ready s expected [Intent_review] now t \<and> proposal_status s = Some Ready \<and>
        comparison_ended s r plan n t \<and> is_digest d \<and> is_digest m \<and>
        s' = stamp t s (compare_images r d m s))"
  unfolding record_counterfactual_images_def
  using compare_images_valid binding_digest
  by (intro prepared_iff)
    (auto simp: comparison_ended_def advance_Utc_eq_Inr Let_def split: if_splits)

subsection \<open>Intent\<close>

lemma validated_intent_plan_eq_Inr:
  "validated_intent_plan P intent query proposal = Inr (i, q, p) \<longleftrightarrow>
     validate_intent P intent = Inr i \<and> validate_proposal P proposal = Inr p \<and> build_proposal P i = Inr p \<and>
     (if proposal_blocking P p then query = None \<and> q = None
      else \<exists>x y. query = Some x \<and> validate_query_plan P x = Inr y \<and> q = Some y \<and>
        query_plan_intent_sha256 P y = intent_sha256 P i)"
  by (auto simp: validated_intent_plan_def Let_def split: if_splits option.splits)
    (force intro!: exI [of _ p])+

lemma validated_intent_plan_status:
  "validated_intent_plan P intent query proposal = Inr (i, q, p) \<Longrightarrow> proposal_blocking P p = (q = None)"
  by (auto simp: validated_intent_plan_eq_Inr split: if_splits)

definition planner_digests :: "('i, 'q, 'p) planner \<Rightarrow> bool" where
  "planner_digests P \<longleftrightarrow> (\<forall>i. is_digest (intent_sha256 P i)) \<and> (\<forall>q. is_digest (query_plan_sha256 P q)) \<and>
     (\<forall>p. is_digest (proposal_sha256 P p))"

text \<open>A session without images, approval or progress: what a reviewed plan is recorded on.\<close>

definition blank :: "session \<Rightarrow> bool" where
  "blank x \<longleftrightarrow> session_fields_ok x \<and> image_mode x = Image_off \<and> image_attempts x = 0 \<and>
     active_image x = None \<and> failed_image x = None \<and> no_images x \<and> usage_policy x = None \<and>
     approval x = None \<and> received_count x = None \<and> no_normalized x \<and> no_ranked x \<and> no_verdict x"

lemma blank_processing:
  assumes "ready s expected [Intent_processing] now t"
  shows "blank s"
  using readyD [OF assms]
  by (auto simp: blank_def contract_defs progress_defs image_defs split: session_image_mode.splits)

lemma blank_cleared:
  assumes "ready s expected [Intent_review, Image_review, Search_approval] now t"
  shows "blank ((clear_images s)\<lparr>approval := None\<rparr>)"
proof -
  note d = readyD [OF assms]
  have "received_count s = None \<and> no_normalized s \<and> no_ranked s \<and> no_verdict s"
    using d(5,6) by (auto simp: progress_ok_def)
  with d(1) show ?thesis
    by (simp add: blank_def clear_images_def session_fields_ok_def image_defs progress_defs)
qed

lemma review_valid:
  assumes r: "ready s expected allowed now t" and x: "blank x" "created_at x = created_at s"
    and P: "planner_digests P" and q: "proposal_blocking P p = (q = None)"
  shows "validate_session (stamp t s (review_update P i q p x)) = Inr ()"
proof -
  let ?y = "review_update P i q p x"
  have c: "created_at ?y = created_at s" using x by (simp add: review_update_def)
  have "review_ok ?y" "images_ok ?y" "approval_ok ?y" "progress_ok ?y"
    using x q by (auto simp: blank_def review_update_def contract_defs image_defs progress_defs status_of_proposal_def)
  moreover have "session_fields_ok (?y\<lparr>revision := revision s + 1\<rparr>)"
    using x(1) P readyD(8) [OF r]
    by (cases q) (simp_all add: blank_def review_update_def session_fields_ok_def planner_digests_def)
  ultimately show ?thesis unfolding validate_stamp_iff [OF r c] by simp
qed

lemma record_intent_plan_eq_Inr:
  assumes P: "planner_digests P"
  shows "record_intent_plan P s intent query proposal expected now = Inr s' \<longleftrightarrow>
     (\<exists>t. ready s expected [Intent_processing] now t \<and>
        (\<exists>i q p. validated_intent_plan P intent query proposal = Inr (i, q, p) \<and>
           s' = stamp t s (review_update P i q p s)))"
  unfolding record_intent_plan_def
proof (rule prepared_iff)
  fix t
  assume now: "now = Utc t" and r: "ready s expected [Intent_processing] now t"
  have "validate_session (stamp t s (review_update P i q p s)) = Inr ()"
    if "validated_intent_plan P intent query proposal = Inr (i, q, p)" for i q p
    by (rule review_valid [OF r blank_processing [OF r] refl P validated_intent_plan_status [OF that]])
  then show "bind (validated_intent_plan P intent query proposal) (\<lambda>(i, q, p). advance s now (review_update P i q p)) = Inr s' \<longleftrightarrow>
    (\<exists>i q p. validated_intent_plan P intent query proposal = Inr (i, q, p) \<and> s' = stamp t s (review_update P i q p s))"
    by (cases "validated_intent_plan P intent query proposal") (auto simp: now advance_Utc_eq_Inr)
qed

lemma replace_intent_plan_eq_Inr:
  assumes P: "planner_digests P"
  shows "replace_intent_plan P s intent query proposal expected now = Inr s' \<longleftrightarrow>
     (\<exists>t. ready s expected [Intent_review, Image_review, Search_approval] now t \<and>
        (\<exists>i q p. validated_intent_plan P intent query proposal = Inr (i, q, p) \<and>
           s' = stamp t s (review_update P i q p ((clear_images s)\<lparr>approval := None\<rparr>))))"
proof -
  have comm: "(review_update P i q p (clear_images x))\<lparr>approval := None\<rparr> =
      review_update P i q p ((clear_images x)\<lparr>approval := None\<rparr>)" for i q p x
    by (simp add: review_update_def)
  show ?thesis
    unfolding replace_intent_plan_def comm
  proof (rule prepared_iff)
    let ?x = "(clear_images s)\<lparr>approval := None\<rparr>"
    fix t
    assume now: "now = Utc t" and r: "ready s expected [Intent_review, Image_review, Search_approval] now t"
    have "validate_session (stamp t s (review_update P i q p ?x)) = Inr ()"
      if "validated_intent_plan P intent query proposal = Inr (i, q, p)" for i q p
      using review_valid [OF r blank_cleared [OF r] _ P validated_intent_plan_status [OF that]] by simp
    then show "bind (validated_intent_plan P intent query proposal)
        (\<lambda>(i, q, p). advance s now (\<lambda>x. review_update P i q p ((clear_images x)\<lparr>approval := None\<rparr>))) = Inr s' \<longleftrightarrow>
      (\<exists>i q p. validated_intent_plan P intent query proposal = Inr (i, q, p) \<and>
         s' = stamp t s (review_update P i q p ?x))"
      by (cases "validated_intent_plan P intent query proposal") (auto simp: now advance_Utc_eq_Inr)
  qed
qed

subsection \<open>Progress of an approved search\<close>

lemma received_valid:
  assumes r: "ready s expected [Scrape_submitted] now t"
  shows "validate_session (stamp t s (s\<lparr>state := Products_received, received_count := Some n\<rparr>)) = Inr () \<longleftrightarrow> count_ok n"
  using readyD [OF r]
  unfolding validate_stamp_iff [OF r, of "s\<lparr>state := Products_received, received_count := Some n\<rparr>", simplified]
  by (auto simp: contract_defs progress_defs image_defs session_fields_ok_def split: session_image_mode.splits)

lemma record_products_received_eq_Inr:
  "record_products_received s n expected now = Inr s' \<longleftrightarrow>
     (\<exists>t. ready s expected [Scrape_submitted] now t \<and> count_ok n \<and>
        s' = stamp t s (s\<lparr>state := Products_received, received_count := Some n\<rparr>))"
  unfolding record_products_received_def
  by (intro prepared_iff) (auto simp: advance_Utc_eq_Inr received_valid)

definition normalized_update :: "int \<Rightarrow> int \<Rightarrow> string \<Rightarrow> session \<Rightarrow> session" where
  "normalized_update n k d x = x\<lparr>state := Products_normalized, normalized_count := Some n,
     rejected_count := Some k, normalized_batch := Some d\<rparr>"

lemma normalized_valid:
  assumes r: "ready s expected [Products_received] now t" and "is_digest d"
  shows "validate_session (stamp t s (normalized_update n k d s)) = Inr () \<longleftrightarrow>
    0 \<le> n \<and> 0 \<le> k \<and> received_count s = Some (n + k)"
  using readyD [OF r] assms(2)
  unfolding validate_stamp_iff [OF r, of "normalized_update n k d s", unfolded normalized_update_def, simplified, folded normalized_update_def]
  by (auto simp: contract_defs progress_defs image_defs session_fields_ok_def normalized_update_def count_ok_def
      split: session_image_mode.splits)

lemma record_products_normalized_eq_Inr:
  "record_products_normalized s n k d expected now = Inr s' \<longleftrightarrow>
     (\<exists>t. ready s expected [Products_received] now t \<and> is_digest d \<and> 0 \<le> n \<and> 0 \<le> k \<and>
        received_count s = Some (n + k) \<and> s' = stamp t s (normalized_update n k d s))"
  unfolding record_products_normalized_def
  by (intro prepared_iff)
    (auto simp: advance_Utc_eq_Inr normalized_valid simp flip: normalized_update_def)

definition completed_update :: "int \<Rightarrow> string \<Rightarrow> session \<Rightarrow> session" where
  "completed_update n d x = x\<lparr>state := Search_completed, ranked_count := Some n,
     ranked_batch := Some d, outcome := Some (if 0 < n then Results else Empty)\<rparr>"

lemma completed_valid:
  assumes r: "ready s expected [Products_normalized] now t" and "is_digest d" "count_ok n"
  shows "validate_session (stamp t s (completed_update n d s)) = Inr () \<longleftrightarrow> normalized_count s = Some n"
  using readyD [OF r] assms(2,3)
  unfolding validate_stamp_iff [OF r, of "completed_update n d s", unfolded completed_update_def, simplified, folded completed_update_def]
  by (auto simp: contract_defs progress_defs image_defs session_fields_ok_def completed_update_def
      split: session_image_mode.splits)

lemma record_search_completed_eq_Inr:
  "record_search_completed s n d expected now = Inr s' \<longleftrightarrow>
     (\<exists>t. ready s expected [Products_normalized] now t \<and> is_digest d \<and> normalized_count s = Some n \<and>
        s' = stamp t s (completed_update n d s))"
proof -
  have "count_ok n" if "ready s expected [Products_normalized] now t" "normalized_count s = Some n" for t
    using readyD(1) [OF that(1)] that(2) by (simp add: session_fields_ok_def)
  moreover have "bind (prepare_transition s expected [Products_normalized] now) (\<lambda>_.
      bind (validated_digest ''ranked_product_batch_sha256'' d) (\<lambda>d.
      advance s now (completed_update n d))) = Inr s' \<longleftrightarrow>
    (\<exists>t. ready s expected [Products_normalized] now t \<and> is_digest d \<and>
        normalized_count s = Some n \<and> s' = stamp t s (completed_update n d s))" if "count_ok n"
    using that by (intro prepared_iff) (auto simp: advance_Utc_eq_Inr completed_valid)
  ultimately show ?thesis
    unfolding record_search_completed_def completed_update_def [symmetric]
    by (cases "count_ok n") auto
qed

definition failed_update :: "failure_stage \<Rightarrow> session \<Rightarrow> session" where
  "failed_update stage x = x\<lparr>state := Search_failed, failed_stage := Some stage,
     failed_code := Some (fst (expected_failure stage))\<rparr>"

lemma failed_valid:
  assumes r: "ready s expected [failing_state stage] now t"
  shows "validate_session (stamp t s (failed_update stage s)) = Inr ()"
  using readyD [OF r]
  unfolding validate_stamp_iff [OF r, of "failed_update stage s", unfolded failed_update_def, simplified, folded failed_update_def]
  by (cases stage)
    (auto simp: contract_defs progress_defs image_defs session_fields_ok_def failed_update_def
      split: session_image_mode.splits)

lemma record_search_failed_eq_Inr:
  "record_search_failed s stage expected now = Inr s' \<longleftrightarrow>
     (\<exists>t. ready s expected [failing_state stage] now t \<and> s' = stamp t s (failed_update stage s))"
  unfolding record_search_failed_def using failed_valid
  by (intro prepared_iff) (auto simp: advance_Utc_eq_Inr simp flip: failed_update_def)

subsection \<open>Approval\<close>

definition hash_digests :: "(string \<Rightarrow> string) \<Rightarrow> bool" where
  "hash_digests H \<longleftrightarrow> (\<forall>x. is_digest (H x))"

text \<open>The plan is the one the session was reviewed with.\<close>

definition plan_matches :: "('i, 'q, 'p) planner \<Rightarrow> session \<Rightarrow> ('i, 'q) approval_plan \<Rightarrow> bool" where
  "plan_matches P s a \<longleftrightarrow> plan_owner a = owner s \<and> plan_session a = session_id s \<and>
     Some (plan_intent_sha256 a) = intent_digest s \<and>
     Some (query_plan_sha256 P (plan_query a)) = query_digest s \<and>
     Some (plan_proposal_sha256 a) = proposal_digest s \<and>
     (case image_mode s of
        Image_off \<Rightarrow> plan_image_mode a = Images_off
      | Image_on \<Rightarrow> plan_image_mode a = Images_approved \<and> plan_image_set a = image_set s \<and>
          plan_image_metadata a = image_metadata s \<and> Some (rt_usage_policy (plan_runtime a)) = usage_policy s)"

lemma or_empty_Some [simp]: "or_empty (Some x) = x"
  by (simp add: or_empty_def)

lemma validate_plan_images:
  assumes "validate_plan P plan = Inr a" and "plan_image_mode a = Images_approved"
  shows "plan_image_set a \<noteq> None \<and> plan_image_metadata a \<noteq> None"
proof -
  have "\<exists>c. check_plan_images a c = Inr ()"
    using assms(1) by (auto simp: validate_plan_def Let_def check_plan_bindings_def split: option.splits)
  with assms(2) show ?thesis
    by (auto simp: check_plan_images_def Let_def split: if_splits)
qed

lemma validated_plan_for_session_eq_Inr:
  assumes "ready s expected [Search_approval] now t"
  shows "validated_plan_for_session P s plan = Inr a \<longleftrightarrow> validate_plan P plan = Inr a \<and> plan_matches P s a"
proof -
  note d = readyD [OF assms]
  obtain i q p where s: "intent_digest s = Some i" "query_digest s = Some q" "proposal_digest s = Some p"
    using d(2,6) by (auto simp: review_ok_def)
  have on: "\<exists>x y z. image_set s = Some x \<and> image_metadata s = Some y \<and> usage_policy s = Some z"
    if "image_mode s = Image_on"
    using that d(3,6) by (auto simp: images_ok_def both_images_def)
  show ?thesis
  proof (cases "image_mode s")
    case Image_off
    with s show ?thesis
      by (auto simp: validated_plan_for_session_def plan_matches_def check_plan_images_for_session_def)
  next
    case Image_on
    with on obtain x y z where "image_set s = Some x" "image_metadata s = Some y" "usage_policy s = Some z"
      by blast
    with s Image_on validate_plan_images [of P plan] show ?thesis
      by (auto simp: validated_plan_for_session_def plan_matches_def check_plan_images_for_session_def)
  qed
qed

definition issued_grant ::
  "(string \<Rightarrow> string) \<Rightarrow> string \<Rightarrow> string \<Rightarrow> time \<Rightarrow> ('i, 'q) approval_plan \<Rightarrow> approval_grant" where
  "issued_grant H d token t a = \<lparr>grant_plan = d, grant_token = approval_token_sha256 H token,
     issued_at = t, expires_at = plan_expires a, consumed_at = None\<rparr>"

lemma approval_update_valid:
  assumes r: "ready s expected [Search_approval] now t" and "validate_grant g = Inr ()" "consumed_at g = None"
  shows "validate_session (stamp t s (s\<lparr>approval := Some g\<rparr>)) = Inr ()"
  using readyD [OF r] assms(2,3) unfolding validate_stamp_iff [OF r, of "s\<lparr>approval := Some g\<rparr>", simplified]
  by (auto simp: contract_defs progress_defs image_defs session_fields_ok_def split: session_image_mode.splits)

lemma search_approval_plan_sha256_eq_Inr:
  "search_approval_plan_sha256 P H a = Inr d \<longleftrightarrow> (\<exists>b. validate_plan P a = Inr b \<and> d = H (plan_text P b))"
  by (auto simp: search_approval_plan_sha256_def)

lemma issue_search_approval_eq_Inr:
  assumes H: "hash_digests H"
  shows "issue_search_approval P H s plan drawn expected now = Inr (s', token) \<longleftrightarrow>
    (\<exists>t. ready s expected [Search_approval] now t \<and> approval s = None \<and>
      (\<exists>a d. validate_plan P plan = Inr a \<and> plan_matches P s a \<and> plan_created a \<le> t \<and>
         t < plan_expires a \<and> is_token drawn \<and> search_approval_plan_sha256 P H a = Inr d \<and>
         token = drawn \<and> s' = stamp t s (s\<lparr>approval := Some (issued_grant H d drawn t a)\<rparr>)))"
  unfolding issue_search_approval_def
proof (rule prepared_iff)
  fix t
  assume now: "now = Utc t" and r: "ready s expected [Search_approval] now t"
  have valid: "validate_grant (issued_grant H d drawn t a) = Inr ()"
    "validate_session (stamp t s (s\<lparr>approval := Some (issued_grant H d drawn t a)\<rparr>)) = Inr ()"
    if "search_approval_plan_sha256 P H a = Inr d" "t < plan_expires a" for a :: "('a, 'b) approval_plan" and d
  proof -
    show g: "validate_grant (issued_grant H d drawn t a) = Inr ()"
      using H that by (auto simp: validate_grant_eq_Inr issued_grant_def hash_digests_def
          approval_token_sha256_def search_approval_plan_sha256_eq_Inr)
    show "validate_session (stamp t s (s\<lparr>approval := Some (issued_grant H d drawn t a)\<rparr>)) = Inr ()"
      by (rule approval_update_valid [OF r g]) (simp add: issued_grant_def)
  qed
  show "(if approval s \<noteq> None then Inl (SearchStateError ''search approval has already been issued'')
     else bind (validated_plan_for_session P s plan) (\<lambda>a. bind (utc_datetime ''now'' now) (\<lambda>t.
       if t < plan_created a then Inl (SearchStateError ''search approval plan is not active yet'')
       else if plan_expires a \<le> t then Inl (SearchStateError ''search approval plan has expired'')
       else if \<not> is_token drawn then Inl (SearchStateError ''could not issue a valid search approval token'')
       else bind (search_approval_plan_sha256 P H a) (\<lambda>d.
         let g = \<lparr>grant_plan = d, grant_token = approval_token_sha256 H drawn, issued_at = t,
           expires_at = plan_expires a, consumed_at = None\<rparr>
         in bind (validate_grant g) (\<lambda>_. bind (advance s now (approval_update (\<lambda>_. Some g))) (\<lambda>s'. Inr (s', drawn))))))) =
     Inr (s', token) \<longleftrightarrow>
   approval s = None \<and> (\<exists>a d. validate_plan P plan = Inr a \<and> plan_matches P s a \<and> plan_created a \<le> t \<and>
     t < plan_expires a \<and> is_token drawn \<and> search_approval_plan_sha256 P H a = Inr d \<and> token = drawn \<and>
     s' = stamp t s (s\<lparr>approval := Some (issued_grant H d drawn t a)\<rparr>))"
    (is "?lhs \<longleftrightarrow> ?rhs")
  proof
    assume ?lhs
    then show ?rhs
      unfolding issued_grant_def [symmetric] Let_def
      by (auto simp: now advance_Utc_eq_Inr validated_plan_for_session_eq_Inr [OF r] if_Inl_eq_Inr)
  next
    assume ?rhs
    then obtain a d where a: "approval s = None" "validate_plan P plan = Inr a" "plan_matches P s a"
      "plan_created a \<le> t" "t < plan_expires a" "is_token drawn" "search_approval_plan_sha256 P H a = Inr d"
      "token = drawn" "s' = stamp t s (s\<lparr>approval := Some (issued_grant H d drawn t a)\<rparr>)" by blast
    have "validated_plan_for_session P s plan = Inr a"
      using a validated_plan_for_session_eq_Inr [OF r] by blast
    with a valid [OF a(7,5)] show ?lhs
      unfolding issued_grant_def [symmetric] Let_def by (simp add: now advance_Utc_eq_Inr)
  qed
qed

text \<open>What the checks before the claim establish.\<close>

definition search_started ::
  "session \<Rightarrow> ('i, 'q) approval_plan \<Rightarrow> usage_reservation \<Rightarrow> string \<Rightarrow> approval_grant \<Rightarrow> time \<Rightarrow> bool" where
  "search_started s a r d g t \<longleftrightarrow> validate_reservation r = Inr () \<and>
     (\<exists>w. find (\<lambda>x. allow_provider x = Outscraper) (plan_allowances a) = Some w \<and>
        outscraper_reservation_matches s a w r d) \<and>
     (\<exists>x. started_at r = Some x \<and> issued_at g \<le> x \<and> x \<le> t)"

definition consumable ::
  "('i, 'q, 'p) planner \<Rightarrow> (string \<Rightarrow> string) \<Rightarrow> session \<Rightarrow> string \<Rightarrow> ('i, 'q) approval_plan
     \<Rightarrow> usage_reservation \<Rightarrow> approval_grant \<Rightarrow> time \<Rightarrow> bool" where
  "consumable P H s token plan r g t \<longleftrightarrow> approval s = Some g \<and> is_token token \<and>
     grant_token g = approval_token_sha256 H token \<and> t < expires_at g \<and>
     (\<exists>a. validate_plan P plan = Inr a \<and> plan_matches P s a \<and> expires_at g = plan_expires a \<and>
        search_approval_plan_sha256 P H a = Inr (grant_plan g) \<and> search_started s a r (grant_plan g) g t)"

lemma validated_outscraper_eq_Inr:
  "approval s = Some g \<Longrightarrow>
   validated_outscraper_reservation s a r d t = Inr r' \<longleftrightarrow> r' = r \<and> search_started s a r d g t"
  by (auto simp: validated_outscraper_reservation_def search_started_def split: option.splits if_splits)

lemma consumption_checks_eq_Inr:
  "consumption_checks P H s token plan r own sid expected now = Inr (g, u) \<longleftrightarrow>
     (\<exists>t. ready s expected [Search_approval] now t \<and>
        own = owner s \<and> sid = session_id s \<and> consumable P H s token plan r g t \<and> u = t)"
  unfolding consumption_checks_def
proof (rule prepared_iff)
  fix t
  assume now: "now = Utc t" and rd: "ready s expected [Search_approval] now t"
  show "(if own \<noteq> owner s \<or> sid \<noteq> session_id s
      then Inl (SearchStateError ''approval owner or session does not match'')
      else case approval s of None \<Rightarrow> Inl (SearchStateError ''search approval has not been issued'')
      | Some g \<Rightarrow> bind (validated_plan_for_session P s plan) (\<lambda>a. bind (search_approval_plan_sha256 P H a) (\<lambda>d.
          if grant_plan g \<noteq> d then Inl (SearchStateError ''approved plan does not match'')
          else if expires_at g \<noteq> plan_expires a then Inl (SearchStateError ''approved plan expiry does not match'')
          else bind (utc_datetime ''now'' now) (\<lambda>t.
            if expires_at g \<le> t then Inl (SearchStateError ''search approval has expired'')
            else if \<not> is_token token \<or> grant_token g \<noteq> approval_token_sha256 H token
            then Inl (SearchStateError ''approval token does not match'')
            else bind (validated_outscraper_reservation s a r d t) (\<lambda>_. Inr (g, t)))))) = Inr (g, u) \<longleftrightarrow>
    own = owner s \<and> sid = session_id s \<and> consumable P H s token plan r g t \<and> u = t"
  proof (cases "approval s")
    case (Some h)
    then show ?thesis
      by (auto simp: now consumable_def validated_plan_for_session_eq_Inr [OF rd]
          validated_outscraper_eq_Inr [OF Some] if_Inl_eq_Inr)
  qed (simp add: consumable_def)
qed

definition submitted :: "approval_grant \<Rightarrow> time \<Rightarrow> session \<Rightarrow> session" where
  "submitted g t x = x\<lparr>state := Scrape_submitted, approval := Some (g\<lparr>consumed_at := Some t\<rparr>)\<rparr>"

lemma submitted_valid:
  assumes r: "ready s expected [Search_approval] now t" and g: "validate_grant (g\<lparr>consumed_at := Some t\<rparr>) = Inr ()"
    and "approval s = Some g"
  shows "validate_session (stamp t s (submitted g t s)) = Inr ()"
proof -
  have "proposal_status s = Some Ready" "query_digest s \<noteq> None" using readyD(2,6) [OF r] by (auto simp: review_ok_def)
  then show ?thesis
    using readyD [OF r] assms(2,3)
    unfolding validate_stamp_iff [OF r, of "submitted g t s", unfolded submitted_def, simplified, folded submitted_def]
    by (auto simp: contract_defs progress_defs image_defs session_fields_ok_def submitted_def split: session_image_mode.splits)
qed

definition claim_record :: "session \<Rightarrow> approval_grant \<Rightarrow> time \<Rightarrow> consumption" where
  "claim_record s g t = \<lparr>con_owner = owner s, con_session = session_id s, con_plan = grant_plan g,
     con_token = grant_token g, con_at = t\<rparr>"

text \<open>The two outcomes of a consumption: the whole of it or nothing.\<close>

lemma consume_search_approval_eq:
  "consume_search_approval P H s l token plan r own sid expected now = (Inr s', l') \<longleftrightarrow>
     (\<exists>g t. ready s expected [Search_approval] now t \<and> own = owner s \<and> sid = session_id s \<and>
        consumable P H s token plan r g t \<and> issued_at g \<le> t \<and> \<not> token_claimed l (grant_token g) \<and>
        length l < max_approval_consumptions \<and> l' = l @ [(grant_token g, claim_record s g t)] \<and>
        s' = stamp t s (submitted g t s))"
proof (cases "consumption_checks P H s token plan r own sid expected now")
  case (Inl e)
  then have "\<not> (\<exists>t g. ready s expected [Search_approval] now t \<and> own = owner s \<and> sid = session_id s \<and>
      consumable P H s token plan r g t)"
    using consumption_checks_eq_Inr [of P H s token plan r own sid expected now] by force
  with Inl show ?thesis by (auto simp: consume_search_approval_def)
next
  case (Inr gt)
  obtain g t where gt: "gt = (g, t)" by (cases gt)
  with Inr have c: "ready s expected [Search_approval] now t" "own = owner s" "sid = session_id s"
    "consumable P H s token plan r g t"
    using consumption_checks_eq_Inr [of P H s token plan r own sid expected now g t] by auto
  have now: "now = Utc t" and ap: "approval s = Some g" using c by (auto simp: ready_def consumable_def)
  have g: "validate_grant g = Inr ()" "consumed_at g = None" and own: "is_subject_id (owner s)" "is_subject_id (session_id s)"
    using readyD(1,4,6) [OF c(1)] ap by (auto simp: session_fields_ok_def approval_ok_def execution_states_def)
  have uniq: "consumable P H s token plan r g' t' \<longleftrightarrow> g' = g \<and> t' = t"
    if "ready s expected [Search_approval] now t'" for g' t'
    using that c ap now by (auto simp: consumable_def ready_def)
  have t: "t < expires_at g" using c(4) by (auto simp: consumable_def)
  have cl: "claim g (owner s) (session_id s) (Utc t) l = Inr (x, l'') \<longleftrightarrow>
      issued_at g \<le> t \<and> \<not> token_claimed l (grant_token g) \<and> length l < max_approval_consumptions \<and>
      x = claim_record s g t \<and> l'' = l @ [(grant_token g, claim_record s g t)]" for x l''
    using g own t by (auto simp: claim_eq_Inr claim_record_def validate_consumption_def validate_grant_eq_Inr)
  show ?thesis
  proof (cases "claim g (owner s) (session_id s) (Utc t) l")
    case (Inl e)
    then have "\<not> (issued_at g \<le> t \<and> \<not> token_claimed l (grant_token g) \<and> length l < max_approval_consumptions)"
      using cl by force
    with Inl Inr gt uniq show ?thesis by (auto simp: consume_search_approval_def)
  next
    case claimed: (Inr xl)
    obtain x l'' where xl: "xl = (x, l'')" by (cases xl)
    have "validate_grant (g\<lparr>consumed_at := Some t\<rparr>) = Inr ()"
      using claimed xl cl g t by (auto simp: validate_grant_eq_Inr)
    with submitted_valid [OF c(1) this ap] claimed Inr gt xl cl [of x l''] uniq c
    show ?thesis
      by (auto simp: consume_search_approval_def Let_def advance_Utc_eq_Inr submitted_def [symmetric])
  qed
qed

lemma consume_error_keeps_ledger:
  assumes "consume_search_approval P H s l token plan r own sid expected now = (Inl e, l')"
  shows "l' = l"
proof (rule ccontr)
  assume ne: "l' \<noteq> l"
  then obtain g t where gt: "consumption_checks P H s token plan r own sid expected now = Inr (g, t)"
    using assms by (cases "consumption_checks P H s token plan r own sid expected now")
      (auto simp: consume_search_approval_def)
  with ne assms obtain x where cl: "claim g (owner s) (session_id s) (Utc t) l = Inr (x, l')"
    by (cases "claim g (owner s) (session_id s) (Utc t) l") (auto simp: consume_search_approval_def Let_def)
  from gt have c: "ready s expected [Search_approval] now t" "approval s = Some g"
    unfolding consumption_checks_eq_Inr by (auto simp: consumable_def)
  have g: "validate_grant (g\<lparr>consumed_at := Some t\<rparr>) = Inr ()"
    using cl by (auto simp: claim_eq_Inr validate_grant_eq_Inr)
  from submitted_valid [OF c(1) g c(2)] assms gt cl g show False
    by (auto simp: consume_search_approval_def Let_def advance_def submitted_def stamp_def)
qed

end
