(* ===== verification/Session_System.thy ===== *)
theory Session_System
  imports Session_Props
begin

text \<open>
  Sessions in operation: the transitions of \<open>state_machine.py\<close> as the events of one session, what
  every accepted event keeps (identity, revision counting, the state graph, the image budget), and
  several sessions sharing one approval ledger.
\<close>

section \<open>The events of a session\<close>

datatype ('i, 'q, 'p) session_event =
    Ev_start_intent int time_arg
  | Ev_record_intent 'i "'q option" 'p int time_arg
  | Ev_replace_intent 'i "'q option" 'p int time_arg
  | Ev_approve_intent bool "usage_reservation option" int time_arg
  | Ev_image_set usage_reservation string string int time_arg
  | Ev_counterfactual usage_reservation string int string string int time_arg
  | Ev_image_failure usage_reservation int time_arg
  | Ev_regenerate usage_reservation int time_arg
  | Ev_retry usage_reservation int time_arg
  | Ev_approve_images int time_arg
  | Ev_discard_images int time_arg
  | Ev_discard_failed int time_arg
  | Ev_issue "('i, 'q) approval_plan" string int time_arg
  | Ev_consume approval_ledger string "('i, 'q) approval_plan" usage_reservation string string int time_arg
  | Ev_received int int time_arg
  | Ev_normalized int int string int time_arg
  | Ev_completed int string int time_arg
  | Ev_failed failure_stage int time_arg

fun session_step ::
  "('i, 'q, 'p) planner \<Rightarrow> (string \<Rightarrow> string) \<Rightarrow> ('i, 'q, 'p) session_event \<Rightarrow> session \<Rightarrow> session result" where
  "session_step P H (Ev_start_intent n now) s = start_intent_processing s n now"
| "session_step P H (Ev_record_intent i q p n now) s = record_intent_plan P s i q p n now"
| "session_step P H (Ev_replace_intent i q p n now) s = replace_intent_plan P s i q p n now"
| "session_step P H (Ev_approve_intent b r n now) s = approve_intent_review s b r n now"
| "session_step P H (Ev_image_set r d m n now) s = record_image_set s r d m n now"
| "session_step P H (Ev_counterfactual r pre k d m n now) s = record_counterfactual_images s r pre k d m n now"
| "session_step P H (Ev_image_failure r n now) s = record_image_generation_failure s r n now"
| "session_step P H (Ev_regenerate r n now) s = request_image_regeneration s r n now"
| "session_step P H (Ev_retry r n now) s = retry_failed_image_set s r n now"
| "session_step P H (Ev_approve_images n now) s = approve_image_review s n now"
| "session_step P H (Ev_discard_images n now) s = discard_image_set s n now"
| "session_step P H (Ev_discard_failed n now) s = discard_failed_image_attempt s n now"
| "session_step P H (Ev_issue plan drawn n now) s =
     bind (issue_search_approval P H s plan drawn n now) (\<lambda>(s', _). Inr s')"
| "session_step P H (Ev_consume l token plan r own sid n now) s =
     fst (consume_search_approval P H s l token plan r own sid n now)"
| "session_step P H (Ev_received k n now) s = record_products_received s k n now"
| "session_step P H (Ev_normalized k j d n now) s = record_products_normalized s k j d n now"
| "session_step P H (Ev_completed k d n now) s = record_search_completed s k d n now"
| "session_step P H (Ev_failed stage n now) s = record_search_failed s stage n now"

fun event_revision :: "('i, 'q, 'p) session_event \<Rightarrow> int" where
  "event_revision (Ev_start_intent n _) = n"
| "event_revision (Ev_record_intent _ _ _ n _) = n"
| "event_revision (Ev_replace_intent _ _ _ n _) = n"
| "event_revision (Ev_approve_intent _ _ n _) = n"
| "event_revision (Ev_image_set _ _ _ n _) = n"
| "event_revision (Ev_counterfactual _ _ _ _ _ n _) = n"
| "event_revision (Ev_image_failure _ n _) = n"
| "event_revision (Ev_regenerate _ n _) = n"
| "event_revision (Ev_retry _ n _) = n"
| "event_revision (Ev_approve_images n _) = n"
| "event_revision (Ev_discard_images n _) = n"
| "event_revision (Ev_discard_failed n _) = n"
| "event_revision (Ev_issue _ _ n _) = n"
| "event_revision (Ev_consume _ _ _ _ _ _ n _) = n"
| "event_revision (Ev_received _ n _) = n"
| "event_revision (Ev_normalized _ _ _ n _) = n"
| "event_revision (Ev_completed _ _ n _) = n"
| "event_revision (Ev_failed _ n _) = n"

section \<open>The state graph\<close>

fun next_states :: "search_state \<Rightarrow> search_state list" where
  "next_states Draft = [Intent_processing]"
| "next_states Intent_processing = [Intent_review]"
| "next_states Intent_review = [Intent_review, Image_generating, Image_review, Search_approval]"
| "next_states Image_generating = [Image_review, Image_generation_failed]"
| "next_states Image_generation_failed = [Image_generating, Search_approval]"
| "next_states Image_review = [Intent_review, Image_generating, Search_approval]"
| "next_states Search_approval = [Intent_review, Search_approval, Scrape_submitted]"
| "next_states Scrape_submitted = [Products_received, Search_failed]"
| "next_states Products_received = [Products_normalized, Search_failed]"
| "next_states Products_normalized = [Search_completed, Search_failed]"
| "next_states Search_completed = []"
| "next_states Search_failed = []"

text \<open>Everything an accepted event may do to a snapshot, whatever the operation.\<close>

definition session_evolves :: "session \<Rightarrow> session \<Rightarrow> bool" where
  "session_evolves s s' \<longleftrightarrow> validate_session s = Inr () \<and> validate_session s' = Inr () \<and>
     revision s' = revision s + 1 \<and> updated_at s \<le> updated_at s' \<and>
     owner s' = owner s \<and> session_id s' = session_id s \<and> created_at s' = created_at s \<and>
     state s' \<in> set (next_states (state s))"

definition evolves_from :: "session \<Rightarrow> int \<Rightarrow> session \<Rightarrow> bool" where
  "evolves_from s n s' \<longleftrightarrow> session_evolves s s' \<and> n = revision s"

lemma readyE:
  assumes "ready s n allowed now t"
  shows "validate_session s = Inr ()" "n = revision s" "state s \<in> set allowed" "updated_at s \<le> t"
  using assms by (auto simp: ready_def)

lemma stamped_evolves:
  assumes r: "ready s n allowed now t" and v: "validate_session (stamp t s x) = Inr ()"
    and "owner x = owner s" "session_id x = session_id s" "created_at x = created_at s"
    and "\<And>a. a \<in> set allowed \<Longrightarrow> state s = a \<Longrightarrow> state x \<in> set (next_states a)"
  shows "evolves_from s n (stamp t s x)"
  using readyE [OF r] assms by (auto simp: session_evolves_def evolves_from_def)

lemmas update_defs = begin_images_def finish_images_def fail_images_def next_attempt_def
  compare_images_def review_update_def clear_images_def normalized_update_def completed_update_def
  failed_update_def submitted_def

lemmas step_eqs = start_intent_processing_eq_Inr approve_intent_review_eq_Inr record_image_set_eq_Inr
  record_counterfactual_images_eq_Inr record_image_generation_failure_eq_Inr
  request_image_regeneration_eq_Inr retry_failed_image_set_eq_Inr approve_image_review_eq_Inr
  discard_image_set_eq_Inr discard_failed_image_attempt_eq_Inr record_products_received_eq_Inr
  record_products_normalized_eq_Inr record_search_completed_eq_Inr record_search_failed_eq_Inr

lemma update_sel [simp]:
  "owner (begin_images r x) = owner x" "session_id (begin_images r x) = session_id x"
  "created_at (begin_images r x) = created_at x" "state (begin_images r x) = Image_generating"
  "owner (finish_images d m x) = owner x" "session_id (finish_images d m x) = session_id x"
  "created_at (finish_images d m x) = created_at x" "state (finish_images d m x) = Image_review"
  "owner (fail_images r x) = owner x" "session_id (fail_images r x) = session_id x"
  "created_at (fail_images r x) = created_at x" "state (fail_images r x) = Image_generation_failed"
  "owner (next_attempt r x) = owner x" "session_id (next_attempt r x) = session_id x"
  "created_at (next_attempt r x) = created_at x" "state (next_attempt r x) = Image_generating"
  "owner (compare_images r d m x) = owner x" "session_id (compare_images r d m x) = session_id x"
  "created_at (compare_images r d m x) = created_at x" "state (compare_images r d m x) = Image_review"
  "owner (review_update P i q p x) = owner x" "session_id (review_update P i q p x) = session_id x"
  "created_at (review_update P i q p x) = created_at x" "state (review_update P i q p x) = Intent_review"
  by (simp_all add: update_defs)

lemma failing_next [simp]: "Search_failed \<in> set (next_states (failing_state stage))"
  by (cases stage) simp_all

lemma transition_evolves:
  assumes p: "prepare_transition s n allowed now = Inr ()" and a: "advance s now f = Inr s'"
    and "owner (f s) = owner s" "session_id (f s) = session_id s" "created_at (f s) = created_at s"
    and "\<And>a. a \<in> set allowed \<Longrightarrow> state s = a \<Longrightarrow> state (f s) \<in> set (next_states a)"
  shows "evolves_from s n s'"
proof -
  from p obtain t where r: "ready s n allowed now t" unfolding prepare_transition_eq_Inr by blast
  then have "now = Utc t" by (simp add: ready_def)
  with a have s': "s' = stamp t s (f s)" and v: "validate_session (stamp t s (f s)) = Inr ()"
    by (simp_all add: advance_Utc_eq_Inr)
  show ?thesis unfolding s' by (rule stamped_evolves [OF r v assms(3-6)])
qed

lemma step_evolves_approve:
  assumes "approve_intent_review s b v n now = Inr s'"
  shows "evolves_from s n s'"
proof -
  from assms have p: "prepare_transition s n [Intent_review] now = Inr ()"
    and "advance s now (\<lambda>x. x\<lparr>state := Search_approval\<rparr>) = Inr s' \<or>
      (\<exists>r. advance s now (begin_images r) = Inr s')"
    unfolding approve_intent_review_def by (simp_all add: if_Inl_eq_Inr split: if_split_asm) auto
  then show ?thesis by (auto intro!: transition_evolves [OF p])
qed

lemma step_evolves_images:
  "record_image_set s r d m n now = Inr s' \<Longrightarrow> evolves_from s n s'"
  "record_image_generation_failure s r n now = Inr s' \<Longrightarrow> evolves_from s n s'"
  "request_image_regeneration s r n now = Inr s' \<Longrightarrow> evolves_from s n s'"
  "retry_failed_image_set s r n now = Inr s' \<Longrightarrow> evolves_from s n s'"
  unfolding record_image_set_def record_image_generation_failure_def
    request_image_regeneration_def retry_failed_image_set_def
  by (auto simp: if_Inl_eq_Inr intro!: transition_evolves)

lemma step_evolves_counterfactual:
  "record_counterfactual_images s r pre k d m n now = Inr s' \<Longrightarrow> evolves_from s n s'"
  unfolding record_counterfactual_images_def Let_def
  by (auto simp: if_Inl_eq_Inr intro!: transition_evolves)

lemma step_evolves_review:
  "start_intent_processing s n now = Inr s' \<Longrightarrow> evolves_from s n s'"
  "record_intent_plan P s i q p n now = Inr s' \<Longrightarrow> evolves_from s n s'"
  "replace_intent_plan P s i q p n now = Inr s' \<Longrightarrow> evolves_from s n s'"
  "approve_image_review s n now = Inr s' \<Longrightarrow> evolves_from s n s'"
  "discard_image_set s n now = Inr s' \<Longrightarrow> evolves_from s n s'"
  "discard_failed_image_attempt s n now = Inr s' \<Longrightarrow> evolves_from s n s'"
  unfolding start_intent_processing_def record_intent_plan_def replace_intent_plan_def
    approve_image_review_def discard_image_set_def discard_failed_image_attempt_def
  by (auto intro!: transition_evolves)

lemma step_evolves_progress:
  "record_products_received s k n now = Inr s' \<Longrightarrow> evolves_from s n s'"
  "record_products_normalized s k j d n now = Inr s' \<Longrightarrow> evolves_from s n s'"
  "record_search_completed s k d n now = Inr s' \<Longrightarrow> evolves_from s n s'"
  "record_search_failed s stage n now = Inr s' \<Longrightarrow> evolves_from s n s'"
  unfolding record_products_received_def record_products_normalized_def record_search_completed_def
    record_search_failed_def
  by (auto intro!: transition_evolves elim: failing_state.elims)

lemma step_evolves_issue:
  "issue_search_approval P H s plan drawn n now = Inr (s', token) \<Longrightarrow>
     evolves_from s n s'"
  unfolding issue_search_approval_def
  by (auto simp: if_Inl_eq_Inr Let_def intro: transition_evolves)

lemma step_evolves_consume:
  assumes "consume_search_approval P H s l token plan r own sid n now = (Inr s', l')"
  shows "evolves_from s n s'"
proof -
  from assms obtain g t where r: "ready s n [Search_approval] now t" and s': "s' = stamp t s (submitted g t s)"
    and c: "consumable P H s token plan r g t" "issued_at g \<le> t"
    unfolding consume_search_approval_eq by blast
  have "approval s = Some g" "t < expires_at g" using c(1) by (auto simp: consumable_def)
  moreover from this have "validate_grant (g\<lparr>consumed_at := Some t\<rparr>) = Inr ()"
    using readyD(1) [OF r] c(2) by (simp add: session_fields_ok_def validate_grant_eq_Inr)
  ultimately have "validate_session (stamp t s (submitted g t s)) = Inr ()"
    by (intro submitted_valid [OF r])
  then show ?thesis
    unfolding s' by (intro stamped_evolves [OF r]) (auto simp: submitted_def)
qed

lemma session_step_evolves:
  assumes "session_step P H e s = Inr s'"
  shows "evolves_from s (event_revision e) s'"
proof (cases e)
  case (Ev_issue plan drawn n now)
  with assms show ?thesis by (auto dest: step_evolves_issue)
next
  case (Ev_consume l token plan r own sid n now)
  with assms show ?thesis
    by (cases "consume_search_approval P H s l token plan r own sid n now")
      (auto dest: step_evolves_consume)
qed (use assms step_evolves_approve step_evolves_images step_evolves_counterfactual step_evolves_review step_evolves_progress in auto)

definition session_inv :: "session \<Rightarrow> bool" where
  "session_inv s \<longleftrightarrow> validate_session s = Inr ()"

interpretation session: versioned_system "session_step P H" session_inv revision event_revision for P H
  by unfold_locales (auto simp: session_inv_def session_evolves_def evolves_from_def dest!: session_step_evolves)

section \<open>An approved search ends\<close>

definition execution_moves :: "search_state \<Rightarrow> search_state \<Rightarrow> bool" where
  "execution_moves a b \<longleftrightarrow> a \<in> execution_states \<and> b \<in> set (next_states a)"

fun execution_rank :: "search_state \<Rightarrow> nat" where
  "execution_rank Products_received = 1"
| "execution_rank Products_normalized = 2"
| "execution_rank Search_completed = 3"
| "execution_rank Search_failed = 3"
| "execution_rank _ = 0"

interpretation execution: lifecycle execution_moves execution_rank 3
  by unfold_locales (auto simp: execution_moves_def execution_states_def)

definition executing :: "session \<Rightarrow> bool" where
  "executing s \<longleftrightarrow> session_inv s \<and> state s \<in> execution_states"

lemma executing_step:
  "executing s \<Longrightarrow> session_step P H e s = Inr s' \<Longrightarrow> executing s' \<and> execution_moves (state s) (state s')"
  by (auto simp: executing_def execution_moves_def evolves_from_def session_evolves_def session_inv_def
      execution_states_def dest!: session_step_evolves)

interpretation executing: guarded_system "session_step P H" executing for P H
  by unfold_locales (auto dest: executing_step)

section \<open>The image budget\<close>

fun resets_images :: "('i, 'q, 'p) session_event \<Rightarrow> bool" where
  "resets_images (Ev_replace_intent _ _ _ _ _) = True"
| "resets_images (Ev_discard_images _ _) = True"
| "resets_images (Ev_discard_failed _ _) = True"
| "resets_images _ = False"

fun starts_images :: "('i, 'q, 'p) session_event \<Rightarrow> bool" where
  "starts_images (Ev_approve_intent b _ _ _) = b"
| "starts_images (Ev_counterfactual _ _ _ _ _ _ _) = True"
| "starts_images (Ev_regenerate _ _ _) = True"
| "starts_images (Ev_retry _ _ _) = True"
| "starts_images _ = False"

fun image_starts ::
  "('i, 'q, 'p) planner \<Rightarrow> (string \<Rightarrow> string) \<Rightarrow> session \<Rightarrow> ('i, 'q, 'p) session_event list \<Rightarrow> int" where
  "image_starts P H s [] = 0"
| "image_starts P H s (e # es) =
     (if is_ok (session_step P H e s) \<and> starts_images e then 1 else 0) +
     image_starts P H (attempt (session_step P H) e s) es"

lemma review_update_attempts [simp]:
  "image_attempts (review_update P i q p x) = image_attempts x" "approval (review_update P i q p x) = approval x"
  by (simp_all add: review_update_def)

lemma record_intent_plan_shape:
  assumes "record_intent_plan P s i q p n now = Inr s'"
  shows "\<exists>t x y z. s' = stamp t s (review_update P x y z s)"
  using assms unfolding record_intent_plan_def by (auto simp: advance_eq_Inr)

lemma issue_shape:
  assumes "issue_search_approval P H s plan drawn n now = Inr (s', token)"
  shows "state s = Search_approval \<and> (\<exists>t g. s' = stamp t s (s\<lparr>approval := Some g\<rparr>))"
proof -
  from assms have "prepare_transition s n [Search_approval] now = Inr () \<and>
      (\<exists>g. advance s now (\<lambda>x. x\<lparr>approval := Some g\<rparr>) = Inr s')"
    unfolding issue_search_approval_def Let_def by (auto simp: if_Inl_eq_Inr)
  then show ?thesis by (auto simp: prepare_transition_eq_Inr ready_def advance_eq_Inr)
qed

lemma consume_shape:
  assumes "consume_search_approval P H s l token plan r own sid n now = (Inr s', l')"
  shows "\<exists>t g. s' = stamp t s (submitted g t s)"
  using assms unfolding consume_search_approval_eq by blast

lemma review_no_attempts: "ready s n [Intent_review] now t \<Longrightarrow> image_attempts s = 0"
  using readyD [of s n "[Intent_review]" now t]
  by (auto simp: images_ok_def split: session_image_mode.splits)

lemma attempts_step:
  assumes "session_step P H e s = Inr s'" and "\<not> resets_images e"
  shows "image_attempts s' = image_attempts s + (if starts_images e then 1 else 0)"
proof (cases e)
  case (Ev_record_intent i q p n now)
  with assms show ?thesis by (auto dest: record_intent_plan_shape)
next
  case (Ev_issue plan drawn n now)
  with assms show ?thesis by (auto dest: issue_shape)
next
  case (Ev_consume l token plan r own sid n now)
  with assms show ?thesis
    by (cases "consume_search_approval P H s l token plan r own sid n now")
      (auto simp: submitted_def dest: consume_shape)
next
  case (Ev_approve_intent b r n now)
  with assms review_no_attempts show ?thesis
    by (cases b) (auto simp: approve_intent_review_eq_Inr begin_images_def)
next
  case (Ev_counterfactual r pre k d m n now)
  with assms review_no_attempts show ?thesis
    by (auto simp: record_counterfactual_images_eq_Inr compare_images_def)
qed (use assms in \<open>auto simp: step_eqs finish_images_def fail_images_def next_attempt_def
      normalized_update_def completed_update_def failed_update_def\<close>)

lemma attempts_run:
  assumes "\<forall>e\<in>set es. \<not> resets_images e"
  shows "image_attempts (run_events (session_step P H) s es) = image_attempts s + image_starts P H s es"
  using assms
proof (induction es arbitrary: s)
  case (Cons e es)
  then show ?case
    by (cases "session_step P H e s") (auto simp: attempts_step)
qed simp

section \<open>Sessions sharing one approval ledger\<close>

record service =
  sessions :: "string \<Rightarrow> session option"
  claims :: approval_ledger

fun is_consume :: "('i, 'q, 'p) session_event \<Rightarrow> bool" where
  "is_consume (Ev_consume _ _ _ _ _ _ _ _) = True"
| "is_consume _ = False"

text \<open>
  One step of the service: a session is created under a new key, a session's snapshot is replaced
  by the result of a transition, or an approval is consumed against the shared ledger (whose new
  content is kept whatever the call returns).
\<close>

inductive service_step ::
  "('i, 'q, 'p) planner \<Rightarrow> (string \<Rightarrow> string) \<Rightarrow> service \<Rightarrow> service \<Rightarrow> bool"
  for P :: "('i, 'q, 'p) planner" and H :: "string \<Rightarrow> string" where
  create: "sessions v k = None \<Longrightarrow> create_search_session own sid now = Inr s \<Longrightarrow>
     service_step P H v (v\<lparr>sessions := (sessions v)(k \<mapsto> s)\<rparr>)"
| act: "sessions v k = Some s \<Longrightarrow> \<not> is_consume e \<Longrightarrow> session_step P H e s = Inr s' \<Longrightarrow>
     service_step P H v (v\<lparr>sessions := (sessions v)(k \<mapsto> s')\<rparr>)"
| consume: "sessions v k = Some s \<Longrightarrow>
     consume_search_approval P H s (claims v) token plan r own sid n now = (res, l') \<Longrightarrow>
     service_step P H v (v\<lparr>sessions := (case res of Inl _ \<Rightarrow> sessions v | Inr s' \<Rightarrow> (sessions v)(k \<mapsto> s')),
       claims := l'\<rparr>)"

inductive_cases service_stepE: "service_step P H v v'"

definition new_service :: service where
  "new_service = \<lparr>sessions = (\<lambda>_. None), claims = new_approval_ledger\<rparr>"

text \<open>What every executing session owes to the ledger.\<close>

definition claimed_by :: "approval_ledger \<Rightarrow> session \<Rightarrow> bool" where
  "claimed_by l s \<longleftrightarrow> (\<exists>g t. approval s = Some g \<and> consumed_at g = Some t \<and>
     map_of l (grant_token g) = Some (claim_record s g t))"

definition service_inv :: "service \<Rightarrow> bool" where
  "service_inv v \<longleftrightarrow> approvals_inv (claims v) \<and>
     (\<forall>k s. sessions v k = Some s \<longrightarrow> session_inv s \<and>
        (state s \<in> execution_states \<longrightarrow> claimed_by (claims v) s)) \<and>
     (\<forall>j k s s'. sessions v j = Some s \<longrightarrow> sessions v k = Some s' \<longrightarrow> j \<noteq> k \<longrightarrow>
        state s \<in> execution_states \<longrightarrow> state s' \<in> execution_states \<longrightarrow>
        map_option grant_token (approval s) \<noteq> map_option grant_token (approval s'))"

lemma create_session_valid:
  "create_search_session own sid now = Inr s \<Longrightarrow> session_inv s \<and> state s = Draft"
  by (auto simp: create_search_session_def Let_def session_inv_def)

lemma step_keeps_approval:
  assumes "session_step P H e s = Inr s'" and "\<not> is_consume e" and "state s' \<in> execution_states"
  shows "state s \<in> execution_states \<and> approval s' = approval s \<and> owner s' = owner s \<and>
    session_id s' = session_id s"
proof -
  have ev: "session_evolves s s'" using session_step_evolves [OF assms(1)] by (simp add: evolves_from_def)
  have "state s \<in> execution_states \<and> approval s' = approval s"
  proof (cases e)
    case (Ev_record_intent i q p n now)
    with assms show ?thesis
      by (auto simp: execution_states_def review_update_def dest: record_intent_plan_shape)
  next
    case (Ev_replace_intent i q p n now)
    with assms have "state s' = Intent_review"
      by (auto simp: replace_intent_plan_def advance_eq_Inr review_update_def)
    with assms(3) show ?thesis by (simp add: execution_states_def)
  next
    case (Ev_issue plan drawn n now)
    with assms have "state s' = Search_approval" by (auto dest!: issue_shape)
    with assms(3) show ?thesis by (simp add: execution_states_def)
  next
    case (Ev_consume l token plan r own sid n now)
    with assms(2) show ?thesis by simp
  next
    case (Ev_approve_intent b r n now)
    with assms show ?thesis
      by (cases b) (auto simp: execution_states_def approve_intent_review_eq_Inr)
  next
    case (Ev_failed stage n now)
    with assms show ?thesis
      by (cases stage) (auto simp: execution_states_def record_search_failed_eq_Inr failed_update_def ready_def)
  qed (use assms in \<open>auto simp: step_eqs execution_states_def ready_def
      normalized_update_def completed_update_def\<close>)
  with ev show ?thesis by (simp add: session_evolves_def)
qed

lemma claimed_by_cong:
  "approval s' = approval s \<Longrightarrow> owner s' = owner s \<Longrightarrow> session_id s' = session_id s \<Longrightarrow>
     claimed_by l s' = claimed_by l s"
  by (simp add: claimed_by_def claim_record_def)

lemma claimed_by_append:
  assumes "claimed_by l s" shows "claimed_by (l @ [(d, c)]) s"
  using assms by (auto simp: claimed_by_def map_add_def)

text \<open>A snapshot may be replaced by one that is not executing or has the same claim.\<close>

lemma service_inv_replace:
  assumes inv: "service_inv v" and s': "session_inv s'"
    and ex: "state s' \<in> execution_states \<Longrightarrow> \<exists>s. sessions v k = Some s \<and> state s \<in> execution_states \<and>
      approval s' = approval s \<and> owner s' = owner s \<and> session_id s' = session_id s"
  shows "service_inv (v\<lparr>sessions := (sessions v)(k \<mapsto> s')\<rparr>)"
proof -
  have "state s' \<in> execution_states \<Longrightarrow> claimed_by (claims v) s'"
    using ex inv claimed_by_cong unfolding service_inv_def by metis
  moreover have other: "map_option grant_token (approval s') \<noteq> map_option grant_token (approval x)"
    if "state s' \<in> execution_states" "sessions v j = Some x" "j \<noteq> k" "state x \<in> execution_states" for j x
    using ex [OF that(1)] that inv unfolding service_inv_def by metis
  moreover have "map_option grant_token (approval x) \<noteq> map_option grant_token (approval y)"
    if "((sessions v)(k \<mapsto> s')) i = Some x" "((sessions v)(k \<mapsto> s')) j = Some y" "i \<noteq> j"
      "state x \<in> execution_states" "state y \<in> execution_states" for i j x y
  proof (cases "i = k \<or> j = k")
    case True
    then show ?thesis
    proof
      assume "i = k"
      with that have "x = s'" "sessions v j = Some y" "j \<noteq> k" by auto
      with that(4,5) other [of j y] show ?thesis by metis
    next
      assume "j = k"
      with that have "y = s'" "sessions v i = Some x" "i \<noteq> k" by auto
      with that(4,5) other [of i x] show ?thesis by metis
    qed
  next
    case False
    with that inv show ?thesis unfolding service_inv_def by (simp add: fun_upd_other)
  qed
  ultimately show ?thesis
    using inv s' unfolding service_inv_def by simp
qed

lemma service_inv_consume:
  assumes inv: "service_inv v" and k: "sessions v k = Some s"
    and c: "consume_search_approval P H s (claims v) token plan r own sid n now = (Inr s', l')"
  shows "service_inv (v\<lparr>sessions := (sessions v)(k \<mapsto> s'), claims := l'\<rparr>)"
proof -
  from c obtain g t where g: "ready s n [Search_approval] now t" "consumable P H s token plan r g t"
      "\<not> token_claimed (claims v) (grant_token g)" "length (claims v) < max_approval_consumptions"
    and l': "l' = claims v @ [(grant_token g, claim_record s g t)]"
    and s': "s' = stamp t s (submitted g t s)"
    unfolding consume_search_approval_eq by blast
  have fields: "owner s' = owner s" "session_id s' = session_id s" "state s' = Scrape_submitted"
    "approval s' = Some (g\<lparr>consumed_at := Some t\<rparr>)" by (simp_all add: s' submitted_def)
  have valid: "session_inv s'"
    using step_evolves_consume [OF c] by (simp add: evolves_from_def session_evolves_def session_inv_def)
  have ap: "approval s = Some g" using g(2) by (simp add: consumable_def)
  have "validate_consumption (claim_record s g t) = Inr ()"
    using readyD(1) [OF g(1)] ap
    by (simp add: session_fields_ok_def validate_consumption_def claim_record_def validate_grant_eq_Inr)
  then have l: "approvals_inv l'"
    using inv g(3,4) by (auto simp: service_inv_def approvals_inv_def l' token_claimed_def claim_record_def)
  have fresh: "map_of (claims v) (grant_token g) = None"
    using g(3) by (simp add: token_claimed_def map_of_eq_None_iff)
  then have mine: "claimed_by l' s'"
    by (simp add: claimed_by_def l' fields claim_record_def map_add_def)
  have others: "claimed_by l' x \<and> map_option grant_token (approval x) \<noteq> Some (grant_token g)"
    if "sessions v j = Some x" "state x \<in> execution_states" for j x
  proof -
    have "claimed_by (claims v) x" using that inv by (auto simp: service_inv_def)
    then show ?thesis using fresh claimed_by_append l' by (auto simp: claimed_by_def)
  qed
  show ?thesis
    unfolding service_inv_def
  proof (intro conjI allI impI)
    fix j x
    assume "sessions (v\<lparr>sessions := (sessions v)(k \<mapsto> s'), claims := l'\<rparr>) j = Some x"
    then have x: "j = k \<and> x = s' \<or> j \<noteq> k \<and> sessions v j = Some x" by (auto split: if_splits)
    then show "session_inv x" using valid inv by (auto simp: service_inv_def)
    assume "state x \<in> execution_states"
    with x mine others show "claimed_by (claims (v\<lparr>sessions := (sessions v)(k \<mapsto> s'), claims := l'\<rparr>)) x" by auto
  next
    fix i j x y
    assume xy: "sessions (v\<lparr>sessions := (sessions v)(k \<mapsto> s'), claims := l'\<rparr>) i = Some x"
      "sessions (v\<lparr>sessions := (sessions v)(k \<mapsto> s'), claims := l'\<rparr>) j = Some y" "i \<noteq> j"
      "state x \<in> execution_states" "state y \<in> execution_states"
    show "map_option grant_token (approval x) \<noteq> map_option grant_token (approval y)"
    proof (cases "i = k \<or> j = k")
      case True
      have tok: "map_option grant_token (approval s') = Some (grant_token g)" by (simp add: fields)
      from True show ?thesis
      proof
        assume "i = k"
        with xy have "x = s'" "sessions v j = Some y" by auto
        with xy(5) others [of j y] tok show ?thesis by metis
      next
        assume "j = k"
        with xy have "y = s'" "sessions v i = Some x" by auto
        with xy(4) others [of i x] tok show ?thesis by metis
      qed
    next
      case False
      with xy inv show ?thesis unfolding service_inv_def by (metis fun_upd_apply service.select_convs(1) service.surjective service.update_convs)
    qed
  qed (simp add: l)
qed

lemma service_step_inv:
  assumes "service_step P H v v'" and inv: "service_inv v"
  shows "service_inv v'"
  using assms(1)
proof (cases rule: service_step.cases)
  case (create k own sid now s)
  then show ?thesis
    using create_session_valid [OF create(3)] by (auto intro!: service_inv_replace [OF inv] simp: execution_states_def)
next
  case (act k s e s')
  have "session_inv s'"
    using session_step_evolves [OF act(4)] by (simp add: evolves_from_def session_evolves_def session_inv_def)
  then show ?thesis
    unfolding act(1) using step_keeps_approval [OF act(4,3)] act(2)
    by (intro service_inv_replace [OF inv]) auto
next
  case (consume k s token plan r own sid n now res l')
  show ?thesis
  proof (cases res)
    case (Inl e)
    with consume consume_error_keeps_ledger have "l' = claims v" by blast
    with consume(1) Inl inv show ?thesis by (simp add: service_inv_def)
  next
    case (Inr s')
    with consume service_inv_consume [OF inv consume(2)] show ?thesis by simp
  qed
qed

lemma new_service_inv: "service_inv new_service"
  by (simp add: new_service_def service_inv_def new_approvals_inv)

lemma reachable_service_inv: "(service_step P H)\<^sup>*\<^sup>* new_service v \<Longrightarrow> service_inv v"
  by (induction rule: rtranclp_induct) (auto intro: new_service_inv service_step_inv)

end
