(* ===== verification/Approval_Plan_Props.thy ===== *)
theory Approval_Plan_Props
  imports Approval_Plan Usage_Ledger_Props
begin

text \<open>
  What an approval plan commits to: the limits every valid plan respects, and that the JSON of its
  runtime bindings and allowances determines them.
\<close>

section \<open>The limits of a valid plan\<close>

lemma allowance_of_Some:
  "allowance_of as p = Some a \<Longrightarrow> a \<in> set as \<and> allow_provider a = p"
  unfolding allowance_of_def by (auto dest!: map_of_SomeD)

lemma three_providers:
  assumes "length as = 3" and "allowance_of as Bonsai = Some b" "allowance_of as Cloudflare = Some c"
    "allowance_of as Outscraper = Some w"
  shows "set as = {b, c, w}" "distinct (map allow_provider as)"
proof -
  have mem: "{b, c, w} \<subseteq> set as" "allow_provider b = Bonsai" "allow_provider c = Cloudflare"
    "allow_provider w = Outscraper"
    using assms(2-4) by (auto dest: allowance_of_Some)
  have "{Bonsai, Cloudflare, Outscraper} \<subseteq> set (map allow_provider as)" using mem by force
  then have "card {Bonsai, Cloudflare, Outscraper} \<le> card (set (map allow_provider as))"
    by (intro card_mono) auto
  moreover have "card (set (map allow_provider as)) \<le> length as"
    using card_length [of "map allow_provider as"] by simp
  ultimately have "card (set (map allow_provider as)) = length (map allow_provider as)"
    using assms(1) by simp
  then show d: "distinct (map allow_provider as)" by (rule card_distinct)
  have "b \<noteq> c" "b \<noteq> w" "c \<noteq> w" using mem by auto
  then have "card {b, c, w} = 3" by simp
  moreover have "card (set as) = 3" using d assms(1) by (simp add: distinct_card distinct_map)
  ultimately show "set as = {b, c, w}" using mem(1) card_subset_eq [of "set as" "{b, c, w}"] by simp
qed

text \<open>What validation establishes, field by field.\<close>

lemma validate_planD:
  assumes "validate_plan P plan = Inr a"
  shows "plan_expires a = plan_created a + approval_ttl"
    "\<exists>b c w. set (plan_allowances a) = {b, c, w} \<and> allow_provider b = Bonsai \<and>
       allow_provider c = Cloudflare \<and> allow_provider w = Outscraper \<and> allow_calls w = 1 \<and>
       check_plan_images a c = Inr ()"
    "distinct (map allow_provider (plan_allowances a))"
    "plan_intent_sha256 a = intent_sha256 P (plan_intent a)"
    "query_plan_intent_sha256 P (plan_query a) = intent_sha256 P (plan_intent a)"
    "\<exists>p. build_proposal P (plan_intent a) = Inr p \<and> \<not> proposal_blocking P p \<and>
       plan_proposal_sha256 a = proposal_sha256 P p"
proof -
  from assms have b: "check_plan_bindings P a = Inr ()" and len: "length (plan_allowances a) = 3"
    by (auto simp: validate_plan_def Let_def plan_fields_ok_def)
  from b obtain x c w where al: "allowance_of (plan_allowances a) Bonsai = Some x"
      "allowance_of (plan_allowances a) Cloudflare = Some c"
      "allowance_of (plan_allowances a) Outscraper = Some w" "allow_calls w = 1" "check_plan_images a c = Inr ()"
    and i: "check_plan_identity P a = Inr ()" and e: "plan_expires a - plan_created a = approval_ttl"
    by (auto simp: check_plan_bindings_def split: option.splits)
  from e show "plan_expires a = plan_created a + approval_ttl" by simp
  show "\<exists>b c w. set (plan_allowances a) = {b, c, w} \<and> allow_provider b = Bonsai \<and>
       allow_provider c = Cloudflare \<and> allow_provider w = Outscraper \<and> allow_calls w = 1 \<and>
       check_plan_images a c = Inr ()"
    using three_providers(1) [OF len al(1-3)] al allowance_of_Some by blast
  show "distinct (map allow_provider (plan_allowances a))"
    by (rule three_providers(2) [OF len al(1-3)])
  from i show "plan_intent_sha256 a = intent_sha256 P (plan_intent a)"
    "query_plan_intent_sha256 P (plan_query a) = intent_sha256 P (plan_intent a)"
    "\<exists>p. build_proposal P (plan_intent a) = Inr p \<and> \<not> proposal_blocking P p \<and>
       plan_proposal_sha256 a = proposal_sha256 P p"
    by (auto simp: check_plan_identity_def)
qed

lemma check_plan_images_calls:
  assumes "check_plan_images a c = Inr ()"
  shows "(plan_image_mode a = Images_off \<longrightarrow> allow_calls c = 0 \<and> allow_tokens c = 0 \<and>
      allow_cost_microusd c = 0 \<and> plan_image_set a = None \<and> plan_reference a = None) \<and>
    (plan_image_mode a = Images_approved \<longrightarrow> 2 \<le> allow_calls c \<and> allow_calls c \<le> 16 \<and>
      plan_image_set a \<noteq> None \<and> plan_image_metadata a \<noteq> None)"
  using assms by (cases "plan_image_mode a")
    (auto simp: check_plan_images_def allowed_calls_def Let_def if_Inl_eq_Inr split: if_splits)

section \<open>The JSON of a plan\<close>

lemma allowance_json_inj: "sort_keys (allowance_json a) = sort_keys (allowance_json b) \<longleftrightarrow> a = b"
  unfolding allowance_json_def by (subst sort_keys_record) (auto simp: provider_name_inj)

lemma str_opt_inj: "sort_keys (json_opt JStr u) = sort_keys (json_opt JStr v) \<longleftrightarrow> u = v"
  by (rule sort_keys_opt) simp_all

lemma runtime_json_inj: "sort_keys (runtime_json a) = sort_keys (runtime_json b) \<longleftrightarrow> a = b"
  unfolding runtime_json_def by (subst sort_keys_record) (auto simp: str_opt_inj)

lemma image_mode_name_inj: "image_mode_name x = image_mode_name y \<longleftrightarrow> x = y"
  by (cases x; cases y) simp_all

lemma image_profile_name_inj: "image_profile_name x = image_profile_name y \<longleftrightarrow> x = y"
  by (cases x; cases y) simp_all

text \<open>A plan with its allowances in the order the digest lists them.\<close>

definition plan_canonical :: "('i, 'q) approval_plan \<Rightarrow> ('i, 'q) approval_plan" where
  "plan_canonical a = a\<lparr>plan_allowances := sort_key allow_provider (plan_allowances a)\<rparr>"

end
