(* ===== verification/Session_Samples.thy ===== *)
theory Session_Samples
  imports Session_System Approval_Plan_Props Usage_Ledger_Theorems
begin

text \<open>
  A concrete run used by the instances of the properties: a session that is created, reviewed,
  approved without images, issued an approval and submitted, with planning modules that accept
  everything and a constant in place of the hash.
\<close>

definition dig :: "char \<Rightarrow> string" where
  "dig c = replicate 64 c"

lemma dig_simps [simp]: "is_digest (dig c) \<longleftrightarrow> c \<in> set hex_chars" "dig c = dig d \<longleftrightarrow> c = d"
  by (auto simp: dig_def dest: arg_cong [where f = hd])

lemma hex_member [simp]: "c \<in> set hex_chars \<longleftrightarrow> c \<in> set ''0123456789abcdef''"
  by (simp add: hex_chars_def)

text \<open>Unicode tables that leave ASCII text as it is.\<close>

definition sample_tables :: text_library where
  "sample_tables = \<lparr>nfkc = (\<lambda>s. s), casefold = (\<lambda>s. s), split_words = (\<lambda>s. [s]), has_control = (\<lambda>_. False),
     digits_ok = (\<lambda>_. True), digit_of = (\<lambda>_. None), alphanumeric = (\<lambda>_. False), upper_text = (\<lambda>s. s)\<rparr>"

definition sample_planner :: "(string, string, bool) planner" where
  "sample_planner = \<lparr>validate_intent = Inr, intent_sha256 = (\<lambda>_. dig (CHR ''d'')),
     intent_prompt_sha256 = (\<lambda>_. dig (CHR ''e'')), intent_schema_sha256 = (\<lambda>_. dig (CHR ''f'')),
     intent_json = JStr, validate_query_plan = Inr, query_plan_sha256 = (\<lambda>_. dig (CHR ''1'')),
     query_plan_intent_sha256 = (\<lambda>_. dig (CHR ''d'')), query_plan_json = JStr,
     build_proposal = (\<lambda>_. Inr True), validate_proposal = Inr,
     proposal_sha256 = (\<lambda>_. dig (CHR ''2'')), proposal_blocking = Not, json_time = dec_int,
     ranking_profile_id = ''profile'', ranking_profile_sha256 = dig (CHR ''3''),
     evidence_profile_sha256 = dig (CHR ''4''), text_tables = sample_tables\<rparr>"

definition sample_plan :: "(string, string) approval_plan" where
  "sample_plan = \<lparr>plan_owner = ''owner'', plan_session = ''session'', plan_intent = ''lamp'',
     plan_intent_sha256 = dig (CHR ''d''), plan_proposal_sha256 = dig (CHR ''2''), plan_query = ''query'',
     plan_request_sha256 = dig (CHR ''5''), plan_image_mode = Images_off, plan_image_set = None,
     plan_image_metadata = None, plan_reference = None, plan_profile = Legacy_four_views,
     plan_allowances = map (\<lambda>(p, n). \<lparr>allow_provider = p, allow_calls = n, allow_tokens = 0,
       allow_cost_microusd = 0, allow_pricing_policy = dig (CHR ''b'')\<rparr>)
       [(Bonsai, 1), (Cloudflare, 0), (Outscraper, 1)],
     plan_runtime = \<lparr>rt_bonsai_model = ''bonsai'', rt_bonsai_prompt = dig (CHR ''e''),
       rt_bonsai_schema = dig (CHR ''f''), rt_cloudflare_model = None, rt_image_prompt = None,
       rt_ranking_profile = ''profile'', rt_ranking_sha256 = dig (CHR ''3''),
       rt_evidence_sha256 = dig (CHR ''4''), rt_implementation = dig (CHR ''6''),
       rt_usage_policy = dig (CHR ''7'')\<rparr>,
     plan_created = 10, plan_expires = 10 + approval_ttl\<rparr>"

definition sample_token :: string where
  "sample_token = replicate 43 (CHR ''t'')"

lemma sample_hash_dig: "sample_hash x = dig (CHR ''a'')"
  by (simp add: sample_hash_def dig_def)

lemma sample_hash_digests: "hash_digests sample_hash"
  by (simp add: hash_digests_def sample_hash_dig)

lemma sample_planner_digests: "planner_digests sample_planner"
  by (simp add: planner_digests_def sample_planner_def)

section \<open>The plan\<close>

lemma small_strings: "is_subject_id ''owner''" "is_subject_id ''session''" "is_token sample_token"
  by code_simp+

lemmas identifier_defs = is_bounded_identifier_def text_length_def strip_text_def any_control_def is_space_def
  space_codes_def space_controls_def char_codes_def continues_def code_of_def

lemma bounded_identifiers:
  "is_bounded_identifier sample_tables ''bonsai''" "is_bounded_identifier sample_tables ''profile''"
  by (simp_all add: identifier_defs sample_tables_def)

definition sample_plan_for :: "char \<Rightarrow> (string, string) approval_plan" where
  "sample_plan_for c = sample_plan\<lparr>plan_request_sha256 := dig c\<rparr>"

lemma sample_plan_for_valid:
  assumes "c \<in> set hex_chars"
  shows "validate_plan sample_planner (sample_plan_for c) = Inr (sample_plan_for c)"
proof -
  have "plan_fields_ok (sample_plan_for c)"
    using assms by (simp add: plan_fields_ok_def sample_plan_for_def sample_plan_def small_strings
        approved_usage_ok_def max_usage_calls_def max_usage_tokens_def max_usage_cost_microusd_def)
  moreover have "validate_runtime sample_planner (plan_runtime (sample_plan_for c)) = Inr ()"
    by (simp add: validate_runtime_def runtime_fields_ok_def sample_plan_for_def sample_plan_def
        sample_planner_def bounded_identifiers)
  moreover have "check_plan_bindings sample_planner (sample_plan_for c) = Inr ()"
    by (simp add: check_plan_bindings_def check_plan_identity_def check_plan_images_def allowance_of_def
        sample_plan_for_def sample_plan_def sample_planner_def)
  ultimately show ?thesis
    by (simp add: validate_plan_def Let_def sample_planner_def)
qed

lemma sample_plan_valid: "validate_plan sample_planner sample_plan = Inr sample_plan"
proof -
  have "sample_plan_for (CHR ''5'') = sample_plan" by (simp add: sample_plan_for_def sample_plan_def)
  with sample_plan_for_valid [of "CHR ''5''"] show ?thesis by simp
qed

section \<open>The session\<close>

definition sample_draft :: session where
  "sample_draft = \<lparr>owner = ''owner'', session_id = ''session'', revision = 0, state = Draft,
     intent_digest = None, query_digest = None, proposal_digest = None, proposal_status = None,
     image_mode = Image_off, image_attempts = 0, active_image = None, failed_image = None,
     image_set = None, image_metadata = None, usage_policy = None, approval = None,
     created_at = 1, updated_at = 1, received_count = None, normalized_count = None,
     rejected_count = None, ranked_count = None, normalized_batch = None, ranked_batch = None,
     outcome = None, failed_stage = None, failed_code = None\<rparr>"

definition sample_processing :: session where
  "sample_processing = stamp 2 sample_draft (sample_draft\<lparr>state := Intent_processing\<rparr>)"

definition sample_reviewed :: session where
  "sample_reviewed = stamp 3 sample_processing
     (review_update sample_planner ''lamp'' (Some ''query'') True sample_processing)"

definition sample_approving :: session where
  "sample_approving = stamp 4 sample_reviewed (sample_reviewed\<lparr>state := Search_approval\<rparr>)"

definition sample_grant :: approval_grant where
  "sample_grant = \<lparr>grant_plan = dig (CHR ''a''), grant_token = dig (CHR ''a''), issued_at = 11,
     expires_at = 10 + approval_ttl, consumed_at = None\<rparr>"

definition sample_issued :: session where
  "sample_issued = stamp 11 sample_approving (sample_approving\<lparr>approval := Some sample_grant\<rparr>)"

definition sample_submitted :: session where
  "sample_submitted = stamp 13 sample_issued (submitted sample_grant 13 sample_issued)"

lemmas sample_session_defs = sample_draft_def sample_processing_def sample_reviewed_def
  sample_approving_def sample_issued_def sample_submitted_def

lemma sample_draft_valid: "validate_session sample_draft = Inr ()"
  by (simp add: validate_session_iff session_fields_ok_def contract_defs image_defs progress_defs
      sample_draft_def small_strings max_image_set_attempts_def)

lemma sample_create: "create_search_session ''owner'' ''session'' (Utc 1) = Inr sample_draft"
  using sample_draft_valid by (simp add: create_search_session_def sample_draft_def Let_def)

lemma valid_next: "evolves_from s n s' \<Longrightarrow> validate_session s' = Inr ()"
  by (simp add: evolves_from_def session_evolves_def)

lemma sample_start: "start_intent_processing sample_draft 0 (Utc 2) = Inr sample_processing"
  unfolding start_intent_processing_eq_Inr
  by (intro exI [of _ 2]) (simp add: ready_def sample_draft_valid, simp add: sample_session_defs)

lemma sample_record: "record_intent_plan sample_planner sample_processing ''lamp'' (Some ''query'') True 1 (Utc 3) = Inr sample_reviewed"
proof -
  have "validate_session sample_processing = Inr ()"
    by (rule valid_next [OF step_evolves_review(1) [OF sample_start]])
  then have "ready sample_processing 1 [Intent_processing] (Utc 3) 3"
    by (simp add: ready_def) (simp add: sample_session_defs)
  moreover have "validated_intent_plan sample_planner ''lamp'' (Some ''query'') True = Inr (''lamp'', Some ''query'', True)"
    by (simp add: validated_intent_plan_def Let_def sample_planner_def)
  ultimately show ?thesis
    unfolding record_intent_plan_eq_Inr [OF sample_planner_digests] sample_reviewed_def by blast
qed

lemma sample_approve: "approve_intent_review sample_reviewed False None 2 (Utc 4) = Inr sample_approving"
proof -
  have "validate_session sample_reviewed = Inr ()"
    by (rule valid_next [OF step_evolves_review(2) [OF sample_record]])
  then have "ready sample_reviewed 2 [Intent_review] (Utc 4) 4"
    by (simp add: ready_def) (simp add: sample_session_defs)
  moreover have "proposal_status sample_reviewed = Some Ready"
    by (simp add: sample_reviewed_def review_update_def status_of_proposal_def sample_planner_def)
  ultimately show ?thesis
    unfolding approve_intent_review_eq_Inr sample_approving_def by auto
qed

lemma sample_approving_facts:
  "validate_session sample_approving = Inr ()" "state sample_approving = Search_approval"
  "revision sample_approving = 3" "owner sample_approving = ''owner''" "session_id sample_approving = ''session''"
  "approval sample_approving = None" "updated_at sample_approving = 4"
proof -
  show "validate_session sample_approving = Inr ()"
    by (rule valid_next [OF step_evolves_approve [OF sample_approve]])
qed (simp_all add: sample_session_defs)

lemma sample_plan_matches: "plan_matches sample_planner (stamp t sample_approving (sample_approving\<lparr>approval := a\<rparr>)) sample_plan"
  "plan_matches sample_planner sample_approving sample_plan"
  by (simp_all add: plan_matches_def sample_session_defs review_update_def sample_plan_def sample_planner_def)

lemma sample_plan_digest: "search_approval_plan_sha256 sample_planner sample_hash sample_plan = Inr (dig (CHR ''a''))"
  by (simp add: search_approval_plan_sha256_def sample_plan_valid sample_hash_dig)

lemma sample_issue:
  "issue_search_approval sample_planner sample_hash sample_approving sample_plan sample_token 3 (Utc 11) =
     Inr (sample_issued, sample_token)"
proof -
  have "ready sample_approving 3 [Search_approval] (Utc 11) 11"
    by (simp add: ready_def sample_approving_facts)
  moreover have "issued_grant sample_hash (dig (CHR ''a'')) sample_token 11 sample_plan = sample_grant"
    by (simp add: issued_grant_def sample_grant_def approval_token_sha256_def sample_hash_dig sample_plan_def)
  moreover have "plan_created sample_plan \<le> 11" "11 < plan_expires sample_plan"
    by (simp_all add: sample_plan_def approval_ttl_def duration_defs)
  ultimately show ?thesis
    unfolding issue_search_approval_eq_Inr [OF sample_hash_digests] sample_issued_def
    using sample_plan_valid sample_plan_matches(2) sample_plan_digest small_strings(3) sample_approving_facts(6)
    by metis
qed

lemma sample_issued_facts:
  "validate_session sample_issued = Inr ()" "state sample_issued = Search_approval"
  "revision sample_issued = 4" "owner sample_issued = ''owner''" "session_id sample_issued = ''session''"
  "approval sample_issued = Some sample_grant" "updated_at sample_issued = 11"
proof -
  show "validate_session sample_issued = Inr ()" by (rule valid_next [OF step_evolves_issue [OF sample_issue]])
qed (simp_all add: sample_issued_def sample_approving_facts)

section \<open>The submission\<close>

definition sample_search_reservation :: usage_reservation where
  "sample_search_reservation = \<lparr>res_id = replicate 32 (CHR ''r''), res_request = \<lparr>req_provider = Outscraper,
     req_operation = Op_product_search, req_owner = ''owner'', req_session = ''session'',
     req_binding = dig (CHR ''a''), req_amount = \<lparr>calls = 1, tokens = 0, cost_microusd = 0\<rparr>,
     req_pricing_policy = dig (CHR ''b'')\<rparr>, res_policy = dig (CHR ''7''), res_status = Started,
     reserved_at = 11, started_at = Some 12, finished_at = None\<rparr>"

lemma sample_started: "search_started sample_issued sample_plan sample_search_reservation (dig (CHR ''a'')) sample_grant 13"
proof -
  have "validate_reservation sample_search_reservation = Inr ()"
    by (simp add: validate_reservation_eq_Inr validate_request_eq_Inr validate_lifecycle_eq_Inr
        sample_search_reservation_def small_strings amount_ok_def is_zero_def max_usage_calls_def
        max_usage_tokens_def max_usage_cost_microusd_def urlsafe_chars_def alnum_chars_def)
  moreover have "outscraper_reservation_matches sample_issued sample_plan (plan_allowances sample_plan ! 2)
      sample_search_reservation (dig (CHR ''a''))"
    by (simp add: outscraper_reservation_matches_def sample_issued_facts res_props)
      (simp add: sample_search_reservation_def sample_plan_def)
  moreover have "find (\<lambda>x. allow_provider x = Outscraper) (plan_allowances sample_plan) =
      Some (plan_allowances sample_plan ! 2)" by (simp add: sample_plan_def)
  ultimately show ?thesis
    by (simp add: search_started_def sample_grant_def) (simp add: sample_search_reservation_def)
qed

definition sample_claims :: approval_ledger where
  "sample_claims = [(dig (CHR ''a''), claim_record sample_issued sample_grant 13)]"

lemma sample_submission:
  "consume_search_approval sample_planner sample_hash sample_issued [] sample_token sample_plan
     sample_search_reservation ''owner'' ''session'' 4 (Utc 13) = (Inr sample_submitted, sample_claims)"
proof -
  have "plan_matches sample_planner sample_issued sample_plan"
    unfolding sample_issued_def by (rule sample_plan_matches(1))
  then have "consumable sample_planner sample_hash sample_issued sample_token sample_plan
      sample_search_reservation sample_grant 13"
    using sample_plan_valid sample_plan_digest sample_started small_strings(3) sample_issued_facts(6)
    unfolding consumable_def
    by (simp add: sample_grant_def approval_token_sha256_def sample_hash_dig approval_ttl_def duration_defs)
      (simp add: sample_plan_def approval_ttl_def duration_defs)
  moreover have "ready sample_issued 4 [Search_approval] (Utc 13) 13"
    by (simp add: ready_def sample_issued_facts)
  moreover have "grant_token sample_grant = dig (CHR ''a'')" "issued_at sample_grant \<le> 13"
    by (simp_all add: sample_grant_def)
  ultimately show ?thesis
    unfolding consume_search_approval_eq sample_submitted_def sample_claims_def
    by (intro exI [of _ sample_grant] exI [of _ 13])
      (simp add: sample_issued_facts token_claimed_def max_approval_consumptions_def)
qed

lemma sample_submitted_ready: "ready sample_submitted 5 [Scrape_submitted] (Utc 14) 14"
proof -
  have "validate_session sample_submitted = Inr ()"
    by (rule valid_next [OF step_evolves_consume [OF sample_submission]])
  then show ?thesis
    by (simp add: ready_def) (simp add: sample_submitted_def sample_issued_facts submitted_def)
qed

end
