(* ===== verification/Session_Theorems.thy ===== *)
theory Session_Theorems
  imports Session_Samples
begin

text \<open>
  The properties of the session state machine.
\<close>

lemma sample_approving_inv: "session_inv sample_approving"
  by (simp add: session_inv_def sample_approving_facts)

section \<open>Properties of one session\<close>

text \<open>The validator of the session snapshot accepts exactly the snapshots whose fields are well
  formed and whose review, image, approval and progress bindings are those the state calls for:
  the sequence of raises agrees with a table read state by state.\<close>

theorem session_contract:
  "validate_session s = Inr () \<longleftrightarrow> session_fields_ok s \<and> created_at s \<le> updated_at s \<and>
     review_ok s \<and> images_ok s \<and> approval_ok s \<and> progress_ok s"
  by (rule validate_session_iff)

text \<open>C12. Every accepted transition leads from a valid snapshot to a valid one along an edge of the
  state graph, on the revision the caller named, advances the revision by one, does not go back in
  time and keeps owner, session and creation time. Completed and failed searches have no edge.\<close>

theorem session_transitions:
  assumes "session_step P H e s = Inr s'"
  shows "session_evolves s s' \<and> event_revision e = revision s"
  using session_step_evolves [OF assms] by (simp add: evolves_from_def)

theorem session_transitions_witness:
  "session_evolves sample_approving sample_issued"
  using session_transitions [of sample_planner sample_hash "Ev_issue sample_plan sample_token 3 (Utc 11)"
      sample_approving sample_issued] sample_issue by simp

text \<open>C13. Optimistic concurrency: the revision counts the accepted transitions, and of two
  transitions computed from the same revision at most one is ever accepted, whatever happens in
  between.\<close>

theorem session_no_lost_update:
  assumes "session_step P H e s = Inr s'" and "event_revision e2 = event_revision e"
  shows "(\<exists>x. session_step P H e2 (run_events (session_step P H) s' es) = Inl x) \<and>
    revision (run_events (session_step P H) s' es) = revision s + 1 + int (accepted (session_step P H) s' es)"
  using session.no_lost_update [OF assms] session.version_counts [of P H s' es] session.bump [OF assms(1)]
  by simp

theorem session_no_lost_update_witness:
  "\<exists>x. session_step sample_planner sample_hash (Ev_replace_intent ''lamp'' None True 3 (Utc 12))
     (run_events (session_step sample_planner sample_hash) sample_issued []) = Inl x"
  using session_no_lost_update [of sample_planner sample_hash "Ev_issue sample_plan sample_token 3 (Utc 11)"
      sample_approving sample_issued "Ev_replace_intent ''lamp'' None True 3 (Utc 12)" "[]"] sample_issue
  by simp

text \<open>C14. An executing search ends: once a search is submitted at most three further transitions are
  accepted, fewer the further it has progressed, and a completed or failed one accepts none.\<close>

theorem search_terminates:
  assumes "session_inv s" and "state s \<in> execution_states"
  shows "accepted (session_step P H) s es \<le> 3 - execution_rank (state s) \<and>
    state (run_events (session_step P H) s es) \<in> execution_states"
proof -
  have ex: "executing s" using assms by (simp add: executing_def)
  have "(execution_moves ^^ accepted (session_step P H) s es) (state s)
      (state (run_events (session_step P H) s es))"
    using ex by (rule executing.accepted_chain) (blast dest: executing_step)
  from execution.chain_bounded [OF this] executing.run_inv [OF ex] show ?thesis
    by (auto simp: executing_def)
qed

theorem search_terminates_witness:
  "accepted (session_step sample_planner sample_hash) sample_submitted
     [Ev_received 0 5 (Utc 14), Ev_failed Product_normalization 6 (Utc 15)] \<le> 3"
proof -
  have "session_inv sample_submitted" "state sample_submitted = Scrape_submitted"
    using sample_submitted_ready by (auto simp: ready_def session_inv_def)
  then show ?thesis
    using search_terminates [of sample_submitted sample_planner sample_hash
        "[Ev_received 0 5 (Utc 14), Ev_failed Product_normalization 6 (Utc 15)]"]
    by (simp add: execution_states_def)
qed

text \<open>The image budget: between two resets of the image state (a new intent review or a
  discarded set) a session starts at most two image attempts, counting the first, the regeneration
  or retry and the comparison images, and the counter says how many.\<close>

theorem image_budget:
  assumes "session_inv s" and "\<forall>e\<in>set es. \<not> resets_images e"
  shows "image_attempts s + image_starts P H s es \<le> 2 \<and>
    image_attempts (run_events (session_step P H) s es) = image_attempts s + image_starts P H s es"
proof -
  have "session_inv (run_events (session_step P H) s es)" by (rule session.run_inv [OF assms(1)])
  then have "image_attempts (run_events (session_step P H) s es) \<le> 2"
    by (simp add: session_inv_def validate_session_iff session_fields_ok_def max_image_set_attempts_def)
  with attempts_run [OF assms(2)] show ?thesis by simp
qed

theorem image_budget_witness:
  "image_attempts sample_approving + image_starts sample_planner sample_hash sample_approving
     [Ev_regenerate sample_search_reservation 3 (Utc 12)] \<le> 2"
  using image_budget [OF sample_approving_inv, of "[Ev_regenerate sample_search_reservation 3 (Utc 12)]"
      sample_planner sample_hash] by simp

text \<open>Progress of an approved search is accepted exactly when its numbers are consistent: a
  received count in range, a normalized and a rejected count that add up to it, a ranked count equal
  to the normalized one; a failure is always recorded in the stage the search is in.\<close>

theorem search_progress_accepted:
  assumes "ready s n [state s] now t"
  shows "(state s = Scrape_submitted \<longrightarrow>
      is_ok (record_products_received s k n now) = (0 \<le> k \<and> k \<le> 48)) \<and>
    (state s = Products_received \<longrightarrow>
      is_ok (record_products_normalized s k j d n now) =
        (is_digest d \<and> 0 \<le> k \<and> 0 \<le> j \<and> received_count s = Some (k + j))) \<and>
    (state s = Products_normalized \<longrightarrow>
      is_ok (record_search_completed s k d n now) = (is_digest d \<and> normalized_count s = Some k)) \<and>
    (state s = failing_state stage \<longrightarrow> is_ok (record_search_failed s stage n now))"
proof -
  have "ready s n [a] now u \<longleftrightarrow> u = t \<and> state s = a" for a u
    using assms by (auto simp: ready_def)
  then show ?thesis
    by (auto simp: is_ok_iff record_products_received_eq_Inr record_products_normalized_eq_Inr
        record_search_completed_eq_Inr record_search_failed_eq_Inr count_ok_def)
qed

theorem search_progress_accepted_witness:
  "is_ok (record_products_received sample_submitted 7 5 (Utc 14))"
proof -
  have "state sample_submitted = Scrape_submitted" using sample_submitted_ready by (simp add: ready_def)
  then show ?thesis
    using search_progress_accepted [of sample_submitted 5 "Utc 14" 14 7] sample_submitted_ready by simp
qed

end
