(* ===== verification/Approval_Theorems.thy ===== *)
theory Approval_Theorems
  imports Session_Theorems
begin

text \<open>
  Approval end to end: what an approved plan commits to, and that an approval token starts at most
  one search.
\<close>

section \<open>The approval ledger and the plan\<close>

lemma token_claimed_iff: "token_claimed l d \<longleftrightarrow> map_of l d \<noteq> None"
  by (simp add: token_claimed_def map_of_eq_None_iff)

text \<open>The approval ledger in any reachable state can be saved; the snapshot is accepted again
  and restores every consumption, so that a token claimed before stays claimed.\<close>

theorem approvals_roundtrip:
  assumes "approvals_inv l"
  shows "\<exists>cs l'. approvals_snapshot (run_events claim_step l later) = Inr cs \<and>
    approvals_from_snapshot cs = Inr l' \<and>
    map_of l' = map_of (run_events claim_step l later) \<and>
    (\<forall>d. token_claimed l d \<longrightarrow> token_claimed l' d)"
proof -
  let ?l = "run_events claim_step l later"
  let ?cs = "sort_key (\<lambda>c. (con_at c, con_token c)) (map snd ?l)"
  have inv: "approvals_inv ?l" by (rule approvals.run_inv [OF assms])
  have "distinct (map con_token (map snd ?l))"
    unfolding approvals_tokens [OF inv] using inv by (simp add: approvals_inv_def)
  then have d: "distinct (map con_token ?cs)" by (simp only: distinct_sort_key)
  have m: "map_of (map (\<lambda>c. (con_token c, c)) ?cs) = map_of ?l"
    by (rule approvals_restored [OF inv _ d]) simp
  have s: "approvals_snapshot ?l = Inr ?cs" by (rule approvals_snapshot_ok [OF inv])
  then have "validate_consumptions ?cs = Inr ()" by (simp add: approvals_snapshot_def Let_def)
  then have f: "approvals_from_snapshot ?cs = Inr (map (\<lambda>c. (con_token c, c)) ?cs)"
    by (simp add: approvals_from_snapshot_eq_Inr)
  have "token_claimed l e \<Longrightarrow> token_claimed (map (\<lambda>c. (con_token c, c)) ?cs) e" for e
    using approvals.claimed_stays [of l e later] unfolding token_claimed_iff m by blast
  with s f m show ?thesis by blast
qed

theorem approvals_roundtrip_witness:
  "\<exists>cs l'. approvals_snapshot (run_events claim_step new_approval_ledger []) = Inr cs \<and>
    approvals_from_snapshot cs = Inr l' \<and> map_of l' = map_of (run_events claim_step new_approval_ledger [])"
  using approvals_roundtrip [OF new_approvals_inv, of "[]"] by blast

text \<open>C15. What an approval can spend: a plan that validates expires exactly fifteen minutes after it
  was created, holds one allowance per provider, allows exactly one product search call, no image
  call without images and between two and sixteen with approved images, and is bound to the digests
  of its intent, of the requirements derived from it and of the query planned for it.\<close>

theorem approval_plan_limits:
  assumes "validate_plan P plan = Inr a"
  shows "plan_expires a = plan_created a + minutes 15 \<and>
    distinct (map allow_provider (plan_allowances a)) \<and>
    (\<exists>b c w. set (plan_allowances a) = {b, c, w} \<and> allow_provider b = Bonsai \<and>
       allow_provider c = Cloudflare \<and> allow_provider w = Outscraper \<and> allow_calls w = 1 \<and>
       (plan_image_mode a = Images_off \<longrightarrow> allow_calls c = 0 \<and> allow_tokens c = 0 \<and> allow_cost_microusd c = 0) \<and>
       (plan_image_mode a = Images_approved \<longrightarrow> 2 \<le> allow_calls c \<and> allow_calls c \<le> 16)) \<and>
    plan_intent_sha256 a = intent_sha256 P (plan_intent a) \<and>
    query_plan_intent_sha256 P (plan_query a) = plan_intent_sha256 a \<and>
    (\<exists>p. build_proposal P (plan_intent a) = Inr p \<and> \<not> proposal_blocking P p \<and>
       plan_proposal_sha256 a = proposal_sha256 P p)"
proof -
  note d = validate_planD [OF assms]
  from d(2) obtain b c w where bcw: "set (plan_allowances a) = {b, c, w}" "allow_provider b = Bonsai"
    "allow_provider c = Cloudflare" "allow_provider w = Outscraper" "allow_calls w = 1" "check_plan_images a c = Inr ()"
    by blast
  from check_plan_images_calls [OF bcw(6)] bcw(1-5) d(1,3-6) show ?thesis
    unfolding approval_ttl_def by auto
qed

theorem approval_plan_limits_witness:
  "plan_expires sample_plan = plan_created sample_plan + minutes 15"
  using approval_plan_limits [OF sample_plan_valid] by blast

section \<open>One search per approval\<close>

text \<open>C10. Consuming an approval is all or nothing: an error leaves the approval ledger as it was; a
  success happened in the approval state, on an unexpired grant of this very plan with the matching
  token and a started search reservation, by the session's owner, records exactly that claim and
  submits the search.\<close>

theorem consume_atomic:
  "(\<exists>e. consume_search_approval P H s l token plan r own sid n now = (Inl e, l)) \<or>
   (\<exists>g t s'. consume_search_approval P H s l token plan r own sid n now =
      (Inr s', l @ [(grant_token g, claim_record s g t)]) \<and>
      ready s n [Search_approval] now t \<and> own = owner s \<and> sid = session_id s \<and>
      consumable P H s token plan r g t \<and> issued_at g \<le> t \<and> \<not> token_claimed l (grant_token g) \<and>
      s' = stamp t s (submitted g t s))"
proof (cases "consume_search_approval P H s l token plan r own sid n now")
  case (Pair res l')
  show ?thesis
  proof (cases res)
    case (Inl e)
    with Pair consume_error_keeps_ledger show ?thesis by blast
  next
    case (Inr s')
    with Pair consume_search_approval_eq [of P H s l token plan r own sid n now s' l'] show ?thesis by blast
  qed
qed

text \<open>C11. An issued approval can be used: in the session that results from issuing it, the owner who
  presents the token with the approved plan and a matching started reservation before it expires is
  admitted, unless the token is already claimed or the ledger is full.\<close>

theorem issued_approval_usable:
  assumes "hash_digests H" and "issue_search_approval P H s plan drawn n now = (Inr (s', token))"
    and "validate_plan P plan = Inr a" and "updated_at s' \<le> t" and "t < plan_expires a"
    and "search_started s' a r (H (plan_text P a)) (issued_grant H (H (plan_text P a)) drawn (updated_at s') a) t"
    and "validate_plan P a = Inr a"
    and "\<not> token_claimed l (approval_token_sha256 H token)" and "length l < max_approval_consumptions"
  shows "\<exists>s2 l2. consume_search_approval P H s' l token plan r (owner s') (session_id s') (revision s') (Utc t) =
      (Inr s2, l2) \<and> state s2 = Scrape_submitted \<and> token_claimed l2 (approval_token_sha256 H token)"
proof -
  let ?g = "issued_grant H (H (plan_text P a)) drawn (updated_at s') a"
  from assms(2) obtain u d where u: "ready s n [Search_approval] now u" "plan_matches P s a" "token = drawn"
    "is_token drawn" "search_approval_plan_sha256 P H a = Inr d" "s' = stamp u s (s\<lparr>approval := Some (issued_grant H d drawn u a)\<rparr>)"
    unfolding issue_search_approval_eq_Inr [OF assms(1)] using assms(3) by auto
  then have d: "d = H (plan_text P a)" and ap: "approval s' = Some ?g" and fields: "state s' = Search_approval"
    using assms(7) by (auto simp: search_approval_plan_sha256_def ready_def)
  have "session_inv s'" using step_evolves_issue [OF assms(2)]
    by (simp add: evolves_from_def session_evolves_def session_inv_def)
  then have rd: "ready s' (revision s') [Search_approval] (Utc t) t"
    using assms(4) fields by (simp add: ready_def session_inv_def)
  have "plan_matches P s' a" using u(2) unfolding u(6) by (simp add: plan_matches_def cong: session_image_mode.case_cong)
  then have "consumable P H s' token plan r ?g t"
    using assms(3,5,6) u(3-5) ap d by (auto simp: consumable_def issued_grant_def)
  with rd assms(4,8,9) u(3)
  have "consume_search_approval P H s' l token plan r (owner s') (session_id s') (revision s') (Utc t) =
      (Inr (stamp t s' (submitted ?g t s')), l @ [(grant_token ?g, claim_record s' ?g t)])"
    unfolding consume_search_approval_eq by (intro exI [of _ ?g] exI [of _ t]) (simp add: issued_grant_def)
  then show ?thesis using u(3) by (simp add: submitted_def token_claimed_def issued_grant_def)
qed

theorem issued_approval_usable_witness:
  "\<exists>s2 l2. consume_search_approval sample_planner sample_hash sample_issued [] sample_token sample_plan
      sample_search_reservation (owner sample_issued) (session_id sample_issued) (revision sample_issued) (Utc 13) =
      (Inr s2, l2) \<and> state s2 = Scrape_submitted \<and> token_claimed l2 (approval_token_sha256 sample_hash sample_token)"
proof (rule issued_approval_usable [OF sample_hash_digests sample_issue sample_plan_valid _ _ _ sample_plan_valid])
  show "13 < plan_expires sample_plan" by (simp add: sample_plan_def approval_ttl_def duration_defs)
  have "issued_grant sample_hash (dig (CHR ''a'')) sample_token 11 sample_plan = sample_grant"
    by (simp add: issued_grant_def sample_grant_def approval_token_sha256_def sample_hash_dig sample_plan_def)
  then show "search_started sample_issued sample_plan sample_search_reservation (sample_hash (plan_text sample_planner sample_plan))
     (issued_grant sample_hash (sample_hash (plan_text sample_planner sample_plan)) sample_token (updated_at sample_issued) sample_plan) 13"
    using sample_started by (simp add: sample_hash_dig sample_issued_facts)
qed (simp_all add: token_claimed_def max_approval_consumptions_def sample_issued_facts)

text \<open>C9. Single use: once a consumption with a token has succeeded, no later one with the same token
  does, in whatever session, for whatever plan, after whatever other claims on the ledger.\<close>

theorem approval_single_use:
  assumes "consume_search_approval P H s l token plan r own sid n now = (Inr s', l')"
  shows "\<exists>e. fst (consume_search_approval P H s2 (run_events claim_step l' later) token plan2 r2 own2 sid2 n2 now2) = Inl e"
proof (cases "consume_search_approval P H s2 (run_events claim_step l' later) token plan2 r2 own2 sid2 n2 now2")
  case (Pair res l2)
  have "token_claimed l' (approval_token_sha256 H token)"
    using assms unfolding consume_search_approval_eq by (auto simp: consumable_def token_claimed_def)
  then have claimed: "token_claimed (run_events claim_step l' later) (approval_token_sha256 H token)"
    by (rule approvals.claimed_stays)
  have False if "res = Inr x" for x
    using Pair that claimed consume_search_approval_eq
      [of P H s2 "run_events claim_step l' later" token plan2 r2 own2 sid2 n2 now2 x l2]
    by (auto simp: consumable_def)
  with Pair show ?thesis by (cases res) auto
qed

theorem approval_single_use_witness:
  "\<exists>e. fst (consume_search_approval sample_planner sample_hash sample_issued
     (run_events claim_step sample_claims []) sample_token sample_plan sample_search_reservation
     ''owner'' ''session'' 4 (Utc 13)) = Inl e"
  by (rule approval_single_use [OF sample_submission])

text \<open>C8. Across all sessions of a service that share the ledger, in every reachable state: each
  executing session's approval is recorded as claimed by that session's owner, for its plan and at
  its consumption time, and no two executing sessions rest on the same approval token.\<close>

theorem executing_sessions_have_own_approval:
  assumes "(service_step P H)\<^sup>*\<^sup>* new_service v" and "sessions v k = Some s" and "state s \<in> execution_states"
  shows "claimed_by (claims v) s \<and>
    (\<forall>j s'. sessions v j = Some s' \<longrightarrow> j \<noteq> k \<longrightarrow> state s' \<in> execution_states \<longrightarrow>
       map_option grant_token (approval s') \<noteq> map_option grant_token (approval s))"
  using reachable_service_inv [OF assms(1)] assms(2,3) unfolding service_inv_def by blast

lemma sample_service:
  "(service_step sample_planner sample_hash)\<^sup>*\<^sup>* new_service
     \<lparr>sessions = [''k'' \<mapsto> sample_submitted], claims = sample_claims\<rparr>"
proof -
  let ?S = "service_step sample_planner sample_hash"
  have step: "?S \<lparr>sessions = [''k'' \<mapsto> s], claims = l\<rparr> \<lparr>sessions = [''k'' \<mapsto> s'], claims = l\<rparr>"
    if "session_step sample_planner sample_hash e s = Inr s'" "\<not> is_consume e" for s s' e l
    using service_step.act [of "\<lparr>sessions = [''k'' \<mapsto> s], claims = l\<rparr>" "''k''" s e] that by simp
  have run: "?S\<^sup>*\<^sup>* \<lparr>sessions = [''k'' \<mapsto> s], claims = l\<rparr>
      \<lparr>sessions = [''k'' \<mapsto> run_events (session_step sample_planner sample_hash) s es], claims = l\<rparr>"
    if "\<forall>e\<in>set es. \<not> is_consume e" for s es l
    using that
  proof (induction es arbitrary: s)
    case (Cons e es)
    show ?case
    proof (cases "session_step sample_planner sample_hash e s")
      case (Inr s')
      have e: "\<not> is_consume e" "\<forall>e\<in>set es. \<not> is_consume e" using Cons.prems by auto
      have "run_events (session_step sample_planner sample_hash) s (e # es) =
          run_events (session_step sample_planner sample_hash) s' es" using Inr by simp
      then show ?thesis
        using converse_rtranclp_into_rtranclp [OF step [OF Inr e(1)] Cons.IH [OF e(2)]] by metis
    qed (use Cons in simp)
  qed simp
  from service_step.create [OF _ sample_create, of new_service "''k''"]
  have "?S new_service \<lparr>sessions = [''k'' \<mapsto> sample_draft], claims = []\<rparr>"
    by (simp add: new_service_def new_approval_ledger_def)
  also have "?S\<^sup>*\<^sup>* \<dots> \<lparr>sessions = [''k'' \<mapsto> sample_approving], claims = []\<rparr>"
    using run [of "[Ev_start_intent 0 (Utc 2), Ev_record_intent ''lamp'' (Some ''query'') True 1 (Utc 3),
        Ev_approve_intent False None 2 (Utc 4)]" sample_draft "[]"]
    by (simp add: sample_start sample_record sample_approve)
  also have "?S \<dots> \<lparr>sessions = [''k'' \<mapsto> sample_issued], claims = []\<rparr>"
    by (rule step [where e = "Ev_issue sample_plan sample_token 3 (Utc 11)"]) (simp_all add: sample_issue)
  also have "?S \<dots> \<lparr>sessions = [''k'' \<mapsto> sample_submitted], claims = sample_claims\<rparr>"
    using service_step.consume [of "\<lparr>sessions = [''k'' \<mapsto> sample_issued], claims = []\<rparr>" "''k''" sample_issued
        sample_planner sample_hash sample_token sample_plan sample_search_reservation "''owner''" "''session''" 4 "Utc 13"]
      sample_submission by simp
  finally show ?thesis .
qed

theorem executing_sessions_have_own_approval_witness:
  "claimed_by sample_claims sample_submitted"
proof -
  have "state sample_submitted \<in> execution_states"
    using sample_submitted_ready by (simp add: ready_def execution_states_def)
  from executing_sessions_have_own_approval [OF sample_service _ this, of "''k''"] show ?thesis by simp
qed

end
