(* ===== verification/Utc_Time.thy ===== *)
theory Utc_Time
  imports Canonical_Json
begin

text \<open>
  The text of a UTC timestamp, \<open>isoformat(timespec="microseconds")\<close> with \<open>Z\<close> for the offset,
  which the SQLite stores keep and compare as text: the proleptic Gregorian calendar of Python's
  \<open>datetime\<close>, fixed-width rendering, parsing with the check that the text renders back, and the
  two facts the stores rely on. Parsing inverts rendering, and the order of the texts is the
  order of the times.
\<close>

section \<open>The calendar\<close>

definition is_leap :: "int \<Rightarrow> bool" where
  "is_leap y \<longleftrightarrow> y mod 4 = 0 \<and> (y mod 100 \<noteq> 0 \<or> y mod 400 = 0)"

definition days_before_year :: "int \<Rightarrow> int" where
  "days_before_year y = (y - 1) * 365 + (y - 1) div 4 - (y - 1) div 100 + (y - 1) div 400"

text \<open>Day offsets of the months of a common year.\<close>

definition month_offset :: "int \<Rightarrow> int" where
  "month_offset m =
     (if m \<le> 1 then 0 else if m \<le> 2 then 31 else if m \<le> 3 then 59 else if m \<le> 4 then 90
      else if m \<le> 5 then 120 else if m \<le> 6 then 151 else if m \<le> 7 then 181
      else if m \<le> 8 then 212 else if m \<le> 9 then 243 else if m \<le> 10 then 273
      else if m \<le> 11 then 304 else if m \<le> 12 then 334 else 365)"

definition days_before_month :: "int \<Rightarrow> int \<Rightarrow> int" where
  "days_before_month y m = month_offset m + (if 2 < m \<and> is_leap y then 1 else 0)"

definition days_in_month :: "int \<Rightarrow> int \<Rightarrow> int" where
  "days_in_month y m = days_before_month y (m + 1) - days_before_month y m"

text \<open>A date's day number, 1 for 0001-01-01, and the date of a day number.\<close>

definition ymd_to_ord :: "int \<Rightarrow> int \<Rightarrow> int \<Rightarrow> int" where
  "ymd_to_ord y m d = days_before_year y + days_before_month y m + d"

definition year_of_ord :: "int \<Rightarrow> int" where
  "year_of_ord n =
     (let e = (n - 1) * 400 div 146097 + 1
      in if n \<le> days_before_year e then e - 1
         else if days_before_year (e + 1) < n then e + 1 else e)"

definition month_of_day :: "int \<Rightarrow> int \<Rightarrow> int" where
  "month_of_day y k =
     (if k \<le> days_before_month y 2 then 1 else if k \<le> days_before_month y 3 then 2
      else if k \<le> days_before_month y 4 then 3 else if k \<le> days_before_month y 5 then 4
      else if k \<le> days_before_month y 6 then 5 else if k \<le> days_before_month y 7 then 6
      else if k \<le> days_before_month y 8 then 7 else if k \<le> days_before_month y 9 then 8
      else if k \<le> days_before_month y 10 then 9 else if k \<le> days_before_month y 11 then 10
      else if k \<le> days_before_month y 12 then 11 else 12)"

definition ord_to_ymd :: "int \<Rightarrow> int \<times> int \<times> int" where
  "ord_to_ymd n =
     (let y = year_of_ord n; k = n - days_before_year y; m = month_of_day y k
      in (y, m, k - days_before_month y m))"

definition valid_date :: "int \<Rightarrow> int \<Rightarrow> int \<Rightarrow> bool" where
  "valid_date y m d \<longleftrightarrow> 1 \<le> m \<and> m \<le> 12 \<and> 1 \<le> d \<and> d \<le> days_in_month y m"

lemma div_bounds: "(0::int) < k \<Longrightarrow> k * (z div k) \<le> z \<and> z < k * (z div k) + k"
  using pos_mod_bound [of k z] pos_mod_sign [of k z] mult_div_mod_eq [of k z] by linarith

lemma div_numeral_bounds:
  "4 * (z div 4) \<le> (z::int)" "z < 4 * (z div 4) + 4"
  "100 * (z div 100) \<le> z" "z < 100 * (z div 100) + 100"
  "400 * (z div 400) \<le> z" "z < 400 * (z div 400) + 400"
  using div_bounds [of 4 z] div_bounds [of 100 z] div_bounds [of 400 z] by simp_all

lemma div_succ:
  assumes "(0::int) < k"
  shows "(z + 1) div k = z div k + (if (z + 1) mod k = 0 then 1 else 0)"
proof (cases "z mod k = k - 1")
  case True
  then have "z + 1 = k * (z div k + 1)"
    using mult_div_mod_eq [of k z] by (simp add: distrib_left True) 
  with assms show ?thesis by simp
next
  case False
  have "z + 1 = k * (z div k) + (z mod k + 1)" using mult_div_mod_eq [of k z] by simp
  moreover have "0 \<le> z mod k + 1" "z mod k + 1 < k"
    using assms False pos_mod_bound [of k z] pos_mod_sign [of k z] by linarith+
  ultimately have "(z + 1) div k = z div k" "(z + 1) mod k = z mod k + 1"
    by (simp_all only: int_div_pos_eq int_mod_pos_eq)
  moreover have "z mod k + 1 \<noteq> 0" using assms pos_mod_sign [of k z] by linarith
  ultimately show ?thesis by simp
qed

lemma leap_multiples: "y mod 400 = 0 \<Longrightarrow> y mod 100 = (0::int)" "y mod 100 = 0 \<Longrightarrow> y mod 4 = (0::int)"
  by (simp_all only: mod_eq_0_iff_dvd) (rule dvd_trans [rotated], assumption, simp)+

lemma days_before_next_year:
  "days_before_year (y + 1) = days_before_year y + 365 + (if is_leap y then 1 else 0)"
proof -
  have y: "(y - 1) + 1 = y" by simp
  define l4 l100 l400 :: int where "l4 = (if y mod 4 = 0 then 1 else 0)"
    and "l100 = (if y mod 100 = 0 then 1 else 0)" and "l400 = (if y mod 400 = 0 then 1 else 0)"
  note l = this
  have "y div 4 = (y - 1) div 4 + l4" using div_succ [of 4 "y - 1"] unfolding y l by simp
  moreover have "y div 100 = (y - 1) div 100 + l100"
    using div_succ [of 100 "y - 1"] unfolding y l by simp
  moreover have "y div 400 = (y - 1) div 400 + l400"
    using div_succ [of 400 "y - 1"] unfolding y l by simp
  ultimately have "days_before_year (y + 1) = days_before_year y + 365 + (l4 - l100 + l400)"
    unfolding days_before_year_def add_diff_cancel_right' by (simp only: left_diff_distrib)
  also have "l4 - l100 + l400 = (if is_leap y then 1 else 0)"
    using leap_multiples [of y] unfolding is_leap_def l
    by (cases "y mod 400 = 0"; cases "y mod 100 = 0"; cases "y mod 4 = 0") simp_all
  finally show ?thesis .
qed

lemma year_estimate:
  assumes "4 * a \<le> z" "z < 4 * a + 4" "100 * b \<le> z" "z < 100 * b + 100"
    "400 * c \<le> z" "z < 400 * c + (400::int)"
  shows "146097 * z - 699 \<le> 400 * (z * 365 + a - b + c) \<and>
    400 * (z * 365 + a - b + c) \<le> 146097 * z + 396"
  using assms by (intro conjI) simp_all

lemma year_bounds: "days_before_year (year_of_ord n) < n \<and> n \<le> days_before_year (year_of_ord n + 1)"
proof -
  define e where "e = (n - 1) * 400 div 146097"
  have e: "146097 * e \<le> (n - 1) * 400" "(n - 1) * 400 < 146097 * (e + 1)"
    using div_bounds [of 146097 "(n - 1) * 400"] unfolding e_def by simp_all
  have est: "146097 * (y - 1) - 699 \<le> 400 * days_before_year y"
    "400 * days_before_year y \<le> 146097 * (y - 1) + 396" for y
    using year_estimate [OF div_numeral_bounds [of "y - 1"]] by (simp_all only: days_before_year_def)
  have "days_before_year e < n" using e est(2) [of e] by (simp add: algebra_simps)
  moreover have "n \<le> days_before_year (e + 3)"
    using e est(1) [of "e + 3"] by (simp add: algebra_simps)
  ultimately have "days_before_year (e + 1 - 1) < n" "n \<le> days_before_year (e + 1 + 1 + 1)"
    by (simp_all add: add.commute)
  then show ?thesis
    unfolding year_of_ord_def e_def [symmetric] Let_def by auto
qed

lemma days_before_month_simps:
  "days_before_month y 1 = 0"
  "days_before_month y 13 = 365 + (if is_leap y then 1 else 0)"
  by (simp_all add: days_before_month_def month_offset_def)

lemma month_bounds:
  assumes "0 < k" and "k \<le> 365 + (if is_leap y then 1 else 0)"
  shows "1 \<le> month_of_day y k \<and> month_of_day y k \<le> 12 \<and>
    days_before_month y (month_of_day y k) < k \<and> k \<le> days_before_month y (month_of_day y k + 1)"
  using assms
  by (cases "is_leap y") (simp_all add: month_of_day_def days_before_month_def month_offset_def)

lemma ord_to_ymd_valid:
  assumes "ord_to_ymd n = (y, m, d)"
  shows "valid_date y m d \<and> ymd_to_ord y m d = n"
proof -
  have y: "y = year_of_ord n" and m: "m = month_of_day y (n - days_before_year y)"
    and d: "d = n - days_before_year y - days_before_month y m"
    using assms by (auto simp: ord_to_ymd_def Let_def)
  have "0 < n - days_before_year y" and "n - days_before_year y \<le> 365 + (if is_leap y then 1 else 0)"
    using year_bounds [of n] days_before_next_year [of y] y by (auto split: if_splits)
  from month_bounds [OF this] m d show ?thesis
    by (auto simp: valid_date_def days_in_month_def ymd_to_ord_def)
qed


text \<open>Day numbers order the dates.\<close>

lemma days_before_year_mono: "y \<le> z \<Longrightarrow> days_before_year y \<le> days_before_year z"
  by (induction z rule: int_ge_induct) (simp_all add: days_before_next_year)

lemma days_before_month_mono: "m \<le> n \<Longrightarrow> days_before_month y m \<le> days_before_month y n"
  by (auto simp: days_before_month_def month_offset_def)

lemma valid_date_in_year:
  assumes "valid_date y m d"
  shows "0 < days_before_month y m + d \<and> days_before_month y m + d \<le> 365 + (if is_leap y then 1 else 0)"
proof -
  have "0 \<le> days_before_month y m" by (simp add: days_before_month_def month_offset_def)
  moreover have "days_before_month y (m + 1) \<le> days_before_month y 13"
    using assms by (intro days_before_month_mono) (simp add: valid_date_def)
  ultimately show ?thesis
    using assms by (simp add: valid_date_def days_in_month_def days_before_month_simps)
qed

lemma ymd_to_ord_year_less:
  assumes "valid_date y m d" and "valid_date y' m' d'" and "y < y'"
  shows "ymd_to_ord y m d < ymd_to_ord y' m' d'"
proof -
  have "days_before_year (y + 1) \<le> days_before_year y'" using assms(3) by (intro days_before_year_mono) simp
  with valid_date_in_year [OF assms(1)] valid_date_in_year [OF assms(2)] show ?thesis
    unfolding ymd_to_ord_def by (simp add: days_before_next_year)
qed

lemma ymd_to_ord_month_less:
  assumes "valid_date y m d" and "valid_date y m' d'" and "m < m'"
  shows "ymd_to_ord y m d < ymd_to_ord y m' d'"
proof -
  have "days_before_month y (m + 1) \<le> days_before_month y m'" using assms(3) by (intro days_before_month_mono) simp
  with assms show ?thesis by (simp add: ymd_to_ord_def valid_date_def days_in_month_def)
qed

lemma ymd_to_ord_less_iff:
  assumes "valid_date y m d" and "valid_date y' m' d'"
  shows "ymd_to_ord y m d < ymd_to_ord y' m' d' \<longleftrightarrow> [y, m, d] < [y', m', d']"
proof (cases "y = y' \<and> m = m'")
  case True
  then show ?thesis by (simp add: ymd_to_ord_def)
next
  case False
  then consider "y < y'" | "y' < y" | "y = y'" "m < m'" | "y = y'" "m' < m" by linarith
  then show ?thesis
    using ymd_to_ord_year_less [OF assms] ymd_to_ord_year_less [OF assms(2,1)]
      ymd_to_ord_month_less assms by cases fastforce+
qed

text \<open>The calendar inverts.\<close>

lemma ord_to_ymd_inverse:
  assumes "valid_date y m d"
  shows "ord_to_ymd (ymd_to_ord y m d) = (y, m, d)"
proof -
  obtain y' m' d' where e: "ord_to_ymd (ymd_to_ord y m d) = (y', m', d')" by (metis prod_cases3)
  from ord_to_ymd_valid [OF this] have "valid_date y' m' d'" "ymd_to_ord y' m' d' = ymd_to_ord y m d" by auto
  with ymd_to_ord_less_iff [OF assms this(1)] ymd_to_ord_less_iff [OF this(1) assms]
  have "[y, m, d] = [y', m', d']" by (metis less_irrefl linorder_less_linear)
  with e show ?thesis by simp
qed

section \<open>Rendering and parsing\<close>

definition fields_of :: "time \<Rightarrow> int list" where
  "fields_of t =
     (case ord_to_ymd (719163 + t div days 1) of (y, m, d) \<Rightarrow>
        let r = t mod days 1
        in [y, m, d, r div hours 1, r div minutes 1 mod 60, r div seconds 1 mod 60, r mod seconds 1])"

fun pad :: "nat \<Rightarrow> nat \<Rightarrow> string" where
  "pad 0 n = []"
| "pad (Suc w) n = pad w (n div 10) @ [dec_digit (n mod 10)]"

text \<open>Separator and width of each field.\<close>

definition time_layout :: "(string \<times> nat) list" where
  "time_layout = [([], 4), (''-'', 2), (''-'', 2), (''T'', 2), ('':'', 2), ('':'', 2), (''.'', 6)]"

fun render :: "(string \<times> nat) list \<Rightarrow> int list \<Rightarrow> string" where
  "render ((sep, w) # ls) (n # ns) = sep @ pad w (nat n) @ render ls ns"
| "render _ _ = ''Z''"

definition time_text :: "time \<Rightarrow> string" where
  "time_text t = render time_layout (fields_of t)"

text \<open>
  \<open>datetime.fromisoformat\<close> followed by the stores' check that the value renders back to the text
  it was read from: texts in another ISO layout fail that check, so only the layout of
  \<open>time_text\<close> is read.
\<close>

definition number_at :: "string \<Rightarrow> nat \<Rightarrow> nat \<Rightarrow> int" where
  "number_at s k w = int (dec_val (take w (drop k s)))"

definition time_of_text :: "string \<Rightarrow> time" where
  "time_of_text s =
     (ymd_to_ord (number_at s 0 4) (number_at s 5 2) (number_at s 8 2) - 719163) * days 1 +
     number_at s 11 2 * hours 1 + number_at s 14 2 * minutes 1 + number_at s 17 2 * seconds 1 +
     number_at s 20 6"

definition read_time :: "string \<Rightarrow> time option" where
  "read_time s =
     (let t = time_of_text s
      in if time_min \<le> t \<and> t \<le> time_max \<and> time_text t = s then Some t else None)"


lemma length_pad [simp]: "length (pad w n) = w"
  by (induction w arbitrary: n) simp_all

lemma dec_digit_less: "m < 10 \<Longrightarrow> n < 10 \<Longrightarrow> dec_digit m < dec_digit n \<longleftrightarrow> m < n"
proof -
  have code: "of_char (dec_digit k) = k + (48::nat)" if "k < 10" for k
  proof -
    from that have "k \<in> set [0..<10]" by simp
    also have "[0..<10] = [0, 1, 2, 3, 4, 5, 6, 7, 8, 9]" by code_simp
    finally show ?thesis by (auto simp: dec_digit_def)
  qed
  assume "m < 10" "n < 10"
  with code show ?thesis by (simp add: less_char_def)
qed

lemma append_less_iff:
  "length xs = length ys \<Longrightarrow> xs @ r < ys @ s \<longleftrightarrow> xs < ys \<or> xs = ys \<and> r < (s :: 'a::linorder list)"
  by (induction xs ys rule: list_induct2) auto

lemma less_by_digit_nat:
  "(m::nat) < n \<longleftrightarrow> m div k < n div k \<or> m div k = n div k \<and> m mod k < n mod k"
proof (cases "m div k" "n div k" rule: linorder_cases)
  case less
  then show ?thesis using div_le_mono [of n m k] by linarith
next
  case equal
  then show ?thesis using mult_div_mod_eq [of k m] mult_div_mod_eq [of k n] by (metis nat_add_left_cancel_less less_irrefl)
next
  case greater
  then show ?thesis using div_le_mono [of m n k] by linarith
qed

lemma less_by_digit:
  assumes "0 < (k::int)"
  shows "m < n \<longleftrightarrow> m div k < n div k \<or> m div k = n div k \<and> m mod k < n mod k"
proof (cases "m div k" "n div k" rule: linorder_cases)
  case less
  then show ?thesis using zdiv_mono1 [OF _ assms, of n m] by linarith
next
  case equal
  then show ?thesis using mult_div_mod_eq [of k m] mult_div_mod_eq [of k n] by (metis add_less_cancel_left less_irrefl)
next
  case greater
  then show ?thesis using zdiv_mono1 [OF _ assms, of m n] by linarith
qed

lemma eq_by_digit: "(m::int) = n \<longleftrightarrow> m div k = n div k \<and> m mod k = n mod k"
  by (metis mult_div_mod_eq)

lemma pad_less_iff:
  "m < 10 ^ w \<Longrightarrow> n < 10 ^ w \<Longrightarrow> pad w m < pad w n \<longleftrightarrow> m < n"
proof (induction w arbitrary: m n)
  case (Suc w)
  have d: "m div 10 < 10 ^ w" "n div 10 < 10 ^ w" using Suc.prems by (simp_all add: less_mult_imp_div_less mult.commute)
  have inj: "pad w (m div 10) = pad w (n div 10) \<longleftrightarrow> m div 10 = n div 10"
    using Suc.IH [OF d] Suc.IH [OF d(2,1)] by (metis less_irrefl linorder_less_linear)
  have split: "m < n \<longleftrightarrow> m div 10 < n div 10 \<or> m div 10 = n div 10 \<and> m mod 10 < n mod 10"
    by (rule less_by_digit_nat)
  show ?case
    unfolding split using Suc.IH [OF d] inj by (simp add: append_less_iff dec_digit_less)
qed simp

lemma pad_eq_iff: "m < 10 ^ w \<Longrightarrow> n < 10 ^ w \<Longrightarrow> pad w m = pad w n \<longleftrightarrow> m = n"
  by (metis less_irrefl linorder_less_linear pad_less_iff)

lemma dec_val_pad: "n < 10 ^ w \<Longrightarrow> dec_val (pad w n) = n"
proof (induction w arbitrary: n)
  case (Suc w)
  then have "n div 10 < 10 ^ w" by (simp add: less_mult_imp_div_less mult.commute)
  with Suc.IH have "dec_val (pad w (n div 10)) = n div 10" by blast
  with dec_digit_val [of "n mod 10"] show ?case by (simp add: dec_val_def)
qed (simp add: dec_val_def)

text \<open>Rendering keeps the order of the fields.\<close>

definition in_layout :: "(string \<times> nat) list \<Rightarrow> int list \<Rightarrow> bool" where
  "in_layout ls ns \<longleftrightarrow> list_all2 (\<lambda>(sep, w) n. 0 \<le> n \<and> n < 10 ^ w) ls ns"

lemma in_layout_simps [simp]:
  "in_layout [] ns \<longleftrightarrow> ns = []"
  "in_layout (l # ls) (n # ns) \<longleftrightarrow> 0 \<le> n \<and> n < 10 ^ snd l \<and> in_layout ls ns"
  "in_layout (l # ls) [] \<longleftrightarrow> False"
  by (auto simp: in_layout_def)

lemma render_less_iff:
  "in_layout ls ns \<Longrightarrow> in_layout ls ms \<Longrightarrow> render ls ns < render ls ms \<longleftrightarrow> ns < ms"
proof (induction ls arbitrary: ns ms)
  case (Cons l ls)
  then obtain n ns' m ms' where ns: "ns = n # ns'" "ms = m # ms'" by (cases ns; cases ms) auto
  obtain sep w where l: "l = (sep, w)" by fastforce
  have "nat n < 10 ^ w" "nat m < 10 ^ w" using Cons.prems ns l by (simp_all add: nat_less_iff)
  then have "pad w (nat n) < pad w (nat m) \<longleftrightarrow> n < m" "pad w (nat n) = pad w (nat m) \<longleftrightarrow> n = m"
    using Cons.prems ns by (auto simp: pad_less_iff pad_eq_iff)
  with Cons ns l show ?case by (simp add: append_less_iff)
qed simp

lemma year_in_range:
  assumes "time_min \<le> t" and "t \<le> time_max" and "ord_to_ymd (719163 + t div days 1) = (y, m, d)"
  shows "1 \<le> y \<and> y \<le> 9999"
proof -
  have v: "valid_date y m d" and o: "ymd_to_ord y m d = 719163 + t div days 1"
    using ord_to_ymd_valid [OF assms(3)] by auto
  have "1 \<le> 719163 + t div days 1" "719163 + t div days 1 \<le> 3652059"
    using assms(1,2) div_bounds [of "days 1" t]
    unfolding time_min_def time_max_def duration_defs by simp_all
  moreover have "ymd_to_ord 1 1 1 = 1" "ymd_to_ord 9999 12 31 = 3652059"
    and lo: "valid_date 1 1 1" and hi: "valid_date 9999 12 31" by code_simp+
  ultimately show ?thesis
    using ymd_to_ord_year_less [OF v lo] ymd_to_ord_year_less [OF hi v] o by linarith
qed

text \<open>The fields of a timestamp are within the layout, in the order of the timestamps, and give
  the timestamp back.\<close>

lemma clock_fields:
  fixes r :: int
  assumes "0 \<le> r" "r < days 1"
  shows "r div hours 1 < 24 \<and> 0 \<le> r div hours 1"
    "r div hours 1 * hours 1 + r div minutes 1 mod 60 * minutes 1 + r div seconds 1 mod 60 * seconds 1 +
      r mod seconds 1 = r"
proof -
  show "r div hours 1 < 24 \<and> 0 \<le> r div hours 1"
    using assms div_bounds [of "hours 1" r] by (simp add: duration_defs)
  have h: "r div hours 1 = r div minutes 1 div 60" and mi: "r div minutes 1 = r div seconds 1 div 60"
    by (simp_all add: duration_defs zdiv_zmult2_eq [symmetric])
  have "1000000 * (r div seconds 1) + r mod seconds 1 = r"
    "60 * (r div hours 1) + r div minutes 1 mod 60 = r div minutes 1"
    "60 * (r div minutes 1) + r div seconds 1 mod 60 = r div seconds 1"
    unfolding h mi by (simp_all add: duration_defs)
  then show "r div hours 1 * hours 1 + r div minutes 1 mod 60 * minutes 1 + r div seconds 1 mod 60 * seconds 1 +
      r mod seconds 1 = r"
    unfolding seconds_def [of 1] minutes_def [of 1] hours_def [of 1] minutes_def seconds_def by linarith
qed

lemma sixty: "(r::int) mod 60 < 100"
  using pos_mod_bound [of 60 r] by simp

lemma fields_in_layout:
  assumes "time_min \<le> t" and "t \<le> time_max"
  shows "in_layout time_layout (fields_of t)"
proof -
  obtain y m d where e: "ord_to_ymd (719163 + t div days 1) = (y, m, d)" by (metis prod_cases3)
  from ord_to_ymd_valid [OF e] have "1 \<le> m" "m \<le> 12" "1 \<le> d" "d \<le> days_in_month y m"
    by (auto simp: valid_date_def)
  moreover have "days_in_month y m \<le> 31"
    by (simp add: days_in_month_def days_before_month_def month_offset_def)
  moreover have r: "0 \<le> t mod days 1" "t mod days 1 < days 1" by (simp_all add: duration_defs)
  moreover have "fields_of t = [y, m, d, t mod days 1 div hours 1, t mod days 1 div minutes 1 mod 60,
      t mod days 1 div seconds 1 mod 60, t mod days 1 mod seconds 1]"
    by (simp add: fields_of_def e Let_def)
  ultimately show ?thesis
    using year_in_range [OF assms e] clock_fields(1) [OF r]
    by (simp add: time_layout_def) (simp add: seconds_def sixty)
qed

lemma clock_less_iff:
  fixes r r' :: int
  shows "[r div hours 1, r div minutes 1 mod 60, r div seconds 1 mod 60, r mod seconds 1] <
    [r' div hours 1, r' div minutes 1 mod 60, r' div seconds 1 mod 60, r' mod seconds 1] \<longleftrightarrow> r < r'"
proof -
  have h: "q div hours 1 = q div minutes 1 div 60" and mi: "q div minutes 1 = q div seconds 1 div 60"
    for q :: int
    by (simp_all add: duration_defs zdiv_zmult2_eq [symmetric])
  have pos: "0 < seconds 1" "0 < (60::int)" by (simp_all add: seconds_def)
  show ?thesis
    unfolding less_by_digit [OF pos(1), of r r'] less_by_digit [OF pos(2), of "r div seconds 1" "r' div seconds 1"]
      less_by_digit [OF pos(2), of "r div minutes 1" "r' div minutes 1"]
      eq_by_digit [of "r div seconds 1" "r' div seconds 1" 60]
      eq_by_digit [of "r div minutes 1" "r' div minutes 1" 60] mi [symmetric] h [symmetric] Cons_less_Cons
    by simp blast
qed

lemma fields_less_iff:
  "fields_of t < fields_of u \<longleftrightarrow> t < u"
proof -
  obtain y m d where e: "ord_to_ymd (719163 + t div days 1) = (y, m, d)" by (metis prod_cases3)
  obtain y' m' d' where e': "ord_to_ymd (719163 + u div days 1) = (y', m', d')" by (metis prod_cases3)
  note v = ord_to_ymd_valid [OF e] ord_to_ymd_valid [OF e']
  have less: "[y, m, d] < [y', m', d'] \<longleftrightarrow> t div days 1 < u div days 1"
    using ymd_to_ord_less_iff [of y m d y' m' d'] v by simp
  have eq: "[y, m, d] = [y', m', d'] \<longleftrightarrow> t div days 1 = u div days 1"
    using v e e' by auto
  define clock where "clock r = [r div hours 1, r div minutes 1 mod 60, r div seconds 1 mod 60, r mod seconds 1]"
    for r :: int
  have "fields_of t = [y, m, d] @ clock (t mod days 1)" "fields_of u = [y', m', d'] @ clock (u mod days 1)"
    by (simp_all add: fields_of_def e e' Let_def clock_def)
  moreover have "clock (t mod days 1) < clock (u mod days 1) \<longleftrightarrow> t mod days 1 < u mod days 1"
    unfolding clock_def by (rule clock_less_iff)
  ultimately have split: "fields_of t < fields_of u \<longleftrightarrow>
      [y, m, d] < [y', m', d'] \<or> [y, m, d] = [y', m', d'] \<and> t mod days 1 < u mod days 1"
    by (simp only: append_less_iff length_Cons list.size)
  show ?thesis
    unfolding split less eq by (rule less_by_digit [symmetric]) (simp add: duration_defs)
qed

lemma time_text_less_iff:
  assumes "time_min \<le> t" "t \<le> time_max" "time_min \<le> u" "u \<le> time_max"
  shows "time_text t < time_text u \<longleftrightarrow> t < u"
  unfolding time_text_def
  using render_less_iff [OF fields_in_layout fields_in_layout] assms fields_less_iff by blast

lemma time_text_le_iff:
  assumes "time_min \<le> t" "t \<le> time_max" "time_min \<le> u" "u \<le> time_max"
  shows "time_text t \<le> time_text u \<longleftrightarrow> t \<le> u"
  using time_text_less_iff [OF assms(3,4,1,2)] by (simp add: not_less [symmetric])

lemma time_text_eq_iff:
  assumes "time_min \<le> t" "t \<le> time_max" "time_min \<le> u" "u \<le> time_max"
  shows "time_text t = time_text u \<longleftrightarrow> t = u"
  using time_text_le_iff [OF assms] time_text_le_iff [OF assms(3,4,1,2)] by (metis eq_iff)

text \<open>Reading inverts rendering.\<close>

lemma time_of_time_text:
  assumes "time_min \<le> t" and "t \<le> time_max"
  shows "time_of_text (time_text t) = t"
proof -
  obtain y m d where e: "ord_to_ymd (719163 + t div days 1) = (y, m, d)" by (metis prod_cases3)
  from ord_to_ymd_valid [OF e] have o: "ymd_to_ord y m d = 719163 + t div days 1" by simp
  define r where "r = t mod days 1"
  have r: "0 \<le> r" "r < days 1" by (simp_all add: r_def duration_defs)
  define h mi s us where "h = r div hours 1" and "mi = r div minutes 1 mod 60"
    and "s = r div seconds 1 mod 60" and "us = r mod seconds 1"
  have f: "fields_of t = [y, m, d, h, mi, s, us]"
    by (simp add: fields_of_def e Let_def r_def h_def mi_def s_def us_def)
  have lay: "in_layout time_layout [y, m, d, h, mi, s, us]" using fields_in_layout [OF assms] f by simp
  have val: "0 \<le> n \<Longrightarrow> n < 10 ^ w \<Longrightarrow> int (dec_val (pad w (nat n))) = n" for n w
    by (simp add: dec_val_pad nat_less_iff)
  have shown: "time_text t = pad 4 (nat y) @ ''-'' @ pad 2 (nat m) @ ''-'' @ pad 2 (nat d) @ ''T'' @
      pad 2 (nat h) @ '':'' @ pad 2 (nat mi) @ '':'' @ pad 2 (nat s) @ ''.'' @ pad 6 (nat us) @ ''Z''"
    by (simp add: time_text_def f time_layout_def)
  have "number_at (time_text t) 0 4 = y" "number_at (time_text t) 5 2 = m"
    "number_at (time_text t) 8 2 = d" "number_at (time_text t) 11 2 = h"
    "number_at (time_text t) 14 2 = mi" "number_at (time_text t) 17 2 = s"
    "number_at (time_text t) 20 6 = us"
    using lay val [of y 4] val [of m 2] val [of d 2] val [of h 2] val [of mi 2] val [of s 2] val [of us 6]
    unfolding shown number_at_def time_layout_def by simp_all
  moreover have "h * hours 1 + mi * minutes 1 + s * seconds 1 + us = r"
    using clock_fields(2) [OF r] by (simp only: h_def mi_def s_def us_def)
  moreover have "t div days 1 * days 1 + r = t" unfolding r_def by (rule div_mult_mod_eq)
  ultimately show ?thesis unfolding time_of_text_def by (simp add: o)
qed

lemma read_time_text:
  "time_min \<le> t \<Longrightarrow> t \<le> time_max \<Longrightarrow> read_time (time_text t) = Some t"
  by (simp add: read_time_def Let_def time_of_time_text)

lemma read_time_eq_Some:
  "read_time s = Some t \<longleftrightarrow> time_min \<le> t \<and> t \<le> time_max \<and> s = time_text t"
  by (auto simp: read_time_def Let_def time_of_time_text)

declare pad.simps(2) [simp del] render.simps [simp del]

end
