(* ===== verification/Search_Job.thy ===== *)
theory Search_Job
  imports Utc_Time Interfaces "HOL-Library.Option_ord"
begin

text \<open>
  \<open>src/search_v2/search_job.py\<close>: the job snapshot with its state contract and the SQLite
  repository of jobs (enqueue, get, claim, cancel, finish, recovery and purge). The table is the
  list of its rows, each holding the columns as they are stored (times as text, the status by
  name, the digest of the record); every method is one \<open>BEGIN IMMEDIATE\<close> transaction, so it is
  one step, and a method that raises leaves the table as it was. \<open>H\<close> is
  \<open>hashlib.sha256(_).hexdigest()\<close> and \<open>D\<close> pydantic's JSON text of a datetime.
\<close>

section \<open>Data\<close>

definition job_queue_start_window :: int where "job_queue_start_window = hours 24"
definition job_retention :: int where "job_retention = days 30"

lemmas window_defs = job_queue_start_window_def job_retention_def duration_defs

definition job_state_error :: exn where
  "job_state_error = SearchJobStateError ''Search job state transition is invalid''"

datatype job_status =
    Job_queued | Job_running | Job_cancel_requested
  | Job_succeeded | Job_failed | Job_cancelled | Job_timed_out

datatype job_failure = Execution_failed | Queue_start_expired | Worker_restarted

fun status_name :: "job_status \<Rightarrow> string" where
  "status_name Job_queued = ''queued''"
| "status_name Job_running = ''running''"
| "status_name Job_cancel_requested = ''cancel_requested''"
| "status_name Job_succeeded = ''succeeded''"
| "status_name Job_failed = ''failed''"
| "status_name Job_cancelled = ''cancelled''"
| "status_name Job_timed_out = ''timed_out''"

fun failure_name :: "job_failure \<Rightarrow> string" where
  "failure_name Execution_failed = ''execution_failed''"
| "failure_name Queue_start_expired = ''queue_start_expired''"
| "failure_name Worker_restarted = ''worker_restarted''"

definition all_statuses :: "job_status list" where
  "all_statuses = [Job_queued, Job_running, Job_cancel_requested, Job_succeeded, Job_failed,
     Job_cancelled, Job_timed_out]"

definition all_failures :: "job_failure list" where
  "all_failures = [Execution_failed, Queue_start_expired, Worker_restarted]"

definition terminal_statuses :: "job_status list" where
  "terminal_statuses = [Job_succeeded, Job_failed, Job_cancelled, Job_timed_out]"

text \<open>A value passed where an instance of a contract class is expected.\<close>

datatype 'a py_arg = Instance 'a | Other_object

record submission =
  sub_owner :: string
  sub_binding :: string

definition submission_ok :: "submission \<Rightarrow> bool" where
  "submission_ok s \<longleftrightarrow> is_subject_id (sub_owner s) \<and> is_digest (sub_binding s)"

record job =
  job_locator :: string
  job_owner :: string
  job_binding :: string
  job_status :: job_status
  job_revision :: int
  job_created :: time
  job_updated :: time
  job_start_before :: time
  job_started :: "time option"
  job_cancel_at :: "time option"
  job_finished :: "time option"
  job_purge_after :: "time option"
  job_result :: "string option"
  job_failure :: "job_failure option"

section \<open>The state contract of a job\<close>

text \<open>A \<open>datetime\<close> lies between the years 1 and 9999.\<close>

definition is_time :: "time \<Rightarrow> bool" where
  "is_time t \<longleftrightarrow> time_min \<le> t \<and> t \<le> time_max"

definition job_fields_ok :: "job \<Rightarrow> bool" where
  "job_fields_ok j \<longleftrightarrow>
     is_token (job_locator j) \<and> is_subject_id (job_owner j) \<and> is_digest (job_binding j) \<and>
     0 \<le> job_revision j \<and> is_time (job_created j) \<and> is_time (job_updated j) \<and>
     is_time (job_start_before j) \<and> opt_all is_time (job_started j) \<and>
     opt_all is_time (job_cancel_at j) \<and> opt_all is_time (job_finished j) \<and>
     opt_all is_time (job_purge_after j) \<and> opt_all is_token (job_result j)"

definition first_time :: "time option \<Rightarrow> time \<Rightarrow> time" where
  "first_time v d = (case v of None \<Rightarrow> d | Some t \<Rightarrow> t)"

definition later_state_empty :: "job \<Rightarrow> bool" where
  "later_state_empty j \<longleftrightarrow> job_finished j = None \<and> job_purge_after j = None \<and>
     job_result j = None \<and> job_failure j = None"

definition validate_queued :: "job \<Rightarrow> unit result" where
  "validate_queued j =
     require (job_updated j = job_created j \<and> job_started j = None \<and> job_cancel_at j = None \<and>
              later_state_empty j)
       (ValidationError ''queued job contains later state'')"

definition validate_running :: "job \<Rightarrow> unit result" where
  "validate_running j =
     require (job_started j = Some (job_updated j) \<and> job_cancel_at j = None \<and> later_state_empty j)
       (ValidationError ''running job state is inconsistent'')"

definition validate_cancel_requested :: "job \<Rightarrow> unit result" where
  "validate_cancel_requested j =
     require (job_started j \<noteq> None \<and> job_cancel_at j = Some (job_updated j) \<and> later_state_empty j)
       (ValidationError ''cancel-requested job state is inconsistent'')"

definition terminal_error :: exn where
  "terminal_error = ValidationError ''terminal job timestamps are inconsistent''"

definition validate_terminal :: "job \<Rightarrow> unit result" where
  "validate_terminal j =
     bind (case job_finished j of
             None \<Rightarrow> Inl terminal_error
           | Some f \<Rightarrow>
               if job_updated j \<noteq> f then Inl terminal_error
               else bind (time_add f job_retention) (\<lambda>p.
                 require (job_purge_after j = Some p) terminal_error)) (\<lambda>_.
     case job_status j of
       Job_succeeded \<Rightarrow>
         require (job_started j \<noteq> None \<and> job_cancel_at j = None \<and> job_result j \<noteq> None \<and>
                  job_failure j = None)
           (ValidationError ''succeeded job state is inconsistent'')
     | Job_failed \<Rightarrow>
         require (job_cancel_at j = None \<and> job_result j = None \<and>
                  job_failure j \<in> {Some Execution_failed, Some Worker_restarted} \<and>
                  \<not> (job_failure j = Some Execution_failed \<and> job_started j = None))
           (ValidationError ''failed job state is inconsistent'')
     | Job_cancelled \<Rightarrow>
         require (job_cancel_at j \<noteq> None \<and> job_result j = None \<and> job_failure j = None)
           (ValidationError ''cancelled job state is inconsistent'')
     | _ \<Rightarrow>
         require (job_status j = Job_timed_out \<and> job_started j = None \<and> job_cancel_at j = None \<and>
                  job_result j = None \<and> job_failure j = Some Queue_start_expired)
           (ValidationError ''timed-out job state is inconsistent''))"

definition validate_status_contract :: "job \<Rightarrow> unit result" where
  "validate_status_contract j =
     (case job_status j of
        Job_queued \<Rightarrow> validate_queued j
      | Job_running \<Rightarrow> validate_running j
      | Job_cancel_requested \<Rightarrow> validate_cancel_requested j
      | _ \<Rightarrow> validate_terminal j)"

definition validate_job :: "job \<Rightarrow> unit result" where
  "validate_job j =
     (if \<not> job_fields_ok j then Inl (ValidationError ''search job field'')
      else bind (time_add (job_created j) job_queue_start_window) (\<lambda>d.
        if job_start_before j \<noteq> d
        then Inl (ValidationError ''job queue start deadline is inconsistent'')
        else if job_updated j < job_created j
        then Inl (ValidationError ''job update precedes creation'')
        else if \<not> opt_all (\<lambda>s. job_created j \<le> s \<and> s < job_start_before j) (job_started j)
        then Inl (ValidationError ''job start time is inconsistent'')
        else if \<not> opt_all (\<lambda>c. first_time (job_started j) (job_created j) \<le> c) (job_cancel_at j)
        then Inl (ValidationError ''job cancellation time is inconsistent'')
        else if \<not> opt_all
             (\<lambda>f. first_time (job_cancel_at j) (first_time (job_started j) (job_created j)) \<le> f)
             (job_finished j)
        then Inl (ValidationError ''job finish time is inconsistent'')
        else validate_status_contract j))"

section \<open>Inputs\<close>

definition validated_submission :: "submission py_arg \<Rightarrow> submission result" where
  "validated_submission p =
     (case p of Other_object \<Rightarrow> Inl SearchJobInputError
      | Instance s \<Rightarrow> bind (require (submission_ok s) SearchJobInputError) (\<lambda>_. Inr s))"

text \<open>A \<open>SearchJobResult\<close> is its one field, the locator of the result.\<close>

definition validated_result :: "string py_arg \<Rightarrow> string result" where
  "validated_result r =
     (case r of Other_object \<Rightarrow> Inl SearchJobInputError
      | Instance l \<Rightarrow> bind (require (is_token l) SearchJobInputError) (\<lambda>_. Inr l))"

definition validated_owner :: "string \<Rightarrow> string result" where
  "validated_owner s = bind (require (is_subject_id s) SearchJobInputError) (\<lambda>_. Inr s)"

definition validated_locator :: "string \<Rightarrow> string result" where
  "validated_locator s = bind (require (is_token s) SearchJobInputError) (\<lambda>_. Inr s)"

definition job_utc_datetime :: "string \<Rightarrow> time_arg \<Rightarrow> time result" where
  "job_utc_datetime field_name v =
     (case v of Utc t \<Rightarrow> Inr t | _ \<Rightarrow> Inl (ValueError (field_name @ '' must use UTC'')))"

definition validated_now :: "time_arg \<Rightarrow> time result" where
  "validated_now v =
     rewrap (\<lambda>e. is_TypeError e \<or> is_ValueError e) SearchJobInputError (job_utc_datetime ''now'' v)"

section \<open>New and updated jobs\<close>

definition new_queued_job :: "submission \<Rightarrow> string \<Rightarrow> time \<Rightarrow> job result" where
  "new_queued_job s locator now =
     bind (time_add now job_queue_start_window) (\<lambda>deadline.
       let j = \<lparr>job_locator = locator, job_owner = sub_owner s, job_binding = sub_binding s,
                job_status = Job_queued, job_revision = 0, job_created = now, job_updated = now,
                job_start_before = deadline, job_started = None, job_cancel_at = None,
                job_finished = None, job_purge_after = None, job_result = None, job_failure = None\<rparr>
       in bind (validate_job j) (\<lambda>_. Inr j))"

text \<open>\<open>_updated_job\<close>: the caller's changes, the next revision, the whole contract checked again.\<close>

definition updated_job :: "(job \<Rightarrow> job) \<Rightarrow> job \<Rightarrow> job result" where
  "updated_job updates j =
     (let j' = (updates j)\<lparr>job_revision := job_revision j + 1\<rparr>
      in bind (validate_job j') (\<lambda>_. Inr j'))"

definition finished_with ::
  "job_status \<Rightarrow> time \<Rightarrow> time \<Rightarrow> string option \<Rightarrow> job_failure option \<Rightarrow> time option \<Rightarrow> job \<Rightarrow> job" where
  "finished_with status now purge result failure cancel_at j =
     j\<lparr>job_status := status, job_updated := now, job_cancel_at := cancel_at,
       job_finished := Some now, job_purge_after := Some purge, job_result := result,
       job_failure := failure\<rparr>"

definition terminal_job ::
  "job \<Rightarrow> job_status \<Rightarrow> time \<Rightarrow> string option \<Rightarrow> job_failure option \<Rightarrow> time option \<Rightarrow> job result" where
  "terminal_job j status now result failure cancel_at =
     bind (time_add now job_retention) (\<lambda>purge.
       updated_job (finished_with status now purge result failure cancel_at) j)"

definition running_from :: "time \<Rightarrow> job \<Rightarrow> job" where
  "running_from now j = j\<lparr>job_status := Job_running, job_updated := now, job_started := Some now\<rparr>"

definition cancel_requested_from :: "time \<Rightarrow> job \<Rightarrow> job" where
  "cancel_requested_from now j =
     j\<lparr>job_status := Job_cancel_requested, job_updated := now, job_cancel_at := Some now\<rparr>"

section \<open>Stored rows\<close>

text \<open>\<open>model_dump(mode="json")\<close> and the digest over its canonical text.\<close>

definition job_json :: "(time \<Rightarrow> string) \<Rightarrow> job \<Rightarrow> json" where
  "job_json D j = JObj
     [(''schema_version'', JStr ''1.0''),
      (''locator'', JStr (job_locator j)),
      (''owner_id'', JStr (job_owner j)),
      (''binding_sha256'', JStr (job_binding j)),
      (''status'', JStr (status_name (job_status j))),
      (''revision'', JInt (job_revision j)),
      (''created_at'', JStr (D (job_created j))),
      (''updated_at'', JStr (D (job_updated j))),
      (''start_before'', JStr (D (job_start_before j))),
      (''started_at'', json_opt (JStr \<circ> D) (job_started j)),
      (''cancel_requested_at'', json_opt (JStr \<circ> D) (job_cancel_at j)),
      (''finished_at'', json_opt (JStr \<circ> D) (job_finished j)),
      (''purge_after'', json_opt (JStr \<circ> D) (job_purge_after j)),
      (''result_locator'', json_opt JStr (job_result j)),
      (''failure_code'', json_opt (JStr \<circ> failure_name) (job_failure j))]"

definition job_record_text :: "(time \<Rightarrow> string) \<Rightarrow> job \<Rightarrow> string" where
  "job_record_text D j = ''amazon-explorer-local-search-job-v1'' @ CHR 0x00 # dumps (job_json D j)"

definition record_sha256 :: "(string \<Rightarrow> string) \<Rightarrow> (time \<Rightarrow> string) \<Rightarrow> job \<Rightarrow> string" where
  "record_sha256 H D j = H (job_record_text D j)"

record job_row =
  row_id :: string
  row_locator :: string
  row_owner :: string
  row_binding :: string
  row_status :: string
  row_revision :: int
  row_created :: string
  row_updated :: string
  row_start_before :: string
  row_started :: "string option"
  row_cancel_at :: "string option"
  row_finished :: "string option"
  row_purge_after :: "string option"
  row_result :: "string option"
  row_failure :: "string option"
  row_sha256 :: string

type_synonym job_table = "job_row list"

definition parse_time :: "string \<Rightarrow> time result" where
  "parse_time s = (case read_time s of None \<Rightarrow> Inl SearchJobStorageError | Some t \<Rightarrow> Inr t)"

definition parse_opt_time :: "string option \<Rightarrow> time option result" where
  "parse_opt_time v =
     (case v of None \<Rightarrow> Inr None | Some s \<Rightarrow> bind (parse_time s) (\<lambda>t. Inr (Some t)))"

definition parse_status :: "string \<Rightarrow> job_status result" where
  "parse_status n =
     (case find (\<lambda>s. status_name s = n) all_statuses of
        None \<Rightarrow> Inl (ValidationError ''search job field'') | Some s \<Rightarrow> Inr s)"

definition parse_failure :: "string option \<Rightarrow> job_failure option result" where
  "parse_failure v =
     (case v of None \<Rightarrow> Inr None
      | Some n \<Rightarrow> (case find (\<lambda>s. failure_name s = n) all_failures of
          None \<Rightarrow> Inl (ValidationError ''search job field'') | Some s \<Rightarrow> Inr (Some s)))"

text \<open>The repository's \<open>except\<close> clauses: storage and validation errors get one fixed message.\<close>

definition storage_errors :: "'a result \<Rightarrow> 'a result" where
  "storage_errors r =
     rewrap (\<lambda>e. is_TypeError e \<or> is_ValueError e \<or> e = IntegrityError) SearchJobStorageError r"

definition snapshot_from_row ::
  "(string \<Rightarrow> string) \<Rightarrow> (time \<Rightarrow> string) \<Rightarrow> job_row \<Rightarrow> job result" where
  "snapshot_from_row H D r =
     storage_errors (
     bind (parse_time (row_created r)) (\<lambda>created.
     bind (parse_time (row_updated r)) (\<lambda>updated.
     bind (parse_time (row_start_before r)) (\<lambda>deadline.
     bind (parse_opt_time (row_started r)) (\<lambda>started.
     bind (parse_opt_time (row_cancel_at r)) (\<lambda>cancel_at.
     bind (parse_opt_time (row_finished r)) (\<lambda>finished.
     bind (parse_opt_time (row_purge_after r)) (\<lambda>purge.
     bind (parse_status (row_status r)) (\<lambda>status.
     bind (parse_failure (row_failure r)) (\<lambda>failure.
       let j = \<lparr>job_locator = row_locator r, job_owner = row_owner r,
                job_binding = row_binding r, job_status = status, job_revision = row_revision r,
                job_created = created, job_updated = updated, job_start_before = deadline,
                job_started = started, job_cancel_at = cancel_at, job_finished = finished,
                job_purge_after = purge, job_result = row_result r, job_failure = failure\<rparr>
       in bind (validate_job j) (\<lambda>_.
            if record_sha256 H D j = row_sha256 r then Inr j
            else Inl SearchJobStorageError)))))))))))"

text \<open>The columns a snapshot is stored as; an \<open>UPDATE\<close> writes all but the first five.\<close>

definition row_of_job :: "(string \<Rightarrow> string) \<Rightarrow> (time \<Rightarrow> string) \<Rightarrow> string \<Rightarrow> job \<Rightarrow> job_row" where
  "row_of_job H D i j =
     \<lparr>row_id = i, row_locator = job_locator j, row_owner = job_owner j,
      row_binding = job_binding j, row_status = status_name (job_status j),
      row_revision = job_revision j, row_created = time_text (job_created j),
      row_updated = time_text (job_updated j), row_start_before = time_text (job_start_before j),
      row_started = map_option time_text (job_started j),
      row_cancel_at = map_option time_text (job_cancel_at j),
      row_finished = map_option time_text (job_finished j),
      row_purge_after = map_option time_text (job_purge_after j),
      row_result = job_result j, row_failure = map_option failure_name (job_failure j),
      row_sha256 = record_sha256 H D j\<rparr>"

definition updated_row ::
  "(string \<Rightarrow> string) \<Rightarrow> (time \<Rightarrow> string) \<Rightarrow> job \<Rightarrow> job_row \<Rightarrow> job_row" where
  "updated_row H D j r =
     r\<lparr>row_status := status_name (job_status j), row_revision := job_revision j,
       row_updated := time_text (job_updated j),
       row_started := map_option time_text (job_started j),
       row_cancel_at := map_option time_text (job_cancel_at j),
       row_finished := map_option time_text (job_finished j),
       row_purge_after := map_option time_text (job_purge_after j),
       row_result := job_result j, row_failure := map_option failure_name (job_failure j),
       row_sha256 := record_sha256 H D j\<rparr>"

text \<open>The \<open>CHECK\<close> constraints of the table.\<close>

definition row_checks :: "job_row \<Rightarrow> bool" where
  "row_checks r \<longleftrightarrow>
     length (row_id r) = 64 \<and> 43 \<le> length (row_locator r) \<and> length (row_locator r) \<le> 128 \<and>
     1 \<le> length (row_owner r) \<and> length (row_owner r) \<le> 128 \<and> length (row_binding r) = 64 \<and>
     row_status r \<in> set (map status_name all_statuses) \<and> 0 \<le> row_revision r \<and>
     opt_all (\<lambda>l. 43 \<le> length l \<and> length l \<le> 128) (row_result r) \<and>
     opt_all (\<lambda>f. f \<in> set (map failure_name all_failures)) (row_failure r) \<and>
     length (row_sha256 r) = 64"

text \<open>The unique keys: job id, locator, and owner with binding.\<close>

definition row_conflicts :: "job_row \<Rightarrow> job_row \<Rightarrow> bool" where
  "row_conflicts a b \<longleftrightarrow> row_id a = row_id b \<or> row_locator a = row_locator b \<or>
     row_owner a = row_owner b \<and> row_binding a = row_binding b"

definition insert_row :: "job_row \<Rightarrow> job_table \<Rightarrow> job_table result" where
  "insert_row r rows =
     (if row_checks r \<and> \<not> list_ex (row_conflicts r) rows then Inr (rows @ [r]) else Inl IntegrityError)"

definition write_snapshot ::
  "(string \<Rightarrow> string) \<Rightarrow> (time \<Rightarrow> string) \<Rightarrow> string \<Rightarrow> int \<Rightarrow> job \<Rightarrow> job_table \<Rightarrow> job_table result" where
  "write_snapshot H D i previous_revision j rows =
     (let hit = (\<lambda>r. row_id r = i \<and> row_revision r = previous_revision) in
        if \<not> list_all (\<lambda>r. hit r \<longrightarrow> row_checks (updated_row H D j r)) rows then Inl IntegrityError
        else if length (filter hit rows) \<noteq> 1 then Inl job_state_error
        else Inr (map (\<lambda>r. if hit r then updated_row H D j r else r) rows))"

definition owned_row ::
  "(string \<Rightarrow> string) \<Rightarrow> (time \<Rightarrow> string) \<Rightarrow> string \<Rightarrow> string \<Rightarrow> job_table \<Rightarrow> (string \<times> job) result" where
  "owned_row H D owner_id locator rows =
     (case find (\<lambda>r. row_owner r = owner_id \<and> row_locator r = locator) rows of
        None \<Rightarrow> Inl SearchJobNotFoundError
      | Some r \<Rightarrow> bind (snapshot_from_row H D r) (\<lambda>j. Inr (row_id r, j)))"

definition ensure_time_order :: "job \<Rightarrow> time \<Rightarrow> unit result" where
  "ensure_time_order j now = require (job_updated j \<le> now) job_state_error"

section \<open>The repository\<close>

definition enqueue ::
  "(string \<Rightarrow> string) \<Rightarrow> (time \<Rightarrow> string) \<Rightarrow> submission py_arg \<Rightarrow> time_arg \<Rightarrow> string \<Rightarrow> string
     \<Rightarrow> job_table \<Rightarrow> ((job \<times> bool) \<times> job_table) result" where
  "enqueue H D pending now new_id new_locator rows =
     bind (validated_submission pending) (\<lambda>s.
     bind (validated_now now) (\<lambda>t.
     storage_errors (
       case find (\<lambda>r. row_owner r = sub_owner s \<and> row_binding r = sub_binding s) rows of
         Some r \<Rightarrow> bind (snapshot_from_row H D r) (\<lambda>j. Inr ((j, False), rows))
       | None \<Rightarrow>
           bind (new_queued_job s new_locator t) (\<lambda>j.
           bind (insert_row (row_of_job H D new_id j) rows) (\<lambda>rows'.
             Inr ((j, True), rows'))))))"

definition count_jobs :: "string \<Rightarrow> job_table \<Rightarrow> nat result" where
  "count_jobs owner_id rows =
     bind (validated_owner owner_id) (\<lambda>o'. Inr (length (filter (\<lambda>r. row_owner r = o') rows)))"

text \<open>
  The shape \<open>get\<close>, \<open>claim_for_execution\<close>, \<open>request_cancel\<close> and \<open>_finish\<close> share: check the
  inputs, read the owner's row, refuse a time before the last update, then either return the
  job as it is (\<open>None\<close>) or write the decided next snapshot and return that.
\<close>

definition job_transaction ::
  "(string \<Rightarrow> string) \<Rightarrow> (time \<Rightarrow> string) \<Rightarrow> (time \<Rightarrow> job \<Rightarrow> job option result)
     \<Rightarrow> string \<Rightarrow> string \<Rightarrow> time_arg \<Rightarrow> job_table \<Rightarrow> (job \<times> job_table) result" where
  "job_transaction H D decide owner_id locator now rows =
     bind (validated_owner owner_id) (\<lambda>o'.
     bind (validated_locator locator) (\<lambda>l.
     bind (validated_now now) (\<lambda>t.
     storage_errors (
     bind (owned_row H D o' l rows) (\<lambda>(i, j).
     bind (ensure_time_order j t) (\<lambda>_.
     bind (decide t j) (\<lambda>d.
       case d of
         None \<Rightarrow> Inr (j, rows)
       | Some j' \<Rightarrow>
           bind (write_snapshot H D i (job_revision j) j' rows) (\<lambda>rows'. Inr (j', rows')))))))))"

definition changed :: "job result \<Rightarrow> job option result" where
  "changed r = bind r (\<lambda>j. Inr (Some j))"

definition get_decision :: "time \<Rightarrow> job \<Rightarrow> job option result" where
  "get_decision now j =
     (if (case job_purge_after j of None \<Rightarrow> False | Some p \<Rightarrow> p \<le> now) then Inl SearchJobNotFoundError
      else if job_status j = Job_queued \<and> job_start_before j \<le> now
      then changed (terminal_job j Job_timed_out now None (Some Queue_start_expired) None)
      else Inr None)"

definition claim_decision :: "time \<Rightarrow> job \<Rightarrow> job option result" where
  "claim_decision now j =
     (if job_status j \<noteq> Job_queued then Inr None
      else if job_start_before j \<le> now
      then changed (terminal_job j Job_timed_out now None (Some Queue_start_expired) None)
      else changed (updated_job (running_from now) j))"

definition cancel_decision :: "time \<Rightarrow> job \<Rightarrow> job option result" where
  "cancel_decision now j =
     (if job_status j = Job_queued
      then changed (terminal_job j Job_cancelled now None None (Some now))
      else if job_status j = Job_running
      then changed (updated_job (cancel_requested_from now) j)
      else Inr None)"

definition finish_decision ::
  "string option \<Rightarrow> job_failure option \<Rightarrow> bool \<Rightarrow> time \<Rightarrow> job \<Rightarrow> job option result" where
  "finish_decision result failure cancelled now j =
     (if job_status j \<notin> {Job_running, Job_cancel_requested} then Inl job_state_error
      else if cancelled \<or> job_status j = Job_cancel_requested
      then changed (terminal_job j Job_cancelled now None None (Some (first_time (job_cancel_at j) now)))
      else case result of
        Some l \<Rightarrow> changed (terminal_job j Job_succeeded now (Some l) None None)
      | None \<Rightarrow> (case failure of
          Some f \<Rightarrow> changed (terminal_job j Job_failed now None (Some f) None)
        | None \<Rightarrow> Inl job_state_error))"

definition get_job ::
  "(string \<Rightarrow> string) \<Rightarrow> (time \<Rightarrow> string) \<Rightarrow> string \<Rightarrow> string \<Rightarrow> time_arg \<Rightarrow> job_table \<Rightarrow> (job \<times> job_table) result" where
  "get_job H D = job_transaction H D get_decision"

definition claim_for_execution ::
  "(string \<Rightarrow> string) \<Rightarrow> (time \<Rightarrow> string) \<Rightarrow> string \<Rightarrow> string \<Rightarrow> time_arg \<Rightarrow> job_table \<Rightarrow> (job \<times> job_table) result" where
  "claim_for_execution H D = job_transaction H D claim_decision"

definition request_cancel ::
  "(string \<Rightarrow> string) \<Rightarrow> (time \<Rightarrow> string) \<Rightarrow> string \<Rightarrow> string \<Rightarrow> time_arg \<Rightarrow> job_table \<Rightarrow> (job \<times> job_table) result" where
  "request_cancel H D = job_transaction H D cancel_decision"

definition finish_success ::
  "(string \<Rightarrow> string) \<Rightarrow> (time \<Rightarrow> string) \<Rightarrow> string \<Rightarrow> string \<Rightarrow> string py_arg \<Rightarrow> time_arg \<Rightarrow> job_table
     \<Rightarrow> (job \<times> job_table) result" where
  "finish_success H D owner_id locator result now rows =
     bind (validated_result result) (\<lambda>l.
       job_transaction H D (finish_decision (Some l) None False) owner_id locator now rows)"

definition finish_failure ::
  "(string \<Rightarrow> string) \<Rightarrow> (time \<Rightarrow> string) \<Rightarrow> string \<Rightarrow> string \<Rightarrow> time_arg \<Rightarrow> job_table \<Rightarrow> (job \<times> job_table) result" where
  "finish_failure H D = job_transaction H D (finish_decision None (Some Execution_failed) False)"

definition finish_cancelled ::
  "(string \<Rightarrow> string) \<Rightarrow> (time \<Rightarrow> string) \<Rightarrow> string \<Rightarrow> string \<Rightarrow> time_arg \<Rightarrow> job_table \<Rightarrow> (job \<times> job_table) result" where
  "finish_cancelled H D = job_transaction H D (finish_decision None None True)"

definition active_statuses :: "job_status list" where
  "active_statuses = [Job_queued, Job_running, Job_cancel_requested]"

definition recovered_job :: "time \<Rightarrow> job \<Rightarrow> job result" where
  "recovered_job now j =
     (if job_status j = Job_cancel_requested
      then terminal_job j Job_cancelled now None None (job_cancel_at j)
      else terminal_job j Job_failed now None (Some Worker_restarted) None)"

fun recover_rows ::
  "(string \<Rightarrow> string) \<Rightarrow> (time \<Rightarrow> string) \<Rightarrow> time \<Rightarrow> job_row list \<Rightarrow> job_table \<Rightarrow> job_table result" where
  "recover_rows H D now [] rows = Inr rows"
| "recover_rows H D now (r # rs) rows =
     bind (snapshot_from_row H D r) (\<lambda>j.
     bind (ensure_time_order j now) (\<lambda>_.
     bind (recovered_job now j) (\<lambda>j'.
     bind (write_snapshot H D (row_id r) (job_revision j) j' rows) (\<lambda>rows'.
       recover_rows H D now rs rows'))))"

definition recover_interrupted ::
  "(string \<Rightarrow> string) \<Rightarrow> (time \<Rightarrow> string) \<Rightarrow> time_arg \<Rightarrow> job_table \<Rightarrow> (nat \<times> job_table) result" where
  "recover_interrupted H D now rows =
     bind (validated_now now) (\<lambda>t.
     storage_errors (
       let active = sort_key (\<lambda>r. (row_created r, row_id r))
                      (filter (\<lambda>r. row_status r \<in> set (map status_name active_statuses)) rows)
       in bind (recover_rows H D t active rows) (\<lambda>rows'. Inr (length active, rows'))))"

text \<open>The purge compares the stored text of a time with the text of the current time.\<close>

definition purge_due :: "time \<Rightarrow> job_row \<Rightarrow> bool" where
  "purge_due now r = (case row_purge_after r of None \<Rightarrow> False | Some p \<Rightarrow> p \<le> time_text now)"

definition purge_check ::
  "(string \<Rightarrow> string) \<Rightarrow> (time \<Rightarrow> string) \<Rightarrow> job_row \<Rightarrow> unit result" where
  "purge_check H D r =
     bind (snapshot_from_row H D r) (\<lambda>j.
       require (job_status j \<in> set terminal_statuses) SearchJobStorageError)"

definition purge_expired ::
  "(string \<Rightarrow> string) \<Rightarrow> (time \<Rightarrow> string) \<Rightarrow> time_arg \<Rightarrow> job_table \<Rightarrow> (nat \<times> job_table) result" where
  "purge_expired H D now rows =
     bind (validated_now now) (\<lambda>t.
     storage_errors (
       let due = sort_key (\<lambda>r. (row_purge_after r, row_id r)) (filter (purge_due t) rows)
       in bind (check_all (purge_check H D) due) (\<lambda>_.
            Inr (length due, filter (\<lambda>r. row_id r \<notin> set (map row_id due)) rows))))"

end
