(* ===== verification/Search_Job_Props.thy ===== *)
theory Search_Job_Props
  imports Search_Job
begin

text \<open>
  Lemmas on the job repository: the state contract solved per status, the outcome of every
  transition on a job that satisfies it, reading back a stored row, the table invariant, and the
  refinement of an owner-scoped map of jobs.
\<close>

section \<open>The contract, solved\<close>

lemma storage_errors_eq_Inr [simp]: "storage_errors r = Inr x \<longleftrightarrow> r = Inr x"
  by (simp add: storage_errors_def)

lemma storage_errors_Inr [simp]: "storage_errors (Inr x) = Inr x"
  by (simp add: storage_errors_def)

lemma changed_eq_Inr [simp]: "changed r = Inr d \<longleftrightarrow> (\<exists>j. r = Inr j \<and> d = Some j)"
  by (auto simp: changed_def)

lemma changed_Inr [simp]: "changed (Inr j) = Inr (Some j)"
  by (simp add: changed_def)

lemma validate_job_iff:
  "validate_job j = Inr u \<longleftrightarrow> job_fields_ok j \<and>
     job_start_before j = job_created j + job_queue_start_window \<and>
     job_created j \<le> job_updated j \<and>
     opt_all (\<lambda>s. job_created j \<le> s \<and> s < job_start_before j) (job_started j) \<and>
     opt_all (\<lambda>c. first_time (job_started j) (job_created j) \<le> c) (job_cancel_at j) \<and>
     opt_all (\<lambda>f. first_time (job_cancel_at j) (first_time (job_started j) (job_created j)) \<le> f)
       (job_finished j) \<and>
     validate_status_contract j = Inr u"
proof -
  have "job_fields_ok j \<Longrightarrow> job_start_before j = job_created j + job_queue_start_window \<Longrightarrow>
      time_add (job_created j) job_queue_start_window = Inr (job_start_before j)"
    by (simp add: time_add_eq_Inr job_fields_ok_def is_time_def)
  then show ?thesis
    unfolding validate_job_def by (auto simp: if_Inl_eq_Inr time_add_eq_Inr)
qed

definition ended :: "job \<Rightarrow> bool" where
  "ended j \<longleftrightarrow> job_finished j = Some (job_updated j) \<and>
     job_purge_after j = Some (job_updated j + job_retention) \<and>
     job_updated j + job_retention \<le> time_max \<and> time_min \<le> job_updated j + job_retention"

lemma validate_terminal_iff:
  "validate_terminal j = Inr u \<longleftrightarrow> ended j \<and>
     (case job_status j of
        Job_succeeded \<Rightarrow> job_started j \<noteq> None \<and> job_cancel_at j = None \<and> job_result j \<noteq> None \<and>
          job_failure j = None
      | Job_failed \<Rightarrow> job_cancel_at j = None \<and> job_result j = None \<and>
          (job_failure j = Some Worker_restarted \<or>
           job_failure j = Some Execution_failed \<and> job_started j \<noteq> None)
      | Job_cancelled \<Rightarrow> job_cancel_at j \<noteq> None \<and> job_result j = None \<and> job_failure j = None
      | Job_timed_out \<Rightarrow> job_started j = None \<and> job_cancel_at j = None \<and> job_result j = None \<and>
          job_failure j = Some Queue_start_expired
      | _ \<Rightarrow> False)"
proof -
  have "(case job_finished j of
             None \<Rightarrow> Inl terminal_error
           | Some f \<Rightarrow>
               if job_updated j \<noteq> f then Inl terminal_error
               else bind (time_add f job_retention) (\<lambda>p.
                 require (job_purge_after j = Some p) terminal_error)) = Inr v \<longleftrightarrow> ended j" for v
    by (cases "job_finished j") (auto simp: ended_def time_add_eq_Inr)
  then show ?thesis
    unfolding validate_terminal_def by (cases "job_status j") auto
qed

lemma validate_status_contract_iff:
  "validate_status_contract j = Inr u \<longleftrightarrow>
     (case job_status j of
        Job_queued \<Rightarrow> job_updated j = job_created j \<and> job_started j = None \<and>
          job_cancel_at j = None \<and> later_state_empty j
      | Job_running \<Rightarrow> job_started j = Some (job_updated j) \<and> job_cancel_at j = None \<and> later_state_empty j
      | Job_cancel_requested \<Rightarrow> job_started j \<noteq> None \<and> job_cancel_at j = Some (job_updated j) \<and>
          later_state_empty j
      | _ \<Rightarrow> validate_terminal j = Inr u)"
  by (cases "job_status j")
    (auto simp: validate_status_contract_def validate_queued_def validate_running_def
      validate_cancel_requested_def later_state_empty_def)

lemma contract_queued:
  "validate_job j = Inr () \<Longrightarrow> job_status j = Job_queued \<Longrightarrow>
     job_updated j = job_created j \<and> job_started j = None \<and> job_cancel_at j = None \<and> later_state_empty j"
  by (simp add: validate_job_iff validate_status_contract_iff)

lemma contract_running:
  "validate_job j = Inr () \<Longrightarrow> job_status j = Job_running \<Longrightarrow>
     job_started j = Some (job_updated j) \<and> job_cancel_at j = None \<and> later_state_empty j"
  by (simp add: validate_job_iff validate_status_contract_iff)

lemma contract_cancel_requested:
  "validate_job j = Inr () \<Longrightarrow> job_status j = Job_cancel_requested \<Longrightarrow>
     job_started j \<noteq> None \<and> job_cancel_at j = Some (job_updated j) \<and> later_state_empty j"
  by (simp add: validate_job_iff validate_status_contract_iff)

lemma contract_terminal:
  "validate_job j = Inr () \<Longrightarrow> job_status j \<in> set terminal_statuses \<Longrightarrow> ended j"
  by (cases "job_status j")
    (auto simp: validate_job_iff validate_status_contract_iff validate_terminal_iff terminal_statuses_def)

section \<open>Transitions of valid jobs\<close>

lemma is_time_later: "is_time s \<Longrightarrow> s \<le> t \<Longrightarrow> t \<le> time_max \<Longrightarrow> is_time t"
  by (simp add: is_time_def)

lemma is_time_retained:
  "is_time s \<Longrightarrow> s \<le> t \<Longrightarrow> t + job_retention \<le> time_max \<Longrightarrow> is_time t \<and> is_time (t + job_retention)"
  by (auto simp: is_time_def window_defs)

lemma updated_job_eq_Inr:
  "updated_job f j = Inr j' \<longleftrightarrow>
     j' = (f j)\<lparr>job_revision := job_revision j + 1\<rparr> \<and> validate_job j' = Inr ()"
  by (auto simp: updated_job_def Let_def)

lemma terminal_job_eq_Inr:
  "terminal_job j status now result failure cancel_at = Inr j' \<longleftrightarrow>
     now + job_retention \<le> time_max \<and> time_min \<le> now + job_retention \<and>
     j' = (finished_with status now (now + job_retention) result failure cancel_at j)
            \<lparr>job_revision := job_revision j + 1\<rparr> \<and>
     validate_job j' = Inr ()"
  by (auto simp: terminal_job_def time_add_eq_Inr updated_job_eq_Inr)

text \<open>Valid transitions succeed: these rules leave only the times and the source state to check.\<close>

lemma time_out_ok:
  assumes "validate_job j = Inr ()" "job_status j = Job_queued" "job_start_before j \<le> t"
    "t + job_retention \<le> time_max"
  shows "is_ok (terminal_job j Job_timed_out t None (Some Queue_start_expired) None)"
  using assms contract_queued [OF assms(1,2)] is_time_retained [of "job_start_before j" t]
  by (auto simp: is_ok_iff terminal_job_eq_Inr validate_job_iff validate_status_contract_iff
      validate_terminal_iff finished_with_def job_fields_ok_def ended_def first_time_def is_time_def
      window_defs)

lemma run_ok:
  assumes "validate_job j = Inr ()" "job_status j = Job_queued" "job_updated j \<le> t"
    "t < job_start_before j"
  shows "is_ok (updated_job (running_from t) j)"
  using assms contract_queued [OF assms(1,2)]
  by (auto simp: is_ok_iff updated_job_eq_Inr validate_job_iff validate_status_contract_iff
      running_from_def job_fields_ok_def later_state_empty_def is_time_def)

lemma cancel_queued_ok:
  assumes "validate_job j = Inr ()" "job_status j = Job_queued" "job_updated j \<le> t"
    "t + job_retention \<le> time_max"
  shows "is_ok (terminal_job j Job_cancelled t None None (Some t))"
  using assms contract_queued [OF assms(1,2)] is_time_retained [of "job_created j" t]
  by (auto simp: is_ok_iff terminal_job_eq_Inr validate_job_iff validate_status_contract_iff
      validate_terminal_iff finished_with_def job_fields_ok_def ended_def first_time_def is_time_def)

lemma request_cancel_running_ok:
  assumes "validate_job j = Inr ()" "job_status j = Job_running" "job_updated j \<le> t" "is_time t"
  shows "is_ok (updated_job (cancel_requested_from t) j)"
  using assms contract_running [OF assms(1,2)]
  by (auto simp: is_ok_iff updated_job_eq_Inr validate_job_iff validate_status_contract_iff
      cancel_requested_from_def job_fields_ok_def later_state_empty_def first_time_def)

lemma finish_running_ok:
  assumes "validate_job j = Inr ()" "job_status j = Job_running" "job_updated j \<le> t"
    "t + job_retention \<le> time_max"
  shows "is_token l \<Longrightarrow> is_ok (terminal_job j Job_succeeded t (Some l) None None)"
    and "is_ok (terminal_job j Job_failed t None (Some Execution_failed) None)"
    and "is_ok (terminal_job j Job_cancelled t None None (Some t))"
  using assms contract_running [OF assms(1,2)] is_time_retained [of "job_updated j" t]
  by (auto simp: is_ok_iff terminal_job_eq_Inr validate_job_iff validate_status_contract_iff
      validate_terminal_iff finished_with_def job_fields_ok_def ended_def first_time_def is_time_def)

lemma finish_cancel_requested_ok:
  assumes "validate_job j = Inr ()" "job_status j = Job_cancel_requested" "job_updated j \<le> t"
    "t + job_retention \<le> time_max"
  shows "is_ok (terminal_job j Job_cancelled t None None (job_cancel_at j))"
  using assms contract_cancel_requested [OF assms(1,2)] is_time_retained [of "job_updated j" t]
  by (auto simp: is_ok_iff terminal_job_eq_Inr validate_job_iff validate_status_contract_iff
      validate_terminal_iff finished_with_def job_fields_ok_def ended_def first_time_def is_time_def)

lemma recover_ok:
  assumes "validate_job j = Inr ()" "job_status j \<in> set active_statuses" "job_updated j \<le> t"
    "t + job_retention \<le> time_max"
  shows "is_ok (recovered_job t j)"
proof (cases "job_status j = Job_cancel_requested")
  case True
  with finish_cancel_requested_ok [OF assms(1) _ assms(3,4)] show ?thesis
    by (simp add: recovered_job_def)
next
  case False
  have c: "job_cancel_at j = None" "job_started j = None \<or> job_started j = Some (job_updated j)"
    using assms(1,2) False contract_queued [OF assms(1)] contract_running [OF assms(1)]
    by (auto simp: active_statuses_def)
  have "is_ok (terminal_job j Job_failed t None (Some Worker_restarted) None)"
    using assms c is_time_retained [of "job_updated j" t]
    by (auto simp: is_ok_iff terminal_job_eq_Inr validate_job_iff validate_status_contract_iff
        validate_terminal_iff finished_with_def job_fields_ok_def ended_def first_time_def is_time_def)
  with False show ?thesis by (simp add: recovered_job_def)
qed

section \<open>Rows and tables\<close>

lemma parse_time_text [simp]: "is_time t \<Longrightarrow> parse_time (time_text t) = Inr t"
  by (simp add: parse_time_def read_time_text is_time_def)

lemma parse_opt_time_text [simp]:
  "opt_all is_time v \<Longrightarrow> parse_opt_time (map_option time_text v) = Inr v"
  by (cases v) (simp_all add: parse_opt_time_def)

lemma parse_status_name [simp]: "parse_status (status_name s) = Inr s"
  by (cases s) (simp_all add: parse_status_def all_statuses_def)

lemma parse_failure_name [simp]: "parse_failure (map_option failure_name f) = Inr f"
  by (cases f; cases "the f") (simp_all add: parse_failure_def all_failures_def)

lemma job_collapse:
  "\<lparr>job_locator = job_locator j, job_owner = job_owner j, job_binding = job_binding j,
    job_status = job_status j, job_revision = job_revision j, job_created = job_created j,
    job_updated = job_updated j, job_start_before = job_start_before j, job_started = job_started j,
    job_cancel_at = job_cancel_at j, job_finished = job_finished j,
    job_purge_after = job_purge_after j, job_result = job_result j, job_failure = job_failure j\<rparr> = j"
  by (cases j) simp

lemma snapshot_of_row [simp]:
  assumes "validate_job j = Inr ()"
  shows "snapshot_from_row H D (row_of_job H D i j) = Inr j"
proof -
  have "job_fields_ok j" using assms by (simp add: validate_job_iff)
  then show ?thesis
    using assms by (simp add: snapshot_from_row_def row_of_job_def job_fields_ok_def Let_def job_collapse)
qed

text \<open>A row that is read back is the stored form of what was read.\<close>

lemma parse_time_eq_Inr: "parse_time s = Inr t \<longleftrightarrow> is_time t \<and> s = time_text t"
proof -
  have "parse_time s = Inr t \<longleftrightarrow> read_time s = Some t" by (cases "read_time s") (simp_all add: parse_time_def)
  then show ?thesis by (simp add: read_time_eq_Some is_time_def)
qed

lemma parse_opt_time_eq_Inr:
  "parse_opt_time v = Inr w \<longleftrightarrow> opt_all is_time w \<and> v = map_option time_text w"
  by (cases v; cases w) (auto simp: parse_opt_time_def parse_time_eq_Inr)

lemma parse_status_eq_Inr: "parse_status n = Inr s \<longleftrightarrow> n = status_name s"
proof
  assume "parse_status n = Inr s"
  then show "n = status_name s"
    by (auto simp: parse_status_def split: option.splits simp: find_Some_iff)
qed simp

lemma parse_failure_eq_Inr: "parse_failure v = Inr f \<longleftrightarrow> v = map_option failure_name f"
proof
  assume "parse_failure v = Inr f"
  then show "v = map_option failure_name f"
    by (auto simp: parse_failure_def split: option.splits simp: find_Some_iff)
qed simp

lemma snapshot_from_row_eq_Inr:
  "snapshot_from_row H D r = Inr j \<longleftrightarrow> validate_job j = Inr () \<and> r = row_of_job H D (row_id r) j"
proof
  assume "snapshot_from_row H D r = Inr j"
  then show "validate_job j = Inr () \<and> r = row_of_job H D (row_id r) j"
    by (auto simp: snapshot_from_row_def Let_def parse_time_eq_Inr parse_opt_time_eq_Inr
        parse_status_eq_Inr parse_failure_eq_Inr row_of_job_def split: if_splits)
next
  assume "validate_job j = Inr () \<and> r = row_of_job H D (row_id r) j"
  then show "snapshot_from_row H D r = Inr j" using snapshot_of_row [of j H D "row_id r"] by metis
qed

text \<open>The type invariant of the table.\<close>

definition stored_job :: "(string \<Rightarrow> string) \<Rightarrow> (time \<Rightarrow> string) \<Rightarrow> job_row \<Rightarrow> bool" where
  "stored_job H D r \<longleftrightarrow> length (row_id r) = 64 \<and> is_ok (snapshot_from_row H D r)"

definition job_table_ok :: "(string \<Rightarrow> string) \<Rightarrow> (time \<Rightarrow> string) \<Rightarrow> job_table \<Rightarrow> bool" where
  "job_table_ok H D rows \<longleftrightarrow> list_all (stored_job H D) rows \<and> distinct (map row_id rows) \<and>
     distinct (map row_locator rows) \<and> distinct (map (\<lambda>r. (row_owner r, row_binding r)) rows)"

definition hex_digests :: "(string \<Rightarrow> string) \<Rightarrow> bool" where
  "hex_digests H \<longleftrightarrow> (\<forall>s. length (H s) = 64)"

text \<open>The job a table holds for an owner and a locator.\<close>

type_synonym job_store = "string \<times> string \<Rightarrow> job option"

definition job_view :: "(string \<Rightarrow> string) \<Rightarrow> (time \<Rightarrow> string) \<Rightarrow> job_table \<Rightarrow> job_store" where
  "job_view H D rows = (\<lambda>(owner_id, locator).
     case find (\<lambda>r. row_owner r = owner_id \<and> row_locator r = locator) rows of
       None \<Rightarrow> None
     | Some r \<Rightarrow> (case snapshot_from_row H D r of Inl _ \<Rightarrow> None | Inr j \<Rightarrow> Some j))"

lemma find_unique:
  assumes "distinct (map f xs)" and "\<And>x. P x \<Longrightarrow> f x = k"
  shows "find P xs = Some x \<longleftrightarrow> x \<in> set xs \<and> P x"
  using assms(1)
proof (induction xs)
  case (Cons y xs)
  then show ?case using assms(2) by (auto simp: image_iff) 
qed simp

lemma row_columns [simp]:
  "row_id (row_of_job H D i j) = i" "row_locator (row_of_job H D i j) = job_locator j"
  "row_owner (row_of_job H D i j) = job_owner j" "row_binding (row_of_job H D i j) = job_binding j"
  "row_revision (row_of_job H D i j) = job_revision j"
  "row_status (row_of_job H D i j) = status_name (job_status j)"
  "row_purge_after (row_of_job H D i j) = map_option time_text (job_purge_after j)"
  by (simp_all add: row_of_job_def)

lemma find_owned:
  "job_table_ok H D rows \<Longrightarrow>
   find (\<lambda>r. row_owner r = o' \<and> row_locator r = l) rows = Some r \<longleftrightarrow>
     r \<in> set rows \<and> row_owner r = o' \<and> row_locator r = l"
  unfolding job_table_ok_def by (intro find_unique [where f = row_locator and k = l]) auto

lemma find_binding:
  "job_table_ok H D rows \<Longrightarrow>
   find (\<lambda>r. row_owner r = o' \<and> row_binding r = b) rows = Some r \<longleftrightarrow>
     r \<in> set rows \<and> row_owner r = o' \<and> row_binding r = b"
  unfolding job_table_ok_def
  by (intro find_unique [where f = "\<lambda>r. (row_owner r, row_binding r)" and k = "(o', b)"]) auto

lemma table_row:
  assumes "job_table_ok H D rows" and "r \<in> set rows"
  obtains j where "validate_job j = Inr ()" and "r = row_of_job H D (row_id r) j"
    and "length (row_id r) = 64"
  using assms by (fastforce simp: job_table_ok_def list_all_iff stored_job_def is_ok_iff snapshot_from_row_eq_Inr)

lemma job_view_eq_Some:
  assumes "job_table_ok H D rows"
  shows "job_view H D rows (o', l) = Some j \<longleftrightarrow>
    validate_job j = Inr () \<and> job_owner j = o' \<and> job_locator j = l \<and>
    (\<exists>i. length i = 64 \<and> row_of_job H D i j \<in> set rows)"
proof
  assume v: "job_view H D rows (o', l) = Some j"
  then obtain r where r: "find (\<lambda>r. row_owner r = o' \<and> row_locator r = l) rows = Some r"
    and s: "snapshot_from_row H D r = Inr j"
    by (auto simp: job_view_def split: option.splits sum.splits)
  from r have m: "r \<in> set rows" "row_owner r = o'" "row_locator r = l" by (auto simp: find_owned [OF assms])
  from s have j: "validate_job j = Inr ()" "r = row_of_job H D (row_id r) j"
    by (auto simp: snapshot_from_row_eq_Inr)
  from assms m(1) have len: "length (row_id r) = 64" by (auto simp: job_table_ok_def list_all_iff stored_job_def)
  from j(2) m have "job_owner j = o'" "job_locator j = l" by (metis row_columns)+
  with j m(1) len show "validate_job j = Inr () \<and> job_owner j = o' \<and> job_locator j = l \<and>
      (\<exists>i. length i = 64 \<and> row_of_job H D i j \<in> set rows)" by metis
next
  assume a: "validate_job j = Inr () \<and> job_owner j = o' \<and> job_locator j = l \<and>
    (\<exists>i. length i = 64 \<and> row_of_job H D i j \<in> set rows)"
  then obtain i where "row_of_job H D i j \<in> set rows" by blast
  with a have "find (\<lambda>r. row_owner r = o' \<and> row_locator r = l) rows = Some (row_of_job H D i j)"
    by (simp add: find_owned [OF assms])
  with a show "job_view H D rows (o', l) = Some j" by (simp add: job_view_def)
qed

lemma owned_row_view:
  assumes "job_table_ok H D rows"
  shows "owned_row H D o' l rows = (case job_view H D rows (o', l) of
      None \<Rightarrow> Inl SearchJobNotFoundError
    | Some j \<Rightarrow> Inr (row_id (the (find (\<lambda>r. row_owner r = o' \<and> row_locator r = l) rows)), j))"
proof (cases "find (\<lambda>r. row_owner r = o' \<and> row_locator r = l) rows")
  case (Some r)
  with assms have "r \<in> set rows" by (simp add: find_owned)
  from table_row [OF assms this] obtain j where "validate_job j = Inr ()" "r = row_of_job H D (row_id r) j" .
  then have "snapshot_from_row H D r = Inr j" using snapshot_of_row by metis
  with Some show ?thesis by (simp add: owned_row_def job_view_def)
qed (simp add: owned_row_def job_view_def)

section \<open>Writing a row\<close>

definition next_job :: "job \<Rightarrow> job \<Rightarrow> bool" where
  "next_job j j' \<longleftrightarrow> validate_job j' = Inr () \<and> job_revision j' = job_revision j + 1 \<and>
     job_locator j' = job_locator j \<and> job_owner j' = job_owner j \<and>
     job_binding j' = job_binding j \<and> job_created j' = job_created j \<and>
     job_start_before j' = job_start_before j"

definition put_row :: "job_row \<Rightarrow> job_table \<Rightarrow> job_table" where
  "put_row r' rows = map (\<lambda>r. if row_id r = row_id r' then r' else r) rows"

lemma row_checks_of_job:
  assumes "validate_job j = Inr ()" and "length i = 64" and "hex_digests H"
  shows "row_checks (row_of_job H D i j)"
proof -
  have "job_fields_ok j" using assms(1) by (simp add: validate_job_iff)
  moreover have "status_name (job_status j) \<in> set (map status_name all_statuses)"
    by (cases "job_status j") (simp_all add: all_statuses_def)
  moreover have "failure_name f \<in> set (map failure_name all_failures)" for f
    by (cases f) (simp_all add: all_failures_def)
  ultimately show ?thesis
    using assms(2,3) unfolding row_checks_def row_of_job_def job_fields_ok_def
    by (cases "job_result j"; cases "job_failure j")
      (simp_all add: is_token_def is_subject_id_def is_digest_def hex_digests_def record_sha256_def)
qed

lemma updated_row_of_job:
  "next_job j j' \<Longrightarrow> updated_row H D j' (row_of_job H D i j) = row_of_job H D i j'"
  by (simp add: next_job_def updated_row_def row_of_job_def)

lemma row_unique:
  "job_table_ok H D rows \<Longrightarrow> r \<in> set rows \<Longrightarrow> s \<in> set rows \<Longrightarrow> row_id r = row_id s \<Longrightarrow> r = s"
  by (auto simp: job_table_ok_def distinct_map dest: inj_onD)

lemma filter_one: "distinct (map f xs) \<Longrightarrow> x \<in> set xs \<Longrightarrow> filter (\<lambda>y. f y = f x) xs = [x]"
proof (induction xs)
  case (Cons y ys)
  show ?case
  proof (cases "x = y")
    case True
    have "f z \<noteq> f x" if "z \<in> set ys" for z using that True Cons.prems(1) by (metis distinct.simps(2) image_eqI list.set_map list.simps(9))
    then show ?thesis using True by (simp add: filter_empty_conv)
  next
    case False
    then have "x \<in> set ys" using Cons.prems by simp
    moreover have "f y \<noteq> f x" using \<open>x \<in> set ys\<close> Cons.prems(1) by (metis distinct.simps(2) image_eqI list.set_map list.simps(9))
    ultimately show ?thesis using Cons by simp
  qed
qed simp

lemma write_snapshot_ok:
  assumes t: "job_table_ok H D rows" and r: "row_of_job H D i j \<in> set rows" "length i = 64"
    and n: "next_job j j'" and H: "hex_digests H"
  shows "write_snapshot H D i (job_revision j) j' rows = Inr (put_row (row_of_job H D i j') rows)"
proof -
  have d: "distinct (map row_id rows)" using t by (simp add: job_table_ok_def)
  have own: "r = row_of_job H D i j" if "r \<in> set rows" "row_id r = i" for r
    using row_unique [OF t that(1) r(1)] that(2) by simp
  have hit: "row_id r = i \<and> row_revision r = job_revision j \<longleftrightarrow> row_id r = i" if "r \<in> set rows" for r
    using own [OF that] by (metis row_columns(5))
  have f: "filter (\<lambda>r. row_id r = i \<and> row_revision r = job_revision j) rows = [row_of_job H D i j]"
    using filter_one [OF d r(1)] hit by (simp cong: filter_cong)
  have c: "row_checks (updated_row H D j' (row_of_job H D i j))"
    using n r(2) H by (simp add: updated_row_of_job row_checks_of_job next_job_def)
  then have l: "list_all (\<lambda>r. row_id r = i \<and> row_revision r = job_revision j \<longrightarrow>
      row_checks (updated_row H D j' r)) rows"
    using own by (auto simp: list_all_iff)
  have m: "map (\<lambda>r. if row_id r = i \<and> row_revision r = job_revision j then updated_row H D j' r else r) rows
      = put_row (row_of_job H D i j') rows"
  proof -
    have "updated_row H D j' r = row_of_job H D i j'" if "r \<in> set rows" "row_id r = i" for r
      using own [OF that] updated_row_of_job [OF n] by simp
    then show ?thesis unfolding put_row_def using hit by simp
  qed
  show ?thesis
    unfolding write_snapshot_def Let_def f m using l by simp
qed

lemma put_row_columns:
  assumes "\<And>r. r \<in> set rows \<Longrightarrow> row_id r = row_id r' \<Longrightarrow> f r = f r'"
  shows "map f (put_row r' rows) = map f rows"
  using assms by (auto simp: put_row_def)

lemma put_row_inv:
  assumes t: "job_table_ok H D rows" and r: "row_of_job H D i j \<in> set rows" "length i = 64"
    and n: "next_job j j'"
  shows "job_table_ok H D (put_row (row_of_job H D i j') rows)"
proof -
  have d: "distinct (map row_id rows)" using t by (simp add: job_table_ok_def)
  have own: "s = row_of_job H D i j" if "s \<in> set rows" "row_id s = i" for s
    using row_unique [OF t that(1) r(1)] that(2) by simp
  have col: "map f (put_row (row_of_job H D i j') rows) = map f rows"
    if "f (row_of_job H D i j') = f (row_of_job H D i j)" for f :: "job_row \<Rightarrow> 'b"
    using that own by (intro put_row_columns) auto
  have cols: "map row_id (put_row (row_of_job H D i j') rows) = map row_id rows"
    "map row_locator (put_row (row_of_job H D i j') rows) = map row_locator rows"
    "map (\<lambda>r. (row_owner r, row_binding r)) (put_row (row_of_job H D i j') rows) =
      map (\<lambda>r. (row_owner r, row_binding r)) rows"
    using n by (simp_all add: col next_job_def)
  have "stored_job H D (row_of_job H D i j')"
    using n r(2) by (simp add: stored_job_def next_job_def)
  then have "list_all (stored_job H D) (put_row (row_of_job H D i j') rows)"
    using t by (auto simp: put_row_def list_all_iff job_table_ok_def)
  then show ?thesis using t unfolding job_table_ok_def cols by simp
qed

lemma put_row_set:
  assumes "s \<in> set rows" and "row_id s = row_id r'"
  shows "x \<in> set (put_row r' rows) \<longleftrightarrow> (if row_id x = row_id r' then x = r' else x \<in> set rows)"
  using assms by (auto simp: put_row_def image_iff)

lemma put_row_mem:
  assumes t: "job_table_ok H D rows" and r: "row_of_job H D i j \<in> set rows"
  shows "row_of_job H D k x \<in> set (put_row (row_of_job H D i j') rows) \<longleftrightarrow>
    (if k = i then row_of_job H D k x = row_of_job H D i j' else row_of_job H D k x \<in> set rows)"
  using put_row_set [OF r, of "row_of_job H D i j'"] by simp

lemma row_of_job_inj:
  assumes "validate_job j = Inr ()" and "validate_job k = Inr ()"
  shows "row_of_job H D i j = row_of_job H D i k \<longleftrightarrow> j = k"
  using assms snapshot_of_row [of j H D i] snapshot_of_row [of k H D i] by (metis Inr_inject)

lemma put_row_view:
  assumes t: "job_table_ok H D rows" and r: "row_of_job H D i j \<in> set rows" "length i = 64"
    and n: "next_job j j'"
  shows "job_view H D (put_row (row_of_job H D i j') rows) =
    (job_view H D rows)((job_owner j, job_locator j) \<mapsto> j')"
proof
  fix key :: "string \<times> string"
  obtain o' l where key: "key = (o', l)" by fastforce
  note inv = put_row_inv [OF t r n]
  have v: "validate_job j' = Inr ()" "job_owner j' = job_owner j" "job_locator j' = job_locator j"
    using n by (simp_all add: next_job_def)
  have own: "s = row_of_job H D i j" if "s \<in> set rows" "row_id s = i" for s
    using row_unique [OF t that(1) r(1)] that(2) by simp
  have "job_view H D (put_row (row_of_job H D i j') rows) (o', l) = Some x \<longleftrightarrow>
      ((job_view H D rows)((job_owner j, job_locator j) \<mapsto> j')) (o', l) = Some x" for x
  proof (cases "(o', l) = (job_owner j, job_locator j)")
    case True
    have "job_view H D (put_row (row_of_job H D i j') rows) (o', l) = Some j'"
      using True v r by (auto simp: job_view_eq_Some [OF inv] put_row_mem [OF t r(1)])
    with True show ?thesis by simp
  next
    case False
    have "row_of_job H D k x \<in> set (put_row (row_of_job H D i j') rows) \<longleftrightarrow> row_of_job H D k x \<in> set rows"
      if "job_owner x = o' \<and> job_locator x = l" for k
    proof (cases "k = i")
      case True
      have differs: "row_of_job H D i x \<noteq> row_of_job H D i y"
        if "job_owner y = job_owner j" "job_locator y = job_locator j" for y
        using that False \<open>job_owner x = o' \<and> job_locator x = l\<close> by (metis row_columns(2,3))
      then have "row_of_job H D i x \<notin> set rows" using own [of "row_of_job H D i x"] by auto
      with differs [of j'] v True show ?thesis by (simp add: put_row_mem [OF t r(1)])
    qed (simp add: put_row_mem [OF t r(1)])
    then have "job_view H D (put_row (row_of_job H D i j') rows) (o', l) = Some x \<longleftrightarrow>
        job_view H D rows (o', l) = Some x"
      unfolding job_view_eq_Some [OF inv] job_view_eq_Some [OF t] by auto
    with False show ?thesis by auto
  qed
  then show "job_view H D (put_row (row_of_job H D i j') rows) key =
      ((job_view H D rows)((job_owner j, job_locator j) \<mapsto> j')) key"
    unfolding key by (metis not_None_eq)
qed

section \<open>Transactions refine an owner-scoped map\<close>

lemma decision_next:
  "updated_job (running_from t) j = Inr j' \<Longrightarrow> next_job j j'"
  "updated_job (cancel_requested_from t) j = Inr j' \<Longrightarrow> next_job j j'"
  "terminal_job j status t result failure cancel_at = Inr j' \<Longrightarrow> next_job j j'"
  by (auto simp: updated_job_eq_Inr terminal_job_eq_Inr next_job_def running_from_def
      cancel_requested_from_def finished_with_def)

text \<open>What the repository promises, on jobs rather than on rows.\<close>

definition spec_transaction ::
  "(time \<Rightarrow> job \<Rightarrow> job option result) \<Rightarrow> string \<Rightarrow> string \<Rightarrow> time \<Rightarrow> job_store \<Rightarrow> (job \<times> job_store) result" where
  "spec_transaction decide owner_id locator now m =
     (case m (owner_id, locator) of
        None \<Rightarrow> Inl SearchJobNotFoundError
      | Some j \<Rightarrow>
          if now < job_updated j then Inl job_state_error
          else bind (decide now j) (\<lambda>d. case d of
            None \<Rightarrow> Inr (j, m)
          | Some j' \<Rightarrow> Inr (j', m((owner_id, locator) \<mapsto> j'))))"

definition on_view ::
  "(string \<Rightarrow> string) \<Rightarrow> (time \<Rightarrow> string) \<Rightarrow> ('a \<times> job_table) result \<Rightarrow> ('a \<times> job_store) result" where
  "on_view H D r = bind r (\<lambda>(x, rows). Inr (x, job_view H D rows))"

lemma on_view_simps [simp]:
  "on_view H D (Inl e) = Inl e" "on_view H D (Inr (x, rows)) = Inr (x, job_view H D rows)"
  by (simp_all add: on_view_def)

lemma on_view_storage: "on_view H D (storage_errors r) = storage_errors (on_view H D r)"
  by (cases r) (auto simp: storage_errors_def)

lemma locator_unique:
  "job_table_ok H D rows \<Longrightarrow> r \<in> set rows \<Longrightarrow> s \<in> set rows \<Longrightarrow> row_locator r = row_locator s \<Longrightarrow> r = s"
  by (auto simp: job_table_ok_def distinct_map dest: inj_onD)

locale job_decision =
  fixes decide :: "time \<Rightarrow> job \<Rightarrow> job option result"
  assumes decide_next: "decide t j = Inr (Some j') \<Longrightarrow> next_job j j'"
begin

lemma transaction_some:
  assumes t: "job_table_ok H D rows" and H: "hex_digests H" and k: "is_subject_id o'" "is_token l"
    and v: "job_view H D rows (o', l) = Some j"
    and i: "length i = 64" "row_of_job H D i j \<in> set rows"
  shows "job_transaction H D decide o' l (Utc t) rows = storage_errors (
    if t < job_updated j then Inl job_state_error
    else bind (decide t j) (\<lambda>d. Inr (case d of None \<Rightarrow> (j, rows)
       | Some j' \<Rightarrow> (j', put_row (row_of_job H D i j') rows))))"
proof -
  have "job_owner j = o'" "job_locator j = l" using v job_view_eq_Some [OF t] by auto
  with i have "find (\<lambda>r. row_owner r = o' \<and> row_locator r = l) rows = Some (row_of_job H D i j)"
    by (simp add: find_owned [OF t])
  with v have "owned_row H D o' l rows = Inr (i, j)" by (simp add: owned_row_view [OF t])
  with k have s: "job_transaction H D decide o' l (Utc t) rows = storage_errors (
      bind (require (job_updated j \<le> t) job_state_error) (\<lambda>_. bind (decide t j) (\<lambda>d. case d of
         None \<Rightarrow> Inr (j, rows)
       | Some j' \<Rightarrow> bind (write_snapshot H D i (job_revision j) j' rows) (\<lambda>rows'. Inr (j', rows')))))"
    by (simp add: job_transaction_def validated_owner_def validated_locator_def validated_now_def
        job_utc_datetime_def ensure_time_order_def)
  have "bind (decide t j) (\<lambda>d. case d of
         None \<Rightarrow> Inr (j, rows)
       | Some j' \<Rightarrow> bind (write_snapshot H D i (job_revision j) j' rows) (\<lambda>rows'. Inr (j', rows')))
    = bind (decide t j) (\<lambda>d. Inr (case d of None \<Rightarrow> (j, rows)
       | Some j' \<Rightarrow> (j', put_row (row_of_job H D i j') rows)))"
  proof (cases "decide t j")
    case (Inr d)
    show ?thesis
    proof (cases d)
      case (Some j')
      with Inr write_snapshot_ok [OF t i(2,1) decide_next H] show ?thesis by simp
    qed (simp add: Inr)
  qed simp
  with s show ?thesis by (simp add: require_def not_less)
qed

lemma transaction_none:
  assumes "job_table_ok H D rows" and "is_subject_id o'" "is_token l"
    and "job_view H D rows (o', l) = None"
  shows "job_transaction H D decide o' l (Utc t) rows = Inl SearchJobNotFoundError"
  using assms
  by (simp add: job_transaction_def validated_owner_def validated_locator_def validated_now_def
      job_utc_datetime_def owned_row_view storage_errors_def)

lemma transaction_inputs:
  "job_transaction H D decide o' l now rows = Inr x \<Longrightarrow>
     is_subject_id o' \<and> is_token l \<and> (\<exists>t. now = Utc t)"
  by (cases now) (auto simp: job_transaction_def validated_owner_def validated_locator_def
      validated_now_def job_utc_datetime_def)

lemma transaction_eq_Inr:
  assumes t: "job_table_ok H D rows" and H: "hex_digests H"
  shows "job_transaction H D decide o' l now rows = Inr (x, rows') \<longleftrightarrow>
    is_subject_id o' \<and> is_token l \<and> (\<exists>t j. now = Utc t \<and> job_view H D rows (o', l) = Some j \<and>
      job_updated j \<le> t \<and>
      (decide t j = Inr None \<and> x = j \<and> rows' = rows \<or>
       decide t j = Inr (Some x) \<and>
       (\<exists>i. length i = 64 \<and> row_of_job H D i j \<in> set rows \<and>
          rows' = put_row (row_of_job H D i x) rows)))"
proof (cases "is_subject_id o' \<and> is_token l \<and> (\<exists>t. now = Utc t)")
  case False
  then show ?thesis using transaction_inputs by blast
next
  case True
  then obtain u where k: "is_subject_id o'" "is_token l" and now: "now = Utc u" by blast
  show ?thesis
  proof (cases "job_view H D rows (o', l)")
    case None
    with transaction_none [OF t k None] now show ?thesis by simp
  next
    case (Some j)
    with job_view_eq_Some [OF t] obtain i where i: "length i = 64" "row_of_job H D i j \<in> set rows" by auto
    have "k = i" if "row_of_job H D k j \<in> set rows" for k
      using locator_unique [OF t that i(2)] by (metis row_columns(1,2))
    then have ex: "(\<exists>k. length k = 64 \<and> row_of_job H D k j \<in> set rows \<and> P k) \<longleftrightarrow> P i" for P
      using i by blast
    have run: "storage_errors (if u < job_updated j then Inl job_state_error
      else bind (decide u j) (\<lambda>d. Inr (case d of None \<Rightarrow> (j, rows)
        | Some j' \<Rightarrow> (j', put_row (row_of_job H D i j') rows)))) = Inr (x, rows') \<longleftrightarrow>
      job_updated j \<le> u \<and> (decide u j = Inr None \<and> x = j \<and> rows' = rows \<or>
        decide u j = Inr (Some x) \<and> rows' = put_row (row_of_job H D i x) rows)"
    proof (cases "decide u j")
      case (Inr d)
      then show ?thesis by (cases d) auto
    qed simp
    have "job_transaction H D decide o' l now rows = Inr (x, rows') \<longleftrightarrow>
      job_updated j \<le> u \<and> (decide u j = Inr None \<and> x = j \<and> rows' = rows \<or>
        decide u j = Inr (Some x) \<and> rows' = put_row (row_of_job H D i x) rows)"
      unfolding now transaction_some [OF t H k Some i] by (rule run)
    then show ?thesis using k Some now ex [of "\<lambda>k. rows' = put_row (row_of_job H D k x) rows"] by simp
  qed
qed

lemma transaction_inv:
  assumes "job_table_ok H D rows" and "hex_digests H"
    and "job_transaction H D decide o' l now rows = Inr (x, rows')"
  shows "job_table_ok H D rows'"
proof -
  from assms(3) obtain t j where "rows' = rows \<or> decide t j = Inr (Some x) \<and>
      (\<exists>i. length i = 64 \<and> row_of_job H D i j \<in> set rows \<and> rows' = put_row (row_of_job H D i x) rows)"
    unfolding transaction_eq_Inr [OF assms(1,2)] by blast
  then show ?thesis
    by (elim disjE conjE exE) (simp_all add: assms(1) put_row_inv [OF assms(1)] decide_next)
qed

lemma transaction_refines:
  assumes t: "job_table_ok H D rows" and H: "hex_digests H" and k: "is_subject_id o'" "is_token l"
  shows "on_view H D (job_transaction H D decide o' l (Utc t) rows) =
    storage_errors (spec_transaction decide o' l t (job_view H D rows))"
proof (cases "job_view H D rows (o', l)")
  case None
  with k show ?thesis
    by (simp add: job_transaction_def validated_owner_def validated_locator_def validated_now_def
        job_utc_datetime_def owned_row_view [OF t] spec_transaction_def storage_errors_def)
next
  case (Some j)
  with job_view_eq_Some [OF t] obtain i where i: "length i = 64" "row_of_job H D i j \<in> set rows"
    and o': "job_owner j = o'" "job_locator j = l" by auto
  have w: "on_view H D (bind (decide t j) (\<lambda>d. Inr (case d of None \<Rightarrow> (j, rows)
       | Some j' \<Rightarrow> (j', put_row (row_of_job H D i j') rows))))
    = bind (decide t j) (\<lambda>d. case d of None \<Rightarrow> Inr (j, job_view H D rows)
       | Some j' \<Rightarrow> Inr (j', (job_view H D rows)((o', l) \<mapsto> j')))"
  proof (cases "decide t j")
    case (Inr d)
    show ?thesis
    proof (cases d)
      case (Some j')
      with Inr put_row_view [OF t i(2,1) decide_next] o' show ?thesis by simp
    qed (simp add: Inr)
  qed simp
  with Some show ?thesis
    by (cases "t < job_updated j")
      (simp_all add: transaction_some [OF t H k Some i] spec_transaction_def on_view_storage)
qed

end

interpretation get: job_decision get_decision
  by unfold_locales (auto simp: get_decision_def dest: decision_next split: if_splits)

interpretation claim: job_decision claim_decision
  by unfold_locales (auto simp: claim_decision_def dest: decision_next split: if_splits)

interpretation cancel: job_decision cancel_decision
  by unfold_locales (auto simp: cancel_decision_def dest: decision_next split: if_splits)

interpretation finish: job_decision "finish_decision result failure cancelled"
  by unfold_locales
    (auto simp: finish_decision_def dest: decision_next split: if_splits option.splits)

section \<open>Enqueueing\<close>

lemma validated_now_eq_Inr [simp]: "validated_now now = Inr t \<longleftrightarrow> now = Utc t"
  by (cases now) (simp_all add: validated_now_def job_utc_datetime_def)

lemma validated_submission_eq_Inr [simp]:
  "validated_submission p = Inr s \<longleftrightarrow> p = Instance s \<and> submission_ok s"
  by (cases p) (auto simp: validated_submission_def)

definition queued_job :: "submission \<Rightarrow> string \<Rightarrow> time \<Rightarrow> job" where
  "queued_job s locator now =
     \<lparr>job_locator = locator, job_owner = sub_owner s, job_binding = sub_binding s,
      job_status = Job_queued, job_revision = 0, job_created = now, job_updated = now,
      job_start_before = now + job_queue_start_window, job_started = None, job_cancel_at = None,
      job_finished = None, job_purge_after = None, job_result = None, job_failure = None\<rparr>"

lemma queued_job_sel [simp]:
  "job_locator (queued_job s l t) = l" "job_owner (queued_job s l t) = sub_owner s"
  "job_binding (queued_job s l t) = sub_binding s" "job_status (queued_job s l t) = Job_queued"
  "job_revision (queued_job s l t) = 0" "job_created (queued_job s l t) = t"
  "job_updated (queued_job s l t) = t" "job_start_before (queued_job s l t) = t + job_queue_start_window"
  "job_started (queued_job s l t) = None" "job_cancel_at (queued_job s l t) = None"
  "job_finished (queued_job s l t) = None" "job_purge_after (queued_job s l t) = None"
  "job_result (queued_job s l t) = None" "job_failure (queued_job s l t) = None"
  by (simp_all add: queued_job_def)

lemma queued_job_valid:
  "validate_job (queued_job s l t) = Inr () \<longleftrightarrow> is_token l \<and> submission_ok s \<and> is_time t \<and>
     t + job_queue_start_window \<le> time_max"
  by (auto simp: validate_job_iff validate_status_contract_iff job_fields_ok_def submission_ok_def
      later_state_empty_def is_time_def window_defs)

lemma new_queued_job_eq_Inr:
  "new_queued_job s l t = Inr j \<longleftrightarrow> j = queued_job s l t \<and> validate_job j = Inr ()"
proof -
  have "new_queued_job s l t = bind (time_add t job_queue_start_window) (\<lambda>_.
      bind (validate_job (queued_job s l t)) (\<lambda>_. Inr (queued_job s l t)))"
    by (simp add: new_queued_job_def Let_def queued_job_def time_add_def)
  moreover have "time_min \<le> t \<Longrightarrow> time_min \<le> t + job_queue_start_window" by (simp add: window_defs)
  ultimately show ?thesis by (auto simp: time_add_eq_Inr queued_job_valid is_time_def)
qed

lemma insert_row_eq_Inr:
  "insert_row r rows = Inr rows' \<longleftrightarrow>
     row_checks r \<and> (\<forall>s\<in>set rows. \<not> row_conflicts r s) \<and> rows' = rows @ [r]"
  by (auto simp: insert_row_def list_ex_iff)

lemma append_row_inv:
  assumes t: "job_table_ok H D rows" and v: "validate_job j = Inr ()" and c: "row_checks (row_of_job H D i j)"
    and n: "\<forall>s\<in>set rows. \<not> row_conflicts (row_of_job H D i j) s"
  shows "job_table_ok H D (rows @ [row_of_job H D i j])"
proof -
  have "length i = 64" using c by (simp add: row_checks_def)
  with t v n show ?thesis
    by (auto simp: job_table_ok_def stored_job_def row_conflicts_def)
qed

text \<open>What an enqueue that succeeds does.\<close>

lemma enqueue_eq_Inr:
  assumes t: "job_table_ok H D rows"
  shows "enqueue H D p now i l rows = Inr ((j, created), rows') \<longleftrightarrow>
    (\<exists>s u. p = Instance s \<and> submission_ok s \<and> now = Utc u \<and>
      (if \<exists>r\<in>set rows. row_owner r = sub_owner s \<and> row_binding r = sub_binding s
       then \<not> created \<and> rows' = rows \<and> validate_job j = Inr () \<and> job_owner j = sub_owner s \<and>
         job_binding j = sub_binding s \<and> (\<exists>k. length k = 64 \<and> row_of_job H D k j \<in> set rows)
       else created \<and> j = queued_job s l u \<and> validate_job j = Inr () \<and>
         row_checks (row_of_job H D i j) \<and> (\<forall>r\<in>set rows. \<not> row_conflicts (row_of_job H D i j) r) \<and>
         rows' = rows @ [row_of_job H D i j]))"
proof (cases "\<exists>s u. p = Instance s \<and> submission_ok s \<and> now = Utc u")
  case False
  then show ?thesis by (auto simp: enqueue_def)
next
  case True
  then obtain s u where a: "p = Instance s" "submission_ok s" "now = Utc u" by blast
  have ok: "validated_submission p = Inr s" "validated_now now = Inr u" using a by simp_all
  show ?thesis
  proof (cases "find (\<lambda>r. row_owner r = sub_owner s \<and> row_binding r = sub_binding s) rows")
    case None
    then have "\<not> (\<exists>r\<in>set rows. row_owner r = sub_owner s \<and> row_binding r = sub_binding s)"
      by (auto simp: find_None_iff)
    with None a show ?thesis
      by (auto simp: enqueue_def ok new_queued_job_eq_Inr insert_row_eq_Inr)
  next
    case (Some r)
    then have r: "r \<in> set rows" "row_owner r = sub_owner s" "row_binding r = sub_binding s"
      by (auto simp: find_binding [OF t])
    from table_row [OF t r(1)] obtain k where k: "validate_job k = Inr ()"
      "r = row_of_job H D (row_id r) k" "length (row_id r) = 64" .
    then have sn: "snapshot_from_row H D r = Inr k" using snapshot_of_row by metis
    have own: "job_owner k = sub_owner s" "job_binding k = sub_binding s" using r k(2) by (metis row_columns)+
    have uni: "k = j" if "job_owner j = sub_owner s" "job_binding j = sub_binding s"
      "validate_job j = Inr ()" "row_of_job H D b j \<in> set rows" for b
    proof -
      have "find (\<lambda>r. row_owner r = sub_owner s \<and> row_binding r = sub_binding s) rows = Some (row_of_job H D b j)"
        using that by (simp add: find_binding [OF t])
      with Some have "row_of_job H D b j = r" by simp
      with sn snapshot_of_row [OF that(3), of H D b] show ?thesis by simp
    qed
    have "enqueue H D p now i l rows = Inr ((k, False), rows)"
      by (simp add: enqueue_def ok Some sn)
    moreover have "\<exists>r\<in>set rows. row_owner r = sub_owner s \<and> row_binding r = sub_binding s" using r by blast
    moreover have "\<exists>b. length b = 64 \<and> row_of_job H D b k \<in> set rows" using k r(1) by metis
    ultimately show ?thesis using a own k(1) uni by auto
  qed
qed

lemma enqueue_inv:
  assumes t: "job_table_ok H D rows" and e: "enqueue H D p now i l rows = Inr (x, rows')"
  shows "job_table_ok H D rows'"
proof -
  obtain j created where x: "x = (j, created)" by fastforce
  from e show ?thesis unfolding x enqueue_eq_Inr [OF t]
    by (auto simp: t append_row_inv split: if_splits)
qed

section \<open>Purging\<close>

lemma purge_due_iff:
  assumes "validate_job j = Inr ()" and "is_time now"
  shows "purge_due now (row_of_job H D i j) \<longleftrightarrow> (\<exists>p. job_purge_after j = Some p \<and> p \<le> now)"
proof -
  have "opt_all is_time (job_purge_after j)" using assms(1) by (simp add: validate_job_iff job_fields_ok_def)
  with assms(2) show ?thesis
    by (cases "job_purge_after j") (simp_all add: purge_due_def time_text_le_iff is_time_def)
qed

lemma purge_terminal:
  assumes "validate_job j = Inr ()" and "job_purge_after j \<noteq> None"
  shows "job_status j \<in> set terminal_statuses"
  using assms by (cases "job_status j")
    (auto simp: validate_job_iff validate_status_contract_iff later_state_empty_def terminal_statuses_def)

lemma purge_expired_ok:
  assumes t: "job_table_ok H D rows" and now: "is_time u"
  shows "purge_expired H D (Utc u) rows =
    Inr (length (filter (purge_due u) rows), filter (\<lambda>r. \<not> purge_due u r) rows)"
proof -
  have check: "purge_check H D r = Inr ()" if r: "r \<in> set rows" "purge_due u r" for r
  proof -
    from table_row [OF t r(1)] obtain k where k: "validate_job k = Inr ()"
      "r = row_of_job H D (row_id r) k" .
    then have sn: "snapshot_from_row H D r = Inr k" using snapshot_of_row by metis
    from r(2) purge_due_iff [OF k(1) now] k(2) have "job_purge_after k \<noteq> None" by (metis option.distinct(1))
    with purge_terminal [OF k(1)] sn show ?thesis by (simp add: purge_check_def)
  qed
  have ids: "row_id r \<in> row_id ` {s \<in> set rows. purge_due u s} \<longleftrightarrow> purge_due u r" if "r \<in> set rows" for r
    using row_unique [OF t _ that] that by auto
  let ?due = "sort_key (\<lambda>r. (row_purge_after r, row_id r)) (filter (purge_due u) rows)"
  have due: "check_all (purge_check H D) ?due = Inr ()" using check by simp
  have keep: "filter (\<lambda>r. row_id r \<notin> set (map row_id ?due)) rows = filter (\<lambda>r. \<not> purge_due u r) rows"
  proof (rule filter_cong [OF refl])
    fix r
    assume "r \<in> set rows"
    from ids [OF this] show "row_id r \<notin> set (map row_id ?due) \<longleftrightarrow> \<not> purge_due u r" by simp
  qed
  show ?thesis
    using keep due by (simp add: purge_expired_def Let_def validated_now_def job_utc_datetime_def)
qed

lemma filter_inv: "job_table_ok H D rows \<Longrightarrow> job_table_ok H D (filter P rows)"
  by (auto simp: job_table_ok_def list_all_iff intro: distinct_map_filter)

lemma purge_inv:
  assumes t: "job_table_ok H D rows" and e: "purge_expired H D now rows = Inr (n, rows')"
  shows "job_table_ok H D rows'"
  using e filter_inv [OF t] by (auto simp: purge_expired_def Let_def)

section \<open>Recovery\<close>

lemma recovered_next: "recovered_job t j = Inr j' \<Longrightarrow> next_job j j'"
  by (auto simp: recovered_job_def dest: decision_next split: if_splits)

lemma recovered_terminal: "recovered_job t j = Inr j' \<Longrightarrow> job_status j' \<in> {Job_cancelled, Job_failed}"
  by (auto simp: recovered_job_def terminal_job_eq_Inr finished_with_def split: if_splits)

lemma put_row_tail:
  assumes "set (r # rs) \<subseteq> set rows" and "distinct (map row_id (r # rs))" and "row_id r' = row_id r"
  shows "set rs \<subseteq> set (put_row r' rows)"
proof
  fix x
  assume x: "x \<in> set rs"
  then have "row_id x \<in> row_id ` set rs" by (rule imageI)
  then have "row_id x \<noteq> row_id r" using assms(2) by auto
  with x assms show "x \<in> set (put_row r' rows)" using put_row_set [of r rows r' x] by auto
qed

lemma recover_rows_ok:
  assumes "job_table_ok H D rows" and H: "hex_digests H" and "set rs \<subseteq> set rows" and "distinct (map row_id rs)"
    and "recover_rows H D now rs rows = Inr rows'"
  shows "job_table_ok H D rows' \<and>
    (\<forall>r. row_id r \<notin> row_id ` set rs \<longrightarrow> (r \<in> set rows' \<longleftrightarrow> r \<in> set rows)) \<and>
    (\<forall>r\<in>set rs. \<exists>j j'. validate_job j = Inr () \<and> r = row_of_job H D (row_id r) j \<and>
       recovered_job now j = Inr j' \<and> row_of_job H D (row_id r) j' \<in> set rows')"
  using assms(1,3-5)
proof (induction rs arbitrary: rows)
  case (Cons r rs)
  from Cons.prems(2) have r: "r \<in> set rows" by simp
  from table_row [OF Cons.prems(1) r] obtain j where j: "validate_job j = Inr ()"
    "r = row_of_job H D (row_id r) j" "length (row_id r) = 64" .
  then have sn: "snapshot_from_row H D r = Inr j" using snapshot_of_row by metis
  have mem: "row_of_job H D (row_id r) j \<in> set rows" using j(2) r by simp
  from Cons.prems(4) sn obtain j' where j': "recovered_job now j = Inr j'"
    and rest: "recover_rows H D now rs (put_row (row_of_job H D (row_id r) j') rows) = Inr rows'"
    by (auto simp: write_snapshot_ok [OF Cons.prems(1) mem j(3) recovered_next H])
  note n = recovered_next [OF j']
  note t' = put_row_inv [OF Cons.prems(1) mem j(3) n]
  have set': "x \<in> set (put_row (row_of_job H D (row_id r) j') rows) \<longleftrightarrow>
      (if row_id x = row_id r then x = row_of_job H D (row_id r) j' else x \<in> set rows)" for x
    using put_row_set [OF r, of "row_of_job H D (row_id r) j'"] by simp
  have sub: "set rs \<subseteq> set (put_row (row_of_job H D (row_id r) j') rows)"
    by (rule put_row_tail [OF Cons.prems(2,3)]) simp
  have d: "distinct (map row_id rs)" "row_id r \<notin> row_id ` set rs" using Cons.prems(3) by auto
  from Cons.IH [OF t' sub d(1) rest]
  have ih: "job_table_ok H D rows'"
    "\<And>x. row_id x \<notin> row_id ` set rs \<Longrightarrow> x \<in> set rows' \<longleftrightarrow> x \<in> set (put_row (row_of_job H D (row_id r) j') rows)"
    "\<forall>r\<in>set rs. \<exists>j j'. validate_job j = Inr () \<and> r = row_of_job H D (row_id r) j \<and>
       recovered_job now j = Inr j' \<and> row_of_job H D (row_id r) j' \<in> set rows'"
    by blast+
  have "row_of_job H D (row_id r) j' \<in> set rows'" using ih(2) [of "row_of_job H D (row_id r) j'"] d(2)
    by (simp add: set')
  with ih(1,3) j j' show ?case using ih(2) by (auto simp: set')
qed auto

lemma recover_rows_progress:
  assumes "job_table_ok H D rows" and H: "hex_digests H" and "set rs \<subseteq> set rows" and "distinct (map row_id rs)"
    and "\<And>r j. r \<in> set rs \<Longrightarrow> snapshot_from_row H D r = Inr j \<Longrightarrow>
      job_status j \<in> set active_statuses \<and> job_updated j \<le> now"
    and max: "now + job_retention \<le> time_max"
  shows "is_ok (recover_rows H D now rs rows)"
  using assms(1,3-5)
proof (induction rs arbitrary: rows)
  case (Cons r rs)
  from Cons.prems(2) have r: "r \<in> set rows" by simp
  from table_row [OF Cons.prems(1) r] obtain j where j: "validate_job j = Inr ()"
    "r = row_of_job H D (row_id r) j" "length (row_id r) = 64" .
  then have sn: "snapshot_from_row H D r = Inr j" using snapshot_of_row by metis
  have mem: "row_of_job H D (row_id r) j \<in> set rows" using j(2) r by simp
  have a: "job_status j \<in> set active_statuses" "job_updated j \<le> now"
    using Cons.prems(4) [of r j] sn by simp_all
  from recover_ok [OF j(1) a max] obtain j' where j': "recovered_job now j = Inr j'" by (auto simp: is_ok_iff)
  note n = recovered_next [OF j']
  have set': "x \<in> set (put_row (row_of_job H D (row_id r) j') rows) \<longleftrightarrow>
      (if row_id x = row_id r then x = row_of_job H D (row_id r) j' else x \<in> set rows)" for x
    using put_row_set [OF r, of "row_of_job H D (row_id r) j'"] by simp
  have sub: "set rs \<subseteq> set (put_row (row_of_job H D (row_id r) j') rows)"
    by (rule put_row_tail [OF Cons.prems(2,3)]) simp
  have "is_ok (recover_rows H D now rs (put_row (row_of_job H D (row_id r) j') rows))"
    using Cons.prems(3,4) by (intro Cons.IH [OF put_row_inv [OF Cons.prems(1) mem j(3) n] sub]) auto
  then show ?case
    using a sn j' by (simp add: ensure_time_order_def write_snapshot_ok [OF Cons.prems(1) mem j(3) n H])
qed simp

lemma recover_interrupted_eq_Inr:
  "recover_interrupted H D now rows = Inr (n, rows') \<longleftrightarrow> (\<exists>t. now = Utc t \<and>
     n = length (filter (\<lambda>r. row_status r \<in> set (map status_name active_statuses)) rows) \<and>
     recover_rows H D t (sort_key (\<lambda>r. (row_created r, row_id r))
       (filter (\<lambda>r. row_status r \<in> set (map status_name active_statuses)) rows)) rows = Inr rows')"
  by (auto simp: recover_interrupted_def Let_def)

lemma active_rows:
  assumes "job_table_ok H D rows"
  shows "set (sort_key (\<lambda>r. (row_created r, row_id r)) (filter P rows)) \<subseteq> set rows"
    and "distinct (map row_id (sort_key (\<lambda>r. (row_created r, row_id r)) (filter P rows)))"
  using assms by (auto simp: job_table_ok_def intro: distinct_map_filter)

lemma recover_inv:
  assumes "job_table_ok H D rows" "hex_digests H" "recover_interrupted H D now rows = Inr (n, rows')"
  shows "job_table_ok H D rows'"
  using assms(3) recover_rows_ok [OF assms(1,2) active_rows [OF assms(1)]]
  unfolding recover_interrupted_eq_Inr by blast

section \<open>Events\<close>

datatype job_event =
    Enqueue "submission py_arg" time_arg string string
  | Get string string time_arg
  | Claim string string time_arg
  | Request_cancel string string time_arg
  | Finish_success string string "string py_arg" time_arg
  | Finish_failure string string time_arg
  | Finish_cancelled string string time_arg
  | Recover time_arg
  | Purge time_arg

definition to_table :: "('a \<times> job_table) result \<Rightarrow> job_table result" where
  "to_table r = bind r (\<lambda>(_, rows). Inr rows)"

fun job_step :: "(string \<Rightarrow> string) \<Rightarrow> (time \<Rightarrow> string) \<Rightarrow> job_event \<Rightarrow> job_table \<Rightarrow> job_table result" where
  "job_step H D (Enqueue p now i l) rows = to_table (enqueue H D p now i l rows)"
| "job_step H D (Get o' l now) rows = to_table (get_job H D o' l now rows)"
| "job_step H D (Claim o' l now) rows = to_table (claim_for_execution H D o' l now rows)"
| "job_step H D (Request_cancel o' l now) rows = to_table (request_cancel H D o' l now rows)"
| "job_step H D (Finish_success o' l r now) rows = to_table (finish_success H D o' l r now rows)"
| "job_step H D (Finish_failure o' l now) rows = to_table (finish_failure H D o' l now rows)"
| "job_step H D (Finish_cancelled o' l now) rows = to_table (finish_cancelled H D o' l now rows)"
| "job_step H D (Recover now) rows = to_table (recover_interrupted H D now rows)"
| "job_step H D (Purge now) rows = to_table (purge_expired H D now rows)"

lemma to_table_eq_Inr [simp]: "to_table r = Inr rows \<longleftrightarrow> (\<exists>x. r = Inr (x, rows))"
  by (auto simp: to_table_def)

lemmas transaction_defs = get_job_def claim_for_execution_def request_cancel_def finish_success_def
  finish_failure_def finish_cancelled_def

lemma job_step_inv:
  assumes "job_table_ok H D rows" "hex_digests H" "job_step H D e rows = Inr rows'"
  shows "job_table_ok H D rows'"
  using assms
  by (cases e)
    (auto simp: transaction_defs dest: enqueue_inv get.transaction_inv claim.transaction_inv
      cancel.transaction_inv finish.transaction_inv recover_inv purge_inv)

interpretation jobs: guarded_system "job_step H D" "\<lambda>rows. hex_digests H \<and> job_table_ok H D rows"
  by unfold_locales (auto dest: job_step_inv)

section \<open>The life cycle of a job\<close>

fun status_moves :: "job_status \<Rightarrow> job_status \<Rightarrow> bool" where
  "status_moves Job_queued s \<longleftrightarrow> s \<in> {Job_running, Job_failed, Job_cancelled, Job_timed_out}"
| "status_moves Job_running s \<longleftrightarrow> s \<in> {Job_cancel_requested, Job_succeeded, Job_failed, Job_cancelled}"
| "status_moves Job_cancel_requested s \<longleftrightarrow> s = Job_cancelled"
| "status_moves _ s \<longleftrightarrow> False"

fun job_rank :: "job_status \<Rightarrow> nat" where
  "job_rank Job_queued = 0"
| "job_rank Job_running = 1"
| "job_rank Job_cancel_requested = 2"
| "job_rank _ = 3"

interpretation job_life: lifecycle status_moves job_rank 3
proof
  fix s t
  show "status_moves s t \<Longrightarrow> job_rank s < job_rank t" by (cases s) auto
  show "job_rank t \<le> 3" by (cases t) auto
qed

lemma terminal_final: "s \<in> set terminal_statuses \<Longrightarrow> \<not> status_moves s t"
  by (auto simp: terminal_statuses_def)

text \<open>What one operation may do to a job that the table holds.\<close>

definition evolves :: "job \<Rightarrow> job option \<Rightarrow> bool" where
  "evolves j v \<longleftrightarrow> v = Some j \<or>
     (\<exists>j'. v = Some j' \<and> next_job j j' \<and> status_moves (job_status j) (job_status j'))"

lemma updated_moves:
  "updated_job (running_from t) j = Inr j' \<Longrightarrow> job_status j' = Job_running"
  "updated_job (cancel_requested_from t) j = Inr j' \<Longrightarrow> job_status j' = Job_cancel_requested"
  "terminal_job j status t result failure cancel_at = Inr j' \<Longrightarrow> job_status j' = status"
  by (auto simp: updated_job_eq_Inr terminal_job_eq_Inr running_from_def cancel_requested_from_def
      finished_with_def)

locale job_transition = job_decision +
  assumes decide_moves: "decide t j = Inr (Some j') \<Longrightarrow> status_moves (job_status j) (job_status j')"
begin

lemma transaction_evolves:
  assumes t: "job_table_ok H D rows" and H: "hex_digests H"
    and x: "job_transaction H D decide o' l now rows = Inr (x, rows')"
    and v: "job_view H D rows k = Some j"
  shows "evolves j (job_view H D rows' k)"
proof -
  from x obtain u i j1 where j1: "job_view H D rows (o', l) = Some j1"
    and d: "rows' = rows \<or> decide u j1 = Inr (Some x) \<and> length i = 64 \<and>
      row_of_job H D i j1 \<in> set rows \<and> rows' = put_row (row_of_job H D i x) rows"
    unfolding transaction_eq_Inr [OF t H] by blast
  from d show ?thesis
  proof
    assume "rows' = rows"
    with v show ?thesis by (simp add: evolves_def)
  next
    assume p: "decide u j1 = Inr (Some x) \<and> length i = 64 \<and>
      row_of_job H D i j1 \<in> set rows \<and> rows' = put_row (row_of_job H D i x) rows"
    then have n: "next_job j1 x" by (auto dest: decide_next)
    from j1 have key: "job_owner j1 = o'" "job_locator j1 = l" by (simp_all add: job_view_eq_Some [OF t])
    have view: "job_view H D rows' = (job_view H D rows)((o', l) \<mapsto> x)"
      using p put_row_view [OF t _ _ n] key by simp
    show ?thesis
    proof (cases "k = (o', l)")
      case True
      with j1 v have "j1 = j" by simp
      moreover have "job_view H D rows' k = Some x" using True view by simp
      moreover have "status_moves (job_status j1) (job_status x)" using p decide_moves by blast
      ultimately show ?thesis using n by (simp add: evolves_def)
    qed (use v in \<open>simp add: evolves_def view\<close>)
  qed
qed

end

interpretation get: job_transition get_decision
  by unfold_locales (auto simp: get_decision_def dest!: updated_moves split: if_splits)

interpretation claim: job_transition claim_decision
  by unfold_locales (auto simp: claim_decision_def dest!: updated_moves split: if_splits)

interpretation cancel: job_transition cancel_decision
  by unfold_locales (auto simp: cancel_decision_def dest!: updated_moves split: if_splits)

interpretation finish: job_transition "finish_decision result failure cancelled" 
  by unfold_locales
    (auto simp: finish_decision_def dest!: updated_moves split: if_splits option.splits)

lemma recovered_moves:
  "recovered_job t j = Inr j' \<Longrightarrow> job_status j \<in> set active_statuses \<Longrightarrow>
     status_moves (job_status j) (job_status j')"
  by (cases "job_status j")
    (auto simp: recovered_job_def active_statuses_def dest!: updated_moves split: if_splits)

lemma status_name_inj [simp]: "status_name s = status_name t \<longleftrightarrow> s = t"
  by (cases s; cases t) simp_all

lemma status_names [simp]: "status_name s \<in> status_name ` set ss \<longleftrightarrow> s \<in> set ss"
  by auto

lemma job_view_mem:
  assumes "job_table_ok H D rows" and "validate_job j = Inr ()" and "row_of_job H D i j \<in> set rows"
  shows "job_view H D rows (job_owner j, job_locator j) = Some j"
proof -
  have "length i = 64" using assms by (auto simp: job_table_ok_def list_all_iff stored_job_def)
  with assms show ?thesis by (auto simp: job_view_eq_Some)
qed

text \<open>Recovery on the view: active jobs are ended, the others are untouched.\<close>

lemma recover_view:
  assumes t: "job_table_ok H D rows" and H: "hex_digests H"
    and e: "recover_interrupted H D (Utc u) rows = Inr (n, rows')"
    and v: "job_view H D rows k = Some j"
  shows "if job_status j \<in> set active_statuses
    then \<exists>j'. recovered_job u j = Inr j' \<and> job_view H D rows' k = Some j'
    else job_view H D rows' k = Some j"
proof -
  let ?P = "\<lambda>r. row_status r \<in> set (map status_name active_statuses)"
  let ?rs = "sort_key (\<lambda>r. (row_created r, row_id r)) (filter ?P rows)"
  obtain o' l where k: "k = (o', l)" by fastforce
  from v obtain i where j: "validate_job j = Inr ()" "job_owner j = o'" "job_locator j = l"
    and i: "length i = 64" "row_of_job H D i j \<in> set rows"
    unfolding k job_view_eq_Some [OF t] by blast
  from e have run: "recover_rows H D u ?rs rows = Inr rows'"
    unfolding recover_interrupted_eq_Inr by blast
  note eff = recover_rows_ok [OF t H active_rows [OF t] run]
  from eff have t': "job_table_ok H D rows'"
    and others: "\<And>r. row_id r \<notin> row_id ` set ?rs \<Longrightarrow> r \<in> set rows' \<longleftrightarrow> r \<in> set rows"
    and ended_rows: "\<forall>r\<in>set ?rs. \<exists>j j'. validate_job j = Inr () \<and> r = row_of_job H D (row_id r) j \<and>
       recovered_job u j = Inr j' \<and> row_of_job H D (row_id r) j' \<in> set rows'"
    by blast+
  show ?thesis
  proof (cases "job_status j \<in> set active_statuses")
    case True
    then have "row_of_job H D i j \<in> set ?rs" using i(2) by simp
    from bspec [OF ended_rows this] obtain j1 j' where j1: "validate_job j1 = Inr ()" "row_of_job H D i j = row_of_job H D i j1"
      "recovered_job u j1 = Inr j'" "row_of_job H D i j' \<in> set rows'" by auto
    from j1(2) row_of_job_inj [OF j(1) j1(1)] have "j1 = j" by simp
    with j1 have r: "recovered_job u j = Inr j'" by simp
    then have n: "next_job j j'" by (rule recovered_next)
    then have "job_view H D rows' k = Some j'"
      using job_view_mem [OF t' _ j1(4)] j k by (simp add: next_job_def)
    with r True show ?thesis by simp
  next
    case False
    have "row_id (row_of_job H D i j) \<notin> row_id ` set ?rs"
    proof
      assume "row_id (row_of_job H D i j) \<in> row_id ` set ?rs"
      then obtain s where s: "s \<in> set rows" "?P s" "row_id s = row_id (row_of_job H D i j)" by auto
      from row_unique [OF t s(1) i(2) s(3)] s(2) False show False by simp
    qed
    with others i(2) have "row_of_job H D i j \<in> set rows'" by blast
    from job_view_mem [OF t' j(1) this] j k False show ?thesis by simp
  qed
qed

lemma purge_view:
  assumes t: "job_table_ok H D rows" and u: "is_time u"
    and e: "purge_expired H D (Utc u) rows = Inr (n, rows')"
    and v: "job_view H D rows k = Some j"
  shows "job_view H D rows' k =
    (if \<exists>p. job_purge_after j = Some p \<and> p \<le> u then None else Some j)"
proof -
  obtain o' l where k: "k = (o', l)" by fastforce
  from v obtain i where j: "validate_job j = Inr ()" "job_owner j = o'" "job_locator j = l"
    and i: "length i = 64" "row_of_job H D i j \<in> set rows"
    unfolding k job_view_eq_Some [OF t] by blast
  from e have rows': "rows' = filter (\<lambda>r. \<not> purge_due u r) rows"
    by (simp add: purge_expired_ok [OF t u])
  note t' = filter_inv [OF t, of "\<lambda>r. \<not> purge_due u r", folded rows']
  show ?thesis
  proof (cases "purge_due u (row_of_job H D i j)")
    case True
    have "job_view H D rows' k \<noteq> Some x" for x
    proof
      assume "job_view H D rows' k = Some x"
      then obtain b where x: "job_locator x = l" "row_of_job H D b x \<in> set rows'"
        unfolding k job_view_eq_Some [OF t'] by blast
      with i j have "row_of_job H D b x = row_of_job H D i j"
        by (intro locator_unique [OF t]) (simp_all add: rows')
      with x True show False by (simp add: rows')
    qed
    with True show ?thesis using purge_due_iff [OF j(1) u] by (cases "job_view H D rows' k") auto
  next
    case False
    with i have "row_of_job H D i j \<in> set rows'" by (simp add: rows')
    from job_view_mem [OF t' j(1) this] j k False show ?thesis
      using purge_due_iff [OF j(1) u, of H D i] by auto
  qed
qed

section \<open>One step, and runs\<close>

lemma view_mono:
  assumes t: "job_table_ok H D rows" and t': "job_table_ok H D rows'" and s: "set rows \<subseteq> set rows'"
    and v: "job_view H D rows k = Some j"
  shows "job_view H D rows' k = Some j"
proof -
  obtain o' l where k: "k = (o', l)" by fastforce
  from v s t' show ?thesis unfolding k by (auto simp: job_view_eq_Some [OF t] job_view_eq_Some [OF t'])
qed

lemma enqueue_extends:
  assumes t: "job_table_ok H D rows" and e: "enqueue H D p now i l rows = Inr (x, rows')"
  shows "set rows \<subseteq> set rows'"
proof -
  obtain j created where x: "x = (j, created)" by fastforce
  from e show ?thesis unfolding x enqueue_eq_Inr [OF t] by (auto split: if_splits)
qed

definition now_in_range :: "job_event \<Rightarrow> bool" where
  "now_in_range e \<longleftrightarrow> (case e of Purge (Utc u) \<Rightarrow> is_time u | _ \<Rightarrow> True)"

definition is_purge :: "job_event \<Rightarrow> bool" where
  "is_purge e \<longleftrightarrow> (case e of Purge _ \<Rightarrow> True | _ \<Rightarrow> False)"

definition purged_by :: "job_event \<Rightarrow> job \<Rightarrow> bool" where
  "purged_by e j \<longleftrightarrow> (case e of
     Purge (Utc u) \<Rightarrow> (case job_purge_after j of Some p \<Rightarrow> p \<le> u | None \<Rightarrow> False) | _ \<Rightarrow> False)"

lemma evolves_refl [simp]: "evolves j (Some j)"
  by (simp add: evolves_def)

lemma job_step_evolves:
  assumes t: "job_table_ok H D rows" and H: "hex_digests H" and r: "now_in_range e"
    and s: "job_step H D e rows = Inr rows'" and v: "job_view H D rows k = Some j"
  shows "if purged_by e j then job_view H D rows' k = None else evolves j (job_view H D rows' k)"
proof (cases e)
  case (Enqueue p now i l)
  with s v view_mono [OF t job_step_inv [OF t H s] _ v] enqueue_extends [OF t] show ?thesis
    by (auto simp: purged_by_def)
next
  case (Get o' l now)
  with s v get.transaction_evolves [OF t H _ v] show ?thesis by (auto simp: purged_by_def transaction_defs)
next
  case (Claim o' l now)
  with s v claim.transaction_evolves [OF t H _ v] show ?thesis by (auto simp: purged_by_def transaction_defs)
next
  case (Request_cancel o' l now)
  with s v cancel.transaction_evolves [OF t H _ v] show ?thesis by (auto simp: purged_by_def transaction_defs)
next
  case (Finish_success o' l x now)
  with s v finish.transaction_evolves [OF t H _ v] show ?thesis by (auto simp: purged_by_def transaction_defs)
next
  case (Finish_failure o' l now)
  with s v finish.transaction_evolves [OF t H _ v] show ?thesis by (auto simp: purged_by_def transaction_defs)
next
  case (Finish_cancelled o' l now)
  with s v finish.transaction_evolves [OF t H _ v] show ?thesis by (auto simp: purged_by_def transaction_defs)
next
  case (Recover now)
  with s obtain n where e: "recover_interrupted H D now rows = Inr (n, rows')" by auto
  then obtain u where u: "now = Utc u" by (auto simp: recover_interrupted_eq_Inr)
  from recover_view [OF t H e [unfolded u] v] recovered_next recovered_moves Recover show ?thesis
    by (auto simp: purged_by_def evolves_def split: if_splits)
next
  case (Purge now)
  with s obtain n where e: "purge_expired H D now rows = Inr (n, rows')" by auto
  then obtain u where u: "now = Utc u" by (auto simp: purge_expired_def)
  with r Purge have "is_time u" by (simp add: now_in_range_def)
  from purge_view [OF t this e [unfolded u] v] Purge u show ?thesis
    by (cases "job_purge_after j") (auto simp: purged_by_def)
qed

lemma purged_by_terminal: "validate_job j = Inr () \<Longrightarrow> purged_by e j \<Longrightarrow> job_status j \<in> set terminal_statuses"
  by (rule purge_terminal) (auto simp: purged_by_def split: job_event.splits time_arg.splits option.splits)

lemma view_valid: "job_table_ok H D rows \<Longrightarrow> job_view H D rows k = Some j \<Longrightarrow> validate_job j = Inr ()"
  by (cases k) (simp add: job_view_eq_Some)

text \<open>A property of a job that its moves keep holds along any run that does not purge it.\<close>

lemma run_keeps:
  assumes t: "job_table_ok H D rows" and H: "hex_digests H"
    and r: "\<forall>e\<in>set es. now_in_range e \<and> \<not> is_purge e"
    and v: "job_view H D rows k = Some j" and p: "P j"
    and keep: "\<And>j j'. P j \<Longrightarrow> next_job j j' \<Longrightarrow> status_moves (job_status j) (job_status j') \<Longrightarrow> P j'"
  shows "\<exists>j'. job_view H D (run_events (job_step H D) rows es) k = Some j' \<and> P j'"
  using t r v p
proof (induction es arbitrary: rows j)
  case (Cons e es)
  show ?case
  proof (cases "job_step H D e rows")
    case (Inl x)
    with Cons show ?thesis by simp
  next
    case (Inr rows')
    have "\<not> purged_by e j" using Cons.prems(2) by (auto simp: purged_by_def is_purge_def split: job_event.splits)
    with job_step_evolves [OF Cons.prems(1) H _ Inr Cons.prems(3)] Cons.prems(2)
    obtain j' where "job_view H D rows' k = Some j'" "P j'"
      using keep Cons.prems(4) by (auto simp: evolves_def)
    with Cons.IH [OF job_step_inv [OF Cons.prems(1) H Inr]] Cons.prems(2) Inr show ?thesis by simp
  qed
qed auto

lemma run_terminal:
  assumes t: "job_table_ok H D rows" and H: "hex_digests H"
    and r: "\<forall>e\<in>set es. now_in_range e \<and> \<not> is_purge e"
    and v: "job_view H D rows k = Some j" and f: "job_status j \<in> set terminal_statuses"
  shows "job_view H D (run_events (job_step H D) rows es) k = Some j"
  using run_keeps [OF t H r v, of "\<lambda>x. x = j"] terminal_final [OF f] by blast

lemma empty_table_ok [simp]: "job_table_ok H D []"
  by (simp add: job_table_ok_def)

lemma reachable_ok: "hex_digests H \<Longrightarrow> job_table_ok H D (run_events (job_step H D) [] es)"
  using jobs.run_inv [of H D "[]" es] by simp

section \<open>Records and tampering\<close>

lemma failure_name_inj [simp]: "failure_name s = failure_name t \<longleftrightarrow> s = t"
  by (cases s; cases t) simp_all

lemma opt_time_json:
  assumes "inj D"
  shows "sort_keys (json_opt (JStr \<circ> D) u) = sort_keys (json_opt (JStr \<circ> D) v) \<longleftrightarrow> u = v"
  using assms by (intro sort_keys_opt) (auto simp: inj_eq)

lemma job_record_text_inj:
  assumes "inj D"
  shows "job_record_text D j = job_record_text D k \<longleftrightarrow> j = k"
proof
  assume "job_record_text D j = job_record_text D k"
  then have "sort_keys (job_json D j) = sort_keys (job_json D k)"
    by (simp add: job_record_text_def dumps_eq_iff)
  moreover have "sort_keys (json_opt JStr u) = sort_keys (json_opt JStr v) \<longleftrightarrow> u = v" for u v
    by (rule sort_keys_opt) auto
  moreover have "sort_keys (json_opt (JStr \<circ> failure_name) u) = sort_keys (json_opt (JStr \<circ> failure_name) v) \<longleftrightarrow> u = v"
    for u v by (rule sort_keys_opt) auto
  ultimately show "j = k"
    unfolding job_json_def
    by (subst (asm) sort_keys_record)
      (simp_all add: opt_time_json [OF assms] inj_eq [OF assms])
qed simp

section \<open>The exceptions that leave the repository\<close>

text \<open>Exceptions the repository raises or rewraps, and calls that raise no other.\<close>

definition handled :: "exn \<Rightarrow> bool" where
  "handled e \<longleftrightarrow> is_SearchJobError e \<or> is_ValueError e \<or> is_TypeError e \<or> e = IntegrityError"

definition raises_handled :: "'a result \<Rightarrow> bool" where
  "raises_handled r \<longleftrightarrow> (\<forall>e. r = Inl e \<longrightarrow> handled e)"

definition raises_job_errors :: "'a result \<Rightarrow> bool" where
  "raises_job_errors r \<longleftrightarrow> (\<forall>e. r = Inl e \<longrightarrow> is_SearchJobError e)"

lemma handled_simps [simp]:
  "handled SearchJobInputError" "handled SearchJobNotFoundError" "handled SearchJobStorageError"
  "handled (SearchJobStateError m)" "handled (ValidationError m)" "handled IntegrityError"
  by (simp_all add: handled_def)

lemma raises_handled_simps [simp]:
  "raises_handled (Inr x)" "raises_handled (Inl e) \<longleftrightarrow> handled e"
  "raises_handled (require b e) \<longleftrightarrow> b \<or> handled e"
  by (auto simp: raises_handled_def)

lemma raises_handled_bind:
  "raises_handled r \<Longrightarrow> (\<And>x. r = Inr x \<Longrightarrow> raises_handled (k x)) \<Longrightarrow> raises_handled (bind r k)"
  by (cases r) (auto simp: raises_handled_def)

lemma raises_job_errors_simps [simp]:
  "raises_job_errors (Inr x)" "raises_job_errors (Inl e) \<longleftrightarrow> is_SearchJobError e"
  "raises_job_errors (require b e) \<longleftrightarrow> b \<or> is_SearchJobError e"
  by (auto simp: raises_job_errors_def)

lemma raises_job_errors_bind:
  "raises_job_errors r \<Longrightarrow> (\<And>x. r = Inr x \<Longrightarrow> raises_job_errors (k x)) \<Longrightarrow> raises_job_errors (bind r k)"
  by (cases r) (auto simp: raises_job_errors_def)

lemma storage_errors_job_errors: "raises_handled r \<Longrightarrow> raises_job_errors (storage_errors r)"
  by (cases r) (auto simp: raises_handled_def raises_job_errors_def storage_errors_def handled_def)

lemma validated_raises [simp]:
  "raises_job_errors (validated_owner s)" "raises_job_errors (validated_locator s)"
  "raises_job_errors (validated_submission p)" "raises_job_errors (validated_result x)"
  "raises_job_errors (validated_now now)"
  by (auto simp: raises_job_errors_def validated_owner_def validated_locator_def bind_eq_Inl
      validated_submission_def validated_result_def validated_now_def job_utc_datetime_def
      split: py_arg.splits time_arg.splits)

lemma job_state_error_handled [simp]: "handled job_state_error" "is_SearchJobError job_state_error"
  by (simp_all add: job_state_error_def)

text \<open>Checking a snapshot raises only validation errors when its date arithmetic is in range.\<close>

lemma validate_job_handled:
  assumes c: "is_time (job_created j)" "job_created j + job_queue_start_window \<le> time_max"
    and f: "\<And>t. job_finished j = Some t \<Longrightarrow> is_time t \<and> t + job_retention \<le> time_max"
  shows "raises_handled (validate_job j)"
proof -
  have d: "time_add (job_created j) job_queue_start_window = Inr (job_created j + job_queue_start_window)"
    using c by (simp add: time_add_eq_Inr is_time_def window_defs)
  have terminal: "raises_handled (validate_terminal j)"
    unfolding validate_terminal_def
  proof (rule raises_handled_bind)
    show "raises_handled (case job_finished j of None \<Rightarrow> Inl terminal_error
        | Some f \<Rightarrow> if job_updated j \<noteq> f then Inl terminal_error
            else bind (time_add f job_retention) (\<lambda>p. require (job_purge_after j = Some p) terminal_error))"
    proof (cases "job_finished j")
      case (Some t)
      with f [OF Some] have "time_add t job_retention = Inr (t + job_retention)"
        by (simp add: time_add_eq_Inr is_time_def window_defs)
      with Some show ?thesis by (simp add: terminal_error_def)
    qed (simp add: terminal_error_def)
  qed (simp split: job_status.split)
  have "raises_handled (validate_status_contract j)"
    using terminal by (simp add: validate_status_contract_def validate_queued_def validate_running_def
        validate_cancel_requested_def split: job_status.split)
  then show ?thesis unfolding validate_job_def d by simp
qed

lemma valid_created:
  "validate_job j = Inr () \<Longrightarrow> is_time (job_created j) \<and> job_created j + job_queue_start_window \<le> time_max"
  by (auto simp: validate_job_iff job_fields_ok_def is_time_def)

definition time_in_range :: "time_arg \<Rightarrow> bool" where
  "time_in_range now \<longleftrightarrow> (case now of Utc t \<Rightarrow> time_min \<le> t \<and> t + job_retention \<le> time_max | _ \<Rightarrow> True)"

lemma updated_job_handled:
  assumes "validate_job j = Inr ()" and "job_created (u j) = job_created j"
    and "job_finished (u j) = job_finished j \<or> job_finished (u j) = Some t" and "time_in_range (Utc t)"
    and "job_status j \<in> set active_statuses"
  shows "raises_handled (updated_job u j)"
  unfolding updated_job_def Let_def
proof (intro raises_handled_bind validate_job_handled)
  have "job_finished j = None"
    using assms(1,5) by (cases "job_status j")
      (auto simp: active_statuses_def validate_job_iff validate_status_contract_iff later_state_empty_def)
  with assms(3,4) show "is_time s \<and> s + job_retention \<le> time_max"
    if "job_finished ((u j)\<lparr>job_revision := job_revision j + 1\<rparr>) = Some s" for s
    using that by (auto simp: time_in_range_def is_time_def window_defs)
qed (use assms(2) valid_created [OF assms(1)] in simp_all)

lemma terminal_job_handled:
  assumes "validate_job j = Inr ()" and r: "time_in_range (Utc t)" and "job_status j \<in> set active_statuses"
  shows "raises_handled (terminal_job j status t result failure cancel_at)"
proof -
  have "time_add t job_retention = Inr (t + job_retention)"
    using r by (auto simp: time_add_eq_Inr time_in_range_def window_defs)
  with updated_job_handled [OF assms(1) _ _ r assms(3)] show ?thesis
    by (simp add: terminal_job_def finished_with_def)
qed

lemma changed_handled: "raises_handled r \<Longrightarrow> raises_handled (changed r)"
  by (simp add: changed_def raises_handled_bind)

definition decides_handled :: "(time \<Rightarrow> job \<Rightarrow> job option result) \<Rightarrow> bool" where
  "decides_handled decide \<longleftrightarrow>
     (\<forall>t j. validate_job j = Inr () \<longrightarrow> time_in_range (Utc t) \<longrightarrow> raises_handled (decide t j))"

lemma decisions_handled:
  "decides_handled get_decision" "decides_handled claim_decision" "decides_handled cancel_decision"
  "decides_handled (finish_decision result failure cancelled)"
  by (auto simp: decides_handled_def get_decision_def claim_decision_def cancel_decision_def
      finish_decision_def active_statuses_def running_from_def cancel_requested_from_def
      intro!: changed_handled terminal_job_handled updated_job_handled split: option.split)

lemma transaction_errors:
  assumes "job_decision decide" and t: "job_table_ok H D rows" and H: "hex_digests H"
    and d: "decides_handled decide" and r: "time_in_range now"
  shows "raises_job_errors (job_transaction H D decide o' l now rows)"
proof (cases "is_subject_id o' \<and> is_token l \<and> (\<exists>t. now = Utc t)")
  case False
  then show ?thesis
    by (cases now) (auto simp: job_transaction_def raises_job_errors_def bind_eq_Inl
      validated_owner_def validated_locator_def validated_now_def job_utc_datetime_def)
next
  case True
  then obtain u where k: "is_subject_id o'" "is_token l" "now = Utc u" by blast
  show ?thesis
  proof (cases "job_view H D rows (o', l)")
    case None
    then show ?thesis using job_decision.transaction_none [OF assms(1) t k(1,2) None] k(3) by simp
  next
    case (Some j)
    then obtain i where i: "length i = 64" "row_of_job H D i j \<in> set rows" and v: "validate_job j = Inr ()"
      by (auto simp: job_view_eq_Some [OF t])
    have "raises_handled (decide u j)" using d v r k(3) by (simp add: decides_handled_def)
    then show ?thesis
      unfolding k(3) job_decision.transaction_some [OF assms(1) t H k(1,2) Some i]
      by (intro storage_errors_job_errors) (simp add: raises_handled_bind)
  qed
qed

lemma enqueue_errors:
  assumes t: "job_table_ok H D rows" and r: "time_in_range now"
  shows "raises_job_errors (enqueue H D p now i l rows)"
  unfolding enqueue_def
proof (intro raises_job_errors_bind validated_raises storage_errors_job_errors)
  fix s u
  assume "validated_now now = Inr u"
  with r have u: "is_time u" "u + job_queue_start_window \<le> time_max"
    by (auto simp: time_in_range_def is_time_def window_defs)
  show "raises_handled (case find (\<lambda>r. row_owner r = sub_owner s \<and> row_binding r = sub_binding s) rows of
       Some r \<Rightarrow> bind (snapshot_from_row H D r) (\<lambda>j. Inr ((j, False), rows))
     | None \<Rightarrow> bind (new_queued_job s l u) (\<lambda>j. bind (insert_row (row_of_job H D i j) rows)
         (\<lambda>rows'. Inr ((j, True), rows'))))"
  proof (cases "find (\<lambda>r. row_owner r = sub_owner s \<and> row_binding r = sub_binding s) rows")
    case (Some r)
    with t have "r \<in> set rows" by (simp add: find_binding)
    from table_row [OF t this] obtain j where "validate_job j = Inr ()" "r = row_of_job H D (row_id r) j" .
    then have "snapshot_from_row H D r = Inr j" using snapshot_of_row by metis
    with Some show ?thesis by simp
  next
    case None
    have "raises_handled (validate_job (queued_job s l u))"
      using u by (intro validate_job_handled) simp_all
    moreover have "time_add u job_queue_start_window = Inr (u + job_queue_start_window)"
      using u by (simp add: time_add_eq_Inr is_time_def window_defs)
    ultimately have "raises_handled (new_queued_job s l u)"
      by (simp add: new_queued_job_def Let_def queued_job_def raises_handled_bind)
    with None show ?thesis by (simp add: raises_handled_bind insert_row_def)
  qed
qed

lemma write_snapshot_handled [simp]: "raises_handled (write_snapshot H D i v j rows)"
  by (simp add: write_snapshot_def Let_def)

lemma recover_rows_handled:
  assumes "hex_digests H" and r: "time_in_range (Utc now)"
    and "\<And>r. r \<in> set rs \<Longrightarrow> \<exists>j. snapshot_from_row H D r = Inr j \<and> validate_job j = Inr () \<and>
      job_status j \<in> set active_statuses"
  shows "raises_handled (recover_rows H D now rs rows)"
  using assms(3)
proof (induction rs arbitrary: rows)
  case (Cons x rs)
  from Cons.prems [of x] obtain j where j: "snapshot_from_row H D x = Inr j" "validate_job j = Inr ()"
    "job_status j \<in> set active_statuses" by auto
  have "raises_handled (recovered_job now j)"
    using terminal_job_handled [OF j(2) r j(3)] by (simp add: recovered_job_def)
  with Cons show ?case
    by (auto simp: j(1) ensure_time_order_def intro!: raises_handled_bind)
qed simp

lemma recover_errors:
  assumes t: "job_table_ok H D rows" and H: "hex_digests H" and r: "time_in_range now"
  shows "raises_job_errors (recover_interrupted H D now rows)"
  unfolding recover_interrupted_def Let_def
proof (intro raises_job_errors_bind validated_raises storage_errors_job_errors raises_handled_bind
    raises_handled_simps)
  fix u
  assume "validated_now now = Inr u"
  with r have r': "time_in_range (Utc u)" by simp
  show "raises_handled (recover_rows H D u (sort_key (\<lambda>r. (row_created r, row_id r))
      (filter (\<lambda>r. row_status r \<in> set (map status_name active_statuses)) rows)) rows)"
  proof (rule recover_rows_handled [OF H r'])
    fix x
    assume "x \<in> set (sort_key (\<lambda>r. (row_created r, row_id r))
      (filter (\<lambda>r. row_status r \<in> set (map status_name active_statuses)) rows))"
    then have x: "x \<in> set rows" "row_status x \<in> status_name ` set active_statuses" by auto
    from table_row [OF t x(1)] obtain j where j: "validate_job j = Inr ()" "x = row_of_job H D (row_id x) j" .
    have "row_status x = status_name (job_status j)" using j(2) by (metis row_columns(6))
    with x(2) have "job_status j \<in> set active_statuses" by simp
    moreover have "snapshot_from_row H D x = Inr j" using j snapshot_of_row by metis
    ultimately show "\<exists>j. snapshot_from_row H D x = Inr j \<and> validate_job j = Inr () \<and>
        job_status j \<in> set active_statuses" using j(1) by blast
  qed
qed

lemma purge_errors:
  assumes t: "job_table_ok H D rows" and r: "time_in_range now"
  shows "raises_job_errors (purge_expired H D now rows)"
proof (cases now)
  case (Utc u)
  then have "is_time u" using r by (auto simp: time_in_range_def is_time_def window_defs)
  with Utc show ?thesis by (simp add: purge_expired_ok [OF t])
qed (auto simp: purge_expired_def validated_now_def job_utc_datetime_def raises_job_errors_def)

fun event_now :: "job_event \<Rightarrow> time_arg" where
  "event_now (Enqueue _ now _ _) = now"
| "event_now (Get _ _ now) = now"
| "event_now (Claim _ _ now) = now"
| "event_now (Request_cancel _ _ now) = now"
| "event_now (Finish_success _ _ _ now) = now"
| "event_now (Finish_failure _ _ now) = now"
| "event_now (Finish_cancelled _ _ now) = now"
| "event_now (Recover now) = now"
| "event_now (Purge now) = now"

lemma to_table_errors: "raises_job_errors r \<Longrightarrow> raises_job_errors (to_table r)"
  by (auto simp: to_table_def split_def intro: raises_job_errors_bind)

lemma job_step_errors:
  assumes t: "job_table_ok H D rows" and H: "hex_digests H" and r: "time_in_range (event_now e)"
  shows "raises_job_errors (job_step H D e rows)"
proof -
  note tr = transaction_errors [OF _ t H]
  note it = get.job_decision_axioms claim.job_decision_axioms cancel.job_decision_axioms
    finish.job_decision_axioms
  show ?thesis
    using r by (cases e)
      (auto simp: transaction_defs intro!: to_table_errors raises_job_errors_bind enqueue_errors [OF t]
        recover_errors [OF t H] purge_errors [OF t] tr it decisions_handled)
qed

text \<open>Whatever the rows hold, the only other exception is the overflow of the retention arithmetic.\<close>

definition raises_known :: "'a result \<Rightarrow> bool" where
  "raises_known r \<longleftrightarrow> (\<forall>e. r = Inl e \<longrightarrow> handled e \<or> e = OverflowError)"

lemma raises_known_simps [simp]:
  "raises_known (Inr x)" "raises_known (Inl e) \<longleftrightarrow> handled e \<or> e = OverflowError"
  "raises_known (require b e) \<longleftrightarrow> b \<or> handled e \<or> e = OverflowError"
  by (auto simp: raises_known_def)

lemma raises_known_bind:
  "raises_known r \<Longrightarrow> (\<And>x. r = Inr x \<Longrightarrow> raises_known (k x)) \<Longrightarrow> raises_known (bind r k)"
  by (cases r) (auto simp: raises_known_def)

lemma raises_known_storage: "raises_known r \<Longrightarrow> raises_known (storage_errors r)"
  by (cases r) (auto simp: raises_known_def storage_errors_def)

lemma raises_known_leaves [simp]:
  "raises_known (time_add t d)" "raises_known (parse_time s)" "raises_known (parse_opt_time v)"
  "raises_known (parse_status n)" "raises_known (parse_failure f)"
  "raises_known (validated_owner o')" "raises_known (validated_locator l)"
  "raises_known (validated_submission p)" "raises_known (validated_result x)"
  "raises_known (validated_now now)" "raises_known (insert_row r rows)"
  "raises_known (write_snapshot H D i n0 j rows)" "raises_known (ensure_time_order j t)"
  by (auto simp: raises_known_def time_add_def parse_time_def parse_opt_time_def parse_status_def
      parse_failure_def validated_owner_def validated_locator_def bind_eq_Inl validated_submission_def
      validated_result_def validated_now_def job_utc_datetime_def insert_row_def write_snapshot_def
      ensure_time_order_def Let_def
      split: py_arg.splits time_arg.splits option.splits if_splits)

lemma validate_job_known [simp]: "raises_known (validate_job j)"
proof -
  have "raises_known (validate_terminal j)"
    unfolding validate_terminal_def
    by (intro raises_known_bind) (auto simp: terminal_error_def split: option.split job_status.split intro!: raises_known_bind)
  then have "raises_known (validate_status_contract j)"
    by (simp add: validate_status_contract_def validate_queued_def validate_running_def
        validate_cancel_requested_def split: job_status.split)
  then show ?thesis unfolding validate_job_def by (auto intro!: raises_known_bind)
qed

lemma decisions_known [simp]:
  "raises_known (updated_job u j)" "raises_known (terminal_job j st t result failure cancel_at)"
  "raises_known (changed (updated_job u j))" "raises_known (changed (terminal_job j st t result failure cancel_at))"
  "raises_known (recovered_job t j)"
  by (auto simp: updated_job_def terminal_job_def changed_def recovered_job_def Let_def intro!: raises_known_bind)

lemma repository_decisions_known [simp]:
  "raises_known (get_decision t j)" "raises_known (claim_decision t j)" "raises_known (cancel_decision t j)"
  "raises_known (finish_decision result failure cancelled t j)"
  by (auto simp: get_decision_def claim_decision_def cancel_decision_def finish_decision_def split: option.split)

lemma snapshot_from_row_known [simp]: "raises_known (snapshot_from_row H D r)"
  by (auto simp: snapshot_from_row_def Let_def intro!: raises_known_storage raises_known_bind)

lemma owned_row_known [simp]: "raises_known (owned_row H D o' l rows)"
  by (auto simp: owned_row_def split: option.split intro!: raises_known_bind)

lemma recover_rows_known [simp]: "raises_known (recover_rows H D now rs rows)"
  by (induction rs arbitrary: rows) (auto intro!: raises_known_bind)

lemma check_all_known: "(\<And>x. raises_known (f x)) \<Longrightarrow> raises_known (check_all f xs)"
  by (induction xs) (auto intro!: raises_known_bind)

definition raises_job_or_overflow :: "'a result \<Rightarrow> bool" where
  "raises_job_or_overflow r \<longleftrightarrow> (\<forall>e. r = Inl e \<longrightarrow> is_SearchJobError e \<or> e = OverflowError)"

lemma raises_job_or_overflow_bind:
  "raises_job_or_overflow r \<Longrightarrow> (\<And>x. r = Inr x \<Longrightarrow> raises_job_or_overflow (k x)) \<Longrightarrow> raises_job_or_overflow (bind r k)"
  by (cases r) (auto simp: raises_job_or_overflow_def)

lemma job_errors_or_overflow: "raises_job_errors r \<Longrightarrow> raises_job_or_overflow r"
  by (auto simp: raises_job_errors_def raises_job_or_overflow_def)

lemma storage_errors_or_overflow: "raises_known r \<Longrightarrow> raises_job_or_overflow (storage_errors r)"
  by (cases r) (auto simp: raises_known_def raises_job_or_overflow_def storage_errors_def handled_def)

lemma raises_job_or_overflow_Inr [simp]: "raises_job_or_overflow (Inr x)"
  by (simp add: raises_job_or_overflow_def)

lemmas job_or_overflow_intros =
  raises_job_or_overflow_bind storage_errors_or_overflow job_errors_or_overflow validated_raises

lemma transaction_or_overflow: "raises_job_or_overflow (job_transaction H D decide o' l now rows)"
  if "\<And>t j. raises_known (decide t j)"
  unfolding job_transaction_def
  by (intro job_or_overflow_intros) (auto simp: that intro!: raises_known_bind split: option.split)

lemma repository_or_overflow:
  "raises_job_or_overflow (enqueue H D p now i l rows)"
  "raises_job_or_overflow (recover_interrupted H D now rows)"
  "raises_job_or_overflow (purge_expired H D now rows)"
proof -
  show "raises_job_or_overflow (enqueue H D p now i l rows)"
    unfolding enqueue_def
    by (intro job_or_overflow_intros)
      (auto simp: new_queued_job_def Let_def intro!: raises_known_bind split: option.split)
  show "raises_job_or_overflow (recover_interrupted H D now rows)"
    unfolding recover_interrupted_def Let_def
    by (intro job_or_overflow_intros) (auto intro!: raises_known_bind)
  show "raises_job_or_overflow (purge_expired H D now rows)"
    unfolding purge_expired_def Let_def
    by (intro job_or_overflow_intros)
      (auto simp: purge_check_def intro!: raises_known_bind check_all_known)
qed

lemma to_table_or_overflow: "raises_job_or_overflow r \<Longrightarrow> raises_job_or_overflow (to_table r)"
  by (auto simp: to_table_def split_def intro: raises_job_or_overflow_bind)

lemma job_step_or_overflow: "raises_job_or_overflow (job_step H D e rows)"
  by (cases e) (auto simp: transaction_defs intro!: to_table_or_overflow raises_job_or_overflow_bind
      repository_or_overflow transaction_or_overflow job_errors_or_overflow [OF validated_raises(4)])

context job_decision
begin

text \<open>A returned job is the job stored after the call, and a decision that succeeds is carried out.\<close>

lemma transaction_decides:
  assumes t: "job_table_ok H D rows" and H: "hex_digests H" and k: "is_subject_id o'" "is_token l"
    and v: "job_view H D rows (o', l) = Some j" and u: "job_updated j \<le> t" and d: "decide t j = Inr d"
  shows "\<exists>rows'. job_transaction H D decide o' l (Utc t) rows = Inr (case d of None \<Rightarrow> j | Some j' \<Rightarrow> j', rows') \<and>
    job_view H D rows' (o', l) = Some (case d of None \<Rightarrow> j | Some j' \<Rightarrow> j')"
proof -
  from v obtain i where i: "length i = 64" "row_of_job H D i j \<in> set rows"
    and o': "job_owner j = o'" "job_locator j = l" by (auto simp: job_view_eq_Some [OF t])
  show ?thesis
  proof (cases d)
    case None
    with v u d show ?thesis by (simp add: transaction_some [OF t H k v i])
  next
    case (Some j')
    with d have n: "next_job j j'" by (simp add: decide_next)
    from Some u d put_row_view [OF t i(2,1) n] o' show ?thesis
      by (simp add: transaction_some [OF t H k v i])
  qed
qed

lemma transaction_view:
  assumes t: "job_table_ok H D rows" and H: "hex_digests H"
    and e: "job_transaction H D decide o' l now rows = Inr (j, rows')"
  shows "job_view H D rows' (o', l) = Some j"
proof -
  from e obtain u j0 d where k: "is_subject_id o'" "is_token l" "now = Utc u"
    and v: "job_view H D rows (o', l) = Some j0" "job_updated j0 \<le> u" and d: "decide u j0 = Inr d"
    unfolding transaction_eq_Inr [OF t H] by blast
  from transaction_decides [OF t H k(1,2) v d] e k(3) show ?thesis by auto
qed

end

end
