(* ===== verification/Job_Executor.thy ===== *)
theory Job_Executor
  imports Search_Job_Props
begin

text \<open>
  \<open>LocalSearchJobExecutor\<close> of \<open>src/search_v2/search_job.py\<close>: one background worker, a FIFO queue
  of submitted jobs and one cancellation event per job. The threads are interleaved at the points
  where they touch shared state: a reading of the clock, a repository transaction, the state lock, the
  event and the queue are each a step of their own, so between a thread's reading of the clock and the
  transaction it passes the reading to, any other thread may go on. What a runner does between being
  called and ending is its outcome; runners are named by numbers. Two histories that the code does not
  keep record the submissions put into the queue and the runners called.
\<close>

definition local_search_owner_id :: string where
  "local_search_owner_id = ''local-user''"

section \<open>State\<close>

datatype queue_item = Work string nat | Stop

text \<open>How a runner ended: what it returned, the cancellation exception, any other \<open>Exception\<close>, or one that
  is no \<open>Exception\<close> (\<open>SystemExit\<close>, \<open>KeyboardInterrupt\<close>, \<open>asyncio.CancelledError\<close>).\<close>

datatype run_outcome = Returned "string py_arg" | Raised_cancelled | Raised_other | Raised_base

text \<open>What \<open>_run_one\<close> goes on to report.\<close>

datatype run_report = Report_success string | Report_cancelled | Report_failure

text \<open>Where the worker is: waiting for an item; having taken one, having read the clock for its claim,
  having claimed it; inside the runner; having ended, having read the clock for the report; about to
  drop the job's event, after which its thread goes on or dies.\<close>

datatype worker_phase =
    Waiting | Took string nat | Claiming string nat time | Claimed string nat | Calling string nat
  | Ended string run_report | Reporting string run_report time | Leaving string bool
  | Worker_dead | Worker_stopped

text \<open>The state lock: free, or held by a submission that has read the clock, or that has stored its job
  and not yet put it into the queue.\<close>

datatype lock_state = Free | Submitting string nat time | Publishing string nat

text \<open>The calls other threads have between their reading of the clock and their transaction.\<close>

datatype job_call = Call_get string | Call_cancel string

record executor =
  ex_jobs :: job_table
  ex_lock :: lock_state
  ex_calls :: "(job_call \<times> time) list"
  ex_signals :: "string list"
  ex_queue :: "queue_item list"
  ex_events :: "(string \<times> bool) list"
  ex_accepting :: bool
  ex_phase :: worker_phase
  ex_submitted :: "(string \<times> nat) list"
  ex_called :: "(string \<times> nat) list"

section \<open>The clock\<close>

text \<open>What the clock function did: it returned something, or raised an \<open>Exception\<close> or something else.\<close>

datatype clock_reading = Read time_arg | Clock_raised | Clock_raised_base

fun executor_now :: "clock_reading \<Rightarrow> time result" where
  "executor_now (Read now) = validated_now now"
| "executor_now Clock_raised = Inl SearchJobInputError"
| "executor_now Clock_raised_base = Inl BaseException"

section \<open>Calls of the executor\<close>

definition new_executor ::
  "(string \<Rightarrow> string) \<Rightarrow> (time \<Rightarrow> string) \<Rightarrow> clock_reading \<Rightarrow> job_table \<Rightarrow> executor result" where
  "new_executor H D reading rows =
     bind (executor_now reading) (\<lambda>t.
     bind (recover_interrupted H D (Utc t) rows) (\<lambda>(_, rows').
       Inr \<lparr>ex_jobs = rows', ex_lock = Free, ex_calls = [], ex_signals = [], ex_queue = [], ex_events = [],
            ex_accepting = True, ex_phase = Waiting, ex_submitted = [], ex_called = []\<rparr>))"

text \<open>\<open>submit\<close>: the arguments are checked; the lock is taken (the step needs it free) and the clock read; the
  job is enqueued; its event is registered, it is put into the queue and the lock released.\<close>

definition submit_start :: "string \<Rightarrow> nat \<Rightarrow> clock_reading \<Rightarrow> executor \<Rightarrow> unit result \<times> executor" where
  "submit_start binding runner reading s =
     (if \<not> submission_ok \<lparr>sub_owner = local_search_owner_id, sub_binding = binding\<rparr>
      then (Inl SearchJobInputError, s)
      else if \<not> ex_accepting s then (Inl (SearchJobStateError ''Search job executor is closed''), s)
      else case executor_now reading of
        Inl e \<Rightarrow> (Inl e, s)
      | Inr t \<Rightarrow> (Inr (), s\<lparr>ex_lock := Submitting binding runner t\<rparr>))"

definition submit_store ::
  "(string \<Rightarrow> string) \<Rightarrow> (time \<Rightarrow> string) \<Rightarrow> string \<Rightarrow> string \<Rightarrow> executor \<Rightarrow> job result \<times> executor" where
  "submit_store H D new_id new_locator s =
     (case ex_lock s of
        Submitting binding runner t \<Rightarrow>
          (case enqueue H D (Instance \<lparr>sub_owner = local_search_owner_id, sub_binding = binding\<rparr>) (Utc t)
                  new_id new_locator (ex_jobs s) of
             Inl e \<Rightarrow> (Inl e, s\<lparr>ex_lock := Free\<rparr>)
           | Inr ((j, created), rows') \<Rightarrow>
               (Inr j, s\<lparr>ex_jobs := rows', ex_lock := if created then Publishing (job_locator j) runner else Free\<rparr>))
      | _ \<Rightarrow> (Inl SearchJobInputError, s))"

definition submit_publish :: "executor \<Rightarrow> executor" where
  "submit_publish s =
     (case ex_lock s of
        Publishing l r \<Rightarrow>
          s\<lparr>ex_lock := Free, ex_events := AList.update l False (ex_events s),
            ex_queue := ex_queue s @ [Work l r], ex_submitted := ex_submitted s @ [(l, r)]\<rparr>
      | _ \<Rightarrow> s)"

text \<open>\<open>get\<close> and \<open>cancel\<close> read the clock, then run their transaction; \<open>cancel\<close> goes on to set the job's event
  under the lock.\<close>

definition call_start :: "job_call \<Rightarrow> clock_reading \<Rightarrow> executor \<Rightarrow> unit result \<times> executor" where
  "call_start c reading s =
     (case executor_now reading of
        Inl e \<Rightarrow> (Inl e, s)
      | Inr t \<Rightarrow> (Inr (), s\<lparr>ex_calls := (c, t) # ex_calls s\<rparr>))"

definition poll_job ::
  "(string \<Rightarrow> string) \<Rightarrow> (time \<Rightarrow> string) \<Rightarrow> string \<Rightarrow> time \<Rightarrow> executor \<Rightarrow> job result \<times> executor" where
  "poll_job H D locator t s =
     (case get_job H D local_search_owner_id locator (Utc t) (ex_jobs s) of
        Inl e \<Rightarrow> (Inl e, s)
      | Inr (j, rows') \<Rightarrow> (Inr j, s\<lparr>ex_jobs := rows'\<rparr>))"

definition cancel_store ::
  "(string \<Rightarrow> string) \<Rightarrow> (time \<Rightarrow> string) \<Rightarrow> string \<Rightarrow> time \<Rightarrow> executor \<Rightarrow> job result \<times> executor" where
  "cancel_store H D locator t s =
     (case request_cancel H D local_search_owner_id locator (Utc t) (ex_jobs s) of
        Inl e \<Rightarrow> (Inl e, s)
      | Inr (j, rows') \<Rightarrow> (Inr j, s\<lparr>ex_jobs := rows', ex_signals := job_locator j # ex_signals s\<rparr>))"

definition call_commit ::
  "(string \<Rightarrow> string) \<Rightarrow> (time \<Rightarrow> string) \<Rightarrow> job_call \<Rightarrow> time \<Rightarrow> executor \<Rightarrow> executor" where
  "call_commit H D c t s =
     (if (c, t) \<notin> set (ex_calls s) then s
      else let s' = s\<lparr>ex_calls := remove1 (c, t) (ex_calls s)\<rparr> in
        case c of Call_get l \<Rightarrow> snd (poll_job H D l t s') | Call_cancel l \<Rightarrow> snd (cancel_store H D l t s'))"

definition cancel_signal :: "string \<Rightarrow> executor \<Rightarrow> executor" where
  "cancel_signal locator s =
     (if locator \<in> set (ex_signals s) \<and> ex_lock s = Free
      then s\<lparr>ex_signals := remove1 locator (ex_signals s),
             ex_events := (case map_of (ex_events s) locator of None \<Rightarrow> ex_events s
                           | Some _ \<Rightarrow> AList.update locator True (ex_events s))\<rparr>
      else s)"

definition shutdown :: "executor \<Rightarrow> executor" where
  "shutdown s =
     (if ex_accepting s \<and> ex_lock s = Free
      then s\<lparr>ex_accepting := False, ex_queue := ex_queue s @ [Stop]\<rparr> else s)"

section \<open>Steps of the worker\<close>

definition enter :: "worker_phase \<Rightarrow> executor \<Rightarrow> executor" where
  "enter p s = s\<lparr>ex_phase := p\<rparr>"

text \<open>\<open>_run\<close>: the next item of the queue; the stop item ends the worker.\<close>

definition worker_take :: "executor \<Rightarrow> executor" where
  "worker_take s =
     (case (ex_phase s, ex_queue s) of
        (Waiting, Work l r # q) \<Rightarrow> enter (Took l r) (s\<lparr>ex_queue := q\<rparr>)
      | (Waiting, Stop # q) \<Rightarrow> enter Worker_stopped (s\<lparr>ex_queue := q\<rparr>)
      | _ \<Rightarrow> s)"

text \<open>An exception leaves the body of \<open>_run_one\<close>: job errors are swallowed, any other ends the worker's
  thread, in both cases after the job's event is dropped.\<close>

definition run_failed :: "string \<Rightarrow> exn \<Rightarrow> executor \<Rightarrow> executor" where
  "run_failed l e s = enter (Leaving l (\<not> is_SearchJobError e)) s"

text \<open>The worker reads the clock, for the claim or for the report.\<close>

definition worker_read :: "clock_reading \<Rightarrow> executor \<Rightarrow> executor" where
  "worker_read reading s =
     (case ex_phase s of
        Took l r \<Rightarrow>
          (case executor_now reading of Inl e \<Rightarrow> run_failed l e s | Inr t \<Rightarrow> enter (Claiming l r t) s)
      | Ended l x \<Rightarrow>
          (case executor_now reading of Inl e \<Rightarrow> run_failed l e s | Inr t \<Rightarrow> enter (Reporting l x t) s)
      | _ \<Rightarrow> s)"

definition worker_claim :: "(string \<Rightarrow> string) \<Rightarrow> (time \<Rightarrow> string) \<Rightarrow> executor \<Rightarrow> executor" where
  "worker_claim H D s =
     (case ex_phase s of
        Claiming l r t \<Rightarrow>
          (case claim_for_execution H D local_search_owner_id l (Utc t) (ex_jobs s) of
             Inl e \<Rightarrow> run_failed l e s
           | Inr (j, rows') \<Rightarrow>
               enter (if job_status j \<noteq> Job_running then Leaving l False else Claimed l r) (s\<lparr>ex_jobs := rows'\<rparr>))
      | _ \<Rightarrow> s)"

text \<open>The control object and its first checkpoint, then the runner is called.\<close>

definition worker_check :: "executor \<Rightarrow> executor" where
  "worker_check s =
     (case ex_phase s of
        Claimed l r \<Rightarrow>
          (case validated_locator l of
             Inl e \<Rightarrow> run_failed l e s
           | Inr _ \<Rightarrow>
               if map_of (ex_events s) l = Some True then enter (Ended l Report_cancelled) s
               else enter (Calling l r) (s\<lparr>ex_called := ex_called s @ [(l, r)]\<rparr>))
      | _ \<Rightarrow> s)"

text \<open>The \<open>except\<close> clauses around the runner; an exception that is no \<open>Exception\<close> passes them.\<close>

fun report_of :: "run_outcome \<Rightarrow> run_report result" where
  "report_of (Returned x) =
     (case validated_result x of Inl _ \<Rightarrow> Inr Report_failure | Inr l \<Rightarrow> Inr (Report_success l))"
| "report_of Raised_cancelled = Inr Report_cancelled"
| "report_of Raised_other = Inr Report_failure"
| "report_of Raised_base = Inl BaseException"

definition worker_return :: "run_outcome \<Rightarrow> executor \<Rightarrow> executor" where
  "worker_return outcome s =
     (case ex_phase s of
        Calling l r \<Rightarrow>
          (case report_of outcome of Inl e \<Rightarrow> run_failed l e s | Inr x \<Rightarrow> enter (Ended l x) s)
      | _ \<Rightarrow> s)"

fun report_call ::
  "(string \<Rightarrow> string) \<Rightarrow> (time \<Rightarrow> string) \<Rightarrow> string \<Rightarrow> run_report \<Rightarrow> time_arg \<Rightarrow> job_table \<Rightarrow> (job \<times> job_table) result" where
  "report_call H D l (Report_success x) now rows =
     finish_success H D local_search_owner_id l (Instance x) now rows"
| "report_call H D l Report_cancelled now rows = finish_cancelled H D local_search_owner_id l now rows"
| "report_call H D l Report_failure now rows = finish_failure H D local_search_owner_id l now rows"

definition worker_finish :: "(string \<Rightarrow> string) \<Rightarrow> (time \<Rightarrow> string) \<Rightarrow> executor \<Rightarrow> executor" where
  "worker_finish H D s =
     (case ex_phase s of
        Reporting l x t \<Rightarrow>
          (case report_call H D l x (Utc t) (ex_jobs s) of
             Inl e \<Rightarrow> run_failed l e s
           | Inr (j, rows') \<Rightarrow> enter (Leaving l False) (s\<lparr>ex_jobs := rows'\<rparr>))
      | _ \<Rightarrow> s)"

text \<open>The \<open>finally\<close> clause of \<open>_run_one\<close>, which needs the lock.\<close>

definition worker_leave :: "executor \<Rightarrow> executor" where
  "worker_leave s =
     (case ex_phase s of
        Leaving l died \<Rightarrow>
          if ex_lock s = Free
          then enter (if died then Worker_dead else Waiting) (s\<lparr>ex_events := AList.delete l (ex_events s)\<rparr>)
          else s
      | _ \<Rightarrow> s)"

section \<open>Interleaving\<close>

datatype executor_event =
    Submit_start string nat clock_reading
  | Submit_store string string
  | Submit_publish
  | Call_start job_call clock_reading
  | Call_commit job_call time
  | Cancel_signal string
  | Shutdown
  | Purge_jobs time_arg
  | Worker_take
  | Worker_read clock_reading
  | Worker_claim
  | Worker_check
  | Worker_return run_outcome
  | Worker_finish
  | Worker_leave

text \<open>One step of one thread; a step that is not enabled, or a call that raises, changes nothing but what
  the definitions above say. The purge is a call of the repository by anyone, with any time.\<close>

fun executor_step ::
  "(string \<Rightarrow> string) \<Rightarrow> (time \<Rightarrow> string) \<Rightarrow> executor_event \<Rightarrow> executor \<Rightarrow> executor" where
  "executor_step H D (Submit_start b r reading) s =
     (if ex_lock s = Free then snd (submit_start b r reading s) else s)"
| "executor_step H D (Submit_store i l) s = snd (submit_store H D i l s)"
| "executor_step H D Submit_publish s = submit_publish s"
| "executor_step H D (Call_start c reading) s = snd (call_start c reading s)"
| "executor_step H D (Call_commit c t) s = call_commit H D c t s"
| "executor_step H D (Cancel_signal l) s = cancel_signal l s"
| "executor_step H D Shutdown s = shutdown s"
| "executor_step H D (Purge_jobs now) s =
     (case purge_expired H D now (ex_jobs s) of Inl e \<Rightarrow> s | Inr (_, rows') \<Rightarrow> s\<lparr>ex_jobs := rows'\<rparr>)"
| "executor_step H D Worker_take s = worker_take s"
| "executor_step H D (Worker_read reading) s = worker_read reading s"
| "executor_step H D Worker_claim s = worker_claim H D s"
| "executor_step H D Worker_check s = worker_check s"
| "executor_step H D (Worker_return outcome) s = worker_return outcome s"
| "executor_step H D Worker_finish s = worker_finish H D s"
| "executor_step H D Worker_leave s = worker_leave s"

definition executor_run ::
  "(string \<Rightarrow> string) \<Rightarrow> (time \<Rightarrow> string) \<Rightarrow> executor \<Rightarrow> executor_event list \<Rightarrow> executor" where
  "executor_run H D s es = fold (executor_step H D) es s"

end
