(* ===== verification/Job_Executor_Props.thy ===== *)
theory Job_Executor_Props
  imports Job_Executor
begin

text \<open>
  The invariant of the executor under every interleaving of its callers, its worker and the purge,
  whatever the clocks read: every active job waits, is held by the worker, or was left by a step that
  could not help it.
\<close>

section \<open>Effects of repository calls on the map of jobs\<close>

lemma updated_times:
  "updated_job (running_from t) j = Inr j' \<Longrightarrow> job_updated j' = t"
  "updated_job (cancel_requested_from t) j = Inr j' \<Longrightarrow> job_updated j' = t"
  "terminal_job j status t result failure cancel_at = Inr j' \<Longrightarrow> job_updated j' = t"
  by (auto simp: updated_job_eq_Inr terminal_job_eq_Inr running_from_def cancel_requested_from_def
      finished_with_def)

locale timed_transition = job_transition +
  assumes decide_time: "decide t j = Inr (Some j') \<Longrightarrow> job_updated j' = t"
begin

lemma transaction_effect:
  assumes t: "job_table_ok H D rows" and H: "hex_digests H"
    and e: "job_transaction H D decide o' l now rows = Inr (x, rows')"
  obtains u j d where "now = Utc u" and "is_token l" and "job_view H D rows (o', l) = Some j"
    and "job_updated j \<le> u" and "decide u j = Inr d" and "x = (case d of None \<Rightarrow> j | Some j' \<Rightarrow> j')"
    and "job_view H D rows' = (job_view H D rows)((o', l) \<mapsto> x)" and "job_updated x \<le> u"
    and "job_table_ok H D rows'"
proof -
  from e obtain u j d where a: "now = Utc u" "is_token l" "job_view H D rows (o', l) = Some j"
    "job_updated j \<le> u" "decide u j = Inr d"
    and d: "d = None \<and> x = j \<and> rows' = rows \<or> d = Some x \<and> (\<exists>i. length i = 64 \<and>
      row_of_job H D i j \<in> set rows \<and> rows' = put_row (row_of_job H D i x) rows)"
    unfolding transaction_eq_Inr [OF t H] by blast
  note t' = transaction_inv [OF t H e]
  from d show thesis
  proof
    assume "d = None \<and> x = j \<and> rows' = rows"
    with a t' show thesis by (intro that [of u j d]) auto
  next
    assume s: "d = Some x \<and> (\<exists>i. length i = 64 \<and>
      row_of_job H D i j \<in> set rows \<and> rows' = put_row (row_of_job H D i x) rows)"
    with a have n: "next_job j x" by (simp add: decide_next)
    have key: "job_owner j = o'" "job_locator j = l" using a(3) by (simp_all add: job_view_eq_Some [OF t])
    from s have "job_view H D rows' = (job_view H D rows)((o', l) \<mapsto> x)"
      using put_row_view [OF t _ _ n] key by auto
    with a s t' decide_time [of u j x] show thesis by (intro that [of u j d]) auto
  qed
qed

end

interpretation get: timed_transition get_decision
  by unfold_locales (auto simp: get_decision_def dest!: updated_times split: if_splits)

interpretation claim: timed_transition claim_decision
  by unfold_locales (auto simp: claim_decision_def dest!: updated_times split: if_splits)

interpretation cancel: timed_transition cancel_decision
  by unfold_locales (auto simp: cancel_decision_def dest!: updated_times split: if_splits)

interpretation finish: timed_transition "finish_decision result failure cancelled"
  by unfold_locales
    (auto simp: finish_decision_def dest!: updated_times split: if_splits option.splits)

lemma option_eqI: "(\<And>x. a = Some x \<longleftrightarrow> b = Some x) \<Longrightarrow> a = b"
  by (metis not_None_eq)

lemma enqueue_view:
  assumes t: "job_table_ok H D rows" and e: "enqueue H D (Instance s) (Utc u) i l rows = Inr ((j, created), rows')"
  shows "if created then j = queued_job s l u \<and> validate_job j = Inr () \<and> is_token l \<and>
      (\<forall>o'. job_view H D rows (o', l) = None) \<and>
      job_view H D rows' = (job_view H D rows)((sub_owner s, l) \<mapsto> j)
    else rows' = rows"
proof (cases created)
  case False
  with e show ?thesis by (auto simp: enqueue_eq_Inr [OF t] split: if_splits)
next
  case True
  with e have j: "j = queued_job s l u" "validate_job j = Inr ()"
    and n: "\<forall>r\<in>set rows. \<not> row_conflicts (row_of_job H D i j) r" and rows': "rows' = rows @ [row_of_job H D i j]"
    by (auto simp: enqueue_eq_Inr [OF t] split: if_splits)
  note t' = enqueue_inv [OF t e]
  have l: "is_token l" using j by (simp add: queued_job_valid)
  have "job_view H D rows' (o', m) = ((job_view H D rows)((sub_owner s, l) \<mapsto> j)) (o', m)" for o' m
  proof (cases "(o', m) = (sub_owner s, l)")
    case True
    have "row_of_job H D i j \<in> set rows'" by (simp add: rows')
    from job_view_mem [OF t' j(2) this] True j(1) show ?thesis by simp
  next
    case False
    have "job_view H D rows' (o', m) = Some x \<longleftrightarrow> job_view H D rows (o', m) = Some x" for x
    proof -
      have "row_of_job H D k x \<noteq> row_of_job H D i j" if "job_owner x = o'" "job_locator x = m" for k
        using that False j(1) by (metis row_columns(2,3) queued_job_sel(1,2))
      then have "row_of_job H D k x \<in> set rows' \<longleftrightarrow> row_of_job H D k x \<in> set rows"
        if "job_owner x = o'" "job_locator x = m" for k
        using that unfolding rows' by simp
      then show ?thesis
        unfolding job_view_eq_Some [OF t] job_view_eq_Some [OF t'] by blast
    qed
    then have "job_view H D rows' (o', m) = job_view H D rows (o', m)" by (rule option_eqI)
    with False show ?thesis by auto
  qed
  then have "job_view H D rows' = (job_view H D rows)((sub_owner s, l) \<mapsto> j)" by (auto simp: fun_eq_iff)
  moreover have "job_view H D rows (o', l) \<noteq> Some x" for o' x
  proof
    assume "job_view H D rows (o', l) = Some x"
    then obtain k where "job_locator x = l" "row_of_job H D k x \<in> set rows"
      unfolding job_view_eq_Some [OF t] by blast
    with n j(1) show False by (auto simp: row_conflicts_def)
  qed
  then have "job_view H D rows (o', l) = None" for o' by (cases "job_view H D rows (o', l)") auto
  ultimately show ?thesis using True j l by simp
qed

lemma purge_view_sub:
  assumes t: "job_table_ok H D rows" and e: "purge_expired H D (Utc u) rows = Inr (n, rows')"
    and v: "job_view H D rows' k = Some j"
  shows "job_view H D rows k = Some j"
proof -
  have "set rows' \<subseteq> set rows" using e by (auto simp: purge_expired_def Let_def)
  with view_mono [OF purge_inv [OF t e] t _ v] show ?thesis by blast
qed

lemma claim_decides:
  assumes "validate_job j = Inr ()" and "job_updated j \<le> t" and "t + job_retention \<le> time_max"
  shows "\<exists>d. claim_decision t j = Inr d"
  using assms run_ok [of j t] time_out_ok [of j t]
  by (auto simp: claim_decision_def is_ok_iff not_less changed_def)

lemma finish_decides:
  assumes "validate_job j = Inr ()" and "job_updated j \<le> t" and "t + job_retention \<le> time_max"
    and "job_status j \<in> {Job_running, Job_cancel_requested}"
    and "cancelled \<or> (\<exists>l. result = Some l \<and> is_token l) \<or> result = None \<and> failure = Some Execution_failed"
  shows "\<exists>j'. finish_decision result failure cancelled t j = Inr (Some j') \<and> job_status j' \<in> set terminal_statuses"
proof -
  have c: "job_cancel_at j = Some (first_time (job_cancel_at j) t)" if "job_status j = Job_cancel_requested"
    using contract_cancel_requested [OF assms(1) that] by (simp add: first_time_def)
  have r: "first_time (job_cancel_at j) t = t" if "job_status j = Job_running"
    using contract_running [OF assms(1) that] by (simp add: first_time_def)
  have ends: "job_status j' \<in> set terminal_statuses" if "finish_decision result failure cancelled t j = Inr (Some j')" for j'
    using that
    by (auto simp: finish_decision_def terminal_statuses_def dest!: updated_moves split: if_splits option.splits)
  have "\<exists>j'. finish_decision result failure cancelled t j = Inr (Some j')"
  proof (cases "job_status j = Job_cancel_requested")
    case True
    with c finish_cancel_requested_ok [OF assms(1) True assms(2,3)] show ?thesis
      by (auto simp: finish_decision_def is_ok_iff)
  next
    case False
    then have s: "job_status j = Job_running" using assms(4) by auto
    with finish_running_ok [OF assms(1) s assms(2,3)] r assms(5) show ?thesis
      by (auto simp: finish_decision_def is_ok_iff split: option.splits)
  qed
  with ends show ?thesis by blast
qed

lemma transaction_late:
  assumes t: "job_table_ok H D rows" and H: "hex_digests H" and d: "job_decision decide"
    and k: "is_subject_id o'" "is_token l" and v: "job_view H D rows (o', l) = Some j" and u: "t < job_updated j"
  shows "job_transaction H D decide o' l (Utc t) rows = Inl job_state_error"
proof -
  from v obtain i where i: "length i = 64" "row_of_job H D i j \<in> set rows" by (auto simp: job_view_eq_Some [OF t])
  show ?thesis
    using u by (simp add: job_decision.transaction_some [OF d t H k v i] storage_errors_def job_state_error_def)
qed

text \<open>The purge keeps every job without a purge time.\<close>

lemma purge_keeps:
  assumes t: "job_table_ok H D rows" and e: "purge_expired H D now rows = Inr (n, rows')"
    and v: "job_view H D rows k = Some j" and p: "job_purge_after j = None"
  shows "job_view H D rows' k = Some j"
proof -
  obtain o' l where k: "k = (o', l)" by fastforce
  from v obtain i where j: "validate_job j = Inr ()" "job_owner j = o'" "job_locator j = l"
    and i: "row_of_job H D i j \<in> set rows" by (auto simp: k job_view_eq_Some [OF t])
  from e obtain u where u: "now = Utc u" by (cases now) (auto simp: purge_expired_def validated_now_def job_utc_datetime_def)
  have due: "row_id r \<noteq> i" if "r \<in> set rows" "purge_due u r" for r
  proof
    assume "row_id r = i"
    then have "r = row_of_job H D i j" by (intro row_unique [OF t that(1) i]) simp
    with that(2) p show False by (simp add: purge_due_def)
  qed
  have "rows' = filter (\<lambda>r. row_id r \<notin> set (map row_id (sort_key (\<lambda>r. (row_purge_after r, row_id r))
      (filter (purge_due u) rows)))) rows"
    using e by (auto simp: u purge_expired_def Let_def)
  with i due have "row_of_job H D i j \<in> set rows'" by fastforce
  with job_view_mem [OF purge_inv [OF t e] j(1)] j k show ?thesis by simp
qed

lemma purge_sub:
  assumes t: "job_table_ok H D rows" and e: "purge_expired H D now rows = Inr (n, rows')"
    and v: "job_view H D rows' k = Some j"
  shows "job_view H D rows k = Some j"
proof -
  from e obtain u where "now = Utc u" by (cases now) (auto simp: purge_expired_def validated_now_def job_utc_datetime_def)
  with purge_view_sub [OF t _ v] e show ?thesis by simp
qed

section \<open>Accounting for the jobs\<close>

text \<open>The job the worker holds: it has claimed it and not yet reported its end.\<close>

fun held :: "worker_phase \<Rightarrow> string option" where
  "held (Claimed l _) = Some l"
| "held (Calling l _) = Some l"
| "held (Ended l _) = Some l"
| "held (Reporting l _ _) = Some l"
| "held _ = None"

text \<open>The job the worker has taken and not yet claimed.\<close>

fun taken :: "worker_phase \<Rightarrow> string option" where
  "taken (Took l _) = Some l"
| "taken (Claiming l _ _) = Some l"
| "taken _ = None"

definition waiting :: "executor \<Rightarrow> string set" where
  "waiting s = {l. (\<exists>r. Work l r \<in> set (ex_queue s) \<or> ex_lock s = Publishing l r) \<or> taken (ex_phase s) = Some l}"

definition executing :: "job_status \<Rightarrow> bool" where
  "executing st \<longleftrightarrow> st = Job_running \<or> st = Job_cancel_requested"

text \<open>Every queued job waits, every executing job is held, both up to the jobs \<open>L\<close> that were left; and the
  held job is executing.\<close>

definition accounted_jobs ::
  "(string \<Rightarrow> string) \<Rightarrow> (time \<Rightarrow> string) \<Rightarrow> string set \<Rightarrow> job_table \<Rightarrow> string set \<Rightarrow> string option \<Rightarrow> bool" where
  "accounted_jobs H D L rows W h \<longleftrightarrow> job_table_ok H D rows \<and>
     (\<forall>k j. job_view H D rows k = Some j \<longrightarrow>
        (job_status j = Job_queued \<longrightarrow> fst k = local_search_owner_id \<and> snd k \<in> W \<union> L) \<and>
        (executing (job_status j) \<longrightarrow> fst k = local_search_owner_id \<and> (h = Some (snd k) \<or> snd k \<in> L))) \<and>
     (\<forall>l. h = Some l \<longrightarrow> (\<exists>j. job_view H D rows (local_search_owner_id, l) = Some j \<and> executing (job_status j)))"

lemma accounted_jobsD:
  assumes "accounted_jobs H D L rows W h"
  shows "job_table_ok H D rows"
    and "job_view H D rows k = Some j \<Longrightarrow> job_status j = Job_queued \<Longrightarrow> fst k = local_search_owner_id \<and> snd k \<in> W \<union> L"
    and "job_view H D rows k = Some j \<Longrightarrow> executing (job_status j) \<Longrightarrow>
      fst k = local_search_owner_id \<and> (h = Some (snd k) \<or> snd k \<in> L)"
    and "h = Some l \<Longrightarrow> \<exists>j. job_view H D rows (local_search_owner_id, l) = Some j \<and> executing (job_status j)"
  using assms unfolding accounted_jobs_def by blast+

lemma accounted_mono:
  "accounted_jobs H D L rows W h \<Longrightarrow> W \<union> L \<subseteq> W' \<union> L' \<Longrightarrow> L \<subseteq> L' \<Longrightarrow> accounted_jobs H D L' rows W' h"
  unfolding accounted_jobs_def by blast

text \<open>A job ceases to be waited for.\<close>

lemma accounted_unwait:
  assumes "accounted_jobs H D L rows (insert l W) h"
    and "\<And>j. job_view H D rows (local_search_owner_id, l) = Some j \<Longrightarrow> job_status j = Job_queued \<Longrightarrow> l \<in> W \<union> L"
  shows "accounted_jobs H D L rows W h"
proof -
  have "snd k \<in> W \<union> L" if v: "job_view H D rows k = Some j" and q: "job_status j = Job_queued" for k j
  proof -
    note a = accounted_jobsD(2) [OF assms(1) v q]
    show ?thesis
    proof (cases "snd k = l")
      case True
      with a have "k = (local_search_owner_id, l)" by (metis prod.collapse)
      with v assms(2) [OF _ q] True show ?thesis by simp
    qed (use a in auto)
  qed
  with assms(1) show ?thesis unfolding accounted_jobs_def by blast
qed

text \<open>One job changes; \<open>h'\<close> is what the worker holds then.\<close>

lemma accounted_update:
  assumes a: "accounted_jobs H D L rows W h" and t': "job_table_ok H D rows'"
    and v': "job_view H D rows' = (job_view H D rows)((local_search_owner_id, l) \<mapsto> x)"
    and q: "job_status x = Job_queued \<Longrightarrow> l \<in> W \<union> L"
    and e: "executing (job_status x) \<Longrightarrow> h' = Some l \<or> l \<in> L"
    and h: "h' = h \<and> (h = Some l \<longrightarrow> executing (job_status x)) \<or>
      (h = None \<or> h = Some l) \<and> (h' = None \<or> h' = Some l \<and> executing (job_status x))"
  shows "accounted_jobs H D L rows' W h'"
proof -
  have one: "(job_status y = Job_queued \<longrightarrow> fst k = local_search_owner_id \<and> snd k \<in> W \<union> L) \<and>
      (executing (job_status y) \<longrightarrow> fst k = local_search_owner_id \<and> (h' = Some (snd k) \<or> snd k \<in> L))"
    if "job_view H D rows' k = Some y" for k y
  proof (cases "k = (local_search_owner_id, l)")
    case True
    with that v' have "y = x" by simp
    with True q e show ?thesis by auto
  next
    case False
    with that v' have y: "job_view H D rows k = Some y" by simp
    have "h' = Some (snd k) \<or> snd k \<in> L" if "executing (job_status y)"
    proof -
      from accounted_jobsD(3) [OF a y that] have k: "fst k = local_search_owner_id" "h = Some (snd k) \<or> snd k \<in> L" by auto
      with False have "snd k \<noteq> l" by (metis prod.collapse)
      with k(2) h show ?thesis by auto
    qed
    with accounted_jobsD(2,3) [OF a y] show ?thesis by blast
  qed
  have two: "\<exists>y. job_view H D rows' (local_search_owner_id, m) = Some y \<and> executing (job_status y)" if "h' = Some m" for m
    using h
  proof
    assume "h' = h \<and> (h = Some l \<longrightarrow> executing (job_status x))"
    with that accounted_jobsD(4) [OF a, of m] v' show ?thesis by (cases "m = l") auto
  next
    assume "(h = None \<or> h = Some l) \<and> (h' = None \<or> h' = Some l \<and> executing (job_status x))"
    with that v' show ?thesis by auto
  qed
  show ?thesis unfolding accounted_jobs_def using t' one two by blast
qed

text \<open>The worker lets go of the job it holds.\<close>

lemma accounted_drop: "accounted_jobs H D L rows W (Some l) \<Longrightarrow> l \<in> L \<Longrightarrow> accounted_jobs H D L rows W None"
  unfolding accounted_jobs_def by blast

lemma accounted_purge:
  assumes a: "accounted_jobs H D L rows W h" and e: "purge_expired H D now rows = Inr (n, rows')"
  shows "accounted_jobs H D L rows' W h"
proof -
  note t = accounted_jobsD(1) [OF a]
  have "\<exists>j. job_view H D rows' (local_search_owner_id, l) = Some j \<and> executing (job_status j)" if h: "h = Some l" for l
  proof -
    from accounted_jobsD(4) [OF a h] obtain j where v: "job_view H D rows (local_search_owner_id, l) = Some j"
      and x: "executing (job_status j)" by blast
    have "job_purge_after j = None"
      using contract_running [OF view_valid [OF t v]] contract_cancel_requested [OF view_valid [OF t v]] x
      by (auto simp: executing_def later_state_empty_def)
    with purge_keeps [OF t e v] x show ?thesis by blast
  qed
  then show ?thesis
    unfolding accounted_jobs_def using purge_inv [OF t e] purge_sub [OF t e] accounted_jobsD(2,3) [OF a] by blast
qed

lemma accounted_enqueue:
  assumes a: "accounted_jobs H D L rows W h"
    and e: "enqueue H D (Instance \<lparr>sub_owner = local_search_owner_id, sub_binding = b\<rparr>) (Utc u) i l rows = Inr ((j, created), rows')"
  shows "accounted_jobs H D L rows' (if created then insert (job_locator j) W else W) h"
    and "created \<longrightarrow> is_token (job_locator j)"
proof -
  note t = accounted_jobsD(1) [OF a] and v = enqueue_view [OF accounted_jobsD(1) [OF a] e]
  have "accounted_jobs H D L rows' (if created then insert (job_locator j) W else W) h \<and> (created \<longrightarrow> is_token (job_locator j))"
  proof (cases created)
    case False
    with v a show ?thesis by simp
  next
    case True
    with v have j: "job_locator j = l" "job_status j = Job_queued" "is_token l"
      and n: "job_view H D rows (local_search_owner_id, l) = None"
      and v': "job_view H D rows' = (job_view H D rows)((local_search_owner_id, l) \<mapsto> j)" by auto
    have "h \<noteq> Some l" using accounted_jobsD(4) [OF a, of l] n by auto
    moreover have "accounted_jobs H D L rows (insert l W) h" by (rule accounted_mono [OF a]) auto
    ultimately have "accounted_jobs H D L rows' (insert l W) h"
      by (rule_tac accounted_update [OF _ enqueue_inv [OF t e] v']) (auto simp: j executing_def)
    with True j show ?thesis by simp
  qed
  then show "accounted_jobs H D L rows' (if created then insert (job_locator j) W else W) h"
    "created \<longrightarrow> is_token (job_locator j)" by blast+
qed

section \<open>The jobs that are left\<close>

text \<open>A time a transaction on a job is refused for: earlier than the job's last update, or so late that its
  retention ends after the year 9999. Only an active job is left by it.\<close>

definition untimely :: "(string \<Rightarrow> string) \<Rightarrow> (time \<Rightarrow> string) \<Rightarrow> executor \<Rightarrow> string \<Rightarrow> time \<Rightarrow> bool" where
  "untimely H D s l t \<longleftrightarrow> (\<exists>j. job_view H D (ex_jobs s) (local_search_owner_id, l) = Some j \<and>
     job_status j \<in> set active_statuses \<and> (t < job_updated j \<or> time_max < t + job_retention))"

text \<open>The job a step of the worker leaves unfinished: its clock failed, its claim or report came with an
  untimely reading, or its runner raised an exception that is no \<open>Exception\<close>.\<close>

fun left_by :: "(string \<Rightarrow> string) \<Rightarrow> (time \<Rightarrow> string) \<Rightarrow> executor_event \<Rightarrow> executor \<Rightarrow> string set" where
  "left_by H D (Worker_read reading) s =
     (case ex_phase s of
        Took l r \<Rightarrow> if is_ok (executor_now reading) then {} else {l}
      | Ended l x \<Rightarrow> if is_ok (executor_now reading) then {} else {l}
      | _ \<Rightarrow> {})"
| "left_by H D Worker_claim s =
     (case ex_phase s of Claiming l r t \<Rightarrow> if untimely H D s l t then {l} else {} | _ \<Rightarrow> {})"
| "left_by H D (Worker_return outcome) s =
     (case ex_phase s of Calling l r \<Rightarrow> if outcome = Raised_base then {l} else {} | _ \<Rightarrow> {})"
| "left_by H D Worker_finish s =
     (case ex_phase s of Reporting l x t \<Rightarrow> if untimely H D s l t then {l} else {} | _ \<Rightarrow> {})"
| "left_by H D _ s = {}"

fun left_jobs ::
  "(string \<Rightarrow> string) \<Rightarrow> (time \<Rightarrow> string) \<Rightarrow> executor \<Rightarrow> executor_event list \<Rightarrow> string set" where
  "left_jobs H D s [] = {}"
| "left_jobs H D s (e # es) = left_by H D e s \<union> left_jobs H D (executor_step H D e s) es"

section \<open>The executor's invariant\<close>

definition report_ok :: "run_report \<Rightarrow> bool" where
  "report_ok x \<longleftrightarrow> (case x of Report_success l \<Rightarrow> is_token l | _ \<Rightarrow> True)"

definition names_ok :: "executor \<Rightarrow> bool" where
  "names_ok s \<longleftrightarrow> (\<forall>l\<in>waiting s. is_token l) \<and> (\<forall>l. held (ex_phase s) = Some l \<longrightarrow> is_token l) \<and>
     (\<forall>l x. ex_phase s = Ended l x \<longrightarrow> report_ok x) \<and> (\<forall>l x t. ex_phase s = Reporting l x t \<longrightarrow> report_ok x)"

lemma names_ok_phase:
  "names_ok s \<Longrightarrow> \<forall>m\<in>waiting s'. is_token m \<Longrightarrow> ex_phase s' = ex_phase s \<Longrightarrow> names_ok s'"
  by (simp add: names_ok_def)

text \<open>The worker's thread is dead only when it left a job.\<close>

definition dead_ok :: "string set \<Rightarrow> worker_phase \<Rightarrow> bool" where
  "dead_ok L p \<longleftrightarrow> (\<forall>l. p = Leaving l True \<longrightarrow> l \<in> L) \<and> (p = Worker_dead \<longrightarrow> L \<noteq> {})"

definition executor_ok :: "(string \<Rightarrow> string) \<Rightarrow> (time \<Rightarrow> string) \<Rightarrow> string set \<Rightarrow> executor \<Rightarrow> bool" where
  "executor_ok H D L s \<longleftrightarrow> accounted_jobs H D L (ex_jobs s) (waiting s) (held (ex_phase s)) \<and> names_ok s \<and>
     dead_ok L (ex_phase s)"

lemma executor_okD:
  assumes "executor_ok H D L s"
  shows "accounted_jobs H D L (ex_jobs s) (waiting s) (held (ex_phase s))" and "names_ok s" and "dead_ok L (ex_phase s)"
    and "job_table_ok H D (ex_jobs s)"
  using assms accounted_jobsD(1) unfolding executor_ok_def by blast+

lemma executor_okI:
  "accounted_jobs H D L (ex_jobs s) (waiting s) (held (ex_phase s)) \<Longrightarrow> names_ok s \<Longrightarrow> dead_ok L (ex_phase s) \<Longrightarrow>
    executor_ok H D L s"
  by (simp add: executor_ok_def)

lemma local_owner_ok [simp]: "is_subject_id local_search_owner_id"
  by (simp add: local_search_owner_id_def is_subject_id_def chars_in_def alnum_chars_def subject_chars_def)

lemma enter_sel [simp]:
  "ex_jobs (enter p s) = ex_jobs s" "ex_queue (enter p s) = ex_queue s" "ex_phase (enter p s) = p"
  "ex_events (enter p s) = ex_events s" "ex_lock (enter p s) = ex_lock s" "ex_called (enter p s) = ex_called s"
  "ex_submitted (enter p s) = ex_submitted s" "ex_calls (enter p s) = ex_calls s"
  by (simp_all add: enter_def)

lemma dead_ok_simps [simp]:
  "dead_ok L Waiting" "dead_ok L (Took l r)" "dead_ok L (Claiming l r t)" "dead_ok L (Claimed l r)"
  "dead_ok L (Calling l r)" "dead_ok L (Ended l x)" "dead_ok L (Reporting l x t)" "dead_ok L Worker_stopped"
  "dead_ok L (Leaving l died) \<longleftrightarrow> died \<longrightarrow> l \<in> L"
  by (auto simp: dead_ok_def)

text \<open>A step that leaves the table, the waiting jobs and the phase as they are.\<close>

lemma executor_ok_same:
  "executor_ok H D L s \<Longrightarrow> ex_jobs s' = ex_jobs s \<Longrightarrow> waiting s' = waiting s \<Longrightarrow> ex_phase s' = ex_phase s \<Longrightarrow>
    executor_ok H D L s'"
  by (simp add: executor_ok_def names_ok_def)

lemma executor_ok_jobs:
  "executor_ok H D L s \<Longrightarrow> accounted_jobs H D L rows' (waiting s) (held (ex_phase s)) \<Longrightarrow> ex_jobs s' = rows' \<Longrightarrow>
    waiting s' = waiting s \<Longrightarrow> ex_phase s' = ex_phase s \<Longrightarrow> executor_ok H D L s'"
  by (simp add: executor_ok_def names_ok_def)

section \<open>Steps of the callers\<close>

lemma ok_submit_start:
  assumes ok: "executor_ok H D L s" and "ex_lock s = Free"
  shows "executor_ok H D L (snd (submit_start b r reading s))"
  by (rule executor_ok_same [OF ok])
    (use assms(2) in \<open>auto simp: submit_start_def waiting_def split: sum.split\<close>)

lemma ok_submit_store:
  assumes ok: "executor_ok H D L s"
  shows "executor_ok H D L (snd (submit_store H D i l s))"
proof (cases "ex_lock s")
  case (Submitting b r t)
  let ?p = "\<lparr>sub_owner = local_search_owner_id, sub_binding = b\<rparr>"
  show ?thesis
  proof (cases "enqueue H D (Instance ?p) (Utc t) i l (ex_jobs s)")
    case (Inl e)
    with Submitting show ?thesis
      by (intro executor_ok_same [OF ok]) (auto simp: submit_store_def waiting_def)
  next
    case (Inr x)
    obtain j created rows' where x: "x = ((j, created), rows')" by (metis prod.collapse)
    note e = Inr [unfolded x]
    let ?s = "snd (submit_store H D i l s)"
    have s: "?s = s\<lparr>ex_jobs := rows', ex_lock := if created then Publishing (job_locator j) r else Free\<rparr>"
      using Submitting e by (simp add: submit_store_def)
    have w: "waiting ?s = (if created then insert (job_locator j) (waiting s) else waiting s)"
      unfolding s using Submitting by (auto simp: waiting_def)
    have "accounted_jobs H D L (ex_jobs ?s) (waiting ?s) (held (ex_phase ?s))"
      unfolding w using accounted_enqueue(1) [OF executor_okD(1) [OF ok] e] s by simp
    moreover have "ex_phase ?s = ex_phase s" by (simp add: s)
    moreover have "\<forall>m\<in>waiting s. is_token m" using executor_okD(2) [OF ok] unfolding names_ok_def by blast
    then have "\<forall>m\<in>waiting ?s. is_token m"
      unfolding w using accounted_enqueue(2) [OF executor_okD(1) [OF ok] e] by (cases created) simp_all
    then have "names_ok ?s"
      using \<open>ex_phase ?s = ex_phase s\<close> by (rule names_ok_phase [OF executor_okD(2) [OF ok]])
    ultimately show ?thesis using executor_okD(3) [OF ok] s by (intro executor_okI) simp_all
  qed
qed (use ok in \<open>simp_all add: submit_store_def\<close>)

lemma ok_submit_publish:
  assumes ok: "executor_ok H D L s"
  shows "executor_ok H D L (submit_publish s)"
proof (cases "ex_lock s")
  case (Publishing l r)
  then have "waiting (submit_publish s) = waiting s" by (auto simp: submit_publish_def waiting_def)
  with Publishing show ?thesis by (intro executor_ok_same [OF ok]) (simp_all add: submit_publish_def)
qed (use ok in \<open>simp_all add: submit_publish_def\<close>)

lemma ok_call_start: "executor_ok H D L s \<Longrightarrow> executor_ok H D L (snd (call_start c reading s))"
  by (erule executor_ok_same) (auto simp: call_start_def waiting_def split: sum.split)

lemma ok_transaction:
  assumes ok: "executor_ok H D L s" and H: "hex_digests H" and d: "timed_transition decide"
    and e: "job_transaction H D decide local_search_owner_id l (Utc t) (ex_jobs s) = Inr (x, rows')"
    and m: "\<And>j j'. decide t j = Inr (Some j') \<Longrightarrow> (job_status j' \<noteq> Job_queued) \<and>
      (executing (job_status j') \<longleftrightarrow> executing (job_status j))"
  shows "accounted_jobs H D L rows' (waiting s) (held (ex_phase s))"
proof -
  obtain j dc where v: "job_view H D (ex_jobs s) (local_search_owner_id, l) = Some j" and dc: "decide t j = Inr dc"
    and x: "x = (case dc of None \<Rightarrow> j | Some j' \<Rightarrow> j')"
    and v': "job_view H D rows' = (job_view H D (ex_jobs s))((local_search_owner_id, l) \<mapsto> x)"
    and t': "job_table_ok H D rows'"
    using timed_transition.transaction_effect [OF d executor_okD(4) [OF ok] H e] by blast
  note a = executor_okD(1) [OF ok]
  have "(job_status x = Job_queued \<longrightarrow> job_status j = Job_queued) \<and> (executing (job_status x) \<longleftrightarrow> executing (job_status j))"
  proof (cases dc)
    case (Some j')
    with x m [OF dc [unfolded Some]] show ?thesis by simp
  qed (simp add: x)
  then have st: "job_status x = Job_queued \<Longrightarrow> job_status j = Job_queued"
    "executing (job_status x) \<longleftrightarrow> executing (job_status j)" by blast+
  have "held (ex_phase s) = Some l \<longrightarrow> executing (job_status x)"
    using accounted_jobsD(4) [OF a, of l] v st(2) by auto
  then show ?thesis
    using accounted_jobsD(2,3) [OF a v] st by (intro accounted_update [OF a t' v']) auto
qed

lemma ok_poll:
  assumes ok: "executor_ok H D L s" and H: "hex_digests H"
  shows "executor_ok H D L (snd (poll_job H D l t s))"
proof (cases "get_job H D local_search_owner_id l (Utc t) (ex_jobs s)")
  case (Inr x)
  obtain j rows' where x: "x = (j, rows')" by (cases x)
  have "accounted_jobs H D L rows' (waiting s) (held (ex_phase s))"
    using Inr x
    by (intro ok_transaction [OF ok H get.timed_transition_axioms, of l t j])
      (auto simp: get_job_def get_decision_def executing_def dest: updated_moves split: if_splits)
  with Inr x show ?thesis by (intro executor_ok_jobs [OF ok]) (auto simp: poll_job_def waiting_def)
qed (use ok in \<open>simp add: poll_job_def\<close>)

lemma ok_cancel:
  assumes ok: "executor_ok H D L s" and H: "hex_digests H"
  shows "executor_ok H D L (snd (cancel_store H D l t s))"
proof (cases "request_cancel H D local_search_owner_id l (Utc t) (ex_jobs s)")
  case (Inr x)
  obtain j rows' where x: "x = (j, rows')" by (cases x)
  have "accounted_jobs H D L rows' (waiting s) (held (ex_phase s))"
    using Inr x
    by (intro ok_transaction [OF ok H cancel.timed_transition_axioms, of l t j])
      (auto simp: request_cancel_def cancel_decision_def executing_def dest: updated_moves split: if_splits)
  with Inr x show ?thesis by (intro executor_ok_jobs [OF ok]) (auto simp: cancel_store_def waiting_def)
qed (use ok in \<open>simp add: cancel_store_def\<close>)

lemma ok_call_commit:
  assumes ok: "executor_ok H D L s" and H: "hex_digests H"
  shows "executor_ok H D L (call_commit H D c t s)"
proof -
  have ok': "executor_ok H D L (s\<lparr>ex_calls := remove1 (c, t) (ex_calls s)\<rparr>)"
    by (rule executor_ok_same [OF ok]) (simp_all add: waiting_def)
  show ?thesis
    using ok ok_poll [OF ok' H] ok_cancel [OF ok' H] by (cases c) (simp_all add: call_commit_def)
qed

lemma ok_purge:
  assumes ok: "executor_ok H D L s" and e: "purge_expired H D now (ex_jobs s) = Inr (n, rows')"
  shows "executor_ok H D L (s\<lparr>ex_jobs := rows'\<rparr>)"
  by (rule executor_ok_jobs [OF ok accounted_purge [OF executor_okD(1) [OF ok] e]]) (simp_all add: waiting_def)

lemma ok_signal: "executor_ok H D L s \<Longrightarrow> executor_ok H D L (cancel_signal l s)"
  by (erule executor_ok_same) (auto simp: cancel_signal_def waiting_def)

lemma ok_shutdown: "executor_ok H D L s \<Longrightarrow> executor_ok H D L (shutdown s)"
  by (erule executor_ok_same) (auto simp: shutdown_def waiting_def)

section \<open>Steps of the worker\<close>

lemma executor_ok_mono: "executor_ok H D L s \<Longrightarrow> L \<subseteq> L' \<Longrightarrow> executor_ok H D L' s"
  unfolding executor_ok_def dead_ok_def by (blast intro: accounted_mono)

lemma waiting_enter: "waiting (enter p s) = {l. \<exists>r. Work l r \<in> set (ex_queue s) \<or> ex_lock s = Publishing l r} \<union> {l. taken p = Some l}"
  by (auto simp: waiting_def)

text \<open>A change of phase: the new phase waits for no new job.\<close>

lemma ok_enter:
  assumes ok: "executor_ok H D L s"
    and a: "accounted_jobs H D L rows' (waiting s') (held p)" and j: "ex_jobs s' = rows'" and ph: "ex_phase s' = p"
    and w: "waiting s' \<subseteq> waiting s" and h: "\<And>l. held p = Some l \<Longrightarrow> is_token l"
    and r: "\<And>l x. p = Ended l x \<Longrightarrow> report_ok x" "\<And>l x t. p = Reporting l x t \<Longrightarrow> report_ok x" and d: "dead_ok L p"
  shows "executor_ok H D L s'"
proof (rule executor_okI)
  show "accounted_jobs H D L (ex_jobs s') (waiting s') (held (ex_phase s'))" using a j ph by simp
  show "dead_ok L (ex_phase s')" using d ph by simp
  have "\<forall>l\<in>waiting s'. is_token l" using executor_okD(2) [OF ok] w unfolding names_ok_def by blast
  then show "names_ok s'" using h r unfolding names_ok_def ph by blast
qed

lemma token_taken: "executor_ok H D L s \<Longrightarrow> taken (ex_phase s) = Some l \<Longrightarrow> is_token l"
  using executor_okD(2) by (fastforce simp: names_ok_def waiting_def)

lemma token_held: "executor_ok H D L s \<Longrightarrow> held (ex_phase s) = Some l \<Longrightarrow> is_token l"
  using executor_okD(2) by (simp add: names_ok_def)

lemma ok_take:
  assumes ok: "executor_ok H D L s"
  shows "executor_ok H D L (worker_take s)"
proof (cases "ex_phase s = Waiting \<and> ex_queue s \<noteq> []")
  case False
  then have "worker_take s = s" by (cases "ex_phase s"; cases "ex_queue s") (simp_all add: worker_take_def)
  with ok show ?thesis by simp
next
  case True
  then obtain i q where p: "ex_phase s = Waiting" "ex_queue s = i # q" by (cases "ex_queue s") auto
  note a = executor_okD(1) [OF ok, unfolded p(1)]
  show ?thesis
  proof (cases i)
    case (Work l r)
    with p have s': "worker_take s = enter (Took l r) (s\<lparr>ex_queue := q\<rparr>)" by (simp add: worker_take_def)
    have "waiting (worker_take s) = waiting s" unfolding s' using p Work by (auto simp: waiting_def)
    with a show ?thesis by (intro ok_enter [OF ok, where p = "Took l r"]) (simp_all add: s')
  next
    case Stop
    with p have s': "worker_take s = enter Worker_stopped (s\<lparr>ex_queue := q\<rparr>)" by (simp add: worker_take_def)
    have "waiting (worker_take s) = waiting s" unfolding s' using p Stop by (auto simp: waiting_def)
    with a show ?thesis by (intro ok_enter [OF ok, where p = Worker_stopped]) (simp_all add: s')
  qed
qed

lemma executor_now_errors: "executor_now reading = Inl e \<Longrightarrow> \<not> is_ok (executor_now reading)"
  by (simp add: is_ok_iff)

text \<open>The worker lets go of a job it has taken, or of the job it holds, and the job is left.\<close>

lemma ok_left:
  assumes ok: "executor_ok H D L s" and p: "taken (ex_phase s) = Some l \<or> held (ex_phase s) = Some l"
  shows "executor_ok H D (insert l L) (run_failed l e s)"
proof -
  have l: "insert l (waiting (run_failed l e s)) = insert l (waiting s)"
    using p by (cases "ex_phase s") (auto simp: run_failed_def waiting_def)
  have "accounted_jobs H D (insert l L) (ex_jobs s) (waiting (run_failed l e s)) (held (ex_phase s))"
    by (rule accounted_mono [OF executor_okD(1) [OF ok]]) (use l in auto)
  then have a: "accounted_jobs H D (insert l L) (ex_jobs s) (waiting (run_failed l e s)) None"
    using p accounted_drop [of H D "insert l L"] by (cases "ex_phase s") auto
  have w: "waiting (run_failed l e s) \<subseteq> waiting s" by (auto simp: run_failed_def waiting_def)
  show ?thesis
    by (rule ok_enter [OF executor_ok_mono [OF ok], where p = "Leaving l (\<not> is_SearchJobError e)"])
      (use a w in \<open>auto simp: run_failed_def\<close>)
qed

lemma ok_read:
  assumes ok: "executor_ok H D L s"
  shows "executor_ok H D (L \<union> left_by H D (Worker_read reading) s) (worker_read reading s)"
proof (cases "executor_now reading")
  case (Inl e)
  then have "\<not> is_ok (executor_now reading)" by (rule executor_now_errors)
  with Inl ok ok_left [OF ok] show ?thesis by (cases "ex_phase s") (simp_all add: worker_read_def)
next
  case (Inr t)
  note a = executor_okD(1) [OF ok]
  show ?thesis
  proof (cases "ex_phase s")
    case (Took l r)
    then have w: "waiting (enter (Claiming l r t) s) = waiting s" by (auto simp: waiting_def)
    have "executor_ok H D L (enter (Claiming l r t) s)"
      by (rule ok_enter [OF ok, where p = "Claiming l r t"]) (use a w Took in simp_all)
    with Took Inr show ?thesis by (simp add: worker_read_def is_ok_iff)
  next
    case (Ended l x)
    then have w: "waiting (enter (Reporting l x t) s) = waiting s" by (auto simp: waiting_def)
    have "report_ok x" "is_token l" using executor_okD(2) [OF ok] Ended by (simp_all add: names_ok_def)
    then have "executor_ok H D L (enter (Reporting l x t) s)"
      by (intro ok_enter [OF ok, where p = "Reporting l x t"]) (use a w Ended in simp_all)
    with Ended Inr show ?thesis by (simp add: worker_read_def is_ok_iff)
  qed (use ok in \<open>simp_all add: worker_read_def\<close>)
qed

text \<open>Why a claim is refused.\<close>

lemma claim_refused:
  assumes t: "job_table_ok H D rows" and H: "hex_digests H" and l: "is_token l"
    and e: "claim_for_execution H D local_search_owner_id l (Utc u) rows = Inl x"
    and v: "job_view H D rows (local_search_owner_id, l) = Some j"
  shows "u < job_updated j \<and> x = job_state_error \<or> job_status j = Job_queued \<and> time_max < u + job_retention"
proof -
  have "job_updated j \<le> u \<Longrightarrow> \<exists>d. claim_decision u j = Inr d" if "job_status j \<noteq> Job_queued \<or> u + job_retention \<le> time_max"
  proof (cases "job_status j = Job_queued")
    case True
    assume "job_updated j \<le> u"
    with claim_decides [OF view_valid [OF t v]] that True show ?thesis by blast
  qed (simp add: claim_decision_def)
  then have "u < job_updated j \<or> job_status j = Job_queued \<and> time_max < u + job_retention"
    using claim.transaction_decides [OF t H local_owner_ok l v] e by (force simp: claim_for_execution_def not_le)
  moreover have "x = job_state_error" if "u < job_updated j"
    using transaction_late [OF t H claim.job_decision_axioms local_owner_ok l v that] e by (simp add: claim_for_execution_def)
  ultimately show ?thesis by blast
qed

lemma ok_claim:
  assumes ok: "executor_ok H D L s" and H: "hex_digests H"
  shows "executor_ok H D (L \<union> left_by H D Worker_claim s) (worker_claim H D s)"
proof (cases "\<exists>l r u. ex_phase s = Claiming l r u")
  case False
  then have "worker_claim H D s = s" by (cases "ex_phase s") (simp_all add: worker_claim_def)
  with executor_ok_mono [OF ok] show ?thesis by simp
next
  case True
  then obtain l r u where p: "ex_phase s = Claiming l r u" by blast
  let ?s = "worker_claim H D s" and ?o = "(local_search_owner_id, l)"
  note t = executor_okD(4) [OF ok]
  have a: "accounted_jobs H D L (ex_jobs s) (waiting s) None" using executor_okD(1) [OF ok] p by simp
  have l: "is_token l" using token_taken [OF ok, of l] p by simp
  show ?thesis
  proof (cases "claim_for_execution H D local_search_owner_id l (Utc u) (ex_jobs s)")
    case (Inl e)
    with p have s': "?s = run_failed l e s" by (simp add: worker_claim_def)
    show ?thesis
    proof (cases "untimely H D s l u")
      case True
      with p s' ok_left [OF ok, of l e] show ?thesis by simp
    next
      case False
      have w: "waiting s = insert l (waiting ?s)" "held (ex_phase ?s) = None"
        using p by (auto simp: s' run_failed_def waiting_def)
      have none: "is_SearchJobError e \<and> (\<forall>j. job_view H D (ex_jobs s) ?o = Some j \<longrightarrow> job_status j \<noteq> Job_queued)"
      proof (cases "job_view H D (ex_jobs s) ?o")
        case None
        from claim.transaction_none [OF t local_owner_ok l None] Inl None show ?thesis
          by (simp add: claim_for_execution_def)
      next
        case (Some j)
        with claim_refused [OF t H l Inl Some] False show ?thesis
          by (auto simp: untimely_def active_statuses_def)
      qed
      have "accounted_jobs H D L (ex_jobs s) (waiting ?s) None"
        by (rule accounted_unwait [where l = l]) (use a w none in auto)
      then have "executor_ok H D L ?s"
        by (intro ok_enter [OF ok, where p = "Leaving l False"]) (use w none in \<open>auto simp: s' run_failed_def\<close>)
      with p False show ?thesis by simp
    qed
  next
    case (Inr y)
    obtain x rows' where y: "y = (x, rows')" by (cases y)
    have e: "job_transaction H D claim_decision local_search_owner_id l (Utc u) (ex_jobs s) = Inr (x, rows')"
      using Inr y by (simp add: claim_for_execution_def)
    obtain j d where v: "job_view H D (ex_jobs s) ?o = Some j" and d: "claim_decision u j = Inr d"
      and x: "x = (case d of None \<Rightarrow> j | Some j' \<Rightarrow> j')"
      and v': "job_view H D rows' = (job_view H D (ex_jobs s))(?o \<mapsto> x)" and t': "job_table_ok H D rows'"
      using claim.transaction_effect [OF t H e] by blast
    have st: "job_status x \<noteq> Job_queued" "x = j \<or> job_status x = Job_running \<or> \<not> executing (job_status x)"
      using d x by (auto simp: claim_decision_def executing_def dest: updated_moves split: if_splits)
    let ?p = "if job_status x \<noteq> Job_running then Leaving l False else Claimed l r"
    have s': "?s = enter ?p (s\<lparr>ex_jobs := rows'\<rparr>)" using p Inr y by (simp add: worker_claim_def)
    have w: "waiting s = insert l (waiting ?s)" using p by (auto simp: s' waiting_def)
    have "executing (job_status x) \<Longrightarrow> held ?p = Some l \<or> l \<in> L"
      using st(2) accounted_jobsD(3) [OF a v] by (auto simp: executing_def)
    then have "accounted_jobs H D L rows' (waiting s) (held ?p)"
      using st(1) by (intro accounted_update [OF a t' v']) (auto simp: executing_def)
    then have "accounted_jobs H D L rows' (waiting ?s) (held ?p)"
      by (rule_tac accounted_unwait [where l = l]) (use w v' st(1) in auto)
    then have "executor_ok H D L ?s"
      by (intro ok_enter [OF ok, where p = ?p]) (use w l in \<open>auto simp: s' split: if_splits\<close>)
    then show ?thesis by (rule executor_ok_mono) simp
  qed
qed

lemma ok_check:
  assumes ok: "executor_ok H D L s"
  shows "executor_ok H D L (worker_check s)"
proof (cases "\<exists>l r. ex_phase s = Claimed l r")
  case False
  then have "worker_check s = s" by (cases "ex_phase s") (simp_all add: worker_check_def)
  with ok show ?thesis by simp
next
  case True
  then obtain l r where p: "ex_phase s = Claimed l r" by blast
  have l: "is_token l" using token_held [OF ok, of l] p by simp
  let ?p = "if map_of (ex_events s) l = Some True then Ended l Report_cancelled else Calling l r"
  have ph: "ex_phase (worker_check s) = ?p" "ex_jobs (worker_check s) = ex_jobs s"
    using p l by (simp_all add: worker_check_def validated_locator_def)
  have w: "waiting (worker_check s) = waiting s" using p l by (auto simp: worker_check_def validated_locator_def waiting_def)
  show ?thesis
    by (rule ok_enter [OF ok _ ph(2) ph(1)])
      (use executor_okD(1) [OF ok] p w l in \<open>auto simp: report_ok_def split: if_splits\<close>)
qed

lemma report_of_ok: "report_of y = Inr x \<Longrightarrow> report_ok x"
proof (cases y)
  case (Returned z)
  then show "report_of y = Inr x \<Longrightarrow> report_ok x"
    by (cases z) (auto simp: report_ok_def validated_result_def require_def split: if_splits)
qed (auto simp: report_ok_def)

lemma report_of_error: "report_of y = Inl e \<longleftrightarrow> y = Raised_base \<and> e = BaseException"
  by (cases y) (auto split: sum.splits)

lemma ok_return:
  assumes ok: "executor_ok H D L s"
  shows "executor_ok H D (L \<union> left_by H D (Worker_return y) s) (worker_return y s)"
proof (cases "\<exists>l r. ex_phase s = Calling l r")
  case False
  then have "worker_return y s = s" by (cases "ex_phase s") (simp_all add: worker_return_def)
  with executor_ok_mono [OF ok] show ?thesis by simp
next
  case True
  then obtain l r where p: "ex_phase s = Calling l r" by blast
  have l: "is_token l" using token_held [OF ok, of l] p by simp
  show ?thesis
  proof (cases "report_of y")
    case (Inl e)
    with p ok_left [OF ok, of l e] show ?thesis by (simp add: worker_return_def report_of_error)
  next
    case (Inr x)
    have w: "waiting (enter (Ended l x) s) = waiting s" using p by (auto simp: waiting_def)
    have "executor_ok H D L (enter (Ended l x) s)"
      by (rule ok_enter [OF ok, where p = "Ended l x"]) (use executor_okD(1) [OF ok] p w l report_of_ok [OF Inr] in auto)
    then have "executor_ok H D L (worker_return y s)" using p Inr by (simp add: worker_return_def)
    then show ?thesis by (rule executor_ok_mono) simp
  qed
qed

lemma report_transaction:
  assumes "report_ok y"
  obtains result failure cancelled where
    "\<And>now rows. report_call H D l y now rows =
      job_transaction H D (finish_decision result failure cancelled) local_search_owner_id l now rows"
    "cancelled \<or> (\<exists>l. result = Some l \<and> is_token l) \<or> result = None \<and> failure = Some Execution_failed"
  using assms that
  by (cases y) (auto simp: finish_success_def finish_failure_def finish_cancelled_def validated_result_def report_ok_def)

lemma finish_ends:
  "finish_decision result failure cancelled u j = Inr d \<Longrightarrow>
    \<exists>x. d = Some x \<and> job_status x \<noteq> Job_queued \<and> \<not> executing (job_status x) \<and> job_status x \<in> set terminal_statuses"
  by (auto simp: finish_decision_def changed_def executing_def terminal_statuses_def dest!: updated_moves
      split: if_splits option.splits)

text \<open>A report succeeds unless its reading is untimely, and ends the job.\<close>

lemma report_result:
  assumes ok: "executor_ok H D L s" and H: "hex_digests H" and p: "ex_phase s = Reporting l y u"
  shows "(\<exists>e. report_call H D l y (Utc u) (ex_jobs s) = Inl e) \<and> untimely H D s l u \<or>
    (\<exists>x rows'. report_call H D l y (Utc u) (ex_jobs s) = Inr (x, rows') \<and> job_table_ok H D rows' \<and>
      job_view H D rows' = (job_view H D (ex_jobs s))((local_search_owner_id, l) \<mapsto> x) \<and>
      job_updated x \<le> u \<and> job_status x \<in> set terminal_statuses)"
proof -
  note t = executor_okD(4) [OF ok] and a = executor_okD(1) [OF ok]
  have l: "is_token l" using token_held [OF ok, of l] p by simp
  have "report_ok y" using executor_okD(2) [OF ok] p by (simp add: names_ok_def)
  then obtain result failure cancelled where
    call: "\<And>now rows. report_call H D l y now rows =
      job_transaction H D (finish_decision result failure cancelled) local_search_owner_id l now rows"
    and good: "cancelled \<or> (\<exists>l. result = Some l \<and> is_token l) \<or> result = None \<and> failure = Some Execution_failed"
    by (rule report_transaction [where H = H and D = D and l = l]) blast
  from accounted_jobsD(4) [OF a, of l] p obtain j where
    v: "job_view H D (ex_jobs s) (local_search_owner_id, l) = Some j" and x: "executing (job_status j)" by auto
  have st: "job_status j \<in> {Job_running, Job_cancel_requested}" "job_status j \<in> set active_statuses"
    using x by (auto simp: executing_def active_statuses_def)
  show ?thesis
  proof (cases "report_call H D l y (Utc u) (ex_jobs s)")
    case (Inl e)
    have "untimely H D s l u"
    proof (rule ccontr)
      assume "\<not> untimely H D s l u"
      with v st(2) have u: "job_updated j \<le> u" "u + job_retention \<le> time_max" by (auto simp: untimely_def not_less)
      from finish_decides [OF view_valid [OF t v] u st(1) good] obtain j' where
        "finish_decision result failure cancelled u j = Inr (Some j')" by blast
      from finish.transaction_decides [OF t H local_owner_ok l v u(1) this] Inl show False by (auto simp: call)
    qed
    with Inl show ?thesis by blast
  next
    case (Inr z)
    obtain x rows' where z: "z = (x, rows')" by (cases z)
    have e: "job_transaction H D (finish_decision result failure cancelled) local_search_owner_id l (Utc u) (ex_jobs s)
        = Inr (x, rows')" using Inr z by (simp add: call)
    from finish.transaction_effect [OF t H e] obtain j d where "finish_decision result failure cancelled u j = Inr d"
      "x = (case d of None \<Rightarrow> j | Some j' \<Rightarrow> j')"
      "job_view H D rows' = (job_view H D (ex_jobs s))((local_search_owner_id, l) \<mapsto> x)"
      "job_updated x \<le> u" "job_table_ok H D rows'" by blast
    with finish_ends Inr z show ?thesis by fastforce
  qed
qed

lemma ok_finish:
  assumes ok: "executor_ok H D L s" and H: "hex_digests H"
  shows "executor_ok H D (L \<union> left_by H D Worker_finish s) (worker_finish H D s)"
proof (cases "\<exists>l y u. ex_phase s = Reporting l y u")
  case False
  then have "worker_finish H D s = s" by (cases "ex_phase s") (simp_all add: worker_finish_def)
  with executor_ok_mono [OF ok] show ?thesis by simp
next
  case True
  then obtain l y u where p: "ex_phase s = Reporting l y u" by blast
  from report_result [OF ok H p] show ?thesis
  proof
    assume "(\<exists>e. report_call H D l y (Utc u) (ex_jobs s) = Inl e) \<and> untimely H D s l u"
    then obtain e where "report_call H D l y (Utc u) (ex_jobs s) = Inl e" "untimely H D s l u" by blast
    with p ok_left [OF ok, of l e] show ?thesis by (simp add: worker_finish_def)
  next
    assume "\<exists>x rows'. report_call H D l y (Utc u) (ex_jobs s) = Inr (x, rows') \<and> job_table_ok H D rows' \<and>
      job_view H D rows' = (job_view H D (ex_jobs s))((local_search_owner_id, l) \<mapsto> x) \<and>
      job_updated x \<le> u \<and> job_status x \<in> set terminal_statuses"
    then obtain x rows' where r: "report_call H D l y (Utc u) (ex_jobs s) = Inr (x, rows')" "job_table_ok H D rows'"
      "job_view H D rows' = (job_view H D (ex_jobs s))((local_search_owner_id, l) \<mapsto> x)"
      "job_status x \<in> set terminal_statuses" by blast
    have s': "worker_finish H D s = enter (Leaving l False) (s\<lparr>ex_jobs := rows'\<rparr>)" using p r(1) by (simp add: worker_finish_def)
    have w: "waiting (worker_finish H D s) = waiting s" using p by (auto simp: s' waiting_def)
    have "accounted_jobs H D L rows' (waiting s) None"
      using r(4) p
      by (intro accounted_update [OF executor_okD(1) [OF ok] r(2,3)]) (auto simp: terminal_statuses_def executing_def)
    with w have "executor_ok H D L (worker_finish H D s)"
      by (intro ok_enter [OF ok, where p = "Leaving l False"]) (simp_all add: s')
    then show ?thesis by (rule executor_ok_mono) simp
  qed
qed

lemma ok_leave:
  assumes ok: "executor_ok H D L s"
  shows "executor_ok H D L (worker_leave s)"
proof (cases "\<exists>l died. ex_phase s = Leaving l died \<and> ex_lock s = Free")
  case False
  then have "worker_leave s = s" by (cases "ex_phase s") (simp_all add: worker_leave_def)
  with ok show ?thesis by simp
next
  case True
  then obtain l died where p: "ex_phase s = Leaving l died" "ex_lock s = Free" by blast
  let ?p = "if died then Worker_dead else Waiting"
  have ph: "ex_phase (worker_leave s) = ?p" "ex_jobs (worker_leave s) = ex_jobs s" using p by (simp_all add: worker_leave_def)
  have w: "waiting (worker_leave s) = waiting s" using p by (auto simp: worker_leave_def waiting_def)
  have "died \<Longrightarrow> l \<in> L" using executor_okD(3) [OF ok] p by simp
  then have "dead_ok L ?p" by (auto simp: dead_ok_def)
  then show ?thesis
    by (intro ok_enter [OF ok _ ph(2) ph(1)]) (use executor_okD(1) [OF ok] p w in \<open>auto split: if_splits\<close>)
qed

lemma executor_step_ok:
  assumes ok: "executor_ok H D L s" and H: "hex_digests H"
  shows "executor_ok H D (L \<union> left_by H D e s) (executor_step H D e s)"
proof (cases e)
  case (Purge_jobs now)
  with ok ok_purge [OF ok] show ?thesis by (auto split: sum.split)
qed (use ok ok_submit_start [OF ok] ok_submit_store [OF ok] ok_submit_publish [OF ok] ok_call_start [OF ok]
    ok_call_commit [OF ok H] ok_signal [OF ok] ok_shutdown [OF ok] ok_take [OF ok] ok_read [OF ok] ok_claim [OF ok H]
    ok_check [OF ok] ok_return [OF ok] ok_finish [OF ok H] ok_leave [OF ok] in simp_all)

lemma executor_run_simps [simp]:
  "executor_run H D s [] = s" "executor_run H D s (e # es) = executor_run H D (executor_step H D e s) es"
  "executor_run H D s (es @ fs) = executor_run H D (executor_run H D s es) fs"
  by (simp_all add: executor_run_def)

lemma executor_run_ok:
  assumes "executor_ok H D L s" and H: "hex_digests H"
  shows "executor_ok H D (L \<union> left_jobs H D s es) (executor_run H D s es)"
  using assms(1)
proof (induction es arbitrary: L s)
  case (Cons e es)
  from Cons.IH [OF executor_step_ok [OF Cons.prems H]] show ?case by (simp add: Un_assoc)
qed simp

end
