(* ===== verification/Job_Executor_Runs.thy ===== *)
theory Job_Executor_Runs
  imports Job_Executor_Props "HOL-Library.Sublist"
begin

text \<open>
  Runs of the executor: its start, the order in which the runners are called, and what the worker
  achieves when it runs alone.
\<close>

section \<open>The start of an executor\<close>

text \<open>A new executor recovers the jobs a restart interrupted.\<close>

lemma recover_view_all:
  assumes t: "job_table_ok H D rows" and H: "hex_digests H"
    and e: "recover_interrupted H D (Utc u) rows = Inr (n, rows')"
    and v: "job_view H D rows' k = Some j"
  shows "job_status j \<notin> set active_statuses \<and>
    (job_view H D rows k = Some j \<or> (\<exists>j0. job_view H D rows k = Some j0 \<and> recovered_job u j0 = Inr j))"
proof -
  let ?P = "\<lambda>r. row_status r \<in> set (map status_name active_statuses)"
  let ?rs = "sort_key (\<lambda>r. (row_created r, row_id r)) (filter ?P rows)"
  from e have run: "recover_rows H D u ?rs rows = Inr rows'"
    unfolding recover_interrupted_eq_Inr by blast
  note eff = recover_rows_ok [OF t H active_rows [OF t] run]
  obtain o' l where k: "k = (o', l)" by fastforce
  from eff have t': "job_table_ok H D rows'"
    and others: "\<And>r. row_id r \<notin> row_id ` set ?rs \<Longrightarrow> r \<in> set rows' \<longleftrightarrow> r \<in> set rows"
    and ended_rows: "\<forall>r\<in>set ?rs. \<exists>j j'. validate_job j = Inr () \<and> r = row_of_job H D (row_id r) j \<and>
       recovered_job u j = Inr j' \<and> row_of_job H D (row_id r) j' \<in> set rows'" by blast+
  from v obtain i where j: "validate_job j = Inr ()" "job_owner j = o'" "job_locator j = l"
    and i: "row_of_job H D i j \<in> set rows'" unfolding k job_view_eq_Some [OF t'] by blast
  show ?thesis
  proof (cases "i \<in> row_id ` set ?rs")
    case False
    with others [of "row_of_job H D i j"] i have mem: "row_of_job H D i j \<in> set rows" by simp
    have "job_status j \<notin> set active_statuses"
    proof
      assume "job_status j \<in> set active_statuses"
      with mem have "row_of_job H D i j \<in> set ?rs" by simp
      then have "row_id (row_of_job H D i j) \<in> row_id ` set ?rs" by (rule imageI)
      with False show False by simp
    qed
    with job_view_mem [OF t j(1) mem] j k show ?thesis by simp
  next
    case True
    then obtain r where r: "r \<in> set ?rs" "row_id r = i" by auto
    from bspec [OF ended_rows r(1)] r(2) obtain j0 j' where j0: "validate_job j0 = Inr ()" "r = row_of_job H D i j0"
      "recovered_job u j0 = Inr j'" "row_of_job H D i j' \<in> set rows'" by blast
    have "row_of_job H D i j' = row_of_job H D i j" by (rule row_unique [OF t' j0(4) i]) simp
    then have "j' = j" using row_of_job_inj j(1) recovered_next [OF j0(3)] by (metis next_job_def)
    moreover have "row_of_job H D i j0 \<in> set rows" using r(1) j0(2) by simp
    moreover have "job_owner j0 = o'" "job_locator j0 = l"
      using recovered_next [OF j0(3)] \<open>j' = j\<close> j by (simp_all add: next_job_def)
    ultimately show ?thesis
      using job_view_mem [OF t j0(1)] j0(3) recovered_terminal [OF j0(3)] k by (auto simp: active_statuses_def)
  qed
qed

lemma new_executor_ok:
  assumes t: "job_table_ok H D rows" and H: "hex_digests H" and e: "new_executor H D reading rows = Inr s"
  shows "executor_ok H D {} s" and "ex_phase s = Waiting" and "ex_queue s = []" and "ex_lock s = Free"
    and "ex_submitted s = []" and "ex_called s = []"
proof -
  from e obtain u n rows' where u: "executor_now reading = Inr u" and r: "recover_interrupted H D (Utc u) rows = Inr (n, rows')"
    and s: "ex_jobs s = rows'" "ex_queue s = []" "ex_phase s = Waiting" "ex_lock s = Free" "ex_submitted s = []" "ex_called s = []"
    by (auto simp: new_executor_def)
  then show "ex_phase s = Waiting" "ex_queue s = []" "ex_lock s = Free" "ex_submitted s = []" "ex_called s = []"
    by simp_all
  have "accounted_jobs H D {} rows' {} None"
    using recover_inv [OF t H r] recover_view_all [OF t H r]
    unfolding accounted_jobs_def by (fastforce simp: executing_def active_statuses_def)
  with s show "executor_ok H D {} s" by (simp add: executor_ok_def waiting_def names_ok_def)
qed

section \<open>The order of the runs\<close>

fun works :: "queue_item list \<Rightarrow> (string \<times> nat) list" where
  "works [] = []"
| "works (Work l r # q) = (l, r) # works q"
| "works (Stop # q) = works q"

lemma works_append [simp]: "works (p @ q) = works p @ works q"
  by (induction p rule: works.induct) simp_all

text \<open>The submission the worker has in hand and has not called the runner of.\<close>

fun in_hand :: "worker_phase \<Rightarrow> (string \<times> nat) list" where
  "in_hand (Took l r) = [(l, r)]"
| "in_hand (Claiming l r _) = [(l, r)]"
| "in_hand (Claimed l r) = [(l, r)]"
| "in_hand _ = []"

definition fifo_ok :: "executor \<Rightarrow> bool" where
  "fifo_ok s \<longleftrightarrow> (\<exists>past. ex_submitted s = past @ in_hand (ex_phase s) @ works (ex_queue s) \<and> subseq (ex_called s) past)"

lemma subseq_later: "subseq xs ys \<Longrightarrow> subseq xs (ys @ zs)"
  using list_emb_append_mono [of "(=)" xs ys "[]" zs] by simp

lemma fifo_same:
  "fifo_ok s \<Longrightarrow> ex_submitted s' = ex_submitted s \<Longrightarrow> ex_called s' = ex_called s \<Longrightarrow>
    in_hand (ex_phase s') @ works (ex_queue s') = in_hand (ex_phase s) @ works (ex_queue s) \<Longrightarrow> fifo_ok s'"
  unfolding fifo_ok_def by metis

lemma fifo_drop:
  assumes "fifo_ok s" and "ex_submitted s' = ex_submitted s" and "ex_called s' = ex_called s"
    and "in_hand (ex_phase s') = []" and "ex_queue s' = ex_queue s"
  shows "fifo_ok s'"
proof -
  from assms(1) obtain past where "ex_submitted s = past @ in_hand (ex_phase s) @ works (ex_queue s)"
    "subseq (ex_called s) past" unfolding fifo_ok_def by blast
  with assms(2-5) subseq_later [of "ex_called s" past "in_hand (ex_phase s)"] show ?thesis
    unfolding fifo_ok_def by (intro exI [of _ "past @ in_hand (ex_phase s)"]) simp
qed

lemma run_failed_sel [simp]:
  "ex_submitted (run_failed l e s) = ex_submitted s" "ex_called (run_failed l e s) = ex_called s"
  "ex_queue (run_failed l e s) = ex_queue s" "ex_phase (run_failed l e s) = Leaving l (\<not> is_SearchJobError e)"
  "ex_jobs (run_failed l e s) = ex_jobs s" "ex_lock (run_failed l e s) = ex_lock s"
  by (simp_all add: run_failed_def)

lemma fifo_check:
  assumes f: "fifo_ok s"
  shows "fifo_ok (worker_check s)"
proof (cases "\<exists>l r. ex_phase s = Claimed l r")
  case False
  then have "worker_check s = s" by (cases "ex_phase s") (simp_all add: worker_check_def)
  with f show ?thesis by simp
next
  case True
  then obtain l r where p: "ex_phase s = Claimed l r" by blast
  show ?thesis
  proof (cases "ex_called (worker_check s) = ex_called s")
    case True
    show ?thesis
      by (rule fifo_drop [OF f]) (use p True in \<open>auto simp: worker_check_def split: sum.splits if_splits\<close>)
  next
    case False
    with p have s': "worker_check s = enter (Calling l r) (s\<lparr>ex_called := ex_called s @ [(l, r)]\<rparr>)"
      by (auto simp: worker_check_def split: sum.splits if_splits)
    from f obtain past where "ex_submitted s = past @ [(l, r)] @ works (ex_queue s)" "subseq (ex_called s) past"
      unfolding fifo_ok_def by (auto simp: p)
    then show ?thesis
      unfolding fifo_ok_def s' by (intro exI [of _ "past @ [(l, r)]"]) (simp add: list_emb_append_mono)
  qed
qed

lemma fifo_take: "fifo_ok s \<Longrightarrow> fifo_ok (worker_take s)"
  by (erule fifo_same)
    (auto simp: worker_take_def split: worker_phase.splits list.splits queue_item.splits)

lemma fifo_submit:
  "fifo_ok s \<Longrightarrow> fifo_ok (snd (submit_start b r reading s))" "fifo_ok s \<Longrightarrow> fifo_ok (snd (submit_store H D i l s))"
  by (erule fifo_same; auto simp: submit_start_def submit_store_def split: sum.split lock_state.split prod.split)+

lemma fifo_publish: "fifo_ok s \<Longrightarrow> fifo_ok (submit_publish s)"
  by (cases "ex_lock s") (auto simp: submit_publish_def fifo_ok_def)

lemma fifo_calls:
  "fifo_ok s \<Longrightarrow> fifo_ok (snd (call_start c reading s))" "fifo_ok s \<Longrightarrow> fifo_ok (call_commit H D c t s)"
  "fifo_ok s \<Longrightarrow> fifo_ok (cancel_signal l s)" "fifo_ok s \<Longrightarrow> fifo_ok (shutdown s)"
  "fifo_ok s \<Longrightarrow> fifo_ok (s\<lparr>ex_jobs := rows\<rparr>)"
  by (erule fifo_same; auto simp: call_start_def call_commit_def poll_job_def cancel_store_def cancel_signal_def
      shutdown_def Let_def split: sum.split job_call.split prod.split)+

lemma fifo_read: "fifo_ok s \<Longrightarrow> fifo_ok (worker_read reading s)"
proof (cases "executor_now reading")
  case (Inl e)
  assume "fifo_ok s"
  then show ?thesis
    by (cases "ex_phase s") (auto simp: worker_read_def Inl elim!: fifo_drop)
next
  case (Inr t)
  assume "fifo_ok s"
  then show ?thesis
    by (cases "ex_phase s") (auto simp: worker_read_def Inr enter_def elim!: fifo_same)
qed

lemma fifo_claim:
  assumes f: "fifo_ok s"
  shows "fifo_ok (worker_claim H D s)"
proof (cases "\<exists>l r t. ex_phase s = Claiming l r t")
  case True
  then obtain l r t where p: "ex_phase s = Claiming l r t" by blast
  show ?thesis
  proof (cases "ex_phase (worker_claim H D s) = Claimed l r")
    case True
    show ?thesis
      by (rule fifo_same [OF f])
        (use p True in \<open>auto simp: worker_claim_def split: sum.splits prod.splits\<close>)
  next
    case False
    show ?thesis
      by (rule fifo_drop [OF f])
        (use p False in \<open>auto simp: worker_claim_def split: sum.splits prod.splits\<close>)
  qed
next
  case False
  then have "worker_claim H D s = s" by (cases "ex_phase s") (simp_all add: worker_claim_def)
  with f show ?thesis by simp
qed

lemma fifo_ends:
  "fifo_ok s \<Longrightarrow> fifo_ok (worker_return y s)" "fifo_ok s \<Longrightarrow> fifo_ok (worker_finish H D s)"
  "fifo_ok s \<Longrightarrow> fifo_ok (worker_leave s)"
  by (erule fifo_same; auto simp: worker_return_def worker_finish_def worker_leave_def
      split: worker_phase.split sum.split prod.split)+

lemma fifo_step: "fifo_ok s \<Longrightarrow> fifo_ok (executor_step H D e s)"
  by (cases e) (simp_all add: fifo_submit fifo_publish fifo_calls fifo_take fifo_read fifo_claim fifo_check fifo_ends
      split: sum.split prod.split)

lemma fifo_run: "fifo_ok s \<Longrightarrow> fifo_ok (executor_run H D s es)"
  by (induction es arbitrary: s) (simp_all add: fifo_step)

section \<open>The worker alone\<close>

text \<open>A reading of a clock that last read \<open>T\<close>, did not go back and leaves room for the retention.\<close>

definition now_at :: "time \<Rightarrow> time \<Rightarrow> bool" where
  "now_at T u \<longleftrightarrow> T \<le> u \<and> time_min \<le> u \<and> u + job_retention \<le> time_max"

text \<open>No stored time is later than \<open>T\<close>.\<close>

definition stored_by :: "(string \<Rightarrow> string) \<Rightarrow> (time \<Rightarrow> string) \<Rightarrow> time \<Rightarrow> executor \<Rightarrow> bool" where
  "stored_by H D T s \<longleftrightarrow> (\<forall>k j. job_view H D (ex_jobs s) k = Some j \<longrightarrow> job_updated j \<le> T)"

lemma timely: "stored_by H D T s \<Longrightarrow> now_at T u \<Longrightarrow> \<not> untimely H D s l u"
  by (fastforce simp: stored_by_def now_at_def untimely_def)

lemma stored_by_same: "stored_by H D T s \<Longrightarrow> ex_jobs s' = ex_jobs s \<Longrightarrow> T \<le> u \<Longrightarrow> stored_by H D u s'"
  by (fastforce simp: stored_by_def)

lemma stored_by_update:
  assumes "stored_by H D T s" and "T \<le> u"
    and "job_view H D rows' = (job_view H D (ex_jobs s))(k \<mapsto> x)" and "job_updated x \<le> u" and "ex_jobs s' = rows'"
  shows "stored_by H D u s'"
proof -
  have "job_updated y \<le> u" if "job_view H D rows' k' = Some y" for k' y
  proof (cases "k' = k")
    case False
    with that assms(3) have "job_view H D (ex_jobs s) k' = Some y" by simp
    with assms(1) have "job_updated y \<le> T" unfolding stored_by_def by blast
    with assms(2) show ?thesis by simp
  qed (use that assms(3,4) in simp)
  with assms(5) show ?thesis by (simp add: stored_by_def)
qed

lemma claim_phase:
  assumes ok: "executor_ok H D L s" and H: "hex_digests H" and p: "ex_phase s = Claiming l r u"
    and sb: "stored_by H D T s" and u: "now_at T u"
  shows "ex_phase (worker_claim H D s) = Leaving l False \<or> ex_phase (worker_claim H D s) = Claimed l r"
    and "stored_by H D u (worker_claim H D s)"
    and "ex_queue (worker_claim H D s) = ex_queue s" "ex_lock (worker_claim H D s) = ex_lock s"
proof -
  note t = executor_okD(4) [OF ok]
  have l: "is_token l" using token_taken [OF ok, of l] p by simp
  have Tu: "T \<le> u" using u by (simp add: now_at_def)
  have "(ex_phase (worker_claim H D s) = Leaving l False \<or> ex_phase (worker_claim H D s) = Claimed l r) \<and>
    stored_by H D u (worker_claim H D s) \<and>
    ex_queue (worker_claim H D s) = ex_queue s \<and> ex_lock (worker_claim H D s) = ex_lock s"
  proof (cases "claim_for_execution H D local_search_owner_id l (Utc u) (ex_jobs s)")
    case (Inl e)
    then have s': "worker_claim H D s = run_failed l e s" using p by (simp add: worker_claim_def)
    have "is_SearchJobError e"
    proof (cases "job_view H D (ex_jobs s) (local_search_owner_id, l)")
      case None
      from claim.transaction_none [OF t local_owner_ok l None] Inl show ?thesis by (simp add: claim_for_execution_def)
    next
      case (Some j)
      with claim_refused [OF t H l Inl Some] timely [OF sb u, of l] u show ?thesis
        by (auto simp: now_at_def)
    qed
    with s' stored_by_same [OF sb _ Tu] show ?thesis by simp
  next
    case (Inr y)
    obtain x rows' where y: "y = (x, rows')" by (cases y)
    have e: "job_transaction H D claim_decision local_search_owner_id l (Utc u) (ex_jobs s) = Inr (x, rows')"
      using Inr y by (simp add: claim_for_execution_def)
    obtain j d where "job_view H D rows' = (job_view H D (ex_jobs s))((local_search_owner_id, l) \<mapsto> x)" "job_updated x \<le> u"
      using claim.transaction_effect [OF t H e] by blast
    from stored_by_update [OF sb Tu this] show ?thesis using p Inr y by (simp add: worker_claim_def)
  qed
  then show "ex_phase (worker_claim H D s) = Leaving l False \<or> ex_phase (worker_claim H D s) = Claimed l r"
    "stored_by H D u (worker_claim H D s)"
    "ex_queue (worker_claim H D s) = ex_queue s" "ex_lock (worker_claim H D s) = ex_lock s" by blast+
qed

lemma finish_phase:
  assumes ok: "executor_ok H D L s" and H: "hex_digests H" and p: "ex_phase s = Reporting l x v"
    and sb: "stored_by H D u s" and v: "now_at u v"
  shows "ex_phase (worker_finish H D s) = Leaving l False" and "stored_by H D v (worker_finish H D s)"
    and "ex_queue (worker_finish H D s) = ex_queue s" "ex_lock (worker_finish H D s) = ex_lock s"
proof -
  have uv: "u \<le> v" using v by (simp add: now_at_def)
  from report_result [OF ok H p] timely [OF sb v, of l] obtain y rows' where
    r: "report_call H D l x (Utc v) (ex_jobs s) = Inr (y, rows')"
    "job_view H D rows' = (job_view H D (ex_jobs s))((local_search_owner_id, l) \<mapsto> y)" "job_updated y \<le> v" by blast
  then have s': "worker_finish H D s = enter (Leaving l False) (s\<lparr>ex_jobs := rows'\<rparr>)" using p by (simp add: worker_finish_def)
  then show "ex_phase (worker_finish H D s) = Leaving l False"
    "ex_queue (worker_finish H D s) = ex_queue s" "ex_lock (worker_finish H D s) = ex_lock s" by simp_all
  show "stored_by H D v (worker_finish H D s)"
    by (rule stored_by_update [OF sb uv r(2,3)]) (simp add: s')
qed

text \<open>The steps of one run: the clock reads \<open>u\<close> for the claim and \<open>v\<close> for the report.\<close>

definition worker_cycle :: "time \<times> run_outcome \<times> time \<Rightarrow> executor_event list" where
  "worker_cycle c = (case c of (u, outcome, v) \<Rightarrow>
     [Worker_take, Worker_read (Read (Utc u)), Worker_claim, Worker_check, Worker_return outcome,
      Worker_read (Read (Utc v)), Worker_finish, Worker_leave])"

lemma read_utc [simp]: "executor_now (Read (Utc u)) = Inr u"
  by (simp add: validated_now_def job_utc_datetime_def)

lemma check_return_phase:
  assumes "ex_phase s = Claimed l r" and "is_token l" and "outcome \<noteq> Raised_base"
  shows "\<exists>x. ex_phase (worker_return outcome (worker_check s)) = Ended l x"
proof (cases "map_of (ex_events s) l = Some True")
  case True
  with assms show ?thesis by (simp add: worker_check_def validated_locator_def worker_return_def)
next
  case False
  from assms(3) obtain x where "report_of outcome = Inr x" by (cases "report_of outcome") (auto simp: report_of_error)
  with False assms show ?thesis by (simp add: worker_check_def validated_locator_def worker_return_def)
qed

lemma check_return_sel:
  "ex_queue (worker_return outcome (worker_check s)) = ex_queue s" "ex_lock (worker_return outcome (worker_check s)) = ex_lock s"
  "ex_jobs (worker_return outcome (worker_check s)) = ex_jobs s"
  by (auto simp: worker_check_def worker_return_def split: worker_phase.splits sum.splits)

lemma leaving_steps:
  assumes "ex_phase s = Leaving l False"
  shows "worker_check s = s" "worker_return x s = s" "worker_read reading s = s" "worker_finish H D s = s"
    and "ex_lock s = Free \<Longrightarrow> ex_phase (worker_leave s) = Waiting"
  using assms by (simp_all add: worker_check_def worker_return_def worker_finish_def worker_read_def worker_leave_def)

lemma leave_sel: "ex_queue (worker_leave s) = ex_queue s" "ex_lock (worker_leave s) = ex_lock s" "ex_jobs (worker_leave s) = ex_jobs s"
  by (auto simp: worker_leave_def split: worker_phase.splits)

text \<open>From taking an item to leaving it.\<close>

lemma worker_cycle_ends:
  assumes ok: "executor_ok H D L s" and H: "hex_digests H" and sb: "stored_by H D T s"
    and p: "ex_phase s = Waiting" "ex_lock s = Free" and q: "ex_queue s = Work l r # q"
    and u: "now_at T u" and v: "now_at u v" and o: "outcome \<noteq> Raised_base"
  shows "let s' = executor_run H D s (worker_cycle (u, outcome, v)) in
    executor_ok H D L s' \<and> stored_by H D v s' \<and> ex_phase s' = Waiting \<and> ex_lock s' = Free \<and> ex_queue s' = q"
proof -
  let ?s2 = "worker_read (Read (Utc u)) (worker_take s)"
  let ?s3 = "worker_claim H D ?s2"
  let ?s5 = "worker_return outcome (worker_check ?s3)"
  let ?s7 = "worker_finish H D (worker_read (Read (Utc v)) ?s5)"
  have s': "executor_run H D s (worker_cycle (u, outcome, v)) = worker_leave ?s7" by (simp add: worker_cycle_def)
  have p2: "ex_phase ?s2 = Claiming l r u" "ex_queue ?s2 = q" "ex_lock ?s2 = Free" "ex_jobs ?s2 = ex_jobs s"
    using p q by (simp_all add: worker_take_def worker_read_def del: executor_now.simps)
  have ok2: "executor_ok H D L ?s2"
    using ok_read [OF ok_take [OF ok], of "Read (Utc u)"] p q
    by (simp add: worker_take_def is_ok_iff del: executor_now.simps)
  have by2: "stored_by H D T ?s2" by (rule stored_by_same [OF sb p2(4)]) simp
  have ok3: "executor_ok H D L ?s3" using ok_claim [OF ok2 H] timely [OF by2 u] p2(1) by simp
  note c = claim_phase [OF ok2 H p2(1) by2 u]
  have uv: "u \<le> v" using v by (simp add: now_at_def)
  have "ex_phase ?s7 = Leaving l False \<and> executor_ok H D L ?s7 \<and> stored_by H D v ?s7 \<and> ex_queue ?s7 = q \<and> ex_lock ?s7 = Free"
    using c(1)
  proof
    assume "ex_phase ?s3 = Leaving l False"
    with c(2-4) ok3 p2 stored_by_same [OF c(2) _ uv] show ?thesis by (simp add: leaving_steps)
  next
    assume p3: "ex_phase ?s3 = Claimed l r"
    with token_held [OF ok3, of l] check_return_phase [OF p3 _ o] obtain x where p5: "ex_phase ?s5 = Ended l x" by auto
    let ?s6 = "worker_read (Read (Utc v)) ?s5"
    have "left_by H D (Worker_return outcome) (worker_check ?s3) = {}" using o by (simp split: worker_phase.split)
    with ok_return [OF ok_check [OF ok3], of outcome] have ok5: "executor_ok H D L ?s5" by simp
    have p6: "ex_phase ?s6 = Reporting l x v" "ex_queue ?s6 = q" "ex_lock ?s6 = Free" "ex_jobs ?s6 = ex_jobs ?s3"
      using p5 c(3,4) p2 by (simp_all add: worker_read_def check_return_sel del: executor_now.simps)
    have ok6: "executor_ok H D L ?s6"
      using ok_read [OF ok5, of "Read (Utc v)"] p5 by (simp add: is_ok_iff del: executor_now.simps)
    have by6: "stored_by H D u ?s6" by (rule stored_by_same [OF c(2) p6(4)]) simp
    have "executor_ok H D L ?s7" using ok_finish [OF ok6 H] timely [OF by6 v] p6(1) by simp
    with finish_phase [OF ok6 H p6(1) by6 v] p6 show ?thesis by simp
  qed
  with ok_leave [of H D L ?s7] stored_by_same [of H D v ?s7 "worker_leave ?s7" v] show ?thesis
    unfolding s' by (simp add: Let_def leave_sel leaving_steps(5))
qed

fun cycles_ok :: "time \<Rightarrow> (time \<times> run_outcome \<times> time) list \<Rightarrow> bool" where
  "cycles_ok T [] \<longleftrightarrow> True"
| "cycles_ok T ((u, outcome, v) # cs) \<longleftrightarrow> now_at T u \<and> now_at u v \<and> outcome \<noteq> Raised_base \<and> cycles_ok v cs"

lemma worker_drains:
  assumes "executor_ok H D L s" and H: "hex_digests H" and "stored_by H D T s" and "ex_phase s = Waiting" and "ex_lock s = Free"
    and "ex_queue s = map (\<lambda>(l, r). Work l r) ws" and "cycles_ok T cs" and "length cs = length ws"
  shows "let s' = executor_run H D s (concat (map worker_cycle cs)) in
    executor_ok H D L s' \<and> ex_phase s' = Waiting \<and> ex_lock s' = Free \<and> ex_queue s' = []"
  using assms(1,3-8)
proof (induction cs arbitrary: ws s T)
  case (Cons c cs)
  obtain u outcome v where c: "c = (u, outcome, v)" by (cases c)
  from Cons.prems(7) obtain w ws' where ws: "ws = w # ws'" by (cases ws) auto
  obtain l r where w: "w = (l, r)" by fastforce
  have u: "now_at T u" "now_at u v" "outcome \<noteq> Raised_base" "cycles_ok v cs" using Cons.prems(6) c by simp_all
  have q: "ex_queue s = Work l r # map (\<lambda>(l, r). Work l r) ws'" using Cons.prems(5) ws w by simp
  let ?s' = "executor_run H D s (worker_cycle (u, outcome, v))"
  from worker_cycle_ends [OF Cons.prems(1) H Cons.prems(2-4) q u(1-3)]
  have s': "executor_ok H D L ?s'" "stored_by H D v ?s'" "ex_phase ?s' = Waiting" "ex_lock ?s' = Free"
    "ex_queue ?s' = map (\<lambda>(l, r). Work l r) ws'" by (simp_all add: Let_def)
  from Cons.IH [OF s' u(4)] Cons.prems(7) ws show ?case by (simp add: c)
qed auto

lemma idle_no_active:
  assumes ok: "executor_ok H D L s" and "ex_phase s = Waiting" and "ex_lock s = Free" and "ex_queue s = []"
    and v: "job_view H D (ex_jobs s) k = Some j" and k: "snd k \<notin> L"
  shows "job_status j \<in> set terminal_statuses"
proof -
  note a = executor_okD(1) [OF ok]
  have "waiting s = {}" using assms(2-4) by (simp add: waiting_def)
  with accounted_jobsD(2,3) [OF a v] assms(2) k have "job_status j \<noteq> Job_queued" "\<not> executing (job_status j)" by auto
  then show ?thesis by (cases "job_status j") (simp_all add: executing_def terminal_statuses_def)
qed

end
