(* ===== verification/Search_Job_Theorems.thy ===== *)
theory Search_Job_Theorems
  imports Search_Job_Props
begin

text \<open>
  The properties of the job repository, each with the sample table its witness applies it to.
\<close>

section \<open>A sample table\<close>

definition sample_digest :: "string \<Rightarrow> string" where
  "sample_digest s = replicate 64 CHR ''0''"

definition sample_submission :: submission where
  "sample_submission = \<lparr>sub_owner = ''local-user'', sub_binding = replicate 64 CHR ''b''\<rparr>"

definition sample_locator :: string where "sample_locator = replicate 43 CHR ''l''"
definition sample_id :: string where "sample_id = replicate 64 CHR ''1''"

definition sample_job :: job where
  "sample_job = queued_job sample_submission sample_locator 0"

definition sample_jobs :: "(time \<Rightarrow> string) \<Rightarrow> job_table" where
  "sample_jobs D = [row_of_job sample_digest D sample_id sample_job]"

lemma sample_hex [simp]: "hex_digests sample_digest"
  by (simp add: hex_digests_def sample_digest_def)

lemma sample_ids [simp]: "is_token sample_locator" "is_subject_id ''local-user''"
  "submission_ok sample_submission" "length sample_id = 64"
  by (simp_all add: sample_locator_def urlsafe_chars_def alnum_chars_def sample_submission_def
      submission_ok_def hex_chars_def is_subject_id_def chars_in_def subject_chars_def sample_id_def)

lemma sample_job_sel [simp]:
  "job_owner sample_job = ''local-user''" "job_locator sample_job = sample_locator"
  "job_status sample_job = Job_queued" "job_updated sample_job = 0" "job_created sample_job = 0"
  "job_binding sample_job = sub_binding sample_submission"
  "job_start_before sample_job = job_queue_start_window" "job_revision sample_job = 0"
  "job_purge_after sample_job = None"
  by (simp_all add: sample_job_def sample_submission_def)

lemma sample_valid [simp]: "validate_job sample_job = Inr ()"
  by (simp add: sample_job_def queued_job_valid is_time_def time_min_def time_max_def window_defs)

lemma sample_jobs_ok [simp]: "job_table_ok sample_digest D (sample_jobs D)"
  by (simp add: job_table_ok_def sample_jobs_def stored_job_def)

lemma sample_view [simp]: "job_view sample_digest D (sample_jobs D) (''local-user'', sample_locator) = Some sample_job"
  using job_view_mem [OF sample_jobs_ok sample_valid, of D sample_id] by (simp add: sample_jobs_def)

section \<open>Properties\<close>

text \<open>C21. Type invariant of the job table: after any sequence of repository calls on an empty
  store, every row reads back to a job that satisfies the state contract and is exactly the
  stored form of that job, and job ids, locators and (owner, binding) pairs are unique.\<close>

theorem job_table_well_formed:
  assumes "hex_digests H"
  shows "let rows = run_events (job_step H D) [] es in
    (\<forall>r\<in>set rows. \<exists>j. snapshot_from_row H D r = Inr j \<and> validate_job j = Inr () \<and>
       r = row_of_job H D (row_id r) j) \<and>
    distinct (map row_id rows) \<and> distinct (map row_locator rows) \<and>
    distinct (map (\<lambda>r. (row_owner r, row_binding r)) rows)"
  using reachable_ok [OF assms, of D es]
  by (auto simp: job_table_ok_def list_all_iff stored_job_def is_ok_iff snapshot_from_row_eq_Inr Let_def)

lemma job_table_well_formed_witness:
  "distinct (map row_id (run_events (job_step sample_digest (\<lambda>_. [])) []
     [Enqueue (Instance sample_submission) (Utc 0) sample_id sample_locator]))"
  using job_table_well_formed [OF sample_hex, of "\<lambda>_. []"
    "[Enqueue (Instance sample_submission) (Utc 0) sample_id sample_locator]"]
  unfolding Let_def by blast

text \<open>C20. Refinement: on a well-formed table, get, claim, cancel and the three ways to finish act on
  the owner-scoped map of jobs as the specification does (look up, refuse an earlier time, decide,
  store), errors included; rows, texts, digests and revisions implement that map.\<close>

theorem job_calls_refine_map:
  assumes "job_table_ok H D rows" and "hex_digests H" and "is_subject_id o'" and "is_token l"
  shows "on_view H D (get_job H D o' l (Utc t) rows) =
      storage_errors (spec_transaction get_decision o' l t (job_view H D rows)) \<and>
    on_view H D (claim_for_execution H D o' l (Utc t) rows) =
      storage_errors (spec_transaction claim_decision o' l t (job_view H D rows)) \<and>
    on_view H D (request_cancel H D o' l (Utc t) rows) =
      storage_errors (spec_transaction cancel_decision o' l t (job_view H D rows)) \<and>
    on_view H D (finish_failure H D o' l (Utc t) rows) =
      storage_errors (spec_transaction (finish_decision None (Some Execution_failed) False) o' l t
        (job_view H D rows)) \<and>
    on_view H D (finish_cancelled H D o' l (Utc t) rows) =
      storage_errors (spec_transaction (finish_decision None None True) o' l t (job_view H D rows)) \<and>
    (is_token x \<longrightarrow> on_view H D (finish_success H D o' l (Instance x) (Utc t) rows) =
      storage_errors (spec_transaction (finish_decision (Some x) None False) o' l t (job_view H D rows)))"
  using get.transaction_refines [OF assms] claim.transaction_refines [OF assms]
    cancel.transaction_refines [OF assms] finish.transaction_refines [OF assms]
  by (simp add: transaction_defs validated_result_def)

lemma job_calls_refine_map_witness:
  "on_view sample_digest (\<lambda>_. []) (claim_for_execution sample_digest (\<lambda>_. []) ''local-user'' sample_locator
     (Utc 5) (sample_jobs (\<lambda>_. []))) =
   storage_errors (spec_transaction claim_decision ''local-user'' sample_locator 5
     (job_view sample_digest (\<lambda>_. []) (sample_jobs (\<lambda>_. []))))"
  using job_calls_refine_map [OF sample_jobs_ok sample_hex sample_ids(2,1)] by simp

text \<open>C22. Every repository call leaves each stored job as it was, or moves it along the job state
  machine (one revision further, its identity, creation time and start deadline kept), or is a
  purge at or after the job's purge time, which removes it.\<close>

theorem job_status_evolution:
  assumes "job_table_ok H D rows" and "hex_digests H" and "now_in_range e"
    and "job_step H D e rows = Inr rows'" and "job_view H D rows k = Some j"
  shows "if purged_by e j then job_view H D rows' k = None \<and> job_status j \<in> set terminal_statuses
    else job_view H D rows' k = Some j \<or>
      (\<exists>j'. job_view H D rows' k = Some j' \<and> next_job j j' \<and> status_moves (job_status j) (job_status j'))"
  using job_step_evolves [OF assms] purged_by_terminal [OF view_valid [OF assms(1,5)]]
  by (auto simp: evolves_def)

lemma claimed_sample:
  obtains rows' where "job_step sample_digest D (Claim ''local-user'' sample_locator (Utc 5)) (sample_jobs D) = Inr rows'"
proof -
  from run_ok [of sample_job 5] obtain j' where j': "updated_job (running_from 5) sample_job = Inr j'"
    by (auto simp: is_ok_iff window_defs)
  then have "claim_decision 5 sample_job = Inr (Some j')" by (simp add: claim_decision_def window_defs)
  then have "claim_for_execution sample_digest D ''local-user'' sample_locator (Utc 5) (sample_jobs D)
      = Inr (j', put_row (row_of_job sample_digest D sample_id j') (sample_jobs D))"
    unfolding claim_for_execution_def
    by (subst claim.transaction_some [OF sample_jobs_ok sample_hex sample_ids(2,1) sample_view sample_ids(4)])
      (simp_all add: sample_jobs_def)
  then show thesis using that by simp
qed

lemma job_status_evolution_witness:
  "\<exists>rows'. job_step sample_digest (\<lambda>_. []) (Claim ''local-user'' sample_locator (Utc 5)) (sample_jobs (\<lambda>_. [])) = Inr rows'
     \<and> job_view sample_digest (\<lambda>_. []) rows' (''local-user'', sample_locator) \<noteq> None"
proof -
  obtain rows' where r: "job_step sample_digest (\<lambda>_. []) (Claim ''local-user'' sample_locator (Utc 5))
      (sample_jobs (\<lambda>_. [])) = Inr rows'" by (rule claimed_sample)
  from job_status_evolution [OF sample_jobs_ok sample_hex _ r sample_view] r show ?thesis
    by (auto simp: now_in_range_def purged_by_def)
qed

text \<open>A finished job is final: no run of repository calls other than a purge changes its status,
  its result, its failure code or any other part of its record.\<close>

theorem finished_jobs_final:
  assumes "job_table_ok H D rows" and "hex_digests H"
    and "\<forall>e\<in>set es. now_in_range e \<and> \<not> is_purge e"
    and "job_view H D rows k = Some j" and "job_status j \<in> set terminal_statuses"
  shows "job_view H D (run_events (job_step H D) rows es) k = Some j"
  by (rule run_terminal [OF assms])

definition sample_failed :: job where
  "sample_failed = (finished_with Job_failed 5 (5 + job_retention) None (Some Worker_restarted) None sample_job)
     \<lparr>job_revision := 1\<rparr>"

definition sample_failed_jobs :: "(time \<Rightarrow> string) \<Rightarrow> job_table" where
  "sample_failed_jobs D = [row_of_job sample_digest D sample_id sample_failed]"

lemma sample_failed_recovered: "recovered_job 5 sample_job = Inr sample_failed"
proof -
  from recover_ok [of sample_job 5] obtain j where j: "recovered_job 5 sample_job = Inr j"
    by (auto simp: is_ok_iff active_statuses_def window_defs time_max_def)
  then have "j = sample_failed" by (simp add: recovered_job_def terminal_job_eq_Inr sample_failed_def)
  with j show ?thesis by simp
qed

lemma sample_failed_facts [simp]:
  "validate_job sample_failed = Inr ()" "job_status sample_failed = Job_failed"
  "job_owner sample_failed = ''local-user''" "job_locator sample_failed = sample_locator"
  "job_updated sample_failed = 5" "job_purge_after sample_failed = Some (5 + job_retention)"
  "job_binding sample_failed = sub_binding sample_submission"
  using recovered_next [OF sample_failed_recovered]
  by (simp_all add: next_job_def) (simp_all add: sample_failed_def finished_with_def)

lemma sample_failed_ok [simp]: "job_table_ok sample_digest D (sample_failed_jobs D)"
  by (simp add: job_table_ok_def sample_failed_jobs_def stored_job_def)

lemma sample_failed_view [simp]:
  "job_view sample_digest D (sample_failed_jobs D) (''local-user'', sample_locator) = Some sample_failed"
  using job_view_mem [OF sample_failed_ok sample_failed_facts(1), of D sample_id]
  by (simp add: sample_failed_jobs_def)

lemma finished_jobs_final_witness:
  "job_view sample_digest (\<lambda>_. []) (run_events (job_step sample_digest (\<lambda>_. [])) (sample_failed_jobs (\<lambda>_. []))
     [Claim ''local-user'' sample_locator (Utc 7), Recover (Utc 9)]) (''local-user'', sample_locator)
   = Some sample_failed"
  by (rule finished_jobs_final [OF sample_failed_ok sample_hex])
    (simp_all add: now_in_range_def is_purge_def terminal_statuses_def)

text \<open>C19. Cancellation wins: once \<open>request_cancel\<close> has returned a cancelled or cancel-requested job,
  whatever calls follow (short of a purge), a success reported late included, the job is
  cancel-requested or cancelled and never carries a result.\<close>

theorem cancellation_wins:
  assumes "job_table_ok H D rows" and "hex_digests H"
    and "request_cancel H D o' l now rows = Inr (j, rows')"
    and "job_status j \<in> {Job_cancel_requested, Job_cancelled}"
    and "\<forall>e\<in>set es. now_in_range e \<and> \<not> is_purge e"
  shows "\<exists>j'. job_view H D (run_events (job_step H D) rows' es) (o', l) = Some j' \<and>
    job_status j' \<in> {Job_cancel_requested, Job_cancelled} \<and> job_result j' = None"
proof -
  let ?P = "\<lambda>j. job_status j \<in> {Job_cancel_requested, Job_cancelled}"
  have t': "job_table_ok H D rows'"
    using cancel.transaction_inv [OF assms(1,2)] assms(3) by (simp add: request_cancel_def)
  have v: "job_view H D rows' (o', l) = Some j"
    using cancel.transaction_view [OF assms(1,2)] assms(3) by (simp add: request_cancel_def)
  have "\<exists>j'. job_view H D (run_events (job_step H D) rows' es) (o', l) = Some j' \<and> ?P j'"
    by (rule run_keeps [where P = ?P, OF t' assms(2,5) v assms(4)]) auto
  then obtain j' where j': "job_view H D (run_events (job_step H D) rows' es) (o', l) = Some j'" "?P j'" by blast
  have "validate_job j' = Inr ()"
    using j'(1) jobs.run_inv [of H D rows' es] t' assms(2) by (auto intro: view_valid)
  with j' have "job_result j' = None"
    by (auto simp: validate_job_iff validate_status_contract_iff validate_terminal_iff later_state_empty_def)
  with j' show ?thesis by blast
qed

lemma cancelled_sample:
  obtains j rows' where "request_cancel sample_digest D ''local-user'' sample_locator (Utc 5) (sample_jobs D)
      = Inr (j, rows')" and "job_status j = Job_cancelled"
proof -
  from cancel_queued_ok [of sample_job 5] obtain j' where
    j': "terminal_job sample_job Job_cancelled 5 None None (Some 5) = Inr j'"
    by (auto simp: is_ok_iff window_defs time_max_def)
  then have "cancel_decision 5 sample_job = Inr (Some j')" by (simp add: cancel_decision_def)
  from cancel.transaction_decides [OF sample_jobs_ok sample_hex sample_ids(2,1) sample_view _ this]
  obtain rows' where "request_cancel sample_digest D ''local-user'' sample_locator (Utc 5) (sample_jobs D)
      = Inr (j', rows')" by (auto simp: request_cancel_def)
  then show thesis using that updated_moves(3) [OF j'] by blast
qed

lemma cancellation_wins_witness:
  "\<exists>rows' j'. job_view sample_digest (\<lambda>_. []) (run_events (job_step sample_digest (\<lambda>_. [])) rows'
     [Finish_success ''local-user'' sample_locator (Instance sample_locator) (Utc 6)])
     (''local-user'', sample_locator) = Some j' \<and> job_result j' = None"
proof -
  obtain j rows' where r: "request_cancel sample_digest (\<lambda>_. []) ''local-user'' sample_locator (Utc 5)
      (sample_jobs (\<lambda>_. [])) = Inr (j, rows')" "job_status j = Job_cancelled" by (rule cancelled_sample)
  then show ?thesis
    using cancellation_wins [OF sample_jobs_ok sample_hex r(1), of
        "[Finish_success ''local-user'' sample_locator (Instance sample_locator) (Utc 6)]"]
    unfolding now_in_range_def is_purge_def by auto
qed

text \<open>The outcome of a claim on a queued job: before the start deadline the job runs from now,
  at or after it the job times out; a job that is not queued is returned unchanged.\<close>

theorem claim_outcomes:
  assumes "job_table_ok H D rows" and "hex_digests H" and "is_subject_id o'" and "is_token l"
    and "job_view H D rows (o', l) = Some j" and "job_updated j \<le> t" and "t + job_retention \<le> time_max"
  shows "\<exists>j' rows'. claim_for_execution H D o' l (Utc t) rows = Inr (j', rows') \<and>
    job_view H D rows' (o', l) = Some j' \<and>
    (if job_status j \<noteq> Job_queued then j' = j
     else if t < job_start_before j then job_status j' = Job_running \<and> job_started j' = Some t
     else job_status j' = Job_timed_out \<and> job_failure j' = Some Queue_start_expired \<and>
       job_started j' = None \<and> job_purge_after j' = Some (t + job_retention))"
proof -
  note v = view_valid [OF assms(1,5)]
  have "\<exists>d. claim_decision t j = Inr d \<and>
      (let j' = (case d of None \<Rightarrow> j | Some j' \<Rightarrow> j') in
       if job_status j \<noteq> Job_queued then j' = j
       else if t < job_start_before j then job_status j' = Job_running \<and> job_started j' = Some t
       else job_status j' = Job_timed_out \<and> job_failure j' = Some Queue_start_expired \<and>
         job_started j' = None \<and> job_purge_after j' = Some (t + job_retention))"
  proof (cases "job_status j = Job_queued \<and> t < job_start_before j")
    case True
    with run_ok [OF v _ assms(6)] obtain j' where "updated_job (running_from t) j = Inr j'"
      by (auto simp: is_ok_iff)
    with True show ?thesis
      by (auto simp: claim_decision_def updated_job_eq_Inr running_from_def)
  next
    case False
    show ?thesis
    proof (cases "job_status j = Job_queued")
      case True
      with False time_out_ok [OF v True _ assms(7)] obtain j' where
        "terminal_job j Job_timed_out t None (Some Queue_start_expired) None = Inr j'"
        by (auto simp: is_ok_iff)
      with True False contract_queued [OF v True] show ?thesis
        by (auto simp: claim_decision_def terminal_job_eq_Inr finished_with_def)
    qed (simp add: claim_decision_def)
  qed
  then obtain d where d: "claim_decision t j = Inr d" and out:
    "let j' = (case d of None \<Rightarrow> j | Some j' \<Rightarrow> j') in
       if job_status j \<noteq> Job_queued then j' = j
       else if t < job_start_before j then job_status j' = Job_running \<and> job_started j' = Some t
       else job_status j' = Job_timed_out \<and> job_failure j' = Some Queue_start_expired \<and>
         job_started j' = None \<and> job_purge_after j' = Some (t + job_retention)" by blast
  from claim.transaction_decides [OF assms(1-6) d]
  obtain rows' where "claim_for_execution H D o' l (Utc t) rows = Inr (case d of None \<Rightarrow> j | Some j' \<Rightarrow> j', rows')"
    "job_view H D rows' (o', l) = Some (case d of None \<Rightarrow> j | Some j' \<Rightarrow> j')"
    unfolding claim_for_execution_def by blast
  with out show ?thesis by (auto simp: Let_def)
qed

lemma claim_outcomes_witness:
  "\<exists>j' rows'. claim_for_execution sample_digest (\<lambda>_. []) ''local-user'' sample_locator (Utc 5)
     (sample_jobs (\<lambda>_. [])) = Inr (j', rows') \<and> job_status j' = Job_running"
  using claim_outcomes [OF sample_jobs_ok sample_hex sample_ids(2,1) sample_view, of 5 "\<lambda>_. []"]
  by (auto simp: window_defs time_max_def)

text \<open>C23. Recovery after a restart leaves no active job: when the clock has not gone back, it ends every
  queued or running job as failed (worker restarted) and every cancel-requested one as cancelled,
  and touches no finished job.\<close>

theorem recovery_ends_active_jobs:
  assumes t: "job_table_ok H D rows" and H: "hex_digests H"
    and c: "\<forall>k j. job_view H D rows k = Some j \<longrightarrow> job_status j \<in> set active_statuses \<longrightarrow> job_updated j \<le> u"
    and m: "u + job_retention \<le> time_max"
  shows "\<exists>n rows'. recover_interrupted H D (Utc u) rows = Inr (n, rows') \<and>
    (\<forall>k j. job_view H D rows k = Some j \<longrightarrow> (\<exists>j'. job_view H D rows' k = Some j' \<and>
       (if job_status j \<notin> set active_statuses then j' = j
        else if job_status j = Job_cancel_requested then job_status j' = Job_cancelled
        else job_status j' = Job_failed \<and> job_failure j' = Some Worker_restarted)))"
proof -
  let ?rs = "sort_key (\<lambda>r. (row_created r, row_id r))
    (filter (\<lambda>r. row_status r \<in> set (map status_name active_statuses)) rows)"
  have "is_ok (recover_rows H D u ?rs rows)"
  proof (rule recover_rows_progress [OF t H active_rows [OF t] _ m])
    fix r j
    assume r: "r \<in> set ?rs" and s: "snapshot_from_row H D r = Inr j"
    then have j: "validate_job j = Inr ()" "r = row_of_job H D (row_id r) j"
      by (auto simp: snapshot_from_row_eq_Inr)
    have mem: "row_of_job H D (row_id r) j \<in> set rows" using r j(2) by simp
    have "row_status r = status_name (job_status j)" using j(2) by (metis row_columns(6))
    with r have a: "job_status j \<in> set active_statuses" by simp
    with c job_view_mem [OF t j(1) mem] show "job_status j \<in> set active_statuses \<and> job_updated j \<le> u" by blast
  qed
  then obtain rows' where "recover_rows H D u ?rs rows = Inr rows'" by (auto simp: is_ok_iff)
  then have e: "recover_interrupted H D (Utc u) rows = Inr (length ?rs, rows')"
    by (simp add: recover_interrupted_eq_Inr)
  have "\<exists>j'. job_view H D rows' k = Some j' \<and>
       (if job_status j \<notin> set active_statuses then j' = j
        else if job_status j = Job_cancel_requested then job_status j' = Job_cancelled
        else job_status j' = Job_failed \<and> job_failure j' = Some Worker_restarted)"
    if "job_view H D rows k = Some j" for k j
    using recover_view [OF t H e that]
    by (auto simp: recovered_job_def terminal_job_eq_Inr finished_with_def split: if_splits)
  with e show ?thesis by blast
qed

lemma sample_view_only:
  "job_view sample_digest D (sample_jobs D) k = Some j \<Longrightarrow> j = sample_job"
proof -
  assume v: "job_view sample_digest D (sample_jobs D) k = Some j"
  obtain o' l where k: "k = (o', l)" by fastforce
  from v obtain i where "validate_job j = Inr ()" "row_of_job sample_digest D i j = row_of_job sample_digest D sample_id sample_job"
    unfolding k job_view_eq_Some [OF sample_jobs_ok] by (auto simp: sample_jobs_def)
  then show "j = sample_job" using row_of_job_inj [OF _ sample_valid] by (metis row_columns(1))
qed

lemma recovery_ends_active_jobs_witness:
  "\<exists>n rows'. recover_interrupted sample_digest (\<lambda>_. []) (Utc 5) (sample_jobs (\<lambda>_. [])) = Inr (n, rows') \<and>
     (\<exists>j'. job_view sample_digest (\<lambda>_. []) rows' (''local-user'', sample_locator) = Some j' \<and>
        job_status j' = Job_failed)"
proof -
  have c: "\<forall>k j. job_view sample_digest (\<lambda>_. []) (sample_jobs (\<lambda>_. [])) k = Some j \<longrightarrow>
      job_status j \<in> set active_statuses \<longrightarrow> job_updated j \<le> 5"
    by (auto dest: sample_view_only)
  from recovery_ends_active_jobs [OF sample_jobs_ok sample_hex c]
  obtain n rows' where r: "recover_interrupted sample_digest (\<lambda>_. []) (Utc 5) (sample_jobs (\<lambda>_. [])) = Inr (n, rows')"
    and all: "\<forall>k j. job_view sample_digest (\<lambda>_. []) (sample_jobs (\<lambda>_. [])) k = Some j \<longrightarrow>
      (\<exists>j'. job_view sample_digest (\<lambda>_. []) rows' k = Some j' \<and>
       (if job_status j \<notin> set active_statuses then j' = j
        else if job_status j = Job_cancel_requested then job_status j' = Job_cancelled
        else job_status j' = Job_failed \<and> job_failure j' = Some Worker_restarted))"
    by (auto simp: window_defs time_max_def)
  from all [rule_format, OF sample_view] r show ?thesis by (auto simp: active_statuses_def)
qed

text \<open>Purging compares stored texts, and that removes exactly the jobs whose purge time has come:
  the call always succeeds on a well-formed table, and afterwards every owner finds the same jobs
  but for those with a purge time at or before now.\<close>

theorem purge_removes_expired:
  assumes "job_table_ok H D rows" and "is_time u"
  shows "\<exists>n rows'. purge_expired H D (Utc u) rows = Inr (n, rows') \<and>
    n = length rows - length rows' \<and>
    (\<forall>k j. job_view H D rows k = Some j \<longrightarrow> job_view H D rows' k =
       (if \<exists>p. job_purge_after j = Some p \<and> p \<le> u then None else Some j))"
proof -
  have "length (filter (purge_due u) rows) = length rows - length (filter (\<lambda>r. \<not> purge_due u r) rows)"
    using sum_length_filter_compl [of "purge_due u" rows] by simp
  with purge_expired_ok [OF assms] purge_view [OF assms purge_expired_ok [OF assms]] show ?thesis by blast
qed

lemma purge_removes_expired_witness:
  "\<exists>n rows'. purge_expired sample_digest (\<lambda>_. []) (Utc (5 + job_retention)) (sample_failed_jobs (\<lambda>_. [])) = Inr (n, rows')
     \<and> job_view sample_digest (\<lambda>_. []) rows' (''local-user'', sample_locator) = None"
proof -
  have "is_time (5 + job_retention)" by (simp add: is_time_def window_defs time_max_def time_min_def)
  from purge_removes_expired [OF sample_failed_ok this] sample_failed_view [of "\<lambda>_. []"] sample_failed_facts(6)
  show ?thesis by (metis order_refl)
qed

text \<open>Tampering with a stored row is detected: a row that reads back, and whose digest column is
  the one computed for a job, holds that job, unless SHA-256 has given two different records the
  same digest.\<close>

theorem tampered_rows_rejected:
  assumes "snapshot_from_row H D r = Inr j" and "row_sha256 r = record_sha256 H D j0" and "inj D"
  shows "j = j0 \<or>
    (job_record_text D j \<noteq> job_record_text D j0 \<and> H (job_record_text D j) = H (job_record_text D j0))"
proof -
  have "r = row_of_job H D (row_id r) j" using assms(1) by (simp add: snapshot_from_row_eq_Inr)
  then have "row_sha256 r = record_sha256 H D j" by (metis row_of_job_def job_row.select_convs(16))
  with assms(2) show ?thesis by (auto simp: record_sha256_def job_record_text_inj [OF assms(3)])
qed

definition sample_clock :: "time \<Rightarrow> string" where
  "sample_clock t = dec_int t"

lemma sample_clock_inj: "inj sample_clock"
proof (rule injI)
  fix s t
  assume "sample_clock s = sample_clock t"
  then have "plain (JInt s) = plain (JInt t)" by (simp add: sample_clock_def)
  then show "s = t" by (simp only: plain_inj json.inject)
qed

lemma tampered_rows_rejected_witness:
  "\<exists>j. snapshot_from_row sample_digest sample_clock (row_of_job sample_digest sample_clock sample_id sample_job) = Inr j
     \<and> j = sample_job"
proof -
  let ?r = "row_of_job sample_digest sample_clock sample_id sample_job"
  have s: "snapshot_from_row sample_digest sample_clock ?r = Inr sample_job" by simp
  have "row_sha256 ?r = record_sha256 sample_digest sample_clock sample_job" by (simp add: row_of_job_def)
  from tampered_rows_rejected [OF s this sample_clock_inj] s show ?thesis by auto
qed

text \<open>C24. Errors: a call on a well-formed table either succeeds, or raises one of the fixed-message job
  errors, or lets through the \<open>OverflowError\<close> of its date arithmetic; the last happens only for a time
  whose 30-day retention ends after the year 9999 (or that is no \<open>datetime\<close> at all, before the year
  1). No validation, integrity or type error escapes.\<close>

theorem job_errors_fixed:
  assumes "job_table_ok H D rows" and "hex_digests H" and "job_step H D e rows = Inl x"
  shows "x \<in> {SearchJobInputError, SearchJobNotFoundError, SearchJobStorageError, SearchJobCancelled} \<or>
    (\<exists>m. x = SearchJobStateError m) \<or>
    (x = OverflowError \<and> (\<exists>t. event_now e = Utc t \<and> (t < time_min \<or> time_max < t + job_retention)))"
proof -
  have "is_SearchJobError x \<or> x = OverflowError"
    using job_step_or_overflow [of H D e rows] assms(3) by (simp add: raises_job_or_overflow_def)
  moreover have "is_SearchJobError x" if "time_in_range (event_now e)"
    using job_step_errors [OF assms(1,2) that] assms(3) by (simp add: raises_job_errors_def)
  moreover have "\<exists>t. event_now e = Utc t \<and> (t < time_min \<or> time_max < t + job_retention)"
    if "\<not> time_in_range (event_now e)"
    using that by (auto simp: time_in_range_def split: time_arg.splits)
  moreover have "x \<in> {SearchJobInputError, SearchJobNotFoundError, SearchJobStorageError, SearchJobCancelled} \<or>
      (\<exists>m. x = SearchJobStateError m)" if "is_SearchJobError x"
    using that by (cases x) simp_all
  ultimately show ?thesis by blast
qed

lemma overflow_escapes:
  "job_step sample_digest D (Get ''local-user'' sample_locator (Utc time_max)) (sample_jobs D) = Inl OverflowError"
proof -
  have i: "row_of_job sample_digest D sample_id sample_job \<in> set (sample_jobs D)" by (simp add: sample_jobs_def)
  have "get_decision time_max sample_job = Inl OverflowError"
    by (simp add: get_decision_def terminal_job_def changed_def time_add_def window_defs time_max_def)
  then show ?thesis
    by (simp add: get_job_def to_table_def storage_errors_def ensure_time_order_def time_max_def
        get.transaction_some [OF sample_jobs_ok sample_hex sample_ids(2,1) sample_view sample_ids(4) i])
qed

lemma job_errors_fixed_witness:
  "\<exists>x t. job_step sample_digest (\<lambda>_. []) (Get ''local-user'' sample_locator (Utc time_max)) (sample_jobs (\<lambda>_. [])) = Inl x
     \<and> x = OverflowError \<and> event_now (Get ''local-user'' sample_locator (Utc time_max)) = Utc t \<and> time_max < t + job_retention"
  using job_errors_fixed [OF sample_jobs_ok sample_hex overflow_escapes [of "\<lambda>_. []"]] overflow_escapes [of "\<lambda>_. []"]
  by (auto simp: time_min_def time_max_def)

text \<open>Enqueueing is idempotent: after an enqueue that succeeded, and any calls but a purge, another
  enqueue of the same owner and binding creates nothing and returns the job of the first one in
  its present state, whatever identifiers it drew.\<close>

theorem enqueue_idempotent:
  assumes t: "job_table_ok H D rows" and H: "hex_digests H"
    and e: "enqueue H D (Instance s) now i l rows = Inr ((j, created), rows')"
    and r: "\<forall>e\<in>set es. now_in_range e \<and> \<not> is_purge e"
  shows "\<exists>j'. enqueue H D (Instance s) (Utc u) i2 l2 (run_events (job_step H D) rows' es) =
      Inr ((j', False), run_events (job_step H D) rows' es) \<and>
    job_locator j' = job_locator j \<and> job_owner j' = sub_owner s \<and> job_binding j' = sub_binding s"
proof -
  let ?rows = "run_events (job_step H D) rows' es"
  note t' = enqueue_inv [OF t e]
  have t2: "job_table_ok H D ?rows" using jobs.run_inv [of H D rows' es] t' H by blast
  from e have s: "submission_ok s" and j: "validate_job j = Inr ()" "job_owner j = sub_owner s"
    "job_binding j = sub_binding s" and "\<exists>k. row_of_job H D k j \<in> set rows'"
    unfolding enqueue_eq_Inr [OF t] by (auto split: if_splits)
  then obtain k where "row_of_job H D k j \<in> set rows'" by blast
  from job_view_mem [OF t' j(1) this]
  have v: "job_view H D rows' (sub_owner s, job_locator j) = Some j" by (simp add: j)
  have "\<exists>j'. job_view H D ?rows (sub_owner s, job_locator j) = Some j' \<and> job_binding j' = sub_binding s"
    by (rule run_keeps [where P = "\<lambda>j'. job_binding j' = sub_binding s", OF t' H r v])
      (auto simp: j next_job_def)
  then obtain j' k' where j': "validate_job j' = Inr ()" "job_owner j' = sub_owner s"
    "job_locator j' = job_locator j" "job_binding j' = sub_binding s" "length k' = 64"
    "row_of_job H D k' j' \<in> set ?rows"
    by (auto simp: job_view_eq_Some [OF t2])
  then have "enqueue H D (Instance s) (Utc u) i2 l2 ?rows = Inr ((j', False), ?rows)"
    unfolding enqueue_eq_Inr [OF t2] using s by (auto simp: bex_simps intro!: bexI)
  with j' show ?thesis by blast
qed

lemma enqueue_idempotent_witness:
  "\<exists>j'. enqueue sample_digest (\<lambda>_. []) (Instance sample_submission) (Utc 9) (replicate 64 CHR ''2'')
     (replicate 43 CHR ''m'') (run_events (job_step sample_digest (\<lambda>_. [])) (sample_jobs (\<lambda>_. [])) [Recover (Utc 5)])
   = Inr ((j', False), run_events (job_step sample_digest (\<lambda>_. [])) (sample_jobs (\<lambda>_. [])) [Recover (Utc 5)])"
proof -
  have "enqueue sample_digest (\<lambda>_. []) (Instance sample_submission) (Utc 3) sample_id sample_locator (sample_jobs (\<lambda>_. []))
      = Inr ((sample_job, False), sample_jobs (\<lambda>_. []))"
    unfolding enqueue_eq_Inr [OF sample_jobs_ok] using sample_ids(3,4)
    by (auto simp: sample_jobs_def) (auto simp: sample_submission_def intro!: exI [of _ sample_id])
  from enqueue_idempotent [OF sample_jobs_ok sample_hex this, of "[Recover (Utc 5)]" 9] show ?thesis
    by (auto simp: now_in_range_def is_purge_def)
qed

text \<open>The stored text of a time, \<open>YYYY-MM-DDTHH:MM:SS.ffffffZ\<close>, reads back to the time, and texts
  compare as their times do, for every time between the years 1 and 9999: the comparison in
  SQL is the comparison of times.\<close>

theorem time_text_roundtrip:
  assumes "is_time t" and "is_time u"
  shows "parse_time (time_text t) = Inr t \<and> (time_text t \<le> time_text u \<longleftrightarrow> t \<le> u)"
  using assms by (simp add: time_text_le_iff is_time_def)

lemma time_text_roundtrip_witness:
  "parse_time (time_text 1709210096123456) = Inr 1709210096123456 \<and>
   time_text 1709210096123456 = ''2024-02-29T12:34:56.123456Z''"
proof -
  have "is_time 1709210096123456" by (simp add: is_time_def time_min_def time_max_def)
  from time_text_roundtrip [OF this this]
  have "parse_time (time_text 1709210096123456) = Inr 1709210096123456" ..
  moreover have "time_text 1709210096123456 = ''2024-02-29T12:34:56.123456Z''"
  proof -
    have w: "pad (numeral k) n = pad (pred_numeral k) (n div 10) @ [dec_digit (n mod 10)]" for k n
      by (subst numeral_eq_Suc) (rule pad.simps(2))
    have "fields_of 1709210096123456 = [2024, 2, 29, 12, 34, 56, 123456]"
      by (simp add: fields_of_def ord_to_ymd_def year_of_ord_def days_before_year_def
          month_of_day_def days_before_month_def month_offset_def is_leap_def duration_defs)
    then show ?thesis
      by (simp add: time_text_def time_layout_def render.simps w pad.simps dec_digit_def)
  qed
  ultimately show ?thesis ..
qed

end
