(* ===== verification/Job_Executor_Theorems.thy ===== *)
theory Job_Executor_Theorems
  imports Job_Executor_Runs Search_Job_Theorems
begin

text \<open>
  The properties of the executor: the accounting for its jobs under every interleaving, and the
  liveness of its worker.
\<close>

text \<open>C17. No job is lost or run twice, under every interleaving of submissions, polls, cancellations, purges
  and worker steps from the start of an executor on a well-formed table, whatever the clocks read and
  whatever happens between a reading of the clock and the transaction it is passed to. Except for the jobs
  the worker had to leave, every executing job is the one the worker holds (so at most one is executing)
  and every queued job is waiting in the queue, in its submission or in the worker's hands; the worker
  leaves a job only where the clock fails, where its claim or report of an active job comes with a reading
  that is earlier than the job's last update or too late for the retention, or where the runner raises an
  exception that is no \<open>Exception\<close> (\<open>left_by\<close>), and its thread is dead only after that. A job the worker
  holds is executing. The runners are called in the order of the submissions, each submission's at most
  once, and none of a submission that still waits.\<close>

theorem executor_accounts_for_jobs:
  assumes "job_table_ok H D rows" and "hex_digests H" and "new_executor H D reading rows = Inr s0"
  shows "let s = executor_run H D s0 es; left = left_jobs H D s0 es in
    (\<forall>k j. job_view H D (ex_jobs s) k = Some j \<longrightarrow> snd k \<notin> left \<longrightarrow>
       (executing (job_status j) \<longrightarrow> held (ex_phase s) = Some (snd k)) \<and>
       (job_status j = Job_queued \<longrightarrow> snd k \<in> waiting s)) \<and>
    (\<forall>k k' j j'. job_view H D (ex_jobs s) k = Some j \<longrightarrow> job_view H D (ex_jobs s) k' = Some j' \<longrightarrow>
       executing (job_status j) \<longrightarrow> executing (job_status j') \<longrightarrow> snd k \<notin> left \<longrightarrow> snd k' \<notin> left \<longrightarrow> k = k') \<and>
    (\<forall>l. held (ex_phase s) = Some l \<longrightarrow>
       (\<exists>j. job_view H D (ex_jobs s) (local_search_owner_id, l) = Some j \<and> executing (job_status j))) \<and>
    (ex_phase s = Worker_dead \<longrightarrow> left \<noteq> {}) \<and>
    (\<exists>past. ex_submitted s = past @ in_hand (ex_phase s) @ works (ex_queue s) \<and> subseq (ex_called s) past)"
proof -
  note start = new_executor_ok [OF assms]
  let ?s = "executor_run H D s0 es" and ?L = "left_jobs H D s0 es"
  have ok: "executor_ok H D ?L ?s" using executor_run_ok [OF start(1) assms(2), of es] by simp
  have "fifo_ok s0" using start by (simp add: fifo_ok_def)
  then have fifo: "fifo_ok ?s" by (rule fifo_run)
  note a = accounted_jobsD [OF executor_okD(1) [OF ok]]
  have "k = k'" if "job_view H D (ex_jobs ?s) k = Some j" "job_view H D (ex_jobs ?s) k' = Some j'"
    "executing (job_status j)" "executing (job_status j')" "snd k \<notin> ?L" "snd k' \<notin> ?L" for k k' j j'
    using a(3) [OF that(1,3)] a(3) [OF that(2,4)] that(5,6) by (simp add: prod_eq_iff)
  with a(2-4) executor_okD(3) [OF ok] fifo show ?thesis unfolding Let_def dead_ok_def fifo_ok_def by blast
qed

lemma empty_executor:
  obtains s where "new_executor sample_digest D (Read (Utc 5)) [] = Inr s"
    and "s = \<lparr>ex_jobs = [], ex_lock = Free, ex_calls = [], ex_signals = [], ex_queue = [], ex_events = [],
      ex_accepting = True, ex_phase = Waiting, ex_submitted = [], ex_called = []\<rparr>"
proof -
  have "recover_interrupted sample_digest D (Utc 5) [] = Inr (0, [])"
    by (simp add: recover_interrupted_def validated_now_def job_utc_datetime_def storage_errors_def)
  with that show thesis by (simp add: new_executor_def del: executor_now.simps)
qed

definition sample_binding :: string where "sample_binding = replicate 64 CHR ''c''"

text \<open>A submission, in its three steps.\<close>

definition sample_submit :: "executor_event list" where
  "sample_submit = [Submit_start sample_binding 7 (Read (Utc 6)),
     Submit_store (replicate 64 CHR ''2'') (replicate 43 CHR ''m''), Submit_publish]"

lemma single_row_table:
  assumes "validate_job j = Inr ()" and "length i = 64"
  shows "job_table_ok H D [row_of_job H D i j]"
    and "job_view H D [row_of_job H D i j] k = Some y \<longleftrightarrow> y = j \<and> k = (job_owner j, job_locator j)"
proof -
  show t: "job_table_ok H D [row_of_job H D i j]"
    using assms by (simp add: job_table_ok_def stored_job_def)
  show "job_view H D [row_of_job H D i j] k = Some y \<longleftrightarrow> y = j \<and> k = (job_owner j, job_locator j)"
    using assms(1) by (cases k) (auto simp: job_view_def)
qed

lemma submitted_sample:
  obtains s0 where "new_executor sample_digest D (Read (Utc 5)) [] = Inr s0"
    and "ex_phase (executor_run sample_digest D s0 sample_submit) = Waiting"
    and "ex_lock (executor_run sample_digest D s0 sample_submit) = Free"
    and "ex_queue (executor_run sample_digest D s0 sample_submit) = [Work (replicate 43 CHR ''m'') 7]"
    and "stored_by sample_digest D 6 (executor_run sample_digest D s0 sample_submit)"
    and "left_jobs sample_digest D s0 sample_submit = {}"
proof -
  obtain s0 where s0: "new_executor sample_digest D (Read (Utc 5)) [] = Inr s0"
    "s0 = \<lparr>ex_jobs = [], ex_lock = Free, ex_calls = [], ex_signals = [], ex_queue = [], ex_events = [],
      ex_accepting = True, ex_phase = Waiting, ex_submitted = [], ex_called = []\<rparr>" by (rule empty_executor)
  let ?p = "\<lparr>sub_owner = local_search_owner_id, sub_binding = sample_binding\<rparr>"
  let ?m = "replicate 43 CHR ''m''" and ?i = "replicate 64 CHR ''2''"
  have tok: "is_token ?m" "submission_ok ?p"
    by (simp_all add: urlsafe_chars_def alnum_chars_def submission_ok_def sample_binding_def hex_chars_def)
  have v: "validate_job (queued_job ?p ?m 6) = Inr ()"
    using tok by (simp add: queued_job_valid is_time_def window_defs time_max_def time_min_def)
  let ?row = "row_of_job sample_digest D ?i (queued_job ?p ?m 6)"
  have "row_checks ?row" by (rule row_checks_of_job [OF v]) simp_all
  then have enq: "enqueue sample_digest D (Instance ?p) (Utc 6) ?i ?m [] = Inr ((queued_job ?p ?m 6, True), [?row])"
    unfolding enqueue_eq_Inr [OF empty_table_ok] using tok v by simp
  have run: "executor_run sample_digest D s0 sample_submit =
      s0\<lparr>ex_jobs := [?row], ex_events := [(?m, False)], ex_queue := [Work ?m 7], ex_submitted := [(?m, 7)]\<rparr>"
    using tok(2) enq
    by (simp add: sample_submit_def submit_start_def submit_store_def submit_publish_def s0(2) del: executor_now.simps)
  have "stored_by sample_digest D 6 (executor_run sample_digest D s0 sample_submit)"
    using single_row_table(2) [OF v, of ?i] by (auto simp: run stored_by_def)
  with run s0 show thesis by (intro that [of s0]) (simp_all add: sample_submit_def)
qed

lemma executor_accounts_for_jobs_witness:
  "\<exists>s0. new_executor sample_digest (\<lambda>_. []) (Read (Utc 5)) [] = Inr s0 \<and>
     ex_phase (executor_run sample_digest (\<lambda>_. []) s0 sample_submit) \<noteq> Worker_dead \<and>
     (\<exists>past. ex_submitted (executor_run sample_digest (\<lambda>_. []) s0 sample_submit) = past @ [(replicate 43 CHR ''m'', 7)] \<and>
        subseq (ex_called (executor_run sample_digest (\<lambda>_. []) s0 sample_submit)) past)"
proof -
  obtain s0 where s0: "new_executor sample_digest (\<lambda>_. []) (Read (Utc 5)) [] = Inr s0"
    and s: "ex_phase (executor_run sample_digest (\<lambda>_. []) s0 sample_submit) = Waiting"
      "ex_queue (executor_run sample_digest (\<lambda>_. []) s0 sample_submit) = [Work (replicate 43 CHR ''m'') 7]"
      "left_jobs sample_digest (\<lambda>_. []) s0 sample_submit = {}"
    by (rule submitted_sample)
  from executor_accounts_for_jobs [OF empty_table_ok sample_hex s0, of sample_submit] s s0 show ?thesis
    by (auto simp: Let_def)
qed

text \<open>C18. Liveness of the worker alone: in any state an executor has come to, with no submission under way, a
  waiting worker that is scheduled for as many runs as jobs are queued empties the queue and leaves every
  job of the table finished, but for those it had left before (\<open>left_by\<close>). The conditions: each runner ends
  by returning or by raising an \<open>Exception\<close> (a cancellation, or any other), no other thread's call comes in
  between, and the clock reads, for each claim and report, a time that is not before the last one nor
  before any stored time, and whose retention ends before the year 10000.\<close>

theorem worker_finishes_every_job:
  assumes "job_table_ok H D rows" and "hex_digests H" and "new_executor H D reading rows = Inr s0"
    and "ex_phase (executor_run H D s0 es) = Waiting" and "ex_lock (executor_run H D s0 es) = Free"
    and "stored_by H D T (executor_run H D s0 es)"
    and "ex_queue (executor_run H D s0 es) = map (\<lambda>(l, r). Work l r) ws" and "cycles_ok T cs" and "length cs = length ws"
  shows "let s = executor_run H D (executor_run H D s0 es) (concat (map worker_cycle cs)) in
    ex_queue s = [] \<and> ex_phase s = Waiting \<and>
    (\<forall>k j. job_view H D (ex_jobs s) k = Some j \<longrightarrow> snd k \<notin> left_jobs H D s0 es \<longrightarrow> job_status j \<in> set terminal_statuses)"
proof -
  have ok: "executor_ok H D (left_jobs H D s0 es) (executor_run H D s0 es)"
    using executor_run_ok [OF new_executor_ok(1) [OF assms(1-3)] assms(2), of es] by simp
  from worker_drains [OF ok assms(2,6,4,5,7-9)] idle_no_active show ?thesis by (auto simp: Let_def)
qed

lemma worker_finishes_every_job_witness:
  "\<exists>s0. new_executor sample_digest (\<lambda>_. []) (Read (Utc 5)) [] = Inr s0 \<and>
     ex_queue (executor_run sample_digest (\<lambda>_. []) s0 sample_submit) = [Work (replicate 43 CHR ''m'') 7] \<and>
     ex_queue (executor_run sample_digest (\<lambda>_. []) (executor_run sample_digest (\<lambda>_. []) s0 sample_submit)
       (concat (map worker_cycle [(8, Raised_other, 9)]))) = []"
proof -
  obtain s0 where s0: "new_executor sample_digest (\<lambda>_. []) (Read (Utc 5)) [] = Inr s0"
    and s: "ex_phase (executor_run sample_digest (\<lambda>_. []) s0 sample_submit) = Waiting"
      "ex_lock (executor_run sample_digest (\<lambda>_. []) s0 sample_submit) = Free"
      "ex_queue (executor_run sample_digest (\<lambda>_. []) s0 sample_submit) = [Work (replicate 43 CHR ''m'') 7]"
      "stored_by sample_digest (\<lambda>_. []) 6 (executor_run sample_digest (\<lambda>_. []) s0 sample_submit)"
    by (rule submitted_sample)
  have "cycles_ok 6 [(8, Raised_other, 9)]"
    by (simp add: now_at_def window_defs time_min_def time_max_def)
  from worker_finishes_every_job [OF empty_table_ok sample_hex s0 s(1,2,4) _ this, of "[(replicate 43 CHR ''m'', 7)]"] s0 s(3)
  show ?thesis by (auto simp: Let_def)
qed

end
