(* ===== verification/Typed_Requirements.thy ===== *)
theory Typed_Requirements
  imports Text_Values
begin

text \<open>
  Model of \<open>search_v2/typed_requirements.py\<close>: the attribute registry and its validators, the
  typed requirement contract, the normalisation of drafts and observed values against the
  registry, and the digests of a registry and of a requirement set. \<open>U\<close> holds the functions of
  the Unicode tables, \<open>H\<close> is \<open>hashlib.sha256(_).hexdigest()\<close>. The \<open>schema_version\<close> fields,
  the constant \<open>"1.0"\<close>, appear in the JSON forms only. Strings are valid Unicode (pydantic refuses
  lone surrogates).
\<close>

section \<open>Bounds and enumerations\<close>

definition max_attribute_definitions :: nat where "max_attribute_definitions = 128"
definition max_attribute_aliases :: nat where "max_attribute_aliases = 16"
definition max_allowed_values :: nat where "max_allowed_values = 64"
definition max_value_aliases :: nat where "max_value_aliases = 64"
definition max_evidence_rules :: nat where "max_evidence_rules = 3"
definition max_requirements :: nat where "max_requirements = 64"
definition max_set_values :: nat where "max_set_values = 32"
definition min_numeric_value :: int where "min_numeric_value = - 1000000000000"
definition max_numeric_value :: int where "max_numeric_value = 1000000000000"

datatype requirement_operator =
  Equals | One_of | Contains_all | At_least | At_most | Between | Compatible_with | Similar_to

datatype requirement_strength = Required | Preferred | Excluded

datatype value_type =
  Boolean_type | Enum_type | Integer_type | Decimal_type | Text_set_type | Semantic_type

datatype evidence_source = Structured | Title_exact | Visual_feature

fun operator_name :: "requirement_operator \<Rightarrow> string" where
  "operator_name Equals = ''equals''"
| "operator_name One_of = ''one_of''"
| "operator_name Contains_all = ''contains_all''"
| "operator_name At_least = ''at_least''"
| "operator_name At_most = ''at_most''"
| "operator_name Between = ''between''"
| "operator_name Compatible_with = ''compatible_with''"
| "operator_name Similar_to = ''similar_to''"

fun strength_name :: "requirement_strength \<Rightarrow> string" where
  "strength_name Required = ''required''"
| "strength_name Preferred = ''preferred''"
| "strength_name Excluded = ''excluded''"

fun value_type_name :: "value_type \<Rightarrow> string" where
  "value_type_name Boolean_type = ''boolean''"
| "value_type_name Enum_type = ''enum''"
| "value_type_name Integer_type = ''integer''"
| "value_type_name Decimal_type = ''decimal''"
| "value_type_name Text_set_type = ''text_set''"
| "value_type_name Semantic_type = ''semantic''"

fun source_name :: "evidence_source \<Rightarrow> string" where
  "source_name Structured = ''structured''"
| "source_name Title_exact = ''title_exact''"
| "source_name Visual_feature = ''visual_feature''"

fun operators_by_type :: "value_type \<Rightarrow> requirement_operator set" where
  "operators_by_type Boolean_type = {Equals}"
| "operators_by_type Enum_type = {Equals, One_of, Compatible_with}"
| "operators_by_type Integer_type = {Equals, At_least, At_most, Between}"
| "operators_by_type Decimal_type = {Equals, At_least, At_most, Between}"
| "operators_by_type Text_set_type = {Equals, One_of, Contains_all, Compatible_with}"
| "operators_by_type Semantic_type = {Similar_to}"

section \<open>Targets and observed values\<close>

datatype target =
    BooleanTarget bool
  | EnumTarget "string list"
  | IntegerTarget "int option" "int option" string
  | DecimalTarget "decimal option" "decimal option" string
  | TextSetTarget "string list"
  | SemanticTarget string

datatype observed =
    BooleanObserved bool
  | EnumObserved string
  | IntegerObserved int string
  | DecimalObserved decimal string
  | TextSetObserved "string list"
  | SemanticObserved string

fun target_type :: "target \<Rightarrow> value_type" where
  "target_type (BooleanTarget b) = Boolean_type"
| "target_type (EnumTarget vs) = Enum_type"
| "target_type (IntegerTarget lo hi u) = Integer_type"
| "target_type (DecimalTarget lo hi u) = Decimal_type"
| "target_type (TextSetTarget vs) = Text_set_type"
| "target_type (SemanticTarget l) = Semantic_type"

fun observed_type :: "observed \<Rightarrow> value_type" where
  "observed_type (BooleanObserved b) = Boolean_type"
| "observed_type (EnumObserved v) = Enum_type"
| "observed_type (IntegerObserved n u) = Integer_type"
| "observed_type (DecimalObserved d u) = Decimal_type"
| "observed_type (TextSetObserved vs) = Text_set_type"
| "observed_type (SemanticObserved l) = Semantic_type"

definition integer_value :: "int \<Rightarrow> bool" where
  "integer_value n \<longleftrightarrow> min_numeric_value \<le> n \<and> n \<le> max_numeric_value"

definition decimal_of :: "int \<Rightarrow> decimal" where
  "decimal_of n = Dec (n < 0) (nat \<bar>n\<bar>) 0"

definition decimal_value :: "text_library \<Rightarrow> decimal \<Rightarrow> bool" where
  "decimal_value U d \<longleftrightarrow> dec_le (decimal_of min_numeric_value) d \<and>
     dec_le d (decimal_of max_numeric_value) \<and> digits_ok U d"

definition set_values :: "string list \<Rightarrow> bool" where
  "set_values vs \<longleftrightarrow> 1 \<le> length vs \<and> length vs \<le> max_set_values \<and> list_all bounded_text vs"

fun target_fields :: "text_library \<Rightarrow> target \<Rightarrow> bool" where
  "target_fields U (BooleanTarget b) \<longleftrightarrow> True"
| "target_fields U (EnumTarget vs) \<longleftrightarrow> set_values vs"
| "target_fields U (IntegerTarget lo hi u) \<longleftrightarrow>
     opt_all integer_value lo \<and> opt_all integer_value hi \<and> bounded_text u"
| "target_fields U (DecimalTarget lo hi u) \<longleftrightarrow>
     opt_all (decimal_value U) lo \<and> opt_all (decimal_value U) hi \<and> bounded_text u"
| "target_fields U (TextSetTarget vs) \<longleftrightarrow> set_values vs"
| "target_fields U (SemanticTarget l) \<longleftrightarrow> bounded_text l"

text \<open>\<open>model_validate\<close> of a target: the field constraints, then the \<open>validate_values\<close> of its class.\<close>

definition validate_target :: "text_library \<Rightarrow> target \<Rightarrow> target result" where
  "validate_target U t =
     (if \<not> target_fields U t then Inl (ValidationError ''target field'')
      else case t of
        EnumTarget vs \<Rightarrow>
          if \<not> has_unique_text U vs then Inl (ValidationError ''enum target values must be unique'')
          else Inr t
      | TextSetTarget vs \<Rightarrow>
          if \<not> has_unique_text U vs
          then Inl (ValidationError ''text set target values must be unique'')
          else Inr t
      | _ \<Rightarrow> Inr t)"

fun observed_fields :: "text_library \<Rightarrow> observed \<Rightarrow> bool" where
  "observed_fields U (BooleanObserved b) \<longleftrightarrow> True"
| "observed_fields U (EnumObserved v) \<longleftrightarrow> bounded_text v"
| "observed_fields U (IntegerObserved n u) \<longleftrightarrow> integer_value n \<and> bounded_text u"
| "observed_fields U (DecimalObserved d u) \<longleftrightarrow> decimal_value U d \<and> bounded_text u"
| "observed_fields U (TextSetObserved vs) \<longleftrightarrow> set_values vs"
| "observed_fields U (SemanticObserved l) \<longleftrightarrow> bounded_text l"

definition validate_observed :: "text_library \<Rightarrow> observed \<Rightarrow> observed result" where
  "validate_observed U v =
     (if \<not> observed_fields U v then Inl (ValidationError ''observed value field'')
      else case v of
        TextSetObserved vs \<Rightarrow>
          if \<not> has_unique_text U vs
          then Inl (ValidationError ''observed text set values must be unique'')
          else Inr v
      | _ \<Rightarrow> Inr v)"

text \<open>Equality of models compares decimals as numbers.\<close>

fun opt_rel :: "('a \<Rightarrow> 'b \<Rightarrow> bool) \<Rightarrow> 'a option \<Rightarrow> 'b option \<Rightarrow> bool" where
  "opt_rel r None None \<longleftrightarrow> True"
| "opt_rel r (Some x) (Some y) \<longleftrightarrow> r x y"
| "opt_rel r x y \<longleftrightarrow> False"

fun same_target :: "target \<Rightarrow> target \<Rightarrow> bool" where
  "same_target (DecimalTarget lo hi u) (DecimalTarget lo' hi' u') \<longleftrightarrow>
     opt_rel dec_eq lo lo' \<and> opt_rel dec_eq hi hi' \<and> u = u'"
| "same_target a b \<longleftrightarrow> a = b"

fun same_observed :: "observed \<Rightarrow> observed \<Rightarrow> bool" where
  "same_observed (DecimalObserved d u) (DecimalObserved d' u') \<longleftrightarrow> dec_eq d d' \<and> u = u'"
| "same_observed a b \<longleftrightarrow> a = b"

section \<open>The registry\<close>

record value_alias =
  alias_text :: string
  alias_canonical :: string

record evidence_rule =
  rule_source :: evidence_source
  rule_priority :: int
  rule_evaluator :: string
  rule_version :: string

record attribute_definition =
  attr_category :: string
  attr_key :: string
  attr_aliases :: "string list"
  attr_type :: value_type
  attr_operators :: "requirement_operator list"
  attr_strengths :: "requirement_strength list"
  attr_units :: "string list"
  attr_unit_aliases :: "value_alias list"
  attr_values :: "string list"
  attr_value_aliases :: "value_alias list"
  attr_rules :: "evidence_rule list"
  attr_weight :: int
  attr_visual :: bool

record attribute_registry =
  reg_id :: string
  reg_definitions :: "attribute_definition list"

text \<open>\<open>ValueAlias.validate_alias\<close> runs after the field constraint.\<close>

definition value_alias_ok :: "text_library \<Rightarrow> value_alias \<Rightarrow> bool" where
  "value_alias_ok U a \<longleftrightarrow> bounded_text (alias_text a) \<and>
     normalize_text U (alias_text a) = Inr (alias_text a) \<and> is_identifier (alias_canonical a)"

definition evidence_rule_ok :: "evidence_rule \<Rightarrow> bool" where
  "evidence_rule_ok r \<longleftrightarrow> 1 \<le> rule_priority r \<and> rule_priority r \<le> 100 \<and>
     is_identifier (rule_evaluator r) \<and> is_version (rule_version r)"

definition definition_fields :: "text_library \<Rightarrow> attribute_definition \<Rightarrow> bool" where
  "definition_fields U d \<longleftrightarrow>
     is_identifier (attr_category d) \<and> is_attribute_key (attr_key d) \<and>
     length (attr_aliases d) \<le> max_attribute_aliases \<and> list_all bounded_text (attr_aliases d) \<and>
     1 \<le> length (attr_operators d) \<and> length (attr_operators d) \<le> 8 \<and>
     1 \<le> length (attr_strengths d) \<and> length (attr_strengths d) \<le> 3 \<and>
     length (attr_units d) \<le> 16 \<and> list_all is_identifier (attr_units d) \<and>
     length (attr_unit_aliases d) \<le> max_value_aliases \<and>
     list_all (value_alias_ok U) (attr_unit_aliases d) \<and>
     length (attr_values d) \<le> max_allowed_values \<and> list_all is_identifier (attr_values d) \<and>
     length (attr_value_aliases d) \<le> max_value_aliases \<and>
     list_all (value_alias_ok U) (attr_value_aliases d) \<and>
     length (attr_rules d) \<le> max_evidence_rules \<and> list_all evidence_rule_ok (attr_rules d) \<and>
     1 \<le> attr_weight d \<and> attr_weight d \<le> 100"

text \<open>A dict built from pairs in order: the last pair with a key wins.\<close>

definition dict_get :: "('k \<times> 'v) list \<Rightarrow> 'k \<Rightarrow> 'v option" where
  "dict_get pairs = map_of (rev pairs)"

definition canonical_pairs :: "text_library \<Rightarrow> string list \<Rightarrow> (string \<times> string) list" where
  "canonical_pairs U vs = map (\<lambda>v. (text_identity U v, v)) vs"

definition alias_pairs :: "text_library \<Rightarrow> value_alias list \<Rightarrow> (string \<times> string) list" where
  "alias_pairs U as = map (\<lambda>a. (text_identity U (alias_text a), alias_canonical a)) as"

text \<open>The loop over the aliases that looks for an overridden canonical name.\<close>

definition alias_overrides :: "text_library \<Rightarrow> string list \<Rightarrow> value_alias list \<Rightarrow> bool" where
  "alias_overrides U vs as =
     list_ex (\<lambda>a. case dict_get (canonical_pairs U vs) (text_identity U (alias_text a)) of
         None \<Rightarrow> False
       | Some v \<Rightarrow> v \<noteq> alias_canonical a) as"

definition aliases_unique :: "text_library \<Rightarrow> value_alias list \<Rightarrow> bool" where
  "aliases_unique U as = distinct (map (\<lambda>a. text_identity U (alias_text a)) as)"

definition aliases_resolve :: "string list \<Rightarrow> value_alias list \<Rightarrow> bool" where
  "aliases_resolve vs as = list_all (\<lambda>a. alias_canonical a \<in> set vs) as"

definition is_numeric :: "value_type \<Rightarrow> bool" where
  "is_numeric t \<longleftrightarrow> t \<in> {Integer_type, Decimal_type}"

definition is_enumerated :: "value_type \<Rightarrow> bool" where
  "is_enumerated t \<longleftrightarrow> t \<in> {Enum_type, Semantic_type}"

definition validate_definition :: "text_library \<Rightarrow> attribute_definition \<Rightarrow> unit result" where
  "validate_definition U d =
     (if \<not> definition_fields U d then Inl (ValidationError ''attribute definition field'')
      else if \<not> has_unique_text U (attr_aliases d)
      then Inl (ValidationError ''attribute aliases must be unique'')
      else if \<not> distinct (attr_operators d)
      then Inl (ValidationError ''allowed operators must be unique'')
      else if \<not> set (attr_operators d) \<subseteq> operators_by_type (attr_type d)
      then Inl (ValidationError ''operator is incompatible with the attribute value type'')
      else if \<not> distinct (attr_strengths d)
      then Inl (ValidationError ''allowed strengths must be unique'')
      else if attr_type d = Semantic_type \<and> attr_strengths d \<noteq> [Preferred]
      then Inl (ValidationError ''semantic attributes must remain preferred'')
      else if is_numeric (attr_type d) \<noteq> (attr_units d \<noteq> [])
      then Inl (ValidationError ''numeric attributes require units and other attributes forbid them'')
      else if \<not> distinct (attr_units d)
      then Inl (ValidationError ''allowed units must be unique'')
      else if \<not> aliases_unique U (attr_unit_aliases d)
      then Inl (ValidationError ''unit aliases must be unique'')
      else if \<not> aliases_resolve (attr_units d) (attr_unit_aliases d)
      then Inl (ValidationError ''unit alias must resolve to an allowed unit'')
      else if alias_overrides U (attr_units d) (attr_unit_aliases d)
      then Inl (ValidationError ''unit alias must not override a canonical unit'')
      else if is_enumerated (attr_type d) \<noteq> (attr_values d \<noteq> [])
      then Inl (ValidationError ''enum and semantic attributes require allowed values'')
      else if \<not> distinct (attr_values d)
      then Inl (ValidationError ''allowed values must be unique'')
      else if \<not> aliases_unique U (attr_value_aliases d)
      then Inl (ValidationError ''value aliases must be unique'')
      else if \<not> aliases_resolve (attr_values d) (attr_value_aliases d)
      then Inl (ValidationError ''value alias must resolve to an allowed value'')
      else if alias_overrides U (attr_values d) (attr_value_aliases d)
      then Inl (ValidationError ''value alias must not override a canonical value'')
      else if \<not> distinct (map rule_source (attr_rules d))
      then Inl (ValidationError ''evidence sources must be unique for an attribute'')
      else Inr ())"

text \<open>\<open>(definition.attribute_key, *definition.aliases)\<close>, and the loop of \<open>validate_registry\<close> that
  binds the identity of every name to the key of its definition.\<close>

definition attr_names :: "attribute_definition \<Rightarrow> string list" where
  "attr_names d = attr_key d # attr_aliases d"

definition registry_names :: "text_library \<Rightarrow> attribute_definition list \<Rightarrow> (string \<times> string) list" where
  "registry_names U ds =
     concat (map (\<lambda>d. map (\<lambda>n. (text_identity U n, attr_key d)) (attr_names d)) ds)"

fun bind_identities :: "(string \<times> string) list \<Rightarrow> (string \<times> string) list \<Rightarrow> unit result" where
  "bind_identities identities [] = Inr ()"
| "bind_identities identities ((i, key) # rest) =
     (case map_of identities i of
        Some existing \<Rightarrow>
          if existing \<noteq> key
          then Inl (ValidationError ''attribute key and alias identities must be unique'')
          else bind_identities (AList.update i key identities) rest
      | None \<Rightarrow> bind_identities (AList.update i key identities) rest)"

text \<open>\<open>AttributeRegistry.model_validate\<close>: the nested models first, then \<open>validate_registry\<close>.\<close>

definition validate_registry :: "text_library \<Rightarrow> attribute_registry \<Rightarrow> unit result" where
  "validate_registry U r =
     (let keys = map attr_key (reg_definitions r) in
      if \<not> is_identifier (reg_id r) \<or> reg_definitions r = [] \<or>
         max_attribute_definitions < length (reg_definitions r)
      then Inl (ValidationError ''attribute registry field'')
      else bind (check_all (validate_definition U) (reg_definitions r)) (\<lambda>_.
           if keys \<noteq> sort keys \<or> \<not> distinct keys
           then Inl (ValidationError ''attribute definitions must have unique sorted keys'')
           else bind_identities [] (registry_names U (reg_definitions r))))"

section \<open>Requirements\<close>

record requirement_draft =
  draft_id :: string
  draft_key :: string
  draft_operator :: requirement_operator
  draft_target :: target
  draft_strength :: requirement_strength

record typed_requirement =
  req_id :: string
  req_key :: string
  req_operator :: requirement_operator
  req_target :: target
  req_strength :: requirement_strength
  req_registry :: string

definition validate_requirement :: "text_library \<Rightarrow> typed_requirement \<Rightarrow> unit result" where
  "validate_requirement U q =
     (if \<not> is_identifier (req_id q) \<or> \<not> is_attribute_key (req_key q) \<or> \<not> is_digest (req_registry q)
      then Inl (ValidationError ''typed requirement field'')
      else bind (validate_target U (req_target q)) (\<lambda>_. Inr ()))"

definition validate_draft :: "text_library \<Rightarrow> requirement_draft \<Rightarrow> unit result" where
  "validate_draft U d =
     (if \<not> is_identifier (draft_id d) \<or> \<not> bounded_text (draft_key d)
      then Inl (ValidationError ''typed requirement draft field'')
      else bind (validate_target U (draft_target d)) (\<lambda>_. Inr ()))"

definition same_requirement :: "typed_requirement \<Rightarrow> typed_requirement \<Rightarrow> bool" where
  "same_requirement a b \<longleftrightarrow> req_id a = req_id b \<and> req_key a = req_key b \<and>
     req_operator a = req_operator b \<and> same_target (req_target a) (req_target b) \<and>
     req_strength a = req_strength b \<and> req_registry a = req_registry b"

section \<open>Canonical JSON and digests\<close>

fun target_json :: "target \<Rightarrow> json" where
  "target_json (BooleanTarget b) = JObj [(''value_type'', JStr ''boolean''), (''value'', JBool b)]"
| "target_json (EnumTarget vs) =
     JObj [(''value_type'', JStr ''enum''), (''values'', JArr (map JStr vs))]"
| "target_json (IntegerTarget lo hi u) =
     JObj [(''value_type'', JStr ''integer''), (''minimum'', json_opt JInt lo),
           (''maximum'', json_opt JInt hi), (''unit'', JStr u)]"
| "target_json (DecimalTarget lo hi u) =
     JObj [(''value_type'', JStr ''decimal''), (''minimum'', json_opt (JStr \<circ> decimal_str) lo),
           (''maximum'', json_opt (JStr \<circ> decimal_str) hi), (''unit'', JStr u)]"
| "target_json (TextSetTarget vs) =
     JObj [(''value_type'', JStr ''text_set''), (''values'', JArr (map JStr vs))]"
| "target_json (SemanticTarget l) =
     JObj [(''value_type'', JStr ''semantic''), (''label'', JStr l)]"

fun observed_json :: "observed \<Rightarrow> json" where
  "observed_json (BooleanObserved b) =
     JObj [(''value_type'', JStr ''boolean''), (''value'', JBool b)]"
| "observed_json (EnumObserved v) = JObj [(''value_type'', JStr ''enum''), (''value'', JStr v)]"
| "observed_json (IntegerObserved n u) =
     JObj [(''value_type'', JStr ''integer''), (''value'', JInt n), (''unit'', JStr u)]"
| "observed_json (DecimalObserved d u) =
     JObj [(''value_type'', JStr ''decimal''), (''value'', JStr (decimal_str d)), (''unit'', JStr u)]"
| "observed_json (TextSetObserved vs) =
     JObj [(''value_type'', JStr ''text_set''), (''values'', JArr (map JStr vs))]"
| "observed_json (SemanticObserved l) =
     JObj [(''value_type'', JStr ''semantic''), (''label'', JStr l)]"

definition requirement_json :: "typed_requirement \<Rightarrow> json" where
  "requirement_json q =
     JObj [(''schema_version'', JStr ''1.0''), (''requirement_id'', JStr (req_id q)),
           (''attribute_key'', JStr (req_key q)), (''operator'', JStr (operator_name (req_operator q))),
           (''expected_value'', target_json (req_target q)),
           (''strength'', JStr (strength_name (req_strength q))),
           (''registry_sha256'', JStr (req_registry q))]"

definition alias_json :: "value_alias \<Rightarrow> json" where
  "alias_json a = JObj [(''alias'', JStr (alias_text a)), (''canonical'', JStr (alias_canonical a))]"

definition rule_json :: "evidence_rule \<Rightarrow> json" where
  "rule_json r =
     JObj [(''source'', JStr (source_name (rule_source r))), (''priority'', JInt (rule_priority r)),
           (''evaluator_id'', JStr (rule_evaluator r)), (''evaluator_version'', JStr (rule_version r))]"

definition definition_json :: "attribute_definition \<Rightarrow> json" where
  "definition_json d =
     JObj [(''category'', JStr (attr_category d)), (''attribute_key'', JStr (attr_key d)),
           (''aliases'', JArr (map JStr (attr_aliases d))),
           (''value_type'', JStr (value_type_name (attr_type d))),
           (''allowed_operators'', JArr (map (JStr \<circ> operator_name) (attr_operators d))),
           (''allowed_strengths'', JArr (map (JStr \<circ> strength_name) (attr_strengths d))),
           (''allowed_units'', JArr (map JStr (attr_units d))),
           (''unit_aliases'', JArr (map alias_json (attr_unit_aliases d))),
           (''allowed_values'', JArr (map JStr (attr_values d))),
           (''value_aliases'', JArr (map alias_json (attr_value_aliases d))),
           (''evidence_rules'', JArr (map rule_json (attr_rules d))),
           (''default_weight'', JInt (attr_weight d)),
           (''visual_prompt_allowed'', JBool (attr_visual d))]"

definition registry_json :: "attribute_registry \<Rightarrow> json" where
  "registry_json r =
     JObj [(''schema_version'', JStr ''1.0''), (''registry_id'', JStr (reg_id r)),
           (''definitions'', JArr (map definition_json (reg_definitions r)))]"

definition registry_domain :: string where
  "registry_domain = ''amazon-explorer-attribute-registry-v1'' @ [CHR 0x00]"

definition requirement_set_domain :: string where
  "requirement_set_domain = ''amazon-explorer-typed-requirement-set-v1'' @ [CHR 0x00]"

definition canonical_sha256 :: "(string \<Rightarrow> string) \<Rightarrow> string \<Rightarrow> json \<Rightarrow> string" where
  "canonical_sha256 H domain v = H (domain @ dumps v)"

definition attribute_registry_sha256 ::
  "text_library \<Rightarrow> (string \<Rightarrow> string) \<Rightarrow> attribute_registry \<Rightarrow> string result" where
  "attribute_registry_sha256 U H r =
     bind (rewrap is_ValueError TypedRequirementError (validate_registry U r)) (\<lambda>_.
       Inr (canonical_sha256 H registry_domain (registry_json r)))"

section \<open>Normalisation\<close>

definition definition_lookup ::
  "text_library \<Rightarrow> attribute_registry \<Rightarrow> string \<Rightarrow> attribute_definition option" where
  "definition_lookup U r =
     dict_get (concat (map (\<lambda>d. map (\<lambda>n. (text_identity U n, d)) (attr_names d))
       (reg_definitions r)))"

definition normalize_name ::
  "text_library \<Rightarrow> string list \<Rightarrow> value_alias list \<Rightarrow> exn \<Rightarrow> string \<Rightarrow> string result" where
  "normalize_name U vs as missing s =
     bind (normalize_text U s) (\<lambda>n.
       case dict_get (canonical_pairs U vs @ alias_pairs U as) (text_identity U n) of
         None \<Rightarrow> Inl missing
       | Some v \<Rightarrow> Inr v)"

definition normalize_allowed_value ::
  "text_library \<Rightarrow> attribute_definition \<Rightarrow> string \<Rightarrow> string result" where
  "normalize_allowed_value U d s =
     normalize_name U (attr_values d) (attr_value_aliases d)
       (ValueError ''value is not allowed for the attribute'') s"

definition normalize_unit :: "text_library \<Rightarrow> attribute_definition \<Rightarrow> string \<Rightarrow> string result" where
  "normalize_unit U d s =
     normalize_name U (attr_units d) (attr_unit_aliases d)
       (ValueError ''unit is not allowed for the attribute'') s"

text \<open>The values of a comprehension whose body may raise.\<close>

fun map_result :: "('a \<Rightarrow> 'b result) \<Rightarrow> 'a list \<Rightarrow> 'b list result" where
  "map_result f [] = Inr []"
| "map_result f (x # xs) = bind (f x) (\<lambda>y. bind (map_result f xs) (\<lambda>ys. Inr (y # ys)))"

definition validate_numeric_bounds ::
  "('n \<Rightarrow> 'n \<Rightarrow> bool) \<Rightarrow> ('n \<Rightarrow> 'n \<Rightarrow> bool) \<Rightarrow> requirement_operator \<Rightarrow> 'n option \<Rightarrow> 'n option \<Rightarrow> unit result"
where
  "validate_numeric_bounds eq le op lo hi =
     (if op = Equals \<and> \<not> (case (lo, hi) of (Some a, Some b) \<Rightarrow> eq a b | _ \<Rightarrow> False)
      then Inl (ValueError ''equals requires identical minimum and maximum'')
      else if op = At_least \<and> \<not> (lo \<noteq> None \<and> hi = None)
      then Inl (ValueError ''at_least requires only minimum'')
      else if op = At_most \<and> \<not> (lo = None \<and> hi \<noteq> None)
      then Inl (ValueError ''at_most requires only maximum'')
      else if op = Between \<and> \<not> (case (lo, hi) of (Some a, Some b) \<Rightarrow> le a b | _ \<Rightarrow> False)
      then Inl (ValueError ''between requires ordered minimum and maximum'')
      else Inr ())"

text \<open>\<open>_normalize_text(value).casefold()\<close> for each value, sorted.\<close>

definition folded_text :: "text_library \<Rightarrow> string \<Rightarrow> string result" where
  "folded_text U s = bind (normalize_text U s) (\<lambda>n. Inr (casefold U n))"

definition normalize_target ::
  "text_library \<Rightarrow> attribute_definition \<Rightarrow> requirement_operator \<Rightarrow> target \<Rightarrow> target result" where
  "normalize_target U d op t =
     (if target_type t \<noteq> attr_type d
      then Inl (ValueError ''target type does not match the attribute definition'')
      else case t of
        BooleanTarget b \<Rightarrow> Inr t
      | EnumTarget vs \<Rightarrow>
          bind (map_result (normalize_allowed_value U d) vs) (\<lambda>ns.
          let values = sort_key (text_identity U) ns in
            if \<not> distinct values then Inl (ValueError ''normalized enum values must be unique'')
            else if op = Equals \<and> length values \<noteq> 1
            then Inl (ValueError ''enum equals requires exactly one expected value'')
            else validate_target U (EnumTarget values))
      | IntegerTarget lo hi u \<Rightarrow>
          bind (validate_numeric_bounds (=) (\<le>) op lo hi) (\<lambda>_.
          bind (normalize_unit U d u) (\<lambda>u'. validate_target U (IntegerTarget lo hi u')))
      | DecimalTarget lo hi u \<Rightarrow>
          bind (validate_numeric_bounds dec_eq dec_le op lo hi) (\<lambda>_.
          bind (normalize_unit U d u) (\<lambda>u'.
            validate_target U
              (DecimalTarget (map_option canonical_decimal lo) (map_option canonical_decimal hi) u')))
      | TextSetTarget vs \<Rightarrow>
          bind (map_result (folded_text U) vs) (\<lambda>ns.
          let values = sort ns in
            if \<not> distinct values then Inl (ValueError ''normalized text set values must be unique'')
            else validate_target U (TextSetTarget values))
      | SemanticTarget l \<Rightarrow>
          bind (normalize_allowed_value U d l) (\<lambda>l'. validate_target U (SemanticTarget l')))"

definition normalize_draft ::
  "text_library \<Rightarrow> attribute_registry \<Rightarrow> string \<Rightarrow> requirement_draft \<Rightarrow> typed_requirement result" where
  "normalize_draft U r digest d =
     bind (normalize_text U (draft_key d)) (\<lambda>n.
     case definition_lookup U r (text_identity U n) of
       None \<Rightarrow> Inl (ValueError ''attribute key is not registered'')
     | Some a \<Rightarrow>
         if draft_operator d \<notin> set (attr_operators a)
         then Inl (ValueError ''operator is not allowed for the attribute'')
         else if draft_strength d \<notin> set (attr_strengths a)
         then Inl (ValueError ''strength is not allowed for the attribute'')
         else bind (normalize_target U a (draft_operator d) (draft_target d)) (\<lambda>t.
           let q = \<lparr>req_id = draft_id d, req_key = attr_key a, req_operator = draft_operator d,
                    req_target = t, req_strength = draft_strength d, req_registry = digest\<rparr> in
             bind (validate_requirement U q) (\<lambda>_. Inr q)))"

text \<open>\<open>except (TypeError, ValueError, ValidationError)\<close>.\<close>

definition is_contract_error :: "exn \<Rightarrow> bool" where
  "is_contract_error e \<longleftrightarrow> is_TypeError e \<or> is_ValueError e"

definition normalize_typed_requirements ::
  "text_library \<Rightarrow> (string \<Rightarrow> string) \<Rightarrow> attribute_registry \<Rightarrow> requirement_draft list \<Rightarrow>
   typed_requirement list result" where
  "normalize_typed_requirements U H r drafts =
     rewrap is_contract_error TypedRequirementError
      (bind (validate_registry U r) (\<lambda>_.
       if max_requirements < length drafts then Inl (TypeError ''drafts must be a bounded tuple'')
       else if \<not> distinct (map draft_id drafts)
       then Inl (ValueError ''requirement ids must be unique'')
       else bind (attribute_registry_sha256 U H r) (\<lambda>digest.
         map_result (normalize_draft U r digest) drafts)))"

definition draft_of :: "typed_requirement \<Rightarrow> requirement_draft" where
  "draft_of q =
     \<lparr>draft_id = req_id q, draft_key = req_key q, draft_operator = req_operator q,
      draft_target = req_target q, draft_strength = req_strength q\<rparr>"

text \<open>The constructor call \<open>TypedRequirementDraft(...)\<close> on a requirement's fields.\<close>

definition new_draft :: "text_library \<Rightarrow> typed_requirement \<Rightarrow> requirement_draft result" where
  "new_draft U q = bind (validate_draft U (draft_of q)) (\<lambda>_. Inr (draft_of q))"

definition typed_requirement_set_sha256 ::
  "text_library \<Rightarrow> (string \<Rightarrow> string) \<Rightarrow> attribute_registry \<Rightarrow> typed_requirement list \<Rightarrow> string result" where
  "typed_requirement_set_sha256 U H r qs =
     rewrap is_contract_error TypedRequirementError
      (bind (validate_registry U r) (\<lambda>_.
       if max_requirements < length qs then Inl (TypeError ''requirements must be a bounded tuple'')
       else bind (check_all (validate_requirement U) qs) (\<lambda>_.
         bind (attribute_registry_sha256 U H r) (\<lambda>digest.
         if \<exists>q\<in>set qs. req_registry q \<noteq> digest
         then Inl (ValueError ''requirement registry binding is invalid'')
         else if \<not> distinct (map req_id qs)
         then Inl (ValueError ''requirement ids must be unique'')
         else bind (map_result (new_draft U) qs) (\<lambda>drafts.
           bind (normalize_typed_requirements U H r drafts) (\<lambda>canonical.
           if \<not> list_all2 same_requirement canonical qs
           then Inl (ValueError ''requirements must be canonical for the registry'')
           else Inr (canonical_sha256 H requirement_set_domain
             (JObj [(''registry_sha256'', JStr digest),
                    (''requirements'', JArr (map requirement_json qs))]))))))))"

definition attribute_definition_of ::
  "text_library \<Rightarrow> attribute_registry \<Rightarrow> string \<Rightarrow> attribute_definition result" where
  "attribute_definition_of U r key =
     rewrap is_contract_error TypedRequirementError
      (bind (validate_registry U r) (\<lambda>_.
       bind (normalize_text U key) (\<lambda>n.
       case definition_lookup U r (text_identity U n) of
         None \<Rightarrow> Inl (ValueError ''attribute key is not registered'')
       | Some d \<Rightarrow> Inr d)))"

definition normalize_observed_value ::
  "text_library \<Rightarrow> attribute_definition \<Rightarrow> observed \<Rightarrow> observed result" where
  "normalize_observed_value U d v =
     (if observed_type v \<noteq> attr_type d then Inl TypedRequirementError
      else rewrap is_contract_error TypedRequirementError
       (case v of
          BooleanObserved b \<Rightarrow> Inr v
        | EnumObserved s \<Rightarrow>
            bind (normalize_allowed_value U d s) (\<lambda>s'. validate_observed U (EnumObserved s'))
        | IntegerObserved n u \<Rightarrow>
            bind (normalize_unit U d u) (\<lambda>u'. validate_observed U (IntegerObserved n u'))
        | DecimalObserved x u \<Rightarrow>
            bind (normalize_unit U d u) (\<lambda>u'.
              validate_observed U (DecimalObserved (canonical_decimal x) u'))
        | TextSetObserved vs \<Rightarrow>
            bind (map_result (folded_text U) vs) (\<lambda>ns.
            let values = sort ns in
              if \<not> distinct values
              then Inl (ValueError ''normalized observed set values must be unique'')
              else validate_observed U (TextSetObserved values))
        | SemanticObserved l \<Rightarrow>
            bind (normalize_allowed_value U d l) (\<lambda>l'. validate_observed U (SemanticObserved l'))))"

end
