(* ===== verification/Float_Values.thy ===== *)
theory Float_Values
  imports Canonical_Json Complex_Main
begin

text \<open>
  Python floats. A finite binary64 number is the rational it stands for (the two zeros are one);
  every operation of the language is the exact operation followed by \<open>float_of\<close>, rounding to the
  nearest binary64 number, ties to even. \<open>math.fsum\<close> rounds once, \<open>round(x, n)\<close> goes through the
  nearest decimal, \<open>repr\<close> picks the shortest decimal that reads back. Numbers stay below the
  largest float. The section ends with the order and error facts the scoring proofs use.
\<close>

section \<open>Rounding\<close>

text \<open>Rounding to the nearest integer, ties to even.\<close>

definition half_even :: "rat \<Rightarrow> int" where
  "half_even x =
     (let f = \<lfloor>x\<rfloor>; d = x - of_int f in
      if d < 1 / 2 then f else if 1 / 2 < d then f + 1 else if even f then f else f + 1)"

text \<open>The doublings that bring a number below 1 to \<open>[1, 2)\<close>, at most 1022 (the subnormal numbers
  share the last scale), and the halvings that bring a larger number there.\<close>

fun binade :: "nat \<Rightarrow> rat \<Rightarrow> nat" where
  "binade 0 x = 0"
| "binade (Suc n) x = (if 1 \<le> x then 0 else Suc (binade n (2 * x)))"

fun binade_up :: "nat \<Rightarrow> rat \<Rightarrow> nat" where
  "binade_up 0 x = 0"
| "binade_up (Suc n) x = (if x < 2 then 0 else Suc (binade_up n (x / 2)))"

text \<open>The distance of neighbouring floats around a non-negative number.\<close>

definition ulp :: "rat \<Rightarrow> rat" where
  "ulp x = (if x < 2 then 1 / 2 ^ (52 + binade 1022 x) else 2 ^ binade_up 1023 x / 2 ^ 52)"

definition round_float :: "rat \<Rightarrow> rat" where
  "round_float x = of_int (half_even (x / ulp x)) * ulp x"

definition float_of :: "rat \<Rightarrow> rat" where
  "float_of x = (if x < 0 then - round_float (- x) else round_float x)"

section \<open>Operations\<close>

text \<open>\<open>round(x, n)\<close>.\<close>

definition round_to :: "nat \<Rightarrow> rat \<Rightarrow> rat" where
  "round_to n x = float_of (of_int (half_even (x * 10 ^ n)) / 10 ^ n)"

definition fsum :: "rat list \<Rightarrow> rat" where
  "fsum xs = float_of (sum_list xs)"

text \<open>\<open>math.isclose(a, b, rel_tol=0.0, abs_tol=t)\<close>.\<close>

definition is_close :: "rat \<Rightarrow> rat \<Rightarrow> rat \<Rightarrow> bool" where
  "is_close a b t \<longleftrightarrow> a = b \<or> \<bar>float_of (b - a)\<bar> \<le> t"

text \<open>
  \<open>float.__repr__\<close> of a non-negative number: the decimal exponent, then the fewest digits of which
  some decimal reads back as the number, the nearer of the two candidates.
\<close>

fun decades :: "nat \<Rightarrow> rat \<Rightarrow> nat" where
  "decades 0 x = 0"
| "decades (Suc n) x = (if 1 \<le> x then 0 else Suc (decades n (10 * x)))"

fun decades_up :: "nat \<Rightarrow> rat \<Rightarrow> nat" where
  "decades_up 0 x = 0"
| "decades_up (Suc n) x = (if x < 10 then 0 else Suc (decades_up n (x / 10)))"

definition shift_decimal :: "int \<Rightarrow> rat \<Rightarrow> rat" where
  "shift_decimal k x = (if 0 \<le> k then x * 10 ^ nat k else x / 10 ^ nat (- k))"

definition digit_candidates :: "rat \<Rightarrow> int \<Rightarrow> int list" where
  "digit_candidates x k =
     filter (\<lambda>m. float_of (shift_decimal (- k) (of_int m)) = x)
       (let y = shift_decimal k x; f = \<lfloor>y\<rfloor> in if y - of_int f \<le> 1 / 2 then [f, f + 1] else [f + 1, f])"

fun shortest_digits :: "nat \<Rightarrow> rat \<Rightarrow> int \<Rightarrow> int \<times> int" where
  "shortest_digits 0 x k = (half_even (shift_decimal k x), k)"
| "shortest_digits (Suc n) x k =
     (case digit_candidates x k of [] \<Rightarrow> shortest_digits n x (k + 1) | m # _ \<Rightarrow> (m, k))"

text \<open>The text of \<open>m / 10 ^ k\<close>; \<open>e\<close> is the exponent of its first digit.\<close>

definition leading_zeros :: "nat \<Rightarrow> nat \<Rightarrow> nat" where
  "leading_zeros width v = width - length (dec_nat v)"

definition float_text :: "rat \<Rightarrow> real_text" where
  "float_text x =
     (if x = 0 then Fixed 0 0 0
      else let e = int (decades_up 400 x) - int (decades 400 x);
               (m, k) = shortest_digits 17 x (- e);
               n = nat m
           in if - 4 \<le> e
              then (if k \<le> 0 then Fixed (n * 10 ^ nat (- k)) 0 0
                    else Fixed (n div 10 ^ nat k)
                           (leading_zeros (nat k) (n mod 10 ^ nat k)) (n mod 10 ^ nat k))
              else let f = nat (k + e)
                   in Scaled (n div 10 ^ f)
                        (if f = 0 then None
                         else Some (leading_zeros f (n mod 10 ^ f), n mod 10 ^ f)) (nat (- e)))"

definition json_float :: "rat \<Rightarrow> json" where
  "json_float x = JReal (float_text x)"

section \<open>Half-even rounding\<close>

lemma half_even_bounds: "of_int (half_even x) \<le> x + 1 / 2" "x - 1 / 2 \<le> of_int (half_even x)"
proof -
  define f where "f = \<lfloor>x\<rfloor>"
  have f: "of_int f \<le> x" "x < of_int f + 1" unfolding f_def by linarith+
  have "half_even x = (if x - of_int f < 1 / 2 then f else if 1 / 2 < x - of_int f then f + 1
      else if even f then f else f + 1)"
    by (simp only: half_even_def Let_def f_def)
  moreover have "of_int (f + 1) = (of_int f + 1 :: rat)" by simp
  ultimately consider "half_even x = f" "x - of_int f \<le> 1 / 2"
    | "of_int (half_even x) = (of_int f + 1 :: rat)" "1 / 2 \<le> x - of_int f"
    by (auto split: if_splits)
  then have "of_int (half_even x) \<le> x + 1 / 2 \<and> x - 1 / 2 \<le> of_int (half_even x)"
    using f by cases (simp, linarith)+
  then show "of_int (half_even x) \<le> x + 1 / 2" "x - 1 / 2 \<le> of_int (half_even x)" by simp_all
qed

lemma half_even_mono: "x \<le> y \<Longrightarrow> half_even x \<le> half_even y"
proof (cases "\<lfloor>x\<rfloor> = \<lfloor>y\<rfloor>")
  case True
  assume "x \<le> y"
  with True show ?thesis by (auto simp: half_even_def Let_def)
next
  case False
  assume "x \<le> y"
  with False have "\<lfloor>x\<rfloor> + 1 \<le> \<lfloor>y\<rfloor>" by (meson floor_mono less_le zless_imp_add1_zle)
  moreover have "half_even x \<le> \<lfloor>x\<rfloor> + 1" "\<lfloor>y\<rfloor> \<le> half_even y" by (auto simp: half_even_def Let_def)
  ultimately show ?thesis by simp
qed

lemma half_even_of_int [simp]: "half_even (of_int n) = n"
  by (simp add: half_even_def)

lemma half_even_numeral [simp]: "half_even (numeral k) = numeral k" "half_even 0 = 0" "half_even 1 = 1"
  using half_even_of_int [of "numeral k"] half_even_of_int [of 0] half_even_of_int [of 1] by simp_all

lemma half_even_le: "x \<le> of_int n \<Longrightarrow> half_even x \<le> n"
  using half_even_mono [of x "of_int n"] by simp

lemma half_even_ge: "of_int n \<le> x \<Longrightarrow> n \<le> half_even x"
  using half_even_mono [of "of_int n" x] by simp

section \<open>The spacing of floats\<close>

lemma binade_1 [simp]: "1 \<le> x \<Longrightarrow> binade n x = 0"
  by (cases n) simp_all

lemma binade_le: "binade n x \<le> n"
  by (induction n arbitrary: x) auto

lemma binade_up_le: "binade_up n x \<le> n"
  by (induction n arbitrary: x) auto

lemma binade_antimono: "x \<le> y \<Longrightarrow> binade n y \<le> binade n x"
  by (induction n arbitrary: x y) auto

lemma binade_up_mono: "x \<le> y \<Longrightarrow> binade_up n x \<le> binade_up n y"
  by (induction n arbitrary: x y) auto

lemma binade_upper: "x < 2 \<Longrightarrow> x * 2 ^ binade n x < 2"
proof (induction n arbitrary: x)
  case (Suc n)
  then show ?case using Suc.IH [of "2 * x"] by (simp add: ac_simps)
qed simp

lemma binade_lower: "binade n x < n \<Longrightarrow> 1 \<le> x * 2 ^ binade n x"
proof (induction n arbitrary: x)
  case (Suc n)
  then show ?case using Suc.IH [of "2 * x"] by (simp add: ac_simps split: if_splits)
qed simp

lemma binade_up_upper: "binade_up n x < n \<Longrightarrow> x < 2 * 2 ^ binade_up n x"
proof (induction n arbitrary: x)
  case (Suc n)
  then show ?case using Suc.IH [of "x / 2"] by (simp split: if_splits)
qed simp

lemma binade_up_lower: "1 \<le> x \<Longrightarrow> 2 ^ binade_up n x \<le> x"
proof (induction n arbitrary: x)
  case (Suc n)
  show ?case
  proof (cases "x < 2")
    case False
    with Suc.IH [of "x / 2"] show ?thesis by simp
  qed (use Suc.prems in simp)
qed simp

lemma ulp_pos [simp]: "0 < ulp x"
  by (simp add: ulp_def)

lemma ulp_small: "x < 2 \<Longrightarrow> ulp x \<le> 1 / 2 ^ 52"
  by (simp add: ulp_def power_add field_simps)

lemma ulp_mono:
  assumes "x \<le> y" shows "ulp x \<le> ulp y"
proof -
  consider "y < 2" | "x < 2" "2 \<le> y" | "2 \<le> x" by linarith
  then show ?thesis
  proof cases
    case 1
    with assms have "x < 2" by simp
    with 1 binade_antimono [OF assms, of 1022] show ?thesis
      by (simp add: ulp_def frac_le)
  next
    case 2
    then have "1 / 2 ^ 52 \<le> ulp y" by (simp add: ulp_def)
    with ulp_small [OF 2(1)] show ?thesis by simp
  next
    case 3
    with assms binade_up_mono [OF assms, of 1023] show ?thesis by (simp add: ulp_def)
  qed
qed

text \<open>Where the spacing grows between two numbers, a binade boundary lies between them.\<close>

lemma below_boundary:
  assumes "0 \<le> x" and "x \<le> y" and "ulp x < ulp y"
  shows "x / ulp x \<le> of_int (2 ^ 53)"
proof (cases "x < 2")
  case True
  then have "x / ulp x = x * 2 ^ binade 1022 x * 2 ^ 52" by (simp add: ulp_def power_add)
  also have "\<dots> \<le> 2 * 2 ^ 52" using binade_upper [OF True, of 1022] by simp
  finally show ?thesis by simp
next
  case False
  with assms have "binade_up 1023 x < binade_up 1023 y" by (simp add: ulp_def)
  with binade_up_le [of 1023 y] have "binade_up 1023 x < 1023" by simp
  from binade_up_upper [OF this] False show ?thesis by (simp add: ulp_def field_simps)
qed

lemma above_boundary:
  assumes "0 \<le> x" and "x \<le> y" and "ulp x < ulp y"
  shows "of_int (2 ^ 52) \<le> y / ulp y"
proof (cases "y < 2")
  case True
  with assms have lt: "1 / 2 ^ (52 + binade 1022 x) < 1 / (2 :: rat) ^ (52 + binade 1022 y)"
    by (simp add: ulp_def)
  have "binade 1022 y < binade 1022 x"
  proof (rule ccontr)
    assume "\<not> ?thesis"
    then have "1 / (2 :: rat) ^ (52 + binade 1022 y) \<le> 1 / 2 ^ (52 + binade 1022 x)"
      by (simp add: frac_le)
    with lt show False by simp
  qed
  with binade_le [of 1022 x] have "binade 1022 y < 1022" by simp
  from binade_lower [OF this] True show ?thesis by (simp add: ulp_def power_add)
next
  case False
  with binade_up_lower [of y 1023] show ?thesis by (simp add: ulp_def field_simps)
qed

lemma ulp_ratio:
  assumes "ulp x < ulp y"
  shows "2 * ulp x \<le> ulp y"
proof -
  define p where "p z = (if z < 2 then - int (binade 1022 z) else int (binade_up 1023 z))" for z
  have u: "ulp z = 2 powi p z / 2 ^ 52" for z
    by (simp add: ulp_def p_def power_add power_int_minus field_simps)
  have "2 powi p x < (2 :: rat) powi p y" using assms by (simp add: u divide_strict_right_mono_neg divide_less_cancel)
  then have "p x < p y" using power_int_increasing [of "p y" "p x" "2 :: rat"] by linarith
  then have "2 powi (p x + 1) \<le> (2 :: rat) powi p y" by (intro power_int_increasing) simp_all
  then show ?thesis by (simp add: u power_int_add field_simps)
qed

lemma round_float_mono:
  assumes "0 \<le> x" and "x \<le> y"
  shows "round_float x \<le> round_float y"
proof (cases "ulp x = ulp y")
  case True
  have "half_even (x / ulp y) \<le> half_even (y / ulp y)"
    using assms by (intro half_even_mono divide_right_mono) (simp_all add: less_imp_le)
  then show ?thesis unfolding round_float_def True by (intro mult_right_mono) (simp_all add: less_imp_le)
next
  case False
  with ulp_mono [OF assms(2)] have lt: "ulp x < ulp y" by simp
  have "half_even (x / ulp x) \<le> 2 ^ 53" by (rule half_even_le [OF below_boundary [OF assms lt]])
  then have "of_int (half_even (x / ulp x)) \<le> (of_int (2 ^ 53) :: rat)" by (simp only: of_int_le_iff)
  then have "round_float x \<le> of_int (2 ^ 53) * ulp x"
    unfolding round_float_def by (intro mult_right_mono) (simp_all add: less_imp_le)
  also have "\<dots> = 2 ^ 52 * (2 * ulp x)" by simp
  also have "\<dots> \<le> of_int (2 ^ 52) * ulp y" using ulp_ratio [OF lt] by simp
  also have "\<dots> \<le> round_float y"
  proof -
    have "2 ^ 52 \<le> half_even (y / ulp y)" by (rule half_even_ge [OF above_boundary [OF assms lt]])
    then have "(of_int (2 ^ 52) :: rat) \<le> of_int (half_even (y / ulp y))" by (simp only: of_int_le_iff)
    then show ?thesis
      unfolding round_float_def by (intro mult_right_mono) (simp_all add: less_imp_le)
  qed
  finally show ?thesis .
qed

section \<open>Order and error of rounded numbers\<close>

lemma float_of_0 [simp]: "float_of 0 = 0"
  by (simp add: float_of_def round_float_def)

lemma float_of_1 [simp]: "float_of 1 = 1"
proof -
  have "half_even ((2::rat) ^ 52) = 2 ^ 52" using half_even_of_int [of "2 ^ 52"] by simp
  then show ?thesis by (simp add: float_of_def round_float_def ulp_def)
qed

lemma float_of_nonneg: "0 \<le> x \<Longrightarrow> float_of x = round_float x"
  by (simp add: float_of_def)

lemma float_of_mono: "0 \<le> x \<Longrightarrow> x \<le> y \<Longrightarrow> float_of x \<le> float_of y"
  by (simp add: float_of_nonneg round_float_mono)

lemma float_of_ge_0 [simp]: "0 \<le> x \<Longrightarrow> 0 \<le> float_of x"
  using float_of_mono [of 0 x] by simp

lemma float_of_le_1: "0 \<le> x \<Longrightarrow> x \<le> 1 \<Longrightarrow> float_of x \<le> 1"
  using float_of_mono [of x 1] by simp

lemma float_of_error:
  fixes x :: rat
  assumes "0 \<le> x" and "x < 2"
  shows "float_of x \<le> x + 1 / 2 ^ 53" "x - 1 / 2 ^ 53 \<le> float_of x"
proof -
  have u: "ulp x / 2 \<le> 1 / 2 ^ 53" using ulp_small [OF assms(2)] by simp
  have "float_of x \<le> (x / ulp x + 1 / 2) * ulp x"
    unfolding float_of_nonneg [OF assms(1)] round_float_def
    by (intro mult_right_mono half_even_bounds) (simp add: less_imp_le)
  also have "\<dots> = x + ulp x / 2" using ulp_pos [of x] by (simp add: field_simps del: ulp_pos)
  finally show "float_of x \<le> x + 1 / 2 ^ 53" using u by linarith
  have "x - ulp x / 2 = (x / ulp x - 1 / 2) * ulp x"
    using ulp_pos [of x] by (simp add: field_simps del: ulp_pos)
  also have "\<dots> \<le> float_of x"
    unfolding float_of_nonneg [OF assms(1)] round_float_def
    by (intro mult_right_mono half_even_bounds) (simp add: less_imp_le)
  finally show "x - 1 / 2 ^ 53 \<le> float_of x" using u by linarith
qed

lemma round_to_mono:
  assumes "0 \<le> x" and "x \<le> y"
  shows "round_to n x \<le> round_to n y"
proof -
  have "0 \<le> half_even (x * 10 ^ n)" using assms by (intro half_even_ge) simp
  moreover have "half_even (x * 10 ^ n) \<le> half_even (y * 10 ^ n)"
    using assms by (intro half_even_mono mult_right_mono) simp_all
  ultimately show ?thesis
    unfolding round_to_def by (intro float_of_mono divide_right_mono divide_nonneg_nonneg) simp_all
qed

lemma round_to_0 [simp]: "round_to n 0 = 0"
  by (simp add: round_to_def)

lemma round_to_1 [simp]: "round_to n 1 = 1"
proof -
  have "half_even ((10::rat) ^ n) = 10 ^ n" using half_even_of_int [of "10 ^ n"] by simp
  then show ?thesis by (simp add: round_to_def)
qed

lemma round_to_unit:
  assumes "0 \<le> x" and "x \<le> 1"
  shows "0 \<le> round_to n x" "round_to n x \<le> 1"
  using round_to_mono [of 0 x n] round_to_mono [of x 1 n] assms by simp_all

lemma fsum_ge_0 [simp]: "(\<forall>x\<in>set xs. 0 \<le> x) \<Longrightarrow> 0 \<le> fsum xs"
  by (simp add: fsum_def sum_list_nonneg)

lemma fsum_mono:
  assumes "list_all2 (\<le>) xs ys" and "\<forall>x\<in>set xs. 0 \<le> x"
  shows "fsum xs \<le> fsum ys"
proof -
  have "sum_list xs \<le> sum_list ys" using assms(1) by induction auto
  with assms(2) show ?thesis unfolding fsum_def by (intro float_of_mono sum_list_nonneg) simp_all
qed

end
