(* ===== verification/Requirement_Evaluation.thy ===== *)
theory Requirement_Evaluation
  imports Typed_Requirements Float_Values
begin

text \<open>
  Model of \<open>search_v2/requirement_evaluation.py\<close>: evidence observations and their binding to a
  requirement, the adjudication of one requirement, the evaluation of a product over a requirement
  set and the key products are ordered by.
\<close>

section \<open>Records\<close>

datatype evidence_status = Status_observed | Status_unknown

datatype unknown_reason =
  Not_observed | Source_missing | Below_confidence | Evaluator_unavailable | Invalid_observation

datatype decision_state = Match | Mismatch | Unknown | Conflict

datatype decision_reason =
  Reason_matched | Did_not_match | No_observed_evidence | Highest_priority_conflict

datatype required_status = Confirmed | Uncertain | Contradicted

definition max_evidence_per_requirement :: nat where "max_evidence_per_requirement = 32"
definition ratio_decimals :: nat where "ratio_decimals = 6"

record observation =
  obs_requirement :: string
  obs_key :: string
  obs_product :: string
  obs_source :: evidence_source
  obs_priority :: int
  obs_status :: evidence_status
  obs_value :: "observed option"
  obs_unknown :: "unknown_reason option"
  obs_registry :: string
  obs_evaluator :: string
  obs_version :: string
  obs_profile :: string
  obs_artifact :: string

record decision =
  dec_requirement :: string
  dec_requirement_sha256 :: string
  dec_product :: string
  dec_registry :: string
  dec_state :: decision_state
  dec_reason :: decision_reason
  dec_accepted :: "string list"
  dec_rejected :: "string list"

record evaluation =
  ev_product :: string
  ev_registry :: string
  ev_requirement_set :: string
  ev_status :: required_status
  ev_required_ratio :: rat
  ev_preferred_ratio :: rat
  ev_coverage :: rat
  ev_decisions :: "decision list"

definition opt_value_ok :: "text_library \<Rightarrow> observed option \<Rightarrow> bool" where
  "opt_value_ok U v = opt_all (\<lambda>x. is_ok (validate_observed U x)) v"

definition observation_fields :: "text_library \<Rightarrow> observation \<Rightarrow> bool" where
  "observation_fields U b \<longleftrightarrow> is_identifier (obs_requirement b) \<and> is_attribute_key (obs_key b) \<and>
     is_digest (obs_product b) \<and> 1 \<le> obs_priority b \<and> obs_priority b \<le> 100 \<and>
     opt_value_ok U (obs_value b) \<and> is_digest (obs_registry b) \<and> is_identifier (obs_evaluator b) \<and>
     is_version (obs_version b) \<and> is_digest (obs_profile b) \<and> is_digest (obs_artifact b)"

definition validate_observation :: "text_library \<Rightarrow> observation \<Rightarrow> unit result" where
  "validate_observation U b =
     (if \<not> observation_fields U b then Inl (ValidationError ''evidence observation field'')
      else if obs_status b = Status_observed \<and> (obs_value b = None \<or> obs_unknown b \<noteq> None)
      then Inl (ValidationError ''observed evidence requires only an observed value'')
      else if obs_status b = Status_unknown \<and> (obs_value b \<noteq> None \<or> obs_unknown b = None)
      then Inl (ValidationError ''unknown evidence requires only an unknown reason'')
      else Inr ())"

definition decision_fields :: "decision \<Rightarrow> bool" where
  "decision_fields d \<longleftrightarrow> is_identifier (dec_requirement d) \<and> is_digest (dec_requirement_sha256 d) \<and>
     is_digest (dec_product d) \<and> is_digest (dec_registry d) \<and>
     length (dec_accepted d) \<le> 32 \<and> list_all is_digest (dec_accepted d) \<and>
     length (dec_rejected d) \<le> 32 \<and> list_all is_digest (dec_rejected d)"

definition validate_decision :: "decision \<Rightarrow> unit result" where
  "validate_decision d =
     (if \<not> decision_fields d then Inl (ValidationError ''requirement decision field'')
      else if \<not> distinct (dec_accepted d) \<or> \<not> distinct (dec_rejected d)
      then Inl (ValidationError ''decision evidence digests must be unique'')
      else if set (dec_accepted d) \<inter> set (dec_rejected d) \<noteq> {}
      then Inl (ValidationError ''accepted and rejected evidence must not overlap'')
      else if dec_state d = Match \<and> (dec_reason d \<noteq> Reason_matched \<or> dec_accepted d = [])
      then Inl (ValidationError ''match decision is inconsistent'')
      else if dec_state d = Mismatch \<and> (dec_reason d \<noteq> Did_not_match \<or> dec_accepted d = [])
      then Inl (ValidationError ''mismatch decision is inconsistent'')
      else if dec_state d = Unknown \<and> (dec_reason d \<noteq> No_observed_evidence \<or> dec_accepted d \<noteq> [])
      then Inl (ValidationError ''unknown decision is inconsistent'')
      else if dec_state d = Conflict \<and>
              (dec_reason d \<noteq> Highest_priority_conflict \<or> length (dec_accepted d) < 2)
      then Inl (ValidationError ''conflict decision is inconsistent'')
      else Inr ())"

definition new_decision :: "decision \<Rightarrow> decision result" where
  "new_decision d = bind (validate_decision d) (\<lambda>_. Inr d)"

definition score_value :: "rat \<Rightarrow> bool" where
  "score_value x \<longleftrightarrow> 0 \<le> x \<and> x \<le> 1"

definition validate_evaluation :: "evaluation \<Rightarrow> unit result" where
  "validate_evaluation v =
     (if \<not> is_digest (ev_product v) \<or> \<not> is_digest (ev_registry v) \<or>
         \<not> is_digest (ev_requirement_set v) \<or> \<not> score_value (ev_required_ratio v) \<or>
         \<not> score_value (ev_preferred_ratio v) \<or> \<not> score_value (ev_coverage v) \<or>
         64 < length (ev_decisions v)
      then Inl (ValidationError ''typed product evaluation field'')
      else bind (check_all validate_decision (ev_decisions v)) (\<lambda>_.
        if \<not> distinct (map dec_requirement (ev_decisions v))
        then Inl (ValidationError ''evaluation decisions must have unique requirement ids'')
        else if list_ex (\<lambda>d. dec_product d \<noteq> ev_product v) (ev_decisions v)
        then Inl (ValidationError ''decision product binding does not match the evaluation'')
        else if list_ex (\<lambda>d. dec_registry d \<noteq> ev_registry v) (ev_decisions v)
        then Inl (ValidationError ''decision registry binding does not match the evaluation'')
        else Inr ()))"

section \<open>Evidence\<close>

fun status_name :: "evidence_status \<Rightarrow> string" where
  "status_name Status_observed = ''observed''"
| "status_name Status_unknown = ''unknown''"

fun unknown_name :: "unknown_reason \<Rightarrow> string" where
  "unknown_name Not_observed = ''not_observed''"
| "unknown_name Source_missing = ''source_missing''"
| "unknown_name Below_confidence = ''below_confidence''"
| "unknown_name Evaluator_unavailable = ''evaluator_unavailable''"
| "unknown_name Invalid_observation = ''invalid_observation''"

definition observation_json :: "observation \<Rightarrow> json" where
  "observation_json b =
     JObj [(''schema_version'', JStr ''1.0''), (''requirement_id'', JStr (obs_requirement b)),
           (''attribute_key'', JStr (obs_key b)), (''product_sha256'', JStr (obs_product b)),
           (''source'', JStr (source_name (obs_source b))), (''source_priority'', JInt (obs_priority b)),
           (''status'', JStr (status_name (obs_status b))),
           (''observed_value'', json_opt observed_json (obs_value b)),
           (''unknown_reason'', json_opt (JStr \<circ> unknown_name) (obs_unknown b)),
           (''registry_sha256'', JStr (obs_registry b)), (''evaluator_id'', JStr (obs_evaluator b)),
           (''evaluator_version'', JStr (obs_version b)),
           (''evaluator_profile_sha256'', JStr (obs_profile b)),
           (''input_artifact_sha256'', JStr (obs_artifact b))]"

definition observation_domain :: string where
  "observation_domain = ''amazon-explorer-evidence-observation-v1'' @ [CHR 0x00]"

definition is_evidence_error :: "exn \<Rightarrow> bool" where
  "is_evidence_error e \<longleftrightarrow> is_TypeError e \<or> is_ValueError e"

definition validated_requirement ::
  "text_library \<Rightarrow> (string \<Rightarrow> string) \<Rightarrow> attribute_registry \<Rightarrow> typed_requirement \<Rightarrow>
   (typed_requirement \<times> attribute_definition) result" where
  "validated_requirement U H r q =
     bind (validate_requirement U q) (\<lambda>_.
     bind (attribute_registry_sha256 U H r) (\<lambda>digest.
       if req_registry q \<noteq> digest then Inl (ValueError ''requirement registry binding is invalid'')
       else bind (new_draft U q) (\<lambda>draft.
         bind (normalize_typed_requirements U H r [draft]) (\<lambda>normalized.
         if \<not> same_requirement (hd normalized) q
         then Inl (ValueError ''requirement is not canonical for the registry'')
         else bind (attribute_definition_of U r (req_key q)) (\<lambda>d. Inr (q, d))))))"

definition evidence_rule_for :: "attribute_definition \<Rightarrow> evidence_source \<Rightarrow> evidence_rule result" where
  "evidence_rule_for d s =
     (case find (\<lambda>rule. rule_source rule = s) (attr_rules d) of
        None \<Rightarrow> Inl (ValueError ''evidence source is not allowed for the attribute'')
      | Some rule \<Rightarrow> Inr rule)"

definition build_evidence_observation ::
  "text_library \<Rightarrow> (string \<Rightarrow> string) \<Rightarrow> attribute_registry \<Rightarrow> typed_requirement \<Rightarrow> string \<Rightarrow>
   evidence_source \<Rightarrow> observed option \<Rightarrow> unknown_reason option \<Rightarrow> string \<Rightarrow> string \<Rightarrow> observation result"
where
  "build_evidence_observation U H r q product source value reason profile artifact =
     rewrap is_evidence_error RequirementEvaluationError
      (bind (validate_registry U r) (\<lambda>_.
       bind (validated_requirement U H r q) (\<lambda>(q, d).
       bind (evidence_rule_for d source) (\<lambda>rule.
       if (value = None) = (reason = None)
       then Inl (ValueError ''evidence must contain either a value or an unknown reason'')
       else bind (case value of
              None \<Rightarrow> Inr None
            | Some v \<Rightarrow> bind (normalize_observed_value U d v) (\<lambda>n. Inr (Some n))) (\<lambda>normalized.
         bind (attribute_registry_sha256 U H r) (\<lambda>digest.
         let b = \<lparr>obs_requirement = req_id q, obs_key = req_key q, obs_product = product,
                  obs_source = rule_source rule, obs_priority = rule_priority rule,
                  obs_status = (if value = None then Status_unknown else Status_observed),
                  obs_value = normalized, obs_unknown = reason, obs_registry = digest,
                  obs_evaluator = rule_evaluator rule, obs_version = rule_version rule,
                  obs_profile = profile, obs_artifact = artifact\<rparr>
         in bind (validate_observation U b) (\<lambda>_. Inr b)))))))"

definition evidence_observation_sha256 ::
  "text_library \<Rightarrow> (string \<Rightarrow> string) \<Rightarrow> observation \<Rightarrow> string result" where
  "evidence_observation_sha256 U H b =
     bind (rewrap is_ValueError RequirementEvaluationError (validate_observation U b)) (\<lambda>_.
       Inr (canonical_sha256 H observation_domain (observation_json b)))"

definition validate_observation_binding ::
  "text_library \<Rightarrow> attribute_definition \<Rightarrow> typed_requirement \<Rightarrow> string \<Rightarrow> string \<Rightarrow> observation \<Rightarrow>
   observation result" where
  "validate_observation_binding U d q product registry b =
     bind (validate_observation U b) (\<lambda>_.
     bind (evidence_rule_for d (obs_source b)) (\<lambda>rule.
     if obs_requirement b \<noteq> req_id q \<or> obs_key b \<noteq> req_key q \<or> obs_product b \<noteq> product \<or>
        obs_registry b \<noteq> registry \<or> obs_priority b \<noteq> rule_priority rule \<or>
        obs_evaluator b \<noteq> rule_evaluator rule \<or> obs_version b \<noteq> rule_version rule
     then Inl (ValueError ''evidence binding is invalid'')
     else case obs_value b of
       None \<Rightarrow> Inr b
     | Some v \<Rightarrow> bind (normalize_observed_value U d v) (\<lambda>n.
         if \<not> same_observed n v then Inl (ValueError ''observed value is not canonical'') else Inr b)))"

section \<open>Adjudication\<close>

text \<open>\<open>_observed_identity\<close>: the canonical JSON of the value.\<close>

definition observed_identity :: "observed \<Rightarrow> string" where
  "observed_identity v = dumps (observed_json v)"

definition compare_numeric ::
  "('n \<Rightarrow> 'n \<Rightarrow> bool) \<Rightarrow> ('n \<Rightarrow> 'n \<Rightarrow> bool) \<Rightarrow> requirement_operator \<Rightarrow> 'n \<Rightarrow> 'n option \<Rightarrow> 'n option \<Rightarrow> bool result"
where
  "compare_numeric eq le op x lo hi =
     (case op of
        Equals \<Rightarrow> Inr (case lo of None \<Rightarrow> False | Some a \<Rightarrow> eq x a)
      | At_least \<Rightarrow> Inr (case lo of None \<Rightarrow> False | Some a \<Rightarrow> le a x)
      | At_most \<Rightarrow> Inr (case hi of None \<Rightarrow> False | Some b \<Rightarrow> le x b)
      | Between \<Rightarrow> Inr (case (lo, hi) of (Some a, Some b) \<Rightarrow> le a x \<and> le x b | _ \<Rightarrow> False)
      | _ \<Rightarrow> Inl (ValueError ''numeric operator is unsupported''))"

definition no_match_rule :: "bool result" where
  "no_match_rule = Inl (ValueError ''observed value does not match the requirement type'')"

fun matches :: "requirement_operator \<Rightarrow> target \<Rightarrow> observed \<Rightarrow> bool result" where
  "matches op (BooleanTarget t) (BooleanObserved v) = Inr (op = Equals \<and> v = t)"
| "matches op (EnumTarget ts) (EnumObserved v) =
     (if op = Equals then Inr (v = ts ! 0)
      else if op \<in> {One_of, Compatible_with} then Inr (v \<in> set ts) else no_match_rule)"
| "matches op (IntegerTarget lo hi u) (IntegerObserved n u') =
     (if u' \<noteq> u then Inl (ValueError ''integer units do not match'')
      else compare_numeric (=) (\<le>) op n lo hi)"
| "matches op (DecimalTarget lo hi u) (DecimalObserved d u') =
     (if u' \<noteq> u then Inl (ValueError ''decimal units do not match'')
      else compare_numeric dec_eq dec_le op d lo hi)"
| "matches op (TextSetTarget ts) (TextSetObserved vs) =
     (if op = Equals then Inr (set vs = set ts)
      else if op = Contains_all then Inr (set ts \<subseteq> set vs)
      else if op \<in> {One_of, Compatible_with} then Inr (set ts \<inter> set vs \<noteq> {})
      else no_match_rule)"
| "matches op (SemanticTarget t) (SemanticObserved l) = Inr (op = Similar_to \<and> l = t)"
| "matches op t v = no_match_rule"

text \<open>The decision over the evidence pairs (digest, observation) of a validated call.\<close>

definition decide ::
  "typed_requirement \<Rightarrow> string \<Rightarrow> string \<Rightarrow> string \<Rightarrow> (string \<times> observation) list \<Rightarrow> decision result"
where
  "decide q requirement_digest product registry pairs =
     (let observed_pairs = filter (\<lambda>p. obs_status (snd p) = Status_observed) pairs;
          base = \<lparr>dec_requirement = req_id q, dec_requirement_sha256 = requirement_digest,
                  dec_product = product, dec_registry = registry, dec_state = Unknown,
                  dec_reason = No_observed_evidence, dec_accepted = [],
                  dec_rejected = sort (map fst pairs)\<rparr>
      in if observed_pairs = [] then new_decision base
         else
           let highest = Min (set (map (\<lambda>p. obs_priority (snd p)) observed_pairs));
               accepted_pairs = filter (\<lambda>p. obs_priority (snd p) = highest) observed_pairs;
               accepted = sort (map fst accepted_pairs);
               rejected = sort (map fst (filter (\<lambda>p. fst p \<notin> set accepted) pairs));
               values = List.map_filter (\<lambda>p. obs_value (snd p)) accepted_pairs;
               settled = (\<lambda>state reason. new_decision (base\<lparr>dec_state := state, dec_reason := reason,
                   dec_accepted := accepted, dec_rejected := rejected\<rparr>))
           in if card (set (map observed_identity values)) \<noteq> 1
              then settled Conflict Highest_priority_conflict
              else case obs_value (snd (hd accepted_pairs)) of
                None \<Rightarrow> Inl (ValueError ''observed evidence is missing its value'')
              | Some v \<Rightarrow> bind (matches (req_operator q) (req_target q) v) (\<lambda>matched.
                  settled (if matched then Match else Mismatch)
                    (if matched then Reason_matched else Did_not_match)))"

definition evidence_pair ::
  "text_library \<Rightarrow> (string \<Rightarrow> string) \<Rightarrow> observation \<Rightarrow> (string \<times> observation) result" where
  "evidence_pair U H b = bind (evidence_observation_sha256 U H b) (\<lambda>h. Inr (h, b))"

definition adjudicate_requirement ::
  "text_library \<Rightarrow> (string \<Rightarrow> string) \<Rightarrow> attribute_registry \<Rightarrow> typed_requirement \<Rightarrow> string \<Rightarrow>
   observation list \<Rightarrow> decision result" where
  "adjudicate_requirement U H r q product observations =
     rewrap is_evidence_error RequirementEvaluationError
      (bind (validate_registry U r) (\<lambda>_.
       bind (validated_requirement U H r q) (\<lambda>(q, d).
       if max_evidence_per_requirement < length observations
       then Inl (TypeError ''observations must be a bounded tuple'')
       else bind (attribute_registry_sha256 U H r) (\<lambda>registry.
         bind (map_result (validate_observation_binding U d q product registry) observations) (\<lambda>bs.
         bind (map_result (evidence_pair U H) bs) (\<lambda>pairs.
         if \<not> distinct (map fst pairs)
         then Inl (ValueError ''duplicate evidence observations are not allowed'')
         else bind (typed_requirement_set_sha256 U H r [q]) (\<lambda>requirement_digest.
           decide q requirement_digest product registry pairs)))))))"

section \<open>Product evaluation\<close>

definition round_ratio :: "rat \<Rightarrow> rat" where
  "round_ratio x = round_to ratio_decimals x"

definition weight_of :: "(string \<times> attribute_definition) list \<Rightarrow> typed_requirement \<Rightarrow> int" where
  "weight_of definitions q = attr_weight (the (dict_get definitions (req_key q)))"

definition state_of :: "(string \<times> decision) list \<Rightarrow> typed_requirement \<Rightarrow> decision_state" where
  "state_of decisions q = dec_state (the (dict_get decisions (req_id q)))"

definition ratio_of :: "int \<Rightarrow> int \<Rightarrow> rat" where
  "ratio_of numerator denominator =
     (if denominator = 0 then 1
      else round_ratio (float_of (of_int numerator / of_int denominator)))"

definition weighted_ratio ::
  "typed_requirement list \<Rightarrow> (string \<times> decision) list \<Rightarrow> (string \<times> attribute_definition) list \<Rightarrow>
   requirement_strength \<Rightarrow> rat" where
  "weighted_ratio requirements decisions definitions strength =
     (let selected = filter (\<lambda>q. req_strength q = strength) requirements in
      ratio_of
        (sum_list (map (weight_of definitions) (filter (\<lambda>q. state_of decisions q = Match) selected)))
        (sum_list (map (weight_of definitions) selected)))"

definition evidence_coverage ::
  "typed_requirement list \<Rightarrow> (string \<times> decision) list \<Rightarrow> (string \<times> attribute_definition) list \<Rightarrow> rat"
where
  "evidence_coverage requirements decisions definitions =
     ratio_of
       (sum_list (map (weight_of definitions)
          (filter (\<lambda>q. state_of decisions q \<in> {Match, Mismatch}) requirements)))
       (sum_list (map (weight_of definitions) requirements))"

definition is_hard :: "typed_requirement \<Rightarrow> bool" where
  "is_hard q \<longleftrightarrow> req_strength q \<in> {Required, Excluded}"

definition contradicts :: "typed_requirement \<Rightarrow> decision_state \<Rightarrow> bool" where
  "contradicts q s \<longleftrightarrow>
     (req_strength q = Required \<and> s = Mismatch) \<or> (req_strength q = Excluded \<and> s = Match)"

definition product_status :: "typed_requirement list \<Rightarrow> (string \<times> decision) list \<Rightarrow> required_status" where
  "product_status requirements decisions =
     (let hard = filter is_hard requirements in
      if list_ex (\<lambda>q. contradicts q (state_of decisions q)) hard then Contradicted
      else if list_ex (\<lambda>q. state_of decisions q \<in> {Unknown, Conflict}) hard then Uncertain
      else Confirmed)"

text \<open>The loop over the decisions that checks how each is bound to its requirement.\<close>

definition check_decision ::
  "text_library \<Rightarrow> (string \<Rightarrow> string) \<Rightarrow> attribute_registry \<Rightarrow> (string \<times> typed_requirement) list \<Rightarrow>
   string \<Rightarrow> string \<Rightarrow> decision \<Rightarrow> unit result" where
  "check_decision U H r requirement_map product registry d =
     (let q = the (dict_get requirement_map (dec_requirement d)) in
      if dec_product d \<noteq> product \<or> dec_registry d \<noteq> registry
      then Inl (ValueError ''decision binding is invalid'')
      else bind (typed_requirement_set_sha256 U H r [q]) (\<lambda>h.
        if dec_requirement_sha256 d \<noteq> h then Inl (ValueError ''decision binding is invalid'')
        else Inr ()))"

definition evaluate_typed_product ::
  "text_library \<Rightarrow> (string \<Rightarrow> string) \<Rightarrow> attribute_registry \<Rightarrow> typed_requirement list \<Rightarrow> decision list \<Rightarrow>
   string \<Rightarrow> evaluation result" where
  "evaluate_typed_product U H r requirements decisions product =
     rewrap is_evidence_error RequirementEvaluationError
      (bind (validate_registry U r) (\<lambda>_.
       bind (map_result (validated_requirement U H r) requirements) (\<lambda>vs.
       let qs = map fst vs in
       bind (check_all validate_decision decisions) (\<lambda>_.
       if \<not> distinct (map req_id qs) then Inl (ValueError ''requirement ids must be unique'')
       else if \<not> distinct (map dec_requirement decisions)
       then Inl (ValueError ''decision requirement ids must be unique'')
       else if set (map req_id qs) \<noteq> set (map dec_requirement decisions)
       then Inl (ValueError ''decisions must cover every requirement exactly once'')
       else bind (attribute_registry_sha256 U H r) (\<lambda>registry.
         let requirement_map = map (\<lambda>q. (req_id q, q)) qs;
             decision_map = map (\<lambda>d. (dec_requirement d, d)) decisions
         in bind (check_all (check_decision U H r requirement_map product registry) decisions) (\<lambda>_.
            bind (map_result (\<lambda>q. bind (attribute_definition_of U r (req_key q)) (\<lambda>d. Inr (req_key q, d))) qs)
              (\<lambda>definitions.
            bind (typed_requirement_set_sha256 U H r qs) (\<lambda>set_digest.
            let v = \<lparr>ev_product = product, ev_registry = registry, ev_requirement_set = set_digest,
                     ev_status = product_status qs decision_map,
                     ev_required_ratio = weighted_ratio qs decision_map definitions Required,
                     ev_preferred_ratio = weighted_ratio qs decision_map definitions Preferred,
                     ev_coverage = evidence_coverage qs decision_map definitions,
                     ev_decisions = map (\<lambda>q. the (dict_get decision_map (req_id q))) qs\<rparr>
            in bind (validate_evaluation v) (\<lambda>_. Inr v)))))))))"

text \<open>\<open>typed_product_sort_key\<close>: compared lexicographically, the smallest key first.\<close>

fun status_order :: "required_status \<Rightarrow> int" where
  "status_order Confirmed = 0"
| "status_order Uncertain = 1"
| "status_order Contradicted = 2"

definition typed_product_sort_key ::
  "evaluation \<Rightarrow> rat \<Rightarrow> int \<Rightarrow> (int \<times> rat \<times> rat \<times> rat \<times> int) result" where
  "typed_product_sort_key v overall response_index =
     rewrap is_evidence_error RequirementEvaluationError
      (bind (validate_evaluation v) (\<lambda>_.
       if \<not> (0 \<le> overall \<and> overall \<le> 1)
       then Inl (ValueError ''overall score is outside the allowed range'')
       else if \<not> (0 \<le> response_index \<and> response_index < 48)
       then Inl (ValueError ''response index is outside the allowed range'')
       else Inr (status_order (ev_status v), - ev_required_ratio v, - ev_preferred_ratio v,
                 - overall, response_index)))"

end
