(* ===== verification/Requirement_Errors.thy ===== *)
theory Requirement_Errors
  imports Requirement_Evaluation
begin

text \<open>
  Which exceptions escape the requirement modules: a calculus of the exceptions a call may raise
  (\<open>raises_only\<close>, one rule per construct), and the fixed-message error of each public function.
\<close>

section \<open>Which exceptions escape\<close>

definition raises_only :: "(exn \<Rightarrow> bool) \<Rightarrow> 'a result \<Rightarrow> bool" where
  "raises_only p r \<longleftrightarrow> (\<forall>e. r = Inl e \<longrightarrow> p e)"

named_theorems raises_rules \<open>calls raise only exceptions of a class\<close>

lemma raises_Inr [raises_rules]: "raises_only p (Inr x)"
  by (simp add: raises_only_def)

lemma raises_Inl [raises_rules]: "p e \<Longrightarrow> raises_only p (Inl e)"
  by (simp add: raises_only_def)

lemma raises_bind [raises_rules]:
  "raises_only p r \<Longrightarrow> (\<And>x. raises_only p (k x)) \<Longrightarrow> raises_only p (bind r k)"
  by (cases r) (auto simp: raises_only_def)

lemma raises_if [raises_rules]:
  "(b \<Longrightarrow> raises_only p r) \<Longrightarrow> (\<not> b \<Longrightarrow> raises_only p s) \<Longrightarrow> raises_only p (if b then r else s)"
  by simp

lemma raises_option [raises_rules]:
  "raises_only p r \<Longrightarrow> (\<And>x. raises_only p (k x)) \<Longrightarrow> raises_only p (case v of None \<Rightarrow> r | Some x \<Rightarrow> k x)"
  by (cases v) simp_all

lemma raises_check_all [raises_rules]: "(\<And>x. raises_only p (f x)) \<Longrightarrow> raises_only p (check_all f xs)"
  by (induction xs) (auto intro: raises_rules)

lemma raises_map_result [raises_rules]: "(\<And>x. raises_only p (f x)) \<Longrightarrow> raises_only p (map_result f xs)"
  by (induction xs) (auto intro: raises_rules)

lemma raises_rewrap [raises_rules]: "raises_only c r \<Longrightarrow> p e \<Longrightarrow> raises_only p (rewrap c e r)"
  by (cases r) (auto simp: raises_only_def)

text \<open>A call whose body raises only what its \<open>except\<close> clause catches raises one exception.\<close>

lemma rewrap_one: "raises_only c r \<Longrightarrow> rewrap c e r = Inl e' \<longleftrightarrow> e' = e \<and> \<not> is_ok r"
  by (cases r) (auto simp: raises_only_def)

lemma contract_errors [simp]: "is_contract_error (ValueError m)" "is_contract_error (ValidationError m)"
  "is_contract_error (TypeError m)" "is_contract_error TypedRequirementError"
  "is_contract_error RequirementEvaluationError"
  by (simp_all add: is_contract_error_def)

lemma raises_prod [raises_rules]: "(\<And>x y. raises_only p (k x y)) \<Longrightarrow> raises_only p (case v of (x, y) \<Rightarrow> k x y)"
  by (cases v) simp

lemma raises_target [raises_rules]:
  "(\<And>b. raises_only p (f1 b)) \<Longrightarrow> (\<And>vs. raises_only p (f2 vs)) \<Longrightarrow> (\<And>l h u. raises_only p (f3 l h u)) \<Longrightarrow>
   (\<And>l h u. raises_only p (f4 l h u)) \<Longrightarrow> (\<And>vs. raises_only p (f5 vs)) \<Longrightarrow> (\<And>l. raises_only p (f6 l)) \<Longrightarrow>
   raises_only p (case_target f1 f2 f3 f4 f5 f6 t)"
  by (cases t) simp_all

lemma raises_observed [raises_rules]:
  "(\<And>b. raises_only p (f1 b)) \<Longrightarrow> (\<And>v. raises_only p (f2 v)) \<Longrightarrow> (\<And>n u. raises_only p (f3 n u)) \<Longrightarrow>
   (\<And>d u. raises_only p (f4 d u)) \<Longrightarrow> (\<And>vs. raises_only p (f5 vs)) \<Longrightarrow> (\<And>l. raises_only p (f6 l)) \<Longrightarrow>
   raises_only p (case_observed f1 f2 f3 f4 f5 f6 v)"
  by (cases v) simp_all

abbreviation contract_call :: "'a result \<Rightarrow> bool" where
  "contract_call \<equiv> raises_only is_contract_error"

lemma text_calls [raises_rules]: "contract_call (normalize_text U s)"
  unfolding normalize_text_def Let_def by (intro raises_rules; simp)

lemma name_calls [raises_rules]: "contract_call (normalize_allowed_value U d s)"
  "contract_call (normalize_unit U d s)" "contract_call (folded_text U s)"
  unfolding normalize_allowed_value_def normalize_unit_def normalize_name_def folded_text_def
  by (intro raises_rules; simp)+

lemma validate_calls [raises_rules]: "contract_call (validate_target U t)"
  "contract_call (validate_observed U v)"
  "contract_call (validate_numeric_bounds eq le op lo hi)"
  unfolding validate_target_def validate_observed_def validate_numeric_bounds_def
  by (intro raises_rules; simp)+

lemma requirement_calls [raises_rules]: "contract_call (validate_requirement U q)"
  "contract_call (validate_draft U dr)" "contract_call (new_draft U q)"
  unfolding validate_requirement_def validate_draft_def new_draft_def
  by (intro raises_rules; simp)+

lemma raises_mono: "raises_only p r \<Longrightarrow> (\<And>e. p e \<Longrightarrow> q e) \<Longrightarrow> raises_only q r"
  by (auto simp: raises_only_def)

lemma registry_value_errors: "raises_only is_ValueError (validate_registry U r)"
proof -
  have 1: "raises_only is_ValueError (bind_identities ids ps)" for ids ps
    by (induction ids ps rule: bind_identities.induct) (auto intro!: raises_rules split: option.splits)
  have 2: "raises_only is_ValueError (validate_definition U d)" for d
    unfolding validate_definition_def by (intro raises_rules; simp)
  show ?thesis
    unfolding validate_registry_def Let_def by (intro raises_rules 1 2; simp)
qed

lemma registry_calls [raises_rules]: "contract_call (validate_registry U r)"
  by (rule raises_mono [OF registry_value_errors]) (simp add: is_contract_error_def)

lemma target_calls [raises_rules]: "contract_call (normalize_target U d op t)"
  unfolding normalize_target_def Let_def by (intro raises_rules; simp)

lemma digest_calls [raises_rules]: "contract_call (attribute_registry_sha256 U H r)"
  unfolding attribute_registry_sha256_def by (intro raises_rules registry_value_errors; simp)

lemma draft_calls [raises_rules]: "contract_call (normalize_draft U r g d)"
  unfolding normalize_draft_def Let_def by (intro raises_rules; simp)

lemma normalize_calls [raises_rules]: "contract_call (normalize_typed_requirements U H r ds)"
  unfolding normalize_typed_requirements_def by (intro raises_rules; simp)

lemma set_calls [raises_rules]: "contract_call (typed_requirement_set_sha256 U H r qs)"
  unfolding typed_requirement_set_sha256_def by (intro raises_rules; simp)

lemma lookup_calls [raises_rules]: "contract_call (attribute_definition_of U r key)"
  unfolding attribute_definition_of_def by (intro raises_rules; simp)

lemma observed_calls [raises_rules]: "contract_call (normalize_observed_value U a v)"
  unfolding normalize_observed_value_def Let_def by (intro raises_rules; simp)

section \<open>Errors of the evaluation\<close>

lemma evidence_error_contract: "is_evidence_error = is_contract_error"
  by (simp add: fun_eq_iff is_evidence_error_def is_contract_error_def)

lemma observation_value_errors: "raises_only is_ValueError (validate_observation U b)"
  unfolding validate_observation_def by (intro raises_rules; simp)

lemma evidence_calls [raises_rules]: "contract_call (validate_observation U b)"
  "contract_call (evidence_rule_for d s)" "contract_call (validate_decision dec)"
  unfolding validate_observation_def evidence_rule_for_def validate_decision_def
  by (intro raises_rules; simp)+

lemma binding_calls [raises_rules]: "contract_call (validated_requirement U H r q)"
  "contract_call (evidence_observation_sha256 U H b)" "contract_call (new_decision dec)"
  "contract_call (validate_evaluation ev)" "contract_call (validate_observation_binding U d q p g b)"
  unfolding validated_requirement_def evidence_observation_sha256_def new_decision_def
    validate_evaluation_def validate_observation_binding_def
  by (intro raises_rules observation_value_errors; simp)+

lemma pair_calls [raises_rules]: "contract_call (evidence_pair U H b)"
  unfolding evidence_pair_def by (intro raises_rules)

lemma numeric_calls [raises_rules]: "contract_call (compare_numeric eq le op x lo hi)"
  by (cases op) (simp_all add: compare_numeric_def raises_Inr raises_Inl)

lemma match_calls [raises_rules]: "contract_call (matches op t v)"
  by (cases "(op, t, v)" rule: matches.cases)
    (simp_all add: no_match_rule_def raises_Inr raises_Inl numeric_calls)

lemma decide_calls [raises_rules]: "contract_call (decide q h p g pairs)"
  unfolding decide_def Let_def by (intro raises_rules) simp

lemma check_decision_calls [raises_rules]: "contract_call (check_decision U H r m p g d)"
  unfolding check_decision_def Let_def by (intro raises_rules; simp)

text \<open>The public functions raise the fixed-message errors of their modules and nothing else.\<close>

lemma rewrap_raises: "raises_only c r \<Longrightarrow> raises_only (\<lambda>e'. e' = e) (rewrap c e r)"
  by (cases r) (auto simp: raises_only_def)

lemma registry_digest_errors: "raises_only (\<lambda>e. e = TypedRequirementError) (attribute_registry_sha256 U H r)"
  unfolding attribute_registry_sha256_def
  by (intro raises_bind rewrap_raises registry_value_errors raises_Inr)

lemma normalize_errors: "raises_only (\<lambda>e. e = TypedRequirementError) (normalize_typed_requirements U H r ds)"
  unfolding normalize_typed_requirements_def Let_def
  by (rule rewrap_raises, intro raises_rules; simp)

lemma set_digest_errors: "raises_only (\<lambda>e. e = TypedRequirementError) (typed_requirement_set_sha256 U H r qs)"
  unfolding typed_requirement_set_sha256_def Let_def
  by (rule rewrap_raises, intro raises_rules; simp)

lemma lookup_errors: "raises_only (\<lambda>e. e = TypedRequirementError) (attribute_definition_of U r key)"
  unfolding attribute_definition_of_def Let_def
  by (rule rewrap_raises, intro raises_rules; simp)

lemma observed_errors: "raises_only (\<lambda>e. e = TypedRequirementError) (normalize_observed_value U a v)"
  unfolding normalize_observed_value_def Let_def
  by (rule raises_if, simp add: raises_Inl, rule rewrap_raises, intro raises_rules; simp)

lemma adjudicate_errors: "raises_only (\<lambda>e. e = RequirementEvaluationError) (adjudicate_requirement U H r q p bs)"
  unfolding adjudicate_requirement_def evidence_error_contract Let_def
  by (rule rewrap_raises, intro raises_rules; simp)

lemma evaluate_errors: "raises_only (\<lambda>e. e = RequirementEvaluationError) (evaluate_typed_product U H r qs ds p)"
  unfolding evaluate_typed_product_def evidence_error_contract Let_def
  by (rule rewrap_raises, intro raises_rules; simp)

lemma build_errors: "raises_only (\<lambda>e. e = RequirementEvaluationError) (build_evidence_observation U H r q p src v why pr art)"
  unfolding build_evidence_observation_def evidence_error_contract Let_def
  by (rule rewrap_raises, intro raises_rules; simp)

lemma sort_key_errors: "raises_only (\<lambda>e. e = RequirementEvaluationError) (typed_product_sort_key ev s i)"
  unfolding typed_product_sort_key_def evidence_error_contract Let_def
  by (rule rewrap_raises, intro raises_rules; simp)

end
