(* ===== verification/Decimal_Values.thy ===== *)
theory Decimal_Values
  imports Text_Values Complex_Main
begin

text \<open>
  Facts about \<open>Decimal\<close>: the number a decimal stands for, comparison as comparison of numbers,
  the canonical form as the unique form of a number, and the round trip of \<open>str\<close>.
\<close>

section \<open>The number a decimal stands for\<close>

fun dec_value :: "decimal \<Rightarrow> rat" where
  "dec_value (Dec neg c e) = (if neg then - 1 else 1) * of_nat c * 10 powi e"

lemma dec_at_value: "k \<le> dec_exponent d \<Longrightarrow> of_int (dec_at k d) * (10 :: rat) powi k = dec_value d"
proof (cases d)
  case (Dec neg c e)
  assume "k \<le> dec_exponent d"
  with Dec have k: "k \<le> e" by simp
  then have "(10 :: rat) ^ nat (e - k) = 10 powi (e - k)" by (simp add: power_int_def)
  then have "(10 :: rat) ^ nat (e - k) * 10 powi k = 10 powi e"
    by (simp add: power_int_diff)
  with Dec show ?thesis by (simp add: mult.assoc)
qed

lemma common_exponent_le: "common_exponent a b \<le> dec_exponent a" "common_exponent a b \<le> dec_exponent b"
  by (simp_all add: common_exponent_def)

lemma dec_le_value: "dec_le a b \<longleftrightarrow> dec_value a \<le> dec_value b"
proof -
  let ?k = "common_exponent a b"
  have "dec_value a \<le> dec_value b \<longleftrightarrow>
      of_int (dec_at ?k a) * (10 :: rat) powi ?k \<le> of_int (dec_at ?k b) * 10 powi ?k"
    by (simp add: dec_at_value common_exponent_le)
  also have "\<dots> \<longleftrightarrow> dec_at ?k a \<le> dec_at ?k b" by simp
  finally show ?thesis by (simp add: dec_le_def)
qed

lemma dec_eq_value: "dec_eq a b \<longleftrightarrow> dec_value a = dec_value b"
proof -
  let ?k = "common_exponent a b"
  have "dec_value a = dec_value b \<longleftrightarrow>
      of_int (dec_at ?k a) * (10 :: rat) powi ?k = of_int (dec_at ?k b) * 10 powi ?k"
    by (simp add: dec_at_value common_exponent_le)
  also have "\<dots> \<longleftrightarrow> dec_at ?k a = dec_at ?k b" by simp
  finally show ?thesis by (simp add: dec_eq_def)
qed

lemma dec_eq_refl [simp]: "dec_eq d d"
  by (simp add: dec_eq_value)

lemma strip_zeros_value:
  "strip_zeros c e = (c', e') \<Longrightarrow> of_nat c' * (10 :: rat) powi e' = of_nat c * 10 powi e"
proof (induction c e arbitrary: c' e' rule: strip_zeros.induct)
  case (1 c e)
  show ?case
  proof (cases "c = 0 \<or> c mod 10 \<noteq> 0")
    case True
    with "1.prems" show ?thesis by (subst (asm) strip_zeros.simps) auto
  next
    case False
    with "1.prems" have "strip_zeros (c div 10) (e + 1) = (c', e')"
      by (subst (asm) strip_zeros.simps) simp
    with "1.IH" False have "of_nat c' * (10 :: rat) powi e' = of_nat (c div 10) * 10 powi (e + 1)" by simp
    moreover have "c = c div 10 * 10" using False by auto
    then have "(of_nat c :: rat) = of_nat (c div 10) * 10" by (metis of_nat_mult of_nat_numeral)
    ultimately show ?thesis by (simp add: power_int_add)
  qed
qed

lemma strip_zeros_stops:
  "strip_zeros c e = (c', e') \<Longrightarrow> c \<noteq> 0 \<Longrightarrow> c' \<noteq> 0 \<and> c' mod 10 \<noteq> 0"
proof (induction c e arbitrary: c' e' rule: strip_zeros.induct)
  case (1 c e)
  show ?case
  proof (cases "c mod 10 \<noteq> 0")
    case True
    with "1.prems" show ?thesis by (subst (asm) strip_zeros.simps) auto
  next
    case False
    with "1.prems" have "strip_zeros (c div 10) (e + 1) = (c', e')"
      by (subst (asm) strip_zeros.simps) simp
    moreover have "c div 10 \<noteq> 0" using False "1.prems"(2) by presburger
    ultimately show ?thesis using "1.IH" False "1.prems"(2) by blast
  qed
qed

lemma canonical_decimal_value [simp]: "dec_value (canonical_decimal d) = dec_value d"
proof (cases d)
  case (Dec neg c e)
  obtain c' e' where s: "strip_zeros c e = (c', e')" by fastforce
  from strip_zeros_value [OF s] Dec s show ?thesis
    by (simp add: canonical_decimal_def)
qed

text \<open>The canonical form is the number: two decimals have one canonical form exactly when they
  are equal as numbers.\<close>

definition canonical_form :: "decimal \<Rightarrow> bool" where
  "canonical_form d = (case d of Dec neg c e \<Rightarrow> if c = 0 then d = Dec False 0 0 else c mod 10 \<noteq> 0)"

lemma canonical_decimal_form: "canonical_form (canonical_decimal d)"
proof (cases d)
  case (Dec neg c e)
  obtain c' e' where s: "strip_zeros c e = (c', e')" by fastforce
  with strip_zeros_stops [OF s] Dec show ?thesis
    by (auto simp: canonical_decimal_def canonical_form_def)
qed

lemma canonical_form_fixed: "canonical_form d \<Longrightarrow> canonical_decimal d = d"
  by (cases d) (auto simp: canonical_form_def canonical_decimal_def strip_zeros.simps split: if_splits)

lemma canonical_decimal_idem [simp]: "canonical_decimal (canonical_decimal d) = canonical_decimal d"
  by (rule canonical_form_fixed [OF canonical_decimal_form])

lemma powers_of_ten_unique:
  fixes c d :: nat
  assumes "of_nat c * (10 :: rat) powi e = of_nat d * 10 powi f" and "e \<le> f"
  shows "c = d * 10 ^ nat (f - e)"
proof -
  have "(10 :: rat) ^ nat (f - e) = 10 powi (f - e)" using assms(2) by (simp add: power_int_def)
  then have "(10 :: rat) ^ nat (f - e) * 10 powi e = 10 powi f" by (simp add: power_int_diff)
  with assms(1) have "of_nat c * (10 :: rat) powi e = of_nat d * 10 ^ nat (f - e) * 10 powi e"
    by (simp add: mult.assoc)
  then have "(of_nat c :: rat) = of_nat (d * 10 ^ nat (f - e))" by simp
  then show ?thesis by (simp only: of_nat_eq_iff)
qed

lemma no_zero_shift: "(d * 10 ^ n) mod 10 \<noteq> (0 :: nat) \<Longrightarrow> n = 0"
  by (cases n) auto

lemma canonical_form_unique:
  assumes "canonical_form a" and "canonical_form b" and "dec_value a = dec_value b"
  shows "a = b"
proof -
  obtain na ca ea nb cb eb where ab: "a = Dec na ca ea" "b = Dec nb cb eb" by (cases a, cases b) blast
  show ?thesis
  proof (cases "ca = 0 \<or> cb = 0")
    case True
    with assms ab show ?thesis by (auto simp: canonical_form_def split: if_splits)
  next
    case False
    with assms ab have m: "ca mod 10 \<noteq> 0" "cb mod 10 \<noteq> 0" by (auto simp: canonical_form_def)
    have pos: "0 < (of_nat ca :: rat) * 10 powi ea" "0 < (of_nat cb :: rat) * 10 powi eb"
      using False by simp_all
    with assms(3) ab have n: "na = nb" by (auto split: if_splits)
    with assms(3) ab have v: "(of_nat ca :: rat) * 10 powi ea = of_nat cb * 10 powi eb"
      by (auto split: if_splits)
    have "ca = cb \<and> ea = eb"
    proof (cases "ea \<le> eb")
      case True
      from powers_of_ten_unique [OF v True] m(1) no_zero_shift [of cb "nat (eb - ea)"] True
      show ?thesis by simp
    next
      case False
      then have "eb \<le> ea" by simp
      from powers_of_ten_unique [OF v [symmetric] this] m(2) no_zero_shift [of ca "nat (ea - eb)"] False
      show ?thesis by simp
    qed
    with n ab show ?thesis by simp
  qed
qed

lemma canonical_decimal_eq_iff: "canonical_decimal a = canonical_decimal b \<longleftrightarrow> dec_eq a b"
  using canonical_form_unique [OF canonical_decimal_form canonical_decimal_form, of a b]
  by (auto simp: dec_eq_value) (metis canonical_decimal_value)

lemma dec_eq_canonical [simp]: "dec_eq (canonical_decimal a) b \<longleftrightarrow> dec_eq a b"
  "dec_eq a (canonical_decimal b) \<longleftrightarrow> dec_eq a b"
  by (simp_all add: dec_eq_value)

lemma dec_le_canonical [simp]: "dec_le (canonical_decimal a) b \<longleftrightarrow> dec_le a b"
  "dec_le a (canonical_decimal b) \<longleftrightarrow> dec_le a b"
  by (simp_all add: dec_le_value)

section \<open>Printing and reading\<close>

text \<open>What the constructor \<open>Decimal\<close> reads back from a printed decimal.\<close>

definition read_exponent :: "string \<Rightarrow> int" where
  "read_exponent t =
     (case t of
        m # s # ds \<Rightarrow> (if s = CHR ''-'' then - int (dec_val ds) else int (dec_val ds))
      | _ \<Rightarrow> 0)"

definition read_decimal :: "string \<Rightarrow> decimal" where
  "read_decimal s =
     (let neg = (take 1 s = ''-'');
          body = (if neg then drop 1 s else s);
          mantissa = takeWhile (\<lambda>c. c \<noteq> CHR ''E'') body;
          whole = takeWhile (\<lambda>c. c \<noteq> CHR ''.'') mantissa;
          fraction = drop (Suc (length whole)) mantissa
      in Dec neg (dec_val (whole @ fraction))
           (read_exponent (dropWhile (\<lambda>c. c \<noteq> CHR ''E'') body) - int (length fraction)))"

lemma digit_plain: "is_digit c \<Longrightarrow> c \<noteq> CHR ''E'' \<and> c \<noteq> CHR ''.'' \<and> c \<noteq> CHR ''-''"
  by (auto simp: is_digit_def)

lemma digit_not_E: "is_digit c \<Longrightarrow> c \<noteq> CHR ''E''"
  by (drule digit_plain) simp

lemma takeWhile_stop: "list_all p xs \<Longrightarrow> \<not> p y \<Longrightarrow> takeWhile p (xs @ y # ys) = xs"
  by (induction xs) auto

lemma takeWhile_whole: "list_all p xs \<Longrightarrow> takeWhile p xs = xs"
  by (induction xs) auto

lemma dropWhile_stop: "list_all p xs \<Longrightarrow> \<not> p y \<Longrightarrow> dropWhile p (xs @ y # ys) = y # ys"
  by (induction xs) auto

lemma dropWhile_whole: "list_all p xs \<Longrightarrow> dropWhile p xs = []"
  by (induction xs) auto

lemma list_all_mono: "list_all p xs \<Longrightarrow> (\<And>x. p x \<Longrightarrow> q x) \<Longrightarrow> list_all q xs"
  by (auto simp: list_all_iff)

text \<open>A printed number is a sign, digits with at most one point, and an exponent.\<close>

definition exponent_text :: "int \<Rightarrow> string" where
  "exponent_text x =
     (if x = 0 then [] else if 0 < x then ''E+'' @ dec_nat (nat x) else ''E-'' @ dec_nat (nat (- x)))"

lemma read_exponent_text: "read_exponent (exponent_text x) = x"
  by (simp add: read_exponent_def exponent_text_def dec_val_dec_nat)

definition decimal_text :: "bool \<Rightarrow> string \<Rightarrow> string option \<Rightarrow> int \<Rightarrow> string" where
  "decimal_text neg whole fraction x =
     (if neg then ''-'' else []) @ whole @ (case fraction of None \<Rightarrow> [] | Some f \<Rightarrow> CHR ''.'' # f) @
     exponent_text x"

lemma read_decimal_text:
  assumes "list_all is_digit whole" and "whole \<noteq> []" and "opt_all (list_all is_digit) fraction"
  shows "read_decimal (decimal_text neg whole fraction x) =
    Dec neg (dec_val (whole @ (case fraction of None \<Rightarrow> [] | Some f \<Rightarrow> f)))
      (x - (case fraction of None \<Rightarrow> 0 | Some f \<Rightarrow> int (length f)))"
proof -
  define m where "m = whole @ (case fraction of None \<Rightarrow> [] | Some f \<Rightarrow> CHR ''.'' # f)"
  define b where "b = m @ exponent_text x"
  have first: "take (Suc 0) b \<noteq> ''-''"
    using assms(1,2) by (cases whole) (auto simp: b_def m_def dest: digit_plain)
  have no_e: "list_all (\<lambda>c. c \<noteq> CHR ''E'') m"
    using list_all_mono [OF assms(1) digit_not_E] assms(3) list_all_mono [OF _ digit_not_E]
    by (cases fraction) (simp_all add: m_def)
  have dots: "list_all (\<lambda>c. c \<noteq> CHR ''.'') whole"
    by (rule list_all_mono [OF assms(1)]) (drule digit_plain, simp)
  have cut: "takeWhile (\<lambda>c. c \<noteq> CHR ''E'') b = m" "dropWhile (\<lambda>c. c \<noteq> CHR ''E'') b = exponent_text x"
  proof (atomize (full), cases "x = 0")
    case True
    with takeWhile_whole [OF no_e] dropWhile_whole [OF no_e]
    show "takeWhile (\<lambda>c. c \<noteq> CHR ''E'') b = m \<and> dropWhile (\<lambda>c. c \<noteq> CHR ''E'') b = exponent_text x"
      by (simp add: exponent_text_def b_def)
  next
    case False
    then obtain r where r: "exponent_text x = CHR ''E'' # r"
      by (cases "0 < x") (auto simp: exponent_text_def)
    show "takeWhile (\<lambda>c. c \<noteq> CHR ''E'') b = m \<and> dropWhile (\<lambda>c. c \<noteq> CHR ''E'') b = exponent_text x"
      unfolding b_def r
      using takeWhile_stop [OF no_e, of "CHR ''E''" r] dropWhile_stop [OF no_e, of "CHR ''E''" r]
      by (simp only: simp_thms)
  qed
  have whole: "takeWhile (\<lambda>c. c \<noteq> CHR ''.'') m = whole"
    using takeWhile_stop [OF dots] takeWhile_whole [OF dots] by (cases fraction) (simp_all add: m_def)
  have "decimal_text neg whole fraction x = (if neg then ''-'' else []) @ b"
    by (simp add: decimal_text_def b_def m_def)
  then have "read_decimal (decimal_text neg whole fraction x) =
      Dec neg (dec_val (whole @ drop (Suc (length whole)) m)) (x - int (length (drop (Suc (length whole)) m)))"
    using first cut whole by (cases neg) (simp_all add: read_decimal_def read_exponent_text)
  then show ?thesis by (cases fraction) (simp_all add: m_def)
qed

lemma decimal_str_text:
  "\<exists>whole fraction x. decimal_str (Dec neg c e) = decimal_text neg whole fraction x \<and>
     list_all is_digit whole \<and> whole \<noteq> [] \<and> opt_all (list_all is_digit) fraction \<and>
     dec_val (whole @ (case fraction of None \<Rightarrow> [] | Some f \<Rightarrow> f)) = c \<and>
     x - (case fraction of None \<Rightarrow> 0 | Some f \<Rightarrow> int (length f)) = e"
proof -
  let ?ds = "dec_nat c"
  let ?left = "e + int (length ?ds)"
  let ?dot = "if e \<le> 0 \<and> - 6 < ?left then ?left else 1"
  have ds: "list_all is_digit ?ds" "?ds \<noteq> []" using dec_nat_digits [of c] by auto
  then have len: "0 < length ?ds" by simp
  have zero: "is_digit CHR ''0''" by (simp add: is_digit_def)
  consider (small) "?dot \<le> 0" | (whole) "0 < ?dot" "int (length ?ds) \<le> ?dot"
    | (split) "0 < ?dot" "?dot < int (length ?ds)" by linarith
  then show ?thesis
  proof cases
    case small
    define z where "z = replicate (nat (- ?dot)) CHR ''0''"
    have dot: "?dot = ?left" using small by (auto split: if_splits)
    then have "decimal_str (Dec neg c e) = decimal_text neg ''0'' (Some (z @ ?ds)) 0"
      using small unfolding decimal_str_def decimal_text_def exponent_text_def Let_def z_def by simp
    moreover have "dec_val (''0'' @ z @ ?ds) = c"
      using dec_val_padded [of "Suc (nat (- ?dot))" ?ds] by (simp add: dec_val_dec_nat z_def)
    moreover have "0 - int (length (z @ ?ds)) = e"
      using small unfolding z_def dot by simp
    moreover have "list_all is_digit z" using zero by (simp add: list_all_iff z_def)
    ultimately show ?thesis using zero ds
      by (intro exI [of _ "''0''"] exI [of _ "Some (z @ ?ds)"] exI [of _ 0]) simp
  next
    case whole
    then have pad: "nat (?dot - int (length ?ds)) = 0" using len by (auto split: if_splits simp del: length_greater_0_conv)
    have "decimal_str (Dec neg c e) = decimal_text neg ?ds None (?left - ?dot)"
      using whole pad unfolding decimal_str_def decimal_text_def exponent_text_def Let_def by simp
    moreover have "?left - ?dot = e"
      using whole ds(2) by (cases "length ?ds = Suc 0") (auto simp: le_Suc_eq split: if_splits)
    ultimately show ?thesis using ds
      by (intro exI [of _ ?ds] exI [of _ None] exI [of _ "?left - ?dot"]) (simp add: dec_val_dec_nat)
  next
    case split
    let ?w = "take (nat ?dot) ?ds" and ?f = "drop (nat ?dot) ?ds"
    have "decimal_str (Dec neg c e) = decimal_text neg ?w (Some ?f) (?left - ?dot)"
      using split unfolding decimal_str_def decimal_text_def exponent_text_def Let_def by simp
    moreover have "?left - ?dot - int (length ?f) = e" using split by simp
    moreover have "list_all is_digit ?w" "list_all is_digit ?f"
      using ds(1) by (auto simp: list_all_iff dest: in_set_takeD in_set_dropD)
    moreover have "?w \<noteq> []" using split ds(2) by simp
    ultimately show ?thesis
      by (intro exI [of _ ?w] exI [of _ "Some ?f"] exI [of _ "?left - ?dot"]) (simp add: dec_val_dec_nat)
  qed
qed

lemma read_decimal_str: "read_decimal (decimal_str d) = d"
proof (cases d)
  case (Dec neg c e)
  from decimal_str_text [of neg c e] obtain whole fraction x where
    s: "decimal_str (Dec neg c e) = decimal_text neg whole fraction x" and
    w: "list_all is_digit whole" "whole \<noteq> []" "opt_all (list_all is_digit) fraction" and
    v: "dec_val (whole @ (case fraction of None \<Rightarrow> [] | Some f \<Rightarrow> f)) = c"
      "x - (case fraction of None \<Rightarrow> 0 | Some f \<Rightarrow> int (length f)) = e" by blast
  from read_decimal_text [OF w, of neg x] v show ?thesis by (simp only: Dec s)
qed

lemma decimal_str_inj [simp]: "decimal_str a = decimal_str b \<longleftrightarrow> a = b"
  by (metis read_decimal_str)

end
