(* ===== verification/Typed_Requirements_Props.thy ===== *)
theory Typed_Requirements_Props
  imports Typed_Requirements Decimal_Values Interfaces
begin

text \<open>
  Facts about the typed requirement contract: names of a valid registry resolve to one definition,
  canonical names are their own normal form, every normaliser of the module is idempotent (the
  interface \<open>normaliser\<close>), and the canonical JSON of a requirement determines it.
\<close>

section \<open>Dictionaries and comprehensions\<close>

lemma dict_get_append: "dict_get (ps @ qs) k = (case dict_get qs k of None \<Rightarrow> dict_get ps k | Some v \<Rightarrow> Some v)"
  by (simp add: dict_get_def map_add_def split: option.splits)

lemma dict_get_mem: "dict_get ps k = Some v \<Longrightarrow> (k, v) \<in> set ps"
  by (auto simp: dict_get_def dest: map_of_SomeD)

lemma dict_get_unique:
  assumes "(k, v) \<in> set ps" and "\<And>v'. (k, v') \<in> set ps \<Longrightarrow> v' = v"
  shows "dict_get ps k = Some v"
proof -
  have "k \<in> fst ` set (rev ps)" using assms(1) by force
  then have "dict_get ps k \<noteq> None" by (simp only: dict_get_def map_of_eq_None_iff) simp
  with assms(2) show ?thesis by (auto dest: dict_get_mem)
qed

lemma map_result_eq_Inr: "map_result f xs = Inr ys \<longleftrightarrow> list_all2 (\<lambda>x y. f x = Inr y) xs ys"
  by (induction xs arbitrary: ys) (auto simp: list_all2_Cons1 split: sum.splits)

lemma map_result_fixed: "(\<forall>x\<in>set xs. f x = Inr (g x)) \<Longrightarrow> map_result f xs = Inr (map g xs)"
  by (induction xs) auto

lemma map_result_length: "map_result f xs = Inr ys \<Longrightarrow> length ys = length xs"
  by (auto simp: map_result_eq_Inr dest: list_all2_lengthD)

lemma map_result_mem: "map_result f xs = Inr ys \<Longrightarrow> y \<in> set ys \<Longrightarrow> \<exists>x\<in>set xs. f x = Inr y"
  by (force simp: map_result_eq_Inr list_all2_conv_all_nth in_set_conv_nth)

lemma map_result_Nil [simp]: "map_result f xs = Inr [] \<longleftrightarrow> xs = []"
  by (cases xs) auto

section \<open>The interface of a normaliser\<close>

text \<open>
  What the code expects of each of its normalisation functions: a normal form is its own normal
  form. The modules rely on it when they compare a value with its renormalisation to decide that
  it is canonical.
\<close>

locale normaliser =
  fixes norm :: "'a \<Rightarrow> 'a result" and ok :: "'a \<Rightarrow> bool"
  assumes normal_fixed: "norm x = Inr y \<Longrightarrow> ok y \<Longrightarrow> norm y = Inr y"
begin

lemma all_fixed:
  assumes "map_result norm xs = Inr ys" and "\<forall>y\<in>set ys. ok y" and "set zs \<subseteq> set ys"
  shows "map_result norm zs = Inr zs"
proof -
  have "norm z = Inr z" if "z \<in> set zs" for z
    using map_result_mem [OF assms(1)] normal_fixed assms(2,3) that by blast
  then show ?thesis using map_result_fixed [of zs norm "\<lambda>z. z"] by simp
qed

lemma sorted_fixed:
  assumes "map_result norm xs = Inr ys" and "\<forall>y\<in>set ys. ok y"
  shows "map_result norm (sort_key f ys) = Inr (sort_key f ys)"
  by (rule all_fixed [OF assms]) simp

end

section \<open>Names of the registry\<close>

lemma text_length_le: "text_length s \<le> length s"
  by (simp add: text_length_def)

lemma identifier_nonempty: "is_identifier s \<Longrightarrow> s \<noteq> []"
  by (auto simp: is_identifier_def)

lemma identifier_short: "is_identifier s \<Longrightarrow> text_length s \<le> max_text_characters"
  using text_length_le [of s] by (simp add: is_identifier_def max_text_characters_def)

lemma code_of_lower: "c \<in> set (lower_chars @ digit_chars @ ''_-'') \<Longrightarrow> code_of c div 64 \<noteq> 2"
  by (auto simp: lower_chars_def digit_chars_def code_of_def)

lemma identifier_bounded: "is_identifier s \<Longrightarrow> bounded_text s"
proof -
  assume s: "is_identifier s"
  then have "\<forall>c\<in>set s. code_of c div 64 \<noteq> 2"
    using code_of_lower by (auto simp: is_identifier_def chars_in_def list_all_iff)
  then have "text_length s = length s" by (simp add: text_length_def)
  with s identifier_short [OF s] show ?thesis by (simp add: bounded_text_def is_identifier_def)
qed

lemma plain_normal:
  assumes "plain_name U s" and "s \<noteq> []" and "text_length s \<le> max_text_characters"
  shows "normalize_text U s = Inr s" and "text_identity U s = s"
  using assms by (simp_all add: plain_name_def normalize_text_def text_identity_def Let_def)

lemma identifier_normal:
  assumes "ascii_library U" and "is_identifier s"
  shows "normalize_text U s = Inr s" and "text_identity U s = s"
  using plain_normal [of U s] assms identifier_nonempty identifier_short
  by (auto simp: ascii_library_def)

text \<open>The table of canonical names and aliases of one attribute.\<close>

definition name_table :: "text_library \<Rightarrow> string list \<Rightarrow> value_alias list \<Rightarrow> bool" where
  "name_table U vs as \<longleftrightarrow> ascii_library U \<and> list_all is_identifier vs \<and> aliases_resolve vs as \<and>
     \<not> alias_overrides U vs as"

lemma canonical_pairs_get:
  assumes "ascii_library U" and "list_all is_identifier vs" and "v \<in> set vs"
  shows "dict_get (canonical_pairs U vs) v = Some v"
proof (rule dict_get_unique)
  have ident: "text_identity U w = w" if "w \<in> set vs" for w
    using identifier_normal [OF assms(1), of w] assms(2) that by (simp add: list_all_iff)
  show "(v, v) \<in> set (canonical_pairs U vs)"
    using assms(3) ident [OF assms(3)] by (force simp: canonical_pairs_def)
  show "v' = v" if "(v, v') \<in> set (canonical_pairs U vs)" for v'
    using that ident by (auto simp: canonical_pairs_def)
qed

lemma canonical_name_fixed:
  assumes t: "name_table U vs as" and v: "v \<in> set vs"
  shows "normalize_name U vs as e v = Inr v"
proof -
  have ids: "ascii_library U" "list_all is_identifier vs" using t by (simp_all add: name_table_def)
  have n: "normalize_text U v = Inr v" "text_identity U v = v"
    using identifier_normal [OF ids(1), of v] ids(2) v by (simp_all add: list_all_iff)
  have over: "alias_canonical a = v" if "a \<in> set as" "text_identity U (alias_text a) = v" for a
    using t that canonical_pairs_get [OF ids v]
    by (auto simp: name_table_def alias_overrides_def list_ex_iff)
  have "dict_get (alias_pairs U as) v = None \<or> dict_get (alias_pairs U as) v = Some v"
    using over by (cases "dict_get (alias_pairs U as) v") (auto simp: alias_pairs_def dest!: dict_get_mem)
  then show ?thesis
    using n canonical_pairs_get [OF ids v] by (auto simp: normalize_name_def dict_get_append)
qed

lemma normal_name_canonical:
  assumes "aliases_resolve vs as" and "normalize_name U vs as e s = Inr v"
  shows "v \<in> set vs"
proof -
  obtain i where "dict_get (canonical_pairs U vs @ alias_pairs U as) i = Some v"
    using assms(2) by (auto simp: normalize_name_def split: option.splits)
  then have "(i, v) \<in> set (canonical_pairs U vs @ alias_pairs U as)" by (rule dict_get_mem)
  with assms(1) show ?thesis
    by (auto simp: canonical_pairs_def alias_pairs_def aliases_resolve_def list_all_iff)
qed

interpretation name: normaliser "normalize_name U vs as e" "\<lambda>_. name_table U vs as" for U vs as e
  by unfold_locales (auto intro: canonical_name_fixed normal_name_canonical simp: name_table_def)

section \<open>Valid definitions and registries\<close>

lemma definition_tables:
  assumes "ascii_library U" and "validate_definition U d = Inr ()"
  shows "name_table U (attr_values d) (attr_value_aliases d)"
    and "name_table U (attr_units d) (attr_unit_aliases d)"
  using assms by (simp_all add: validate_definition_def name_table_def definition_fields_def
      if_Inl_eq_Inr split: if_splits)

lemma bind_identities_functional:
  assumes "bind_identities ids ps = Inr ()" and "(i, k) \<in> set ps"
  shows "map_of ids i = None \<or> map_of ids i = Some k"
    and "(i, k') \<in> set ps \<Longrightarrow> k' = k"
proof -
  have all: "\<forall>i k. (i, k) \<in> set ps \<longrightarrow> (map_of ids i = None \<or> map_of ids i = Some k) \<and>
      (\<forall>k'. (i, k') \<in> set ps \<longrightarrow> k' = k)"
    using assms(1)
  proof (induction ids ps rule: bind_identities.induct)
    case (2 ids i key rest)
    have here: "map_of ids i = None \<or> map_of ids i = Some key"
      using "2.prems" by (auto split: option.splits if_splits)
    have later: "bind_identities (AList.update i key ids) rest = Inr ()"
      using "2.prems" by (auto split: option.splits if_splits)
    have IH: "\<forall>j k. (j, k) \<in> set rest \<longrightarrow>
        (map_of (AList.update i key ids) j = None \<or> map_of (AList.update i key ids) j = Some k) \<and>
        (\<forall>k'. (j, k') \<in> set rest \<longrightarrow> k' = k)"
    proof (cases "map_of ids i")
      case None
      from "2.IH"(1) [OF None later] show ?thesis .
    next
      case (Some v)
      with here have "\<not> v \<noteq> key" by simp
      from "2.IH"(2) [OF Some this later] show ?thesis .
    qed
    have same: "k = key" if "(i, k) \<in> set rest" for k
    proof -
      have "map_of (AList.update i key ids) i = None \<or> map_of (AList.update i key ids) i = Some k"
        using IH that by blast
      then show ?thesis by (simp add: update_conv')
    qed
    have others: "map_of ids j = None \<or> map_of ids j = Some k" if "(j, k) \<in> set rest" for j k
    proof -
      have "map_of (AList.update i key ids) j = None \<or> map_of (AList.update i key ids) j = Some k"
        using IH that by blast
      moreover have "j = i \<Longrightarrow> k = key" using same that by blast
      ultimately show ?thesis using here by (cases "j = i") (simp_all add: update_conv')
    qed
    have pair: "k' = k" if "(j, k) \<in> set rest" "(j, k') \<in> set rest" for j k k'
      using IH that by blast
    show ?case
    proof (intro allI impI conjI)
      fix j k k'
      assume jk: "(j, k) \<in> set ((i, key) # rest)"
      then show "map_of ids j = None \<or> map_of ids j = Some k" using here others by auto
      show "k' = k" if "(j, k') \<in> set ((i, key) # rest)" using jk that same pair by auto
    qed
  qed simp
  show "map_of ids i = None \<or> map_of ids i = Some k" using all assms(2) by simp
  show "(i, k') \<in> set ps \<Longrightarrow> k' = k" using all assms(2) by simp
qed

lemma registry_parts:
  assumes "validate_registry U r = Inr ()"
  shows "d \<in> set (reg_definitions r) \<Longrightarrow> validate_definition U d = Inr ()"
    and "distinct (map attr_key (reg_definitions r))"
    and "bind_identities [] (registry_names U (reg_definitions r)) = Inr ()"
    and "length (reg_definitions r) \<le> max_attribute_definitions"
  using assms by (simp_all add: validate_registry_def Let_def if_Inl_eq_Inr split: if_splits)

lemma lookup_mem:
  "definition_lookup U r i = Some d \<Longrightarrow>
    d \<in> set (reg_definitions r) \<and> (\<exists>n\<in>set (attr_names d). text_identity U n = i)"
  by (auto simp: definition_lookup_def dest!: dict_get_mem)

lemma registry_names_mem:
  "(i, k) \<in> set (registry_names U ds) \<longleftrightarrow>
    (\<exists>d\<in>set ds. \<exists>n\<in>set (attr_names d). i = text_identity U n \<and> k = attr_key d)"
  by (auto simp: registry_names_def)

lemma names_resolve:
  assumes r: "validate_registry U r = Inr ()" and d: "d \<in> set (reg_definitions r)"
    and n: "n \<in> set (attr_names d)"
  shows "definition_lookup U r (text_identity U n) = Some d"
  unfolding definition_lookup_def
proof (rule dict_get_unique)
  show "(text_identity U n, d) \<in> set (concat (map (\<lambda>d. map (\<lambda>n. (text_identity U n, d)) (attr_names d))
      (reg_definitions r)))"
    using d n by auto
  fix d'
  assume "(text_identity U n, d') \<in> set (concat (map (\<lambda>d. map (\<lambda>n. (text_identity U n, d)) (attr_names d))
      (reg_definitions r)))"
  then obtain m where d': "d' \<in> set (reg_definitions r)" "m \<in> set (attr_names d')"
    "text_identity U m = text_identity U n" by auto
  have "(text_identity U n, attr_key d) \<in> set (registry_names U (reg_definitions r))"
    using d n unfolding registry_names_mem by blast
  moreover have "(text_identity U n, attr_key d') \<in> set (registry_names U (reg_definitions r))"
    using d' unfolding registry_names_mem by metis
  ultimately have "attr_key d' = attr_key d"
    by (rule bind_identities_functional(2) [OF registry_parts(3) [OF r]])
  then show "d' = d"
    using registry_parts(2) [OF r] d d'(1) by (auto simp: distinct_map dest: inj_onD)
qed

lemma lookup_known:
  "validate_registry U r = Inr () \<Longrightarrow> definition_lookup U r i = Some d \<Longrightarrow>
    d \<in> set (reg_definitions r) \<and> validate_definition U d = Inr ()"
  using lookup_mem registry_parts(1) by blast

section \<open>Normal forms of targets and observed values\<close>

lemma unit_in: "validate_definition U d = Inr () \<Longrightarrow> normalize_unit U d s = Inr u \<Longrightarrow> u \<in> set (attr_units d)"
  by (auto simp: normalize_unit_def validate_definition_def if_Inl_eq_Inr intro!: normal_name_canonical)

lemma value_in:
  "validate_definition U d = Inr () \<Longrightarrow> normalize_allowed_value U d s = Inr v \<Longrightarrow> v \<in> set (attr_values d)"
  by (auto simp: normalize_allowed_value_def validate_definition_def if_Inl_eq_Inr
      intro!: normal_name_canonical)

lemma validate_target_id: "validate_target U t = Inr t' \<Longrightarrow> t' = t"
  by (auto simp: validate_target_def split: if_splits target.splits)

lemma validate_observed_id: "validate_observed U v = Inr v' \<Longrightarrow> v' = v"
  by (auto simp: validate_observed_def split: if_splits observed.splits)

lemma numeric_bounds_canonical [simp]:
  "validate_numeric_bounds dec_eq dec_le op (map_option canonical_decimal lo) (map_option canonical_decimal hi) =
   validate_numeric_bounds dec_eq dec_le op lo hi"
  by (cases lo; cases hi) (simp_all add: validate_numeric_bounds_def)

text \<open>A text set is a normal form exactly when folding its values once more and sorting them gives the
  same list. Folding is not idempotent for every text (a sharp s before a combining acute folds to two
  letters and the accent, and that text composes differently), so a normalised text set need not be one.
  Every other target is settled.\<close>

definition folds :: "text_library \<Rightarrow> string list \<Rightarrow> bool" where
  "folds U vs \<longleftrightarrow> (case map_result (folded_text U) vs of Inl e \<Rightarrow> False | Inr ns \<Rightarrow> sort ns = vs)"

definition settled_target :: "text_library \<Rightarrow> target \<Rightarrow> bool" where
  "settled_target U t = (case t of TextSetTarget vs \<Rightarrow> folds U vs | _ \<Rightarrow> True)"

definition settled_observed :: "text_library \<Rightarrow> observed \<Rightarrow> bool" where
  "settled_observed U v = (case v of TextSetObserved vs \<Rightarrow> folds U vs | _ \<Rightarrow> True)"

definition good_definition :: "text_library \<Rightarrow> attribute_definition \<Rightarrow> bool" where
  "good_definition U d \<longleftrightarrow> ascii_library U \<and> validate_definition U d = Inr ()"

interpretation unit_name: normaliser "normalize_unit U d" "\<lambda>_. good_definition U d" for U d
  by unfold_locales (auto simp: normalize_unit_def good_definition_def
      intro: name.normal_fixed definition_tables)

interpretation value_name: normaliser "normalize_allowed_value U d" "\<lambda>_. good_definition U d" for U d
  by unfold_locales (auto simp: normalize_allowed_value_def good_definition_def
      intro: name.normal_fixed definition_tables)

lemma folds_again:
  assumes "folds U vs" and "distinct vs"
  obtains ns where "map_result (folded_text U) vs = Inr ns" and "sort ns = vs" and "distinct ns"
proof -
  from assms(1) obtain ns where ns: "map_result (folded_text U) vs = Inr ns" "sort ns = vs"
    by (auto simp: folds_def split: sum.splits)
  with assms(2) have "distinct ns" by (metis distinct_sort)
  with ns that show thesis by blast
qed

lemma normal_target_fixed:
  assumes n: "normalize_target U d op t = Inr t'" and g: "good_definition U d" and s: "settled_target U t'"
  shows "normalize_target U d op t' = Inr t'"
proof (cases t)
  case (BooleanTarget b)
  with n have "t' = BooleanTarget b" and "attr_type d = Boolean_type"
    by (simp_all add: normalize_target_def split: if_splits)
  then show ?thesis by (simp add: normalize_target_def)
next
  case (EnumTarget vs)
  with n obtain ns where ns: "map_result (normalize_allowed_value U d) vs = Inr ns" and
    ty: "attr_type d = Enum_type" and t': "t' = EnumTarget (sort_key (text_identity U) ns)" and
    c: "distinct ns" "op = Equals \<longrightarrow> length ns = 1"
      "validate_target U (EnumTarget (sort_key (text_identity U) ns)) = Inr t'"
    by (auto simp: normalize_target_def Let_def dest!: validate_target_id split: if_splits)
  have "map_result (normalize_allowed_value U d) (sort_key (text_identity U) ns) =
      Inr (sort_key (text_identity U) ns)"
    by (rule value_name.sorted_fixed [OF ns]) (simp add: g)
  with ty t' c show ?thesis by (simp add: normalize_target_def)
next
  case (IntegerTarget lo hi u)
  with n obtain u' where u': "normalize_unit U d u = Inr u'" and t': "t' = IntegerTarget lo hi u'"
    and c: "attr_type d = Integer_type" "validate_numeric_bounds (=) (\<le>) op lo hi = Inr ()"
      "validate_target U t' = Inr t'"
    by (auto simp: normalize_target_def split: if_splits dest: validate_target_id)
  from unit_name.normal_fixed [OF u' g] t' c show ?thesis by (simp add: normalize_target_def)
next
  case (DecimalTarget lo hi u)
  let ?lo = "map_option canonical_decimal lo" and ?hi = "map_option canonical_decimal hi"
  from n DecimalTarget obtain u' where u': "normalize_unit U d u = Inr u'"
    and t': "t' = DecimalTarget ?lo ?hi u'"
    and c: "attr_type d = Decimal_type" "validate_numeric_bounds dec_eq dec_le op lo hi = Inr ()"
      "validate_target U t' = Inr t'"
    by (auto simp: normalize_target_def split: if_splits dest: validate_target_id)
  from unit_name.normal_fixed [OF u' g] t' c show ?thesis
    by (simp add: normalize_target_def option.map_comp comp_def)
next
  case (TextSetTarget vs)
  with n obtain ns where t': "t' = TextSetTarget (sort ns)" and
    c: "attr_type d = Text_set_type" "distinct ns" "validate_target U t' = Inr t'"
    by (auto simp: normalize_target_def Let_def split: if_splits dest: validate_target_id)
  from s t' have "folds U (sort ns)" by (simp add: settled_target_def)
  with c(2) obtain ms where "map_result (folded_text U) (sort ns) = Inr ms" "sort ms = sort ns" "distinct ms"
    by (metis folds_again distinct_sort)
  with t' c show ?thesis by (simp add: normalize_target_def)
next
  case (SemanticTarget l)
  with n obtain l' where l': "normalize_allowed_value U d l = Inr l'" and t': "t' = SemanticTarget l'"
    and c: "attr_type d = Semantic_type" "validate_target U t' = Inr t'"
    by (auto simp: normalize_target_def split: if_splits dest: validate_target_id)
  from value_name.normal_fixed [OF l' g] t' c show ?thesis by (simp add: normalize_target_def)
qed

lemma normal_observed_fixed:
  assumes n: "normalize_observed_value U d v = Inr v'" and g: "good_definition U d"
    and s: "settled_observed U v'"
  shows "normalize_observed_value U d v' = Inr v'"
proof (cases v)
  case (BooleanObserved b)
  with n have "v' = BooleanObserved b" and "attr_type d = Boolean_type"
    by (simp_all add: normalize_observed_value_def split: if_splits)
  then show ?thesis by (simp add: normalize_observed_value_def)
next
  case (EnumObserved w)
  with n obtain w' where w': "normalize_allowed_value U d w = Inr w'" and v': "v' = EnumObserved w'"
    and c: "attr_type d = Enum_type" "validate_observed U v' = Inr v'"
    by (auto simp: normalize_observed_value_def split: if_splits dest: validate_observed_id)
  from value_name.normal_fixed [OF w' g] v' c show ?thesis by (simp add: normalize_observed_value_def)
next
  case (IntegerObserved m u)
  with n obtain u' where u': "normalize_unit U d u = Inr u'" and v': "v' = IntegerObserved m u'"
    and c: "attr_type d = Integer_type" "validate_observed U v' = Inr v'"
    by (auto simp: normalize_observed_value_def split: if_splits dest: validate_observed_id)
  from unit_name.normal_fixed [OF u' g] v' c show ?thesis by (simp add: normalize_observed_value_def)
next
  case (DecimalObserved x u)
  with n obtain u' where u': "normalize_unit U d u = Inr u'"
    and v': "v' = DecimalObserved (canonical_decimal x) u'"
    and c: "attr_type d = Decimal_type" "validate_observed U v' = Inr v'"
    by (auto simp: normalize_observed_value_def split: if_splits dest: validate_observed_id)
  from unit_name.normal_fixed [OF u' g] v' c show ?thesis by (simp add: normalize_observed_value_def)
next
  case (TextSetObserved vs)
  with n obtain ns where v': "v' = TextSetObserved (sort ns)" and
    c: "attr_type d = Text_set_type" "distinct ns" "validate_observed U v' = Inr v'"
    by (auto simp: normalize_observed_value_def Let_def split: if_splits dest: validate_observed_id)
  from s v' have "folds U (sort ns)" by (simp add: settled_observed_def)
  with c(2) obtain ms where "map_result (folded_text U) (sort ns) = Inr ms" "sort ms = sort ns" "distinct ms"
    by (metis folds_again distinct_sort)
  with v' c show ?thesis by (simp add: normalize_observed_value_def)
next
  case (SemanticObserved l)
  with n obtain l' where l': "normalize_allowed_value U d l = Inr l'" and v': "v' = SemanticObserved l'"
    and c: "attr_type d = Semantic_type" "validate_observed U v' = Inr v'"
    by (auto simp: normalize_observed_value_def split: if_splits dest: validate_observed_id)
  from value_name.normal_fixed [OF l' g] v' c show ?thesis by (simp add: normalize_observed_value_def)
qed

interpretation target_form: normaliser "normalize_target U d op"
  "\<lambda>t. good_definition U d \<and> settled_target U t" for U d op
  by unfold_locales (blast intro: normal_target_fixed)

interpretation observed_form: normaliser "normalize_observed_value U d"
  "\<lambda>v. good_definition U d \<and> settled_observed U v" for U d
  by unfold_locales (blast intro: normal_observed_fixed)

section \<open>Requirement sets\<close>

text \<open>An attribute key has no length bound of its own, but a draft's key has; the keys of the
  repository's registry are far below it.\<close>

definition short_keys :: "attribute_registry \<Rightarrow> bool" where
  "short_keys r \<longleftrightarrow> (\<forall>d\<in>set (reg_definitions r). text_length (attr_key d) \<le> max_text_characters)"

definition settled_requirement :: "text_library \<Rightarrow> typed_requirement \<Rightarrow> bool" where
  "settled_requirement U q = settled_target U (req_target q)"

lemma attribute_key_head:
  assumes "is_attribute_key s"
  shows "s \<noteq> []" and "code_of (hd s) div 64 \<noteq> 2"
proof -
  obtain c t where s: "s = c # t" using assms by (cases s) (auto simp: is_attribute_key_def is_key_segment_def)
  have "c \<noteq> CHR ''.''" using assms s by (auto simp: is_attribute_key_def is_key_segment_def)
  with assms s have "c \<in> set lower_chars"
    by (auto simp: is_attribute_key_def is_key_segment_def chars_in_def split: list.splits)
  then show "s \<noteq> []" and "code_of (hd s) div 64 \<noteq> 2" using s code_of_lower [of c] by auto
qed

lemma attribute_key_bounded:
  assumes "is_attribute_key s" and "text_length s \<le> max_text_characters"
  shows "bounded_text s"
proof -
  obtain c t where "s = c # t" "code_of c div 64 \<noteq> 2"
    using attribute_key_head [OF assms(1)] by (cases s) auto
  then have "1 \<le> text_length s" by (simp add: text_length_def)
  with assms(2) show ?thesis by (simp add: bounded_text_def)
qed

lemma attribute_key_normal:
  assumes "ascii_library U" and "is_attribute_key s" and "text_length s \<le> max_text_characters"
  shows "normalize_text U s = Inr s" and "text_identity U s = s"
  using plain_normal [of U s] assms attribute_key_head(1) by (auto simp: ascii_library_def)

lemma definition_key: "validate_definition U d = Inr () \<Longrightarrow> is_attribute_key (attr_key d)"
  by (simp add: validate_definition_def definition_fields_def if_Inl_eq_Inr)

text \<open>What a normalised draft is.\<close>

lemma normal_draft:
  assumes "normalize_draft U r g d = Inr q" and "validate_registry U r = Inr ()"
  obtains a where "a \<in> set (reg_definitions r)" and "validate_definition U a = Inr ()"
    and "q = \<lparr>req_id = draft_id d, req_key = attr_key a, req_operator = draft_operator d,
            req_target = req_target q, req_strength = draft_strength d, req_registry = g\<rparr>"
    and "draft_operator d \<in> set (attr_operators a)" and "draft_strength d \<in> set (attr_strengths a)"
    and "normalize_target U a (draft_operator d) (draft_target d) = Inr (req_target q)"
    and "validate_requirement U q = Inr ()"
proof -
  obtain n a t where l: "definition_lookup U r (text_identity U n) = Some a" and
    o: "draft_operator d \<in> set (attr_operators a)" "draft_strength d \<in> set (attr_strengths a)" and
    t: "normalize_target U a (draft_operator d) (draft_target d) = Inr t" and
    q: "q = \<lparr>req_id = draft_id d, req_key = attr_key a, req_operator = draft_operator d,
            req_target = t, req_strength = draft_strength d, req_registry = g\<rparr>" and
    v: "validate_requirement U q = Inr ()"
    using assms(1) by (auto simp: normalize_draft_def Let_def split: option.splits if_splits)
  from lookup_known [OF assms(2) l] have "a \<in> set (reg_definitions r)" "validate_definition U a = Inr ()"
    by simp_all
  with o t q v show thesis by (intro that [of a]) simp_all
qed

lemma renormal_draft:
  assumes n: "normalize_draft U r g d = Inr q" and r: "validate_registry U r = Inr ()"
    and U: "ascii_library U" and k: "short_keys r" and s: "settled_requirement U q"
  shows "normalize_draft U r g (draft_of q) = Inr q" and "new_draft U q = Inr (draft_of q)"
proof -
  obtain a where a: "a \<in> set (reg_definitions r)" "validate_definition U a = Inr ()" and
    q: "q = \<lparr>req_id = draft_id d, req_key = attr_key a, req_operator = draft_operator d,
            req_target = req_target q, req_strength = draft_strength d, req_registry = g\<rparr>" and
    o: "draft_operator d \<in> set (attr_operators a)" "draft_strength d \<in> set (attr_strengths a)" and
    t: "normalize_target U a (draft_operator d) (draft_target d) = Inr (req_target q)" and
    v: "validate_requirement U q = Inr ()"
    using normal_draft [OF n r] by blast
  have sel: "req_id q = draft_id d" "req_key q = attr_key a" "req_operator q = draft_operator d"
    "req_strength q = draft_strength d" "req_registry q = g"
    by (subst q, simp)+
  have key: "is_attribute_key (attr_key a)" "text_length (attr_key a) \<le> max_text_characters"
    using definition_key [OF a(2)] k a(1) by (simp_all add: short_keys_def)
  note plain = attribute_key_normal [OF U key]
  have look: "definition_lookup U r (attr_key a) = Some a"
    using names_resolve [OF r a(1), of "attr_key a"] plain(2) by (simp add: attr_names_def)
  have t': "normalize_target U a (draft_operator d) (req_target q) = Inr (req_target q)"
    using s by (intro target_form.normal_fixed [OF t])
      (simp add: good_definition_def U a(2) settled_requirement_def)
  have same: "\<lparr>req_id = req_id q, req_key = attr_key a, req_operator = req_operator q,
      req_target = req_target q, req_strength = req_strength q, req_registry = g\<rparr> = q"
    by (rule typed_requirement.equality) (simp_all add: sel)
  show "normalize_draft U r g (draft_of q) = Inr q"
    using look plain o t' v same
    by (simp add: normalize_draft_def draft_of_def sel q [symmetric])
  show "new_draft U q = Inr (draft_of q)"
    using v attribute_key_bounded [OF key]
    by (auto simp: new_draft_def validate_draft_def draft_of_def validate_requirement_def sel split: if_splits)
qed

lemma normalized_parts:
  assumes "normalize_typed_requirements U H r drafts = Inr qs"
  shows "validate_registry U r = Inr ()" and "length drafts \<le> max_requirements"
    and "distinct (map draft_id drafts)"
    and "map_result (normalize_draft U r (canonical_sha256 H registry_domain (registry_json r))) drafts = Inr qs"
  using assms
  by (auto simp: normalize_typed_requirements_def attribute_registry_sha256_def split: if_splits)

lemma normalized_ids:
  assumes "map_result (normalize_draft U r g) drafts = Inr qs" and "validate_registry U r = Inr ()"
  shows "map req_id qs = map draft_id drafts" and "length qs = length drafts"
    and "\<forall>q\<in>set qs. req_registry q = g"
proof -
  have "list_all2 (\<lambda>d q. normalize_draft U r g d = Inr q) drafts qs"
    using assms(1) by (simp add: map_result_eq_Inr)
  then have "list_all2 (\<lambda>d q. req_id q = draft_id d \<and> req_registry q = g) drafts qs"
  proof (rule list_all2_mono)
    fix d q assume "normalize_draft U r g d = Inr q"
    then show "req_id q = draft_id d \<and> req_registry q = g"
      using assms(2) by (rule normal_draft) (metis typed_requirement.select_convs(1,6))
  qed
  then show "map req_id qs = map draft_id drafts" "length qs = length drafts" "\<forall>q\<in>set qs. req_registry q = g"
    by (induction rule: list_all2_induct) auto
qed


lemma opt_rel_refl: "(\<And>x. r x x) \<Longrightarrow> opt_rel r v v"
  by (cases v) simp_all

lemma same_target_refl [simp]: "same_target t t"
  by (cases t) (simp_all add: opt_rel_refl)

lemma same_observed_refl [simp]: "same_observed v v"
  by (cases v) simp_all

lemma normalized_digest:
  assumes n: "normalize_typed_requirements U H r drafts = Inr qs"
    and U: "ascii_library U" and k: "short_keys r" and s: "\<forall>q\<in>set qs. settled_requirement U q"
    and sub: "distinct (map req_id ps)" "set ps \<subseteq> set qs"
  shows "normalize_typed_requirements U H r (map draft_of ps) = Inr ps"
    and "typed_requirement_set_sha256 U H r ps = Inr (canonical_sha256 H requirement_set_domain
      (JObj [(''registry_sha256'', JStr (canonical_sha256 H registry_domain (registry_json r))),
             (''requirements'', JArr (map requirement_json ps))]))"
proof -
  let ?g = "canonical_sha256 H registry_domain (registry_json r)"
  note r = normalized_parts(1) [OF n] and m = normalized_parts(4) [OF n]
  have one: "\<exists>d. normalize_draft U r ?g d = Inr q" "settled_requirement U q" if "q \<in> set ps" for q
    using map_result_mem [OF m, of q] that sub(2) s by auto
  have each: "normalize_draft U r ?g (draft_of q) = Inr q \<and> new_draft U q = Inr (draft_of q) \<and>
      validate_requirement U q = Inr () \<and> req_registry q = ?g" if q: "q \<in> set ps" for q
  proof -
    from one [OF q] obtain d where d: "normalize_draft U r ?g d = Inr q" by blast
    from normal_draft [OF d r] have v: "validate_requirement U q = Inr ()" by blast
    have "req_registry q = ?g" using normalized_ids(3) [OF m r] q sub(2) by blast
    with renormal_draft [OF d r U k one(2) [OF q]] v show ?thesis by simp
  qed
  have len: "length ps \<le> max_requirements"
  proof -
    have "distinct ps" using sub(1) by (simp add: distinct_map)
    then have "length ps \<le> length qs"
      using sub(2) by (metis card_length card_mono distinct_card finite_set le_trans)
    then show ?thesis using normalized_parts(2) [OF n] map_result_length [OF m] by simp
  qed
  have "map_result (normalize_draft U r ?g \<circ> draft_of) ps = Inr ps"
    using map_result_fixed [of ps "normalize_draft U r ?g \<circ> draft_of" "\<lambda>q. q"] each by simp
  moreover have "map_result f (map draft_of ps) = map_result (f \<circ> draft_of) ps"
    for f :: "requirement_draft \<Rightarrow> typed_requirement result"
    by (induction ps) auto
  ultimately have norm: "map_result (normalize_draft U r ?g) (map draft_of ps) = Inr ps" by simp
  have ids: "draft_id \<circ> draft_of = req_id" by (simp add: draft_of_def fun_eq_iff)
  show again: "normalize_typed_requirements U H r (map draft_of ps) = Inr ps"
    using r norm len sub(1) ids
    by (simp add: normalize_typed_requirements_def attribute_registry_sha256_def)
  have drafts: "map_result (new_draft U) ps = Inr (map draft_of ps)"
    by (rule map_result_fixed) (simp add: each)
  have "list_all2 same_requirement ps ps"
    by (rule list_all2_refl) (simp add: same_requirement_def)
  with r len each sub(1) drafts again
  show "typed_requirement_set_sha256 U H r ps = Inr (canonical_sha256 H requirement_set_domain
      (JObj [(''registry_sha256'', JStr ?g), (''requirements'', JArr (map requirement_json ps))]))"
    by (simp add: typed_requirement_set_sha256_def attribute_registry_sha256_def not_less)
qed

text \<open>The converse: a target that is its own normal form is settled, and so is the target of a requirement
  that is its own normalisation.\<close>

lemma fixed_target_settled: "normalize_target U d op t = Inr t \<Longrightarrow> settled_target U t"
  by (cases t)
    (auto simp: normalize_target_def settled_target_def folds_def Let_def dest!: validate_target_id split: if_splits)

lemma fixed_requirement_settled:
  assumes "normalize_draft U r g (draft_of q) = Inr q'" and "req_target q' = req_target q"
    and "validate_registry U r = Inr ()"
  shows "settled_requirement U q"
proof -
  obtain a where "normalize_target U a (draft_operator (draft_of q)) (draft_target (draft_of q)) = Inr (req_target q')"
    by (rule normal_draft [OF assms(1,3)])
  with assms(2) have "normalize_target U a (req_operator q) (req_target q) = Inr (req_target q)"
    by (simp add: draft_of_def)
  then show ?thesis unfolding settled_requirement_def by (rule fixed_target_settled)
qed

text \<open>A text set that a digest check takes for canonical is the very same.\<close>

lemma same_requirement_settled:
  assumes "normalize_draft U r g (draft_of q) = Inr q'" and "same_requirement q' q"
    and "validate_registry U r = Inr ()"
  shows "settled_requirement U q"
proof (cases "\<exists>vs. req_target q = TextSetTarget vs")
  case True
  with assms(2) have "req_target q' = req_target q"
    by (cases "req_target q'") (auto simp: same_requirement_def)
  then show ?thesis by (rule fixed_requirement_settled [OF assms(1) _ assms(3)])
qed (auto simp: settled_requirement_def settled_target_def split: target.split)

lemma map_result_compose: "map_result f (map g xs) = map_result (f \<circ> g) xs"
  by (induction xs) simp_all

lemma canonical_settled:
  assumes n: "normalize_typed_requirements U H r (map draft_of qs) = Inr qs'"
    and s: "list_all2 same_requirement qs' qs"
  shows "\<forall>q\<in>set qs. settled_requirement U q"
proof
  fix q
  assume q: "q \<in> set qs"
  note r = normalized_parts(1) [OF n]
  let ?g = "canonical_sha256 H registry_domain (registry_json r)"
  have "list_all2 (\<lambda>q q'. normalize_draft U r ?g (draft_of q) = Inr q') qs qs'"
    using normalized_parts(4) [OF n] by (simp add: map_result_eq_Inr map_result_compose comp_def)
  then obtain i where i: "i < length qs" "q = qs ! i" "normalize_draft U r ?g (draft_of q) = Inr (qs' ! i)"
    using q by (auto simp: in_set_conv_nth list_all2_conv_all_nth)
  moreover have "same_requirement (qs' ! i) q" using s i by (simp add: list_all2_conv_all_nth)
  ultimately show "settled_requirement U q" using r by (blast intro: same_requirement_settled)
qed

lemma new_drafts: "map_result (new_draft U) qs = Inr ds \<Longrightarrow> ds = map draft_of qs"
  by (induction qs arbitrary: ds) (auto simp: new_draft_def)

lemma digest_settled:
  assumes "typed_requirement_set_sha256 U H r qs = Inr h"
  shows "\<forall>q\<in>set qs. settled_requirement U q"
proof -
  from assms obtain ds qs' where "map_result (new_draft U) qs = Inr ds"
    and "normalize_typed_requirements U H r ds = Inr qs'" and s: "list_all2 same_requirement qs' qs"
    by (auto simp: typed_requirement_set_sha256_def split: if_splits)
  then have "normalize_typed_requirements U H r (map draft_of qs) = Inr qs'" using new_drafts by blast
  then show ?thesis using s by (rule canonical_settled)
qed

section \<open>The JSON form determines the value\<close>

lemma name_inj [simp]:
  "operator_name a = operator_name b \<longleftrightarrow> a = b" "strength_name s = strength_name t \<longleftrightarrow> s = t"
  "source_name x = source_name y \<longleftrightarrow> x = y" "value_type_name v = value_type_name w \<longleftrightarrow> v = w"
  by ((cases a; cases b), auto, (cases s; cases t), auto, (cases x; cases y), auto, (cases v; cases w), auto)

lemma json_opt_inj:
  "sort_keys (json_opt JInt m) = sort_keys (json_opt JInt n) \<longleftrightarrow> m = n"
  "sort_keys (json_opt (JStr \<circ> decimal_str) c) = sort_keys (json_opt (JStr \<circ> decimal_str) d) \<longleftrightarrow> c = d"
  by (rule sort_keys_opt; simp)+

lemma json_texts_inj: "map sort_keys (map JStr vs) = map sort_keys (map JStr ws) \<longleftrightarrow> vs = ws"
proof -
  have "map sort_keys (map JStr xs) = map JStr xs" for xs by simp
  moreover have "inj JStr" by (simp add: inj_def)
  ultimately show ?thesis by (simp only: inj_map_eq_map)
qed


lemma sorted_member:
  assumes "sort_keys (JObj xs) = sort_keys (JObj ys)" and "(k, v) \<in> set xs"
  shows "\<exists>w. (k, w) \<in> set ys \<and> sort_keys w = sort_keys v"
proof -
  let ?f = "map (\<lambda>(k, v). (k, sort_keys v)) :: (string \<times> json) list \<Rightarrow> _"
  have "set (sort_key fst (?f xs)) = set (sort_key fst (?f ys))" using assms(1) by simp
  then have "set (?f xs) = set (?f ys)" by (simp only: set_sort)
  moreover have "(k, sort_keys v) \<in> set (?f xs)" using assms(2) by force
  ultimately show ?thesis by force
qed

lemma target_kind: "sort_keys (target_json s) = sort_keys (target_json t) \<Longrightarrow> target_type s = target_type t"
proof -
  have k: "\<exists>xs. target_json t = JObj xs \<and> (''value_type'', JStr (value_type_name (target_type t))) \<in> set xs \<and>
      (\<forall>w. (''value_type'', w) \<in> set xs \<longrightarrow> w = JStr (value_type_name (target_type t)))" for t
    by (cases t) simp_all
  assume e: "sort_keys (target_json s) = sort_keys (target_json t)"
  obtain xs where xs: "target_json s = JObj xs" "(''value_type'', JStr (value_type_name (target_type s))) \<in> set xs"
    using k by blast
  obtain ys where ys: "target_json t = JObj ys"
    "\<forall>w. (''value_type'', w) \<in> set ys \<longrightarrow> w = JStr (value_type_name (target_type t))"
    using k by blast
  from sorted_member [OF e [unfolded xs(1) ys(1)] xs(2)] ys(2) show ?thesis by auto
qed

lemma same_kind_json_inj:
  "sort_keys (target_json (BooleanTarget b)) = sort_keys (target_json (BooleanTarget b')) \<longleftrightarrow> b = b'"
  "sort_keys (target_json (EnumTarget vs)) = sort_keys (target_json (EnumTarget vs')) \<longleftrightarrow> vs = vs'"
  "sort_keys (target_json (IntegerTarget m n u)) = sort_keys (target_json (IntegerTarget m' n' u')) \<longleftrightarrow>
     m = m' \<and> n = n' \<and> u = u'"
  "sort_keys (target_json (DecimalTarget c d u)) = sort_keys (target_json (DecimalTarget c' d' u')) \<longleftrightarrow>
     c = c' \<and> d = d' \<and> u = u'"
  "sort_keys (target_json (TextSetTarget vs)) = sort_keys (target_json (TextSetTarget vs')) \<longleftrightarrow> vs = vs'"
  "sort_keys (target_json (SemanticTarget l)) = sort_keys (target_json (SemanticTarget l')) \<longleftrightarrow> l = l'"
  unfolding target_json.simps
  by ((subst sort_keys_record, simp, simp,
       simp only: list.map prod.case list.inject prod.inject json_opt_inj sort_keys.simps json.inject
         json_texts_inj simp_thms)+)

lemma target_json_inj: "sort_keys (target_json s) = sort_keys (target_json t) \<longleftrightarrow> s = t"
proof
  assume e: "sort_keys (target_json s) = sort_keys (target_json t)"
  from target_kind [OF e] e show "s = t"
    by (cases s; cases t; simp only: target_type.simps value_type.distinct same_kind_json_inj simp_thms)
qed simp

lemma observed_kind: "sort_keys (observed_json v) = sort_keys (observed_json w) \<Longrightarrow> observed_type v = observed_type w"
proof -
  have k: "\<exists>xs. observed_json t = JObj xs \<and> (''value_type'', JStr (value_type_name (observed_type t))) \<in> set xs \<and>
      (\<forall>w. (''value_type'', w) \<in> set xs \<longrightarrow> w = JStr (value_type_name (observed_type t)))" for t
    by (cases t) simp_all
  assume e: "sort_keys (observed_json v) = sort_keys (observed_json w)"
  obtain xs where xs: "observed_json v = JObj xs" "(''value_type'', JStr (value_type_name (observed_type v))) \<in> set xs"
    using k by blast
  obtain ys where ys: "observed_json w = JObj ys"
    "\<forall>u. (''value_type'', u) \<in> set ys \<longrightarrow> u = JStr (value_type_name (observed_type w))"
    using k by blast
  from sorted_member [OF e [unfolded xs(1) ys(1)] xs(2)] ys(2) show ?thesis by auto
qed

lemma same_kind_observed_inj:
  "sort_keys (observed_json (BooleanObserved b)) = sort_keys (observed_json (BooleanObserved b')) \<longleftrightarrow> b = b'"
  "sort_keys (observed_json (EnumObserved s)) = sort_keys (observed_json (EnumObserved s')) \<longleftrightarrow> s = s'"
  "sort_keys (observed_json (IntegerObserved n u)) = sort_keys (observed_json (IntegerObserved n' u')) \<longleftrightarrow>
     n = n' \<and> u = u'"
  "sort_keys (observed_json (DecimalObserved d u)) = sort_keys (observed_json (DecimalObserved d' u')) \<longleftrightarrow>
     d = d' \<and> u = u'"
  "sort_keys (observed_json (TextSetObserved vs)) = sort_keys (observed_json (TextSetObserved vs')) \<longleftrightarrow> vs = vs'"
  "sort_keys (observed_json (SemanticObserved l)) = sort_keys (observed_json (SemanticObserved l')) \<longleftrightarrow> l = l'"
  unfolding observed_json.simps
  by ((subst sort_keys_record, simp, simp,
       simp only: list.map prod.case list.inject prod.inject sort_keys.simps json.inject
         json_texts_inj decimal_str_inj simp_thms)+)

lemma observed_json_inj: "sort_keys (observed_json v) = sort_keys (observed_json w) \<longleftrightarrow> v = w"
proof
  assume e: "sort_keys (observed_json v) = sort_keys (observed_json w)"
  from observed_kind [OF e] e show "v = w"
    by (cases v; cases w; simp only: observed_type.simps value_type.distinct same_kind_observed_inj simp_thms)
qed simp

lemma requirement_json_inj: "sort_keys (requirement_json p) = sort_keys (requirement_json q) \<longleftrightarrow> p = q"
  unfolding requirement_json_def
  by (subst sort_keys_record) (auto simp: target_json_inj intro: typed_requirement.equality)

lemma requirements_json_inj:
  "map sort_keys (map requirement_json ps) = map sort_keys (map requirement_json qs) \<longleftrightarrow> ps = qs"
proof -
  have "inj (sort_keys \<circ> requirement_json)" by (simp add: inj_def requirement_json_inj)
  then show ?thesis by (simp only: map_map inj_map_eq_map)
qed

text \<open>The text a requirement set is digested from.\<close>

definition requirement_set_text :: "string \<Rightarrow> typed_requirement list \<Rightarrow> string" where
  "requirement_set_text g qs = requirement_set_domain @ dumps
     (JObj [(''registry_sha256'', JStr g), (''requirements'', JArr (map requirement_json qs))])"

lemma requirement_set_text_inj:
  "requirement_set_text g ps = requirement_set_text h qs \<longleftrightarrow> g = h \<and> ps = qs"
  unfolding requirement_set_text_def append_same_eq same_append_eq dumps_eq_iff
  by (subst sort_keys_record) (simp_all add: requirements_json_inj [unfolded map_map])

section \<open>Aliases\<close>

lemma alias_normal:
  assumes "list_all (value_alias_ok U) as" and "aliases_unique U as" and "a \<in> set as"
  shows "normalize_name U vs as e (alias_text a) = Inr (alias_canonical a)"
proof -
  have "normalize_text U (alias_text a) = Inr (alias_text a)"
    using assms(1,3) by (simp add: list_all_iff value_alias_ok_def)
  moreover have "dict_get (alias_pairs U as) (text_identity U (alias_text a)) = Some (alias_canonical a)"
  proof (rule dict_get_unique)
    show "(text_identity U (alias_text a), alias_canonical a) \<in> set (alias_pairs U as)"
      using assms(3) by (force simp: alias_pairs_def)
    fix c
    assume "(text_identity U (alias_text a), c) \<in> set (alias_pairs U as)"
    then obtain b where b: "b \<in> set as" "text_identity U (alias_text b) = text_identity U (alias_text a)"
      "c = alias_canonical b" by (auto simp: alias_pairs_def)
    show "c = alias_canonical a"
    proof -
      have "inj_on (\<lambda>a. text_identity U (alias_text a)) (set as)"
        using assms(2) by (simp add: aliases_unique_def distinct_map)
      from inj_onD [OF this b(2,1) assms(3)] b(3) show ?thesis by simp
    qed
  qed
  ultimately show ?thesis by (simp add: normalize_name_def dict_get_append)
qed

lemma aliases_resolve_to_canonical:
  assumes "validate_definition U d = Inr ()"
  shows "a \<in> set (attr_value_aliases d) \<Longrightarrow> normalize_allowed_value U d (alias_text a) = Inr (alias_canonical a)"
    and "a \<in> set (attr_unit_aliases d) \<Longrightarrow> normalize_unit U d (alias_text a) = Inr (alias_canonical a)"
  using assms
  by (simp_all add: validate_definition_def definition_fields_def if_Inl_eq_Inr normalize_allowed_value_def
      normalize_unit_def alias_normal)

end
