(* ===== verification/Requirement_Evaluation_Props.thy ===== *)
theory Requirement_Evaluation_Props
  imports Requirement_Errors Typed_Requirements_Props "HOL-Library.Multiset"
begin

text \<open>
  Facts about evidence adjudication and product evaluation: the decision as a function of the set
  of observations, the observations that \<open>build_evidence_observation\<close> builds, the rounding of the
  ratios, and the success of the calls on the output of the preceding ones.
\<close>

section \<open>The adjudicated call\<close>

definition evidence_digest :: "(string \<Rightarrow> string) \<Rightarrow> observation \<Rightarrow> string" where
  "evidence_digest H b = canonical_sha256 H observation_domain (observation_json b)"

lemma binding_id: "validate_observation_binding U d q product g b = Inr c \<Longrightarrow> c = b"
  by (auto simp: validate_observation_binding_def split: option.splits if_splits)

lemma binding_valid: "validate_observation_binding U d q product g b = Inr b \<Longrightarrow> validate_observation U b = Inr ()"
  by (simp add: validate_observation_binding_def)

lemma map_result_id:
  assumes "\<And>x y. f x = Inr y \<Longrightarrow> y = x"
  shows "map_result f xs = Inr ys \<longleftrightarrow> ys = xs \<and> (\<forall>x\<in>set xs. f x = Inr x)"
  using assms by (induction xs arbitrary: ys) fastforce+

lemma evidence_pairs:
  assumes "\<forall>b\<in>set bs. validate_observation U b = Inr ()"
  shows "map_result (evidence_pair U H) bs = Inr (map (\<lambda>b. (evidence_digest H b, b)) bs)"
  using assms
  by (intro map_result_fixed)
    (simp add: evidence_pair_def evidence_observation_sha256_def evidence_digest_def)

lemma validated_requirement_id: "validated_requirement U H r q = Inr (q', d) \<Longrightarrow> q' = q"
  by (auto simp: validated_requirement_def split: if_splits)

lemma adjudicate_iff:
  "adjudicate_requirement U H r q product obs = Inr dec \<longleftrightarrow>
     validate_registry U r = Inr () \<and>
     (\<exists>d h. validated_requirement U H r q = Inr (q, d) \<and> length obs \<le> max_evidence_per_requirement \<and>
       (\<forall>b\<in>set obs. validate_observation_binding U d q product
          (canonical_sha256 H registry_domain (registry_json r)) b = Inr b) \<and>
       distinct (map (evidence_digest H) obs) \<and> typed_requirement_set_sha256 U H r [q] = Inr h \<and>
       decide q h product (canonical_sha256 H registry_domain (registry_json r))
         (map (\<lambda>b. (evidence_digest H b, b)) obs) = Inr dec)"
  (is "?lhs \<longleftrightarrow> ?rhs")
proof
  let ?g = "canonical_sha256 H registry_domain (registry_json r)"
  assume ?lhs
  then obtain q' d bs pairs h where r: "validate_registry U r = Inr ()" and
    q: "validated_requirement U H r q = Inr (q', d)" and len: "length obs \<le> max_evidence_per_requirement" and
    bs: "map_result (validate_observation_binding U d q' product ?g) obs = Inr bs" and
    ps: "map_result (evidence_pair U H) bs = Inr pairs" and dist: "distinct (map fst pairs)" and
    h: "typed_requirement_set_sha256 U H r [q'] = Inr h" and
    dec: "decide q' h product ?g pairs = Inr dec"
    by (auto simp: adjudicate_requirement_def attribute_registry_sha256_def not_less split: if_splits)
  have q': "q' = q" by (rule validated_requirement_id [OF q])
  have obs: "bs = obs" "\<forall>b\<in>set obs. validate_observation_binding U d q' product ?g b = Inr b"
    using bs map_result_id [of "validate_observation_binding U d q' product ?g", OF binding_id] by auto
  then have "pairs = map (\<lambda>b. (evidence_digest H b, b)) obs"
  proof -
    have "\<forall>b\<in>set obs. validate_observation U b = Inr ()" using obs(2) binding_valid by blast
    from evidence_pairs [OF this, of H] ps obs(1) show ?thesis by simp
  qed
  with r q len dist h dec obs(2) show ?rhs unfolding q' by (auto simp: comp_def)
next
  let ?g = "canonical_sha256 H registry_domain (registry_json r)"
  assume ?rhs
  then obtain d h where r: "validate_registry U r = Inr ()" and
    q: "validated_requirement U H r q = Inr (q, d)" and len: "length obs \<le> max_evidence_per_requirement" and
    obs: "\<forall>b\<in>set obs. validate_observation_binding U d q product ?g b = Inr b" and
    dist: "distinct (map (evidence_digest H) obs)" and h: "typed_requirement_set_sha256 U H r [q] = Inr h" and
    dec: "decide q h product ?g (map (\<lambda>b. (evidence_digest H b, b)) obs) = Inr dec" by blast
  have "map_result (validate_observation_binding U d q product ?g) obs = Inr obs"
    using obs map_result_id [of "validate_observation_binding U d q product ?g", OF binding_id] by auto
  moreover have "map_result (evidence_pair U H) obs = Inr (map (\<lambda>b. (evidence_digest H b, b)) obs)"
    using obs binding_valid by (intro evidence_pairs) blast
  ultimately show ?lhs
    using r q len dist h dec
    by (simp add: adjudicate_requirement_def attribute_registry_sha256_def comp_def)
qed

section \<open>The decision as a function of the evidence\<close>

text \<open>The specification: of the observed evidence only that of the highest priority (the smallest
  number) counts; it conflicts when it holds two values, otherwise its value decides.\<close>

definition is_observed :: "observation \<Rightarrow> bool" where
  "is_observed b \<longleftrightarrow> obs_status b = Status_observed"

definition top_evidence :: "observation set \<Rightarrow> observation set" where
  "top_evidence B = {b \<in> B. is_observed b \<and> (\<forall>c\<in>B. is_observed c \<longrightarrow> obs_priority b \<le> obs_priority c)}"

definition verdict :: "typed_requirement \<Rightarrow> observation set \<Rightarrow> decision_state" where
  "verdict q B =
     (let best = top_evidence B in
      if \<not> (\<exists>b\<in>B. is_observed b) then Unknown
      else if \<exists>b\<in>best. \<exists>c\<in>best. obs_value b \<noteq> obs_value c then Conflict
      else if \<exists>b\<in>best. \<exists>v. obs_value b = Some v \<and> matches (req_operator q) (req_target q) v = Inr True
      then Match
      else Mismatch)"

lemma top_evidence_Min:
  assumes "finite B" and "\<exists>b\<in>B. is_observed b"
  shows "top_evidence B = {b \<in> B. is_observed b \<and> obs_priority b = Min (obs_priority ` {b \<in> B. is_observed b})}"
    and "top_evidence B \<noteq> {}"
proof -
  let ?P = "obs_priority ` {b \<in> B. is_observed b}"
  have fin: "finite ?P" "?P \<noteq> {}" using assms by auto
  show best: "top_evidence B = {b \<in> B. is_observed b \<and> obs_priority b = Min ?P}"
  proof (intro equalityI subsetI)
    fix b assume b: "b \<in> top_evidence B"
    then have "obs_priority b = Min ?P"
      by (intro Min_eqI [symmetric]) (use fin in \<open>auto simp: top_evidence_def\<close>)
    with b show "b \<in> {b \<in> B. is_observed b \<and> obs_priority b = Min ?P}" by (simp add: top_evidence_def)
  next
    fix b assume "b \<in> {b \<in> B. is_observed b \<and> obs_priority b = Min ?P}"
    then show "b \<in> top_evidence B" using fin(1) by (auto simp: top_evidence_def intro: Min_le)
  qed
  show "top_evidence B \<noteq> {}" using Min_in [OF fin] unfolding best by auto
qed

lemma identity_inj: "observed_identity v = observed_identity w \<longleftrightarrow> v = w"
  by (simp add: observed_identity_def dumps_eq_iff observed_json_inj)

lemma one_identity:
  assumes "xs \<noteq> []"
  shows "card (set (map observed_identity xs)) = 1 \<longleftrightarrow> (\<forall>x\<in>set xs. \<forall>y\<in>set xs. x = y)"
proof -
  have "card (set (map observed_identity xs)) = card (set xs)"
    by (simp add: card_image inj_on_def identity_inj)
  also have "\<dots> = 1 \<longleftrightarrow> (\<exists>x. set xs = {x})" by (simp add: card_1_singleton_iff)
  also have "\<dots> \<longleftrightarrow> (\<forall>x\<in>set xs. \<forall>y\<in>set xs. x = y)"
    using assms by (cases xs) auto
  finally show ?thesis .
qed

text \<open>The steps of \<open>decide\<close> on the pairs of distinct observations.\<close>

definition top_list :: "observation list \<Rightarrow> observation list" where
  "top_list obs = filter (\<lambda>b. b \<in> top_evidence (set obs)) obs"

lemma set_top_list: "set (top_list obs) = top_evidence (set obs)"
  by (auto simp: top_list_def top_evidence_def)

definition unknown_decision :: "typed_requirement \<Rightarrow> string \<Rightarrow> string \<Rightarrow> string \<Rightarrow> string list \<Rightarrow> decision" where
  "unknown_decision q h product g digests =
     \<lparr>dec_requirement = req_id q, dec_requirement_sha256 = h, dec_product = product, dec_registry = g,
      dec_state = Unknown, dec_reason = No_observed_evidence, dec_accepted = [], dec_rejected = digests\<rparr>"

definition settled_decision ::
  "typed_requirement \<Rightarrow> string \<Rightarrow> string \<Rightarrow> string \<Rightarrow> string list \<Rightarrow> string list \<Rightarrow> decision_state \<Rightarrow>
   decision_reason \<Rightarrow> decision" where
  "settled_decision q h product g acc rej s reason =
     \<lparr>dec_requirement = req_id q, dec_requirement_sha256 = h, dec_product = product, dec_registry = g,
      dec_state = s, dec_reason = reason, dec_accepted = acc, dec_rejected = rej\<rparr>"

lemma sort_distinct_set: "distinct xs \<Longrightarrow> sort xs = sorted_list_of_set (set xs)"
  by (simp add: sorted_list_of_set_sort_remdups distinct_remdups_id)

lemma decide_steps:
  fixes H product g h
  assumes dist: "distinct (map (evidence_digest H) obs)" and some: "\<exists>b\<in>set obs. is_observed b"
  defines "pairs \<equiv> map (\<lambda>b. (evidence_digest H b, b)) obs"
    and "best \<equiv> top_list obs"
    and "acc \<equiv> sorted_list_of_set (evidence_digest H ` top_evidence (set obs))"
    and "rej \<equiv> sorted_list_of_set (evidence_digest H ` (set obs - top_evidence (set obs)))"
  shows "decide q h product g pairs =
    (if card (set (map observed_identity (List.map_filter obs_value best))) \<noteq> 1
     then new_decision (settled_decision q h product g acc rej Conflict Highest_priority_conflict)
     else case obs_value (hd best) of
       None \<Rightarrow> Inl (ValueError ''observed evidence is missing its value'')
     | Some v \<Rightarrow> bind (matches (req_operator q) (req_target q) v) (\<lambda>m.
         new_decision (settled_decision q h product g acc rej
           (if m then Match else Mismatch) (if m then Reason_matched else Did_not_match))))"
proof -
  let ?e = "evidence_digest H" and ?pair = "\<lambda>b. (evidence_digest H b, b)"
  have fin: "finite (set obs)" by simp
  have inj: "inj_on ?e (set obs)" using dist by (simp add: distinct_map)
  have P: "filter (\<lambda>p. obs_status (snd p) = Status_observed) pairs = map ?pair (filter is_observed obs)"
    by (simp add: pairs_def filter_map comp_def is_observed_def [abs_def])
  have ne: "map ?pair (filter is_observed obs) \<noteq> []" using some by (auto simp: filter_empty_conv)
  have highest: "Min (set (map (\<lambda>p. obs_priority (snd p)) (map ?pair (filter is_observed obs)))) =
      Min (obs_priority ` {b \<in> set obs. is_observed b})"
    by (intro arg_cong [where f = Min]) auto
  have tops: "filter (\<lambda>p. obs_priority (snd p) = Min (obs_priority ` {b \<in> set obs. is_observed b}))
      (map ?pair (filter is_observed obs)) = map ?pair best"
    unfolding best_def top_list_def top_evidence_Min(1) [OF fin some]
    by (simp add: filter_map comp_def) (rule arg_cong [where f = "map _"], rule filter_cong, auto)
  have dtop: "distinct (map ?e best)"
    using dist unfolding best_def top_list_def by (rule distinct_map_filter)
  have sorted_acc: "sort (map fst (map ?pair best)) = acc"
    using sort_distinct_set [OF dtop] by (simp add: acc_def comp_def best_def set_top_list)
  have setacc: "set acc = ?e ` top_evidence (set obs)"
    unfolding acc_def by (simp add: top_evidence_def)
  have out: "(?e b \<notin> set acc) = (b \<notin> top_evidence (set obs))" if "b \<in> set obs" for b
    using inj that unfolding setacc by (auto simp: top_evidence_def dest: inj_onD)
  have "sort (map fst (filter (\<lambda>p. fst p \<notin> set acc) pairs)) =
      sort (map ?e (filter (\<lambda>b. b \<notin> top_evidence (set obs)) obs))"
    using out by (simp add: pairs_def filter_map comp_def cong: filter_cong)
  also have "\<dots> = rej"
    using sort_distinct_set [OF distinct_map_filter [OF dist]]
    by (simp add: rej_def set_diff_eq)
  finally have sorted_rej: "sort (map fst (filter (\<lambda>p. fst p \<notin> set acc) pairs)) = rej" .
  have vals: "List.map_filter (\<lambda>p. obs_value (snd p)) (map ?pair best) = List.map_filter obs_value best"
    by (induction best) (simp_all add: List.map_filter_simps split: option.splits)
  have "best \<noteq> []"
    using top_evidence_Min(2) [OF fin some] set_top_list [of obs] unfolding best_def by force
  then have hd: "hd (map ?pair best) = ?pair (hd best)" by (simp add: hd_map)
  show ?thesis
    unfolding decide_def Let_def P highest tops sorted_acc sorted_rej vals hd
    using ne by (cases "obs_value (hd best)") (simp_all add: settled_decision_def)
qed

lemma decide_unknown:
  assumes dist: "distinct (map (evidence_digest H) obs)" and none: "\<not> (\<exists>b\<in>set obs. is_observed b)"
  shows "decide q h product g (map (\<lambda>b. (evidence_digest H b, b)) obs) =
    new_decision (unknown_decision q h product g (sorted_list_of_set (evidence_digest H ` set obs)))"
proof -
  have "filter (\<lambda>p. obs_status (snd p) = Status_observed) (map (\<lambda>b. (evidence_digest H b, b)) obs) = []"
    using none by (auto simp: filter_empty_conv is_observed_def)
  then show ?thesis
    using sort_distinct_set [OF dist]
    by (simp add: decide_def Let_def unknown_decision_def comp_def)
qed


lemma new_decision_eq: "new_decision d = Inr d' \<longleftrightarrow> d' = d \<and> validate_decision d = Inr ()"
  by (auto simp: new_decision_def)

lemma some_values_agree:
  assumes "\<And>b. b \<in> T \<Longrightarrow> f b \<noteq> None"
  shows "(\<forall>x\<in>{v. \<exists>b\<in>T. f b = Some v}. \<forall>y\<in>{v. \<exists>b\<in>T. f b = Some v}. x = y) \<longleftrightarrow>
    (\<forall>b\<in>T. \<forall>c\<in>T. f b = f c)"
proof (intro iffI ballI)
  fix b c
  assume eq: "\<forall>x\<in>{v. \<exists>b\<in>T. f b = Some v}. \<forall>y\<in>{v. \<exists>b\<in>T. f b = Some v}. x = y" and bc: "b \<in> T" "c \<in> T"
  obtain x y where xy: "f b = Some x" "f c = Some y" using assms [OF bc(1)] assms [OF bc(2)] by blast
  then have "x \<in> {v. \<exists>b\<in>T. f b = Some v}" "y \<in> {v. \<exists>b\<in>T. f b = Some v}" using bc by blast+
  with eq have "x = y" by blast
  with xy show "f b = f c" by simp
next
  fix x y
  assume eq: "\<forall>b\<in>T. \<forall>c\<in>T. f b = f c" and "x \<in> {v. \<exists>b\<in>T. f b = Some v}" and "y \<in> {v. \<exists>b\<in>T. f b = Some v}"
  then obtain b c where "b \<in> T" "f b = Some x" "c \<in> T" "f c = Some y" by blast
  then show "x = y" using bspec [OF bspec [OF eq], of b c] by simp
qed

lemma agreed_best:
  assumes some: "\<exists>b\<in>set obs. is_observed b" and valid: "\<forall>b\<in>set obs. is_observed b \<longleftrightarrow> obs_value b \<noteq> None"
  shows "hd (top_list obs) \<in> top_evidence (set obs)"
    and "obs_value (hd (top_list obs)) \<noteq> None"
    and "card (set (map observed_identity (List.map_filter obs_value (top_list obs)))) \<noteq> 1 \<longleftrightarrow>
      (\<exists>b\<in>top_evidence (set obs). \<exists>c\<in>top_evidence (set obs). obs_value b \<noteq> obs_value c)"
proof -
  let ?vs = "List.map_filter obs_value (top_list obs)"
  have ne: "top_list obs \<noteq> []"
    using top_evidence_Min(2) [OF _ some] set_top_list [of obs] by force
  then show hd: "hd (top_list obs) \<in> top_evidence (set obs)"
    using set_top_list [of obs] by (cases "top_list obs") auto
  have has_value: "obs_value b \<noteq> None" if "b \<in> top_evidence (set obs)" for b
  proof -
    have "b \<in> set obs" "is_observed b" using that by (simp_all add: top_evidence_def)
    with valid show ?thesis by blast
  qed
  from has_value [OF hd] show "obs_value (hd (top_list obs)) \<noteq> None" .
  have set_vs: "set ?vs = {v. \<exists>b\<in>top_evidence (set obs). obs_value b = Some v}"
    by (force simp: List.map_filter_def set_top_list)
  obtain v where v: "obs_value (hd (top_list obs)) = Some v" using has_value [OF hd] by blast
  with hd have "v \<in> set ?vs" unfolding set_vs by blast
  then have vs: "?vs \<noteq> []" by auto
  have "card (set (map observed_identity ?vs)) \<noteq> 1 \<longleftrightarrow> \<not> (\<forall>x\<in>set ?vs. \<forall>y\<in>set ?vs. x = y)"
    by (simp only: one_identity [OF vs])
  also have "\<dots> \<longleftrightarrow> (\<exists>b\<in>top_evidence (set obs). \<exists>c\<in>top_evidence (set obs). obs_value b \<noteq> obs_value c)"
    unfolding set_vs
    by (subst some_values_agree [of "top_evidence (set obs)" obs_value, OF has_value]) (assumption, blast)
  finally show "card (set (map observed_identity ?vs)) \<noteq> 1 \<longleftrightarrow>
      (\<exists>b\<in>top_evidence (set obs). \<exists>c\<in>top_evidence (set obs). obs_value b \<noteq> obs_value c)" .
qed

lemma decide_spec:
  assumes dec: "decide q h product g (map (\<lambda>b. (evidence_digest H b, b)) obs) = Inr d"
    and valid: "\<forall>b\<in>set obs. is_observed b \<longleftrightarrow> obs_value b \<noteq> None"
    and dist: "distinct (map (evidence_digest H) obs)"
  shows "\<exists>reason. d = settled_decision q h product g
      (sorted_list_of_set (evidence_digest H ` top_evidence (set obs)))
      (sorted_list_of_set (evidence_digest H ` (set obs - top_evidence (set obs))))
      (verdict q (set obs)) reason"
    and "validate_decision d = Inr ()"
proof -
  let ?acc = "sorted_list_of_set (evidence_digest H ` top_evidence (set obs))"
  let ?rej = "sorted_list_of_set (evidence_digest H ` (set obs - top_evidence (set obs)))"
  have "(\<exists>reason. d = settled_decision q h product g ?acc ?rej (verdict q (set obs)) reason) \<and>
      validate_decision d = Inr ()"
  proof (cases "\<exists>b\<in>set obs. is_observed b")
    case False
    then have "top_evidence (set obs) = {}" "verdict q (set obs) = Unknown"
      by (auto simp: top_evidence_def verdict_def Let_def)
    with dec decide_unknown [OF dist False, of q h product g] show ?thesis
      by (simp add: new_decision_eq unknown_decision_def settled_decision_def)
  next
    case True
    note best = agreed_best [OF True valid]
    show ?thesis
    proof (cases "\<exists>b\<in>top_evidence (set obs). \<exists>c\<in>top_evidence (set obs). obs_value b \<noteq> obs_value c")
      case conflict: True
      then have "verdict q (set obs) = Conflict" using True by (simp add: verdict_def Let_def)
      with dec conflict best(3) show ?thesis
        by (auto simp: decide_steps [OF dist True] new_decision_eq)
    next
      case agree: False
      obtain v where v: "obs_value (hd (top_list obs)) = Some v" using best(2) by blast
      have all: "obs_value b = Some v" if "b \<in> top_evidence (set obs)" for b
        using agree best(1) v that by metis
      have "verdict q (set obs) =
          (if matches (req_operator q) (req_target q) v = Inr True then Match else Mismatch)"
        using True agree best(1) all unfolding verdict_def Let_def by auto
      moreover have one: "card (set (map observed_identity (List.map_filter obs_value (top_list obs)))) = 1"
        using agree best(3) by blast
      have "bind (matches (req_operator q) (req_target q) v) (\<lambda>m.
          new_decision (settled_decision q h product g ?acc ?rej (if m then Match else Mismatch)
            (if m then Reason_matched else Did_not_match))) = Inr d"
        using dec one v by (simp only: decide_steps [OF dist True] simp_thms if_False option.case)
      then obtain m where m: "matches (req_operator q) (req_target q) v = Inr m"
        and d: "d = settled_decision q h product g ?acc ?rej (if m then Match else Mismatch)
           (if m then Reason_matched else Did_not_match)" "validate_decision d = Inr ()"
        unfolding bind_eq_Inr new_decision_eq by blast
      ultimately have "verdict q (set obs) = (if m then Match else Mismatch)" by simp
      then have "d = settled_decision q h product g ?acc ?rej (verdict q (set obs))
          (if m then Reason_matched else Did_not_match)" using d(1) by (simp only:)
      with d(2) show ?thesis by blast
    qed
  qed
  then show "\<exists>reason. d = settled_decision q h product g ?acc ?rej (verdict q (set obs)) reason"
    and "validate_decision d = Inr ()" by blast+
qed

section \<open>Adjudication depends on the set of observations only\<close>

lemma observation_status:
  "validate_observation U b = Inr () \<Longrightarrow> is_observed b \<longleftrightarrow> obs_value b \<noteq> None"
  by (cases "obs_status b") (auto simp: validate_observation_def is_observed_def if_Inl_eq_Inr)

lemma adjudicate_spec:
  assumes "adjudicate_requirement U H r q product obs = Inr d"
  shows "dec_state d = verdict q (set obs)"
    and "dec_accepted d = sorted_list_of_set (evidence_digest H ` top_evidence (set obs))"
    and "dec_rejected d = sorted_list_of_set (evidence_digest H ` (set obs - top_evidence (set obs)))"
    and "dec_requirement d = req_id q" and "dec_product d = product"
    and "dec_registry d = canonical_sha256 H registry_domain (registry_json r)"
    and "typed_requirement_set_sha256 U H r [q] = Inr (dec_requirement_sha256 d)"
    and "validate_decision d = Inr ()"
proof -
  obtain a h where bs: "\<forall>b\<in>set obs. validate_observation_binding U a q product
      (canonical_sha256 H registry_domain (registry_json r)) b = Inr b" and
    dist: "distinct (map (evidence_digest H) obs)" and h: "typed_requirement_set_sha256 U H r [q] = Inr h" and
    dec: "decide q h product (canonical_sha256 H registry_domain (registry_json r))
      (map (\<lambda>b. (evidence_digest H b, b)) obs) = Inr d"
    using assms unfolding adjudicate_iff by blast
  have st: "\<forall>b\<in>set obs. is_observed b \<longleftrightarrow> obs_value b \<noteq> None"
    using bs binding_valid observation_status by blast
  from decide_spec(1) [OF dec st dist] h
  show "dec_state d = verdict q (set obs)"
    and "dec_accepted d = sorted_list_of_set (evidence_digest H ` top_evidence (set obs))"
    and "dec_rejected d = sorted_list_of_set (evidence_digest H ` (set obs - top_evidence (set obs)))"
    and "dec_requirement d = req_id q" and "dec_product d = product"
    and "dec_registry d = canonical_sha256 H registry_domain (registry_json r)"
    and "typed_requirement_set_sha256 U H r [q] = Inr (dec_requirement_sha256 d)"
    by (auto simp: settled_decision_def)
  show "validate_decision d = Inr ()" by (rule decide_spec(2) [OF dec st dist])
qed

lemma decide_cong:
  assumes dist: "distinct (map (evidence_digest H) obs)" "distinct (map (evidence_digest H) obs')"
    and same: "set obs = set obs'" and st: "\<forall>b\<in>set obs. is_observed b \<longleftrightarrow> obs_value b \<noteq> None"
  shows "decide q h product g (map (\<lambda>b. (evidence_digest H b, b)) obs) =
    decide q h product g (map (\<lambda>b. (evidence_digest H b, b)) obs')"
proof (cases "\<exists>b\<in>set obs. is_observed b")
  case False
  moreover have "\<not> (\<exists>b\<in>set obs'. is_observed b)" using False same by simp
  ultimately show ?thesis using decide_unknown dist same by simp
next
  case True
  have True': "\<exists>b\<in>set obs'. is_observed b" and st': "\<forall>b\<in>set obs'. is_observed b \<longleftrightarrow> obs_value b \<noteq> None"
    using True st unfolding same by auto
  note one = agreed_best [OF True st] and two = agreed_best [OF True' st']
  have same_card: "card (set (map observed_identity (List.map_filter obs_value (top_list obs)))) \<noteq> 1 \<longleftrightarrow>
      card (set (map observed_identity (List.map_filter obs_value (top_list obs')))) \<noteq> 1"
    unfolding one(3) two(3) same ..
  have "obs_value (hd (top_list obs)) = obs_value (hd (top_list obs'))"
    if "\<not> card (set (map observed_identity (List.map_filter obs_value (top_list obs)))) \<noteq> 1"
    using that one(1) two(1) unfolding one(3) same by blast
  with same_card show ?thesis
    unfolding decide_steps [OF dist(1) True] decide_steps [OF dist(2) True'] same by simp
qed

lemma adjudicate_mono:
  assumes "adjudicate_requirement U H r q product obs = Inr d" and "mset obs = mset obs'"
  shows "adjudicate_requirement U H r q product obs' = Inr d"
proof -
  let ?g = "canonical_sha256 H registry_domain (registry_json r)"
  have same: "set obs' = set obs" "length obs' = length obs"
    using assms(2) by (metis mset_eq_setD) (metis assms(2) mset_eq_length)
  obtain a h where r: "validate_registry U r = Inr ()" "validated_requirement U H r q = Inr (q, a)"
    "length obs \<le> max_evidence_per_requirement" and
    bs: "\<forall>b\<in>set obs. validate_observation_binding U a q product ?g b = Inr b" and
    dist: "distinct (map (evidence_digest H) obs)" and h: "typed_requirement_set_sha256 U H r [q] = Inr h" and
    dec: "decide q h product ?g (map (\<lambda>b. (evidence_digest H b, b)) obs) = Inr d"
    using assms(1) unfolding adjudicate_iff by blast
  have dist': "distinct (map (evidence_digest H) obs')"
    using dist mset_eq_imp_distinct_iff [of "map (evidence_digest H) obs" "map (evidence_digest H) obs'"] assms(2)
    by simp
  have "\<forall>b\<in>set obs'. is_observed b \<longleftrightarrow> obs_value b \<noteq> None"
    using bs binding_valid observation_status unfolding same by blast
  from decide_cong [OF dist' dist same(1) this, of q h product ?g] r bs dist' h dec
  show ?thesis unfolding adjudicate_iff same by auto
qed

lemma adjudicate_permute:
  assumes "mset obs = mset obs'"
  shows "adjudicate_requirement U H r q product obs = adjudicate_requirement U H r q product obs'"
proof (cases "adjudicate_requirement U H r q product obs")
  case (Inr d)
  then show ?thesis using adjudicate_mono assms by metis
next
  case e: (Inl e)
  show ?thesis
  proof (cases "adjudicate_requirement U H r q product obs'")
    case (Inr d)
    then show ?thesis using adjudicate_mono assms by metis
  next
    case (Inl e')
    with e adjudicate_errors [of U H r q product obs] adjudicate_errors [of U H r q product obs']
    show ?thesis by (simp add: raises_only_def)
  qed
qed

lemma lower_priority_top:
  assumes "b \<in> B" and "is_observed b" and "\<forall>c\<in>C. obs_priority b < obs_priority c"
  shows "top_evidence (B \<union> C) = top_evidence B"
proof (intro equalityI subsetI)
  fix x assume x: "x \<in> top_evidence (B \<union> C)"
  then have "obs_priority x \<le> obs_priority b" using assms(1,2) by (simp add: top_evidence_def)
  then have "x \<notin> C" using assms(3) by force
  with x show "x \<in> top_evidence B" by (simp add: top_evidence_def)
next
  fix x assume x: "x \<in> top_evidence B"
  then have le: "obs_priority x \<le> obs_priority b" using assms(1,2) by (simp add: top_evidence_def)
  have "obs_priority x \<le> obs_priority c" if "c \<in> C" for c
    using le bspec [OF assms(3) that] by simp
  with x show "x \<in> top_evidence (B \<union> C)" by (auto simp: top_evidence_def)
qed

lemma lower_priority_verdict:
  assumes "b \<in> B" and "is_observed b" and "\<forall>c\<in>C. obs_priority b < obs_priority c"
  shows "verdict q (B \<union> C) = verdict q B"
proof -
  have "\<exists>b\<in>B. is_observed b" "\<exists>b\<in>B \<union> C. is_observed b" using assms(1,2) by blast+
  then show ?thesis unfolding verdict_def Let_def lower_priority_top [OF assms] by simp
qed

section \<open>The calls succeed on each other's results\<close>

text \<open>The evidence of a product: observations that \<open>build_evidence_observation\<close> returned. Its values are
  settled when its text sets are fixed by folding.\<close>

definition built_evidence ::
  "text_library \<Rightarrow> (string \<Rightarrow> string) \<Rightarrow> attribute_registry \<Rightarrow> typed_requirement \<Rightarrow> string \<Rightarrow> observation \<Rightarrow> bool"
where
  "built_evidence U H r q product b \<longleftrightarrow>
     (\<exists>source v why profile artifact.
        build_evidence_observation U H r q product source v why profile artifact = Inr b)"

definition evidence_for ::
  "text_library \<Rightarrow> (string \<Rightarrow> string) \<Rightarrow> attribute_registry \<Rightarrow> typed_requirement \<Rightarrow> string \<Rightarrow> observation \<Rightarrow> bool"
where
  "evidence_for U H r q product b \<longleftrightarrow>
     built_evidence U H r q product b \<and> opt_all (settled_observed U) (obs_value b)"

definition single_units :: "attribute_registry \<Rightarrow> bool" where
  "single_units r \<longleftrightarrow> (\<forall>d\<in>set (reg_definitions r). length (attr_units d) \<le> 1)"

definition hex_hash :: "(string \<Rightarrow> string) \<Rightarrow> bool" where
  "hex_hash H \<longleftrightarrow> (\<forall>s. is_digest (H s))"

lemma hex_canonical: "hex_hash H \<Longrightarrow> is_digest (canonical_sha256 H d j)"
  by (simp add: hex_hash_def canonical_sha256_def)

text \<open>A requirement of a normalised set: what \<open>validated_requirement\<close> answers for it.\<close>

lemma normalized_requirement:
  assumes n: "normalize_typed_requirements U H r drafts = Inr qs"
    and U: "ascii_library U" and k: "short_keys r" and s: "\<forall>q\<in>set qs. settled_requirement U q"
    and q: "q \<in> set qs"
  obtains a where "a \<in> set (reg_definitions r)" and "validate_definition U a = Inr ()"
    and "req_key q = attr_key a" and "req_operator q \<in> set (attr_operators a)"
    and "req_strength q \<in> set (attr_strengths a)"
    and "\<exists>t. normalize_target U a (req_operator q) t = Inr (req_target q)"
    and "validate_requirement U q = Inr ()"
    and "attribute_definition_of U r (req_key q) = Inr a"
    and "validated_requirement U H r q = Inr (q, a)"
proof -
  let ?g = "canonical_sha256 H registry_domain (registry_json r)"
  note r = normalized_parts(1) [OF n] and m = normalized_parts(4) [OF n]
  obtain d where d: "normalize_draft U r ?g d = Inr q" using map_result_mem [OF m q] by blast
  obtain a where a: "a \<in> set (reg_definitions r)" "validate_definition U a = Inr ()" and
    qe: "q = \<lparr>req_id = draft_id d, req_key = attr_key a, req_operator = draft_operator d,
            req_target = req_target q, req_strength = draft_strength d, req_registry = ?g\<rparr>" and
    o: "draft_operator d \<in> set (attr_operators a)" "draft_strength d \<in> set (attr_strengths a)" and
    t: "normalize_target U a (draft_operator d) (draft_target d) = Inr (req_target q)" and
    v: "validate_requirement U q = Inr ()"
    using normal_draft [OF d r] by blast
  have sel: "req_key q = attr_key a" "req_operator q = draft_operator d"
    "req_strength q = draft_strength d" "req_registry q = ?g"
    by (subst qe, simp)+
  have key: "is_attribute_key (attr_key a)" "text_length (attr_key a) \<le> max_text_characters"
    using definition_key [OF a(2)] k a(1) by (simp_all add: short_keys_def)
  have "definition_lookup U r (attr_key a) = Some a"
    using names_resolve [OF r a(1), of "attr_key a"] attribute_key_normal(2) [OF U key]
    by (simp add: attr_names_def)
  then have def_of: "attribute_definition_of U r (req_key q) = Inr a"
    using r attribute_key_normal [OF U key] by (simp add: attribute_definition_of_def sel)
  have new: "new_draft U q = Inr (draft_of q)"
    using renormal_draft(2) [OF d r U k] s q by blast
  have norm: "normalize_typed_requirements U H r [draft_of q] = Inr [q]"
    using normalized_digest(1) [OF n U k s, of "[q]"] q by simp
  have "attribute_registry_sha256 U H r = Inr ?g" using r by (simp add: attribute_registry_sha256_def)
  then have "validated_requirement U H r q = Inr (q, a)"
    using v new norm def_of sel by (simp add: validated_requirement_def same_requirement_def)
  then show thesis using that [of a] a o t v def_of sel by auto
qed

text \<open>An observation built for a requirement passes the binding check.\<close>

lemma built_observation:
  assumes b: "evidence_for U H r q product b" and q: "validated_requirement U H r q = Inr (q, a)"
    and g: "good_definition U a"
  shows "validate_observation_binding U a q product (canonical_sha256 H registry_domain (registry_json r)) b = Inr b"
    and "\<forall>v. obs_value b = Some v \<longrightarrow> (\<exists>w. normalize_observed_value U a w = Inr v)"
proof -
  let ?g = "canonical_sha256 H registry_domain (registry_json r)"
  obtain source v why profile artifact where
    "build_evidence_observation U H r q product source v why profile artifact = Inr b"
    and settled: "opt_all (settled_observed U) (obs_value b)"
    using b by (auto simp: evidence_for_def built_evidence_def)
  then obtain rule n where rule: "evidence_rule_for a source = Inr rule" and
    n: "(case v of None \<Rightarrow> Inr None | Some v \<Rightarrow> bind (normalize_observed_value U a v) (\<lambda>n. Inr (Some n))) = Inr n" and
    be: "b = \<lparr>obs_requirement = req_id q, obs_key = req_key q, obs_product = product,
           obs_source = rule_source rule, obs_priority = rule_priority rule,
           obs_status = (if v = None then Status_unknown else Status_observed),
           obs_value = n, obs_unknown = why, obs_registry = ?g,
           obs_evaluator = rule_evaluator rule, obs_version = rule_version rule,
           obs_profile = profile, obs_artifact = artifact\<rparr>" and
    ok: "validate_observation U b = Inr ()"
    using q by (auto simp: build_evidence_observation_def attribute_registry_sha256_def Let_def split: if_splits)
  have "rule_source rule = source"
    using rule by (auto simp: evidence_rule_for_def find_Some_iff split: option.splits)
  with rule have found: "evidence_rule_for a (rule_source rule) = Inr rule" by simp
  show vals: "\<forall>v. obs_value b = Some v \<longrightarrow> (\<exists>w. normalize_observed_value U a w = Inr v)"
    using n be by (auto split: option.splits)
  have fixed: "normalize_observed_value U a w = Inr w" if w: "obs_value b = Some w" for w
  proof -
    obtain w0 where "normalize_observed_value U a w0 = Inr w" using vals w by blast
    then show ?thesis using g settled w by (intro observed_form.normal_fixed) simp_all
  qed
  have sel: "obs_requirement b = req_id q" "obs_key b = req_key q" "obs_product b = product"
    "obs_source b = rule_source rule" "obs_priority b = rule_priority rule" "obs_registry b = ?g"
    "obs_evaluator b = rule_evaluator rule" "obs_version b = rule_version rule"
    by (simp_all add: be)
  show "validate_observation_binding U a q product ?g b = Inr b"
    using ok found fixed
    by (cases "obs_value b") (simp_all add: validate_observation_binding_def sel)
qed

text \<open>The comparison of a normalised target with a normalised value never raises.\<close>

lemma normal_target_type: "normalize_target U a op t = Inr t' \<Longrightarrow> target_type t' = attr_type a"
  by (cases t) (auto simp: normalize_target_def Let_def dest!: validate_target_id split: if_splits)

lemma normal_observed_type: "normalize_observed_value U a v = Inr v' \<Longrightarrow> observed_type v' = attr_type a"
  by (cases v) (auto simp: normalize_observed_value_def Let_def dest!: validate_observed_id split: if_splits)

lemma normal_target_unit:
  "normalize_target U a op t = Inr (IntegerTarget lo hi u) \<Longrightarrow> \<exists>s. normalize_unit U a s = Inr u"
  "normalize_target U a op t = Inr (DecimalTarget l h u) \<Longrightarrow> \<exists>s. normalize_unit U a s = Inr u"
  by (cases t; auto simp: normalize_target_def Let_def dest!: validate_target_id split: if_splits)+

lemma normal_observed_unit:
  "normalize_observed_value U a v = Inr (IntegerObserved n u) \<Longrightarrow> \<exists>s. normalize_unit U a s = Inr u"
  "normalize_observed_value U a v = Inr (DecimalObserved x u) \<Longrightarrow> \<exists>s. normalize_unit U a s = Inr u"
  by (cases v; auto simp: normalize_observed_value_def Let_def dest!: validate_observed_id split: if_splits)+

lemma matches_defined:
  assumes t: "normalize_target U a op t0 = Inr t" and v: "normalize_observed_value U a v0 = Inr v"
    and a: "validate_definition U a = Inr ()" and op: "op \<in> set (attr_operators a)"
    and units: "length (attr_units a) \<le> 1"
  shows "\<exists>m. matches op t v = Inr m"
proof -
  have ops: "op \<in> operators_by_type (attr_type a)"
    using a op by (auto simp: validate_definition_def if_Inl_eq_Inr)
  note types = normal_target_type [OF t] normal_observed_type [OF v]
  have unit: "u = u'" if "normalize_unit U a s = Inr u" "normalize_unit U a s' = Inr u'" for s s' u u'
  proof -
    have "u \<in> set (attr_units a)" "u' \<in> set (attr_units a)" using unit_in [OF a] that by blast+
    with units show ?thesis by (cases "attr_units a") auto
  qed
  show ?thesis
  proof (cases "attr_type a")
    case Boolean_type
    with types ops show ?thesis by (cases t; cases v; simp)
  next
    case Enum_type
    with types ops show ?thesis by (cases t; cases v; auto)
  next
    case Integer_type
    with types obtain lo hi u n u' where tv: "t = IntegerTarget lo hi u" "v = IntegerObserved n u'"
      by (cases t; cases v; simp)
    then have "u' = u" using unit normal_target_unit(1) normal_observed_unit(1) t v by metis
    with tv ops Integer_type show ?thesis by (auto simp: compare_numeric_def)
  next
    case Decimal_type
    with types obtain lo hi u n u' where tv: "t = DecimalTarget lo hi u" "v = DecimalObserved n u'"
      by (cases t; cases v; simp)
    then have "u' = u" using unit normal_target_unit(2) normal_observed_unit(2) t v by metis
    with tv ops Decimal_type show ?thesis by (auto simp: compare_numeric_def)
  next
    case Text_set_type
    with types ops show ?thesis by (cases t; cases v; auto)
  next
    case Semantic_type
    with types ops show ?thesis by (cases t; cases v; simp)
  qed
qed

lemma top_evidence_subset: "top_evidence B \<subseteq> B"
  by (auto simp: top_evidence_def)

lemma settled_valid:
  assumes H: "hex_hash H" and q: "is_identifier (req_id q)" "is_digest h" "is_digest product" "is_digest g"
    and len: "length obs \<le> 32" and dist: "distinct (map (evidence_digest H) obs)"
  defines "acc \<equiv> sorted_list_of_set (evidence_digest H ` top_evidence (set obs))"
    and "rej \<equiv> sorted_list_of_set (evidence_digest H ` (set obs - top_evidence (set obs)))"
  shows "(\<exists>b\<in>set obs. is_observed b) \<Longrightarrow> (s, reason) \<in> {(Match, Reason_matched), (Mismatch, Did_not_match)} \<Longrightarrow>
      validate_decision (settled_decision q h product g acc rej s reason) = Inr ()"
    and "\<exists>b\<in>top_evidence (set obs). \<exists>c\<in>top_evidence (set obs). obs_value b \<noteq> obs_value c \<Longrightarrow>
      validate_decision (settled_decision q h product g acc rej Conflict Highest_priority_conflict) = Inr ()"
    and "validate_decision (unknown_decision q h product g (sorted_list_of_set (evidence_digest H ` set obs))) = Inr ()"
proof -
  let ?e = "evidence_digest H"
  have inj: "inj_on ?e (set obs)" using dist by (simp add: distinct_map)
  have fin: "finite (top_evidence (set obs))" using top_evidence_subset finite_subset by blast
  have digests: "is_digest (?e b)" for b by (simp add: evidence_digest_def hex_canonical [OF H])
  have small: "length (sorted_list_of_set (?e ` B)) \<le> 32" if "B \<subseteq> set obs" for B
  proof -
    have "card (?e ` B) \<le> card B" using that by (meson card_image_le finite_set finite_subset)
    also have "\<dots> \<le> card (set obs)" using that by (simp add: card_mono)
    also have "\<dots> \<le> length obs" by (rule card_length)
    finally show ?thesis using len by simp
  qed
  have sets: "set acc = ?e ` top_evidence (set obs)" "set rej = ?e ` (set obs - top_evidence (set obs))"
    using fin by (simp_all add: acc_def rej_def)
  have disjoint: "set acc \<inter> set rej = {}"
    using inj top_evidence_subset [of "set obs"] unfolding sets by (auto dest: inj_onD)
  have fields: "decision_fields (settled_decision q h product g acc rej s reason)" for s reason
    using q digests small [of "top_evidence (set obs)"] small [of "set obs - top_evidence (set obs)"]
      top_evidence_subset [of "set obs"]
    by (auto simp: decision_fields_def settled_decision_def list_all_iff sets acc_def [symmetric]
        rej_def [symmetric])
  have distinct: "distinct acc" "distinct rej" by (simp_all add: acc_def rej_def)
  have nonempty: "acc \<noteq> []" if "\<exists>b\<in>set obs. is_observed b"
    using top_evidence_Min(2) [OF _ that] sets(1) by force
  show "validate_decision (settled_decision q h product g acc rej s reason) = Inr ()"
    if "\<exists>b\<in>set obs. is_observed b" "(s, reason) \<in> {(Match, Reason_matched), (Mismatch, Did_not_match)}"
    using that(2) fields distinct disjoint nonempty [OF that(1)]
    by (auto simp: validate_decision_def settled_decision_def)
  show "validate_decision (settled_decision q h product g acc rej Conflict Highest_priority_conflict) = Inr ()"
    if conflict: "\<exists>b\<in>top_evidence (set obs). \<exists>c\<in>top_evidence (set obs). obs_value b \<noteq> obs_value c"
  proof -
    obtain b c where bc: "b \<in> top_evidence (set obs)" "c \<in> top_evidence (set obs)" "b \<noteq> c"
      using conflict by auto
    then have "?e b \<noteq> ?e c" using inj top_evidence_subset by (meson inj_onD subsetD)
    then have "card {?e b, ?e c} = 2" by simp
    moreover have "card {?e b, ?e c} \<le> card (set acc)" using bc fin by (intro card_mono) (auto simp: sets)
    ultimately have "2 \<le> length acc" using card_length [of acc] by linarith
    with fields distinct disjoint show ?thesis
      by (simp add: validate_decision_def settled_decision_def)
  qed
  show "validate_decision (unknown_decision q h product g (sorted_list_of_set (?e ` set obs))) = Inr ()"
    using q digests small [of "set obs"]
    by (auto simp: validate_decision_def unknown_decision_def decision_fields_def list_all_iff)
qed


lemma adjudicate_succeeds:
  assumes n: "normalize_typed_requirements U H r drafts = Inr qs"
    and U: "ascii_library U" and k: "short_keys r" and s: "\<forall>q\<in>set qs. settled_requirement U q"
    and one: "single_units r" and H: "hex_hash H" and product: "is_digest product" and q: "q \<in> set qs"
    and obs: "\<forall>b\<in>set obs. evidence_for U H r q product b" and len: "length obs \<le> max_evidence_per_requirement"
    and dist: "distinct (map (evidence_digest H) obs)"
  shows "\<exists>d. adjudicate_requirement U H r q product obs = Inr d"
proof -
  let ?g = "canonical_sha256 H registry_domain (registry_json r)"
  obtain a t where a: "a \<in> set (reg_definitions r)" "validate_definition U a = Inr ()" and
    op: "req_operator q \<in> set (attr_operators a)" and
    t: "normalize_target U a (req_operator q) t = Inr (req_target q)" and
    v: "validate_requirement U q = Inr ()" and vq: "validated_requirement U H r q = Inr (q, a)"
    using normalized_requirement [OF n U k s q] by metis
  have good: "good_definition U a" using U a(2) by (simp add: good_definition_def)
  have units: "length (attr_units a) \<le> 1" using one a(1) by (simp add: single_units_def)
  note built = built_observation [OF _ vq good]
  have bound: "\<forall>b\<in>set obs. validate_observation_binding U a q product ?g b = Inr b"
    using built(1) obs by blast
  have st: "\<forall>b\<in>set obs. is_observed b \<longleftrightarrow> obs_value b \<noteq> None"
    using bound binding_valid observation_status by blast
  obtain h where h: "typed_requirement_set_sha256 U H r [q] = Inr h" "is_digest h"
    using normalized_digest(2) [OF n U k s, of "[q]"] q hex_canonical [OF H] by auto
  have id: "is_identifier (req_id q)" using v by (simp add: validate_requirement_def if_Inl_eq_Inr)
  have len32: "length obs \<le> 32" using len by (simp add: max_evidence_per_requirement_def)
  note valid = settled_valid [OF H id h(2) product hex_canonical [OF H] len32 dist]
  have "\<exists>d. decide q h product ?g (map (\<lambda>b. (evidence_digest H b, b)) obs) = Inr d"
  proof (cases "\<exists>b\<in>set obs. is_observed b")
    case False
    then show ?thesis using decide_unknown [OF dist False] valid(3) by (simp add: new_decision_def)
  next
    case True
    note best = agreed_best [OF True st]
    obtain w where w: "obs_value (hd (top_list obs)) = Some w" using best(2) by blast
    have "hd (top_list obs) \<in> set obs" using best(1) top_evidence_subset by blast
    then obtain w0 where "normalize_observed_value U a w0 = Inr w"
      using built(2) obs w by blast
    from matches_defined [OF t this a(2) op units]
    obtain m where m: "matches (req_operator q) (req_target q) w = Inr m" by blast
    show ?thesis
    proof (cases "card (set (map observed_identity (List.map_filter obs_value (top_list obs)))) = 1")
      case True': True
      have "validate_decision (settled_decision q h product ?g
          (sorted_list_of_set (evidence_digest H ` top_evidence (set obs)))
          (sorted_list_of_set (evidence_digest H ` (set obs - top_evidence (set obs))))
          (if m then Match else Mismatch) (if m then Reason_matched else Did_not_match)) = Inr ()"
        by (rule valid(1) [OF True]) simp
      with True' w m show ?thesis
        unfolding decide_steps [OF dist True] by (simp add: new_decision_def)
    next
      case False
      then have "validate_decision (settled_decision q h product ?g
          (sorted_list_of_set (evidence_digest H ` top_evidence (set obs)))
          (sorted_list_of_set (evidence_digest H ` (set obs - top_evidence (set obs))))
          Conflict Highest_priority_conflict) = Inr ()"
        using best(3) by (intro valid(2)) simp
      with False show ?thesis
        unfolding decide_steps [OF dist True] by (simp add: new_decision_def)
    qed
  qed
  then obtain d where "decide q h product ?g (map (\<lambda>b. (evidence_digest H b, b)) obs) = Inr d" by blast
  then have "adjudicate_requirement U H r q product obs = Inr d"
    unfolding adjudicate_iff using normalized_parts(1) [OF n] vq len bound dist h(1) by blast
  then show ?thesis by blast
qed

section \<open>Evaluation of a product\<close>

lemma round_ratio_bounds:
  fixes x :: rat
  assumes "0 \<le> x" and "x \<le> 1"
  shows "0 \<le> round_ratio x" "round_ratio x \<le> 1"
    and "x \<le> 1 - 1 / 6401 \<Longrightarrow> round_ratio x < 1" and "1 / 6401 \<le> x \<Longrightarrow> 0 < round_ratio x"
proof -
  define j where "j = half_even (x * 10 ^ 6)"
  have e: "round_ratio x = float_of (of_int j / 10 ^ 6)" by (simp add: round_ratio_def round_to_def j_def ratio_decimals_def)
  have "half_even 0 \<le> j" "j \<le> half_even (of_int (10 ^ 6))"
    unfolding j_def using assms by (intro half_even_mono; simp)+
  then have j: "0 \<le> j" "j \<le> 10 ^ 6" unfolding half_even_of_int by simp_all
  have b: "of_int j \<le> x * 10 ^ 6 + 1 / 2" "x * 10 ^ 6 - 1 / 2 \<le> of_int j"
    unfolding j_def by (rule half_even_bounds)+
  have y: "0 \<le> (of_int j :: rat) / 10 ^ 6" using j by simp
  have "(of_int j :: rat) \<le> of_int (10 ^ 6)" using j by (simp only: of_int_le_iff)
  then have "(of_int j :: rat) / 10 ^ 6 < 2" by simp
  note f = float_of_error [OF y this]
  show "0 \<le> round_ratio x" using float_of_ge_0 [OF y] by (simp only: e)
  have low: "round_ratio x < 1" if "j < 10 ^ 6"
  proof -
    have "(of_int j :: rat) \<le> of_int (10 ^ 6 - 1)" using that by (simp only: of_int_le_iff)
    then have "(of_int j :: rat) / 10 ^ 6 \<le> (10 ^ 6 - 1) / 10 ^ 6" by (intro divide_right_mono) simp_all
    then have "round_ratio x \<le> (10 ^ 6 - 1) / 10 ^ 6 + 1 / 2 ^ 53" using f(1) unfolding e by linarith
    then show ?thesis by (rule le_less_trans) simp
  qed
  show "round_ratio x \<le> 1"
  proof (cases "j = 10 ^ 6")
    case True
    then show ?thesis by (simp add: e)
  next
    case False
    with j(2) low show ?thesis by simp
  qed
  show "round_ratio x < 1" if "x \<le> 1 - 1 / 6401"
  proof (rule low)
    have "(of_int j :: rat) < of_int (10 ^ 6)" using b(1) that by simp
    then show "j < 10 ^ 6" by (simp only: of_int_less_iff)
  qed
  show "0 < round_ratio x" if "1 / 6401 \<le> x"
  proof -
    have "(0 :: rat) < of_int j" using b(2) that by simp
    then have "1 \<le> j" by simp
    then have "(1 :: rat) \<le> of_int j" by simp
    then have "1 / 10 ^ 6 \<le> (of_int j :: rat) / 10 ^ 6" by (intro divide_right_mono) simp_all
    then have "1 / 10 ^ 6 - 1 / 2 ^ 53 \<le> round_ratio x" using f(2) unfolding e by linarith
    then show ?thesis by (rule less_le_trans [rotated]) simp
  qed
qed

lemma ratio_of_spec:
  assumes "0 \<le> n" and "n \<le> d" and "d \<le> 6400"
  shows "0 \<le> ratio_of n d" "ratio_of n d \<le> 1" "ratio_of n d = 1 \<longleftrightarrow> n = d"
    and "ratio_of n d = 0 \<longleftrightarrow> n = 0 \<and> 0 < d"
proof -
  have "0 \<le> ratio_of n d \<and> ratio_of n d \<le> 1 \<and> (ratio_of n d = 1 \<longleftrightarrow> n = d) \<and>
      (ratio_of n d = 0 \<longleftrightarrow> n = 0 \<and> 0 < d)"
  proof (cases "d = 0")
    case True
    with assms show ?thesis by (simp add: ratio_of_def)
  next
    case False
    with assms have d: "0 < d" by simp
    define x :: rat where "x = of_int n / of_int d"
    have x: "0 \<le> x" "x \<le> 1" using assms d by (simp_all add: x_def)
    have x2: "x < 2" using x(2) by simp
    have xf: "0 \<le> float_of x" "float_of x \<le> 1"
      by (rule float_of_ge_0 [OF x(1)], rule float_of_le_1 [OF x])
    have r: "ratio_of n d = round_ratio (float_of x)" using d by (simp add: ratio_of_def x_def)
    note b = round_ratio_bounds [OF xf]
    have one: "ratio_of n d = 1" if "n = d"
    proof -
      have "x = 1" using that d by (simp add: x_def)
      then show ?thesis by (simp add: r round_ratio_def)
    qed
    have less: "ratio_of n d < 1" if "n \<noteq> d"
    proof -
      have "of_int n \<le> (of_int d - 1 :: rat)" using assms(2) that by linarith
      then have "x \<le> (of_int d - 1) / of_int d" unfolding x_def using d by (intro divide_right_mono) simp_all
      also have "\<dots> = 1 - 1 / of_int d" using d by (simp add: field_simps)
      also have "\<dots> \<le> 1 - 1 / 6400" using d assms(3) by (simp add: field_simps)
      finally have "x \<le> 1 - 1 / 6400" .
      with float_of_error(1) [OF x(1) x2] have "float_of x \<le> 1 - 1 / 6400 + 1 / 2 ^ 53" by linarith
      also have "\<dots> \<le> 1 - 1 / 6401" by simp
      finally show ?thesis unfolding r by (rule b(3))
    qed
    have zero: "ratio_of n d = 0" if "n = 0"
    proof -
      have "x = 0" using that by (simp add: x_def)
      then show ?thesis by (simp add: r round_ratio_def)
    qed
    have pos: "0 < ratio_of n d" if "n \<noteq> 0"
    proof -
      have "(1 :: rat) \<le> of_int n" using assms(1) that by simp
      then have "1 / of_int d \<le> x" unfolding x_def using d by (intro divide_right_mono) simp_all
      moreover have "1 / 6400 \<le> (1 :: rat) / of_int d" using d assms(3) by (simp add: field_simps)
      ultimately have "1 / 6400 \<le> x" by linarith
      with float_of_error(2) [OF x(1) x2] have "1 / 6400 - 1 / 2 ^ 53 \<le> float_of x" by linarith
      moreover have "(1 :: rat) / 6401 \<le> 1 / 6400 - 1 / 2 ^ 53" by simp
      ultimately have "1 / 6401 \<le> float_of x" by linarith
      then show ?thesis unfolding r by (rule b(4))
    qed
    show ?thesis using one less zero pos b(1,2) d r by fastforce
  qed
  then show "0 \<le> ratio_of n d" "ratio_of n d \<le> 1" "ratio_of n d = 1 \<longleftrightarrow> n = d"
    "ratio_of n d = 0 \<longleftrightarrow> n = 0 \<and> 0 < d" by simp_all
qed

text \<open>Sums of weights.\<close>

lemma weight_sums:
  fixes w :: "'q \<Rightarrow> int"
  assumes "\<forall>q\<in>set qs. 1 \<le> w q \<and> w q \<le> 100"
  shows "0 \<le> sum_list (map w (filter p qs))" "sum_list (map w (filter p qs)) \<le> sum_list (map w qs)"
    and "sum_list (map w qs) \<le> 100 * int (length qs)"
    and "sum_list (map w (filter p qs)) = sum_list (map w qs) \<longleftrightarrow> (\<forall>q\<in>set qs. p q)"
    and "sum_list (map w (filter p qs)) = 0 \<longleftrightarrow> (\<forall>q\<in>set qs. \<not> p q)"
    and "0 < sum_list (map w qs) \<longleftrightarrow> qs \<noteq> []"
proof -
  have "0 \<le> sum_list (map w (filter p qs)) \<and> sum_list (map w (filter p qs)) \<le> sum_list (map w qs) \<and>
      sum_list (map w qs) \<le> 100 * int (length qs) \<and>
      (sum_list (map w (filter p qs)) = sum_list (map w qs) \<longleftrightarrow> (\<forall>q\<in>set qs. p q)) \<and>
      (sum_list (map w (filter p qs)) = 0 \<longleftrightarrow> (\<forall>q\<in>set qs. \<not> p q)) \<and>
      (0 < sum_list (map w qs) \<longleftrightarrow> qs \<noteq> [])"
    using assms
  proof (induction qs)
    case (Cons a qs)
    let ?S' = "sum_list (map w (filter p qs))" and ?S = "sum_list (map w qs)"
    have a: "1 \<le> w a" "w a \<le> 100" using Cons.prems by simp_all
    have IH: "0 \<le> ?S'" "?S' \<le> ?S" "?S \<le> 100 * int (length qs)" "?S' = ?S \<longleftrightarrow> (\<forall>q\<in>set qs. p q)"
      "?S' = 0 \<longleftrightarrow> (\<forall>q\<in>set qs. \<not> p q)" using Cons by simp_all
    show ?case
    proof (cases "p a")
      case True
      have "w a + ?S' \<noteq> 0" "0 < w a + ?S" using a IH by linarith+
      with True a IH show ?thesis by simp
    next
      case False
      have "?S' \<noteq> w a + ?S" "0 < w a + ?S" using a IH by linarith+
      with False a IH show ?thesis by simp
    qed
  qed simp
  then show "0 \<le> sum_list (map w (filter p qs))" "sum_list (map w (filter p qs)) \<le> sum_list (map w qs)"
    and "sum_list (map w qs) \<le> 100 * int (length qs)"
    and "sum_list (map w (filter p qs)) = sum_list (map w qs) \<longleftrightarrow> (\<forall>q\<in>set qs. p q)"
    and "sum_list (map w (filter p qs)) = 0 \<longleftrightarrow> (\<forall>q\<in>set qs. \<not> p q)"
    and "0 < sum_list (map w qs) \<longleftrightarrow> qs \<noteq> []" by simp_all
qed

end
