(* ===== verification/Product_Evaluation_Props.thy ===== *)
theory Product_Evaluation_Props
  imports Requirement_Evaluation_Props
begin

text \<open>
  Facts about \<open>evaluate_typed_product\<close>: the weighted ratios as statements about the decisions, the
  report of an evaluation, and the success of the evaluation on the decisions of the adjudicator.
\<close>

section \<open>What an evaluation reports\<close>

lemma dict_get_keyed: "distinct (map f xs) \<Longrightarrow> x \<in> set xs \<Longrightarrow> dict_get (map (\<lambda>x. (f x, x)) xs) (f x) = Some x"
  by (rule dict_get_unique) (auto simp: distinct_map dest: inj_onD)

lemma dict_get_exists: "k \<in> fst ` set ps \<Longrightarrow> \<exists>v. dict_get ps k = Some v"
  unfolding dict_get_def by (metis map_of_eq_None_iff not_Some_eq set_rev)

lemma set_digest_length: "typed_requirement_set_sha256 U H r qs = Inr h \<Longrightarrow> length qs \<le> max_requirements"
  by (auto simp: typed_requirement_set_sha256_def split: if_splits)

lemma attribute_definition_weight:
  assumes "attribute_definition_of U r key = Inr a"
  shows "1 \<le> attr_weight a \<and> attr_weight a \<le> 100"
proof -
  have "validate_definition U a = Inr ()"
    using assms lookup_known by (auto simp: attribute_definition_of_def split: option.splits)
  then show ?thesis by (simp add: validate_definition_def definition_fields_def if_Inl_eq_Inr)
qed

text \<open>The parts of a successful evaluation.\<close>

lemma evaluate_parts:
  assumes "evaluate_typed_product U H r qs ds product = Inr v"
  obtains definitions where "distinct (map req_id qs)" and "distinct (map dec_requirement ds)"
    and "set (map req_id qs) = set (map dec_requirement ds)" and "length qs \<le> 64"
    and "\<forall>q\<in>set qs. 1 \<le> weight_of definitions q \<and> weight_of definitions q \<le> 100"
    and "ev_decisions v = map (\<lambda>q. the (dict_get (map (\<lambda>d. (dec_requirement d, d)) ds) (req_id q))) qs"
    and "ev_status v = product_status qs (map (\<lambda>d. (dec_requirement d, d)) ds)"
    and "ev_required_ratio v = weighted_ratio qs (map (\<lambda>d. (dec_requirement d, d)) ds) definitions Required"
    and "ev_preferred_ratio v = weighted_ratio qs (map (\<lambda>d. (dec_requirement d, d)) ds) definitions Preferred"
    and "ev_coverage v = evidence_coverage qs (map (\<lambda>d. (dec_requirement d, d)) ds) definitions"
    and "ev_product v = product" and "\<forall>d\<in>set ds. dec_product d = product"
    and "typed_requirement_set_sha256 U H r qs = Inr (ev_requirement_set v)"
proof -
  let ?dm = "map (\<lambda>d. (dec_requirement d, d)) ds"
  obtain vs definitions h where
    vs: "map_result (validated_requirement U H r) qs = Inr vs" and
    ids: "distinct (map req_id (map fst vs))" "distinct (map dec_requirement ds)"
      "set (map req_id (map fst vs)) = set (map dec_requirement ds)" and
    chk: "check_all (check_decision U H r (map (\<lambda>q. (req_id q, q)) (map fst vs)) product
        (canonical_sha256 H registry_domain (registry_json r))) ds = Inr ()" and
    defs: "map_result (\<lambda>q. bind (attribute_definition_of U r (req_key q)) (\<lambda>d. Inr (req_key q, d))) (map fst vs) =
      Inr definitions" and
    h: "typed_requirement_set_sha256 U H r (map fst vs) = Inr h" and
    v: "v = \<lparr>ev_product = product, ev_registry = canonical_sha256 H registry_domain (registry_json r),
          ev_requirement_set = h, ev_status = product_status (map fst vs) ?dm,
          ev_required_ratio = weighted_ratio (map fst vs) ?dm definitions Required,
          ev_preferred_ratio = weighted_ratio (map fst vs) ?dm definitions Preferred,
          ev_coverage = evidence_coverage (map fst vs) ?dm definitions,
          ev_decisions = map (\<lambda>q. the (dict_get ?dm (req_id q))) (map fst vs)\<rparr>"
    using assms
    by (auto simp: evaluate_typed_product_def attribute_registry_sha256_def Let_def if_Inl_eq_Inr
        simp del: map_map set_map list.set_map)
  have qs: "map fst vs = qs"
  proof -
    have "list_all2 (\<lambda>q p. fst p = q) qs vs"
      using vs unfolding map_result_eq_Inr
      by (rule list_all2_mono) (metis fst_conv surj_pair validated_requirement_id)
    then show ?thesis by (induction rule: list_all2_induct) simp_all
  qed
  have weights: "1 \<le> weight_of definitions q \<and> weight_of definitions q \<le> 100" if q: "q \<in> set qs" for q
  proof -
    have all: "\<exists>key a. p = (key, a) \<and> attribute_definition_of U r key = Inr a" if "p \<in> set definitions" for p
      using map_result_mem [OF defs that] by auto
    have "list_all2 (\<lambda>q p. fst p = req_key q) qs definitions"
      using defs unfolding map_result_eq_Inr qs by (rule list_all2_mono) auto
    with q have "req_key q \<in> fst ` set definitions"
      by (force simp: list_all2_conv_all_nth in_set_conv_nth)
    then obtain a where "dict_get definitions (req_key q) = Some a" using dict_get_exists by metis
    moreover from dict_get_mem [OF this] all have "attribute_definition_of U r (req_key q) = Inr a" by blast
    ultimately show ?thesis using attribute_definition_weight by (simp add: weight_of_def)
  qed
  have len: "length qs \<le> 64" using set_digest_length [OF h] by (simp add: qs max_requirements_def)
  have prod: "\<forall>d\<in>set ds. dec_product d = product"
    using chk by (auto simp: check_decision_def Let_def split: if_splits)
  show thesis
    by (rule that [of definitions]) (use ids h v len weights prod in \<open>simp_all add: qs\<close>)
qed

text \<open>A ratio over a part of at most 64 requirements.\<close>

lemma partial_ratio:
  fixes w :: "'q \<Rightarrow> int"
  assumes w: "\<forall>q\<in>set qs. 1 \<le> w q \<and> w q \<le> 100" and len: "length qs \<le> 64" and qs': "qs' = filter u qs"
  shows "score_value (ratio_of (sum_list (map w (filter p qs'))) (sum_list (map w qs')))"
    and "ratio_of (sum_list (map w (filter p qs'))) (sum_list (map w qs')) = 1 \<longleftrightarrow> (\<forall>q\<in>set qs'. p q)"
proof -
  have w': "\<forall>q\<in>set qs'. 1 \<le> w q \<and> w q \<le> 100" using w unfolding qs' by simp
  have "length qs' \<le> 64" using len unfolding qs' by (meson length_filter_le le_trans)
  then have "sum_list (map w qs') \<le> 6400" using weight_sums(3) [OF w'] by linarith
  note spec = ratio_of_spec [OF weight_sums(1,2) [OF w'] this, of p]
  from spec show "score_value (ratio_of (sum_list (map w (filter p qs'))) (sum_list (map w qs')))"
    by (simp add: score_value_def)
  show "ratio_of (sum_list (map w (filter p qs'))) (sum_list (map w qs')) = 1 \<longleftrightarrow> (\<forall>q\<in>set qs'. p q)"
    using spec(3) weight_sums(4) [OF w', of p] by simp
qed

lemma all_filter: "qs = filter (\<lambda>_. True) qs"
  by simp

lemma evaluation_scores:
  assumes "\<forall>q\<in>set qs. 1 \<le> weight_of definitions q \<and> weight_of definitions q \<le> 100" and "length qs \<le> 64"
  shows "score_value (weighted_ratio qs dm definitions s)" and "score_value (evidence_coverage qs dm definitions)"
  unfolding weighted_ratio_def evidence_coverage_def Let_def
  using partial_ratio(1) [OF assms refl] partial_ratio(1) [OF assms all_filter] by simp_all

definition report :: "typed_requirement list \<Rightarrow> evaluation \<Rightarrow> (typed_requirement \<times> decision) set" where
  "report qs v = set (zip qs (ev_decisions v))"

lemma list_ex_hard: "list_ex p (filter is_hard qs) \<longleftrightarrow> (\<exists>q\<in>set qs. is_hard q \<and> p q)"
  by (auto simp: list_ex_iff)

lemma evaluation_report:
  assumes "evaluate_typed_product U H r qs ds product = Inr v"
  shows "\<forall>(q, d)\<in>report qs v. d \<in> set ds \<and> dec_requirement d = req_id q \<and> dec_product d = product"
    and "map fst (zip qs (ev_decisions v)) = qs"
    and "ev_status v = Contradicted \<longleftrightarrow> (\<exists>(q, d)\<in>report qs v. contradicts q (dec_state d))"
    and "ev_status v = Confirmed \<longleftrightarrow> (\<forall>(q, d)\<in>report qs v.
      (req_strength q = Required \<longrightarrow> dec_state d = Match) \<and> (req_strength q = Excluded \<longrightarrow> dec_state d = Mismatch))"
    and "ev_required_ratio v = 1 \<longleftrightarrow> (\<forall>(q, d)\<in>report qs v. req_strength q = Required \<longrightarrow> dec_state d = Match)"
    and "ev_preferred_ratio v = 1 \<longleftrightarrow> (\<forall>(q, d)\<in>report qs v. req_strength q = Preferred \<longrightarrow> dec_state d = Match)"
    and "ev_coverage v = 1 \<longleftrightarrow> (\<forall>(q, d)\<in>report qs v. dec_state d \<in> {Match, Mismatch})"
    and "score_value (ev_required_ratio v) \<and> score_value (ev_preferred_ratio v) \<and> score_value (ev_coverage v)"
proof -
  obtain definitions where ids: "distinct (map req_id qs)" "distinct (map dec_requirement ds)"
    "set (map req_id qs) = set (map dec_requirement ds)" and len: "length qs \<le> 64" and
    w: "\<forall>q\<in>set qs. 1 \<le> weight_of definitions q \<and> weight_of definitions q \<le> 100" and
    ev: "ev_decisions v = map (\<lambda>q. the (dict_get (map (\<lambda>d. (dec_requirement d, d)) ds) (req_id q))) qs"
      "ev_status v = product_status qs (map (\<lambda>d. (dec_requirement d, d)) ds)"
      "ev_required_ratio v = weighted_ratio qs (map (\<lambda>d. (dec_requirement d, d)) ds) definitions Required"
      "ev_preferred_ratio v = weighted_ratio qs (map (\<lambda>d. (dec_requirement d, d)) ds) definitions Preferred"
      "ev_coverage v = evidence_coverage qs (map (\<lambda>d. (dec_requirement d, d)) ds) definitions" and
    prod: "\<forall>d\<in>set ds. dec_product d = product"
    by (rule evaluate_parts [OF assms]) (rule that; assumption)
  let ?dm = "map (\<lambda>d. (dec_requirement d, d)) ds"
  let ?st = "state_of ?dm" and ?w = "weight_of definitions"
  have rep: "report qs v = (\<lambda>q. (q, the (dict_get ?dm (req_id q)))) ` set qs"
    unfolding report_def ev(1) zip_map2 by (auto simp: zip_same_conv_map)
  have st: "dec_state (the (dict_get ?dm (req_id q))) = ?st q" for q by (simp add: state_of_def)
  have found: "the (dict_get ?dm (req_id q)) \<in> set ds \<and> dec_requirement (the (dict_get ?dm (req_id q))) = req_id q"
    if "q \<in> set qs" for q
  proof -
    have "req_id q \<in> set (map dec_requirement ds)" using ids(3) that by (metis image_eqI set_map)
    then obtain d where "d \<in> set ds" "dec_requirement d = req_id q" by auto
    with dict_get_keyed [OF ids(2), of d] show ?thesis by simp
  qed
  show "\<forall>(q, d)\<in>report qs v. d \<in> set ds \<and> dec_requirement d = req_id q \<and> dec_product d = product"
    unfolding rep using found prod by auto
  show "map fst (zip qs (ev_decisions v)) = qs" by (simp add: ev(1))
  show "ev_status v = Contradicted \<longleftrightarrow> (\<exists>(q, d)\<in>report qs v. contradicts q (dec_state d))"
    unfolding rep ev(2) product_status_def Let_def list_ex_hard
    by (auto simp: st contradicts_def is_hard_def)
  have conf: "(req_strength q = Required \<longrightarrow> s = Match) \<and> (req_strength q = Excluded \<longrightarrow> s = Mismatch) \<longleftrightarrow>
      \<not> (is_hard q \<and> contradicts q s) \<and> \<not> (is_hard q \<and> s \<in> {Unknown, Conflict})" for q s
    by (cases "req_strength q"; cases s) (simp_all add: is_hard_def contradicts_def)
  show "ev_status v = Confirmed \<longleftrightarrow> (\<forall>(q, d)\<in>report qs v.
      (req_strength q = Required \<longrightarrow> dec_state d = Match) \<and> (req_strength q = Excluded \<longrightarrow> dec_state d = Mismatch))"
    unfolding rep ev(2) product_status_def Let_def list_ex_hard
    by (simp add: st conf ball_conj_distrib)
  note ratio = partial_ratio [OF w len]
  have by_strength: "weighted_ratio qs ?dm definitions s = 1 \<longleftrightarrow>
      (\<forall>(q, d)\<in>report qs v. req_strength q = s \<longrightarrow> dec_state d = Match)" for s
    unfolding weighted_ratio_def Let_def ratio(2) [OF refl] rep by (auto simp: st)
  show "ev_required_ratio v = 1 \<longleftrightarrow> (\<forall>(q, d)\<in>report qs v. req_strength q = Required \<longrightarrow> dec_state d = Match)"
    "ev_preferred_ratio v = 1 \<longleftrightarrow> (\<forall>(q, d)\<in>report qs v. req_strength q = Preferred \<longrightarrow> dec_state d = Match)"
    unfolding ev(3,4) by (rule by_strength)+
  show "ev_coverage v = 1 \<longleftrightarrow> (\<forall>(q, d)\<in>report qs v. dec_state d \<in> {Match, Mismatch})"
    unfolding ev(5) evidence_coverage_def ratio(2) [OF all_filter] rep by (simp add: st)
  show "score_value (ev_required_ratio v) \<and> score_value (ev_preferred_ratio v) \<and> score_value (ev_coverage v)"
    unfolding ev(3-5) using evaluation_scores [OF w len] by simp
qed

section \<open>Evaluating the adjudicator's decisions\<close>

lemma map_result_ex:
  assumes "\<forall>x\<in>set xs. \<exists>y. f x = Inr y \<and> P x y"
  shows "\<exists>ys. map_result f xs = Inr ys \<and> list_all2 P xs ys"
  using assms by (induction xs) fastforce+

lemma evaluate_succeeds:
  assumes n: "normalize_typed_requirements U H r drafts = Inr qs"
    and U: "ascii_library U" and k: "short_keys r" and s: "\<forall>q\<in>set qs. settled_requirement U q"
    and H: "hex_hash H" and product: "is_digest product"
    and ds: "list_all2 (\<lambda>q d. \<exists>obs. adjudicate_requirement U H r q product obs = Inr d) qs ds"
  shows "\<exists>v. evaluate_typed_product U H r qs ds product = Inr v"
proof -
  let ?g = "canonical_sha256 H registry_domain (registry_json r)"
  let ?qm = "map (\<lambda>q. (req_id q, q)) qs" and ?dm = "map (\<lambda>d. (dec_requirement d, d)) ds"
  note r = normalized_parts(1) [OF n]
  have ids: "distinct (map req_id qs)" and len: "length qs \<le> 64"
    using normalized_ids(1,2) [OF normalized_parts(4) [OF n] r] normalized_parts(2,3) [OF n]
    by (simp_all add: max_requirements_def)
  have spec: "list_all2 (\<lambda>q d. dec_requirement d = req_id q \<and> dec_product d = product \<and> dec_registry d = ?g \<and>
      typed_requirement_set_sha256 U H r [q] = Inr (dec_requirement_sha256 d) \<and> validate_decision d = Inr ()) qs ds"
    using ds
  proof (rule list_all2_mono)
    fix q d assume "\<exists>obs. adjudicate_requirement U H r q product obs = Inr d"
    then obtain obs where d: "adjudicate_requirement U H r q product obs = Inr d" ..
    from adjudicate_spec(4-8) [OF d]
    show "dec_requirement d = req_id q \<and> dec_product d = product \<and> dec_registry d = ?g \<and>
      typed_requirement_set_sha256 U H r [q] = Inr (dec_requirement_sha256 d) \<and> validate_decision d = Inr ()"
      by simp
  qed
  have same_ids: "map dec_requirement ds = map req_id qs"
    using spec by (induction rule: list_all2_induct) simp_all
  have requirement: "\<exists>q. q \<in> set qs \<and> dec_requirement d = req_id q \<and> dec_product d = product \<and>
      dec_registry d = ?g \<and> typed_requirement_set_sha256 U H r [q] = Inr (dec_requirement_sha256 d) \<and>
      validate_decision d = Inr ()" if "d \<in> set ds" for d
    using spec that by (force simp: list_all2_conv_all_nth in_set_conv_nth)
  have valid: "\<forall>q\<in>set qs. \<exists>p. validated_requirement U H r q = Inr p \<and> fst p = q"
    using normalized_requirement [OF n U k s] by (metis fst_conv)
  obtain vs where vs: "map_result (validated_requirement U H r) qs = Inr vs" "list_all2 (\<lambda>q p. fst p = q) qs vs"
    using map_result_ex [OF valid] by blast
  have fst_vs: "map fst vs = qs" using vs(2) by (induction rule: list_all2_induct) simp_all
  have check: "check_decision U H r ?qm product ?g d = Inr ()" if d: "d \<in> set ds" for d
  proof -
    obtain q where "q \<in> set qs" "dec_requirement d = req_id q" "dec_product d = product"
      "dec_registry d = ?g" "typed_requirement_set_sha256 U H r [q] = Inr (dec_requirement_sha256 d)"
      using requirement [OF d] by blast
    with dict_get_keyed [OF ids, of q] show ?thesis by (simp add: check_decision_def Let_def)
  qed
  let ?f = "\<lambda>q. bind (attribute_definition_of U r (req_key q)) (\<lambda>d. Inr (req_key q, d))"
  have "\<forall>q\<in>set qs. \<exists>p. ?f q = Inr p \<and> fst p = req_key q \<and> attribute_definition_of U r (fst p) = Inr (snd p)"
  proof
    fix q assume "q \<in> set qs"
    then obtain a where "attribute_definition_of U r (req_key q) = Inr a"
      using normalized_requirement [OF n U k s] by metis
    then show "\<exists>p. ?f q = Inr p \<and> fst p = req_key q \<and> attribute_definition_of U r (fst p) = Inr (snd p)" by simp
  qed
  from map_result_ex [OF this] obtain definitions where defs: "map_result ?f qs = Inr definitions"
    "list_all2 (\<lambda>q p. fst p = req_key q \<and> attribute_definition_of U r (fst p) = Inr (snd p)) qs definitions"
    by blast
  have weights: "\<forall>q\<in>set qs. 1 \<le> weight_of definitions q \<and> weight_of definitions q \<le> 100"
  proof
    fix q assume q: "q \<in> set qs"
    have "req_key q \<in> fst ` set definitions"
      using q defs(2) by (force simp: list_all2_conv_all_nth in_set_conv_nth)
    then obtain a where a: "dict_get definitions (req_key q) = Some a" using dict_get_exists by metis
    then have "(req_key q, a) \<in> set definitions" by (rule dict_get_mem)
    then have "attribute_definition_of U r (req_key q) = Inr a"
      using defs(2) by (force simp: list_all2_conv_all_nth in_set_conv_nth)
    with a show "1 \<le> weight_of definitions q \<and> weight_of definitions q \<le> 100"
      using attribute_definition_weight by (simp add: weight_of_def)
  qed
  note scores = evaluation_scores [OF weights len, of ?dm]
  obtain h where h: "typed_requirement_set_sha256 U H r qs = Inr h" "is_digest h"
    using normalized_digest(2) [OF n U k s ids order_refl] hex_canonical [OF H] by auto
  have decs: "map (\<lambda>q. the (dict_get ?dm (req_id q))) qs = ds"
  proof (rule nth_equalityI)
    show l: "length (map (\<lambda>q. the (dict_get ?dm (req_id q))) qs) = length ds"
      using list_all2_lengthD [OF ds] by simp
    fix i assume "i < length (map (\<lambda>q. the (dict_get ?dm (req_id q))) qs)"
    then have i: "i < length qs" "i < length ds" using l by simp_all
    then have "dec_requirement (ds ! i) = req_id (qs ! i)" using same_ids by (metis nth_map)
    moreover have "distinct (map dec_requirement ds)" using ids same_ids by simp
    ultimately show "map (\<lambda>q. the (dict_get ?dm (req_id q))) qs ! i = ds ! i"
      using dict_get_keyed [of dec_requirement ds "ds ! i"] i by simp
  qed
  let ?v = "\<lparr>ev_product = product, ev_registry = ?g, ev_requirement_set = h,
      ev_status = product_status qs ?dm, ev_required_ratio = weighted_ratio qs ?dm definitions Required,
      ev_preferred_ratio = weighted_ratio qs ?dm definitions Preferred,
      ev_coverage = evidence_coverage qs ?dm definitions, ev_decisions = ds\<rparr>"
  have "length ds \<le> 64" using len list_all2_lengthD [OF ds] by simp
  moreover have "\<not> list_ex (\<lambda>d. dec_product d \<noteq> product) ds" "\<not> list_ex (\<lambda>d. dec_registry d \<noteq> ?g) ds"
    using requirement by (auto simp: list_ex_iff)
  moreover have decisions: "check_all validate_decision ds = Inr ()" using requirement by auto
  ultimately have ok: "validate_evaluation ?v = Inr ()"
    using product h(2) hex_canonical [OF H] scores ids same_ids
    by (simp add: validate_evaluation_def not_less)
  have "evaluate_typed_product U H r qs ds product = Inr ?v"
    using r vs(1) ids same_ids decisions check h(1) ok defs(1)
    by (simp add: evaluate_typed_product_def attribute_registry_sha256_def Let_def fst_vs decs
        del: map_map list.set_map check_all_eq_Inr [where f = validate_decision])
  then show ?thesis by blast
qed

end
