(* ===== verification/Default_Registry.thy ===== *)
theory Default_Registry
  imports Typed_Requirements_Props
begin

text \<open>
  The registry of the repository, \<open>DEFAULT_ATTRIBUTE_REGISTRY\<close>: six attributes with their aliases,
  the Japanese names as the bytes of their UTF-8 form. It passes the validators of the module for
  every library that treats its names as the Unicode functions do.
\<close>

section \<open>The attributes\<close>

definition structured_evidence :: evidence_rule where
  "structured_evidence =
    \<lparr>rule_source = Structured, rule_priority = 10, rule_evaluator = ''observed-structured-value'',
     rule_version = ''1''\<rparr>"

definition title_evidence :: evidence_rule where
  "title_evidence =
    \<lparr>rule_source = Title_exact, rule_priority = 20, rule_evaluator = ''bounded-title-exact'',
     rule_version = ''1''\<rparr>"

definition aliases_of :: "(string \<times> string) list \<Rightarrow> value_alias list" where
  "aliases_of ps = map (\<lambda>(a, c). \<lparr>alias_text = a, alias_canonical = c\<rparr>) ps"

definition appearance_color_attribute :: attribute_definition where
  "appearance_color_attribute =
    \<lparr>attr_category = ''appearance'', attr_key = ''appearance.color'', attr_aliases = [[CHR 0xE8, CHR 0x89, CHR 0xB2], [CHR 0xE3, CHR 0x82, CHR 0xAB, CHR 0xE3, CHR 0x83, CHR 0xA9, CHR 0xE3, CHR 0x83, CHR 0xBC]],
     attr_type = Enum_type, attr_operators = [Equals, One_of],
     attr_strengths = [Required, Preferred, Excluded], attr_units = [],
     attr_unit_aliases = [],
     attr_values = [''black'', ''blue'', ''brown'', ''gray'', ''green'', ''red'', ''silver'', ''white''],
     attr_value_aliases = aliases_of
      [([CHR 0xE3, CHR 0x83, CHR 0x96, CHR 0xE3, CHR 0x83, CHR 0xA9, CHR 0xE3, CHR 0x83, CHR 0x83, CHR 0xE3, CHR 0x82, CHR 0xAF], ''black''),
       ([CHR 0xE3, CHR 0x83, CHR 0x96, CHR 0xE3, CHR 0x83, CHR 0xAB, CHR 0xE3, CHR 0x83, CHR 0xBC], ''blue''),
       ([CHR 0xE3, CHR 0x83, CHR 0x96, CHR 0xE3, CHR 0x83, CHR 0xA9, CHR 0xE3, CHR 0x82, CHR 0xA6, CHR 0xE3, CHR 0x83, CHR 0xB3], ''brown''),
       ([CHR 0xE3, CHR 0x82, CHR 0xB0, CHR 0xE3, CHR 0x83, CHR 0xAC, CHR 0xE3, CHR 0x83, CHR 0xBC], ''gray''),
       ([CHR 0xE3, CHR 0x82, CHR 0xB0, CHR 0xE3, CHR 0x83, CHR 0xAA, CHR 0xE3, CHR 0x83, CHR 0xBC, CHR 0xE3, CHR 0x83, CHR 0xB3], ''green''),
       ([CHR 0xE3, CHR 0x83, CHR 0xAC, CHR 0xE3, CHR 0x83, CHR 0x83, CHR 0xE3, CHR 0x83, CHR 0x89], ''red''),
       ([CHR 0xE3, CHR 0x82, CHR 0xB7, CHR 0xE3, CHR 0x83, CHR 0xAB, CHR 0xE3, CHR 0x83, CHR 0x90, CHR 0xE3, CHR 0x83, CHR 0xBC], ''silver''),
       ([CHR 0xE3, CHR 0x83, CHR 0x9B, CHR 0xE3, CHR 0x83, CHR 0xAF, CHR 0xE3, CHR 0x82, CHR 0xA4, CHR 0xE3, CHR 0x83, CHR 0x88], ''white''),
       ([CHR 0xE9, CHR 0xBB, CHR 0x92], ''black''),
       ([CHR 0xE9, CHR 0x9D, CHR 0x92], ''blue''),
       ([CHR 0xE8, CHR 0x8C, CHR 0xB6], ''brown''),
       ([CHR 0xE7, CHR 0x81, CHR 0xB0], ''gray''),
       ([CHR 0xE7, CHR 0xB7, CHR 0x91], ''green''),
       ([CHR 0xE8, CHR 0xB5, CHR 0xA4], ''red''),
       ([CHR 0xE9, CHR 0x8A, CHR 0x80], ''silver''),
       ([CHR 0xE7, CHR 0x99, CHR 0xBD], ''white'')],
     attr_rules = [structured_evidence, title_evidence], attr_weight = 1, attr_visual = True\<rparr>"

definition appearance_style_attribute :: attribute_definition where
  "appearance_style_attribute =
    \<lparr>attr_category = ''appearance'', attr_key = ''appearance.style'', attr_aliases = [[CHR 0xE5, CHR 0xA4, CHR 0x96, CHR 0xE8, CHR 0xA6, CHR 0xB3, CHR 0xE3, CHR 0x82, CHR 0xB9, CHR 0xE3, CHR 0x82, CHR 0xBF, CHR 0xE3, CHR 0x82, CHR 0xA4, CHR 0xE3, CHR 0x83, CHR 0xAB]],
     attr_type = Semantic_type, attr_operators = [Similar_to],
     attr_strengths = [Preferred], attr_units = [],
     attr_unit_aliases = [],
     attr_values = [''gaming'', ''industrial'', ''minimal''],
     attr_value_aliases = aliases_of
      [([CHR 0xE3, CHR 0x82, CHR 0xB2, CHR 0xE3, CHR 0x83, CHR 0xBC, CHR 0xE3, CHR 0x83, CHR 0x9F, CHR 0xE3, CHR 0x83, CHR 0xB3, CHR 0xE3, CHR 0x82, CHR 0xB0], ''gaming''),
       ([CHR 0xE3, CHR 0x82, CHR 0xA4, CHR 0xE3, CHR 0x83, CHR 0xB3, CHR 0xE3, CHR 0x83, CHR 0x80, CHR 0xE3, CHR 0x82, CHR 0xB9, CHR 0xE3, CHR 0x83, CHR 0x88, CHR 0xE3, CHR 0x83, CHR 0xAA, CHR 0xE3, CHR 0x82, CHR 0xA2, CHR 0xE3, CHR 0x83, CHR 0xAB], ''industrial''),
       ([CHR 0xE3, CHR 0x83, CHR 0x9F, CHR 0xE3, CHR 0x83, CHR 0x8B, CHR 0xE3, CHR 0x83, CHR 0x9E, CHR 0xE3, CHR 0x83, CHR 0xAB], ''minimal'')],
     attr_rules = [], attr_weight = 1, attr_visual = True\<rparr>"

definition dimensions_width_attribute :: attribute_definition where
  "dimensions_width_attribute =
    \<lparr>attr_category = ''dimensions'', attr_key = ''dimensions.width'', attr_aliases = [[CHR 0xE5, CHR 0xB9, CHR 0x85]],
     attr_type = Decimal_type, attr_operators = [Equals, At_least, At_most, Between],
     attr_strengths = [Required, Preferred, Excluded], attr_units = [''mm''],
     attr_unit_aliases = aliases_of
      [([CHR 0xE3, CHR 0x83, CHR 0x9F, CHR 0xE3, CHR 0x83, CHR 0xAA, CHR 0xE3, CHR 0x83, CHR 0xA1, CHR 0xE3, CHR 0x83, CHR 0xBC, CHR 0xE3, CHR 0x83, CHR 0x88, CHR 0xE3, CHR 0x83, CHR 0xAB], ''mm'')],
     attr_values = [],
     attr_value_aliases = [],
     attr_rules = [structured_evidence, title_evidence], attr_weight = 1, attr_visual = False\<rparr>"

definition form_orientation_attribute :: attribute_definition where
  "form_orientation_attribute =
    \<lparr>attr_category = ''form'', attr_key = ''form.orientation'', attr_aliases = [[CHR 0xE5, CHR 0x90, CHR 0x91, CHR 0xE3, CHR 0x81, CHR 0x8D]],
     attr_type = Enum_type, attr_operators = [Equals, One_of],
     attr_strengths = [Required, Preferred, Excluded], attr_units = [],
     attr_unit_aliases = [],
     attr_values = [''horizontal'', ''vertical''],
     attr_value_aliases = aliases_of
      [([CHR 0xE6, CHR 0xA8, CHR 0xAA], ''horizontal''),
       ([CHR 0xE6, CHR 0xA8, CHR 0xAA, CHR 0xE5, CHR 0x9E, CHR 0x8B], ''horizontal''),
       ([CHR 0xE7, CHR 0xB8, CHR 0xA6], ''vertical''),
       ([CHR 0xE7, CHR 0xB8, CHR 0xA6, CHR 0xE5, CHR 0x9E, CHR 0x8B], ''vertical'')],
     attr_rules = [structured_evidence, title_evidence], attr_weight = 1, attr_visual = True\<rparr>"

definition form_shape_attribute :: attribute_definition where
  "form_shape_attribute =
    \<lparr>attr_category = ''form'', attr_key = ''form.shape'', attr_aliases = [[CHR 0xE5, CHR 0xBD, CHR 0xA2, CHR 0xE7, CHR 0x8A, CHR 0xB6], [CHR 0xE5, CHR 0xBD, CHR 0xA2]],
     attr_type = Enum_type, attr_operators = [Equals, One_of],
     attr_strengths = [Required, Preferred, Excluded], attr_units = [],
     attr_unit_aliases = [],
     attr_values = [''cylindrical'', ''oval'', ''rectangular'', ''round'', ''spherical'', ''square''],
     attr_value_aliases = aliases_of
      [([CHR 0xE5, CHR 0x86, CHR 0x86, CHR 0xE7, CHR 0xAD, CHR 0x92, CHR 0xE5, CHR 0xBD, CHR 0xA2], ''cylindrical''),
       ([CHR 0xE6, CHR 0xA5, CHR 0x95, CHR 0xE5, CHR 0x86, CHR 0x86, CHR 0xE5, CHR 0xBD, CHR 0xA2], ''oval''),
       ([CHR 0xE9, CHR 0x95, CHR 0xB7, CHR 0xE6, CHR 0x96, CHR 0xB9, CHR 0xE5, CHR 0xBD, CHR 0xA2], ''rectangular''),
       ([CHR 0xE4, CHR 0xB8, CHR 0xB8, CHR 0xE5, CHR 0xBD, CHR 0xA2], ''round''),
       ([CHR 0xE4, CHR 0xB8, CHR 0xB8, CHR 0xE3, CHR 0x81, CHR 0x84], ''round''),
       ([CHR 0xE5, CHR 0x86, CHR 0x86, CHR 0xE5, CHR 0xBD, CHR 0xA2], ''round''),
       ([CHR 0xE7, CHR 0x90, CHR 0x83, CHR 0xE5, CHR 0xBD, CHR 0xA2], ''spherical''),
       ([CHR 0xE6, CHR 0xAD, CHR 0xA3, CHR 0xE6, CHR 0x96, CHR 0xB9, CHR 0xE5, CHR 0xBD, CHR 0xA2], ''square'')],
     attr_rules = [structured_evidence, title_evidence], attr_weight = 1, attr_visual = True\<rparr>"

definition material_type_attribute :: attribute_definition where
  "material_type_attribute =
    \<lparr>attr_category = ''material'', attr_key = ''material.type'', attr_aliases = [[CHR 0xE6, CHR 0x9D, CHR 0x90, CHR 0xE8, CHR 0xB3, CHR 0xAA], [CHR 0xE7, CHR 0xB4, CHR 0xA0, CHR 0xE6, CHR 0x9D, CHR 0x90]],
     attr_type = Enum_type, attr_operators = [Equals, One_of],
     attr_strengths = [Required, Preferred, Excluded], attr_units = [],
     attr_unit_aliases = [],
     attr_values = [''bone_china'', ''earthenware'', ''glass'', ''plastic'', ''porcelain'', ''stainless_steel'', ''stoneware'', ''wood''],
     attr_value_aliases = aliases_of
      [([CHR 0xE9, CHR 0x99, CHR 0xB6, CHR 0xE5, CHR 0x99, CHR 0xA8], ''earthenware''),
       ([CHR 0xE9, CHR 0x99, CHR 0xB6, CHR 0xE5, CHR 0x99, CHR 0xA8, CHR 0xE8, CHR 0xA3, CHR 0xBD], ''earthenware''),
       ([CHR 0xE7, CHR 0xA3, CHR 0x81, CHR 0xE5, CHR 0x99, CHR 0xA8], ''porcelain''),
       ([CHR 0xE7, CHR 0xA3, CHR 0x81, CHR 0xE5, CHR 0x99, CHR 0xA8, CHR 0xE8, CHR 0xA3, CHR 0xBD], ''porcelain''),
       ([CHR 0xE3, CHR 0x83, CHR 0x9C, CHR 0xE3, CHR 0x83, CHR 0xBC, CHR 0xE3, CHR 0x83, CHR 0xB3, CHR 0xE3, CHR 0x83, CHR 0x81, CHR 0xE3, CHR 0x83, CHR 0xA3, CHR 0xE3, CHR 0x82, CHR 0xA4, CHR 0xE3, CHR 0x83, CHR 0x8A], ''bone_china''),
       (''bone china'', ''bone_china''),
       ([CHR 0xE7, CHR 0x82, CHR 0xBB, CHR 0xE5, CHR 0x99, CHR 0xA8], ''stoneware''),
       ([CHR 0xE3, CHR 0x81, CHR 0x9B, CHR 0xE3, CHR 0x81, CHR 0xA3, CHR 0xE5, CHR 0x99, CHR 0xA8], ''stoneware''),
       ([CHR 0xE3, CHR 0x82, CHR 0xB9, CHR 0xE3, CHR 0x83, CHR 0x88, CHR 0xE3, CHR 0x83, CHR 0xBC, CHR 0xE3, CHR 0x83, CHR 0xB3, CHR 0xE3, CHR 0x82, CHR 0xA6, CHR 0xE3, CHR 0x82, CHR 0xA7, CHR 0xE3, CHR 0x82, CHR 0xA2], ''stoneware''),
       ([CHR 0xE3, CHR 0x82, CHR 0xAC, CHR 0xE3, CHR 0x83, CHR 0xA9, CHR 0xE3, CHR 0x82, CHR 0xB9], ''glass''),
       ([CHR 0xE3, CHR 0x82, CHR 0xAC, CHR 0xE3, CHR 0x83, CHR 0xA9, CHR 0xE3, CHR 0x82, CHR 0xB9, CHR 0xE8, CHR 0xA3, CHR 0xBD], ''glass''),
       ([CHR 0xE3, CHR 0x83, CHR 0x97, CHR 0xE3, CHR 0x83, CHR 0xA9, CHR 0xE3, CHR 0x82, CHR 0xB9, CHR 0xE3, CHR 0x83, CHR 0x81, CHR 0xE3, CHR 0x83, CHR 0x83, CHR 0xE3, CHR 0x82, CHR 0xAF], ''plastic''),
       ([CHR 0xE6, CHR 0xA8, CHR 0xB9, CHR 0xE8, CHR 0x84, CHR 0x82], ''plastic''),
       ([CHR 0xE3, CHR 0x82, CHR 0xB9, CHR 0xE3, CHR 0x83, CHR 0x86, CHR 0xE3, CHR 0x83, CHR 0xB3, CHR 0xE3, CHR 0x83, CHR 0xAC, CHR 0xE3, CHR 0x82, CHR 0xB9], ''stainless_steel''),
       (''stainless steel'', ''stainless_steel''),
       ([CHR 0xE6, CHR 0x9C, CHR 0xA8, CHR 0xE8, CHR 0xA3, CHR 0xBD], ''wood''),
       (''wooden'', ''wood'')],
     attr_rules = [structured_evidence, title_evidence], attr_weight = 1, attr_visual = False\<rparr>"

definition default_attribute_registry :: attribute_registry where
  "default_attribute_registry =
    \<lparr>reg_id = ''common-attribute-registry-v4'',
     reg_definitions = [appearance_color_attribute, appearance_style_attribute,
       dimensions_width_attribute, form_orientation_attribute, form_shape_attribute,
       material_type_attribute]\<rparr>"

section \<open>Its validity\<close>

text \<open>A library of plain text: names are their own normal form and words end at spaces. Any library
  that reads the names of a definition this way validates the definition as this one does.\<close>

fun split_spaces :: "string \<Rightarrow> string list" where
  "split_spaces [] = [[]]"
| "split_spaces (c # s) =
     (if c = CHR '' '' then [] # split_spaces s
      else case split_spaces s of [] \<Rightarrow> [[c]] | w # ws \<Rightarrow> (c # w) # ws)"

definition plain_library :: text_library where
  "plain_library = \<lparr>nfkc = (\<lambda>s. s), casefold = (\<lambda>s. s),
     split_words = (\<lambda>s. filter (\<lambda>w. w \<noteq> []) (split_spaces s)), has_control = (\<lambda>_. False),
     digits_ok = (\<lambda>_. True), digit_of = (\<lambda>ch. if length ch = 1 \<and> chars_in digit_chars ch then Some (dec_val ch) else None),
     alphanumeric = chars_in alnum_chars, upper_text = (\<lambda>s. s)\<rparr>"

definition reads_plainly :: "text_library \<Rightarrow> string \<Rightarrow> bool" where
  "reads_plainly U s \<longleftrightarrow> nfkc U s = s \<and> casefold U s = s \<and>
     split_words U s = split_words plain_library s \<and> \<not> has_control U s"

definition definition_names :: "attribute_definition \<Rightarrow> string list" where
  "definition_names d = attr_names d @ attr_units d @ map alias_text (attr_unit_aliases d) @
     attr_values d @ map alias_text (attr_value_aliases d)"

definition registry_reads_plainly :: "text_library \<Rightarrow> attribute_registry \<Rightarrow> bool" where
  "registry_reads_plainly U r \<longleftrightarrow>
     (\<forall>d\<in>set (reg_definitions r). \<forall>n\<in>set (definition_names d). reads_plainly U n)"

lemma plain_reading:
  assumes "reads_plainly U s"
  shows "text_identity U s = text_identity plain_library s"
    and "normalize_text U s = normalize_text plain_library s"
  using assms by (simp_all add: reads_plainly_def text_identity_def normalize_text_def plain_library_def)

lemma plain_definition:
  assumes "\<forall>n\<in>set (definition_names d). reads_plainly U n"
  shows "validate_definition U d = validate_definition plain_library d"
proof -
  have ident: "text_identity U n = text_identity plain_library n" if "n \<in> set (definition_names d)" for n
    using assms that plain_reading(1) by blast
  have al: "list_all (value_alias_ok U) as = list_all (value_alias_ok plain_library) as"
    "aliases_unique U as = aliases_unique plain_library as"
    if "\<forall>a\<in>set as. reads_plainly U (alias_text a)" for as
    using that plain_reading [of U]
    by (auto simp: list_all_iff value_alias_ok_def aliases_unique_def intro!: arg_cong [where f = distinct])
  have pairs: "canonical_pairs U vs = canonical_pairs plain_library vs"
    if "\<forall>v\<in>set vs. reads_plainly U v" for vs
    using that plain_reading(1) [of U] by (simp add: canonical_pairs_def)
  have over: "alias_overrides U vs as = alias_overrides plain_library vs as"
    if "\<forall>v\<in>set vs. reads_plainly U v" "\<forall>a\<in>set as. reads_plainly U (alias_text a)" for vs as
    using that(2) plain_reading(1) [of U] unfolding alias_overrides_def pairs [OF that(1)]
    by (auto simp: list_ex_iff)
  have parts: "\<forall>n\<in>set (attr_names d). reads_plainly U n" "\<forall>n\<in>set (attr_units d). reads_plainly U n"
    "\<forall>a\<in>set (attr_unit_aliases d). reads_plainly U (alias_text a)"
    "\<forall>n\<in>set (attr_values d). reads_plainly U n"
    "\<forall>a\<in>set (attr_value_aliases d). reads_plainly U (alias_text a)"
    using assms by (simp_all add: definition_names_def)
  have "map (text_identity U) (attr_aliases d) = map (text_identity plain_library) (attr_aliases d)"
    using parts(1) plain_reading(1) [of U] by (simp add: attr_names_def)
  then have "has_unique_text U (attr_aliases d) = has_unique_text plain_library (attr_aliases d)"
    by (simp only: has_unique_text_def)
  moreover have "definition_fields U d = definition_fields plain_library d"
    by (simp only: definition_fields_def al(1) [OF parts(3)] al(1) [OF parts(5)])
  ultimately show ?thesis
    by (simp only: validate_definition_def al(2) [OF parts(3)] al(2) [OF parts(5)]
        over [OF parts(2,3)] over [OF parts(4,5)])
qed

lemma check_all_cong: "\<forall>x\<in>set xs. f x = g x \<Longrightarrow> check_all f xs = check_all g xs"
  by (induction xs) auto

lemma plain_registry:
  assumes "registry_reads_plainly U r"
  shows "validate_registry U r = validate_registry plain_library r"
proof -
  let ?ds = "reg_definitions r"
  have "\<forall>d\<in>set ?ds. validate_definition U d = validate_definition plain_library d"
    using assms plain_definition by (simp add: registry_reads_plainly_def)
  then have ds: "check_all (validate_definition U) ?ds = check_all (validate_definition plain_library) ?ds"
    by (rule check_all_cong)
  have names: "map (\<lambda>n. (text_identity U n, attr_key d)) (attr_names d) =
      map (\<lambda>n. (text_identity plain_library n, attr_key d)) (attr_names d)" if d: "d \<in> set ?ds" for d
  proof (rule map_cong [OF refl])
    fix n assume "n \<in> set (attr_names d)"
    then have "n \<in> set (definition_names d)" by (simp add: definition_names_def)
    then have "reads_plainly U n" using assms d unfolding registry_reads_plainly_def by blast
    from plain_reading(1) [OF this]
    show "(text_identity U n, attr_key d) = (text_identity plain_library n, attr_key d)" by simp
  qed
  have "registry_names U ?ds = registry_names plain_library ?ds"
    unfolding registry_names_def by (simp only: names cong: map_cong)
  with ds show ?thesis by (simp only: validate_registry_def)
qed

lemma appearance_color_valid: "validate_definition plain_library appearance_color_attribute = Inr ()"
  by code_simp

lemma appearance_style_valid: "validate_definition plain_library appearance_style_attribute = Inr ()"
  by code_simp

lemma dimensions_width_valid: "validate_definition plain_library dimensions_width_attribute = Inr ()"
  by code_simp

lemma form_orientation_valid: "validate_definition plain_library form_orientation_attribute = Inr ()"
  by code_simp

lemma form_shape_valid: "validate_definition plain_library form_shape_attribute = Inr ()"
  by code_simp

lemma material_type_valid: "validate_definition plain_library material_type_attribute = Inr ()"
  by code_simp

lemmas default_definitions_valid = appearance_color_valid appearance_style_valid dimensions_width_valid
  form_orientation_valid form_shape_valid material_type_valid

lemma default_keys:
  "map attr_key (reg_definitions default_attribute_registry) =
    [''appearance.color'', ''appearance.style'', ''dimensions.width'', ''form.orientation'',
     ''form.shape'', ''material.type'']"
  by code_simp

lemma default_registry_plain: "validate_registry plain_library default_attribute_registry = Inr ()"
proof -
  let ?r = "default_attribute_registry"
  have defs: "check_all (validate_definition plain_library) (reg_definitions ?r) = Inr ()"
    by (simp add: default_attribute_registry_def default_definitions_valid)
  have names: "bind_identities [] (registry_names plain_library (reg_definitions ?r)) = Inr ()"
    by code_simp
  have keys: "sort (map attr_key (reg_definitions ?r)) = map attr_key (reg_definitions ?r)"
    "distinct (map attr_key (reg_definitions ?r))"
    unfolding default_keys by code_simp+
  have "is_identifier (reg_id ?r)" by code_simp
  moreover have "reg_definitions ?r \<noteq> []" "length (reg_definitions ?r) \<le> max_attribute_definitions"
    by (simp_all add: default_attribute_registry_def max_attribute_definitions_def)
  ultimately show ?thesis using defs names keys
    by (simp add: validate_registry_def Let_def)
qed

lemma default_registry_valid:
  "registry_reads_plainly U default_attribute_registry \<Longrightarrow>
    validate_registry U default_attribute_registry = Inr ()"
  by (simp only: plain_registry default_registry_plain)

lemma default_short_keys: "short_keys default_attribute_registry"
proof -
  have "\<forall>k\<in>set (map attr_key (reg_definitions default_attribute_registry)). length k \<le> 200"
    unfolding default_keys by simp
  then show ?thesis
    using text_length_le by (auto simp: short_keys_def max_text_characters_def intro: le_trans)
qed

text \<open>The plain library satisfies what the development assumes of a library.\<close>

lemma split_spaces_none: "CHR '' '' \<notin> set s \<Longrightarrow> split_spaces s = [s]"
  by (induction s) auto

lemma ascii_plain_library: "ascii_library plain_library"
proof -
  have "CHR '' '' \<notin> set s" if "is_identifier s \<or> is_attribute_key s" for s
  proof
    assume space: "CHR '' '' \<in> set s"
    have "CHR '' '' \<in> set (lower_chars @ digit_chars @ ''_-'')" if "is_identifier s"
      using space that by (auto simp: is_identifier_def chars_in_def list_all_iff)
    moreover have "\<exists>w\<in>set (split_dots s). CHR '' '' \<in> set w" using space
    proof (induction s)
      case (Cons c s)
      then show ?case by (auto split: list.splits)
    qed simp
    then have "CHR '' '' \<in> set (lower_chars @ digit_chars @ ''_'')" if "is_attribute_key s"
      using that by (auto simp: is_attribute_key_def is_key_segment_def chars_in_def list_all_iff)
    ultimately show False using that by (auto simp: lower_chars_def digit_chars_def)
  qed
  moreover have "s \<noteq> []" if "is_identifier s \<or> is_attribute_key s" for s
    using that attribute_key_head(1) identifier_nonempty by blast
  ultimately show ?thesis
    unfolding ascii_library_def plain_name_def plain_library_def by (simp add: split_spaces_none)
qed

end
