(* ===== verification/Requirement_Samples.thy ===== *)
theory Requirement_Samples
  imports Product_Evaluation_Props Default_Registry
begin

text \<open>
  Concrete values the witnesses evaluate: two drafts written with Japanese names, their normal forms
  over the registry of the repository, evidence built for them and the decisions reached from it.
\<close>

section \<open>Requirements\<close>

definition sample_hash :: "string \<Rightarrow> string" where
  "sample_hash s = replicate 64 CHR ''a''"

definition black_alias :: string where "black_alias = [CHR 0xE9, CHR 0xBB, CHR 0x92]"
definition color_name :: string where "color_name = [CHR 0xE8, CHR 0x89, CHR 0xB2]"
definition width_name :: string where "width_name = [CHR 0xE5, CHR 0xB9, CHR 0x85]"

definition color_draft :: requirement_draft where
  "color_draft = \<lparr>draft_id = ''color'', draft_key = color_name, draft_operator = Equals,
     draft_target = EnumTarget [black_alias], draft_strength = Required\<rparr>"

definition width_draft :: requirement_draft where
  "width_draft = \<lparr>draft_id = ''width'', draft_key = width_name, draft_operator = At_most,
     draft_target = DecimalTarget None (Some (Dec False 1500 (- 1))) ''mm'', draft_strength = Preferred\<rparr>"

definition color_requirement :: typed_requirement where
  "color_requirement = \<lparr>req_id = ''color'', req_key = ''appearance.color'', req_operator = Equals,
     req_target = EnumTarget [''black''], req_strength = Required, req_registry = replicate 64 CHR ''a''\<rparr>"

definition width_requirement :: typed_requirement where
  "width_requirement = \<lparr>req_id = ''width'', req_key = ''dimensions.width'', req_operator = At_most,
     req_target = DecimalTarget None (Some (Dec False 15 1)) ''mm'', req_strength = Preferred,
     req_registry = replicate 64 CHR ''a''\<rparr>"

lemma sample_hash_hex: "hex_hash sample_hash"
  by (simp add: hex_hash_def sample_hash_def hex_chars_def)

text \<open>The samples use the hash for the digest of the registry only.\<close>

definition sample_bound :: "(string \<Rightarrow> string) \<Rightarrow> bool" where
  "sample_bound H \<longleftrightarrow> hex_hash H \<and>
     canonical_sha256 H registry_domain (registry_json default_attribute_registry) = replicate 64 CHR ''a''"

lemma sample_digest:
  "sample_bound H \<Longrightarrow>
    canonical_sha256 H registry_domain (registry_json default_attribute_registry) = replicate 64 CHR ''a''"
  by (simp add: sample_bound_def)

lemma sample_hash_bound: "sample_bound sample_hash"
  by (simp add: sample_bound_def sample_hash_hex) (simp add: canonical_sha256_def sample_hash_def)

lemma default_members:
  "appearance_color_attribute \<in> set (reg_definitions default_attribute_registry)"
  "dimensions_width_attribute \<in> set (reg_definitions default_attribute_registry)"
  by (simp_all add: default_attribute_registry_def)

lemma sample_lookups:
  "definition_lookup plain_library default_attribute_registry color_name = Some appearance_color_attribute"
  "definition_lookup plain_library default_attribute_registry width_name = Some dimensions_width_attribute"
proof -
  have "color_name \<in> set (attr_names appearance_color_attribute)"
    "width_name \<in> set (attr_names dimensions_width_attribute)"
    by (simp_all add: attr_names_def appearance_color_attribute_def dimensions_width_attribute_def
        color_name_def width_name_def)
  from names_resolve [OF default_registry_plain default_members(1) this(1)]
    names_resolve [OF default_registry_plain default_members(2) this(2)]
  show "definition_lookup plain_library default_attribute_registry color_name = Some appearance_color_attribute"
    "definition_lookup plain_library default_attribute_registry width_name = Some dimensions_width_attribute"
    by (simp_all add: text_identity_def plain_library_def)
qed

lemma sample_names:
  "normalize_text plain_library color_name = Inr color_name"
  "normalize_text plain_library width_name = Inr width_name"
  "text_identity plain_library s = s"
  by (code_simp, code_simp, simp add: text_identity_def plain_library_def)

lemma sample_alias: "normalize_allowed_value plain_library appearance_color_attribute black_alias = Inr ''black''"
proof -
  have "\<lparr>alias_text = black_alias, alias_canonical = ''black''\<rparr> \<in> set (attr_value_aliases appearance_color_attribute)"
    by (simp add: appearance_color_attribute_def aliases_of_def black_alias_def)
  from aliases_resolve_to_canonical(1) [OF appearance_color_valid this] show ?thesis by simp
qed

lemma sample_unit: "normalize_unit plain_library dimensions_width_attribute ''mm'' = Inr ''mm''"
  by code_simp

lemma sample_decimals:
  "canonical_decimal (Dec False 1500 (- 1)) = Dec False 15 1" "decimal_value plain_library (Dec False 15 1)"
  "canonical_decimal (Dec False 1499 (- 1)) = Dec False 1499 (- 1)"
  "decimal_value plain_library (Dec False 1499 (- 1))"
  by (simp_all add: canonical_decimal_def strip_zeros.simps decimal_value_def dec_le_def common_exponent_def
      decimal_of_def min_numeric_value_def max_numeric_value_def plain_library_def)

lemma sample_bounded: "bounded_text ''black''" "bounded_text ''mm''"
  by code_simp+

lemma sample_validated:
  "validate_target plain_library (EnumTarget [''black'']) = Inr (EnumTarget [''black''])"
  "validate_target plain_library (DecimalTarget None (Some (Dec False 15 1)) ''mm'') =
     Inr (DecimalTarget None (Some (Dec False 15 1)) ''mm'')"
  using sample_decimals sample_bounded
  by (simp_all add: validate_target_def set_values_def max_set_values_def has_unique_text_def)

lemma sample_targets:
  "normalize_target plain_library appearance_color_attribute Equals (EnumTarget [black_alias]) =
     Inr (EnumTarget [''black''])"
  "normalize_target plain_library dimensions_width_attribute At_most
     (DecimalTarget None (Some (Dec False 1500 (- 1))) ''mm'') =
     Inr (DecimalTarget None (Some (Dec False 15 1)) ''mm'')"
proof -
  have "attr_type appearance_color_attribute = Enum_type" "attr_type dimensions_width_attribute = Decimal_type"
    by (simp_all add: appearance_color_attribute_def dimensions_width_attribute_def)
  then show "normalize_target plain_library appearance_color_attribute Equals (EnumTarget [black_alias]) =
     Inr (EnumTarget [''black''])"
    "normalize_target plain_library dimensions_width_attribute At_most
     (DecimalTarget None (Some (Dec False 1500 (- 1))) ''mm'') =
     Inr (DecimalTarget None (Some (Dec False 15 1)) ''mm'')"
    using sample_validated sample_unit sample_alias
    by (simp_all add: normalize_target_def sample_decimals validate_numeric_bounds_def)
qed

lemma sample_attributes:
  "Equals \<in> set (attr_operators appearance_color_attribute)"
  "Required \<in> set (attr_strengths appearance_color_attribute)"
  "attr_key appearance_color_attribute = ''appearance.color''"
  "At_most \<in> set (attr_operators dimensions_width_attribute)"
  "Preferred \<in> set (attr_strengths dimensions_width_attribute)"
  "attr_key dimensions_width_attribute = ''dimensions.width''"
  by (simp_all add: appearance_color_attribute_def dimensions_width_attribute_def)

lemma sample_keys:
  "is_identifier ''color''" "is_identifier ''width''" "is_attribute_key ''appearance.color''"
  "is_attribute_key ''dimensions.width''"
  by code_simp+

lemma sample_requirements_valid:
  "validate_requirement plain_library color_requirement = Inr ()"
  "validate_requirement plain_library width_requirement = Inr ()"
  using sample_keys sample_validated
  by (simp_all add: validate_requirement_def color_requirement_def width_requirement_def hex_chars_def)

lemma sample_drafts_normal:
  "normalize_draft plain_library default_attribute_registry (replicate 64 CHR ''a'') color_draft =
     Inr color_requirement"
  "normalize_draft plain_library default_attribute_registry (replicate 64 CHR ''a'') width_draft =
     Inr width_requirement"
proof -
  note sel = sample_names sample_lookups sample_attributes sample_targets
  show "normalize_draft plain_library default_attribute_registry (replicate 64 CHR ''a'') color_draft =
     Inr color_requirement"
    unfolding normalize_draft_def color_draft_def requirement_draft.select_convs
    by (simp only: sel bind_Inr option.case not_True_eq_False if_False simp_thms Let_def
        color_requirement_def [symmetric] sample_requirements_valid)
  show "normalize_draft plain_library default_attribute_registry (replicate 64 CHR ''a'') width_draft =
     Inr width_requirement"
    unfolding normalize_draft_def width_draft_def requirement_draft.select_convs
    by (simp only: sel bind_Inr option.case not_True_eq_False if_False simp_thms Let_def
        width_requirement_def [symmetric] sample_requirements_valid)
qed

lemma sample_normalized:
  assumes H: "sample_bound H"
  shows "normalize_typed_requirements plain_library H default_attribute_registry
     [color_draft, width_draft] = Inr [color_requirement, width_requirement]"
  using sample_drafts_normal
  by (simp add: normalize_typed_requirements_def default_registry_plain attribute_registry_sha256_def
      sample_digest [OF H] max_requirements_def) (simp add: color_draft_def width_draft_def)

lemma sample_settled: "\<forall>q\<in>set [color_requirement, width_requirement]. settled_requirement U q"
  by (simp add: settled_requirement_def settled_target_def color_requirement_def width_requirement_def)

section \<open>Evidence\<close>

definition sample_product :: string where "sample_product = replicate 64 CHR ''c''"

lemma sample_validated_requirements:
  assumes H: "sample_bound H"
  shows "validated_requirement plain_library H default_attribute_registry color_requirement =
     Inr (color_requirement, appearance_color_attribute)"
    and "validated_requirement plain_library H default_attribute_registry width_requirement =
     Inr (width_requirement, dimensions_width_attribute)"
proof -
  note known = normalized_requirement [OF sample_normalized [OF H] ascii_plain_library default_short_keys sample_settled]
  have lookup: "attribute_definition_of plain_library default_attribute_registry ''appearance.color'' =
      Inr appearance_color_attribute"
    "attribute_definition_of plain_library default_attribute_registry ''dimensions.width'' =
      Inr dimensions_width_attribute"
  proof -
    have n: "normalize_text plain_library ''appearance.color'' = Inr ''appearance.color''"
      "normalize_text plain_library ''dimensions.width'' = Inr ''dimensions.width''"
      by code_simp+
    have "definition_lookup plain_library default_attribute_registry ''appearance.color'' = Some appearance_color_attribute"
      "definition_lookup plain_library default_attribute_registry ''dimensions.width'' = Some dimensions_width_attribute"
      using names_resolve [OF default_registry_plain default_members(1), of "''appearance.color''"]
        names_resolve [OF default_registry_plain default_members(2), of "''dimensions.width''"]
      by (simp_all add: attr_names_def sample_attributes sample_names)
    with n show "attribute_definition_of plain_library default_attribute_registry ''appearance.color'' =
        Inr appearance_color_attribute"
      "attribute_definition_of plain_library default_attribute_registry ''dimensions.width'' =
        Inr dimensions_width_attribute"
      by (simp_all add: attribute_definition_of_def default_registry_plain sample_names)
  qed
  obtain a where "attribute_definition_of plain_library default_attribute_registry (req_key color_requirement) = Inr a"
    "validated_requirement plain_library H default_attribute_registry color_requirement = Inr (color_requirement, a)"
    by (rule known [of color_requirement]) simp_all
  with lookup(1) show "validated_requirement plain_library H default_attribute_registry color_requirement =
     Inr (color_requirement, appearance_color_attribute)"
    by (simp add: color_requirement_def)
  obtain b where "attribute_definition_of plain_library default_attribute_registry (req_key width_requirement) = Inr b"
    "validated_requirement plain_library H default_attribute_registry width_requirement = Inr (width_requirement, b)"
    by (rule known [of width_requirement]) simp_all
  with lookup(2) show "validated_requirement plain_library H default_attribute_registry width_requirement =
     Inr (width_requirement, dimensions_width_attribute)"
    by (simp add: width_requirement_def)
qed

definition color_evidence :: observation where
  "color_evidence = \<lparr>obs_requirement = ''color'', obs_key = ''appearance.color'', obs_product = sample_product,
     obs_source = Structured, obs_priority = 10, obs_status = Status_observed,
     obs_value = Some (EnumObserved ''black''), obs_unknown = None, obs_registry = replicate 64 CHR ''a'',
     obs_evaluator = ''observed-structured-value'', obs_version = ''1'',
     obs_profile = replicate 64 CHR ''d'', obs_artifact = replicate 64 CHR ''e''\<rparr>"

definition width_evidence :: observation where
  "width_evidence = \<lparr>obs_requirement = ''width'', obs_key = ''dimensions.width'', obs_product = sample_product,
     obs_source = Title_exact, obs_priority = 20, obs_status = Status_observed,
     obs_value = Some (DecimalObserved (Dec False 1499 (- 1)) ''mm''), obs_unknown = None,
     obs_registry = replicate 64 CHR ''a'', obs_evaluator = ''bounded-title-exact'', obs_version = ''1'',
     obs_profile = replicate 64 CHR ''d'', obs_artifact = replicate 64 CHR ''e''\<rparr>"

definition color_title :: observation where
  "color_title = \<lparr>obs_requirement = ''color'', obs_key = ''appearance.color'', obs_product = sample_product,
     obs_source = Title_exact, obs_priority = 20, obs_status = Status_observed,
     obs_value = Some (EnumObserved ''blue''), obs_unknown = None, obs_registry = replicate 64 CHR ''a'',
     obs_evaluator = ''bounded-title-exact'', obs_version = ''1'',
     obs_profile = replicate 64 CHR ''d'', obs_artifact = replicate 64 CHR ''e''\<rparr>"

lemma sample_rules:
  "evidence_rule_for appearance_color_attribute Structured = Inr structured_evidence"
  "evidence_rule_for appearance_color_attribute Title_exact = Inr title_evidence"
  "evidence_rule_for dimensions_width_attribute Title_exact = Inr title_evidence"
  by (simp_all add: evidence_rule_for_def appearance_color_attribute_def dimensions_width_attribute_def
      structured_evidence_def title_evidence_def)

lemma sample_values:
  "normalize_observed_value plain_library appearance_color_attribute (EnumObserved black_alias) =
     Inr (EnumObserved ''black'')"
  "normalize_observed_value plain_library dimensions_width_attribute (DecimalObserved (Dec False 1499 (- 1)) ''mm'') =
     Inr (DecimalObserved (Dec False 1499 (- 1)) ''mm'')"
proof -
  have "attr_type appearance_color_attribute = Enum_type" "attr_type dimensions_width_attribute = Decimal_type"
    by (simp_all add: appearance_color_attribute_def dimensions_width_attribute_def)
  then show "normalize_observed_value plain_library appearance_color_attribute (EnumObserved black_alias) =
     Inr (EnumObserved ''black'')"
    "normalize_observed_value plain_library dimensions_width_attribute (DecimalObserved (Dec False 1499 (- 1)) ''mm'') =
     Inr (DecimalObserved (Dec False 1499 (- 1)) ''mm'')"
    using sample_unit sample_alias sample_decimals sample_bounded
    by (simp_all add: normalize_observed_value_def validate_observed_def)
qed

lemma sample_evaluators:
  "is_identifier ''observed-structured-value''" "is_identifier ''bounded-title-exact''" "is_version ''1''"
  by code_simp+

lemma sample_observations_valid:
  "validate_observation plain_library color_evidence = Inr ()"
  "validate_observation plain_library width_evidence = Inr ()"
  using sample_keys sample_evaluators sample_decimals sample_bounded
  by (simp_all add: validate_observation_def observation_fields_def color_evidence_def width_evidence_def
      opt_value_ok_def validate_observed_def sample_product_def hex_chars_def)

lemma sample_built:
  assumes H: "sample_bound H"
  shows "build_evidence_observation plain_library H default_attribute_registry color_requirement
     sample_product Structured (Some (EnumObserved black_alias)) None
     (replicate 64 CHR ''d'') (replicate 64 CHR ''e'') = Inr color_evidence"
    and "build_evidence_observation plain_library H default_attribute_registry width_requirement
     sample_product Title_exact (Some (DecimalObserved (Dec False 1499 (- 1)) ''mm'')) None
     (replicate 64 CHR ''d'') (replicate 64 CHR ''e'') = Inr width_evidence"
proof -
  have rec: "\<lparr>obs_requirement = req_id color_requirement, obs_key = req_key color_requirement,
      obs_product = sample_product, obs_source = rule_source structured_evidence,
      obs_priority = rule_priority structured_evidence, obs_status = Status_observed,
      obs_value = Some (EnumObserved ''black''), obs_unknown = None, obs_registry = replicate 64 CHR ''a'',
      obs_evaluator = rule_evaluator structured_evidence, obs_version = rule_version structured_evidence,
      obs_profile = replicate 64 CHR ''d'', obs_artifact = replicate 64 CHR ''e''\<rparr> = color_evidence"
    "\<lparr>obs_requirement = req_id width_requirement, obs_key = req_key width_requirement,
      obs_product = sample_product, obs_source = rule_source title_evidence,
      obs_priority = rule_priority title_evidence, obs_status = Status_observed,
      obs_value = Some (DecimalObserved (Dec False 1499 (- 1)) ''mm''), obs_unknown = None,
      obs_registry = replicate 64 CHR ''a'',
      obs_evaluator = rule_evaluator title_evidence, obs_version = rule_version title_evidence,
      obs_profile = replicate 64 CHR ''d'', obs_artifact = replicate 64 CHR ''e''\<rparr> = width_evidence"
    by (simp_all add: color_evidence_def width_evidence_def color_requirement_def width_requirement_def
        structured_evidence_def title_evidence_def)
  show "build_evidence_observation plain_library H default_attribute_registry color_requirement
     sample_product Structured (Some (EnumObserved black_alias)) None
     (replicate 64 CHR ''d'') (replicate 64 CHR ''e'') = Inr color_evidence"
    by (simp add: build_evidence_observation_def default_registry_plain sample_validated_requirements [OF H]
        sample_rules sample_values attribute_registry_sha256_def sample_digest [OF H] rec sample_observations_valid Let_def)
  show "build_evidence_observation plain_library H default_attribute_registry width_requirement
     sample_product Title_exact (Some (DecimalObserved (Dec False 1499 (- 1)) ''mm'')) None
     (replicate 64 CHR ''d'') (replicate 64 CHR ''e'') = Inr width_evidence"
    by (simp add: build_evidence_observation_def default_registry_plain sample_validated_requirements [OF H]
        sample_rules sample_values attribute_registry_sha256_def sample_digest [OF H] rec sample_observations_valid Let_def)
qed

lemma sample_evidence:
  assumes H: "sample_bound H"
  shows "evidence_for plain_library H default_attribute_registry color_requirement sample_product color_evidence"
    and "evidence_for plain_library H default_attribute_registry width_requirement sample_product width_evidence"
proof -
  have "opt_all (settled_observed U) (obs_value color_evidence)" "opt_all (settled_observed U) (obs_value width_evidence)" for U
    by (simp_all add: color_evidence_def width_evidence_def settled_observed_def)
  with sample_built [OF H]
  show "evidence_for plain_library H default_attribute_registry color_requirement sample_product color_evidence"
    "evidence_for plain_library H default_attribute_registry width_requirement sample_product width_evidence"
    unfolding evidence_for_def built_evidence_def by blast+
qed

lemma default_single_units: "single_units default_attribute_registry"
  by (simp add: single_units_def default_attribute_registry_def appearance_color_attribute_def
      appearance_style_attribute_def dimensions_width_attribute_def form_orientation_attribute_def
      form_shape_attribute_def material_type_attribute_def)

lemma sample_product_digest: "is_digest sample_product"
  by (simp add: sample_product_def hex_chars_def)

lemma sample_adjudicated:
  assumes H: "sample_bound H"
  shows "\<exists>d. adjudicate_requirement plain_library H default_attribute_registry color_requirement
     sample_product [color_evidence] = Inr d"
    and "\<exists>d. adjudicate_requirement plain_library H default_attribute_registry width_requirement
     sample_product [width_evidence] = Inr d"
  by (rule adjudicate_succeeds [OF sample_normalized [OF H] ascii_plain_library default_short_keys sample_settled
        default_single_units conjunct1 [OF H [unfolded sample_bound_def]] sample_product_digest],
      simp_all add: sample_evidence [OF H] max_evidence_per_requirement_def)+

section \<open>Disagreeing evidence of two priorities\<close>

lemma blue_value:
  "normalize_observed_value plain_library appearance_color_attribute (EnumObserved ''blue'') =
     Inr (EnumObserved ''blue'')"
proof -
  have "''blue'' \<in> set (attr_values appearance_color_attribute)"
    by (simp add: appearance_color_attribute_def)
  from canonical_name_fixed [OF definition_tables(1) [OF ascii_plain_library appearance_color_valid] this]
  have "normalize_allowed_value plain_library appearance_color_attribute ''blue'' = Inr ''blue''"
    by (simp add: normalize_allowed_value_def)
  moreover have "bounded_text ''blue''" by code_simp
  ultimately show ?thesis
    by (simp add: normalize_observed_value_def validate_observed_def appearance_color_attribute_def)
qed

lemma color_title_valid: "validate_observation plain_library color_title = Inr ()"
proof -
  have "bounded_text ''blue''" by code_simp
  then show ?thesis
    using sample_keys sample_evaluators
    by (simp add: validate_observation_def observation_fields_def color_title_def opt_value_ok_def
        validate_observed_def sample_product_def hex_chars_def)
qed

lemma color_title_evidence:
  assumes H: "sample_bound H"
  shows "evidence_for plain_library H default_attribute_registry color_requirement sample_product color_title"
proof -
  have rec: "\<lparr>obs_requirement = req_id color_requirement, obs_key = req_key color_requirement,
      obs_product = sample_product, obs_source = rule_source title_evidence,
      obs_priority = rule_priority title_evidence, obs_status = Status_observed,
      obs_value = Some (EnumObserved ''blue''), obs_unknown = None, obs_registry = replicate 64 CHR ''a'',
      obs_evaluator = rule_evaluator title_evidence, obs_version = rule_version title_evidence,
      obs_profile = replicate 64 CHR ''d'', obs_artifact = replicate 64 CHR ''e''\<rparr> = color_title"
    by (simp add: color_title_def color_requirement_def title_evidence_def)
  have "build_evidence_observation plain_library H default_attribute_registry color_requirement
     sample_product Title_exact (Some (EnumObserved ''blue'')) None
     (replicate 64 CHR ''d'') (replicate 64 CHR ''e'') = Inr color_title"
    by (simp add: build_evidence_observation_def default_registry_plain sample_validated_requirements [OF H]
        sample_rules blue_value attribute_registry_sha256_def sample_digest [OF H] rec color_title_valid Let_def)
  moreover have "opt_all (settled_observed plain_library) (obs_value color_title)"
    by (simp add: color_title_def settled_observed_def)
  ultimately show ?thesis unfolding evidence_for_def built_evidence_def by blast
qed

text \<open>A hash that tells the two observations apart.\<close>

definition title_hash :: "string \<Rightarrow> string" where
  "title_hash s = (if s = observation_domain @ dumps (observation_json color_title)
     then replicate 64 CHR ''b'' else replicate 64 CHR ''a'')"

lemma title_hash_bound: "sample_bound title_hash"
proof -
  have "registry_domain @ s \<noteq> observation_domain @ t" for s t
    by (simp add: registry_domain_def observation_domain_def)
  then show ?thesis
    by (simp add: sample_bound_def hex_hash_def canonical_sha256_def title_hash_def hex_chars_def)
qed

lemma title_hash_digests:
  "evidence_digest title_hash color_title = replicate 64 CHR ''b''"
  "evidence_digest title_hash color_evidence = replicate 64 CHR ''a''"
proof -
  have "sort_keys (observation_json color_evidence) \<noteq> sort_keys (observation_json color_title)"
    unfolding observation_json_def
    by (subst sort_keys_record) (simp_all add: color_evidence_def color_title_def)
  then show "evidence_digest title_hash color_title = replicate 64 CHR ''b''"
    "evidence_digest title_hash color_evidence = replicate 64 CHR ''a''"
    by (simp_all add: evidence_digest_def canonical_sha256_def title_hash_def dumps_eq_iff)
qed

lemma title_adjudicated:
  "\<exists>d. adjudicate_requirement plain_library title_hash default_attribute_registry color_requirement
     sample_product [color_evidence] = Inr d"
  "\<exists>d. adjudicate_requirement plain_library title_hash default_attribute_registry color_requirement
     sample_product [color_evidence, color_title] = Inr d"
  by (rule adjudicate_succeeds [OF sample_normalized [OF title_hash_bound] ascii_plain_library
        default_short_keys sample_settled default_single_units
        conjunct1 [OF title_hash_bound [unfolded sample_bound_def]] sample_product_digest],
      simp_all add: sample_evidence [OF title_hash_bound] color_title_evidence [OF title_hash_bound]
        max_evidence_per_requirement_def title_hash_digests)+

lemma color_verdict: "verdict color_requirement (set [color_evidence]) = Match"
proof -
  have "top_evidence (set [color_evidence]) = {color_evidence}"
    by (auto simp: top_evidence_def is_observed_def color_evidence_def)
  moreover have "is_observed color_evidence" "obs_value color_evidence = Some (EnumObserved ''black'')"
    "matches (req_operator color_requirement) (req_target color_requirement) (EnumObserved ''black'') = Inr True"
    by (simp_all add: is_observed_def color_evidence_def color_requirement_def)
  ultimately show ?thesis by (simp add: verdict_def Let_def)
qed

lemma title_verdict: "verdict color_requirement (set [color_evidence, color_title]) = Match"
proof -
  have "top_evidence (set [color_evidence, color_title]) = {color_evidence}"
  proof -
    have "is_observed color_evidence" "obs_priority color_evidence = 10" "obs_priority color_title = 20"
      by (simp_all add: is_observed_def color_evidence_def color_title_def)
    then show ?thesis by (auto simp: top_evidence_def)
  qed
  moreover have "is_observed color_evidence" "obs_value color_evidence = Some (EnumObserved ''black'')"
    "matches (req_operator color_requirement) (req_target color_requirement) (EnumObserved ''black'') = Inr True"
    by (simp_all add: is_observed_def color_evidence_def color_requirement_def)
  ultimately show ?thesis by (simp add: verdict_def Let_def)
qed

text \<open>A hash that tells two requirement sets apart.\<close>

definition set_hash :: "string \<Rightarrow> string" where
  "set_hash s = (if s = requirement_set_text (replicate 64 CHR ''a'') [color_requirement]
     then replicate 64 CHR ''b'' else replicate 64 CHR ''a'')"

lemma set_hash_bound: "sample_bound set_hash"
proof -
  have "registry_domain @ s \<noteq> requirement_set_text g qs" for s g qs
    by (simp add: registry_domain_def requirement_set_text_def requirement_set_domain_def)
  then show ?thesis
    by (simp add: sample_bound_def hex_hash_def canonical_sha256_def set_hash_def hex_chars_def)
qed

lemma set_hash_inj:
  "inj_on set_hash {requirement_set_text (canonical_sha256 set_hash registry_domain
      (registry_json default_attribute_registry)) [color_requirement],
    requirement_set_text (canonical_sha256 set_hash registry_domain
      (registry_json default_attribute_registry)) [color_requirement, width_requirement]}"
  unfolding sample_digest [OF set_hash_bound] by (simp add: set_hash_def requirement_set_text_inj)

end
