(* ===== verification/Requirement_Theorems.thy ===== *)
theory Requirement_Theorems
  imports Requirement_Samples
begin

text \<open>
  The properties of typed requirements and their evaluation, each with a witness over the registry
  of the repository.
\<close>

text \<open>In a registry that passes its validators no name is ambiguous: a lookup by the key or any
  alias of an attribute finds that attribute, and every value or unit alias normalises to the
  canonical name it is registered for.\<close>

theorem registry_names_resolve:
  assumes "validate_registry U r = Inr ()" and "d \<in> set (reg_definitions r)"
  shows "(\<forall>n\<in>set (attr_names d). definition_lookup U r (text_identity U n) = Some d) \<and>
    (\<forall>a\<in>set (attr_value_aliases d). normalize_allowed_value U d (alias_text a) = Inr (alias_canonical a)) \<and>
    (\<forall>a\<in>set (attr_unit_aliases d). normalize_unit U d (alias_text a) = Inr (alias_canonical a))"
  using names_resolve [OF assms] aliases_resolve_to_canonical [OF registry_parts(1) [OF assms]] by blast

theorem registry_names_resolve_witness:
  "definition_lookup plain_library default_attribute_registry (text_identity plain_library color_name) =
    Some appearance_color_attribute"
proof -
  have "color_name \<in> set (attr_names appearance_color_attribute)"
    by (simp add: attr_names_def appearance_color_attribute_def color_name_def)
  with registry_names_resolve [OF default_registry_plain default_members(1)] show ?thesis by blast
qed

text \<open>The registry shipped with the code passes its own validators, for every Unicode library
  that leaves the registry's names as they are.\<close>

theorem shipped_registry_valid:
  assumes "registry_reads_plainly U default_attribute_registry"
  shows "validate_registry U default_attribute_registry = Inr ()"
  using assms by (rule default_registry_valid)

theorem shipped_registry_valid_witness:
  "validate_registry plain_library default_attribute_registry = Inr ()"
  by (rule shipped_registry_valid)
    (simp add: registry_reads_plainly_def reads_plainly_def plain_library_def)

text \<open>C28. Normalised requirements: their number, order and identifiers are those of the drafts, and each is
  a valid record bound to the registry. They are canonical, in that normalising them once more gives the
  same requirements and that their set has a digest, exactly when every text set among them is fixed by
  folding and sorting its values again; that always holds when there is no text set. (The registry's keys
  are at most as long as a draft's key may be, and the Unicode functions leave ASCII names as they are.)\<close>

theorem normalization_canonical:
  assumes "normalize_typed_requirements U H r drafts = Inr qs" and "ascii_library U" and "short_keys r"
  shows "map req_id qs = map draft_id drafts \<and>
    (\<forall>q\<in>set qs. validate_requirement U q = Inr () \<and> attribute_registry_sha256 U H r = Inr (req_registry q)) \<and>
    (normalize_typed_requirements U H r (map draft_of qs) = Inr qs \<longleftrightarrow> (\<forall>q\<in>set qs. settled_requirement U q)) \<and>
    ((\<exists>h. typed_requirement_set_sha256 U H r qs = Inr h) \<longleftrightarrow> (\<forall>q\<in>set qs. settled_requirement U q))"
proof -
  note r = normalized_parts(1) [OF assms(1)] and m = normalized_parts(4) [OF assms(1)]
  have ids: "distinct (map req_id qs)" using normalized_ids(1) [OF m r] normalized_parts(3) [OF assms(1)] by simp
  have "validate_requirement U q = Inr ()" if "q \<in> set qs" for q
    using map_result_mem [OF m that] normal_draft [OF _ r] by blast
  moreover have "normalize_typed_requirements U H r (map draft_of qs) = Inr qs \<longleftrightarrow> (\<forall>q\<in>set qs. settled_requirement U q)"
    using normalized_digest(1) [OF assms _ ids] canonical_settled [of U H r qs qs]
    by (auto simp: list_all2_refl same_requirement_def)
  moreover have "(\<exists>h. typed_requirement_set_sha256 U H r qs = Inr h) \<longleftrightarrow> (\<forall>q\<in>set qs. settled_requirement U q)"
    using normalized_digest(2) [OF assms _ ids] digest_settled by blast
  ultimately show ?thesis using normalized_ids(1,3) [OF m r] r by (simp add: attribute_registry_sha256_def)
qed

theorem normalization_canonical_witness:
  "normalize_typed_requirements plain_library sample_hash default_attribute_registry
     (map draft_of [color_requirement, width_requirement]) = Inr [color_requirement, width_requirement]"
  using normalization_canonical [OF sample_normalized [OF sample_hash_bound] ascii_plain_library
      default_short_keys] sample_settled by blast

text \<open>Two requirement sets with one digest are the same list of requirements, decimals included
  digit by digit, as long as the hash does not collide on their two texts.\<close>

theorem requirement_digest_identifies:
  assumes "typed_requirement_set_sha256 U H r qs = Inr h" and "typed_requirement_set_sha256 U H r' qs' = Inr h"
    and "inj_on H {requirement_set_text (canonical_sha256 H registry_domain (registry_json r)) qs,
      requirement_set_text (canonical_sha256 H registry_domain (registry_json r')) qs'}"
  shows "qs = qs'"
proof -
  let ?t = "\<lambda>r qs. requirement_set_text (canonical_sha256 H registry_domain (registry_json r)) qs"
  have "H (?t r qs) = h" "H (?t r' qs') = h"
    using assms(1,2)
    by (auto simp: typed_requirement_set_sha256_def attribute_registry_sha256_def canonical_sha256_def
        requirement_set_text_def split: if_splits)
  then have "?t r qs = ?t r' qs'" using inj_onD [OF assms(3), of "?t r qs" "?t r' qs'"] by simp
  then show ?thesis by (simp add: requirement_set_text_inj)
qed

theorem requirement_digest_identifies_witness:
  "typed_requirement_set_sha256 plain_library set_hash default_attribute_registry [color_requirement] \<noteq>
   typed_requirement_set_sha256 plain_library set_hash default_attribute_registry
     [color_requirement, width_requirement]"
proof
  let ?one = "[color_requirement]" and ?two = "[color_requirement, width_requirement]"
  assume eq: "typed_requirement_set_sha256 plain_library set_hash default_attribute_registry ?one =
    typed_requirement_set_sha256 plain_library set_hash default_attribute_registry ?two"
  have "distinct (map req_id ?two)" by (simp add: color_requirement_def width_requirement_def)
  then obtain h where "typed_requirement_set_sha256 plain_library set_hash default_attribute_registry ?two = Inr h"
    using normalized_digest(2) [OF sample_normalized [OF set_hash_bound] ascii_plain_library
      default_short_keys sample_settled, of ?two] by auto
  with eq have "typed_requirement_set_sha256 plain_library set_hash default_attribute_registry ?one = Inr h"
    "typed_requirement_set_sha256 plain_library set_hash default_attribute_registry ?two = Inr h" by simp_all
  from requirement_digest_identifies [OF this set_hash_inj] show False by simp
qed

text \<open>C25. The adjudicator implements its specification: of the observed evidence only that of the
  highest priority counts, two different values conflict, one value is compared with the target;
  that evidence is what the decision accepts, everything else it rejects, and the record is
  consistent.\<close>

theorem adjudication_meets_specification:
  assumes "adjudicate_requirement U H r q product obs = Inr d"
  shows "dec_state d = verdict q (set obs) \<and>
    set (dec_accepted d) = evidence_digest H ` top_evidence (set obs) \<and>
    set (dec_rejected d) = evidence_digest H ` (set obs - top_evidence (set obs)) \<and>
    sorted (dec_accepted d) \<and> sorted (dec_rejected d) \<and>
    dec_requirement d = req_id q \<and> dec_product d = product \<and> validate_decision d = Inr ()"
proof -
  have "finite (top_evidence (set obs))" by (rule finite_subset [OF top_evidence_subset]) simp
  then show ?thesis using adjudicate_spec [OF assms] by simp
qed

theorem adjudication_meets_specification_witness:
  "\<exists>d. adjudicate_requirement plain_library title_hash default_attribute_registry color_requirement
     sample_product [color_evidence, color_title] = Inr d \<and> dec_state d = Match"
proof -
  obtain d where d: "adjudicate_requirement plain_library title_hash default_attribute_registry color_requirement
     sample_product [color_evidence, color_title] = Inr d" using title_adjudicated(2) by blast
  have "verdict color_requirement (set [color_evidence, color_title]) = Match" by (rule title_verdict)
  with adjudication_meets_specification [OF d] d show ?thesis by metis
qed

text \<open>The order in which the observations are given has no effect on the result of the
  adjudication, errors included.\<close>

theorem adjudication_order_irrelevant:
  assumes "mset obs = mset obs'"
  shows "adjudicate_requirement U H r q product obs = adjudicate_requirement U H r q product obs'"
  using assms by (rule adjudicate_permute)

theorem adjudication_order_irrelevant_witness:
  "adjudicate_requirement plain_library title_hash default_attribute_registry color_requirement
     sample_product [color_evidence, color_title] =
   adjudicate_requirement plain_library title_hash default_attribute_registry color_requirement
     sample_product [color_title, color_evidence]"
  by (rule adjudication_order_irrelevant) simp

text \<open>Evidence of lower priority never changes a decision that observed evidence of a higher
  priority supports: with it the state and the accepted evidence stay what they were.\<close>

theorem lower_priority_evidence_ignored:
  assumes "adjudicate_requirement U H r q product obs = Inr d"
    and "adjudicate_requirement U H r q product (obs @ weaker) = Inr d'"
    and "b \<in> set obs" and "obs_status b = Status_observed" and "\<forall>c\<in>set weaker. obs_priority b < obs_priority c"
  shows "dec_state d' = dec_state d \<and> dec_accepted d' = dec_accepted d"
proof -
  have b: "is_observed b" using assms(4) by (simp add: is_observed_def)
  note same = lower_priority_verdict [OF assms(3) b assms(5)] lower_priority_top [OF assms(3) b assms(5)]
  from adjudicate_spec(1,2) [OF assms(1)] adjudicate_spec(1,2) [OF assms(2)] same show ?thesis by simp
qed

theorem lower_priority_evidence_ignored_witness:
  "\<exists>d d'. adjudicate_requirement plain_library title_hash default_attribute_registry color_requirement
       sample_product [color_evidence] = Inr d \<and>
     adjudicate_requirement plain_library title_hash default_attribute_registry color_requirement
       sample_product [color_evidence, color_title] = Inr d' \<and> dec_state d' = dec_state d"
proof -
  obtain d d' where d: "adjudicate_requirement plain_library title_hash default_attribute_registry color_requirement
       sample_product [color_evidence] = Inr d"
    "adjudicate_requirement plain_library title_hash default_attribute_registry color_requirement
       sample_product ([color_evidence] @ [color_title]) = Inr d'"
    using title_adjudicated by auto
  from lower_priority_evidence_ignored [OF d, of color_evidence] d show ?thesis
    by (simp add: color_evidence_def color_title_def)
qed

text \<open>C26. The evaluation of a product reports its decisions: a hard requirement contradicted by its
  decision makes it contradicted, it is confirmed when every required attribute matched and every
  excluded one did not; each ratio lies between 0 and 1 and is 1 exactly when nothing is missing, so
  that rounding to six decimals never turns a partial match into a full one.\<close>

theorem evaluation_reports_decisions:
  assumes "evaluate_typed_product U H r qs ds product = Inr v"
  shows "map fst (zip qs (ev_decisions v)) = qs \<and>
    (\<forall>(q, d)\<in>set (zip qs (ev_decisions v)). d \<in> set ds \<and> dec_requirement d = req_id q \<and> dec_product d = product) \<and>
    (ev_status v = Contradicted \<longleftrightarrow> (\<exists>(q, d)\<in>set (zip qs (ev_decisions v)). contradicts q (dec_state d))) \<and>
    (ev_status v = Confirmed \<longleftrightarrow> (\<forall>(q, d)\<in>set (zip qs (ev_decisions v)).
      (req_strength q = Required \<longrightarrow> dec_state d = Match) \<and> (req_strength q = Excluded \<longrightarrow> dec_state d = Mismatch))) \<and>
    (ev_required_ratio v = 1 \<longleftrightarrow> (\<forall>(q, d)\<in>set (zip qs (ev_decisions v)). req_strength q = Required \<longrightarrow> dec_state d = Match)) \<and>
    (ev_preferred_ratio v = 1 \<longleftrightarrow> (\<forall>(q, d)\<in>set (zip qs (ev_decisions v)). req_strength q = Preferred \<longrightarrow> dec_state d = Match)) \<and>
    (ev_coverage v = 1 \<longleftrightarrow> (\<forall>(q, d)\<in>set (zip qs (ev_decisions v)). dec_state d \<in> {Match, Mismatch})) \<and>
    score_value (ev_required_ratio v) \<and> score_value (ev_preferred_ratio v) \<and> score_value (ev_coverage v)"
  by (intro conjI evaluation_report [OF assms, unfolded report_def]
      evaluation_report(8) [OF assms, THEN conjunct1]
      evaluation_report(8) [OF assms, THEN conjunct2, THEN conjunct1]
      evaluation_report(8) [OF assms, THEN conjunct2, THEN conjunct2])

theorem evaluation_reports_decisions_witness:
  "\<exists>ds v. evaluate_typed_product plain_library sample_hash default_attribute_registry
       [color_requirement, width_requirement] ds sample_product = Inr v \<and>
     ev_required_ratio v = 1 \<and> score_value (ev_coverage v)"
proof -
  obtain d1 d2 where d: "adjudicate_requirement plain_library sample_hash default_attribute_registry
      color_requirement sample_product [color_evidence] = Inr d1"
    "adjudicate_requirement plain_library sample_hash default_attribute_registry
      width_requirement sample_product [width_evidence] = Inr d2"
    using sample_adjudicated [OF sample_hash_bound] by blast
  then have "list_all2 (\<lambda>q d. \<exists>obs. adjudicate_requirement plain_library sample_hash default_attribute_registry
      q sample_product obs = Inr d) [color_requirement, width_requirement] [d1, d2]" by auto
  then obtain v where v: "evaluate_typed_product plain_library sample_hash default_attribute_registry
      [color_requirement, width_requirement] [d1, d2] sample_product = Inr v"
    using evaluate_succeeds [OF sample_normalized [OF sample_hash_bound] ascii_plain_library
      default_short_keys sample_settled sample_hash_hex sample_product_digest] by blast
  note report = evaluation_reports_decisions [OF v]
  have "dec_state d1 = Match" using adjudicate_spec(1) [OF d(1)] color_verdict by simp
  moreover have "dec_requirement d2 \<noteq> req_id color_requirement"
    using adjudicate_spec(4) [OF d(2)] by (simp add: color_requirement_def width_requirement_def)
  moreover have "req_strength width_requirement = Preferred" by (simp add: width_requirement_def)
  ultimately have "\<forall>(q, d)\<in>set (zip [color_requirement, width_requirement] (ev_decisions v)).
      req_strength q = Required \<longrightarrow> dec_state d = Match"
    using report by (force dest: set_zip_leftD)
  with report v show ?thesis by blast
qed

text \<open>C27. The pipeline succeeds on its own results, under these conditions: the requirements are normalised
  over a registry whose attributes have at most one unit each (with two, a product measured in another unit
  than the requirement's is an error of the adjudication), whose keys are no longer than a draft's key and
  whose names the Unicode functions leave as they are; the text sets of requirements and evidence are fixed
  by folding; the digest function answers hex digests; and each requirement has at most 32 observations,
  built by the module, with distinct digests. Then each requirement is adjudicated without an error and the
  product is evaluated on the decisions.\<close>

theorem evaluation_pipeline_succeeds:
  assumes "normalize_typed_requirements U H r drafts = Inr qs"
    and "ascii_library U" and "short_keys r" and "\<forall>q\<in>set qs. settled_requirement U q"
    and "single_units r" and "hex_hash H" and "is_digest product"
    and "\<forall>q\<in>set qs. \<forall>b\<in>set (evidence q). built_evidence U H r q product b \<and> opt_all (settled_observed U) (obs_value b)"
    and "\<forall>q\<in>set qs. length (evidence q) \<le> max_evidence_per_requirement \<and> distinct (map (evidence_digest H) (evidence q))"
  shows "\<exists>ds v. map_result (\<lambda>q. adjudicate_requirement U H r q product (evidence q)) qs = Inr ds \<and>
    evaluate_typed_product U H r qs ds product = Inr v"
proof -
  have "\<forall>q\<in>set qs. \<exists>d. adjudicate_requirement U H r q product (evidence q) = Inr d \<and>
      (\<exists>obs. adjudicate_requirement U H r q product obs = Inr d)"
    using adjudicate_succeeds [OF assms(1-7)] assms(8,9) by (fastforce simp: evidence_for_def)
  from map_result_ex [OF this] obtain ds where
    ds: "map_result (\<lambda>q. adjudicate_requirement U H r q product (evidence q)) qs = Inr ds"
      "list_all2 (\<lambda>q d. \<exists>obs. adjudicate_requirement U H r q product obs = Inr d) qs ds" by blast
  from evaluate_succeeds [OF assms(1-4,6,7) ds(2)] ds(1) show ?thesis by blast
qed

definition sample_evidence_of :: "typed_requirement \<Rightarrow> observation list" where
  "sample_evidence_of q = (if q = color_requirement then [color_evidence] else [width_evidence])"

theorem evaluation_pipeline_succeeds_witness:
  "\<exists>ds v. map_result (\<lambda>q. adjudicate_requirement plain_library sample_hash default_attribute_registry q
       sample_product (sample_evidence_of q)) [color_requirement, width_requirement] = Inr ds \<and>
     evaluate_typed_product plain_library sample_hash default_attribute_registry
       [color_requirement, width_requirement] ds sample_product = Inr v"
proof (rule evaluation_pipeline_succeeds [OF sample_normalized [OF sample_hash_bound] ascii_plain_library
      default_short_keys sample_settled default_single_units sample_hash_hex sample_product_digest])
  have "color_requirement \<noteq> width_requirement" by (simp add: color_requirement_def width_requirement_def)
  then show "\<forall>q\<in>set [color_requirement, width_requirement]. \<forall>b\<in>set (sample_evidence_of q).
      built_evidence plain_library sample_hash default_attribute_registry q sample_product b \<and>
      opt_all (settled_observed plain_library) (obs_value b)"
    and "\<forall>q\<in>set [color_requirement, width_requirement].
      length (sample_evidence_of q) \<le> max_evidence_per_requirement \<and>
      distinct (map (evidence_digest sample_hash) (sample_evidence_of q))"
    using sample_evidence [OF sample_hash_bound]
    by (simp_all add: sample_evidence_of_def max_evidence_per_requirement_def evidence_for_def)
qed

text \<open>Whatever the arguments, a failing call of the two modules raises the fixed-message error of
  its module: no validation, type or value error escapes.\<close>

theorem requirement_errors_fixed:
  "raises_only (\<lambda>e. e = TypedRequirementError) (attribute_registry_sha256 U H r) \<and>
   raises_only (\<lambda>e. e = TypedRequirementError) (normalize_typed_requirements U H r drafts) \<and>
   raises_only (\<lambda>e. e = TypedRequirementError) (typed_requirement_set_sha256 U H r qs) \<and>
   raises_only (\<lambda>e. e = TypedRequirementError) (attribute_definition_of U r key) \<and>
   raises_only (\<lambda>e. e = TypedRequirementError) (normalize_observed_value U a observed_value) \<and>
   raises_only (\<lambda>e. e = RequirementEvaluationError)
     (build_evidence_observation U H r q product source observation reason profile artifact) \<and>
   raises_only (\<lambda>e. e = RequirementEvaluationError) (adjudicate_requirement U H r q product obs) \<and>
   raises_only (\<lambda>e. e = RequirementEvaluationError) (evaluate_typed_product U H r qs ds product) \<and>
   raises_only (\<lambda>e. e = RequirementEvaluationError) (typed_product_sort_key v overall index)"
  by (intro conjI registry_digest_errors normalize_errors set_digest_errors lookup_errors observed_errors
      build_errors adjudicate_errors evaluate_errors sort_key_errors)

section \<open>What the canonical check does not see\<close>

text \<open>Decimals are compared as numbers when an observation is checked for canonical form, and by
  their text when the adjudicator looks for distinct values. Two observations of one number in two
  notations pass the check and conflict.\<close>

lemma notation_passes_check:
  "normalize_observed_value U a (DecimalObserved x u) = Inr n \<Longrightarrow> normalize_unit U a u = Inr u \<Longrightarrow>
    same_observed n (DecimalObserved x u)"
  by (auto simp: normalize_observed_value_def dest!: validate_observed_id split: if_splits)

theorem equal_decimals_conflict:
  assumes "adjudicate_requirement U H r q product obs = Inr d"
    and "b \<in> top_evidence (set obs)" and "c \<in> top_evidence (set obs)"
    and "obs_value b = Some (DecimalObserved x u)" and "obs_value c = Some (DecimalObserved y u)"
    and "dec_eq x y" and "x \<noteq> y"
  shows "dec_state d = Conflict"
proof -
  have "\<exists>b\<in>set obs. is_observed b" using assms(2) by (auto simp: top_evidence_def)
  moreover have "obs_value b \<noteq> obs_value c" using assms(4,5,7) by simp
  then have "\<exists>b\<in>top_evidence (set obs). \<exists>c\<in>top_evidence (set obs). obs_value b \<noteq> obs_value c"
    using assms(2,3) by blast
  ultimately have "verdict q (set obs) = Conflict" by (simp add: verdict_def Let_def)
  with adjudicate_spec(1) [OF assms(1)] show ?thesis by simp
qed

end
