(* ===== verification/Search_Intent.thy ===== *)
theory Search_Intent
  imports Typed_Requirements Float_Values Utf8_Text
begin

text \<open>
  Model of \<open>search_v2/intent.py\<close>: the search intent the language model drafts, its field and model
  validators, the normalisation that binds it to the source input, and its digest. \<open>U\<close> holds the
  functions of the Unicode tables, \<open>H\<close> is \<open>hashlib.sha256(_).hexdigest()\<close>. Arguments have the
  declared types, so the \<open>type(...)\<close> tests of the source never fail; strings are valid Unicode.
\<close>

section \<open>Bounds and field constraints\<close>

definition max_source_input_codepoints :: nat where "max_source_input_codepoints = 2000"
definition max_bound_artifact_bytes :: nat where "max_bound_artifact_bytes = 1048576"
definition max_intent_json_bytes :: nat where "max_intent_json_bytes = 49152"
definition max_price_jpy :: int where "max_price_jpy = 1000000000"
definition max_typed_conditions :: nat where "max_typed_conditions = 64"
definition max_typed_set_values :: nat where "max_typed_set_values = 32"

definition text_between :: "nat \<Rightarrow> nat \<Rightarrow> string \<Rightarrow> bool" where
  "text_between a b s \<longleftrightarrow> a \<le> text_length s \<and> text_length s \<le> b"

definition short_text :: "string \<Rightarrow> bool" where "short_text s \<longleftrightarrow> text_between 1 100 s"
definition name_text :: "string \<Rightarrow> bool" where "name_text s \<longleftrightarrow> text_between 1 200 s"
definition ambiguity_message :: "string \<Rightarrow> bool" where "ambiguity_message s \<longleftrightarrow> text_between 1 300 s"

definition ambiguity_code :: "string \<Rightarrow> bool" where
  "ambiguity_code s \<longleftrightarrow> 1 \<le> length s \<and> length s \<le> 50 \<and> chars_in lower_chars (take 1 s) \<and>
     chars_in (lower_chars @ digit_chars @ ''_'') s"

definition term_list :: "string list \<Rightarrow> bool" where
  "term_list vs \<longleftrightarrow> length vs \<le> 20 \<and> list_all short_text vs"

definition price_value :: "int \<Rightarrow> bool" where
  "price_value n \<longleftrightarrow> 0 < n \<and> n \<le> max_price_jpy"

definition confidence_value :: "rat \<Rightarrow> bool" where
  "confidence_value x \<longleftrightarrow> 0 \<le> x \<and> x \<le> 1"

text \<open>\<open>CandidateDecimal\<close>: an optional sign, 1 to 13 digits without a leading zero and at most six
  decimal places.\<close>

definition decimal_whole :: "string \<Rightarrow> bool" where
  "decimal_whole s \<longleftrightarrow> s = ''0'' \<or>
     (1 \<le> length s \<and> length s \<le> 13 \<and> chars_in digit_chars s \<and> hd s \<noteq> CHR ''0'')"

definition decimal_fraction :: "string \<Rightarrow> bool" where
  "decimal_fraction s \<longleftrightarrow> s = [] \<or>
     (hd s = CHR ''.'' \<and> 1 \<le> length (tl s) \<and> length (tl s) \<le> 6 \<and> chars_in digit_chars (tl s))"

definition strip_sign :: "string \<Rightarrow> string" where
  "strip_sign s = (if take 1 s = ''-'' then drop 1 s else s)"

definition candidate_decimal :: "string \<Rightarrow> bool" where
  "candidate_decimal s \<longleftrightarrow>
     (let t = strip_sign s in
      decimal_whole (takeWhile (\<lambda>c. c \<noteq> CHR ''.'') t) \<and>
      decimal_fraction (dropWhile (\<lambda>c. c \<noteq> CHR ''.'') t))"

section \<open>Price\<close>

datatype price_mode = Price_exact | Price_range | Price_min | Price_max | Price_none

datatype price_source = Price_explicit | Price_inferred | Price_no_source

record price_condition =
  price_mode :: price_mode
  price_target :: "int option"
  price_min :: "int option"
  price_max :: "int option"
  price_source :: price_source
  price_confidence :: "rat option"

definition price_fields :: "price_condition \<Rightarrow> bool" where
  "price_fields p \<longleftrightarrow> opt_all price_value (price_target p) \<and> opt_all price_value (price_min p) \<and>
     opt_all price_value (price_max p) \<and> opt_all confidence_value (price_confidence p)"

definition ordered_bounds :: "int option \<Rightarrow> int option \<Rightarrow> bool" where
  "ordered_bounds lo hi = (case (lo, hi) of (Some a, Some b) \<Rightarrow> a \<le> b | _ \<Rightarrow> True)"

definition validate_price :: "price_condition \<Rightarrow> unit result" where
  "validate_price p =
     (if \<not> price_fields p then Inl (ValidationError ''price condition field'')
      else if price_mode p = Price_none
      then (if price_target p \<noteq> None \<or> price_min p \<noteq> None \<or> price_max p \<noteq> None
            then Inl (ValidationError ''none price must not contain price values'')
            else if price_source p \<noteq> Price_no_source \<or> price_confidence p \<noteq> None
            then Inl (ValidationError ''none price requires source=none and confidence=null'')
            else Inr ())
      else if price_source p = Price_no_source
      then Inl (ValidationError ''priced condition requires explicit or inferred source'')
      else if price_source p = Price_inferred \<and> price_confidence p = None
      then Inl (ValidationError ''inferred price requires confidence'')
      else if price_mode p = Price_exact \<and>
              \<not> (price_target p \<noteq> None \<and> price_min p = None \<and> price_max p = None)
      then Inl (ValidationError ''exact price requires only target_jpy'')
      else if price_mode p = Price_range \<and>
              \<not> (price_target p = None \<and> price_min p \<noteq> None \<and> price_max p \<noteq> None)
      then Inl (ValidationError ''range price requires only min_jpy and max_jpy'')
      else if price_mode p = Price_min \<and>
              \<not> (price_target p = None \<and> price_min p \<noteq> None \<and> price_max p = None)
      then Inl (ValidationError ''min price requires only min_jpy'')
      else if price_mode p = Price_max \<and>
              \<not> (price_target p = None \<and> price_min p = None \<and> price_max p \<noteq> None)
      then Inl (ValidationError ''max price requires only max_jpy'')
      else if price_mode p = Price_range \<and> \<not> ordered_bounds (price_min p) (price_max p)
      then Inl (ValidationError ''min_jpy must not exceed max_jpy'')
      else Inr ())"

section \<open>Typed condition candidates\<close>

datatype candidate_target =
    CandidateBoolean bool
  | CandidateEnum "string list"
  | CandidateInteger "int option" "int option" string
  | CandidateDecimal "string option" "string option" string
  | CandidateTextSet "string list"
  | CandidateSemantic string

record candidate_definition =
  cdef_label :: string
  cdef_meaning :: string
  cdef_quote :: string

record condition_candidate =
  cand_key :: string
  cand_operator :: requirement_operator
  cand_target :: candidate_target
  cand_strength :: requirement_strength
  cand_definition :: "candidate_definition option"

definition candidate_values :: "string list \<Rightarrow> bool" where
  "candidate_values vs \<longleftrightarrow> 1 \<le> length vs \<and> length vs \<le> max_typed_set_values \<and> list_all short_text vs"

fun candidate_target_ok :: "candidate_target \<Rightarrow> bool" where
  "candidate_target_ok (CandidateBoolean b) \<longleftrightarrow> True"
| "candidate_target_ok (CandidateEnum vs) \<longleftrightarrow> candidate_values vs"
| "candidate_target_ok (CandidateInteger lo hi u) \<longleftrightarrow>
     opt_all integer_value lo \<and> opt_all integer_value hi \<and> short_text u"
| "candidate_target_ok (CandidateDecimal lo hi u) \<longleftrightarrow>
     opt_all candidate_decimal lo \<and> opt_all candidate_decimal hi \<and> short_text u"
| "candidate_target_ok (CandidateTextSet vs) \<longleftrightarrow> candidate_values vs"
| "candidate_target_ok (CandidateSemantic l) \<longleftrightarrow> short_text l"

definition candidate_definition_ok :: "candidate_definition \<Rightarrow> bool" where
  "candidate_definition_ok d \<longleftrightarrow>
     short_text (cdef_label d) \<and> name_text (cdef_meaning d) \<and> name_text (cdef_quote d)"

definition candidate_ok :: "condition_candidate \<Rightarrow> bool" where
  "candidate_ok c \<longleftrightarrow> name_text (cand_key c) \<and> candidate_target_ok (cand_target c) \<and>
     opt_all candidate_definition_ok (cand_definition c)"

section \<open>Intents\<close>

record intent_ambiguity =
  amb_code :: string
  amb_message :: string
  amb_blocking :: bool

record intent_provenance =
  prov_source :: string
  prov_prompt :: string
  prov_schema :: string
  prov_response :: string

record intent_draft =
  product_name_ja :: "string option"
  product_name_en :: "string option"
  category_ja :: "string option"
  category_en :: "string option"
  required_terms_ja :: "string list"
  required_terms_en :: "string list"
  preferred_terms_ja :: "string list"
  preferred_terms_en :: "string list"
  negative_terms_ja :: "string list"
  negative_terms_en :: "string list"
  color_ja :: "string option"
  color_en :: "string option"
  features_ja :: "string list"
  features_en :: "string list"
  intent_brand :: "string option"
  model_number :: "string option"
  intent_price :: price_condition
  typed_conditions :: "condition_candidate list"
  ambiguities :: "intent_ambiguity list"

record normalized_intent = intent_draft +
  provenance :: intent_provenance

definition ambiguity_ok :: "intent_ambiguity \<Rightarrow> bool" where
  "ambiguity_ok a \<longleftrightarrow> ambiguity_code (amb_code a) \<and> ambiguity_message (amb_message a)"

definition validate_ambiguity :: "intent_ambiguity \<Rightarrow> unit result" where
  "validate_ambiguity a =
     (if ambiguity_ok a then Inr () else Inl (ValidationError ''intent ambiguity field''))"

definition validate_provenance :: "intent_provenance \<Rightarrow> unit result" where
  "validate_provenance p =
     (if is_digest (prov_source p) \<and> is_digest (prov_prompt p) \<and> is_digest (prov_schema p) \<and>
         is_digest (prov_response p)
      then Inr () else Inl (ValidationError ''intent provenance field''))"

definition has_blocking_ambiguity :: "'a intent_draft_scheme \<Rightarrow> bool" where
  "has_blocking_ambiguity i \<longleftrightarrow> list_ex amb_blocking (ambiguities i)"

subsection \<open>JSON\<close>

fun price_mode_name :: "price_mode \<Rightarrow> string" where
  "price_mode_name Price_exact = ''exact''"
| "price_mode_name Price_range = ''range''"
| "price_mode_name Price_min = ''min''"
| "price_mode_name Price_max = ''max''"
| "price_mode_name Price_none = ''none''"

fun price_source_name :: "price_source \<Rightarrow> string" where
  "price_source_name Price_explicit = ''explicit''"
| "price_source_name Price_inferred = ''inferred''"
| "price_source_name Price_no_source = ''none''"

definition price_json :: "price_condition \<Rightarrow> json" where
  "price_json p =
     JObj [(''currency'', JStr ''JPY''), (''mode'', JStr (price_mode_name (price_mode p))),
           (''target_jpy'', json_opt JInt (price_target p)), (''min_jpy'', json_opt JInt (price_min p)),
           (''max_jpy'', json_opt JInt (price_max p)),
           (''source'', JStr (price_source_name (price_source p))),
           (''confidence'', json_opt json_float (price_confidence p))]"

definition json_texts :: "string list \<Rightarrow> json" where
  "json_texts vs = JArr (map JStr vs)"

fun candidate_target_json :: "candidate_target \<Rightarrow> json" where
  "candidate_target_json (CandidateBoolean b) =
     JObj [(''value_type'', JStr ''boolean''), (''value'', JBool b)]"
| "candidate_target_json (CandidateEnum vs) =
     JObj [(''value_type'', JStr ''enum''), (''values'', json_texts vs)]"
| "candidate_target_json (CandidateInteger lo hi u) =
     JObj [(''value_type'', JStr ''integer''), (''minimum'', json_opt JInt lo),
           (''maximum'', json_opt JInt hi), (''unit'', JStr u)]"
| "candidate_target_json (CandidateDecimal lo hi u) =
     JObj [(''value_type'', JStr ''decimal''), (''minimum'', json_opt JStr lo),
           (''maximum'', json_opt JStr hi), (''unit'', JStr u)]"
| "candidate_target_json (CandidateTextSet vs) =
     JObj [(''value_type'', JStr ''text_set''), (''values'', json_texts vs)]"
| "candidate_target_json (CandidateSemantic l) =
     JObj [(''value_type'', JStr ''semantic''), (''label'', JStr l)]"

definition candidate_definition_json :: "candidate_definition \<Rightarrow> json" where
  "candidate_definition_json d =
     JObj [(''label'', JStr (cdef_label d)), (''meaning'', JStr (cdef_meaning d)),
           (''source_quote'', JStr (cdef_quote d))]"

definition candidate_json :: "condition_candidate \<Rightarrow> json" where
  "candidate_json c =
     JObj [(''attribute_key'', JStr (cand_key c)),
           (''operator'', JStr (operator_name (cand_operator c))),
           (''expected_value'', candidate_target_json (cand_target c)),
           (''strength'', JStr (strength_name (cand_strength c))),
           (''attribute_definition'', json_opt candidate_definition_json (cand_definition c))]"

definition ambiguity_json :: "intent_ambiguity \<Rightarrow> json" where
  "ambiguity_json a =
     JObj [(''code'', JStr (amb_code a)), (''message'', JStr (amb_message a)),
           (''blocking'', JBool (amb_blocking a))]"

definition provenance_json :: "intent_provenance \<Rightarrow> json" where
  "provenance_json p =
     JObj [(''source_input_sha256'', JStr (prov_source p)), (''prompt_sha256'', JStr (prov_prompt p)),
           (''schema_sha256'', JStr (prov_schema p)), (''response_sha256'', JStr (prov_response p))]"

definition draft_members :: "'a intent_draft_scheme \<Rightarrow> (string \<times> json) list" where
  "draft_members i =
     [(''product_name_ja'', json_opt JStr (product_name_ja i)),
      (''product_name_en'', json_opt JStr (product_name_en i)),
      (''category_ja'', json_opt JStr (category_ja i)), (''category_en'', json_opt JStr (category_en i)),
      (''required_terms_ja'', json_texts (required_terms_ja i)),
      (''required_terms_en'', json_texts (required_terms_en i)),
      (''preferred_terms_ja'', json_texts (preferred_terms_ja i)),
      (''preferred_terms_en'', json_texts (preferred_terms_en i)),
      (''negative_terms_ja'', json_texts (negative_terms_ja i)),
      (''negative_terms_en'', json_texts (negative_terms_en i)),
      (''color_ja'', json_opt JStr (color_ja i)), (''color_en'', json_opt JStr (color_en i)),
      (''features_ja'', json_texts (features_ja i)), (''features_en'', json_texts (features_en i)),
      (''brand'', json_opt JStr (intent_brand i)), (''model_number'', json_opt JStr (model_number i)),
      (''price'', price_json (intent_price i)),
      (''typed_conditions'', JArr (map candidate_json (typed_conditions i))),
      (''ambiguities'', JArr (map ambiguity_json (ambiguities i)))]"

definition search_intent_json :: "normalized_intent \<Rightarrow> json" where
  "search_intent_json i =
     JObj (draft_members i @
       [(''schema_version'', JStr ''2.0''), (''provenance'', provenance_json (provenance i))])"

subsection \<open>Validation\<close>

definition draft_fields :: "'a intent_draft_scheme \<Rightarrow> bool" where
  "draft_fields i \<longleftrightarrow>
     list_all (opt_all name_text) [product_name_ja i, product_name_en i] \<and>
     list_all (opt_all short_text)
       [category_ja i, category_en i, color_ja i, color_en i, intent_brand i, model_number i] \<and>
     list_all term_list
       [required_terms_ja i, required_terms_en i, preferred_terms_ja i, preferred_terms_en i,
        negative_terms_ja i, negative_terms_en i, features_ja i, features_en i] \<and>
     length (typed_conditions i) \<le> max_typed_conditions \<and> list_all candidate_ok (typed_conditions i) \<and>
     length (ambiguities i) \<le> 20 \<and> list_all ambiguity_ok (ambiguities i)"

text \<open>\<open>validate_total_json_size\<close> dumps the whole model, the fields of a subclass included.\<close>

definition validate_size :: "json \<Rightarrow> unit result" where
  "validate_size v =
     (if max_intent_json_bytes < length (dumps v)
      then Inl (ValidationError ''intent JSON exceeds 49,152 UTF-8 bytes'') else Inr ())"

definition validate_intent_draft :: "intent_draft \<Rightarrow> unit result" where
  "validate_intent_draft i =
     (if \<not> draft_fields i then Inl (ValidationError ''search intent field'')
      else bind (validate_price (intent_price i)) (\<lambda>_. validate_size (JObj (draft_members i))))"

definition validate_normalized_intent :: "normalized_intent \<Rightarrow> unit result" where
  "validate_normalized_intent i =
     (if \<not> draft_fields i then Inl (ValidationError ''search intent field'')
      else bind (validate_price (intent_price i)) (\<lambda>_.
        bind (validate_provenance (provenance i)) (\<lambda>_. validate_size (search_intent_json i))))"

section \<open>Normalisation\<close>

definition collapsed :: "text_library \<Rightarrow> string \<Rightarrow> string result" where
  "collapsed U s =
     (let n = nfkc U s in
      if has_control U n then Inl (ValueError ''text contains a forbidden control character'')
      else Inr (join_words (split_words U n)))"

definition normalize_required_text :: "text_library \<Rightarrow> string \<Rightarrow> string result" where
  "normalize_required_text U s =
     bind (collapsed U s) (\<lambda>c.
       if c = [] then Inl (ValueError ''text must not be empty'') else Inr c)"

definition normalize_optional_text :: "text_library \<Rightarrow> string option \<Rightarrow> string option result" where
  "normalize_optional_text U v =
     (case v of None \<Rightarrow> Inr None
      | Some s \<Rightarrow> bind (collapsed U s) (\<lambda>c. Inr (if c = [] then None else Some c)))"

text \<open>The loop of \<open>_normalize_terms\<close>; \<open>seen\<close> holds the identities kept so far.\<close>

fun normalize_terms :: "text_library \<Rightarrow> string list \<Rightarrow> string list \<Rightarrow> string list result" where
  "normalize_terms U seen [] = Inr []"
| "normalize_terms U seen (v # vs) =
     bind (normalize_optional_text U (Some v)) (\<lambda>n. case n of
       None \<Rightarrow> normalize_terms U seen vs
     | Some s \<Rightarrow>
         if casefold U s \<in> set seen then normalize_terms U seen vs
         else bind (normalize_terms U (casefold U s # seen) vs) (\<lambda>r. Inr (s # r)))"

definition validated_source_input :: "text_library \<Rightarrow> string \<Rightarrow> string result" where
  "validated_source_input U s =
     (if max_source_input_codepoints < text_length s
      then Inl (ValueError ''source_input exceeds 2,000 Unicode code points'')
      else normalize_required_text U s)"

definition artifact_sha256 :: "(string \<Rightarrow> string) \<Rightarrow> string \<Rightarrow> string result" where
  "artifact_sha256 H b =
     (if b = [] \<or> max_bound_artifact_bytes < length b
      then Inl (ValueError ''artifact must contain between 1 and 1,048,576 bytes'')
      else Inr (H b))"

definition build_intent_provenance ::
  "text_library \<Rightarrow> (string \<Rightarrow> string) \<Rightarrow> string \<Rightarrow> string \<Rightarrow> string \<Rightarrow> string \<Rightarrow> intent_provenance result"
where
  "build_intent_provenance U H source prompt schema response =
     bind (validated_source_input U source) (\<lambda>_.
     bind (artifact_sha256 H prompt) (\<lambda>p.
     bind (artifact_sha256 H schema) (\<lambda>s.
     bind (artifact_sha256 H response) (\<lambda>r.
       let v = \<lparr>prov_source = H source, prov_prompt = p, prov_schema = s, prov_response = r\<rparr>
       in bind (validate_provenance v) (\<lambda>_. Inr v)))))"

definition normalize_ambiguity :: "text_library \<Rightarrow> intent_ambiguity \<Rightarrow> intent_ambiguity result" where
  "normalize_ambiguity U a =
     bind (normalize_required_text U (amb_message a)) (\<lambda>m.
       let b = a\<lparr>amb_message := m\<rparr> in bind (validate_ambiguity b) (\<lambda>_. Inr b))"

text \<open>A brand or model number is kept when its case folding occurs in that of the source.\<close>

definition keep_grounded :: "text_library \<Rightarrow> string \<Rightarrow> string option \<Rightarrow> string option" where
  "keep_grounded U source_identity v =
     (case v of None \<Rightarrow> None
      | Some s \<Rightarrow> if contains_text (casefold U s) source_identity then Some s else None)"

definition normalize_search_intent ::
  "text_library \<Rightarrow> (string \<Rightarrow> string) \<Rightarrow> string \<Rightarrow> intent_draft \<Rightarrow> intent_provenance \<Rightarrow>
   normalized_intent result" where
  "normalize_search_intent U H source draft prov =
     bind (validate_intent_draft draft) (\<lambda>_.
     bind (validate_provenance prov) (\<lambda>_.
     bind (validated_source_input U source) (\<lambda>normalized_source.
     if prov_source prov \<noteq> H source then Inl (ValueError ''provenance does not match source_input'')
     else
     bind (map_result (normalize_ambiguity U) (ambiguities draft)) (\<lambda>ambs.
     bind (normalize_optional_text U (intent_brand draft)) (\<lambda>brand.
     bind (normalize_optional_text U (model_number draft)) (\<lambda>model.
     let source_identity = casefold U normalized_source in
     bind (map_result (normalize_optional_text U)
             [product_name_ja draft, product_name_en draft, category_ja draft, category_en draft,
              color_ja draft, color_en draft]) (\<lambda>texts.
     bind (map_result (normalize_terms U [])
             [required_terms_ja draft, required_terms_en draft, preferred_terms_ja draft,
              preferred_terms_en draft, negative_terms_ja draft, negative_terms_en draft,
              features_ja draft, features_en draft]) (\<lambda>terms.
     let i = \<lparr>product_name_ja = texts ! 0, product_name_en = texts ! 1, category_ja = texts ! 2,
              category_en = texts ! 3, required_terms_ja = terms ! 0, required_terms_en = terms ! 1,
              preferred_terms_ja = terms ! 2, preferred_terms_en = terms ! 3,
              negative_terms_ja = terms ! 4, negative_terms_en = terms ! 5,
              color_ja = texts ! 4, color_en = texts ! 5,
              features_ja = terms ! 6, features_en = terms ! 7,
              intent_brand = keep_grounded U source_identity brand,
              model_number = keep_grounded U source_identity model,
              intent_price = intent_price draft, typed_conditions = typed_conditions draft,
              ambiguities = ambs, provenance = prov\<rparr>
     in bind (validate_normalized_intent i) (\<lambda>_. Inr i)))))))))"

definition intent_domain :: string where
  "intent_domain = ''amazon-explorer-search-intent-v2'' @ [CHR 0x0A]"

definition search_intent_sha256 :: "(string \<Rightarrow> string) \<Rightarrow> normalized_intent \<Rightarrow> string result" where
  "search_intent_sha256 H i =
     bind (validate_normalized_intent i) (\<lambda>_. Inr (canonical_sha256 H intent_domain (search_intent_json i)))"

end
