(* ===== verification/Search_Tokens.thy ===== *)
theory Search_Tokens
  imports Utf8_Text
begin

text \<open>
  Model of \<open>search_v2/tokenizer.py\<close>. The Sudachi analyser is a third-party library: it is the
  parameter \<open>sudachi\<close>, which returns the morphemes of a text with their code-point positions. The
  regular expressions of the module are scans over characters.
\<close>

datatype language = Ja | En

record morpheme =
  morph_surface :: string
  morph_normalized :: string
  morph_dictionary :: string
  morph_pos :: string
  morph_begin :: nat
  morph_end :: nat

text \<open>The text functions together with the analyser.\<close>

record tokenizer_library = text_library +
  sudachi :: "string \<Rightarrow> morpheme list"

definition text_functions :: "tokenizer_library \<Rightarrow> text_library" where
  "text_functions T = text_library.truncate T"

section \<open>Character classes\<close>

text \<open>\<open>[a-z0-9]\<close> and \<open>[\u3040-\u30ff\u4e00-\u9fff]\<close>.\<close>

definition word_char :: "char \<Rightarrow> bool" where
  "word_char c \<longleftrightarrow> c \<in> set (lower_chars @ digit_chars)"

definition japanese_code :: "nat \<Rightarrow> bool" where
  "japanese_code n \<longleftrightarrow> (0x3040 \<le> n \<and> n \<le> 0x30FF) \<or> (0x4E00 \<le> n \<and> n \<le> 0x9FFF)"

definition has_japanese :: "string \<Rightarrow> bool" where
  "has_japanese s \<longleftrightarrow> list_ex japanese_code (char_codes s)"

text \<open>\<open>_ENGLISH_TOKEN_PATTERN.findall\<close>: the maximal runs of \<open>[a-z0-9]\<close>.\<close>

function english_runs :: "string \<Rightarrow> string list" where
  "english_runs [] = []"
| "english_runs (c # s) =
     (if word_char c then (c # takeWhile word_char s) # english_runs (dropWhile word_char s)
      else english_runs s)"
  by pat_completeness auto
termination
  by (relation "measure length") (auto simp: length_dropWhile_le less_Suc_eq_le)

text \<open>
  \<open>_URL_PATTERN\<close>, ignoring case: a scheme (a letter, then letters, digits and \<open>+.-\<close>) followed by
  \<open>://\<close>, or \<open>www.\<close>. Ignoring case, the class \<open>[a-z]\<close> also holds the two Turkish letters \<open>i\<close>.
\<close>

definition scheme_letter :: "string \<Rightarrow> bool" where
  "scheme_letter ch \<longleftrightarrow>
     (let n = char_code ch in (65 \<le> n \<and> n \<le> 90) \<or> (97 \<le> n \<and> n \<le> 122) \<or> n = 0x130 \<or> n = 0x131)"

definition scheme_char :: "string \<Rightarrow> bool" where
  "scheme_char ch \<longleftrightarrow> scheme_letter ch \<or> (let n = char_code ch in
     (48 \<le> n \<and> n \<le> 57) \<or> n = 43 \<or> n = 46 \<or> n = 45)"

definition url_here :: "string list \<Rightarrow> bool" where
  "url_here cs \<longleftrightarrow>
     (cs \<noteq> [] \<and> scheme_letter (hd cs) \<and>
        take 3 (dropWhile scheme_char (tl cs)) = ['':'', ''/'', ''/'']) \<or>
     (length (take 4 cs) = 4 \<and> list_all (\<lambda>ch. ch \<in> {''w'', ''W''}) (take 3 cs) \<and> cs ! 3 = ''.'')"

fun url_in :: "string list \<Rightarrow> bool" where
  "url_in [] \<longleftrightarrow> False"
| "url_in (ch # cs) \<longleftrightarrow> url_here (ch # cs) \<or> url_in cs"

definition has_url :: "string \<Rightarrow> bool" where
  "has_url s \<longleftrightarrow> url_in (chars_of s)"

definition has_newline :: "string \<Rightarrow> bool" where
  "has_newline s \<longleftrightarrow> CHR 0x0A \<in> set s \<or> CHR 0x0D \<in> set s"

section \<open>Input\<close>

definition normalized_input :: "text_library \<Rightarrow> string \<Rightarrow> string result" where
  "normalized_input U s =
     (let n = nfkc U s in
      if has_newline n then Inl (ValueError ''tokenizer input must not contain a newline'')
      else if any_control U n
      then Inl (ValueError ''tokenizer input must not contain control characters'')
      else if has_url n then Inl (ValueError ''tokenizer input must not contain a URL'')
      else Inr (casefold U n))"

definition normalized_source :: "text_library \<Rightarrow> string \<Rightarrow> string result" where
  "normalized_source U s =
     (let n = nfkc U s in
      if has_control U n then Inl (ValueError ''source input must not contain control characters'')
      else Inr (casefold U n))"

record analyzed_source =
  src_text :: string
  src_morphemes :: "morpheme list"

definition analyze_japanese_source :: "tokenizer_library \<Rightarrow> string \<Rightarrow> analyzed_source result" where
  "analyze_japanese_source T s =
     (let U = text_functions T in
      bind (normalized_source U s) (\<lambda>n.
        Inr \<lparr>src_text = n,
             src_morphemes = map (\<lambda>m. m\<lparr>morph_surface := slice (morph_begin m) (morph_end m) n,
                 morph_normalized := text_identity U (morph_normalized m),
                 morph_dictionary := text_identity U (morph_dictionary m)\<rparr>) (sudachi T n)\<rparr>))"

section \<open>Tokens\<close>

text \<open>\<open>_append_unique\<close> over a list: the tokens kept, in order; \<open>seen\<close> holds their identities.\<close>

fun unique_tokens :: "text_library \<Rightarrow> string list \<Rightarrow> string list \<Rightarrow> string list" where
  "unique_tokens U seen [] = []"
| "unique_tokens U seen (t # ts) =
     (let token = strip_text (text_identity U t) in
      if token = [] \<or> casefold U token \<in> set seen then unique_tokens U seen ts
      else token # unique_tokens U (casefold U token # seen) ts)"

text \<open>The parts of speech the module names, in UTF-8: prefix, suffix, and the content words noun,
  verb, adjective and adjectival noun.\<close>

definition pos_prefix :: string where
  "pos_prefix = [CHR 0xE6, CHR 0x8E, CHR 0xA5, CHR 0xE9, CHR 0xA0, CHR 0xAD, CHR 0xE8, CHR 0xBE, CHR 0x9E]"

definition pos_suffix :: string where
  "pos_suffix = [CHR 0xE6, CHR 0x8E, CHR 0xA5, CHR 0xE5, CHR 0xB0, CHR 0xBE, CHR 0xE8, CHR 0xBE, CHR 0x9E]"

definition content_parts_of_speech :: "string list" where
  "content_parts_of_speech =
     [[CHR 0xE5, CHR 0x90, CHR 0x8D, CHR 0xE8, CHR 0xA9, CHR 0x9E],
      [CHR 0xE5, CHR 0x8B, CHR 0x95, CHR 0xE8, CHR 0xA9, CHR 0x9E],
      [CHR 0xE5, CHR 0xBD, CHR 0xA2, CHR 0xE5, CHR 0xAE, CHR 0xB9, CHR 0xE8, CHR 0xA9, CHR 0x9E],
      [CHR 0xE5, CHR 0xBD, CHR 0xA2, CHR 0xE7, CHR 0x8A, CHR 0xB6, CHR 0xE8, CHR 0xA9, CHR 0x9E]]"

text \<open>The state of the loop over the morphemes.\<close>

record token_state =
  tok_tokens :: "string list"
  tok_prefixes :: "string list"
  tok_start :: "int option"
  tok_end :: "nat option"

definition token_start :: token_state where
  "token_start = \<lparr>tok_tokens = [], tok_prefixes = [], tok_start = None, tok_end = None\<rparr>"

text \<open>\<open>value[a:b]\<close> with a start that may be negative: it counts from the end.\<close>

definition slice_from :: "int \<Rightarrow> nat \<Rightarrow> string \<Rightarrow> string" where
  "slice_from a b s =
     (let n = int (length (chars_of s)) in slice (nat (if a < 0 then max 0 (a + n) else a)) b s)"

definition japanese_step :: "text_library \<Rightarrow> string \<Rightarrow> token_state \<Rightarrow> morpheme \<Rightarrow> token_state" where
  "japanese_step U s t m =
     (let surface = text_identity U (morph_surface m);
          form = text_identity U (morph_normalized m);
          normalized = (if form = ''*'' then surface else form)
      in if morph_pos m = pos_prefix \<and> has_japanese surface
         then t\<lparr>tok_prefixes := tok_prefixes t @ [surface]\<rparr>
         else if morph_pos m = pos_suffix \<and> has_japanese surface
         then (case (tok_start t, tok_tokens t \<noteq> [] \<and> tok_end t = Some (morph_begin m)) of
             (Some a, True) \<Rightarrow>
               t\<lparr>tok_tokens := butlast (tok_tokens t) @ [slice_from a (morph_end m) s],
                 tok_prefixes := [], tok_end := Some (morph_end m)\<rparr>
           | _ \<Rightarrow>
               t\<lparr>tok_tokens := tok_tokens t @ [surface], tok_prefixes := [],
                 tok_start := Some (int (morph_begin m)), tok_end := Some (morph_end m)\<rparr>)
         else let prefixed = concat (tok_prefixes t) @ normalized;
                  content = (if morph_pos m \<in> set content_parts_of_speech \<and> has_japanese surface \<and>
                                has_japanese prefixed then [prefixed] else []);
                  added = content @ english_runs surface;
                  start = int (morph_begin m) -
                          int (sum_list (map (length \<circ> chars_of) (tok_prefixes t)))
              in \<lparr>tok_tokens = tok_tokens t @ added, tok_prefixes = [],
                  tok_start = (if added = [] then None else Some start),
                  tok_end = (if added = [] then None else Some (morph_end m))\<rparr>)"

definition tokenize_japanese :: "tokenizer_library \<Rightarrow> string \<Rightarrow> string list" where
  "tokenize_japanese T s =
     (let U = text_functions T in
      unique_tokens U [] (tok_tokens (foldl (japanese_step U s) token_start (sudachi T s))))"

definition tokenize_search_text :: "tokenizer_library \<Rightarrow> language \<Rightarrow> string \<Rightarrow> string list result" where
  "tokenize_search_text T l s =
     (let U = text_functions T in
      bind (normalized_input U s) (\<lambda>n. Inr (case l of
          En \<Rightarrow> unique_tokens U [] (english_runs n)
        | Ja \<Rightarrow> tokenize_japanese T n)))"

end
