(* ===== verification/Dynamic_Attributes.thy ===== *)
theory Dynamic_Attributes
  imports Search_Intent Search_Tokens
begin

text \<open>
  Model of \<open>search_v2/dynamic_attributes.py\<close>: the identities of generated attributes, the test that a
  numeric condition is grounded in its quote, and the registry compiled from grounded conditions.
  Its regular expressions are written as scans that try the same alternatives in the same order.
  \<open>custom_condition_grounded\<close>, used by the language-model adapter only, is not modelled.
\<close>

section \<open>Identities and keys\<close>

definition identity_of :: "text_library \<Rightarrow> string \<Rightarrow> string" where
  "identity_of U s = strip_text (text_identity U s)"

text \<open>The two spelling groups: \<open>inch\<close> and \<open>hour\<close>, each with its English plural and Japanese word.\<close>

definition inch_spellings :: "string list" where
  "inch_spellings =
     [''inch'', ''inches'',
      [CHR 0xE3, CHR 0x82, CHR 0xA4, CHR 0xE3, CHR 0x83, CHR 0xB3, CHR 0xE3, CHR 0x83, CHR 0x81]]"

definition hour_spellings :: "string list" where
  "hour_spellings =
     [''hour'', ''hours'',
      [CHR 0xE6, CHR 0x99, CHR 0x82, CHR 0xE9, CHR 0x96, CHR 0x93]]"

definition unit_spellings :: "text_library \<Rightarrow> string \<Rightarrow> string list" where
  "unit_spellings U s =
     (let n = identity_of U s in
      if n \<in> set inch_spellings then inch_spellings
      else if n \<in> set hour_spellings then hour_spellings
      else [n])"

definition short_hash :: "(string \<Rightarrow> string) \<Rightarrow> string \<Rightarrow> string" where
  "short_hash H s = take 24 (H s)"

definition value_key :: "text_library \<Rightarrow> (string \<Rightarrow> string) \<Rightarrow> string \<Rightarrow> string" where
  "value_key U H s = ''value_'' @ short_hash H (identity_of U s)"

definition plain_unit :: "string \<Rightarrow> bool" where
  "plain_unit s \<longleftrightarrow> 1 \<le> length s \<and> length s \<le> 32 \<and> chars_in lower_chars (take 1 s) \<and>
     chars_in (lower_chars @ digit_chars @ ''_-'') s"

definition unit_key :: "text_library \<Rightarrow> (string \<Rightarrow> string) \<Rightarrow> string \<Rightarrow> string result" where
  "unit_key U H s =
     (let n = hd (unit_spellings U s) in
      if n = [] \<or> 32 < text_length n \<or> list_ex is_space (chars_of n) \<or> any_control U n
      then Inl (ValueError ''invalid generated unit label'')
      else if plain_unit n then Inr n
      else Inr (''unit_'' @ short_hash H n))"

definition search_attribute_key :: "text_library \<Rightarrow> (string \<Rightarrow> string) \<Rightarrow> condition_candidate \<Rightarrow> string" where
  "search_attribute_key U H c =
     (case cand_definition c of
        None \<Rightarrow> cand_key c
      | Some d \<Rightarrow> ''search.attribute_'' @ short_hash H (identity_of U (cdef_label d)))"

section \<open>Numbers in a quote\<close>

text \<open>The texts \<open>-?(0|[1-9][0-9]*)(\.[0-9]+)?\<close> matches at the start of a string, in the order the
  expression tries them: the longest whole part first, with the longest fraction first.\<close>

definition is_ascii_digit :: "char \<Rightarrow> bool" where
  "is_ascii_digit c \<longleftrightarrow> c \<in> set digit_chars"

definition digit_prefixes :: "string \<Rightarrow> string list" where
  "digit_prefixes s =
     (let ds = takeWhile is_ascii_digit s in rev (map (\<lambda>n. take (Suc n) ds) [0..<length ds]))"

definition whole_parts :: "string \<Rightarrow> string list" where
  "whole_parts s = (if take 1 s = ''0'' then [''0''] else digit_prefixes s)"

definition fraction_parts :: "string \<Rightarrow> string list" where
  "fraction_parts s =
     (if take 1 s = ''.'' then map (\<lambda>d. CHR ''.'' # d) (digit_prefixes (drop 1 s)) else []) @ [[]]"

definition number_texts :: "string \<Rightarrow> string list" where
  "number_texts s =
     (let sign = (if take 1 s = ''-'' then ''-'' else []); t = drop (length sign) s
      in concat (map (\<lambda>w. map (\<lambda>f. sign @ w @ f) (fraction_parts (drop (length w) t)))
           (whole_parts t)))"

text \<open>\<open>Decimal(text)\<close> of such a text.\<close>

definition decimal_of_text :: "string \<Rightarrow> decimal" where
  "decimal_of_text s =
     (let t = strip_sign s; w = takeWhile (\<lambda>c. c \<noteq> CHR ''.'') t;
          f = drop 1 (dropWhile (\<lambda>c. c \<noteq> CHR ''.'') t)
      in Dec (take 1 s = ''-'') (dec_val (w @ f)) (- int (length f)))"

text \<open>One amount, a number and a unit spelling not followed by \<open>[a-z]\<close>, at the start of a string:
  the number and the length matched.\<close>

definition unit_end :: "string list \<Rightarrow> string \<Rightarrow> nat option" where
  "unit_end spellings s =
     map_option length
       (find (\<lambda>v. starts_with v s \<and> \<not> (drop (length v) s \<noteq> [] \<and>
                  hd (drop (length v) s) \<in> set lower_chars)) spellings)"

definition spaces_length :: "string \<Rightarrow> nat" where
  "spaces_length s = length s - length (skip_spaces s)"

fun first_amount :: "string list \<Rightarrow> string \<Rightarrow> string list \<Rightarrow> (string \<times> nat) option" where
  "first_amount spellings s [] = None"
| "first_amount spellings s (n # ns) =
     (let k = length n + spaces_length (drop (length n) s) in
      case unit_end spellings (drop k s) of
        None \<Rightarrow> first_amount spellings s ns
      | Some e \<Rightarrow> Some (n, k + e))"

definition amount_at :: "string list \<Rightarrow> string \<Rightarrow> (string \<times> nat) option" where
  "amount_at spellings s = first_amount spellings s (number_texts s)"

text \<open>\<open>finditer\<close>: each match with the text before and after it; a match may not follow a decimal
  digit or a point.\<close>

record amount =
  amount_before :: string
  amount_number :: string
  amount_after :: string

definition blocked :: "text_library \<Rightarrow> string \<Rightarrow> bool" where
  "blocked U before \<longleftrightarrow>
     before \<noteq> [] \<and> (let ch = last (chars_of before) in ch = ''.'' \<or> digit_of U ch \<noteq> None)"

function amounts_in :: "text_library \<Rightarrow> string list \<Rightarrow> string \<Rightarrow> string \<Rightarrow> amount list" where
  "amounts_in U spellings before s =
     (if s = [] then []
      else case (if blocked U before then None else amount_at spellings s) of
        Some (n, e) \<Rightarrow>
          \<lparr>amount_before = before, amount_number = n, amount_after = drop e s\<rparr> #
          amounts_in U spellings (before @ take (max 1 e) s) (drop (max 1 e) s)
      | None \<Rightarrow>
          (let k = length (hd (chars_of s))
           in amounts_in U spellings (before @ take (max 1 k) s) (drop (max 1 k) s)))"
  by pat_completeness auto
termination
  by (relation "measure (\<lambda>(U, spellings, before, s). length s)") (auto simp: Let_def)

declare amounts_in.simps [simp del]

text \<open>The Japanese words of the checks: the topic and subject particles, the bounds (at least, at
  most, within, below, above), and from and until.\<close>

definition particles :: "string list" where
  "particles =
     [[CHR 0xE3, CHR 0x81, CHR 0xAF], [CHR 0xE3, CHR 0x81, CHR 0x8C],
      '':'', ''='']"

definition word_at_least :: string where "word_at_least = [CHR 0xE4, CHR 0xBB, CHR 0xA5, CHR 0xE4, CHR 0xB8, CHR 0x8A]"
definition word_at_most :: string where "word_at_most = [CHR 0xE4, CHR 0xBB, CHR 0xA5, CHR 0xE4, CHR 0xB8, CHR 0x8B]"
definition word_within :: string where "word_within = [CHR 0xE4, CHR 0xBB, CHR 0xA5, CHR 0xE5, CHR 0x86, CHR 0x85]"
definition word_below :: string where "word_below = [CHR 0xE6, CHR 0x9C, CHR 0xAA, CHR 0xE6, CHR 0xBA, CHR 0x80]"
definition word_above :: string where "word_above = [CHR 0xE8, CHR 0xB6, CHR 0x85]"
definition word_from :: string where "word_from = [CHR 0xE3, CHR 0x81, CHR 0x8B, CHR 0xE3, CHR 0x82, CHR 0x89]"
definition word_until :: string where "word_until = [CHR 0xE3, CHR 0x81, CHR 0xBE, CHR 0xE3, CHR 0x81, CHR 0xA7]"
definition wave_dash :: string where "wave_dash = [CHR 0xE3, CHR 0x80, CHR 0x9C]"

text \<open>What is left of a text after \<open>label\<close>, white space, an optional particle and white space.\<close>

definition after_particle :: "string \<Rightarrow> string" where
  "after_particle s =
     (case find (\<lambda>p. starts_with p s) particles of None \<Rightarrow> s | Some p \<Rightarrow> skip_spaces (drop (length p) s))"

definition after_label :: "string \<Rightarrow> string \<Rightarrow> string option" where
  "after_label label s = map_option (after_particle \<circ> skip_spaces) (after_prefix label s)"

fun numeric_bounds :: "candidate_target \<Rightarrow> (decimal option \<times> decimal option) option" where
  "numeric_bounds (CandidateInteger lo hi u) = Some (map_option decimal_of lo, map_option decimal_of hi)"
| "numeric_bounds (CandidateDecimal lo hi u) =
     Some (map_option decimal_of_text lo, map_option decimal_of_text hi)"
| "numeric_bounds t = None"

fun target_unit :: "candidate_target \<Rightarrow> string" where
  "target_unit (CandidateInteger lo hi u) = u"
| "target_unit (CandidateDecimal lo hi u) = u"
| "target_unit t = []"

definition same_decimals :: "decimal list \<Rightarrow> decimal list \<Rightarrow> bool" where
  "same_decimals xs ys \<longleftrightarrow> list_all2 dec_eq xs ys"

definition bounds_grounded ::
  "requirement_operator \<Rightarrow> decimal option \<Rightarrow> decimal option \<Rightarrow> decimal list \<Rightarrow> string \<Rightarrow> string \<Rightarrow> bool"
where
  "bounds_grounded op lo hi found between tail =
     (let bounds = (case lo of None \<Rightarrow> [] | Some a \<Rightarrow> [a]) @ (case hi of None \<Rightarrow> [] | Some b \<Rightarrow> [b]) in
      case op of
        At_least \<Rightarrow> lo \<noteq> None \<and> hi = None \<and> same_decimals found bounds \<and> starts_with word_at_least tail
      | At_most \<Rightarrow> hi \<noteq> None \<and> lo = None \<and> same_decimals found bounds \<and>
          (starts_with word_at_most tail \<or> starts_with word_within tail)
      | Equals \<Rightarrow> length bounds = 2 \<and> dec_eq (bounds ! 0) (bounds ! 1) \<and>
          same_decimals found (take 1 bounds) \<and>
          \<not> list_ex (\<lambda>w. contains_text w tail)
              [word_at_least, word_at_most, word_below, word_above, word_from, word_until]
      | Between \<Rightarrow> length found = 2 \<and> length bounds = 2 \<and> same_decimals found bounds \<and>
          dec_le (bounds ! 0) (bounds ! 1) \<and>
          ((between = word_at_least \<and> (starts_with word_at_most tail \<or> starts_with word_within tail)) \<or>
           (between \<in> {word_from, wave_dash, ''~'', ''-''} \<and> starts_with word_until tail))
      | _ \<Rightarrow> False)"

text \<open>\<open>quote[amounts[0].end() : amounts[1].start()]\<close>.\<close>

definition between_text :: "string \<Rightarrow> amount list \<Rightarrow> string" where
  "between_text quote as =
     (case as of a # b # _ \<Rightarrow>
        strip_text (take (length (amount_before b) - (length quote - length (amount_after a)))
          (amount_after a))
      | _ \<Rightarrow> [])"

definition numeric_grounded ::
  "text_library \<Rightarrow> (string \<Rightarrow> string) \<Rightarrow> condition_candidate \<Rightarrow> candidate_definition \<Rightarrow> string \<Rightarrow> bool"
where
  "numeric_grounded U H c d quote =
     (let unit = identity_of U (target_unit (cand_target c)) in
      case (unit_key U H unit, numeric_bounds (cand_target c)) of
        (Inr _, Some (lo, hi)) \<Rightarrow>
          (let as = amounts_in U (unit_spellings U unit) [] quote in
           as \<noteq> [] \<and> (lo \<noteq> None \<or> hi \<noteq> None) \<and>
           (let prefix = strip_text (amount_before (hd as)) in
            prefix = [] \<or> after_label (identity_of U (cdef_label d)) prefix = Some []) \<and>
           bounds_grounded (cand_operator c) lo hi (map (decimal_of_text \<circ> amount_number) as)
             (between_text quote as) (strip_text (amount_after (last as))))
      | _ \<Rightarrow> False)"

definition is_numeric_target :: "candidate_target \<Rightarrow> bool" where
  "is_numeric_target t \<longleftrightarrow> numeric_bounds t \<noteq> None"

definition custom_key :: string where "custom_key = ''custom''"

definition numeric_identity_requires_review ::
  "text_library \<Rightarrow> (string \<Rightarrow> string) \<Rightarrow> condition_candidate \<Rightarrow> bool" where
  "numeric_identity_requires_review U H c =
     (if cand_key c \<noteq> custom_key \<or> \<not> is_numeric_target (cand_target c) then False
      else case cand_definition c of
        None \<Rightarrow> True
      | Some d \<Rightarrow>
          let quote = identity_of U (cdef_quote d); label = identity_of U (cdef_label d);
              attached = (case after_label label quote of
                 None \<Rightarrow> False | Some rest \<Rightarrow> number_texts rest \<noteq> [])
          in label = [] \<or> \<not> attached \<or> \<not> numeric_grounded U H c d quote)"

section \<open>The registry of a search\<close>

definition other_value :: string where "other_value = ''other_observed_value''"

fun candidate_type :: "candidate_target \<Rightarrow> value_type" where
  "candidate_type (CandidateBoolean b) = Boolean_type"
| "candidate_type (CandidateEnum vs) = Enum_type"
| "candidate_type (CandidateInteger lo hi u) = Integer_type"
| "candidate_type (CandidateDecimal lo hi u) = Decimal_type"
| "candidate_type (CandidateTextSet vs) = Text_set_type"
| "candidate_type (CandidateSemantic l) = Semantic_type"

fun enum_values :: "candidate_target \<Rightarrow> string list" where
  "enum_values (CandidateEnum vs) = vs"
| "enum_values t = []"

definition unit_alias_texts :: "text_library \<Rightarrow> string \<Rightarrow> string \<Rightarrow> string list" where
  "unit_alias_texts U unit raw =
     remdups (if unit = ''inch'' then inch_spellings else if unit = ''hour'' then hour_spellings
              else [nfkc U raw])"

definition search_evidence_rule :: evidence_rule where
  "search_evidence_rule =
     \<lparr>rule_source = Structured, rule_priority = 1,
      rule_evaluator = ''search-labelled-specification'', rule_version = ''1.0''\<rparr>"

definition generated_definition ::
  "text_library \<Rightarrow> (string \<Rightarrow> string) \<Rightarrow> condition_candidate \<Rightarrow> candidate_definition \<Rightarrow>
   attribute_definition result" where
  "generated_definition U H c d =
     (let t = cand_target c; enums = enum_values t in
      bind (if is_numeric_target t then bind (unit_key U H (target_unit t)) (\<lambda>k. Inr (Some k))
            else Inr None) (\<lambda>unit.
      let v = \<lparr>attr_category = ''search'', attr_key = search_attribute_key U H c,
               attr_aliases = [cdef_label d], attr_type = candidate_type t,
               attr_operators = [cand_operator c], attr_strengths = [cand_strength c],
               attr_units = (case unit of None \<Rightarrow> [] | Some k \<Rightarrow> [k]),
               attr_unit_aliases = (case unit of None \<Rightarrow> []
                  | Some k \<Rightarrow> map (\<lambda>a. \<lparr>alias_text = a, alias_canonical = k\<rparr>)
                      (filter (\<lambda>a. a \<noteq> k) (unit_alias_texts U k (target_unit t)))),
               attr_values = (if enums = [] then []
                  else sort (other_value # map (value_key U H) enums)),
               attr_value_aliases = map (\<lambda>a. \<lparr>alias_text = a, alias_canonical = value_key U H a\<rparr>) enums,
               attr_rules = [search_evidence_rule], attr_weight = 1, attr_visual = False\<rparr>
      in bind (validate_definition U v) (\<lambda>_. Inr v)))"

fun generated_definitions ::
  "text_library \<Rightarrow> (string \<Rightarrow> string) \<Rightarrow> string list \<Rightarrow> condition_candidate list \<Rightarrow>
   attribute_definition list result" where
  "generated_definitions U H keys [] = Inr []"
| "generated_definitions U H keys (c # cs) =
     (case cand_definition c of
        None \<Rightarrow> generated_definitions U H keys cs
      | Some d \<Rightarrow>
          if cand_key c \<noteq> custom_key
          then Inl (ValueError ''a registered attribute cannot carry a generated definition'')
          else if numeric_identity_requires_review U H c
          then Inl (ValueError ''numeric attribute identity requires review'')
          else if candidate_type (cand_target c) = Semantic_type
          then Inl (ValueError ''unsupported generated attribute type'')
          else bind (generated_definition U H c d) (\<lambda>v.
            if attr_key v \<in> set keys then Inl (ValueError ''duplicate generated attribute'')
            else bind (generated_definitions U H (attr_key v # keys) cs) (\<lambda>vs. Inr (v # vs))))"

text \<open>\<open>json.dumps(manifest, ensure_ascii=False, sort_keys=True)\<close>, with the default separators.\<close>

fun join_spaced :: "string list \<Rightarrow> string" where
  "join_spaced [] = []"
| "join_spaced [x] = x"
| "join_spaced (x # y # zs) = x @ '', '' @ join_spaced (y # zs)"

definition manifest_entry :: "candidate_definition \<Rightarrow> string" where
  "manifest_entry d =
     CHR ''{'' # join_spaced
       (map (\<lambda>(k, v). json_string k @ '': '' @ json_string v)
          [(''label'', cdef_label d), (''meaning'', cdef_meaning d), (''source_quote'', cdef_quote d)])
     @ ''}''"

definition manifest_text :: "condition_candidate list \<Rightarrow> string" where
  "manifest_text cs =
     CHR ''['' # join_spaced (map manifest_entry (List.map_filter cand_definition cs)) @ '']''"

definition compile_search_registry ::
  "text_library \<Rightarrow> (string \<Rightarrow> string) \<Rightarrow> condition_candidate list \<Rightarrow> attribute_registry \<Rightarrow>
   attribute_registry result" where
  "compile_search_registry U H cs base =
     bind (generated_definitions U H [] cs) (\<lambda>additions.
       if additions = [] then Inr base
       else let r = \<lparr>reg_id = ''search-attributes-v1-'' @ short_hash H (manifest_text cs),
                     reg_definitions = sort_key attr_key (reg_definitions base @ additions)\<rparr>
            in bind (validate_registry U r) (\<lambda>_. Inr r))"

end
