(* ===== verification/Query_Plan.thy ===== *)
theory Query_Plan
  imports Dynamic_Attributes
begin

text \<open>
  Model of \<open>search_v2/query_planner.py\<close>: at most one bounded query per language from a normalised
  intent, the validators of a query and of a plan, and the digest of a plan. Validating a query
  returns its normalised value, as the field validator does.
\<close>

definition max_query_characters :: nat where "max_query_characters = 200"

record search_query =
  query_language :: language
  query_value :: string

record search_query_plan =
  qp_intent :: string
  qp_queries :: "search_query list"

fun language_name :: "language \<Rightarrow> string" where
  "language_name Ja = ''ja''"
| "language_name En = ''en''"

section \<open>Validation\<close>

definition normalize_query_value :: "text_library \<Rightarrow> string \<Rightarrow> string result" where
  "normalize_query_value U s =
     (if \<not> text_between 1 max_query_characters s then Inl (ValidationError ''search query field'')
      else if has_newline s then Inl (ValidationError ''search query must not contain a newline'')
      else let n = nfkc U s; c = join_words (split_words U n) in
        if any_control U n
        then Inl (ValidationError ''search query must not contain control characters'')
        else if c = [] then Inl (ValidationError ''search query must not be empty'')
        else if max_query_characters < text_length c
        then Inl (ValidationError ''search query exceeds 200 characters'')
        else if has_url c then Inl (ValidationError ''search query must not contain a URL'')
        else Inr c)"

definition validate_query :: "text_library \<Rightarrow> search_query \<Rightarrow> search_query result" where
  "validate_query U q =
     bind (normalize_query_value U (query_value q)) (\<lambda>v. Inr (q\<lparr>query_value := v\<rparr>))"

definition validate_search_plan :: "text_library \<Rightarrow> search_query_plan \<Rightarrow> search_query_plan result" where
  "validate_search_plan U p =
     (if \<not> is_digest (qp_intent p) \<or> qp_queries p = [] \<or> 2 < length (qp_queries p)
      then Inl (ValidationError ''search query plan field'')
      else bind (map_result (validate_query U) (qp_queries p)) (\<lambda>qs.
        if \<not> distinct (map query_language qs)
        then Inl (ValidationError ''search plan permits one query per language'')
        else if \<not> distinct (map (text_identity U \<circ> query_value) qs)
        then Inl (ValidationError ''search plan must not contain equivalent queries'')
        else Inr (p\<lparr>qp_queries := qs\<rparr>)))"

section \<open>Building a plan\<close>

text \<open>The terms of a language, each with the flag that it is tokenised.\<close>

definition language_terms :: "normalized_intent \<Rightarrow> language \<Rightarrow> (string option \<times> bool) list" where
  "language_terms i l =
     (case l of
        Ja \<Rightarrow> [(product_name_ja i, True), (category_ja i, True), (intent_brand i, False),
               (model_number i, False)] @
              map (\<lambda>t. (Some t, True)) (required_terms_ja i @ preferred_terms_ja i)
      | En \<Rightarrow> [(product_name_en i, True), (category_en i, True), (intent_brand i, False),
               (model_number i, False)] @
              map (\<lambda>t. (Some t, True)) (required_terms_en i @ preferred_terms_en i))"

fun unique_by :: "('a \<Rightarrow> 'k) \<Rightarrow> 'k list \<Rightarrow> 'a list \<Rightarrow> 'a list" where
  "unique_by f seen [] = []"
| "unique_by f seen (x # xs) =
     (if f x \<in> set seen then unique_by f seen xs else x # unique_by f (f x # seen) xs)"

fun term_group :: "tokenizer_library \<Rightarrow> language \<Rightarrow> string option \<times> bool \<Rightarrow> string list result" where
  "term_group T l (None, tokenized) = Inr []"
| "term_group T l (Some t, tokenized) =
     bind (if tokenized then tokenize_search_text T l t else Inr [t]) (\<lambda>cs.
       Inr (unique_by (text_identity (text_functions T)) [] cs))"

definition query_term_groups ::
  "tokenizer_library \<Rightarrow> normalized_intent \<Rightarrow> language \<Rightarrow> string list list result" where
  "query_term_groups T i l =
     bind (map_result (term_group T l) (language_terms i l)) (\<lambda>gs. Inr (filter (\<lambda>g. g \<noteq> []) gs))"

text \<open>The loop of \<open>_bounded_query\<close>: a group that does not fit is left out as a whole.\<close>

fun accept_groups :: "text_library \<Rightarrow> string list \<Rightarrow> string set \<Rightarrow> string list list \<Rightarrow> string list" where
  "accept_groups U accepted seen [] = accepted"
| "accept_groups U accepted seen (g # gs) =
     (let fresh = filter (\<lambda>t. text_identity U t \<notin> seen) g in
      if text_length (join_words (accepted @ fresh)) \<le> max_query_characters
      then accept_groups U (accepted @ fresh) (seen \<union> set (map (text_identity U) fresh)) gs
      else accept_groups U accepted seen gs)"

definition bounded_query :: "text_library \<Rightarrow> string list list \<Rightarrow> string option" where
  "bounded_query U gs =
     (let q = join_words (accept_groups U [] {} gs) in if q = [] then None else Some q)"

fun plan_queries ::
  "tokenizer_library \<Rightarrow> normalized_intent \<Rightarrow> string list \<Rightarrow> language list \<Rightarrow> search_query list result"
where
  "plan_queries T i seen [] = Inr []"
| "plan_queries T i seen (l # ls) =
     (let U = text_functions T in
      bind (query_term_groups T i l) (\<lambda>gs.
      case bounded_query U gs of
        None \<Rightarrow> plan_queries T i seen ls
      | Some v \<Rightarrow>
          bind (validate_query U \<lparr>query_language = l, query_value = v\<rparr>) (\<lambda>q.
            if text_identity U (query_value q) \<in> set seen then plan_queries T i seen ls
            else bind (plan_queries T i (text_identity U (query_value q) # seen) ls) (\<lambda>qs.
              Inr (q # qs)))))"

definition build_search_query_plan ::
  "tokenizer_library \<Rightarrow> (string \<Rightarrow> string) \<Rightarrow> normalized_intent \<Rightarrow> search_query_plan result" where
  "build_search_query_plan T H i =
     (let U = text_functions T in
      bind (validate_normalized_intent i) (\<lambda>_.
      if has_blocking_ambiguity i \<or>
         list_ex (numeric_identity_requires_review U H) (typed_conditions i)
      then Inl (ValueError ''blocking ambiguity must be resolved before building a query plan'')
      else bind (plan_queries T i [] [Ja, En]) (\<lambda>qs.
        if qs = [] then Inl (ValueError ''normalized intent does not contain searchable terms'')
        else bind (search_intent_sha256 H i) (\<lambda>h.
          validate_search_plan U \<lparr>qp_intent = h, qp_queries = qs\<rparr>))))"

section \<open>Digest\<close>

definition query_json :: "search_query \<Rightarrow> json" where
  "query_json q =
     JObj [(''language'', JStr (language_name (query_language q))), (''value'', JStr (query_value q))]"

definition search_plan_json :: "search_query_plan \<Rightarrow> json" where
  "search_plan_json p =
     JObj [(''schema_version'', JStr ''2.0''), (''intent_sha256'', JStr (qp_intent p)),
           (''queries'', JArr (map query_json (qp_queries p)))]"

definition query_plan_domain :: string where
  "query_plan_domain = ''amazon-explorer-search-query-plan-v2'' @ [CHR 0x0A]"

definition search_query_plan_sha256 ::
  "text_library \<Rightarrow> (string \<Rightarrow> string) \<Rightarrow> search_query_plan \<Rightarrow> string result" where
  "search_query_plan_sha256 U H p =
     bind (validate_search_plan U p) (\<lambda>v. Inr (canonical_sha256 H query_plan_domain (search_plan_json v)))"

end
