(* ===== verification/Url_Text.thy ===== *)
theory Url_Text
  imports Utf8_Text
begin

text \<open>
  The part of \<open>urllib.parse\<close> the program uses, on ASCII text without control characters:
  \<open>urlsplit\<close> with the \<open>hostname\<close>, \<open>port\<close>, \<open>username\<close> and \<open>password\<close> of its result, \<open>urlunsplit\<close>
  and \<open>urlencode\<close>. \<open>B\<close> is the check \<open>urlsplit\<close> makes of a network location with brackets.
\<close>

definition upper_chars :: string where "upper_chars = ''ABCDEFGHIJKLMNOPQRSTUVWXYZ''"

definition is_letter :: "char \<Rightarrow> bool" where
  "is_letter c \<longleftrightarrow> c \<in> set (lower_chars @ upper_chars)"

definition lower_char :: "char \<Rightarrow> char" where
  "lower_char c = (if c \<in> set upper_chars then char_of (code_of c + 32) else c)"

definition lower_text :: "string \<Rightarrow> string" where
  "lower_text s = map lower_char s"

definition is_ascii :: "string \<Rightarrow> bool" where
  "is_ascii s \<longleftrightarrow> list_all (\<lambda>c. code_of c < 128) s"

text \<open>\<open>partition\<close> and \<open>rpartition\<close> at a character: \<open>None\<close> where it does not occur.\<close>

definition partition_at :: "char \<Rightarrow> string \<Rightarrow> string \<times> string option" where
  "partition_at d s =
     (takeWhile (\<lambda>c. c \<noteq> d) s,
      case dropWhile (\<lambda>c. c \<noteq> d) s of [] \<Rightarrow> None | _ # r \<Rightarrow> Some r)"

definition rpartition_at :: "char \<Rightarrow> string \<Rightarrow> string option \<times> string" where
  "rpartition_at d s =
     (case partition_at d (rev s) of (a, b) \<Rightarrow> (map_option rev b, rev a))"

record url_parts =
  url_scheme :: string
  url_netloc :: string
  url_path :: string
  url_query :: string
  url_fragment :: string

definition scheme_split :: "string \<Rightarrow> string \<times> string" where
  "scheme_split s =
     (case partition_at CHR '':'' s of
        (a, Some r) \<Rightarrow>
          if a \<noteq> [] \<and> is_letter (hd a) \<and> list_all (\<lambda>c. is_letter c \<or> c \<in> set (digit_chars @ ''+-.'')) a
          then (lower_text a, r) else ([], s)
      | _ \<Rightarrow> ([], s))"

definition url_split :: "(string \<Rightarrow> bool) \<Rightarrow> string \<Rightarrow> url_parts result" where
  "url_split B s =
     (let (scheme, rest) = scheme_split (dropWhile (\<lambda>c. code_of c \<le> 32) s);
          (netloc, path0) = (if take 2 rest = ''//''
             then (takeWhile (\<lambda>c. c \<notin> set ''/?#'') (drop 2 rest), dropWhile (\<lambda>c. c \<notin> set ''/?#'') (drop 2 rest))
             else ([], rest));
          open_br = CHR ''['' \<in> set netloc; close_br = CHR '']'' \<in> set netloc;
          (path1, fragment) = partition_at CHR ''#'' path0;
          (path2, query) = partition_at CHR ''?'' path1
      in if open_br \<noteq> close_br then Inl (ValueError ''Invalid IPv6 URL'')
         else if open_br \<and> \<not> B netloc then Inl (ValueError ''Invalid IPv6 URL'')
         else Inr \<lparr>url_scheme = scheme, url_netloc = netloc, url_path = path2,
                   url_query = (case query of None \<Rightarrow> [] | Some q \<Rightarrow> q),
                   url_fragment = (case fragment of None \<Rightarrow> [] | Some f \<Rightarrow> f)\<rparr>)"

text \<open>The host and the port text of a network location.\<close>

definition host_info :: "url_parts \<Rightarrow> string \<times> string option" where
  "host_info u =
     (let info = snd (rpartition_at CHR ''@'' (url_netloc u));
          (host, port) = (case partition_at CHR ''['' info of
             (_, Some bracketed) \<Rightarrow>
               (case partition_at CHR '']'' bracketed of
                  (h, None) \<Rightarrow> (h, None)
                | (h, Some r) \<Rightarrow> (h, snd (partition_at CHR '':'' r)))
           | _ \<Rightarrow> partition_at CHR '':'' info)
      in (host, if port = Some [] then None else port))"

definition url_hostname :: "url_parts \<Rightarrow> string option" where
  "url_hostname u =
     (let host = fst (host_info u) in
      if host = [] then None
      else Some (lower_text (takeWhile (\<lambda>c. c \<noteq> CHR ''%'') host) @ dropWhile (\<lambda>c. c \<noteq> CHR ''%'') host))"

definition url_port :: "url_parts \<Rightarrow> nat option result" where
  "url_port u =
     (case snd (host_info u) of
        None \<Rightarrow> Inr None
      | Some p \<Rightarrow>
          if \<not> chars_in digit_chars p then Inl (ValueError ''Port could not be cast to integer value'')
          else if 65535 < dec_val p then Inl (ValueError ''Port out of range 0-65535'')
          else Inr (Some (dec_val p)))"

definition url_username :: "url_parts \<Rightarrow> string option" where
  "url_username u =
     map_option (\<lambda>info. fst (partition_at CHR '':'' info)) (fst (rpartition_at CHR ''@'' (url_netloc u)))"

definition url_password :: "url_parts \<Rightarrow> string option" where
  "url_password u =
     (case fst (rpartition_at CHR ''@'' (url_netloc u)) of
        None \<Rightarrow> None | Some info \<Rightarrow> snd (partition_at CHR '':'' info))"

text \<open>\<open>urlunsplit((scheme, host, path, query, ""))\<close> for a host and a path that starts with a slash.\<close>

definition url_join :: "string \<Rightarrow> string \<Rightarrow> string \<Rightarrow> string \<Rightarrow> string" where
  "url_join scheme host path query =
     scheme @ ''://'' @ host @ path @ (if query = [] then [] else CHR ''?'' # query)"

text \<open>\<open>host.split(".")\<close>.\<close>

definition host_labels :: "string \<Rightarrow> string list" where
  "host_labels h = split_dots h"

text \<open>\<open>quote_plus\<close> works on the bytes of the UTF-8 encoding.\<close>

definition upper_hex :: "nat \<Rightarrow> char" where
  "upper_hex n = ''0123456789ABCDEF'' ! n"

definition quote_char :: "char \<Rightarrow> string" where
  "quote_char c =
     (if is_letter c \<or> c \<in> set (digit_chars @ ''_.-~'') then [c]
      else if c = CHR '' '' then ''+''
      else [CHR ''%'', upper_hex (code_of c div 16), upper_hex (code_of c mod 16)])"

definition quote_plus :: "string \<Rightarrow> string" where
  "quote_plus s = concat (map quote_char s)"

end
