(* ===== verification/Product_Request.thy ===== *)
theory Product_Request
  imports Query_Plan Url_Text
begin

text \<open>
  Model of \<open>search_v2/outscraper_contract.py\<close> and \<open>search_v2/product_request.py\<close>: the bounded
  request made of a query plan, for the Outscraper service or for the local Playwright browser, its
  validators and its digest. Fields whose type is one literal appear in the JSON forms only.
\<close>

definition products_endpoint :: string where
  "products_endpoint = ''https://api.outscraper.cloud/amazon-products''"

definition limit_per_query :: nat where "limit_per_query = 24"

section \<open>Outscraper requests\<close>

record outscraper_request =
  or_japanese :: bool
  or_endpoint :: string
  or_plan :: string
  or_queries :: "search_query list"
  or_postal :: string
  or_maximum :: nat

definition valid_label :: "string \<Rightarrow> bool" where
  "valid_label w \<longleftrightarrow> w \<noteq> [] \<and> hd w \<noteq> CHR ''-'' \<and> last w \<noteq> CHR ''-''"

definition port_text :: "nat option \<Rightarrow> string" where
  "port_text p = (case p of None \<Rightarrow> [] | Some n \<Rightarrow> CHR '':'' # dec_nat n)"

definition endpoint_host :: "string \<Rightarrow> bool" where
  "endpoint_host h \<longleftrightarrow> chars_in (lower_chars @ digit_chars @ ''.-'') h \<and> list_all valid_label (host_labels h)"

definition validated_endpoint ::
  "text_library \<Rightarrow> (string \<Rightarrow> bool) \<Rightarrow> string \<Rightarrow> string result" where
  "validated_endpoint U B s =
     (if s \<noteq> strip_text s \<or> any_control U s
      then Inl (ValueError ''Outscraper endpoint contains unsupported whitespace or control data'')
      else if \<not> is_ascii s then Inl (ValueError ''Outscraper endpoint is invalid'')
      else bind (url_split B s) (\<lambda>u. bind (url_port u) (\<lambda>port.
        case url_hostname u of
          None \<Rightarrow> Inl (ValueError ''Outscraper endpoint must be a credential-free HTTPS operation URL'')
        | Some h \<Rightarrow>
            if url_scheme u \<noteq> ''https'' \<or> url_username u \<noteq> None \<or> url_password u \<noteq> None \<or>
               url_path u \<noteq> ''/amazon-products'' \<or> url_query u \<noteq> [] \<or> url_fragment u \<noteq> []
            then Inl (ValueError ''Outscraper endpoint must be a credential-free HTTPS operation URL'')
            else if \<not> endpoint_host h then Inl (ValueError ''Outscraper endpoint host is invalid'')
            else if url_netloc u \<noteq> h @ port_text port
            then Inl (ValueError ''Outscraper endpoint is not canonical'')
            else Inr s)))"

definition validate_provider_query :: "text_library \<Rightarrow> search_query \<Rightarrow> unit result" where
  "validate_provider_query U q =
     bind (validate_query U q) (\<lambda>v.
       if query_value v \<noteq> query_value q then Inl (ValidationError ''Outscraper query is not canonical'')
       else Inr ())"

text \<open>\<open>[0-9]{3}-?[0-9]{4}\<close>.\<close>

definition postal_code :: "string \<Rightarrow> bool" where
  "postal_code s \<longleftrightarrow>
     (let digits = (if take 1 (drop 3 s) = ''-'' then take 3 s @ drop 4 s else s) in
      length digits = 7 \<and> chars_in digit_chars digits)"

definition request_fields :: "string \<Rightarrow> search_query list \<Rightarrow> string \<Rightarrow> nat \<Rightarrow> bool" where
  "request_fields plan queries postal maximum \<longleftrightarrow> is_digest plan \<and> 1 \<le> length queries \<and>
     length queries \<le> 2 \<and> 7 \<le> text_length postal \<and> text_length postal \<le> 8 \<and> maximum \<in> {24, 48}"

definition validate_outscraper_request ::
  "text_library \<Rightarrow> (string \<Rightarrow> bool) \<Rightarrow> outscraper_request \<Rightarrow> unit result" where
  "validate_outscraper_request U B r =
     (if \<not> request_fields (or_plan r) (or_queries r) (or_postal r) (or_maximum r) \<or>
         \<not> text_between 1 2048 (or_endpoint r)
      then Inl (ValidationError ''Outscraper request field'')
      else bind (rewrap is_ValueError (ValidationError ''endpoint'') (validated_endpoint U B (or_endpoint r))) (\<lambda>_.
        bind (check_all (validate_provider_query U) (or_queries r)) (\<lambda>_.
        if \<not> postal_code (or_postal r) then Inl (ValidationError ''Outscraper postal code is invalid'')
        else if \<not> distinct (map query_language (or_queries r))
        then Inl (ValidationError ''Outscraper request permits one query per language'')
        else if or_maximum r \<noteq> length (or_queries r) * limit_per_query
        then Inl (ValidationError ''Outscraper candidate ceiling does not match the query batch'')
        else Inr ())))"

definition japanese_search_url :: "string \<Rightarrow> string" where
  "japanese_search_url q =
     ''https://www.amazon.co.jp/s?k='' @ quote_plus q @ ''&language=ja_JP''"

definition build_outscraper_request ::
  "text_library \<Rightarrow> (string \<Rightarrow> bool) \<Rightarrow> (string \<Rightarrow> string) \<Rightarrow> search_query_plan \<Rightarrow> string \<Rightarrow> string \<Rightarrow> bool \<Rightarrow>
   outscraper_request result" where
  "build_outscraper_request U B H plan endpoint postal japanese =
     bind (validate_search_plan U plan) (\<lambda>p.
     bind (check_all (validate_provider_query U) (qp_queries p)) (\<lambda>_.
     bind (search_query_plan_sha256 U H p) (\<lambda>h.
       let r = \<lparr>or_japanese = japanese, or_endpoint = endpoint, or_plan = h, or_queries = qp_queries p,
                or_postal = postal, or_maximum = length (qp_queries p) * limit_per_query\<rparr>
       in bind (validate_outscraper_request U B r) (\<lambda>_. Inr r))))"

definition outscraper_request_json :: "outscraper_request \<Rightarrow> json" where
  "outscraper_request_json r =
     JObj [(''schema_version'', JStr (if or_japanese r then ''2.1'' else ''2.0'')),
           (''provider'', JStr ''outscraper''), (''method'', JStr ''GET''),
           (''endpoint'', JStr (or_endpoint r)), (''query_plan_sha256'', JStr (or_plan r)),
           (''queries'', JArr (map query_json (or_queries r))), (''domain'', JStr ''amazon.co.jp''),
           (''language'', JStr ''ja''), (''postal_code'', JStr (or_postal r)),
           (''limit_per_query'', JInt 24), (''async_request'', JBool True),
           (''maximum_candidates'', JInt (int (or_maximum r)))]"

definition outscraper_request_domain :: string where
  "outscraper_request_domain = ''amazon-explorer-outscraper-request-v2'' @ [CHR 0x0A]"

section \<open>Playwright requests\<close>

record playwright_request =
  pr_plan :: string
  pr_queries :: "search_query list"
  pr_postal :: string
  pr_maximum :: nat
  pr_titles :: bool
  pr_details :: bool

definition validate_playwright_request :: "text_library \<Rightarrow> playwright_request \<Rightarrow> unit result" where
  "validate_playwright_request U r =
     (if \<not> request_fields (pr_plan r) (pr_queries r) (pr_postal r) (pr_maximum r)
      then Inl (ValidationError ''product request field'')
      else bind (check_all (validate_provider_query U) (pr_queries r)) (\<lambda>_.
        if pr_details r \<and> \<not> pr_titles r
        then Inl (ValidationError ''English details require English retrieval'')
        else if \<not> distinct (map query_language (pr_queries r))
        then Inl (ValidationError ''Duplicate product query language'')
        else if pr_maximum r \<noteq> length (pr_queries r) * limit_per_query
        then Inl (ValidationError ''Product candidate limit does not match queries'')
        else Inr ()))"

definition playwright_request_json :: "playwright_request \<Rightarrow> json" where
  "playwright_request_json r =
     JObj ([(''schema_version'', JStr ''1.0''), (''provider'', JStr ''playwright''),
            (''endpoint'', JStr ''https://www.amazon.co.jp/s''),
            (''query_plan_sha256'', JStr (pr_plan r)),
            (''queries'', JArr (map query_json (pr_queries r))), (''domain'', JStr ''amazon.co.jp''),
            (''language'', JStr ''ja''), (''postal_code'', JStr (pr_postal r)),
            (''delivery_location'', JStr ''amazon_default''), (''limit_per_query'', JInt 24),
            (''maximum_candidates'', JInt (int (pr_maximum r))), (''maximum_search_pages'', JInt 3),
            (''page_timeout_seconds'', JInt 30), (''retries'', JInt 0), (''details'', JBool True)] @
           (if pr_titles r then [(''english_titles'', JBool True)] else []) @
           (if pr_details r then [(''english_details'', JBool True)] else []))"

definition playwright_request_domain :: string where
  "playwright_request_domain = ''amazon-explorer-playwright-request-v1'' @ [CHR 0x0A]"

definition build_product_request ::
  "text_library \<Rightarrow> (string \<Rightarrow> string) \<Rightarrow> search_query_plan \<Rightarrow> string \<Rightarrow> bool \<Rightarrow> bool \<Rightarrow>
   playwright_request result" where
  "build_product_request U H plan postal titles details =
     bind (validate_search_plan U plan) (\<lambda>p.
     bind (search_query_plan_sha256 U H p) (\<lambda>h.
     bind (check_all (validate_provider_query U) (qp_queries p)) (\<lambda>_.
       let r = \<lparr>pr_plan = h, pr_queries = qp_queries p, pr_postal = postal,
                pr_maximum = 24 * length (qp_queries p), pr_titles = titles,
                pr_details = (titles \<and> details)\<rparr>
       in bind (validate_playwright_request U r) (\<lambda>_. Inr r))))"

text \<open>\<open>compatibility_request\<close>.\<close>

definition compatibility_request ::
  "text_library \<Rightarrow> (string \<Rightarrow> bool) \<Rightarrow> playwright_request \<Rightarrow> outscraper_request result" where
  "compatibility_request U B r =
     (let q = \<lparr>or_japanese = False, or_endpoint = products_endpoint, or_plan = pr_plan r,
               or_queries = pr_queries r, or_postal = pr_postal r, or_maximum = pr_maximum r\<rparr>
      in bind (validate_outscraper_request U B q) (\<lambda>_. Inr q))"

section \<open>Either kind of request\<close>

datatype product_request = Outscraper_request outscraper_request | Playwright_request playwright_request

fun request_plan :: "product_request \<Rightarrow> string" where
  "request_plan (Outscraper_request r) = or_plan r"
| "request_plan (Playwright_request r) = pr_plan r"

fun request_queries :: "product_request \<Rightarrow> search_query list" where
  "request_queries (Outscraper_request r) = or_queries r"
| "request_queries (Playwright_request r) = pr_queries r"

fun request_maximum :: "product_request \<Rightarrow> nat" where
  "request_maximum (Outscraper_request r) = or_maximum r"
| "request_maximum (Playwright_request r) = pr_maximum r"

fun provider_queries :: "product_request \<Rightarrow> string list" where
  "provider_queries (Outscraper_request r) =
     map (if or_japanese r then japanese_search_url \<circ> query_value else query_value) (or_queries r)"
| "provider_queries (Playwright_request r) = map query_value (pr_queries r)"

fun validate_request :: "text_library \<Rightarrow> (string \<Rightarrow> bool) \<Rightarrow> product_request \<Rightarrow> unit result" where
  "validate_request U B (Outscraper_request r) = validate_outscraper_request U B r"
| "validate_request U B (Playwright_request r) = validate_playwright_request U r"

fun request_sha256 ::
  "text_library \<Rightarrow> (string \<Rightarrow> bool) \<Rightarrow> (string \<Rightarrow> string) \<Rightarrow> product_request \<Rightarrow> string result" where
  "request_sha256 U B H (Outscraper_request r) =
     bind (validate_outscraper_request U B r) (\<lambda>_.
       Inr (canonical_sha256 H outscraper_request_domain (outscraper_request_json r)))"
| "request_sha256 U B H (Playwright_request r) =
     bind (validate_playwright_request U r) (\<lambda>_.
       Inr (canonical_sha256 H playwright_request_domain (playwright_request_json r)))"

definition rebuild_product_request ::
  "text_library \<Rightarrow> (string \<Rightarrow> bool) \<Rightarrow> (string \<Rightarrow> string) \<Rightarrow> product_request \<Rightarrow> search_query_plan \<Rightarrow>
   product_request result" where
  "rebuild_product_request U B H r plan =
     (case r of
        Playwright_request q \<Rightarrow>
          bind (build_product_request U H plan (pr_postal q) (pr_titles q) (pr_details q)) (\<lambda>v.
            Inr (Playwright_request v))
      | Outscraper_request q \<Rightarrow>
          bind (build_outscraper_request U B H plan products_endpoint (or_postal q) (or_japanese q)) (\<lambda>v.
            Inr (Outscraper_request v)))"

end
