(* ===== verification/Product_Records.thy ===== *)
theory Product_Records
  imports Product_Request Float_Values
begin

text \<open>
  The contracts of \<open>search_v2/product_normalization.py\<close>: observed attributes, provenance, product
  candidates, rejections and the normalised batch, with their validators, JSON forms and digests.
  Names of fields (\<open>unknown\<close>, \<open>truncated_fields\<close>, \<open>discarded_fields\<close>) are strings, checked against
  the literals of their types.
\<close>

section \<open>Bounds\<close>

definition max_product_title :: nat where "max_product_title = 500"
definition max_product_description :: nat where "max_product_description = 4000"
definition max_product_attribute :: nat where "max_product_attribute = 200"
definition max_product_categories :: nat where "max_product_categories = 20"
definition max_product_features :: nat where "max_product_features = 20"
definition max_product_images :: nat where "max_product_images = 20"
definition max_provider_request_id :: nat where "max_provider_request_id = 256"
definition max_review_count :: int where "max_review_count = 9223372036854775807"
definition max_raw_text :: nat where "max_raw_text = 32768"
definition max_raw_numeric :: nat where "max_raw_numeric = 256"
definition max_raw_identifier :: nat where "max_raw_identifier = 64"
definition max_raw_collection :: nat where "max_raw_collection = 100"
definition max_ranked_products :: nat where "max_ranked_products = 48"

definition bounded_attribute :: "string \<Rightarrow> bool" where
  "bounded_attribute s \<longleftrightarrow> text_between 1 max_product_attribute s"

definition bounded_url :: "string \<Rightarrow> bool" where
  "bounded_url s \<longleftrightarrow> text_between 1 2048 s"

definition truncated_names :: "string list" where
  "truncated_names =
     [''description_en'', ''features_en'', ''color_en'', ''material_en'', ''title'', ''title_en'',
      ''brand'', ''store_name'', ''description'', ''categories'', ''color'', ''material'', ''features'',
      ''availability'', ''shipping'']"

definition discarded_names :: "string list" where
  "discarded_names =
     [''features_en'', ''asin'', ''brand'', ''store_name'', ''description'', ''categories'', ''color'',
      ''material'', ''features'', ''price'', ''list_price'', ''rating'', ''review_count'', ''prime'',
      ''availability'', ''shipping'', ''product_url'', ''image_urls'']"

section \<open>Records\<close>

datatype provider_kind = Outscraper_provider | Playwright_provider

datatype currency = JPY | USD

record observed_attributes =
  oa_brand :: "string option"
  oa_categories :: "string list"
  oa_color :: "string option"
  oa_material :: "string option"
  oa_features :: "string list"
  oa_unknown :: "string list"

record product_provenance =
  pv_provider :: provider_kind
  pv_request :: string
  pv_plan :: string
  pv_request_id :: string
  pv_query_index :: nat
  pv_language :: language
  pv_index :: nat

record english_details =
  en_description :: "string option"
  en_features :: "string list"
  en_color :: "string option"
  en_material :: "string option"

record product_candidate =
  pc_asin :: "string option"
  pc_title :: string
  pc_store :: "string option"
  pc_title_en :: "string option"
  pc_title_en_status :: "bool option"
  pc_details_en :: "english_details option"
  pc_details_en_status :: "bool option"
  pc_description :: "string option"
  pc_attributes :: observed_attributes
  pc_price :: "int option"
  pc_list_price :: "int option"
  pc_currency :: "currency option"
  pc_rating :: "rat option"
  pc_reviews :: "int option"
  pc_prime :: "bool option"
  pc_availability :: "string option"
  pc_shipping :: "string option"
  pc_url :: "string option"
  pc_images :: "string list"
  pc_truncated :: "string list"
  pc_discarded :: "string list"
  pc_provenance :: product_provenance

text \<open>The two statuses are \<open>Some True\<close> for \<open>available\<close>, \<open>Some False\<close> for \<open>unavailable\<close>.\<close>

datatype rejection_reason =
    Not_an_object | Missing_title | Unsupported_currency | Unknown_query_provenance
  | Unapproved_query | Duplicate_asin | Duplicate_product_url

record product_rejection =
  rej_index :: nat
  rej_reason :: rejection_reason
  rej_duplicate :: "nat option"

record product_batch =
  pb_provider :: provider_kind
  pb_request :: string
  pb_plan :: string
  pb_request_id :: string
  pb_profile :: string
  pb_maximum :: nat
  pb_products :: "product_candidate list"
  pb_rejections :: "product_rejection list"

section \<open>Validation\<close>

text \<open>The names of the attributes that were not observed, in declaration order.\<close>

definition unknown_attributes ::
  "string option \<Rightarrow> string list \<Rightarrow> string option \<Rightarrow> string option \<Rightarrow> string list \<Rightarrow> string list" where
  "unknown_attributes brand categories color material features =
     map fst (filter snd [(''brand'', brand = None), (''categories'', categories = []),
       (''color'', color = None), (''material'', material = None), (''features'', features = [])])"

definition validate_attributes :: "observed_attributes \<Rightarrow> unit result" where
  "validate_attributes a =
     (if \<not> (opt_all bounded_attribute (oa_brand a) \<and> length (oa_categories a) \<le> max_product_categories \<and>
            list_all bounded_attribute (oa_categories a) \<and> opt_all bounded_attribute (oa_color a) \<and>
            opt_all bounded_attribute (oa_material a) \<and> length (oa_features a) \<le> max_product_features \<and>
            list_all bounded_attribute (oa_features a) \<and> length (oa_unknown a) \<le> 5)
      then Inl (ValidationError ''observed product attributes field'')
      else if oa_unknown a \<noteq> unknown_attributes (oa_brand a) (oa_categories a) (oa_color a) (oa_material a)
                (oa_features a)
      then Inl (ValidationError ''unknown attributes must match missing observed values'')
      else Inr ())"

text \<open>\<open>[!-~]+\<close> of at most 256 characters.\<close>

definition provider_request_id :: "string \<Rightarrow> bool" where
  "provider_request_id s \<longleftrightarrow> 1 \<le> length s \<and> length s \<le> max_provider_request_id \<and>
     list_all (\<lambda>c. 33 \<le> code_of c \<and> code_of c \<le> 126) s"

definition validate_product_provenance :: "product_provenance \<Rightarrow> unit result" where
  "validate_product_provenance v =
     (if is_digest (pv_request v) \<and> is_digest (pv_plan v) \<and> provider_request_id (pv_request_id v) \<and>
         pv_query_index v \<le> 1 \<and> pv_index v < 48
      then Inr () else Inl (ValidationError ''product provenance field''))"

definition english_details_ok :: "english_details \<Rightarrow> bool" where
  "english_details_ok d \<longleftrightarrow> opt_all (text_between 1 4000) (en_description d) \<and>
     length (en_features d) \<le> 20 \<and> list_all bounded_attribute (en_features d) \<and>
     opt_all bounded_attribute (en_color d) \<and> opt_all bounded_attribute (en_material d)"

definition is_asin :: "string \<Rightarrow> bool" where
  "is_asin s \<longleftrightarrow> length s = 10 \<and> chars_in (upper_chars @ digit_chars) s"

definition rating_value :: "rat \<Rightarrow> bool" where
  "rating_value x \<longleftrightarrow> 0 \<le> x \<and> x \<le> 5"

definition product_fields :: "product_candidate \<Rightarrow> bool" where
  "product_fields p \<longleftrightarrow> opt_all is_asin (pc_asin p) \<and> text_between 1 max_product_title (pc_title p) \<and>
     opt_all bounded_attribute (pc_store p) \<and> opt_all (text_between 1 500) (pc_title_en p) \<and>
     opt_all english_details_ok (pc_details_en p) \<and>
     opt_all (text_between 1 max_product_description) (pc_description p) \<and>
     opt_all price_value (pc_price p) \<and> opt_all price_value (pc_list_price p) \<and>
     opt_all rating_value (pc_rating p) \<and>
     opt_all (\<lambda>n. 0 \<le> n \<and> n \<le> max_review_count) (pc_reviews p) \<and>
     opt_all bounded_attribute (pc_availability p) \<and> opt_all bounded_attribute (pc_shipping p) \<and>
     opt_all bounded_url (pc_url p) \<and> length (pc_images p) \<le> max_product_images \<and>
     list_all bounded_url (pc_images p) \<and>
     length (pc_truncated p) \<le> 20 \<and> set (pc_truncated p) \<subseteq> set truncated_names \<and>
     length (pc_discarded p) \<le> 20 \<and> set (pc_discarded p) \<subseteq> set discarded_names"

definition validate_product :: "product_candidate \<Rightarrow> unit result" where
  "validate_product p =
     (if \<not> product_fields p then Inl (ValidationError ''normalized product candidate field'')
      else bind (validate_attributes (pc_attributes p)) (\<lambda>_.
        bind (validate_product_provenance (pc_provenance p)) (\<lambda>_.
        if (pc_details_en_status p = Some True) \<noteq> (pc_details_en p \<noteq> None)
        then Inl (ValidationError ''English details status is inconsistent'')
        else if (pc_title_en_status p = Some True) \<noteq> (pc_title_en p \<noteq> None)
        then Inl (ValidationError ''English title status is inconsistent'')
        else if pc_currency p = None \<and> (pc_price p \<noteq> None \<or> pc_list_price p \<noteq> None)
        then Inl (ValidationError ''JPY prices require an observed source currency'')
        else if \<not> distinct (pc_images p) then Inl (ValidationError ''image URLs must be unique'')
        else if \<not> distinct (pc_truncated p) then Inl (ValidationError ''truncated fields must be unique'')
        else if \<not> distinct (pc_discarded p) then Inl (ValidationError ''discarded fields must be unique'')
        else Inr ())))"

definition is_duplicate :: "rejection_reason \<Rightarrow> bool" where
  "is_duplicate r \<longleftrightarrow> r \<in> {Duplicate_asin, Duplicate_product_url}"

definition validate_rejection :: "product_rejection \<Rightarrow> unit result" where
  "validate_rejection r =
     (if \<not> rej_index r < 48 \<or> \<not> opt_all (\<lambda>n. n < 48) (rej_duplicate r)
      then Inl (ValidationError ''product rejection field'')
      else if is_duplicate (rej_reason r) \<noteq> (rej_duplicate r \<noteq> None)
      then Inl (ValidationError ''duplicate rejection must identify the retained candidate'')
      else Inr ())"

definition bound_to_batch :: "product_batch \<Rightarrow> product_candidate \<Rightarrow> bool" where
  "bound_to_batch b p \<longleftrightarrow>
     (let v = pc_provenance p in pv_provider v = pb_provider b \<and> pv_request v = pb_request b \<and>
        pv_plan v = pb_plan b \<and> pv_request_id v = pb_request_id b)"

definition batch_fields :: "product_batch \<Rightarrow> bool" where
  "batch_fields b \<longleftrightarrow> is_digest (pb_request b) \<and> is_digest (pb_plan b) \<and>
     provider_request_id (pb_request_id b) \<and> is_digest (pb_profile b) \<and> pb_maximum b \<in> {24, 48} \<and>
     length (pb_products b) \<le> 48 \<and> length (pb_rejections b) \<le> 48"

definition response_indexes :: "product_batch \<Rightarrow> nat list" where
  "response_indexes b =
     map (pv_index \<circ> pc_provenance) (pb_products b) @ map rej_index (pb_rejections b)"

definition validate_batch :: "product_batch \<Rightarrow> unit result" where
  "validate_batch b =
     (if \<not> batch_fields b then Inl (ValidationError ''normalized product batch field'')
      else bind (check_all validate_product (pb_products b)) (\<lambda>_.
        bind (check_all validate_rejection (pb_rejections b)) (\<lambda>_.
        if pb_maximum b < length (pb_products b) + length (pb_rejections b)
        then Inl (ValidationError ''normalized batch exceeds the approved candidate limit'')
        else if \<not> distinct (response_indexes b)
        then Inl (ValidationError ''normalized batch contains duplicate response indexes'')
        else if \<not> list_all (bound_to_batch b) (pb_products b)
        then Inl (ValidationError ''product provenance does not match the normalized batch'')
        else Inr ())))"

section \<open>JSON and digests\<close>

definition attributes_json :: "observed_attributes \<Rightarrow> json" where
  "attributes_json a =
     JObj [(''brand'', json_opt JStr (oa_brand a)), (''categories'', json_texts (oa_categories a)),
           (''color'', json_opt JStr (oa_color a)), (''material'', json_opt JStr (oa_material a)),
           (''features'', json_texts (oa_features a)), (''unknown'', json_texts (oa_unknown a))]"

definition provider_member :: "provider_kind \<Rightarrow> (string \<times> json) list" where
  "provider_member k = (if k = Outscraper_provider then [] else [(''provider'', JStr ''playwright'')])"

definition product_provenance_json :: "product_provenance \<Rightarrow> json" where
  "product_provenance_json v =
     JObj (provider_member (pv_provider v) @
       [(''outscraper_request_sha256'', JStr (pv_request v)), (''query_plan_sha256'', JStr (pv_plan v)),
        (''provider_request_id'', JStr (pv_request_id v)),
        (''query_index'', JInt (int (pv_query_index v))),
        (''query_language'', JStr (language_name (pv_language v))),
        (''response_index'', JInt (int (pv_index v)))])"

definition english_details_json :: "english_details \<Rightarrow> json" where
  "english_details_json d =
     JObj [(''description'', json_opt JStr (en_description d)), (''features'', json_texts (en_features d)),
           (''color'', json_opt JStr (en_color d)), (''material'', json_opt JStr (en_material d))]"

definition status_json :: "bool option \<Rightarrow> json" where
  "status_json s = json_opt (\<lambda>b. JStr (if b then ''available'' else ''unavailable'')) s"

fun currency_name :: "currency \<Rightarrow> string" where
  "currency_name JPY = ''JPY''"
| "currency_name USD = ''USD''"

definition product_json :: "product_candidate \<Rightarrow> json" where
  "product_json p =
     JObj ([(''schema_version'', JStr ''2.0''), (''source'', JStr ''amazon''),
            (''asin'', json_opt JStr (pc_asin p)), (''title'', JStr (pc_title p)),
            (''store_name'', json_opt JStr (pc_store p))] @
       (if pc_title_en_status p = None then []
        else [(''title_en'', json_opt JStr (pc_title_en p)),
              (''title_en_status'', status_json (pc_title_en_status p))]) @
       (if pc_details_en_status p = None then []
        else [(''details_en'', json_opt english_details_json (pc_details_en p)),
              (''details_en_status'', status_json (pc_details_en_status p))]) @
       [(''description'', json_opt JStr (pc_description p)),
        (''attributes'', attributes_json (pc_attributes p)),
        (''price_jpy'', json_opt JInt (pc_price p)), (''list_price_jpy'', json_opt JInt (pc_list_price p)),
        (''source_currency'', json_opt (JStr \<circ> currency_name) (pc_currency p)),
        (''rating'', json_opt json_float (pc_rating p)), (''review_count'', json_opt JInt (pc_reviews p)),
        (''is_prime'', json_opt JBool (pc_prime p)),
        (''availability'', json_opt JStr (pc_availability p)),
        (''shipping'', json_opt JStr (pc_shipping p)), (''product_url'', json_opt JStr (pc_url p)),
        (''image_urls'', json_texts (pc_images p)), (''truncated_fields'', json_texts (pc_truncated p)),
        (''discarded_fields'', json_texts (pc_discarded p)),
        (''provenance'', product_provenance_json (pc_provenance p))])"

fun reason_name :: "rejection_reason \<Rightarrow> string" where
  "reason_name Not_an_object = ''not_an_object''"
| "reason_name Missing_title = ''missing_title''"
| "reason_name Unsupported_currency = ''unsupported_currency''"
| "reason_name Unknown_query_provenance = ''unknown_query_provenance''"
| "reason_name Unapproved_query = ''unapproved_query''"
| "reason_name Duplicate_asin = ''duplicate_asin''"
| "reason_name Duplicate_product_url = ''duplicate_product_url''"

definition rejection_json :: "product_rejection \<Rightarrow> json" where
  "rejection_json r =
     JObj [(''schema_version'', JStr ''2.0''), (''response_index'', JInt (int (rej_index r))),
           (''reason'', JStr (reason_name (rej_reason r))),
           (''duplicate_of_response_index'', json_opt (JInt \<circ> int) (rej_duplicate r))]"

definition batch_json :: "product_batch \<Rightarrow> json" where
  "batch_json b =
     JObj (provider_member (pb_provider b) @
       [(''schema_version'', JStr ''2.0''), (''normalization_mode'', JStr ''observed_only_no_llm''),
        (''outscraper_request_sha256'', JStr (pb_request b)), (''query_plan_sha256'', JStr (pb_plan b)),
        (''provider_request_id'', JStr (pb_request_id b)),
        (''normalization_profile_sha256'', JStr (pb_profile b)),
        (''maximum_candidates'', JInt (int (pb_maximum b))),
        (''products'', JArr (map product_json (pb_products b))),
        (''rejections'', JArr (map rejection_json (pb_rejections b)))])"

definition batch_domain :: string where
  "batch_domain = ''amazon-explorer-normalized-product-batch-v2'' @ [CHR 0x0A]"

definition normalized_product_batch_sha256 :: "(string \<Rightarrow> string) \<Rightarrow> product_batch \<Rightarrow> string result" where
  "normalized_product_batch_sha256 H b =
     bind (validate_batch b) (\<lambda>_. Inr (canonical_sha256 H batch_domain (batch_json b)))"

definition normalization_profile_domain :: string where
  "normalization_profile_domain = ''amazon-explorer-product-normalization-profile-v2'' @ [CHR 0x0A]"

text \<open>A profile is its exchange rate; the other fields are literals.\<close>

definition valid_rate :: "int \<Rightarrow> bool" where
  "valid_rate rate \<longleftrightarrow> 0 < rate \<and> rate \<le> 1000000"

definition profile_json :: "int \<Rightarrow> json" where
  "profile_json rate =
     JObj [(''schema_version'', JStr ''2.0''), (''profile_id'', JStr ''observed-only-v2''),
           (''usd_to_jpy_rate'', JInt rate)]"

definition product_normalization_profile_sha256 :: "(string \<Rightarrow> string) \<Rightarrow> int \<Rightarrow> string result" where
  "product_normalization_profile_sha256 H rate =
     (if valid_rate rate then Inr (canonical_sha256 H normalization_profile_domain (profile_json rate))
      else Inl (ValidationError ''product normalization profile field''))"

end
