(* ===== verification/Product_Ranking.thy ===== *)
theory Product_Ranking
  imports Product_Records
begin

text \<open>
  Model of \<open>search_v2/ranking.py\<close>: the deterministic score of a product against an intent, the
  contracts of its components and of the ranked batch, and the ranking itself. Scores are binary64
  numbers; \<open>L n\<close> is \<open>math.log1p(n)\<close>, which the C library computes.
\<close>

section \<open>Profile\<close>

definition max_score_terms :: nat where "max_score_terms = 128"
definition score_decimals :: nat where "score_decimals = 4"
definition effective_weight_decimals :: nat where "effective_weight_decimals = 6"

text \<open>The literals of the only profile, as the floats they denote.\<close>

definition title_weight :: rat where "title_weight = float_of (35 / 100)"
definition attributes_weight :: rat where "attributes_weight = float_of (3 / 10)"
definition price_weight :: rat where "price_weight = float_of (2 / 10)"
definition image_weight :: rat where "image_weight = float_of (1 / 10)"
definition review_weight :: rat where "review_weight = float_of (5 / 100)"
definition negative_match_penalty :: rat where "negative_match_penalty = float_of (2 / 10)"
definition max_negative_penalty :: rat where "max_negative_penalty = 1 / 2"
definition high_rating_threshold :: rat where "high_rating_threshold = 4"
definition maximum_rating :: rat where "maximum_rating = 5"
definition review_count_saturation :: int where "review_count_saturation = 1000"
definition required_term_weight :: nat where "required_term_weight = 3"
definition preferred_term_weight :: nat where "preferred_term_weight = 2"
definition attribute_term_weight :: nat where "attribute_term_weight = 1"

definition base_weights :: "rat list" where
  "base_weights = [title_weight, attributes_weight, price_weight, image_weight, review_weight]"

definition ranking_profile_json :: json where
  "ranking_profile_json =
     JObj [(''schema_version'', JStr ''3.0''), (''profile_id'', JStr ''ranking-v3''),
           (''title_weight'', json_float title_weight),
           (''attributes_weight'', json_float attributes_weight),
           (''price_weight'', json_float price_weight), (''image_weight'', json_float image_weight),
           (''review_quality_weight'', json_float review_weight),
           (''required_term_weight'', JInt 3), (''preferred_term_weight'', JInt 2),
           (''attribute_term_weight'', JInt 1),
           (''negative_match_penalty'', json_float negative_match_penalty),
           (''max_negative_penalty'', json_float max_negative_penalty),
           (''high_rating_threshold'', json_float high_rating_threshold),
           (''maximum_rating'', json_float maximum_rating), (''review_count_saturation'', JInt 1000),
           (''image_scoring_enabled'', JBool False), (''score_decimals'', JInt 4)]"

definition ranking_profile_domain :: string where
  "ranking_profile_domain = ''amazon-explorer-ranking-profile-v3'' @ [CHR 0x00]"

definition ranking_profile_digest :: "(string \<Rightarrow> string) \<Rightarrow> string" where
  "ranking_profile_digest H = canonical_sha256 H ranking_profile_domain ranking_profile_json"

section \<open>Components\<close>

datatype component_status = Available | Missing | Disabled

datatype component_reason =
  Scored | No_intent_terms | Not_requested | Product_data_missing | Image_scoring_disabled

record score_component =
  sc_status :: component_status
  sc_reason :: component_reason
  sc_score :: "rat option"
  sc_base :: rat
  sc_effective :: rat
  sc_contribution :: rat

definition unit_value :: "rat \<Rightarrow> bool" where
  "unit_value x \<longleftrightarrow> 0 \<le> x \<and> x \<le> 1"

definition component_fields :: "score_component \<Rightarrow> bool" where
  "component_fields c \<longleftrightarrow> opt_all unit_value (sc_score c) \<and> 0 < sc_base c \<and> sc_base c \<le> 1 \<and>
     unit_value (sc_effective c) \<and> unit_value (sc_contribution c)"

definition contribution_of :: "rat \<Rightarrow> rat \<Rightarrow> rat" where
  "contribution_of score weight = round_to score_decimals (float_of (score * weight))"

definition validate_component :: "score_component \<Rightarrow> unit result" where
  "validate_component c =
     (if \<not> component_fields c then Inl (ValidationError ''score component field'')
      else if sc_status c = Available
      then (if sc_reason c \<noteq> Scored \<or> sc_score c = None \<or> sc_effective c \<le> 0
            then Inl (ValidationError ''available score component is inconsistent'')
            else if \<not> is_close (sc_contribution c) (contribution_of (the (sc_score c)) (sc_effective c))
                       (float_of (1 / 10 ^ 12))
            then Inl (ValidationError ''score component contribution is inconsistent'')
            else Inr ())
      else if sc_score c \<noteq> None \<or> sc_effective c \<noteq> 0 \<or> sc_contribution c \<noteq> 0
      then Inl (ValidationError ''unavailable score component must not contribute'')
      else if sc_status c = Disabled \<and> sc_reason c \<noteq> Image_scoring_disabled
      then Inl (ValidationError ''disabled score component reason is inconsistent'')
      else if sc_status c = Missing \<and> sc_reason c \<in> {Scored, Image_scoring_disabled}
      then Inl (ValidationError ''missing score component reason is inconsistent'')
      else Inr ())"

record raw_component =
  rc_status :: component_status
  rc_reason :: component_reason
  rc_score :: "rat option"

definition scored :: "rat \<Rightarrow> raw_component" where
  "scored x = \<lparr>rc_status = Available, rc_reason = Scored, rc_score = Some x\<rparr>"

definition missing :: "component_reason \<Rightarrow> raw_component" where
  "missing r = \<lparr>rc_status = Missing, rc_reason = r, rc_score = None\<rparr>"

definition image_disabled :: raw_component where
  "image_disabled = \<lparr>rc_status = Disabled, rc_reason = Image_scoring_disabled, rc_score = None\<rparr>"

definition clip_unit :: "rat \<Rightarrow> rat" where
  "clip_unit x = max 0 (min 1 x)"

text \<open>\<open>_component\<close>; dividing by a zero weight never happens, since an available component has one.\<close>

definition build_component :: "raw_component \<Rightarrow> rat \<Rightarrow> rat \<Rightarrow> score_component result" where
  "build_component raw base available =
     (let c = (if rc_status raw \<noteq> Available
               then Inr \<lparr>sc_status = rc_status raw, sc_reason = rc_reason raw, sc_score = None,
                         sc_base = base, sc_effective = 0, sc_contribution = 0\<rparr>
               else case rc_score raw of
                 None \<Rightarrow> Inl AssertionError
               | Some x \<Rightarrow>
                   let score = round_to score_decimals (clip_unit x);
                       effective = round_to effective_weight_decimals (float_of (base / available))
                   in Inr \<lparr>sc_status = Available, sc_reason = Scored, sc_score = Some score,
                           sc_base = base, sc_effective = effective,
                           sc_contribution = contribution_of score effective\<rparr>)
      in bind c (\<lambda>v. bind (validate_component v) (\<lambda>_. Inr v)))"

definition available_weight :: "raw_component list \<Rightarrow> rat list \<Rightarrow> rat" where
  "available_weight raws weights =
     fsum (map snd (filter (\<lambda>(r, w). rc_status r = Available) (zip raws weights)))"

definition build_components :: "raw_component list \<Rightarrow> rat list \<Rightarrow> score_component list result" where
  "build_components raws weights =
     map_result (\<lambda>(r, w). build_component r w (available_weight raws weights)) (zip raws weights)"

definition penalty_of :: "nat \<Rightarrow> rat" where
  "penalty_of matches =
     round_to score_decimals
       (min max_negative_penalty (float_of (of_nat matches * negative_match_penalty)))"

definition pre_penalty_of :: "score_component list \<Rightarrow> rat" where
  "pre_penalty_of cs = round_to score_decimals (fsum (map sc_contribution cs))"

definition total_of :: "rat \<Rightarrow> rat \<Rightarrow> rat" where
  "total_of pre penalty = round_to score_decimals (clip_unit (float_of (pre - penalty)))"

definition base_total_of :: "score_component list \<Rightarrow> rat" where
  "base_total_of cs =
     round_to score_decimals (fsum (map sc_base (filter (\<lambda>c. sc_status c = Available) cs)))"

section \<open>Breakdowns\<close>

record score_breakdown =
  sb_title :: score_component
  sb_attributes :: score_component
  sb_price :: score_component
  sb_image :: score_component
  sb_review :: score_component
  sb_available :: rat
  sb_pre_penalty :: rat
  sb_penalty :: rat
  sb_total :: rat
  sb_title_language :: "language option"
  sb_attribute_language :: "language option"
  sb_matched :: "string list"
  sb_missing :: "string list"
  sb_negative :: "string list"

definition breakdown_components :: "score_breakdown \<Rightarrow> score_component list" where
  "breakdown_components b = [sb_title b, sb_attributes b, sb_price b, sb_image b, sb_review b]"

definition score_terms :: "string list \<Rightarrow> bool" where
  "score_terms ts \<longleftrightarrow> length ts \<le> max_score_terms \<and> list_all (text_between 1 200) ts"

text \<open>The checks on the numbers that both breakdown contracts share; \<open>t\<close> is the tolerance of the
  sum of the effective weights.\<close>

definition effective_normalized :: "rat \<Rightarrow> score_component list \<Rightarrow> bool" where
  "effective_normalized t cs \<longleftrightarrow>
     (let available = filter (\<lambda>c. sc_status c = Available) cs in
      is_close (fsum (map sc_effective available)) (if available = [] then 0 else 1) t)"

definition validate_breakdown :: "text_library \<Rightarrow> score_breakdown \<Rightarrow> unit result" where
  "validate_breakdown U b =
     (let cs = breakdown_components b in
      bind (check_all validate_component cs) (\<lambda>_.
      if \<not> (unit_value (sb_available b) \<and> unit_value (sb_pre_penalty b) \<and> unit_value (sb_penalty b) \<and>
             unit_value (sb_total b) \<and> score_terms (sb_matched b) \<and> score_terms (sb_missing b) \<and>
             score_terms (sb_negative b))
      then Inl (ValidationError ''score breakdown field'')
      else if map sc_base cs \<noteq> base_weights
      then Inl (ValidationError ''score breakdown base weights do not match ranking profile'')
      else if sc_status (sb_image b) \<noteq> Disabled
      then Inl (ValidationError ''image ranking must remain disabled'')
      else if sc_status (sb_review b) = Disabled
      then Inl (ValidationError ''review quality ranking must not be disabled'')
      else if sb_available b \<noteq> base_total_of cs
      then Inl (ValidationError ''available score weight is inconsistent'')
      else if \<not> effective_normalized (float_of (2 / 10 ^ 6)) cs
      then Inl (ValidationError ''effective score weights are not normalized'')
      else if sb_pre_penalty b \<noteq> pre_penalty_of cs
      then Inl (ValidationError ''pre-penalty score is inconsistent'')
      else if sb_penalty b \<noteq> penalty_of (length (sb_negative b))
      then Inl (ValidationError ''negative penalty is inconsistent'')
      else if sb_total b \<noteq> total_of (sb_pre_penalty b) (sb_penalty b)
      then Inl (ValidationError ''total score is inconsistent'')
      else if sc_status (sb_title b) = Available \<and> sb_title_language b = None
      then Inl (ValidationError ''available title score requires a language'')
      else if sc_status (sb_title b) \<noteq> Available \<and> sb_title_language b \<noteq> None
      then Inl (ValidationError ''unavailable title score must not select a language'')
      else if sc_reason (sb_attributes b) = No_intent_terms \<and> sb_attribute_language b \<noteq> None
      then Inl (ValidationError ''missing attribute intent must not select a language'')
      else if sc_status (sb_attributes b) = Available \<and> sb_attribute_language b = None
      then Inl (ValidationError ''available attribute score requires a language'')
      else if \<not> has_unique_text U (sb_matched b)
      then Inl (ValidationError ''matched terms must be unique'')
      else if \<not> has_unique_text U (sb_missing b)
      then Inl (ValidationError ''missing terms must be unique'')
      else if \<not> has_unique_text U (sb_negative b)
      then Inl (ValidationError ''negative matches must be unique'')
      else if set (map (text_identity U) (sb_matched b)) \<inter> set (map (text_identity U) (sb_missing b)) \<noteq> {}
      then Inl (ValidationError ''matched and missing terms must not overlap'')
      else Inr ()))"

section \<open>Scoring\<close>

definition safe_tokens :: "tokenizer_library \<Rightarrow> language \<Rightarrow> string \<Rightarrow> string list" where
  "safe_tokens T l s = (case tokenize_search_text T l s of Inl e \<Rightarrow> [] | Inr ts \<Rightarrow> ts)"

definition tokens_for_values :: "tokenizer_library \<Rightarrow> language \<Rightarrow> string list \<Rightarrow> string set" where
  "tokens_for_values T l vs = (\<Union>s \<in> set vs. set (safe_tokens T l s))"

definition optional_values :: "string option list \<Rightarrow> string list" where
  "optional_values vs = List.map_filter (\<lambda>v. v) vs"

definition title_targets :: "tokenizer_library \<Rightarrow> normalized_intent \<Rightarrow> language \<Rightarrow> string set" where
  "title_targets T i l =
     tokens_for_values T l (optional_values (case l of
        Ja \<Rightarrow> [product_name_ja i, category_ja i, intent_brand i, model_number i]
      | En \<Rightarrow> [product_name_en i, category_en i, intent_brand i, model_number i]))"

definition float_ratio :: "nat \<Rightarrow> nat \<Rightarrow> rat" where
  "float_ratio a b = float_of (of_nat a / of_nat b)"

text \<open>The first of the languages with the greatest score.\<close>

fun best_language :: "('a \<Rightarrow> rat) \<Rightarrow> 'a \<Rightarrow> 'a list \<Rightarrow> 'a" where
  "best_language f x [] = x"
| "best_language f x (y # ys) = best_language f (if f x < f y then y else x) ys"

definition title_scores ::
  "tokenizer_library \<Rightarrow> normalized_intent \<Rightarrow> product_candidate \<Rightarrow> (language \<times> rat) list" where
  "title_scores T i p =
     map (\<lambda>l. let targets = title_targets T i l in
            (l, float_ratio (card (targets \<inter> tokens_for_values T l [pc_title p])) (card targets)))
       (filter (\<lambda>l. title_targets T i l \<noteq> {}) [Ja, En])"

definition title_score ::
  "tokenizer_library \<Rightarrow> normalized_intent \<Rightarrow> product_candidate \<Rightarrow> raw_component \<times> language option" where
  "title_score T i p =
     (case title_scores T i p of
        [] \<Rightarrow> (missing No_intent_terms, None)
      | x # xs \<Rightarrow> (case best_language snd x xs of (l, score) \<Rightarrow> (scored score, Some l)))"

record weighted_term =
  wt_value :: string
  wt_tokens :: "string list"
  wt_weight :: nat

text \<open>\<open>_append_weighted_terms\<close> over the groups of terms of a language; a term without tokens or
  already seen is skipped.\<close>

fun weighted_terms ::
  "tokenizer_library \<Rightarrow> language \<Rightarrow> string list \<Rightarrow> (string \<times> nat) list \<Rightarrow> weighted_term list" where
  "weighted_terms T l seen [] = []"
| "weighted_terms T l seen ((v, w) # vs) =
     (let identity = text_identity (text_functions T) v; tokens = safe_tokens T l v in
      if identity \<in> set seen \<or> tokens = [] then weighted_terms T l seen vs
      else \<lparr>wt_value = v, wt_tokens = tokens, wt_weight = w\<rparr> # weighted_terms T l (identity # seen) vs)"

definition attribute_term_list :: "normalized_intent \<Rightarrow> language \<Rightarrow> (string \<times> nat) list" where
  "attribute_term_list i l =
     (let weigh = (\<lambda>w. map (\<lambda>v. (v, w)));
          (required, preferred, descriptive) = (case l of
             Ja \<Rightarrow> (required_terms_ja i, preferred_terms_ja i,
                    optional_values [category_ja i, color_ja i] @ features_ja i)
           | En \<Rightarrow> (required_terms_en i, preferred_terms_en i,
                    optional_values [category_en i, color_en i] @ features_en i))
      in weigh required_term_weight required @ weigh preferred_term_weight preferred @
         weigh attribute_term_weight descriptive @
         weigh attribute_term_weight (optional_values [intent_brand i]))"

definition attribute_terms :: "tokenizer_library \<Rightarrow> normalized_intent \<Rightarrow> language \<Rightarrow> weighted_term list" where
  "attribute_terms T i l = weighted_terms T l [] (attribute_term_list i l)"

definition observed_attribute_values :: "product_candidate \<Rightarrow> string list" where
  "observed_attribute_values p =
     (let a = pc_attributes p in
      optional_values [oa_brand a, oa_color a, oa_material a] @ oa_categories a @ oa_features a)"

record language_score =
  ls_language :: language
  ls_score :: rat
  ls_matched :: "string list"
  ls_missing :: "string list"

definition term_matches :: "string set \<Rightarrow> weighted_term \<Rightarrow> bool" where
  "term_matches tokens t \<longleftrightarrow> set (wt_tokens t) \<subseteq> tokens"

definition language_attribute_score ::
  "weighted_term list \<Rightarrow> string set \<Rightarrow> language \<Rightarrow> language_score" where
  "language_attribute_score ts tokens l =
     (let total = sum_list (map wt_weight ts);
          matched = sum_list (map wt_weight (filter (term_matches tokens) ts))
      in \<lparr>ls_language = l, ls_score = (if total = 0 then 0 else float_ratio matched total),
          ls_matched = map wt_value (filter (term_matches tokens) ts),
          ls_missing = map wt_value (filter (\<lambda>t. \<not> term_matches tokens t) ts)\<rparr>)"

text \<open>The scores of the languages with terms, given the product tokens of each.\<close>

definition language_scores ::
  "tokenizer_library \<Rightarrow> normalized_intent \<Rightarrow> (language \<Rightarrow> string set) \<Rightarrow> language_score list" where
  "language_scores T i tokens =
     map (\<lambda>l. language_attribute_score (attribute_terms T i l) (tokens l) l)
       (filter (\<lambda>l. attribute_terms T i l \<noteq> []) [Ja, En])"

definition attribute_score ::
  "tokenizer_library \<Rightarrow> normalized_intent \<Rightarrow> product_candidate \<Rightarrow>
   raw_component \<times> language option \<times> string list \<times> string list" where
  "attribute_score T i p =
     (let observed = observed_attribute_values p in
      case language_scores T i (\<lambda>_. {}) of
        [] \<Rightarrow> (missing No_intent_terms, None, [], [])
      | c # cs \<Rightarrow>
          if observed = []
          then let s = best_language ls_score c cs in
            (missing Product_data_missing, Some (ls_language s), [], ls_missing s)
          else case language_scores T i (\<lambda>l. tokens_for_values T l observed) of
            [] \<Rightarrow> (missing No_intent_terms, None, [], [])
          | d # ds \<Rightarrow>
              let s = best_language ls_score d ds in
              (scored (ls_score s), Some (ls_language s), ls_matched s, ls_missing s))"

definition int_ratio :: "int \<Rightarrow> int \<Rightarrow> rat" where
  "int_ratio a b = float_of (of_int a / of_int b)"

text \<open>A bound that validation guarantees is present: its absence is the \<open>AssertionError\<close>.\<close>

definition required_bound :: "int option \<Rightarrow> int result" where
  "required_bound v = (case v of None \<Rightarrow> Inl AssertionError | Some n \<Rightarrow> Inr n)"

definition price_score :: "price_condition \<Rightarrow> int option \<Rightarrow> raw_component result" where
  "price_score c observed =
     (if price_mode c = Price_none then Inr (missing Not_requested)
      else case observed of
        None \<Rightarrow> Inr (missing Product_data_missing)
      | Some price \<Rightarrow>
          (case price_mode c of
             Price_exact \<Rightarrow> bind (required_bound (price_target c)) (\<lambda>t.
               Inr (scored (int_ratio (min price t) (max price t))))
           | Price_range \<Rightarrow> bind (required_bound (price_min c)) (\<lambda>lo.
               bind (required_bound (price_max c)) (\<lambda>hi.
                 Inr (scored (if lo \<le> price \<and> price \<le> hi then 1
                              else if price < lo then int_ratio price lo
                              else int_ratio hi price))))
           | Price_min \<Rightarrow> bind (required_bound (price_min c)) (\<lambda>lo.
               Inr (scored (min 1 (int_ratio price lo))))
           | _ \<Rightarrow> bind (required_bound (price_max c)) (\<lambda>hi.
               Inr (scored (min 1 (int_ratio hi price))))))"

definition review_quality_score :: "(int \<Rightarrow> rat) \<Rightarrow> product_candidate \<Rightarrow> raw_component" where
  "review_quality_score L p =
     (case (pc_rating p, pc_reviews p) of
        (Some rating, Some count) \<Rightarrow>
          if rating < high_rating_threshold \<or> count = 0 then scored 0
          else let quality = float_of (rating / maximum_rating);
                   volume = min 1 (float_of (L count / L review_count_saturation))
               in scored (float_of (quality * volume))
      | _ \<Rightarrow> missing Product_data_missing)"

text \<open>The loop over the negative terms of both languages: a term matches when all its tokens occur in
  the texts of the product.\<close>

fun match_terms ::
  "tokenizer_library \<Rightarrow> (language \<Rightarrow> string set) \<Rightarrow> string list \<Rightarrow> (language \<times> string) list \<Rightarrow> string list"
where
  "match_terms T evidence seen [] = []"
| "match_terms T evidence seen ((l, t) # ts) =
     (let identity = text_identity (text_functions T) t; tokens = safe_tokens T l t in
      if identity \<notin> set seen \<and> tokens \<noteq> [] \<and> set tokens \<subseteq> evidence l
      then t # match_terms T evidence (identity # seen) ts
      else match_terms T evidence seen ts)"

definition negative_matches ::
  "tokenizer_library \<Rightarrow> normalized_intent \<Rightarrow> product_candidate \<Rightarrow> string list" where
  "negative_matches T i p =
     (let texts = pc_title p # optional_values [pc_store p, pc_description p] @
                  observed_attribute_values p
      in match_terms T (\<lambda>l. tokens_for_values T l texts) []
           (map (\<lambda>t. (Ja, t)) (negative_terms_ja i) @ map (\<lambda>t. (En, t)) (negative_terms_en i)))"

definition score_product ::
  "tokenizer_library \<Rightarrow> (int \<Rightarrow> rat) \<Rightarrow> normalized_intent \<Rightarrow> product_candidate \<Rightarrow> score_breakdown result"
where
  "score_product T L i p =
     (let (title, title_language) = title_score T i p;
          (attributes, attribute_language, matched, unmatched) = attribute_score T i p;
          review = review_quality_score L p;
          negative = negative_matches T i p
      in bind (price_score (intent_price i) (pc_price p)) (\<lambda>price.
         let raws = [title, attributes, price, image_disabled, review] in
         bind (build_components raws base_weights) (\<lambda>cs.
         let penalty = penalty_of (length negative); pre = pre_penalty_of cs;
             b = \<lparr>sb_title = cs ! 0, sb_attributes = cs ! 1, sb_price = cs ! 2, sb_image = cs ! 3,
                  sb_review = cs ! 4,
                  sb_available = round_to score_decimals (available_weight raws base_weights),
                  sb_pre_penalty = pre, sb_penalty = penalty, sb_total = total_of pre penalty,
                  sb_title_language = title_language, sb_attribute_language = attribute_language,
                  sb_matched = matched, sb_missing = unmatched, sb_negative = negative\<rparr>
         in bind (validate_breakdown (text_functions T) b) (\<lambda>_. Inr b))))"

section \<open>Ranking\<close>

record ranked_product =
  rp_rank :: nat
  rp_product :: product_candidate
  rp_breakdown :: score_breakdown

record ranked_batch =
  rb_profile :: string
  rb_intent :: string
  rb_plan :: string
  rb_batch :: string
  rb_products :: "ranked_product list"

definition product_index :: "product_candidate \<Rightarrow> nat" where
  "product_index p = pv_index (pc_provenance p)"

definition rank_key :: "product_candidate \<times> score_breakdown \<Rightarrow> rat \<times> nat" where
  "rank_key x = (- sb_total (snd x), product_index (fst x))"

definition validate_ranked_product :: "text_library \<Rightarrow> ranked_product \<Rightarrow> unit result" where
  "validate_ranked_product U r =
     (if \<not> (1 \<le> rp_rank r \<and> rp_rank r \<le> max_ranked_products)
      then Inl (ValidationError ''ranked product field'')
      else bind (validate_product (rp_product r)) (\<lambda>_. validate_breakdown U (rp_breakdown r)))"

definition ranked_keys :: "ranked_product list \<Rightarrow> (rat \<times> nat) list" where
  "ranked_keys rs = map (\<lambda>r. rank_key (rp_product r, rp_breakdown r)) rs"

definition validate_ranked_batch ::
  "text_library \<Rightarrow> (string \<Rightarrow> string) \<Rightarrow> ranked_batch \<Rightarrow> unit result" where
  "validate_ranked_batch U H b =
     (let rs = rb_products b in
      if \<not> (is_digest (rb_profile b) \<and> is_digest (rb_intent b) \<and> is_digest (rb_plan b) \<and>
             is_digest (rb_batch b) \<and> length rs \<le> max_ranked_products)
      then Inl (ValidationError ''ranked product batch field'')
      else bind (check_all (validate_ranked_product U) rs) (\<lambda>_.
        if rb_profile b \<noteq> ranking_profile_digest H
        then Inl (ValidationError ''ranked batch uses an unsupported ranking profile'')
        else if map rp_rank rs \<noteq> [1..<Suc (length rs)]
        then Inl (ValidationError ''ranked products must have contiguous ranks'')
        else if \<not> distinct (map (product_index \<circ> rp_product) rs)
        then Inl (ValidationError ''ranked products must have unique response indexes'')
        else if list_ex (\<lambda>r. pv_plan (pc_provenance (rp_product r)) \<noteq> rb_plan b) rs
        then Inl (ValidationError ''ranked product query binding is inconsistent'')
        else if ranked_keys rs \<noteq> sort (ranked_keys rs)
        then Inl (ValidationError ''ranked products are not in stable score order'')
        else Inr ()))"

definition with_ranks :: "(product_candidate \<times> score_breakdown) list \<Rightarrow> ranked_product list" where
  "with_ranks xs =
     map (\<lambda>(n, p, b). \<lparr>rp_rank = n, rp_product = p, rp_breakdown = b\<rparr>) (enumerate 1 xs)"

definition score_all ::
  "tokenizer_library \<Rightarrow> (int \<Rightarrow> rat) \<Rightarrow> normalized_intent \<Rightarrow> product_candidate list \<Rightarrow>
   (product_candidate \<times> score_breakdown) list result" where
  "score_all T L i ps = map_result (\<lambda>p. bind (score_product T L i p) (\<lambda>b. Inr (p, b))) ps"

definition is_ranking_failure :: "exn \<Rightarrow> bool" where
  "is_ranking_failure e \<longleftrightarrow> e = AssertionError \<or> is_TypeError e \<or> is_ValueError e"

definition rank_product_batch ::
  "tokenizer_library \<Rightarrow> (int \<Rightarrow> rat) \<Rightarrow> (string \<Rightarrow> string) \<Rightarrow> normalized_intent \<Rightarrow> search_query_plan \<Rightarrow>
   product_batch \<Rightarrow> ranked_batch result" where
  "rank_product_batch T L H i plan batch =
     (let U = text_functions T in
      rewrap is_ranking_failure RankingError
       (bind (validate_normalized_intent i) (\<lambda>_.
        bind (validate_search_plan U plan) (\<lambda>plan'.
        bind (validate_batch batch) (\<lambda>_.
        bind (search_intent_sha256 H i) (\<lambda>intent_digest.
        bind (search_query_plan_sha256 U H plan') (\<lambda>plan_digest.
        if qp_intent plan' \<noteq> intent_digest \<or> pb_plan batch \<noteq> plan_digest then Inl RankingError
        else bind (score_all T L i (pb_products batch)) (\<lambda>scores.
          let rs = with_ranks (sort_key rank_key scores) in
          bind (check_all (validate_ranked_product U) rs) (\<lambda>_.
          bind (normalized_product_batch_sha256 H batch) (\<lambda>batch_digest.
            let b = \<lparr>rb_profile = ranking_profile_digest H, rb_intent = intent_digest,
                     rb_plan = plan_digest, rb_batch = batch_digest, rb_products = rs\<rparr>
            in bind (validate_ranked_batch U H b) (\<lambda>_. Inr b)))))))))))"

subsection \<open>Digest of a ranked batch\<close>

fun component_status_name :: "component_status \<Rightarrow> string" where
  "component_status_name Available = ''available''"
| "component_status_name Missing = ''missing''"
| "component_status_name Disabled = ''disabled''"

fun component_reason_name :: "component_reason \<Rightarrow> string" where
  "component_reason_name Scored = ''scored''"
| "component_reason_name No_intent_terms = ''no_intent_terms''"
| "component_reason_name Not_requested = ''not_requested''"
| "component_reason_name Product_data_missing = ''product_data_missing''"
| "component_reason_name Image_scoring_disabled = ''image_scoring_disabled''"

definition component_json :: "score_component \<Rightarrow> json" where
  "component_json c =
     JObj [(''status'', JStr (component_status_name (sc_status c))),
           (''reason'', JStr (component_reason_name (sc_reason c))),
           (''score'', json_opt json_float (sc_score c)), (''base_weight'', json_float (sc_base c)),
           (''effective_weight'', json_float (sc_effective c)),
           (''contribution'', json_float (sc_contribution c))]"

definition breakdown_json :: "score_breakdown \<Rightarrow> json" where
  "breakdown_json b =
     JObj [(''title'', component_json (sb_title b)), (''attributes'', component_json (sb_attributes b)),
           (''price'', component_json (sb_price b)), (''image'', component_json (sb_image b)),
           (''review_quality'', component_json (sb_review b)),
           (''available_base_weight'', json_float (sb_available b)),
           (''pre_penalty_score'', json_float (sb_pre_penalty b)),
           (''negative_penalty'', json_float (sb_penalty b)),
           (''total_score'', json_float (sb_total b)),
           (''title_language'', json_opt (JStr \<circ> language_name) (sb_title_language b)),
           (''attribute_language'', json_opt (JStr \<circ> language_name) (sb_attribute_language b)),
           (''matched_terms'', json_texts (sb_matched b)), (''missing_terms'', json_texts (sb_missing b)),
           (''negative_matches'', json_texts (sb_negative b))]"

definition ranked_product_json :: "ranked_product \<Rightarrow> json" where
  "ranked_product_json r =
     JObj [(''schema_version'', JStr ''3.0''), (''rank'', JInt (int (rp_rank r))),
           (''product'', product_json (rp_product r)), (''breakdown'', breakdown_json (rp_breakdown r))]"

definition ranked_batch_json :: "ranked_batch \<Rightarrow> json" where
  "ranked_batch_json b =
     JObj [(''schema_version'', JStr ''3.0''), (''ranking_profile_id'', JStr ''ranking-v3''),
           (''ranking_profile_sha256'', JStr (rb_profile b)), (''intent_sha256'', JStr (rb_intent b)),
           (''query_plan_sha256'', JStr (rb_plan b)),
           (''normalized_product_batch_sha256'', JStr (rb_batch b)),
           (''products'', JArr (map ranked_product_json (rb_products b)))]"

definition ranked_batch_domain :: string where
  "ranked_batch_domain = ''amazon-explorer-ranked-product-batch-v3'' @ [CHR 0x00]"

definition ranked_product_batch_sha256 ::
  "text_library \<Rightarrow> (string \<Rightarrow> string) \<Rightarrow> ranked_batch \<Rightarrow> string result" where
  "ranked_product_batch_sha256 U H b =
     bind (validate_ranked_batch U H b) (\<lambda>_.
       Inr (canonical_sha256 H ranked_batch_domain (ranked_batch_json b)))"

end
