(* ===== verification/Score_Weights.thy ===== *)
theory Score_Weights
  imports Product_Ranking
begin

text \<open>
  The rounding facts behind the scores: whichever components are available, the effective weights
  lie in \<open>(0, 1]\<close>, sum to 1 within the tolerance the contracts allow, and no choice of component
  scores makes the rounded sum of the contributions exceed 1.
\<close>

section \<open>Base weights and their effective weights\<close>

text \<open>How far a float may be from the decimal it stands for, in units of half a last place of 1.\<close>

definition eps :: rat where "eps = 1 / 2 ^ 53"

lemma eps_bounds: "0 < eps" "eps * 1000000000000000 \<le> 1"
  by (simp_all add: eps_def)

definition near :: "nat \<Rightarrow> rat \<Rightarrow> rat \<Rightarrow> bool" where
  "near k x y \<longleftrightarrow> x \<le> y + of_nat k * eps \<and> y \<le> x + of_nat k * eps"

lemma near_float:
  assumes "0 \<le> x" and "x < 2" and "near k x y"
  shows "near (Suc k) (float_of x) y"
  using float_of_error [OF assms(1,2), folded eps_def] assms(3)
  unfolding near_def of_nat_Suc distrib_right by linarith

lemma near_refl: "near 0 x x"
  by (simp add: near_def)

lemma near_abs: "near k x y \<longleftrightarrow> \<bar>x - y\<bar> \<le> of_nat k * eps"
  unfolding near_def abs_le_iff by linarith

lemma near_sum: "list_all2 (near k) xs ys \<Longrightarrow> near (length xs * k) (sum_list xs) (sum_list ys)"
proof (induction rule: list_all2_induct)
  case (Cons x xs y ys)
  have "rat_of_nat (length (x # xs) * k) * eps = of_nat k * eps + of_nat (length xs * k) * eps"
    by (simp add: algebra_simps)
  with Cons show ?case unfolding near_def sum_list.Cons by linarith
qed (simp add: near_def)

lemma near_mono: "near j x y \<Longrightarrow> j \<le> k \<Longrightarrow> near k x y"
  unfolding near_abs using eps_bounds(1) by (elim order_trans) (simp add: mult_right_mono)

lemma half_even_near:
  assumes "x < of_int n + 1 / 2" and "of_int n - 1 / 2 < x"
  shows "half_even x = n"
proof -
  have "of_int (half_even x) < (of_int (n + 1) :: rat)" "of_int (n - 1) < (of_int (half_even x) :: rat)"
    using assms half_even_bounds [of x] unfolding of_int_add of_int_diff of_int_1 by linarith+
  then show ?thesis unfolding of_int_less_iff by linarith
qed

text \<open>A float near a decimal of at most \<open>d\<close> places, with room to spare, rounds to it.\<close>

lemma round_to_near:
  assumes "near k x y" and "k * 10 ^ d \<le> 1000000000000"
    and n: "y * 10 ^ d \<le> of_int n + 49 / 100" "of_int n - 49 / 100 \<le> y * 10 ^ d"
  shows "round_to d x = float_of (of_int n / 10 ^ d)"
proof -
  have "(of_nat (k * 10 ^ d) :: rat) \<le> of_nat (1000000000000)" using assms(2) by (simp only: of_nat_le_iff)
  then have "(of_nat (k * 10 ^ d) :: rat) * eps \<le> of_nat (1000000000000) * eps"
    using eps_bounds(1) by (intro mult_right_mono) simp_all
  then have small: "of_nat k * eps * 10 ^ d \<le> 1000000000000 * eps" by (simp add: ac_simps)
  have "x * 10 ^ d \<le> (y + of_nat k * eps) * 10 ^ d" "(y - of_nat k * eps) * 10 ^ d \<le> x * 10 ^ d"
    using assms(1) unfolding near_def by (intro mult_right_mono; simp)+
  then have "x * 10 ^ d < of_int n + 1 / 2" "of_int n - 1 / 2 < x * 10 ^ d"
    using small n eps_bounds unfolding distrib_right left_diff_distrib by linarith+
  from half_even_near [OF this] show ?thesis by (simp add: round_to_def)
qed

text \<open>One base weight \<open>w\<close>, the float of \<open>W\<close>, over an available weight \<open>a\<close> near \<open>A\<close>: with \<open>n\<close> the
  effective weight in millionths and \<open>m\<close> in ten-thousandths.\<close>

definition within_half :: "rat \<Rightarrow> int \<Rightarrow> bool" where
  "within_half x n \<longleftrightarrow> x \<le> of_int n + 49 / 100 \<and> of_int n - 49 / 100 \<le> x"

definition weight_entry :: "rat \<Rightarrow> rat \<Rightarrow> int \<Rightarrow> int \<Rightarrow> bool" where
  "weight_entry A W n m \<longleftrightarrow> 1 / 20 \<le> W \<and> W \<le> A \<and> 1 \<le> n \<and> n \<le> 10 ^ 6 \<and> 0 \<le> m \<and> m \<le> 10 ^ 4 \<and>
     within_half (W / A * 10 ^ 6) n \<and> within_half (of_int n / 10 ^ 6 * 10 ^ 4) m"

definition effective_of :: "rat \<Rightarrow> rat \<Rightarrow> rat" where
  "effective_of a w = round_to effective_weight_decimals (float_of (w / a))"

lemma ratio_near:
  assumes w: "near 1 w W" and a: "near 5 a A" and A: "1 / 20 \<le> W" "W \<le> A" "A \<le> 1"
  shows "near 3000 (w / a) (W / A)" and "0 < w / a" and "w / a < 2"
proof -
  have d: "\<bar>w - W\<bar> \<le> eps" "\<bar>A - a\<bar> \<le> 5 * eps" using w a by (simp_all add: near_abs abs_minus_commute)
  have low: "1 / 25 \<le> a" using d A eps_bounds unfolding abs_le_iff by linarith
  have wpos: "0 < w" using d A eps_bounds unfolding abs_le_iff by linarith
  have pos: "0 < A" using A by linarith
  have aA: "1 / 25 * (1 / 20) \<le> a * A" using low A by (intro mult_mono) simp_all
  then have aApos: "0 < a * A" by (rule less_le_trans [rotated]) simp
  have "\<bar>(w - W) * A\<bar> \<le> eps * 1"
    unfolding abs_mult using d A pos eps_bounds by (intro mult_mono) simp_all
  moreover have "\<bar>W * (A - a)\<bar> \<le> 1 * (5 * eps)"
    unfolding abs_mult using d A pos eps_bounds by (intro mult_mono) simp_all
  ultimately have num: "\<bar>(w - W) * A + W * (A - a)\<bar> \<le> 6 * eps" by linarith
  have "6 * eps = 3000 * eps * (1 / 25 * (1 / 20))" by simp
  also have "\<dots> \<le> 3000 * eps * (a * A)" using aA eps_bounds by (intro mult_left_mono) simp_all
  finally have "\<bar>(w - W) * A + W * (A - a)\<bar> \<le> 3000 * eps * (a * A)" using num by linarith
  then have "\<bar>(w - W) * A + W * (A - a)\<bar> / (a * A) \<le> 3000 * eps"
    using aApos by (simp add: pos_divide_le_eq)
  moreover have "w / a - W / A = ((w - W) * A + W * (A - a)) / (a * A)"
    using low pos by (simp add: field_simps)
  moreover have "\<bar>a * A\<bar> = a * A" using aApos by simp
  ultimately show n: "near 3000 (w / a) (W / A)" by (simp only: near_abs abs_divide of_nat_numeral)
  show "0 < w / a" using low wpos by (intro divide_pos_pos) linarith+
  have "W / A \<le> 1" using A pos by simp
  with n eps_bounds show "w / a < 2" unfolding near_def of_nat_numeral by linarith
qed

lemma effective_near:
  assumes w: "near 1 w W" and a: "near 5 a A" and e: "weight_entry A W n m" and A: "A \<le> 1"
  shows "near 1 (effective_of a w) (of_int n / 10 ^ 6)" and "0 < effective_of a w" "effective_of a w \<le> 1"
    and "contribution_of 1 (effective_of a w) = float_of (of_int m / 10 ^ 4)"
proof -
  have W: "1 / 20 \<le> W" "W \<le> A" and n: "1 \<le> n" "n \<le> 10 ^ 6"
    and nn: "within_half (W / A * 10 ^ 6) n" and mm: "within_half (of_int n / 10 ^ 6 * 10 ^ 4) m"
    using e unfolding weight_entry_def by blast+
  note r = ratio_near [OF w a W A]
  have "near 3001 (float_of (w / a)) (W / A)"
    using near_float [OF less_imp_le [OF r(2)] r(3) r(1)] by simp
  then have eff: "effective_of a w = float_of (of_int n / 10 ^ 6)"
    unfolding effective_of_def effective_weight_decimals_def
    by (rule round_to_near) (use nn in \<open>simp_all only: within_half_def, simp\<close>)
  have nq: "(of_int 1 :: rat) \<le> of_int n" "(of_int n :: rat) \<le> of_int (10 ^ 6)"
    using n by (simp_all only: of_int_le_iff)
  have q: "1 / 1000000 \<le> (of_int n :: rat) / 10 ^ 6" "(of_int n :: rat) / 10 ^ 6 \<le> 1" using nq by simp_all
  have q0: "0 \<le> (of_int n :: rat) / 10 ^ 6" and q2: "(of_int n :: rat) / 10 ^ 6 < 2"
    by (rule order_trans [OF _ q(1)], simp) (rule le_less_trans [OF q(2)], simp)
  show near: "near 1 (effective_of a w) (of_int n / 10 ^ 6)"
    unfolding eff using near_float [OF q0 q2 near_refl] by simp
  show le: "effective_of a w \<le> 1" unfolding eff by (rule float_of_le_1 [OF q0 q(2)])
  show pos: "0 < effective_of a w" using near q(1) eps_bounds unfolding near_def by linarith
  have "near 2 (float_of (1 * effective_of a w)) (of_int n / 10 ^ 6)"
    using near_float [OF _ _ near] pos le by (simp add: numeral_2_eq_2)
  then show "contribution_of 1 (effective_of a w) = float_of (of_int m / 10 ^ 4)"
    unfolding contribution_of_def score_decimals_def
    by (rule round_to_near) (use mm in \<open>simp_all only: within_half_def, simp\<close>)
qed

text \<open>A choice of available weights: the floats, the decimals and the rounded shares.\<close>

definition weight_table :: "rat list \<Rightarrow> (int \<times> int) list \<Rightarrow> bool" where
  "weight_table Ws nms \<longleftrightarrow> Ws \<noteq> [] \<and> length Ws \<le> 4 \<and> sum_list Ws \<le> 1 \<and>
     list_all2 (\<lambda>W (n, m). weight_entry (sum_list Ws) W n m) Ws nms \<and>
     sum_list (map fst nms) \<in> {999999, 1000000} \<and> sum_list (map snd nms) \<le> 10000"

lemma available_near:
  assumes "list_all2 (near 1) ws Ws" and "length Ws \<le> 4" and "sum_list Ws \<le> 1" and "\<forall>w\<in>set ws. 0 \<le> w"
  shows "near 5 (fsum ws) (sum_list Ws)"
proof -
  have l: "length ws = length Ws" using assms(1) by (rule list_all2_lengthD)
  have n: "near 4 (sum_list ws) (sum_list Ws)"
    using near_mono [OF near_sum [OF assms(1)], of 4] assms(2) by (simp add: l)
  then have "sum_list ws < 2" using assms(3) eps_bounds unfolding near_def of_nat_numeral by linarith
  with near_float [OF _ _ n] assms(4) show ?thesis by (simp add: fsum_def sum_list_nonneg numeral_eq_Suc)
qed

lemma entries_near:
  assumes "list_all2 (near 1) ws Ws" and "list_all2 (\<lambda>W (n, m). weight_entry A W n m) Ws nms"
    and "near 5 a A" and "A \<le> 1"
  shows "list_all2 (near 1) (map (effective_of a) ws) (map (\<lambda>(n, m). of_int n / 10 ^ 6) nms)"
    and "\<forall>w\<in>set ws. 0 < effective_of a w \<and> effective_of a w \<le> 1"
    and "map (\<lambda>w. contribution_of 1 (effective_of a w)) ws = map (\<lambda>(n, m). float_of (of_int m / 10 ^ 4)) nms"
proof -
  have "list_all2 (near 1) (map (effective_of a) ws) (map (\<lambda>(n, m). of_int n / 10 ^ 6) nms) \<and>
      (\<forall>w\<in>set ws. 0 < effective_of a w \<and> effective_of a w \<le> 1) \<and>
      map (\<lambda>w. contribution_of 1 (effective_of a w)) ws = map (\<lambda>(n, m). float_of (of_int m / 10 ^ 4)) nms"
    using assms(1,2)
  proof (induction arbitrary: nms rule: list_all2_induct)
    case (Cons w ws W Ws)
    from Cons.prems obtain n m nms' where nms: "nms = (n, m) # nms'" and e: "weight_entry A W n m"
      and rest: "list_all2 (\<lambda>W (n, m). weight_entry A W n m) Ws nms'" by (cases nms) auto
    note f = effective_near [OF Cons.hyps(1) assms(3) e assms(4)]
    from Cons.IH [OF rest] f show ?case unfolding nms by simp
  qed simp
  then show "list_all2 (near 1) (map (effective_of a) ws) (map (\<lambda>(n, m). of_int n / 10 ^ 6) nms)"
    and "\<forall>w\<in>set ws. 0 < effective_of a w \<and> effective_of a w \<le> 1"
    and "map (\<lambda>w. contribution_of 1 (effective_of a w)) ws = map (\<lambda>(n, m). float_of (of_int m / 10 ^ 4)) nms"
    by blast+
qed

lemma contribution_mono:
  assumes "0 \<le> s" "s \<le> 1" "0 \<le> e"
  shows "contribution_of s e \<le> contribution_of 1 e" "0 \<le> contribution_of s e"
proof -
  have "s * e \<le> 1 * e" using assms by (intro mult_right_mono) simp_all
  then have "float_of (s * e) \<le> float_of (1 * e)" using assms by (intro float_of_mono) simp_all
  with assms show "contribution_of s e \<le> contribution_of 1 e" "0 \<le> contribution_of s e"
    unfolding contribution_of_def using round_to_mono [of 0 "float_of (s * e)"]
    by (simp_all add: round_to_mono)
qed

lemma tenthousandths:
  assumes "0 \<le> m" and "m \<le> 10 ^ 4"
  shows "near 1 (float_of (of_int m / 10 ^ 4)) (of_int m / 10000)"
proof -
  have "(of_int m :: rat) \<le> of_int (10 ^ 4)" "(0 :: rat) \<le> of_int m"
    using assms by (simp_all only: of_int_le_iff of_int_0_le_iff)
  then have "0 \<le> (of_int m :: rat) / 10000" "(of_int m :: rat) / 10000 < 2" by simp_all
  from near_float [OF this near_refl] show ?thesis by simp
qed

lemma contributions_bounded:
  assumes nms: "list_all2 (\<lambda>W (n, m). weight_entry A W n m) Ws nms" and l: "length Ws \<le> 4"
    and sum: "sum_list (map snd nms) \<le> 10000"
  shows "round_to score_decimals (fsum (map (\<lambda>(n, m). float_of (of_int m / 10 ^ 4)) nms)) \<le> 1"
proof -
  let ?cs = "map (\<lambda>(n, m). float_of (of_int m / 10 ^ 4)) nms"
  have ms: "\<forall>(n, m)\<in>set nms. 0 \<le> m \<and> m \<le> 10 ^ 4"
    using nms unfolding list_all2_conv_all_nth by (fastforce simp: in_set_conv_nth weight_entry_def)
  then have "\<forall>x\<in>set nms. near 1 ((\<lambda>(n, m). float_of (of_int m / 10 ^ 4)) x) ((\<lambda>(n, m). of_int m / 10000) x)"
    using tenthousandths by (auto simp del: One_nat_def)
  then have c: "list_all2 (near 1) ?cs (map (\<lambda>(n, m). of_int m / 10000) nms)"
    unfolding list_all2_map1 list_all2_map2 by (intro list.rel_refl_strong) blast
  have l': "length nms \<le> 4" using list_all2_lengthD [OF nms] l by simp
  have "(of_int (sum_list (map snd nms)) :: rat) \<le> of_int 10000" using sum by (simp only: of_int_le_iff)
  moreover have "sum_list (map (\<lambda>(n, m). (of_int m :: rat) / 10000) nms) = of_int (sum_list (map snd nms)) / 10000"
    by (induction nms) (auto simp: add_divide_distrib)
  ultimately have s: "sum_list (map (\<lambda>(n, m). (of_int m :: rat) / 10000) nms) \<le> 1" by simp
  have pos: "\<forall>c\<in>set ?cs. 0 \<le> c" using ms by (auto intro!: float_of_ge_0)
  from available_near [OF c _ s pos] l'
  have "near 5 (fsum ?cs) (sum_list (map (\<lambda>(n, m). (of_int m :: rat) / 10000) nms))" by simp
  then have "fsum ?cs \<le> 1 + 5 * eps" using s unfolding near_def of_nat_numeral by linarith
  moreover have "0 \<le> fsum ?cs" using pos by simp
  ultimately have "round_to score_decimals (fsum ?cs) \<le> round_to score_decimals (1 + 5 * eps)"
    by (intro round_to_mono)
  also have "near 5 (1 + 5 * eps) 1" using eps_bounds by (simp add: near_def)
  then have "round_to score_decimals (1 + 5 * eps) = float_of (of_int 10000 / 10 ^ score_decimals)"
    by (rule round_to_near) (simp_all add: score_decimals_def)
  finally show ?thesis by (simp add: score_decimals_def)
qed

text \<open>The facts about one choice of available weights.\<close>

lemma weights_of_table:
  assumes ws: "list_all2 (near 1) ws Ws" and t: "weight_table Ws nms" and pos: "\<forall>w\<in>set ws. 0 \<le> w"
  defines "es \<equiv> map (effective_of (fsum ws)) ws"
  shows "\<forall>e\<in>set es. 0 < e \<and> e \<le> 1"
    and "is_close (fsum es) 1 (float_of (2 / 10 ^ 6))"
    and "\<forall>ss. list_all2 (\<lambda>s e. 0 \<le> s \<and> s \<le> (1 :: rat)) ss es \<longrightarrow>
      round_to score_decimals (fsum (map2 contribution_of ss es)) \<le> 1"
    and "0 \<le> round_to score_decimals (fsum ws) \<and> round_to score_decimals (fsum ws) \<le> 1"
proof -
  let ?A = "sum_list Ws" and ?a = "fsum ws"
  have l: "length Ws \<le> 4" and A: "?A \<le> 1"
    and ents: "list_all2 (\<lambda>W (n, m). weight_entry ?A W n m) Ws nms"
    and ns: "sum_list (map fst nms) \<in> {999999, 1000000}" and ms: "sum_list (map snd nms) \<le> 10000"
    using t unfolding weight_table_def by blast+
  have a: "near 5 ?a ?A" by (rule available_near [OF ws l A pos])
  note f = entries_near [OF ws ents a A]
  show e: "\<forall>e\<in>set es. 0 < e \<and> e \<le> 1" using f(2) by (simp add: es_def)
  have l4: "length nms \<le> 4" using list_all2_lengthD [OF ents] l by simp
  have sn: "sum_list (map (\<lambda>(n, m). (of_int n :: rat) / 10 ^ 6) nms) = of_int (sum_list (map fst nms)) / 1000000"
    by (induction nms) (auto simp: add_divide_distrib)
  then have s: "sum_list (map (\<lambda>(n, m). (of_int n :: rat) / 10 ^ 6) nms) \<in> {999999 / 1000000, 1}"
    using ns by auto
  then have s1: "sum_list (map (\<lambda>(n, m). (of_int n :: rat) / 10 ^ 6) nms) \<le> 1" by auto
  have "near 5 (fsum es) (sum_list (map (\<lambda>(n, m). (of_int n :: rat) / 10 ^ 6) nms))"
    by (rule available_near [OF f(1) [folded es_def] _ s1]) (use l4 e in \<open>auto simp: less_imp_le\<close>)
  moreover have "999999 / 1000000 \<le> sum_list (map (\<lambda>(n, m). (of_int n :: rat) / 10 ^ 6) nms)" using s by auto
  ultimately have "\<bar>1 - fsum es\<bar> \<le> 2 / 1000000"
    using s1 eps_bounds unfolding near_def of_nat_numeral by linarith
  then have d: "\<bar>1 - fsum es\<bar> \<le> 2 / 10 ^ 6" by simp
  have "\<bar>float_of x\<bar> = float_of \<bar>x\<bar>" for x :: rat
    using float_of_ge_0 [of x] float_of_ge_0 [of "- x"] by (cases "x < 0") (simp_all add: float_of_def)
  then show "is_close (fsum es) 1 (float_of (2 / 10 ^ 6))"
    using float_of_mono [OF _ d] by (simp add: is_close_def)
  show "\<forall>ss. list_all2 (\<lambda>s e. 0 \<le> s \<and> s \<le> (1 :: rat)) ss es \<longrightarrow>
      round_to score_decimals (fsum (map2 contribution_of ss es)) \<le> 1"
  proof (intro allI impI)
    fix ss :: "rat list" assume ss: "list_all2 (\<lambda>s e. 0 \<le> s \<and> s \<le> (1 :: rat)) ss es"
    have c: "list_all2 (\<le>) (map2 contribution_of ss es) (map (contribution_of 1) es)"
      "\<forall>c\<in>set (map2 contribution_of ss es). 0 \<le> c"
      using ss e by (induction rule: list_all2_induct) (auto simp: contribution_mono less_imp_le)
    from c(2) have nn: "0 \<le> fsum (map2 contribution_of ss es)" by (rule fsum_ge_0)
    have "round_to score_decimals (fsum (map2 contribution_of ss es)) \<le>
        round_to score_decimals (fsum (map (contribution_of 1) es))"
      by (rule round_to_mono [OF nn fsum_mono [OF c]])
    also have "map (contribution_of 1) es = map (\<lambda>(n, m). float_of (of_int m / 10 ^ 4)) nms"
      using f(3) by (simp add: es_def comp_def)
    also have "round_to score_decimals (fsum (map (\<lambda>(n, m). float_of (of_int m / 10 ^ 4)) nms)) \<le> 1"
      by (rule contributions_bounded [OF ents l ms])
    finally show "round_to score_decimals (fsum (map2 contribution_of ss es)) \<le> 1" .
  qed
  have a0: "0 \<le> ?a" using pos by simp
  have "?a \<le> 1 + 5 * eps" using a A unfolding near_def of_nat_numeral by linarith
  from round_to_mono [OF a0 this] have "round_to score_decimals ?a \<le> round_to score_decimals (1 + 5 * eps)" .
  also have "near 5 (1 + 5 * eps) 1" using eps_bounds by (simp add: near_def)
  then have "round_to score_decimals (1 + 5 * eps) = float_of (of_int 10000 / 10 ^ score_decimals)"
    by (rule round_to_near) (simp_all add: score_decimals_def)
  finally show "0 \<le> round_to score_decimals ?a \<and> round_to score_decimals ?a \<le> 1"
    using round_to_mono [of 0 ?a] a0 by (simp add: score_decimals_def)
qed

text \<open>The fifteen choices of available weights: image scoring is never available.\<close>

lemma weight_tables:
  "weight_table [35 / 100] [(1000000, 10000)]"
  "weight_table [3 / 10] [(1000000, 10000)]"
  "weight_table [2 / 10] [(1000000, 10000)]"
  "weight_table [5 / 100] [(1000000, 10000)]"
  "weight_table [35 / 100, 3 / 10] [(538462, 5385), (461538, 4615)]"
  "weight_table [35 / 100, 2 / 10] [(636364, 6364), (363636, 3636)]"
  "weight_table [35 / 100, 5 / 100] [(875000, 8750), (125000, 1250)]"
  "weight_table [3 / 10, 2 / 10] [(600000, 6000), (400000, 4000)]"
  "weight_table [3 / 10, 5 / 100] [(857143, 8571), (142857, 1429)]"
  "weight_table [2 / 10, 5 / 100] [(800000, 8000), (200000, 2000)]"
  "weight_table [35 / 100, 3 / 10, 2 / 10] [(411765, 4118), (352941, 3529), (235294, 2353)]"
  "weight_table [35 / 100, 3 / 10, 5 / 100] [(500000, 5000), (428571, 4286), (71429, 714)]"
  "weight_table [35 / 100, 2 / 10, 5 / 100] [(583333, 5833), (333333, 3333), (83333, 833)]"
  "weight_table [3 / 10, 2 / 10, 5 / 100] [(545455, 5455), (363636, 3636), (90909, 909)]"
  "weight_table [35 / 100, 3 / 10, 2 / 10, 5 / 100] [(388889, 3889), (333333, 3333), (222222, 2222), (55556, 556)]"
  by (simp_all add: weight_table_def weight_entry_def within_half_def)

lemma base_weights_near:
  "near 1 title_weight (35 / 100)" "near 1 attributes_weight (3 / 10)" "near 1 price_weight (2 / 10)"
  "near 1 review_weight (5 / 100)"
  unfolding title_weight_def attributes_weight_def price_weight_def review_weight_def
  by (simp_all add: near_float [OF _ _ near_refl, simplified])

definition available_weights :: "bool list \<Rightarrow> rat list" where
  "available_weights flags = map snd (filter fst (zip flags base_weights))"

lemma available_table:
  assumes "t \<or> a \<or> p \<or> r"
  shows "\<exists>Ws nms. list_all2 (near 1) (available_weights [t, a, p, False, r]) Ws \<and> weight_table Ws nms"
proof -
  let ?Ws = "map snd (filter fst (zip [t, a, p, r] [35 / 100, 3 / 10, 2 / 10, 5 / 100])) :: rat list"
  have "list_all2 (near 1) (available_weights [t, a, p, False, r]) ?Ws"
    using base_weights_near by (simp add: available_weights_def base_weights_def)
  moreover have "\<exists>nms. weight_table ?Ws nms"
    using assms weight_tables by (cases t; cases a; cases p; cases r; simp only: filter.simps zip_Cons_Cons zip_Nil fst_conv snd_conv if_True if_False list.map simp_thms; blast)
  ultimately show ?thesis by blast
qed

end
