(* ===== verification/Product_Ranking_Props.thy ===== *)
theory Product_Ranking_Props
  imports Score_Weights "HOL-Library.Multiset"
begin

text \<open>
  Facts about scoring and ranking: every combination of raw components gives components and totals
  that pass the contracts of \<open>ranking.py\<close>, so that scoring returns a breakdown, and the ranking of a
  batch is the stable score order of its products.
\<close>

section \<open>Components of a score\<close>

text \<open>The raw components the scoring functions produce.\<close>

definition raw_ok :: "raw_component \<Rightarrow> bool" where
  "raw_ok r \<longleftrightarrow>
     (case rc_status r of
        Available \<Rightarrow> rc_score r \<noteq> None
      | Missing \<Rightarrow> rc_reason r \<notin> {Scored, Image_scoring_disabled}
      | Disabled \<Rightarrow> rc_reason r = Image_scoring_disabled)"

definition is_available :: "raw_component \<Rightarrow> bool" where
  "is_available r \<longleftrightarrow> rc_status r = Available"

definition rounded_score :: "raw_component \<Rightarrow> rat" where
  "rounded_score r = round_to score_decimals (clip_unit (the (rc_score r)))"

text \<open>What \<open>build_component\<close> returns.\<close>

definition component_of :: "rat \<Rightarrow> raw_component \<Rightarrow> rat \<Rightarrow> score_component" where
  "component_of a r w =
     (if is_available r
      then \<lparr>sc_status = Available, sc_reason = Scored, sc_score = Some (rounded_score r), sc_base = w,
            sc_effective = effective_of a w,
            sc_contribution = contribution_of (rounded_score r) (effective_of a w)\<rparr>
      else \<lparr>sc_status = rc_status r, sc_reason = rc_reason r, sc_score = None, sc_base = w,
            sc_effective = 0, sc_contribution = 0\<rparr>)"

lemma clip_unit_bounds [simp]: "0 \<le> clip_unit x" "clip_unit x \<le> 1"
  by (simp_all add: clip_unit_def)

lemma rounded_score_bounds [simp]: "0 \<le> rounded_score r" "rounded_score r \<le> 1"
  unfolding rounded_score_def by (rule round_to_unit; simp)+

lemma contribution_unit:
  assumes "0 \<le> s" "s \<le> 1" "0 \<le> e" "e \<le> 1"
  shows "0 \<le> contribution_of s e" "contribution_of s e \<le> 1"
proof -
  have "s * e \<le> 1" "0 \<le> s * e" using assms by (simp_all add: mult_le_one)
  then show "0 \<le> contribution_of s e" "contribution_of s e \<le> 1"
    unfolding contribution_of_def by (intro round_to_unit float_of_ge_0 float_of_le_1; simp)+
qed

lemma component_of_valid:
  assumes "raw_ok r" and "0 < w" "w \<le> 1" and "is_available r \<longrightarrow> 0 < effective_of a w \<and> effective_of a w \<le> 1"
  shows "validate_component (component_of a r w) = Inr ()"
  using assms contribution_unit [of "rounded_score r" "effective_of a w"]
  by (auto simp: validate_component_def component_fields_def component_of_def unit_value_def raw_ok_def
      is_available_def is_close_def split: component_status.splits)

lemma build_component_eq:
  assumes "raw_ok r" and "0 < w" "w \<le> 1" and "is_available r \<longrightarrow> 0 < effective_of a w \<and> effective_of a w \<le> 1"
  shows "build_component r w a = Inr (component_of a r w)"
  using component_of_valid [OF assms] assms(1)
  by (auto simp: build_component_def component_of_def raw_ok_def is_available_def rounded_score_def
      effective_of_def Let_def split: component_status.splits)

lemma component_fields_of [simp]:
  "sc_base (component_of a r w) = w" "sc_status (component_of a r w) = rc_status r"
  "sc_status (component_of a r w) = Available \<longleftrightarrow> is_available r"
  by (auto simp: component_of_def is_available_def)

text \<open>The lists of components, effective weights and contributions over one list of weights.\<close>

definition selected_weights :: "raw_component list \<Rightarrow> rat list \<Rightarrow> rat list" where
  "selected_weights raws ws = map snd (filter (\<lambda>(r, w). is_available r) (zip raws ws))"

lemma selected_flags: "selected_weights raws ws = map snd (filter fst (zip (map is_available raws) ws))"
proof (induction raws arbitrary: ws)
  case (Cons r raws)
  then show ?case by (cases ws) (simp_all add: selected_weights_def)
qed (simp add: selected_weights_def)

lemma available_weight_eq: "available_weight raws ws = fsum (selected_weights raws ws)"
  by (simp add: available_weight_def selected_weights_def is_available_def case_prod_unfold)

lemma component_list:
  assumes "length raws = length ws"
  shows "map sc_base (map2 (component_of a) raws ws) = ws"
    and "map sc_status (map2 (component_of a) raws ws) = map rc_status raws"
    and "map sc_effective (filter (\<lambda>c. sc_status c = Available) (map2 (component_of a) raws ws)) =
      map (effective_of a) (selected_weights raws ws)"
    and "map sc_base (filter (\<lambda>c. sc_status c = Available) (map2 (component_of a) raws ws)) =
      selected_weights raws ws"
    and "sum_list (map sc_contribution (map2 (component_of a) raws ws)) =
      sum_list (map2 contribution_of (map rounded_score (filter is_available raws))
        (map (effective_of a) (selected_weights raws ws)))"
  using assms
  by (induction raws ws rule: list_induct2)
    (auto simp: selected_weights_def component_of_def is_available_def)

lemma selected_subset: "set (selected_weights raws ws) \<subseteq> set ws"
  by (auto simp: selected_weights_def dest: set_zip_rightD)

lemma selected_length: "length raws = length ws \<Longrightarrow>
    length (filter is_available raws) = length (selected_weights raws ws)"
  by (induction raws ws rule: list_induct2) (auto simp: selected_weights_def)

lemma base_weights_bounds: "\<forall>w\<in>set base_weights. 0 < w \<and> w \<le> 1"
proof -
  have "near 1 image_weight (1 / 10)"
    unfolding image_weight_def by (simp add: near_float [OF _ _ near_refl, simplified])
  with base_weights_near eps_bounds show ?thesis
    unfolding base_weights_def near_def by auto
qed

text \<open>Any five raw components with image scoring disabled give valid components whose numbers satisfy
  the checks of a breakdown.\<close>

lemma components_valid:
  assumes ok: "raw_ok t" "raw_ok a" "raw_ok p" "raw_ok r"
  defines "raws \<equiv> [t, a, p, image_disabled, r]"
  defines "cs \<equiv> map2 (component_of (available_weight raws base_weights)) raws base_weights"
  shows "build_components raws base_weights = Inr cs"
    and "\<forall>c\<in>set cs. validate_component c = Inr ()"
    and "effective_normalized (float_of (2 / 10 ^ 6)) cs"
    and "unit_value (pre_penalty_of cs)"
    and "base_total_of cs = round_to score_decimals (available_weight raws base_weights)"
    and "unit_value (base_total_of cs)"
    and "map sc_base cs = base_weights" and "map sc_status cs = map rc_status raws"
proof -
  let ?a = "available_weight raws base_weights"
  let ?ws = "selected_weights raws base_weights"
  have len: "length raws = length base_weights" by (simp add: raws_def base_weights_def)
  note lists = component_list [OF len, of ?a, folded cs_def]
  have raw: "raw_ok x" if "x \<in> set raws" for x
    using that ok by (auto simp: raws_def raw_ok_def image_disabled_def)
  have pos: "\<forall>w\<in>set ?ws. 0 \<le> w"
    using selected_subset [of raws base_weights] base_weights_bounds by (auto simp: less_imp_le)
  have facts: "(\<forall>e\<in>set (map (effective_of ?a) ?ws). 0 < e \<and> e \<le> 1) \<and>
      is_close (fsum (map (effective_of ?a) ?ws)) (if ?ws = [] then 0 else 1) (float_of (2 / 10 ^ 6)) \<and>
      round_to score_decimals (fsum (map2 contribution_of (map rounded_score (filter is_available raws))
        (map (effective_of ?a) ?ws))) \<le> 1 \<and>
      0 \<le> round_to score_decimals ?a \<and> round_to score_decimals ?a \<le> 1"
  proof (cases "?ws = []")
    case True
    then show ?thesis by (simp add: available_weight_eq is_close_def fsum_def)
  next
    case False
    have ws: "?ws = available_weights [is_available t, is_available a, is_available p, False, is_available r]"
      by (simp add: selected_flags raws_def available_weights_def image_disabled_def is_available_def)
    have some: "is_available t \<or> is_available a \<or> is_available p \<or> is_available r"
      using False by (rule contrapos_np)
        (simp add: selected_flags raws_def base_weights_def image_disabled_def is_available_def)
    from available_table [OF some] obtain Ws nms where "list_all2 (near 1) ?ws Ws" and "weight_table Ws nms"
      unfolding ws by blast
    note w = weights_of_table [OF this pos, folded available_weight_eq]
    have "list_all2 (\<lambda>s e. 0 \<le> s \<and> s \<le> (1 :: rat)) (map rounded_score (filter is_available raws))
        (map (effective_of ?a) ?ws)"
      unfolding list_all2_conv_all_nth using selected_length [OF len] by simp
    with w(3) have "round_to score_decimals (fsum (map2 contribution_of
        (map rounded_score (filter is_available raws)) (map (effective_of ?a) ?ws))) \<le> 1" by blast
    with w(1,2,4) False show ?thesis by simp
  qed
  have eff: "is_available x \<longrightarrow> 0 < effective_of ?a w \<and> effective_of ?a w \<le> 1"
    if "(x, w) \<in> set (zip raws base_weights)" for x w
    using that facts by (force simp: selected_weights_def)
  have w01: "0 < w" "w \<le> 1" if "(x, w) \<in> set (zip raws base_weights)" for x w
    using base_weights_bounds set_zip_rightD [OF that] by blast+
  have valid: "build_component x w ?a = Inr (component_of ?a x w)"
    "validate_component (component_of ?a x w) = Inr ()"
    if z: "(x, w) \<in> set (zip raws base_weights)" for x w
    using build_component_eq [OF raw w01 [OF z] eff [OF z]] component_of_valid [OF raw w01 [OF z] eff [OF z]]
      set_zip_leftD [OF z] by blast+
  have "map_result (\<lambda>(r, w). build_component r w ?a) xs = Inr (map (\<lambda>(r, w). component_of ?a r w) xs)"
    if "set xs \<subseteq> set (zip raws base_weights)" for xs
    using that by (induction xs) (auto simp: valid)
  then show "build_components raws base_weights = Inr cs"
    by (simp add: build_components_def cs_def)
  show "\<forall>c\<in>set cs. validate_component c = Inr ()" using valid(2) by (auto simp: cs_def)
  have "filter (\<lambda>c. sc_status c = Available) cs = [] \<longleftrightarrow> ?ws = []"
    using lists(4) by (metis Nil_is_map_conv)
  then show "effective_normalized (float_of (2 / 10 ^ 6)) cs"
    using facts unfolding effective_normalized_def Let_def lists(3) by simp
  have nonneg: "0 \<le> fsum (map sc_contribution cs)"
    using \<open>\<forall>c\<in>set cs. validate_component c = Inr ()\<close>
    by (intro fsum_ge_0) (auto simp: validate_component_def component_fields_def unit_value_def split: if_splits)
  then have "0 \<le> pre_penalty_of cs" unfolding pre_penalty_of_def using round_to_mono [of 0] by fastforce
  then show "unit_value (pre_penalty_of cs)"
    using facts lists(5) by (simp add: unit_value_def pre_penalty_of_def fsum_def)
  show "base_total_of cs = round_to score_decimals ?a"
    unfolding base_total_of_def lists(4) available_weight_eq ..
  then show "unit_value (base_total_of cs)" using facts by (simp add: unit_value_def)
  show "map sc_base cs = base_weights" "map sc_status cs = map rc_status raws" by (rule lists)+
qed

section \<open>Scoring a product\<close>

subsection \<open>The raw components\<close>

lemma raw_ok_simps [simp]:
  "raw_ok (scored x)" "raw_ok image_disabled" "rc_status (scored x) = Available"
  "rc_status image_disabled = Disabled"
  "rc_reason (scored x) = Scored" "rc_status (missing r) = Missing" "rc_reason (missing r) = r"
  "raw_ok (missing r) \<longleftrightarrow> r \<notin> {Scored, Image_scoring_disabled}"
  by (simp_all add: raw_ok_def scored_def missing_def image_disabled_def)

lemma title_score_ok:
  assumes "title_score T i p = (r, l)"
  shows "raw_ok r" "rc_status r = Available \<longleftrightarrow> l \<noteq> None"
  using assms by (auto simp: title_score_def split: list.splits prod.splits)

lemma review_ok: "raw_ok (review_quality_score L p)" "rc_status (review_quality_score L p) \<noteq> Disabled"
  by (auto simp: review_quality_score_def Let_def split: option.splits)

lemma price_score_ok:
  assumes "validate_price c = Inr ()"
  obtains r where "price_score c v = Inr r" and "raw_ok r"
proof -
  have "\<exists>r. price_score c v = Inr r \<and> raw_ok r"
    using assms
    by (cases "price_mode c")
      (auto simp: price_score_def validate_price_def required_bound_def split: if_splits option.splits)
  with that show thesis by blast
qed

subsection \<open>The terms of an intent\<close>

definition term_identities :: "tokenizer_library \<Rightarrow> weighted_term list \<Rightarrow> string list" where
  "term_identities T ts = map (text_identity (text_functions T) \<circ> wt_value) ts"

lemma weighted_terms_Cons:
  "weighted_terms T l seen (vw # vs) =
     (if text_identity (text_functions T) (fst vw) \<in> set seen \<or> safe_tokens T l (fst vw) = []
      then weighted_terms T l seen vs
      else \<lparr>wt_value = fst vw, wt_tokens = safe_tokens T l (fst vw), wt_weight = snd vw\<rparr> #
        weighted_terms T l (text_identity (text_functions T) (fst vw) # seen) vs)"
  by (cases vw) (simp add: Let_def)

lemma weighted_terms_distinct:
  "distinct (term_identities T (weighted_terms T l seen vs)) \<and>
   set (term_identities T (weighted_terms T l seen vs)) \<inter> set seen = {}"
proof (induction vs arbitrary: seen)
  case (Cons vw vs)
  from Cons [of seen] Cons [of "text_identity (text_functions T) (fst vw) # seen"] show ?case
    unfolding weighted_terms_Cons by (auto simp: term_identities_def)
qed (simp add: term_identities_def)

lemma weighted_terms_subset: "set (map wt_value (weighted_terms T l seen vs)) \<subseteq> set (map fst vs)"
proof (induction vs arbitrary: seen)
  case (Cons vw vs)
  from Cons [of seen] Cons [of "text_identity (text_functions T) (fst vw) # seen"] show ?case
    unfolding weighted_terms_Cons by auto
qed simp

lemma weighted_terms_length: "length (weighted_terms T l seen vs) \<le> length vs"
proof (induction vs arbitrary: seen)
  case (Cons vw vs)
  from Cons [of seen] Cons [of "text_identity (text_functions T) (fst vw) # seen"] show ?case
    unfolding weighted_terms_Cons by auto
qed simp

lemma optional_values_length: "length (optional_values vs) \<le> length vs"
  by (induction vs) (auto simp: optional_values_def List.map_filter_simps split: option.splits)

lemma set_optional_values [simp]: "set (optional_values vs) = {v. Some v \<in> set vs}"
  by (induction vs) (auto simp: optional_values_def List.map_filter_simps split: option.splits)

lemma text_between_mono: "text_between 1 100 s \<Longrightarrow> text_between 1 200 s"
  by (simp add: text_between_def)

lemma optional_values_le: "length vs = n \<Longrightarrow> length (optional_values vs) \<le> n"
  using optional_values_length [of vs] by simp

lemma term_lists_short:
  assumes "draft_fields i"
  shows "term_list (required_terms_ja i)" "term_list (required_terms_en i)" "term_list (preferred_terms_ja i)"
    "term_list (preferred_terms_en i)" "term_list (negative_terms_ja i)" "term_list (negative_terms_en i)"
    "term_list (features_ja i)" "term_list (features_en i)" "opt_all short_text (category_ja i)"
    "opt_all short_text (category_en i)" "opt_all short_text (color_ja i)" "opt_all short_text (color_en i)"
    "opt_all short_text (intent_brand i)"
  using assms unfolding draft_fields_def by simp_all

lemma short_optional: "\<forall>v\<in>set vs. opt_all short_text v \<Longrightarrow> \<forall>v\<in>set (optional_values vs). short_text v"
  by fastforce

lemma term_listD: "term_list vs \<Longrightarrow> length vs \<le> 20 \<and> (\<forall>v\<in>set vs. short_text v)"
  by (simp add: term_list_def list_all_iff)

definition attribute_values :: "normalized_intent \<Rightarrow> language \<Rightarrow> string list" where
  "attribute_values i l = (case l of
     Ja \<Rightarrow> required_terms_ja i @ preferred_terms_ja i @ optional_values [category_ja i, color_ja i] @
       features_ja i @ optional_values [intent_brand i]
   | En \<Rightarrow> required_terms_en i @ preferred_terms_en i @ optional_values [category_en i, color_en i] @
       features_en i @ optional_values [intent_brand i])"

lemma fst_attribute_term_list: "map fst (attribute_term_list i l) = attribute_values i l"
  by (cases l) (simp_all add: attribute_term_list_def attribute_values_def comp_def)

lemma value_lists_bounded:
  assumes "term_list a" "term_list b" "term_list f" "opt_all short_text c" "opt_all short_text d" "opt_all short_text e"
  shows "length (a @ b @ optional_values [c, d] @ f @ optional_values [e]) \<le> 63 \<and>
    (\<forall>v\<in>set (a @ b @ optional_values [c, d] @ f @ optional_values [e]). short_text v)"
proof -
  note f = assms(1-3) [THEN term_listD]
  have n: "length (optional_values [c, d]) \<le> 2" "length (optional_values [e]) \<le> 1"
    by (rule optional_values_le; simp)+
  have s: "\<forall>v\<in>set (optional_values [c, d]). short_text v" "\<forall>v\<in>set (optional_values [e]). short_text v"
    by (rule short_optional; simp add: assms)+
  from f n have "length (a @ b @ optional_values [c, d] @ f @ optional_values [e]) \<le> 63"
    unfolding length_append by linarith
  moreover from f s have "\<forall>v\<in>set (a @ b @ optional_values [c, d] @ f @ optional_values [e]). short_text v"
    unfolding set_append ball_Un by blast
  ultimately show ?thesis by blast
qed

lemma attribute_term_list_bounds:
  assumes "draft_fields i"
  shows "length (attribute_term_list i l) \<le> 63 \<and> (\<forall>v\<in>fst ` set (attribute_term_list i l). short_text v)"
proof -
  note t = term_lists_short [OF assms]
  have "length (attribute_values i l) \<le> 63 \<and> (\<forall>v\<in>set (attribute_values i l). short_text v)"
    unfolding attribute_values_def
    by (cases l; simp only: language.case; rule value_lists_bounded; rule t)
  then show ?thesis
    unfolding fst_attribute_term_list [symmetric] by simp
qed

lemma attribute_terms_ok:
  assumes "draft_fields i"
  shows "length (attribute_terms T i l) \<le> 63" and "\<forall>t\<in>set (attribute_terms T i l). text_between 1 200 (wt_value t)"
    and "distinct (term_identities T (attribute_terms T i l))"
proof -
  note b = attribute_term_list_bounds [OF assms, of l]
  show "length (attribute_terms T i l) \<le> 63"
    unfolding attribute_terms_def by (rule order_trans [OF weighted_terms_length b [THEN conjunct1]])
  have "wt_value ` set (attribute_terms T i l) \<subseteq> fst ` set (attribute_term_list i l)"
    using weighted_terms_subset [of T l "[]" "attribute_term_list i l"] by (simp add: attribute_terms_def)
  with b show "\<forall>t\<in>set (attribute_terms T i l). text_between 1 200 (wt_value t)"
    unfolding short_text_def by (blast intro: text_between_mono)
  show "distinct (term_identities T (attribute_terms T i l))"
    unfolding attribute_terms_def by (rule weighted_terms_distinct [THEN conjunct1])
qed

text \<open>The terms of the selected language, split into matched and missing ones.\<close>

definition terms_split :: "tokenizer_library \<Rightarrow> normalized_intent \<Rightarrow> language_score \<Rightarrow> bool" where
  "terms_split T i s \<longleftrightarrow> (\<exists>l q. ls_matched s = map wt_value (filter q (attribute_terms T i l)) \<and>
     ls_missing s = map wt_value (filter (\<lambda>t. \<not> q t) (attribute_terms T i l)))"

lemma best_language_mem: "best_language f x xs \<in> set (x # xs)"
  by (induction f x xs rule: best_language.induct) auto

lemma language_scores_split: "s \<in> set (language_scores T i tokens) \<Longrightarrow> terms_split T i s"
  unfolding language_scores_def terms_split_def language_attribute_score_def Let_def by fastforce

lemma terms_split_ok:
  assumes "terms_split T i s" and "draft_fields i"
  shows "score_terms (ls_matched s)" "score_terms (ls_missing s)"
    "has_unique_text (text_functions T) (ls_matched s)" "has_unique_text (text_functions T) (ls_missing s)"
    "set (map (text_identity (text_functions T)) (ls_matched s)) \<inter>
     set (map (text_identity (text_functions T)) (ls_missing s)) = {}"
proof -
  obtain l q where s: "ls_matched s = map wt_value (filter q (attribute_terms T i l))"
    "ls_missing s = map wt_value (filter (\<lambda>t. \<not> q t) (attribute_terms T i l))"
    using assms(1) unfolding terms_split_def by blast
  let ?ts = "attribute_terms T i l"
  note b = attribute_terms_ok [OF assms(2), of T l]
  have d: "distinct ?ts" "inj_on (text_identity (text_functions T) \<circ> wt_value) (set ?ts)"
    using b(3) unfolding term_identities_def distinct_map by blast+
  have len: "length (filter f ?ts) \<le> 63" for f by (rule order_trans [OF length_filter_le b(1)])
  have terms: "score_terms (map wt_value (filter f ?ts))" for f
    using b(2) len [of f] by (simp add: score_terms_def max_score_terms_def list_all_iff)
  then show "score_terms (ls_matched s)" "score_terms (ls_missing s)" unfolding s by blast+
  show "has_unique_text (text_functions T) (ls_matched s)" "has_unique_text (text_functions T) (ls_missing s)"
    unfolding s has_unique_text_def map_map distinct_map
    using d inj_on_subset [OF d(2)] by (simp_all add: subset_iff)
  show "set (map (text_identity (text_functions T)) (ls_matched s)) \<inter>
     set (map (text_identity (text_functions T)) (ls_missing s)) = {}"
    using d(2) unfolding s inj_on_def by fastforce
qed

subsection \<open>Negative matches\<close>

lemma match_terms_ok:
  "distinct (map (text_identity (text_functions T)) (match_terms T ev seen ts)) \<and>
   set (map (text_identity (text_functions T)) (match_terms T ev seen ts)) \<inter> set seen = {} \<and>
   set (match_terms T ev seen ts) \<subseteq> set (map snd ts) \<and> length (match_terms T ev seen ts) \<le> length ts"
proof (induction ts arbitrary: seen)
  case (Cons lt ts)
  obtain l t where lt: "lt = (l, t)" by (cases lt)
  from Cons [of seen] Cons [of "text_identity (text_functions T) t # seen"] show ?case
    unfolding lt by (auto simp: Let_def)
qed simp

lemma negative_matches_ok:
  assumes "draft_fields i"
  shows "score_terms (negative_matches T i p)" and "has_unique_text (text_functions T) (negative_matches T i p)"
proof -
  note n = term_lists_short(5,6) [OF assms, THEN term_listD]
  let ?ts = "map (\<lambda>t. (Ja, t)) (negative_terms_ja i) @ map (\<lambda>t. (En, t)) (negative_terms_en i)"
  obtain ev where m: "negative_matches T i p = match_terms T ev [] ?ts"
    unfolding negative_matches_def Let_def by blast
  note ok = match_terms_ok [of T ev "[]" ?ts, folded m]
  have "length (negative_matches T i p) \<le> 40" using ok n by simp
  moreover have "\<forall>t\<in>set (negative_matches T i p). text_between 1 200 t"
  proof
    fix t assume "t \<in> set (negative_matches T i p)"
    with ok have "t \<in> set (map snd ?ts)" by blast
    then have "t \<in> set (negative_terms_ja i) \<union> set (negative_terms_en i)" by auto
    with n show "text_between 1 200 t" unfolding short_text_def by (blast intro: text_between_mono)
  qed
  ultimately show "score_terms (negative_matches T i p)"
    by (simp add: score_terms_def max_score_terms_def list_all_iff)
  show "has_unique_text (text_functions T) (negative_matches T i p)"
    unfolding has_unique_text_def using ok by blast
qed

subsection \<open>The breakdown\<close>

lemma attribute_score_ok:
  assumes "attribute_score T i p = (r, l, matched, unmatched)" and "draft_fields i"
  shows "raw_ok r" "rc_status r = Available \<Longrightarrow> l \<noteq> None" "rc_reason r = No_intent_terms \<Longrightarrow> l = None"
    and "(matched = [] \<and> unmatched = []) \<or>
      (\<exists>s. terms_split T i s \<and> unmatched = ls_missing s \<and> matched \<in> {[], ls_matched s})"
proof -
  have mem: "best_language ls_score c cs \<in> set (language_scores T i tokens)"
    if "language_scores T i tokens = c # cs" for c cs tokens
    using best_language_mem [of ls_score c cs] that by simp
  show "raw_ok r" "rc_status r = Available \<Longrightarrow> l \<noteq> None" "rc_reason r = No_intent_terms \<Longrightarrow> l = None"
    using assms(1) by (auto simp: attribute_score_def Let_def split: list.splits if_splits)
  show "(matched = [] \<and> unmatched = []) \<or>
      (\<exists>s. terms_split T i s \<and> unmatched = ls_missing s \<and> matched \<in> {[], ls_matched s})"
    using assms(1) unfolding attribute_score_def Let_def
    by (auto split: list.splits if_splits dest!: mem dest: language_scores_split)
qed

lemma attribute_score_terms:
  assumes "attribute_score T i p = (r, l, matched, unmatched)" and "draft_fields i"
  shows "score_terms matched" "score_terms unmatched" "has_unique_text (text_functions T) matched"
    "has_unique_text (text_functions T) unmatched"
    "set (map (text_identity (text_functions T)) matched) \<inter>
     set (map (text_identity (text_functions T)) unmatched) = {}"
proof -
  have empty: "score_terms []" "has_unique_text (text_functions T) []"
    by (simp_all add: score_terms_def has_unique_text_def)
  from attribute_score_ok(4) [OF assms] have
    "score_terms matched \<and> score_terms unmatched \<and> has_unique_text (text_functions T) matched \<and>
     has_unique_text (text_functions T) unmatched \<and>
     set (map (text_identity (text_functions T)) matched) \<inter>
     set (map (text_identity (text_functions T)) unmatched) = {}"
  proof (elim disjE exE conjE)
    fix s assume s: "terms_split T i s" "unmatched = ls_missing s" "matched \<in> {[], ls_matched s}"
    from terms_split_ok [OF s(1) assms(2)] s(2,3) empty show ?thesis by auto
  qed (simp add: empty)
  then show "score_terms matched" "score_terms unmatched" "has_unique_text (text_functions T) matched"
    "has_unique_text (text_functions T) unmatched"
    "set (map (text_identity (text_functions T)) matched) \<inter>
     set (map (text_identity (text_functions T)) unmatched) = {}" by blast+
qed

lemma penalty_unit: "unit_value (penalty_of n)"
proof -
  have "0 \<le> negative_match_penalty" by (simp add: negative_match_penalty_def)
  then show ?thesis unfolding penalty_of_def unit_value_def
    by (intro conjI round_to_unit) (simp_all add: max_negative_penalty_def min_le_iff_disj)
qed

lemma total_unit: "unit_value (total_of a b)"
  unfolding total_of_def unit_value_def by (intro conjI round_to_unit) simp_all


lemma available_reason: "sc_reason (component_of a r w) = (if is_available r then Scored else rc_reason r)"
  by (simp add: component_of_def)

lemma score_product_ok:
  assumes "draft_fields i" and "validate_price (intent_price i) = Inr ()"
  obtains b where "score_product T L i p = Inr b" and "validate_breakdown (text_functions T) b = Inr ()"
proof -
  obtain title tl where title: "title_score T i p = (title, tl)" by (cases "title_score T i p")
  obtain attrs al matched unmatched where attrs: "attribute_score T i p = (attrs, al, matched, unmatched)"
    by (cases "attribute_score T i p")
  obtain price where price: "price_score (intent_price i) (pc_price p) = Inr price" "raw_ok price"
    using price_score_ok [OF assms(2)] .
  define review where "review = review_quality_score L p"
  define neg where "neg = negative_matches T i p"
  define raws where "raws = [title, attrs, price, image_disabled, review]"
  define cs where "cs = map2 (component_of (available_weight raws base_weights)) raws base_weights"
  note ok = components_valid [OF title_score_ok(1) [OF title] attribute_score_ok(1) [OF attrs assms(1)] price(2)
      review_ok(1) [of L p], folded review_def, folded raws_def, folded cs_def]
  define b where "b = \<lparr>sb_title = cs ! 0, sb_attributes = cs ! 1, sb_price = cs ! 2, sb_image = cs ! 3,
    sb_review = cs ! 4, sb_available = round_to score_decimals (available_weight raws base_weights),
    sb_pre_penalty = pre_penalty_of cs, sb_penalty = penalty_of (length neg),
    sb_total = total_of (pre_penalty_of cs) (penalty_of (length neg)), sb_title_language = tl,
    sb_attribute_language = al, sb_matched = matched, sb_missing = unmatched, sb_negative = neg\<rparr>"
  have cs5: "cs = [cs ! 0, cs ! 1, cs ! 2, cs ! 3, cs ! 4]"
    unfolding cs_def raws_def base_weights_def by simp
  have comps: "breakdown_components b = cs"
    by (simp only: breakdown_components_def b_def score_breakdown.select_convs cs5 [symmetric])
  have status: "sc_status (cs ! 0) = rc_status title" "sc_status (cs ! 1) = rc_status attrs"
    "sc_status (cs ! 3) = Disabled" "sc_status (cs ! 4) = rc_status review"
    unfolding cs_def raws_def base_weights_def by simp_all
  have reason: "sc_reason (cs ! 1) = (if is_available attrs then Scored else rc_reason attrs)"
    unfolding cs_def raws_def base_weights_def by (simp add: available_reason)
  have avail: "unit_value (sb_available b)" "sb_available b = base_total_of cs"
    using ok(5,6) unfolding b_def by simp_all
  note terms = attribute_score_terms [OF attrs assms(1)]
  note neg = negative_matches_ok [OF assms(1), of T p, folded neg_def]
  have valid: "validate_breakdown (text_functions T) b = Inr ()"
    unfolding validate_breakdown_def Let_def comps
    using ok avail terms neg penalty_unit [of "length neg"] total_unit status reason
      title_score_ok(2) [OF title] review_ok(2) [of L p, folded review_def]
      attribute_score_ok(2,3) [OF attrs assms(1)]
    by (simp add: b_def is_available_def) blast
  have "score_product T L i p = Inr b"
    unfolding score_product_def Let_def title attrs prod.case price(1) bind_Inr
      review_def [symmetric] raws_def [symmetric] ok(1) neg_def [symmetric] b_def [symmetric] valid ..
  with valid show thesis using that by blast
qed

text \<open>What a valid breakdown says of its total: the weighted components less the penalty, both rounded.\<close>

lemma breakdown_total:
  assumes "validate_breakdown U b = Inr ()"
  shows "unit_value (sb_total b)" and "sb_total b = total_of (pre_penalty_of (breakdown_components b))
    (penalty_of (length (sb_negative b)))"
  using assms by (auto simp: validate_breakdown_def Let_def split: if_splits)


section \<open>Ranking a batch\<close>

lemma score_all_ok:
  assumes "draft_fields i" and "validate_price (intent_price i) = Inr ()"
  obtains xs where "score_all T L i ps = Inr xs" and "map fst xs = ps"
    and "\<forall>(p, b)\<in>set xs. score_product T L i p = Inr b \<and> validate_breakdown (text_functions T) b = Inr ()"
proof -
  have "\<exists>xs. score_all T L i ps = Inr xs \<and> map fst xs = ps \<and>
    (\<forall>(p, b)\<in>set xs. score_product T L i p = Inr b \<and> validate_breakdown (text_functions T) b = Inr ())"
  proof (induction ps)
    case (Cons p ps)
    then obtain xs where xs: "score_all T L i ps = Inr xs" "map fst xs = ps"
      "\<forall>(p, b)\<in>set xs. score_product T L i p = Inr b \<and> validate_breakdown (text_functions T) b = Inr ()"
      by blast
    obtain b where "score_product T L i p = Inr b" "validate_breakdown (text_functions T) b = Inr ()"
      using score_product_ok [OF assms] .
    with xs have "score_all T L i (p # ps) = Inr ((p, b) # xs)"
      "\<forall>(q, c)\<in>set ((p, b) # xs). score_product T L i q = Inr c \<and> validate_breakdown (text_functions T) c = Inr ()"
      by (simp_all add: score_all_def)
    with xs(2) show ?case by (intro exI [of _ "(p, b) # xs"]) simp
  qed (simp add: score_all_def)
  with that show thesis by blast
qed

lemma score_all_eq:
  assumes "score_all T L i ps = Inr xs"
  shows "map fst xs = ps" "\<forall>(p, b)\<in>set xs. score_product T L i p = Inr b"
proof -
  have "map fst xs = ps \<and> (\<forall>(p, b)\<in>set xs. score_product T L i p = Inr b)"
    using assms by (induction ps arbitrary: xs) (auto simp: score_all_def)
  then show "map fst xs = ps" "\<forall>(p, b)\<in>set xs. score_product T L i p = Inr b" by blast+
qed

definition ranked_from :: "nat \<Rightarrow> (product_candidate \<times> score_breakdown) list \<Rightarrow> ranked_product list" where
  "ranked_from n xs =
     map (\<lambda>(n, p, b). \<lparr>rp_rank = n, rp_product = p, rp_breakdown = b\<rparr>) (enumerate n xs)"

lemma ranked_from_simps [simp]:
  "ranked_from n [] = []"
  "ranked_from n (x # xs) = \<lparr>rp_rank = n, rp_product = fst x, rp_breakdown = snd x\<rparr> # ranked_from (Suc n) xs"
  by (simp_all add: ranked_from_def case_prod_unfold)

lemma ranked_from_sel:
  "map rp_rank (ranked_from n xs) = [n..<n + length xs] \<and> map rp_product (ranked_from n xs) = map fst xs \<and>
   map rp_breakdown (ranked_from n xs) = map snd xs \<and> length (ranked_from n xs) = length xs \<and>
   ranked_keys (ranked_from n xs) = map rank_key xs"
  by (induction xs arbitrary: n) (simp_all add: ranked_keys_def upt_conv_Cons del: upt_Suc)

lemma ranked_from_mem:
  "r \<in> set (ranked_from n xs) \<Longrightarrow> (rp_product r, rp_breakdown r) \<in> set xs \<and> n \<le> rp_rank r \<and> rp_rank r < n + length xs"
  by (induction xs arbitrary: n) fastforce+

lemma with_ranks_from: "with_ranks xs = ranked_from 1 xs"
  by (simp add: with_ranks_def ranked_from_def)

lemma with_ranks_sel [simp]:
  "map rp_rank (with_ranks xs) = [1..<Suc (length xs)]" "map rp_product (with_ranks xs) = map fst xs"
  "map rp_breakdown (with_ranks xs) = map snd xs" "length (with_ranks xs) = length xs"
  "ranked_keys (with_ranks xs) = map rank_key xs"
  using ranked_from_sel [of 1 xs] unfolding with_ranks_from by simp_all

text \<open>A product in the ranked list stands there with its own breakdown.\<close>

lemma with_ranks_pair: "r \<in> set (with_ranks xs) \<Longrightarrow> (rp_product r, rp_breakdown r) \<in> set xs"
  unfolding with_ranks_from using ranked_from_mem by blast

lemma with_ranks_rank: "r \<in> set (with_ranks xs) \<Longrightarrow> 1 \<le> rp_rank r \<and> rp_rank r \<le> length xs"
  using ranked_from_mem [of r 1 xs] unfolding with_ranks_from by simp

text \<open>The order of the ranking: a greater total first, the earlier response on a tie.\<close>

definition ranked_before :: "ranked_product \<Rightarrow> ranked_product \<Rightarrow> bool" where
  "ranked_before x y \<longleftrightarrow> sb_total (rp_breakdown y) < sb_total (rp_breakdown x) \<or>
     (sb_total (rp_breakdown y) = sb_total (rp_breakdown x) \<and>
      product_index (rp_product x) < product_index (rp_product y))"

lemma ranked_before_key:
  "ranked_before x y \<longleftrightarrow> rank_key (rp_product x, rp_breakdown x) < rank_key (rp_product y, rp_breakdown y)"
  by (auto simp: ranked_before_def rank_key_def less_prod_def)

lemma keys_distinct: "distinct (map product_index (map fst xs)) \<Longrightarrow> distinct (map rank_key xs)"
  by (induction xs) (auto simp: rank_key_def)

lemma ranked_sorted:
  assumes "distinct (map product_index (map fst xs))"
  shows "sorted_wrt ranked_before (with_ranks (sort_key rank_key xs))"
proof -
  let ?ys = "sort_key rank_key xs"
  have "sorted (map rank_key ?ys)" "distinct (map rank_key ?ys)"
    using keys_distinct [OF assms] by simp_all
  then have "sorted_wrt (<) (ranked_keys (with_ranks ?ys))" by (simp add: strict_sorted_iff)
  then show ?thesis unfolding ranked_keys_def sorted_wrt_map ranked_before_key .
qed

lemma validate_batch_parts:
  assumes "validate_batch b = Inr ()"
  shows "length (pb_products b) \<le> max_ranked_products" "distinct (map product_index (pb_products b))"
    "\<forall>p\<in>set (pb_products b). validate_product p = Inr ()" "\<forall>p\<in>set (pb_products b). pv_plan (pc_provenance p) = pb_plan b"
    "is_digest (pb_plan b)"
proof -
  from assms have f: "batch_fields b" and m: "length (pb_products b) + length (pb_rejections b) \<le> pb_maximum b"
    and p: "\<forall>p\<in>set (pb_products b). validate_product p = Inr ()" and d: "distinct (response_indexes b)"
    and l: "list_all (bound_to_batch b) (pb_products b)"
    by (auto simp: validate_batch_def split: if_splits)
  show "length (pb_products b) \<le> max_ranked_products" "is_digest (pb_plan b)"
    using f m by (auto simp: batch_fields_def max_ranked_products_def)
  show "distinct (map product_index (pb_products b))"
    using d by (simp add: response_indexes_def product_index_def [abs_def] comp_def)
  show "\<forall>p\<in>set (pb_products b). pv_plan (pc_provenance p) = pb_plan b"
    using l by (auto simp: list_all_iff bound_to_batch_def Let_def)
qed (use assms in \<open>auto simp: validate_batch_def split: if_splits\<close>)

lemma validate_normalized_intent_parts:
  assumes "validate_normalized_intent i = Inr ()"
  shows "draft_fields i" "validate_price (intent_price i) = Inr ()"
  using assms by (auto simp: validate_normalized_intent_def split: if_splits)

lemma permuted_batch_valid:
  assumes "validate_batch b = Inr ()" and "mset ps = mset (pb_products b)"
  shows "validate_batch (b\<lparr>pb_products := ps\<rparr>) = Inr ()"
proof -
  have s: "set ps = set (pb_products b)" and l: "length ps = length (pb_products b)"
    using assms(2) mset_eq_setD mset_eq_length by blast+
  have m: "mset (response_indexes (b\<lparr>pb_products := ps\<rparr>)) = mset (response_indexes b)"
    using assms(2) by (simp add: response_indexes_def)
  then have d: "distinct (response_indexes (b\<lparr>pb_products := ps\<rparr>)) \<longleftrightarrow> distinct (response_indexes b)"
    by (rule mset_eq_imp_distinct_iff)
  have f: "batch_fields (b\<lparr>pb_products := ps\<rparr>) \<longleftrightarrow> batch_fields b" by (simp add: batch_fields_def l)
  have q: "list_all (bound_to_batch (b\<lparr>pb_products := ps\<rparr>)) ps \<longleftrightarrow> list_all (bound_to_batch b) (pb_products b)"
    by (simp add: list_all_iff s bound_to_batch_def)
  show ?thesis using assms(1) unfolding validate_batch_def d f
    by (simp add: s l q split: if_splits)
qed

text \<open>The ranking of bound inputs, spelt out.\<close>

lemma ranking_result:
  assumes i: "validate_normalized_intent i = Inr ()" and plan: "validate_search_plan (text_functions T) plan = Inr plan'"
    and batch: "validate_batch batch = Inr ()" and intent: "search_intent_sha256 H i = Inr (qp_intent plan')"
    and query: "search_query_plan_sha256 (text_functions T) H plan' = Inr (pb_plan batch)"
    and digests: "\<forall>s. is_digest (H s)" and xs: "score_all T L i (pb_products batch) = Inr xs"
    and good: "\<forall>(p, b)\<in>set xs. validate_breakdown (text_functions T) b = Inr ()"
  shows "rank_product_batch T L H i plan batch = Inr
    \<lparr>rb_profile = ranking_profile_digest H, rb_intent = qp_intent plan', rb_plan = pb_plan batch,
     rb_batch = canonical_sha256 H batch_domain (batch_json batch),
     rb_products = with_ranks (sort_key rank_key xs)\<rparr>"
proof -
  define rs where "rs = with_ranks (sort_key rank_key xs)"
  note b = validate_batch_parts [OF batch]
  note fst = score_all_eq(1) [OF xs]
  have len: "length rs = length (pb_products batch)" using fst by (metis length_map length_sort rs_def with_ranks_sel(4))
  have ranked: "validate_ranked_product (text_functions T) r = Inr ()" if r: "r \<in> set rs" for r
  proof -
    have pair: "(rp_product r, rp_breakdown r) \<in> set xs" using with_ranks_pair r unfolding rs_def by fastforce
    then have "rp_product r \<in> set (pb_products batch)" using arg_cong [OF fst, of set] by force
    moreover have "1 \<le> rp_rank r \<and> rp_rank r \<le> length rs"
      using with_ranks_rank r unfolding rs_def with_ranks_sel(4) by blast
    ultimately show ?thesis using b(1,3) good pair len by (auto simp: validate_ranked_product_def)
  qed
  have products: "set (map rp_product rs) = set (pb_products batch)"
    unfolding rs_def with_ranks_sel(2) using fst by (metis list.set_map set_sort)
  have index: "distinct (map (product_index \<circ> rp_product) rs)"
    using b(2) unfolding map_map [symmetric] rs_def with_ranks_sel(2) fst [symmetric]
    unfolding map_map by simp
  let ?r = "\<lparr>rb_profile = ranking_profile_digest H, rb_intent = qp_intent plan', rb_plan = pb_plan batch,
     rb_batch = canonical_sha256 H batch_domain (batch_json batch), rb_products = rs\<rparr>"
  have keys: "ranked_keys rs = sort (ranked_keys rs)" unfolding rs_def with_ranks_sel by (simp add: sorted_sort_id)
  have dig: "is_digest (ranking_profile_digest H)" "is_digest (canonical_sha256 H d v)" for d v
    using digests by (simp_all add: ranking_profile_digest_def canonical_sha256_def)
  have "is_digest (qp_intent plan')"
    using intent dig(2) by (auto simp: search_intent_sha256_def dest: sym)
  have plans: "pv_plan (pc_provenance (rp_product r)) = pb_plan batch" if "r \<in> set rs" for r
    using b(4) products that by auto
  have ranks: "map rp_rank rs = [1..<Suc (length rs)]" unfolding rs_def by (simp del: upt_Suc)
  have valid: "validate_ranked_batch (text_functions T) H ?r = Inr ()"
    unfolding validate_ranked_batch_def Let_def
    using ranked index keys dig \<open>is_digest (qp_intent plan')\<close> b(1,5) len plans ranks
    by (simp add: list_ex_iff del: upt_Suc One_nat_def)
  show ?thesis
    unfolding rank_product_batch_def Let_def i plan batch intent query xs bind_Inr rs_def [symmetric]
    using ranked valid by (simp add: normalized_product_batch_sha256_def batch del: validate_ranked_batch_def)
qed


section \<open>Better scores\<close>

lemma price_score_raw: "price_score c v = Inr r \<Longrightarrow> raw_ok r"
  by (auto simp: price_score_def split: if_splits option.splits price_mode.splits)

lemma title_raw: "raw_ok (fst (title_score T i p))"
  using title_score_ok(1) by (cases "title_score T i p") fastforce

lemma attribute_raw: "raw_ok (fst (attribute_score T i p))"
  by (auto simp: attribute_score_def Let_def split: list.splits if_splits)

lemma map_result_Inr_eq: "map_result f xs = Inr ys \<Longrightarrow> \<forall>x\<in>set xs. f x = Inr (g x) \<Longrightarrow> ys = map g xs"
  by (induction xs arbitrary: ys) auto

text \<open>The raw components of a product, its price score being given, and the components of the breakdown
  that scoring returned.\<close>

definition raw_components ::
  "tokenizer_library \<Rightarrow> (int \<Rightarrow> rat) \<Rightarrow> normalized_intent \<Rightarrow> product_candidate \<Rightarrow> raw_component \<Rightarrow> raw_component list"
where
  "raw_components T L i p price =
     [fst (title_score T i p), fst (attribute_score T i p), price, image_disabled, review_quality_score L p]"

lemma raw_components_length: "length (raw_components T L i p price) = length base_weights"
  by (simp add: raw_components_def base_weights_def)

lemma score_product_parts:
  assumes "score_product T L i p = Inr b"
  obtains price where "price_score (intent_price i) (pc_price p) = Inr price"
    and "breakdown_components b = map2 (component_of (available_weight (raw_components T L i p price) base_weights))
      (raw_components T L i p price) base_weights"
    and "sb_total b = total_of (pre_penalty_of (breakdown_components b)) (penalty_of (length (sb_negative b)))"
    and "\<forall>c\<in>set (breakdown_components b). validate_component c = Inr ()"
    and "sb_negative b = negative_matches T i p"
proof -
  obtain t tl a al m u where parts: "title_score T i p = (t, tl)" "attribute_score T i p = (a, al, m, u)"
    by (metis prod.exhaust)
  from assms obtain pr where price: "price_score (intent_price i) (pc_price p) = Inr pr"
    and rest: "\<exists>cs. build_components (raw_components T L i p pr) base_weights = Inr cs \<and>
      breakdown_components b = [cs ! 0, cs ! 1, cs ! 2, cs ! 3, cs ! 4] \<and> sb_pre_penalty b = pre_penalty_of cs"
    and valid: "validate_breakdown (text_functions T) b = Inr ()" and neg: "sb_negative b = negative_matches T i p"
    unfolding score_product_def parts Let_def raw_components_def by (auto simp: breakdown_components_def)
  note c = components_valid [OF title_raw [of T i p] attribute_raw [of T i p] price_score_raw [OF price]
      review_ok(1) [of L p], folded raw_components_def]
  have "[xs ! 0, xs ! 1, xs ! 2, xs ! 3, xs ! 4] = xs" if "length xs = 5" for xs :: "score_component list"
    using that by (simp add: list_eq_iff_nth_eq less_Suc_eq numeral_eq_Suc)
  then have "breakdown_components b = map2 (component_of (available_weight (raw_components T L i p pr) base_weights))
      (raw_components T L i p pr) base_weights"
    using rest c(1) by (auto simp: base_weights_def raw_components_def)
  moreover have "\<forall>c\<in>set (breakdown_components b). validate_component c = Inr ()"
    using valid by (auto simp: validate_breakdown_def Let_def split: if_splits)
  ultimately show thesis using that [OF price] breakdown_total(2) [OF valid] neg by blast
qed

lemma component_score: "sc_score (component_of a r w) = (if is_available r then Some (rounded_score r) else None)"
  by (simp add: component_of_def)

lemma same_availability:
  assumes "length rs = length ws" and "length ws = length ss"
    and "list_all2 (rel_option R) (map sc_score (map2 (component_of a) rs ws)) (map sc_score (map2 (component_of b) ss ws))"
  shows "map is_available rs = map is_available ss"
  using assms
  by (induction rs ws ss rule: list_induct3) (auto simp: component_score split: if_splits)

lemma contributions_mono:
  assumes "length rs = length ws" and "length ws = length ss"
    and "list_all2 (rel_option (\<le>)) (map sc_score (map2 (component_of a) rs ws)) (map sc_score (map2 (component_of a) ss ws))"
    and "\<forall>c\<in>set (map2 (component_of a) rs ws). 0 \<le> sc_effective c"
  shows "list_all2 (\<le>) (map sc_contribution (map2 (component_of a) rs ws)) (map sc_contribution (map2 (component_of a) ss ws))"
  using assms
proof (induction rs ws ss rule: list_induct3)
  case (Cons r rs w ws s ss)
  then have IH: "list_all2 (\<le>) (map sc_contribution (map2 (component_of a) rs ws)) (map sc_contribution (map2 (component_of a) ss ws))"
    by simp
  have rel: "rel_option (\<le>) (sc_score (component_of a r w)) (sc_score (component_of a s w))" using Cons.prems by simp
  show ?case
  proof (cases "is_available r")
    case True
    with rel have s: "is_available s" "rounded_score r \<le> rounded_score s" by (auto simp: component_score split: if_splits)
    have e: "0 \<le> effective_of a w" using Cons.prems True by (simp add: component_of_def)
    have "rounded_score r * effective_of a w \<le> rounded_score s * effective_of a w"
      using s(2) e by (rule mult_right_mono)
    then have "contribution_of (rounded_score r) (effective_of a w) \<le> contribution_of (rounded_score s) (effective_of a w)"
      unfolding contribution_of_def using e by (intro round_to_mono float_of_mono float_of_ge_0) simp_all
    with IH True s show ?thesis by (simp add: component_of_def)
  next
    case False
    with rel have "\<not> is_available s" by (auto simp: component_score split: if_splits)
    with IH False show ?thesis by (simp add: component_of_def)
  qed
qed simp

lemma float_of_sign: "x \<le> 0 \<Longrightarrow> float_of x \<le> 0"
proof (cases "x = 0")
  case False
  moreover assume "x \<le> 0"
  ultimately show ?thesis using float_of_ge_0 [of "- x"] by (simp add: float_of_def)
qed simp

lemma clip_float_mono: "x \<le> y \<Longrightarrow> clip_unit (float_of x) \<le> clip_unit (float_of y)"
  using float_of_mono [of x y] float_of_sign [of x] by (cases "0 \<le> x") (auto simp: clip_unit_def max_def min_def)

lemma total_mono: "a \<le> b \<Longrightarrow> q \<le> p \<Longrightarrow> total_of a p \<le> total_of b q"
  unfolding total_of_def by (intro round_to_mono clip_float_mono) simp_all

lemma penalty_mono: "m \<le> n \<Longrightarrow> penalty_of m \<le> penalty_of n"
proof -
  assume "m \<le> n"
  have n: "0 \<le> negative_match_penalty" by (simp add: negative_match_penalty_def)
  have "of_nat m * negative_match_penalty \<le> of_nat n * negative_match_penalty"
    using \<open>m \<le> n\<close> n by (intro mult_right_mono) simp_all
  then have "float_of (of_nat m * negative_match_penalty) \<le> float_of (of_nat n * negative_match_penalty)"
    using n by (intro float_of_mono) simp_all
  then show ?thesis unfolding penalty_of_def
    using n by (intro round_to_mono) (auto simp: max_negative_penalty_def min_def)
qed

lemma better_components:
  assumes b: "score_product T L i p = Inr b" and c: "score_product T' L' j q = Inr c"
    and rel: "list_all2 (rel_option (\<le>)) (map sc_score (breakdown_components b)) (map sc_score (breakdown_components c))"
    and neg: "length (sb_negative c) \<le> length (sb_negative b)"
  shows "sb_total b \<le> sb_total c"
proof -
  from score_product_parts [OF b] obtain x where
    cb: "breakdown_components b = map2 (component_of (available_weight (raw_components T L i p x) base_weights))
      (raw_components T L i p x) base_weights"
    and tb: "sb_total b = total_of (pre_penalty_of (breakdown_components b)) (penalty_of (length (sb_negative b)))"
    and vb: "\<forall>c\<in>set (breakdown_components b). validate_component c = Inr ()" .
  from score_product_parts [OF c] obtain y where
    cc: "breakdown_components c = map2 (component_of (available_weight (raw_components T' L' j q y) base_weights))
      (raw_components T' L' j q y) base_weights"
    and tc: "sb_total c = total_of (pre_penalty_of (breakdown_components c)) (penalty_of (length (sb_negative c)))" .
  let ?rs = "raw_components T L i p x" and ?ss = "raw_components T' L' j q y"
  note rs = raw_components_length [of T L i p x] and ss = raw_components_length [of T' L' j q y, symmetric]
  have "map is_available ?rs = map is_available ?ss"
    by (rule same_availability [OF rs ss]) (use rel in \<open>simp only: cb cc\<close>)
  then have a: "available_weight ?rs base_weights = available_weight ?ss base_weights"
    by (simp only: available_weight_eq selected_flags)
  have fields: "\<forall>x\<in>set (breakdown_components b). component_fields x"
    using vb by (auto simp: validate_component_def split: if_splits)
  have "list_all2 (\<le>) (map sc_contribution (breakdown_components b)) (map sc_contribution (breakdown_components c))"
    unfolding cb cc a
    by (rule contributions_mono [OF rs ss])
      (use rel fields in \<open>simp_all only: cb cc a component_fields_def unit_value_def, blast\<close>)
  then have "fsum (map sc_contribution (breakdown_components b)) \<le> fsum (map sc_contribution (breakdown_components c))"
    using fields by (intro fsum_mono) (auto simp: component_fields_def unit_value_def)
  moreover have "0 \<le> fsum (map sc_contribution (breakdown_components b))"
    using fields by (intro fsum_ge_0) (auto simp: component_fields_def unit_value_def)
  ultimately have "pre_penalty_of (breakdown_components b) \<le> pre_penalty_of (breakdown_components c)"
    unfolding pre_penalty_of_def by (intro round_to_mono)
  then show ?thesis unfolding tb tc using penalty_mono [OF neg] by (rule total_mono)
qed

end
