(* ===== verification/Product_Normalization.thy ===== *)
theory Product_Normalization
  imports Product_Records
begin

text \<open>
  Model of the operations of \<open>search_v2/product_normalization.py\<close>: a provider response, a parsed JSON
  value, becomes a batch of observed products and of rejections. The lists of truncated and of
  discarded field names that the source appends to are threaded through as a state.
\<close>

section \<open>Parsed JSON\<close>

text \<open>\<open>PFloat None\<close> is an infinity or a NaN, which \<open>json.loads\<close> accepts.\<close>

datatype pyvalue =
    PNone
  | PBool bool
  | PInt int
  | PFloat "rat option"
  | PText string
  | PList "pyvalue list"
  | PDict "(string \<times> pyvalue) list"

type_synonym item = "(string \<times> pyvalue) list"

definition get_item :: "item \<Rightarrow> string \<Rightarrow> pyvalue" where
  "get_item d k = (case dict_get d k of None \<Rightarrow> PNone | Some v \<Rightarrow> v)"

text \<open>The names recorded so far.\<close>

record field_notes =
  fn_truncated :: "string list"
  fn_discarded :: "string list"

definition append_once :: "string \<Rightarrow> string list \<Rightarrow> string list" where
  "append_once v xs = (if v \<in> set xs then xs else xs @ [v])"

definition note_truncated :: "string \<Rightarrow> field_notes \<Rightarrow> field_notes" where
  "note_truncated name n = n\<lparr>fn_truncated := append_once name (fn_truncated n)\<rparr>"

definition note_discarded :: "string \<Rightarrow> field_notes \<Rightarrow> field_notes" where
  "note_discarded name n = n\<lparr>fn_discarded := append_once name (fn_discarded n)\<rparr>"

section \<open>Text\<close>

definition take_chars :: "nat \<Rightarrow> string \<Rightarrow> string" where
  "take_chars n s = slice 0 n s"

definition sanitized :: "text_library \<Rightarrow> string \<Rightarrow> string" where
  "sanitized U s =
     concat (map (\<lambda>ch. if is_space ch then '' '' else if has_control U ch then [] else ch)
       (chars_of (nfkc U s)))"

definition normalize_text_field ::
  "text_library \<Rightarrow> nat \<Rightarrow> string \<Rightarrow> pyvalue \<Rightarrow> field_notes \<Rightarrow> string option \<times> field_notes" where
  "normalize_text_field U maximum name v n =
     (case v of
        PText s \<Rightarrow>
          let long = max_raw_text < text_length s;
              n1 = (if long then note_truncated name n else n);
              c = join_words (split_words U (sanitized U (if long then take_chars max_raw_text s else s)))
          in if c = [] then (None, n1)
             else if maximum < text_length c then (Some (take_chars maximum c), note_truncated name n1)
             else (Some c, n1)
      | _ \<Rightarrow> (None, n))"

text \<open>A text field of an item; a value that is present but unusable is noted as discarded.\<close>

definition text_item ::
  "text_library \<Rightarrow> item \<Rightarrow> string \<Rightarrow> nat \<Rightarrow> string \<Rightarrow> field_notes \<Rightarrow> string option \<times> field_notes" where
  "text_item U item key maximum name n =
     (let (v, n1) = normalize_text_field U maximum name (get_item item key) n in
      (v, if get_item item key \<noteq> PNone \<and> v = None then note_discarded name n1 else n1))"

text \<open>The loop of \<open>_normalize_string_collection\<close>; it stops at the first value beyond the maximum.\<close>

fun collect_texts ::
  "text_library \<Rightarrow> nat \<Rightarrow> string \<Rightarrow> string list \<Rightarrow> string list \<Rightarrow> pyvalue list \<Rightarrow> field_notes \<Rightarrow>
   string list \<times> field_notes" where
  "collect_texts U maximum name result seen [] n = (result, n)"
| "collect_texts U maximum name result seen (raw # rest) n =
     (case normalize_text_field U max_product_attribute name raw n of
        (None, n1) \<Rightarrow>
          collect_texts U maximum name result seen rest
            (if raw = PNone then n1 else note_discarded name n1)
      | (Some s, n1) \<Rightarrow>
          if casefold U s \<in> set seen then collect_texts U maximum name result seen rest n1
          else if length result = maximum then (result, note_truncated name n1)
          else collect_texts U maximum name (result @ [s]) (casefold U s # seen) rest n1)"

definition normalize_string_collection ::
  "text_library \<Rightarrow> nat \<Rightarrow> string \<Rightarrow> pyvalue \<Rightarrow> field_notes \<Rightarrow> string list \<times> field_notes" where
  "normalize_string_collection U maximum name v n =
     (case v of
        PNone \<Rightarrow> ([], n)
      | PList vs \<Rightarrow>
          collect_texts U maximum name [] [] (take max_raw_collection vs)
            (if max_raw_collection < length vs then note_truncated name n else n)
      | _ \<Rightarrow> ([], note_discarded name n))"

section \<open>Numbers\<close>

text \<open>\<open>_NUMBER_PATTERN\<close> at the start of a text and its first occurrence. The digits are those of any
  script, as \<open>\d\<close> and \<open>Decimal\<close> accept them; the number read is exact.\<close>

definition is_digit_char :: "text_library \<Rightarrow> string \<Rightarrow> bool" where
  "is_digit_char U ch \<longleftrightarrow> digit_of U ch \<noteq> None"

definition digits_value :: "text_library \<Rightarrow> string list \<Rightarrow> nat" where
  "digits_value U cs = foldl (\<lambda>a ch. case digit_of U ch of None \<Rightarrow> a | Some d \<Rightarrow> 10 * a + d) 0 cs"

definition fraction_digits :: "text_library \<Rightarrow> string list \<Rightarrow> string list" where
  "fraction_digits U cs =
     (if take 1 cs = [''.''] then takeWhile (is_digit_char U) (drop 1 cs) else [])"

definition number_here :: "text_library \<Rightarrow> string list \<Rightarrow> rat option" where
  "number_here U cs =
     (let neg = take 1 cs = [''-'']; body = (if take 1 cs \<in> {[''-''], [''+'']} then drop 1 cs else cs);
          whole = (if body \<noteq> [] \<and> is_digit_char U (hd body)
             then takeWhile (\<lambda>ch. is_digit_char U ch \<or> ch = '','') body else []);
          fraction = fraction_digits U (drop (length whole) body);
          value = of_nat (digits_value U (whole @ fraction)) / 10 ^ length fraction
      in if whole = [] \<and> fraction = [] then None
         else Some (if neg then - value else value))"

fun first_number :: "text_library \<Rightarrow> string list \<Rightarrow> rat option" where
  "first_number U [] = None"
| "first_number U (ch # cs) =
     (case number_here U (ch # cs) of None \<Rightarrow> first_number U cs | Some q \<Rightarrow> Some q)"

text \<open>\<open>Decimal(str(x))\<close> for a float: the decimal its \<open>repr\<close> shows.\<close>

definition repr_value :: "rat \<Rightarrow> rat" where
  "repr_value x =
     (if x = 0 then 0
      else let y = \<bar>x\<bar>; (m, k) = shortest_digits 17 y (int (decades 400 y) - int (decades_up 400 y))
           in sgn x * shift_decimal (- k) (of_int m))"

definition as_decimal :: "text_library \<Rightarrow> pyvalue \<Rightarrow> rat option" where
  "as_decimal U v =
     (case v of
        PInt i \<Rightarrow> if 2 ^ 256 \<le> \<bar>i\<bar> then None else Some (of_int i)
      | PFloat x \<Rightarrow> map_option repr_value x
      | PText s \<Rightarrow> if max_raw_numeric < text_length s then None else first_number U (chars_of s)
      | _ \<Rightarrow> None)"

text \<open>A product of decimals is rounded to the 28 digits of the context, ties to even.\<close>

definition round_significant :: "rat \<Rightarrow> rat" where
  "round_significant q =
     (let k = 27 - (int (decades_up 400 q) - int (decades 400 q))
      in shift_decimal (- k) (of_int (half_even (shift_decimal k q))))"

definition price_to_jpy :: "text_library \<Rightarrow> pyvalue \<Rightarrow> currency option \<Rightarrow> int \<Rightarrow> int option" where
  "price_to_jpy U v currency rate =
     (case (currency, as_decimal U v) of
        (Some c, Some q) \<Rightarrow>
          if q \<le> 0 then None
          else let converted = \<lfloor>if c = USD then round_significant (q * of_int rate) else q\<rfloor>
               in if 0 < converted \<and> converted \<le> max_price_jpy then Some converted else None
      | _ \<Rightarrow> None)"

definition bounded_float :: "text_library \<Rightarrow> pyvalue \<Rightarrow> rat \<Rightarrow> rat \<Rightarrow> rat option" where
  "bounded_float U v lo hi =
     (case as_decimal U v of
        None \<Rightarrow> None
      | Some q \<Rightarrow> let x = float_of q in if lo \<le> x \<and> x \<le> hi then Some x else None)"

definition non_negative_integer :: "text_library \<Rightarrow> pyvalue \<Rightarrow> int option" where
  "non_negative_integer U v =
     (case as_decimal U v of
        None \<Rightarrow> None
      | Some q \<Rightarrow>
          if q < 0 \<or> of_int max_review_count < q \<or> q \<noteq> of_int \<lfloor>q\<rfloor> then None else Some \<lfloor>q\<rfloor>)"

definition optional_bool :: "text_library \<Rightarrow> pyvalue \<Rightarrow> bool option" where
  "optional_bool U v =
     (case v of
        PBool b \<Rightarrow> Some b
      | PInt i \<Rightarrow> if i = 0 then Some False else if i = 1 then Some True else None
      | PFloat x \<Rightarrow> if x = Some 0 then Some False else if x = Some 1 then Some True else None
      | PText s \<Rightarrow>
          if max_raw_numeric < text_length s then None
          else let w = casefold U (strip_text s) in
            if w \<in> {''1'', ''true'', ''yes'', ''y''} then Some True
            else if w \<in> {''0'', ''false'', ''no'', ''n''} then Some False
            else None
      | _ \<Rightarrow> None)"

section \<open>Currency\<close>

definition yen_sign :: string where "yen_sign = [CHR 0xC2, CHR 0xA5]"
definition yen_word :: string where "yen_word = [CHR 0xE5, CHR 0x86, CHR 0x86]"

definition currency_marks :: "text_library \<Rightarrow> pyvalue \<Rightarrow> currency set" where
  "currency_marks U v =
     (case v of
        PText s \<Rightarrow>
          if max_raw_numeric < text_length s then {}
          else let t = upper_text U (nfkc U s) in
            (if contains_text ''USD'' t \<or> contains_text ''$'' t then {USD} else {}) \<union>
            (if contains_text ''JPY'' t \<or> contains_text yen_sign t \<or> contains_text yen_word t
             then {JPY} else {})
      | _ \<Rightarrow> {})"

text \<open>The currency, and whether the item names one that is not supported.\<close>

definition detect_currency :: "text_library \<Rightarrow> item \<Rightarrow> currency option \<times> bool" where
  "detect_currency U item =
     (case get_item item ''currency'' of
        PNone \<Rightarrow>
          let marks = (\<Union>k \<in> {''price'', ''old_price'', ''strike_price'', ''delivery_price''}.
                currency_marks U (get_item item k))
          in (if marks = {USD} then Some USD else if marks = {JPY} then Some JPY else None, False)
      | PText s \<Rightarrow>
          if max_raw_numeric < text_length s then (None, True)
          else let c = upper_text U (strip_text (nfkc U s)) in
            if c = ''JPY'' then (Some JPY, False) else if c = ''USD'' then (Some USD, False)
            else (None, True)
      | _ \<Rightarrow> (None, True))"

fun first_present :: "item \<Rightarrow> string list \<Rightarrow> pyvalue" where
  "first_present item [] = PNone"
| "first_present item (k # ks) =
     (if get_item item k \<noteq> PNone then get_item item k else first_present item ks)"

section \<open>URLs and identifiers\<close>

definition ends_with :: "string \<Rightarrow> string \<Rightarrow> bool" where
  "ends_with suffix s \<longleftrightarrow> starts_with (rev suffix) (rev s)"

definition amazon_host :: "string \<Rightarrow> bool" where
  "amazon_host h \<longleftrightarrow> h = ''amazon.co.jp'' \<or> ends_with ''.amazon.co.jp'' h"

definition https_url :: "bool \<Rightarrow> url_parts \<Rightarrow> string option" where
  "https_url amazon u =
     (case url_hostname u of
        None \<Rightarrow> None
      | Some host \<Rightarrow>
          let h = lower_text host in
          if url_scheme u \<noteq> ''https'' \<or> url_username u \<noteq> None \<or> url_password u \<noteq> None \<or>
             url_port u \<notin> {Inr None, Inr (Some 443)} \<or> ends_with ''.'' h \<or>
             list_ex (\<lambda>l. l = []) (host_labels h) \<or> (amazon \<and> \<not> amazon_host h)
          then None
          else Some (url_join ''https'' h (if url_path u = [] then ''/'' else url_path u)
                 (if amazon then [] else url_query u)))"

definition normalize_https_url ::
  "text_library \<Rightarrow> (string \<Rightarrow> bool) \<Rightarrow> bool \<Rightarrow> pyvalue \<Rightarrow> string option" where
  "normalize_https_url U B amazon v =
     (case v of
        PText s \<Rightarrow>
          if 2048 < text_length s \<or> s \<noteq> strip_text s \<or> any_control U s \<or> \<not> is_ascii s then None
          else (case url_split B s of Inl e \<Rightarrow> None | Inr u \<Rightarrow> https_url amazon u)
      | _ \<Rightarrow> None)"

definition normalize_asin :: "text_library \<Rightarrow> pyvalue \<Rightarrow> string option" where
  "normalize_asin U v =
     (case v of
        PText s \<Rightarrow>
          if max_raw_identifier < text_length s then None
          else let a = upper_text U (strip_text (nfkc U s)) in if is_asin a then Some a else None
      | _ \<Rightarrow> None)"

definition product_url ::
  "text_library \<Rightarrow> (string \<Rightarrow> bool) \<Rightarrow> item \<Rightarrow> field_notes \<Rightarrow> string option \<times> field_notes" where
  "product_url U B item n =
     (let vs = filter (\<lambda>v. v \<noteq> PNone) (map (get_item item) [''url'', ''short_url'']) in
      case List.map_filter (normalize_https_url U B True) vs of
        u # _ \<Rightarrow> (Some u, n)
      | [] \<Rightarrow> (None, if vs \<noteq> [] then note_discarded ''product_url'' n else n))"

fun collect_urls ::
  "text_library \<Rightarrow> (string \<Rightarrow> bool) \<Rightarrow> string list \<Rightarrow> pyvalue list \<Rightarrow> field_notes \<Rightarrow>
   string list \<times> field_notes" where
  "collect_urls U B result [] n = (result, n)"
| "collect_urls U B result (raw # rest) n =
     (case normalize_https_url U B False raw of
        None \<Rightarrow> collect_urls U B result rest (note_discarded ''image_urls'' n)
      | Some u \<Rightarrow>
          if u \<in> set result then collect_urls U B result rest n
          else if length result = max_product_images then (result, note_discarded ''image_urls'' n)
          else collect_urls U B (result @ [u]) rest n)"

definition image_keys :: "string list" where
  "image_keys = map (\<lambda>i. ''image_'' @ dec_nat i) [1..<11]"

definition image_urls ::
  "text_library \<Rightarrow> (string \<Rightarrow> bool) \<Rightarrow> item \<Rightarrow> field_notes \<Rightarrow> string list \<times> field_notes" where
  "image_urls U B item n =
     (let (raws, n1) = (case get_item item ''high_res_images'' of
            PNone \<Rightarrow> ([], n)
          | PList vs \<Rightarrow> (take max_raw_collection vs,
              if max_raw_collection < length vs then note_discarded ''image_urls'' n else n)
          | _ \<Rightarrow> ([], note_discarded ''image_urls'' n))
      in collect_urls U B [] (raws @ filter (\<lambda>v. v \<noteq> PNone) (map (get_item item) image_keys)) n1)"

section \<open>Candidates\<close>

record raw_candidate =
  raw_index :: nat
  raw_query :: "nat option"
  raw_value :: pyvalue

text \<open>The members of the response in order: a list is the group of the query at its position.\<close>

definition group_members :: "nat \<Rightarrow> pyvalue \<Rightarrow> (nat option \<times> pyvalue) list" where
  "group_members g v = (case v of PList vs \<Rightarrow> map (\<lambda>x. (Some g, x)) vs | _ \<Rightarrow> [(None, v)])"

definition response_members :: "pyvalue list \<Rightarrow> (nat option \<times> pyvalue) list" where
  "response_members data = concat (map (\<lambda>(g, v). group_members g v) (enumerate 0 data))"

definition raw_candidates :: "pyvalue list \<Rightarrow> nat \<Rightarrow> raw_candidate list result" where
  "raw_candidates data maximum =
     (let ms = response_members data in
      if maximum < length ms then Inl ProductNormalizationError
      else Inr (map (\<lambda>(i, g, v). \<lparr>raw_index = i, raw_query = g, raw_value = v\<rparr>) (enumerate 0 ms)))"

definition query_matches :: "product_request \<Rightarrow> string \<Rightarrow> nat list" where
  "query_matches r q = map fst (filter (\<lambda>(i, p). p = q) (enumerate 0 (provider_queries r)))"

definition query_index_of ::
  "raw_candidate \<Rightarrow> item \<Rightarrow> product_request \<Rightarrow> rejection_reason + nat" where
  "query_index_of raw item r =
     (case get_item item ''query'' of
        PNone \<Rightarrow>
          (case raw_query raw of
             Some g \<Rightarrow> if length (request_queries r) \<le> g then Inl Unapproved_query else Inr g
           | None \<Rightarrow> if length (request_queries r) = 1 then Inr 0 else Inl Unknown_query_provenance)
      | PText q \<Rightarrow>
          (case query_matches r q of
             [i] \<Rightarrow> if raw_query raw \<noteq> None \<and> raw_query raw \<noteq> Some i then Inl Unapproved_query else Inr i
           | _ \<Rightarrow> Inl Unapproved_query)
      | _ \<Rightarrow> Inl Unapproved_query)"

definition new_rejection ::
  "nat \<Rightarrow> rejection_reason \<Rightarrow> nat option \<Rightarrow> product_rejection result" where
  "new_rejection index reason duplicate =
     (let r = \<lparr>rej_index = index, rej_reason = reason, rej_duplicate = duplicate\<rparr>
      in bind (validate_rejection r) (\<lambda>_. Inr r))"

definition request_provider :: "product_request \<Rightarrow> string \<Rightarrow> provider_kind" where
  "request_provider r request_id =
     (if (case r of Playwright_request _ \<Rightarrow> True | _ \<Rightarrow> False) \<or> starts_with ''playwright-'' request_id
      then Playwright_provider else Outscraper_provider)"

definition availability_status :: "pyvalue \<Rightarrow> bool option" where
  "availability_status v =
     (if v = PText ''available'' then Some True
      else if v = PText ''unavailable'' then Some False else None)"

text \<open>The English title: an announced title that is unusable makes the status \<open>unavailable\<close>.\<close>

definition english_title ::
  "text_library \<Rightarrow> item \<Rightarrow> field_notes \<Rightarrow> (string option \<times> bool option) \<times> field_notes" where
  "english_title U item n =
     (case availability_status (get_item item ''title_en_status'') of
        None \<Rightarrow> ((None, None), n)
      | Some False \<Rightarrow> ((None, Some False), n)
      | Some True \<Rightarrow>
          let (t, n1) = normalize_text_field U max_product_title ''title_en'' (get_item item ''name_en'') n
          in ((t, Some (t \<noteq> None)), n1))"

definition english_details_of ::
  "text_library \<Rightarrow> item \<Rightarrow> field_notes \<Rightarrow> (english_details option \<times> bool option) \<times> field_notes" where
  "english_details_of U item n =
     (let status = availability_status (get_item item ''details_en_status'') in
      if status \<noteq> Some True then ((None, status), n)
      else let
          (d, n1) = normalize_text_field U 4000 ''description_en'' (get_item item ''description_en'') n;
          (c, n2) = normalize_text_field U 200 ''color_en'' (get_item item ''color_en'') n1;
          (m, n3) = normalize_text_field U 200 ''material_en'' (get_item item ''material_en'') n2;
          (f, n4) = normalize_string_collection U 20 ''features_en'' (get_item item ''features_en'') n3
        in ((Some \<lparr>en_description = d, en_features = f, en_color = c, en_material = m\<rparr>, status), n4))"

definition note_missing :: "string \<Rightarrow> pyvalue \<Rightarrow> 'a option \<Rightarrow> field_notes \<Rightarrow> field_notes" where
  "note_missing name raw v n = (if raw \<noteq> PNone \<and> v = None then note_discarded name n else n)"

text \<open>The texts and collections of an item.\<close>

record item_texts =
  it_brand :: "string option"
  it_store :: "string option"
  it_description :: "string option"
  it_color :: "string option"
  it_material :: "string option"
  it_categories :: "string list"
  it_features :: "string list"

definition read_texts :: "text_library \<Rightarrow> item \<Rightarrow> field_notes \<Rightarrow> item_texts \<times> field_notes" where
  "read_texts U item n =
     (let (brand, n1) = text_item U item ''brand'' max_product_attribute ''brand'' n;
          (store, n2) = text_item U item ''store_title'' max_product_attribute ''store_name'' n1;
          (description, n3) = text_item U item ''description'' max_product_description ''description'' n2;
          (color, n4) = text_item U item ''color'' max_product_attribute ''color'' n3;
          (material, n5) = text_item U item ''material'' max_product_attribute ''material'' n4;
          (categories, n6) = normalize_string_collection U max_product_categories ''categories''
             (get_item item ''categories'') n5;
          (features, n7) = normalize_string_collection U max_product_features ''features''
             (get_item item ''features'') n6
      in (\<lparr>it_brand = brand, it_store = store, it_description = description, it_color = color,
           it_material = material, it_categories = categories, it_features = features\<rparr>, n7))"

text \<open>The numbers of an item whose currency is known to be usable.\<close>

record item_numbers =
  in_price :: "int option"
  in_list_price :: "int option"
  in_rating :: "rat option"
  in_reviews :: "int option"
  in_prime :: "bool option"

definition read_numbers ::
  "text_library \<Rightarrow> item \<Rightarrow> currency option \<Rightarrow> int \<Rightarrow> field_notes \<Rightarrow> item_numbers \<times> field_notes" where
  "read_numbers U item currency rate n =
     (let price_value = first_present item [''price_parsed'', ''price''];
          list_value = first_present item
             [''old_price_parsed'', ''strike_price_parsed'', ''old_price'', ''strike_price''];
          price = price_to_jpy U price_value currency rate;
          list_price = price_to_jpy U list_value currency rate;
          rating = bounded_float U (get_item item ''rating'') 0 5;
          reviews = non_negative_integer U (get_item item ''reviews'');
          prime = optional_bool U (get_item item ''prime'');
          n1 = note_missing ''price'' price_value price n;
          n2 = note_missing ''list_price'' list_value list_price n1;
          n3 = note_missing ''rating'' (get_item item ''rating'') rating n2;
          n4 = note_missing ''review_count'' (get_item item ''reviews'') reviews n3;
          n5 = note_missing ''prime'' (get_item item ''prime'') prime n4
      in (\<lparr>in_price = price, in_list_price = list_price, in_rating = rating, in_reviews = reviews,
           in_prime = prime\<rparr>, n5))"

datatype outcome = Kept product_candidate | Rejected product_rejection

text \<open>What \<open>_normalize_candidate\<close> is given of the request.\<close>

record normalization_context =
  nc_request :: product_request
  nc_digest :: string
  nc_request_id :: string
  nc_rate :: int

definition build_candidate ::
  "text_library \<Rightarrow> (string \<Rightarrow> bool) \<Rightarrow> normalization_context \<Rightarrow> raw_candidate \<Rightarrow> item \<Rightarrow> nat \<Rightarrow>
   string \<Rightarrow> currency option \<Rightarrow> (string option \<times> bool option) \<Rightarrow> string option \<Rightarrow>
   (english_details option \<times> bool option) \<Rightarrow> item_texts \<Rightarrow> field_notes \<Rightarrow> product_candidate" where
  "build_candidate U B x raw item q title currency title_en asin details texts n =
     (let (numbers, n1) = read_numbers U item currency (nc_rate x) n;
          (availability, n2) = text_item U item ''availability'' max_product_attribute ''availability'' n1;
          (shipping, n3) = text_item U item ''shipping'' max_product_attribute ''shipping'' n2;
          (url, n4) = product_url U B item n3;
          (images, n5) = image_urls U B item n4
      in \<lparr>pc_asin = asin, pc_title = title, pc_store = it_store texts, pc_title_en = fst title_en,
          pc_title_en_status = snd title_en, pc_details_en = fst details,
          pc_details_en_status = snd details, pc_description = it_description texts,
          pc_attributes = \<lparr>oa_brand = it_brand texts, oa_categories = it_categories texts,
             oa_color = it_color texts, oa_material = it_material texts,
             oa_features = it_features texts,
             oa_unknown = unknown_attributes (it_brand texts) (it_categories texts) (it_color texts)
               (it_material texts) (it_features texts)\<rparr>,
          pc_price = in_price numbers, pc_list_price = in_list_price numbers, pc_currency = currency,
          pc_rating = in_rating numbers, pc_reviews = in_reviews numbers, pc_prime = in_prime numbers,
          pc_availability = availability, pc_shipping = shipping, pc_url = url, pc_images = images,
          pc_truncated = fn_truncated n5, pc_discarded = fn_discarded n5,
          pc_provenance = \<lparr>pv_provider = request_provider (nc_request x) (nc_request_id x),
             pv_request = nc_digest x, pv_plan = request_plan (nc_request x),
             pv_request_id = nc_request_id x, pv_query_index = q,
             pv_language = query_language (request_queries (nc_request x) ! q),
             pv_index = raw_index raw\<rparr>\<rparr>)"

definition normalize_candidate ::
  "text_library \<Rightarrow> (string \<Rightarrow> bool) \<Rightarrow> normalization_context \<Rightarrow> raw_candidate \<Rightarrow> outcome result" where
  "normalize_candidate U B x raw =
     (let reject = (\<lambda>reason. bind (new_rejection (raw_index raw) reason None) (\<lambda>r. Inr (Rejected r))) in
      case raw_value raw of
        PDict item \<Rightarrow>
          (case query_index_of raw item (nc_request x) of
             Inl reason \<Rightarrow> reject reason
           | Inr q \<Rightarrow>
               let n0 = \<lparr>fn_truncated = [], fn_discarded = []\<rparr>;
                   (title, n1) = normalize_text_field U max_product_title ''title'' (get_item item ''name'') n0
               in case title of
                 None \<Rightarrow> reject Missing_title
               | Some t \<Rightarrow>
                   let (title_en, n2) = english_title U item n1;
                       asin = normalize_asin U (get_item item ''asin'');
                       n3 = note_missing ''asin'' (get_item item ''asin'') asin n2;
                       (details, n4) = english_details_of U item n3;
                       (texts, n5) = read_texts U item n4;
                       (currency, unsupported) = detect_currency U item
                   in if unsupported then reject Unsupported_currency
                      else let p = build_candidate U B x raw item q t currency title_en asin details texts n5
                           in bind (validate_product p) (\<lambda>_. Inr (Kept p)))
      | _ \<Rightarrow> reject Not_an_object)"

section \<open>The batch\<close>

text \<open>The loop over the candidates, with the products, the rejections and the dictionaries of the
  response index each ASIN and each product URL was first kept at.\<close>

record batch_state =
  bs_products :: "product_candidate list"
  bs_rejections :: "product_rejection list"
  bs_asins :: "(string \<times> nat) list"
  bs_urls :: "(string \<times> nat) list"

definition batch_start :: batch_state where
  "batch_start = \<lparr>bs_products = [], bs_rejections = [], bs_asins = [], bs_urls = []\<rparr>"

definition duplicate_of :: "batch_state \<Rightarrow> product_candidate \<Rightarrow> (rejection_reason \<times> nat) option" where
  "duplicate_of s p =
     (case pc_asin p of
        Some a \<Rightarrow> map_option (\<lambda>i. (Duplicate_asin, i)) (map_of (bs_asins s) a)
      | None \<Rightarrow>
          (case pc_url p of
             Some u \<Rightarrow> map_option (\<lambda>i. (Duplicate_product_url, i)) (map_of (bs_urls s) u)
           | None \<Rightarrow> None))"

definition set_default :: "'k option \<Rightarrow> 'v \<Rightarrow> ('k \<times> 'v) list \<Rightarrow> ('k \<times> 'v) list" where
  "set_default k v d =
     (case k of None \<Rightarrow> d | Some x \<Rightarrow> if map_of d x = None then d @ [(x, v)] else d)"

definition batch_step :: "raw_candidate \<Rightarrow> outcome \<Rightarrow> batch_state \<Rightarrow> batch_state result" where
  "batch_step raw out s =
     (case out of
        Rejected r \<Rightarrow> Inr (s\<lparr>bs_rejections := bs_rejections s @ [r]\<rparr>)
      | Kept p \<Rightarrow>
          (case duplicate_of s p of
             Some (reason, i) \<Rightarrow>
               bind (new_rejection (raw_index raw) reason (Some i)) (\<lambda>r.
                 Inr (s\<lparr>bs_rejections := bs_rejections s @ [r]\<rparr>))
           | None \<Rightarrow>
               Inr (s\<lparr>bs_products := bs_products s @ [p],
                      bs_asins := set_default (pc_asin p) (raw_index raw) (bs_asins s),
                      bs_urls := set_default (pc_url p) (raw_index raw) (bs_urls s)\<rparr>)))"

fun batch_loop ::
  "text_library \<Rightarrow> (string \<Rightarrow> bool) \<Rightarrow> normalization_context \<Rightarrow> batch_state \<Rightarrow> raw_candidate list \<Rightarrow>
   batch_state result" where
  "batch_loop U B x s [] = Inr s"
| "batch_loop U B x s (raw # raws) =
     bind (normalize_candidate U B x raw) (\<lambda>out.
     bind (batch_step raw out s) (\<lambda>s'. batch_loop U B x s' raws))"

definition normalize_outscraper_products ::
  "text_library \<Rightarrow> (string \<Rightarrow> bool) \<Rightarrow> (string \<Rightarrow> string) \<Rightarrow> pyvalue \<Rightarrow> product_request \<Rightarrow> string \<Rightarrow>
   int \<Rightarrow> product_batch result" where
  "normalize_outscraper_products U B H response r request_id rate =
     bind (rewrap is_ValueError ProductNormalizationError (validate_request U B r)) (\<lambda>_.
     if \<not> valid_rate rate \<or> \<not> provider_request_id request_id then Inl ProductNormalizationError
     else case response of
       PDict item \<Rightarrow>
         (case get_item item ''data'' of
            PList data \<Rightarrow>
              if request_maximum r < length data then Inl ProductNormalizationError
              else bind (raw_candidates data (request_maximum r)) (\<lambda>raws.
                bind (request_sha256 U B H r) (\<lambda>digest.
                bind (batch_loop U B \<lparr>nc_request = r, nc_digest = digest, nc_request_id = request_id,
                        nc_rate = rate\<rparr> batch_start raws) (\<lambda>s.
                rewrap is_ValueError ProductNormalizationError
                  (bind (product_normalization_profile_sha256 H rate) (\<lambda>profile.
                    let b = \<lparr>pb_provider = request_provider r request_id, pb_request = digest,
                             pb_plan = request_plan r, pb_request_id = request_id, pb_profile = profile,
                             pb_maximum = request_maximum r, pb_products = bs_products s,
                             pb_rejections = bs_rejections s\<rparr>
                    in bind (validate_batch b) (\<lambda>_. Inr b))))))
          | _ \<Rightarrow> Inl ProductNormalizationError)
     | _ \<Rightarrow> Inl ProductNormalizationError)"

end
