(* ===== verification/Product_Normalization_Props.thy ===== *)
theory Product_Normalization_Props
  imports Product_Normalization "HOL-Library.Multiset"
begin

text \<open>
  Facts about the normalisation of a response: the notes a candidate collects, what a kept or rejected
  candidate looks like, and the invariant of the loop over the candidates.
\<close>

section \<open>One candidate\<close>

lemma new_rejection_eq: "new_rejection n reason d = Inr r \<Longrightarrow> r = \<lparr>rej_index = n, rej_reason = reason, rej_duplicate = d\<rparr>"
  by (auto simp: new_rejection_def Let_def)

lemma build_candidate_provenance:
  "pc_provenance (build_candidate U B x raw item q t c te asin d texts n) =
     \<lparr>pv_provider = request_provider (nc_request x) (nc_request_id x), pv_request = nc_digest x,
      pv_plan = request_plan (nc_request x), pv_request_id = nc_request_id x, pv_query_index = q,
      pv_language = query_language (request_queries (nc_request x) ! q), pv_index = raw_index raw\<rparr>"
  by (simp add: build_candidate_def case_prod_unfold Let_def)

text \<open>A kept candidate is valid and carries the provenance of its request; a rejected one names itself.\<close>

definition kept_from :: "normalization_context \<Rightarrow> raw_candidate \<Rightarrow> product_candidate \<Rightarrow> bool" where
  "kept_from x raw p \<longleftrightarrow> validate_product p = Inr () \<and> pv_index (pc_provenance p) = raw_index raw \<and>
     pv_provider (pc_provenance p) = request_provider (nc_request x) (nc_request_id x) \<and>
     pv_request (pc_provenance p) = nc_digest x \<and> pv_plan (pc_provenance p) = request_plan (nc_request x) \<and>
     pv_request_id (pc_provenance p) = nc_request_id x"

lemma candidate_outcome:
  assumes "normalize_candidate U B x raw = Inr out"
  shows "case out of Kept p \<Rightarrow> kept_from x raw p
    | Rejected r \<Rightarrow> rej_index r = raw_index raw \<and> rej_duplicate r = None \<and> \<not> is_duplicate (rej_reason r)"
proof -
  have rej: "rej_index r = raw_index raw \<and> rej_duplicate r = None \<and> \<not> is_duplicate (rej_reason r)"
    if "new_rejection (raw_index raw) reason None = Inr r" for r reason
    using that by (auto simp: new_rejection_def validate_rejection_def Let_def split: if_splits)
  show ?thesis
    using assms unfolding normalize_candidate_def Let_def
    by (auto split: pyvalue.splits sum.splits option.splits prod.splits if_splits
        dest!: rej simp: kept_from_def build_candidate_provenance)
qed

section \<open>The loop\<close>

definition state_indexes :: "batch_state \<Rightarrow> nat list" where
  "state_indexes s = map (pv_index \<circ> pc_provenance) (bs_products s) @ map rej_index (bs_rejections s)"

text \<open>Two kept products are not the same offer: they have different ASINs, and the later, when it has
  none, another URL.\<close>

definition distinct_offer :: "product_candidate \<Rightarrow> product_candidate \<Rightarrow> bool" where
  "distinct_offer p q \<longleftrightarrow>
     (case pc_asin q of Some a \<Rightarrow> pc_asin p \<noteq> Some a | None \<Rightarrow> pc_url q = None \<or> pc_url p \<noteq> pc_url q)"

text \<open>A candidate \<open>p\<close> that a kept product \<open>q\<close> makes a duplicate, and the reason it is dropped for.\<close>

definition same_offer :: "product_candidate \<Rightarrow> product_candidate \<Rightarrow> rejection_reason \<Rightarrow> bool" where
  "same_offer q p reason \<longleftrightarrow>
     (case pc_asin p of Some a \<Rightarrow> reason = Duplicate_asin \<and> pc_asin q = Some a
      | None \<Rightarrow> reason = Duplicate_product_url \<and> pc_url p \<noteq> None \<and> pc_url q = pc_url p)"

text \<open>What becomes of one member of the response: the rejection that its normalisation gives; or its
  product; or a duplicate rejection that names an earlier kept product with the same ASIN or URL.\<close>

definition accounted ::
  "text_library \<Rightarrow> (string \<Rightarrow> bool) \<Rightarrow> normalization_context \<Rightarrow> product_candidate list \<Rightarrow> product_rejection list \<Rightarrow>
   raw_candidate \<Rightarrow> bool" where
  "accounted U B x ps rs raw \<longleftrightarrow>
     (\<exists>r\<in>set rs. normalize_candidate U B x raw = Inr (Rejected r)) \<or>
     (\<exists>p\<in>set ps. normalize_candidate U B x raw = Inr (Kept p)) \<or>
     (\<exists>p reason. normalize_candidate U B x raw = Inr (Kept p) \<and>
       (\<exists>q\<in>set ps. pv_index (pc_provenance q) < raw_index raw \<and> same_offer q p reason \<and>
         \<lparr>rej_index = raw_index raw, rej_reason = reason, rej_duplicate = Some (pv_index (pc_provenance q))\<rparr> \<in> set rs))"

text \<open>The invariant: \<open>raws\<close> are the candidates gone through.\<close>

definition batch_inv ::
  "text_library \<Rightarrow> (string \<Rightarrow> bool) \<Rightarrow> normalization_context \<Rightarrow> raw_candidate list \<Rightarrow> batch_state \<Rightarrow> bool" where
  "batch_inv U B x raws s \<longleftrightarrow> mset (state_indexes s) = mset [0..<length raws] \<and>
     (\<forall>raw\<in>set raws. accounted U B x (bs_products s) (bs_rejections s) raw) \<and>
     (\<forall>p\<in>set (bs_products s). \<exists>raw. kept_from x raw p) \<and>
     sorted_wrt (<) (map (pv_index \<circ> pc_provenance) (bs_products s)) \<and>
     sorted_wrt distinct_offer (bs_products s) \<and>
     (\<forall>a. map_of (bs_asins s) a = None \<longleftrightarrow> Some a \<notin> pc_asin ` set (bs_products s)) \<and>
     (\<forall>u. map_of (bs_urls s) u = None \<longleftrightarrow> Some u \<notin> pc_url ` set (bs_products s)) \<and>
     (\<forall>a j. map_of (bs_asins s) a = Some j \<longrightarrow>
       (\<exists>p\<in>set (bs_products s). pc_asin p = Some a \<and> pv_index (pc_provenance p) = j)) \<and>
     (\<forall>u j. map_of (bs_urls s) u = Some j \<longrightarrow>
       (\<exists>p\<in>set (bs_products s). pc_url p = Some u \<and> pv_index (pc_provenance p) = j))"

lemma batch_inv_start: "batch_inv U B x [] batch_start"
  by (simp add: batch_inv_def batch_start_def state_indexes_def)

lemma batch_inv_bound: "batch_inv U B x raws s \<Longrightarrow> p \<in> set (bs_products s) \<Longrightarrow> pv_index (pc_provenance p) < length raws"
proof -
  assume inv: "batch_inv U B x raws s" and p: "p \<in> set (bs_products s)"
  have "set (state_indexes s) = set [0..<length raws]" using inv unfolding batch_inv_def by (blast dest: mset_eq_setD)
  with p show ?thesis by (auto simp: state_indexes_def)
qed

lemma accounted_in_more:
  "accounted U B x ps rs raw \<Longrightarrow> accounted U B x (ps @ qs) (rs @ ss) raw"
  unfolding accounted_def by (simp only: set_append bex_Un Un_iff) blast

lemma map_of_set_default:
  "map_of (set_default k v d) y = (if k = Some y \<and> map_of d y = None then Some v else map_of d y)"
  by (auto simp: set_default_def map_add_def split: option.splits)

lemma sorted_wrt_snoc: "sorted_wrt R (xs @ [y]) \<longleftrightarrow> sorted_wrt R xs \<and> (\<forall>x\<in>set xs. R x y)"
  by (simp add: sorted_wrt_append)

lemma reject_inv:
  assumes "batch_inv U B x raws s" and "raw_index raw = length raws" and "rej_index r = length raws"
    and a: "accounted U B x (bs_products s) (bs_rejections s @ [r]) raw"
  shows "batch_inv U B x (raws @ [raw]) (s\<lparr>bs_rejections := bs_rejections s @ [r]\<rparr>)"
proof -
  have "\<forall>w\<in>set (raws @ [raw]). accounted U B x (bs_products s) (bs_rejections s @ [r]) w"
    using assms(1) a accounted_in_more [where qs = "[]"] unfolding batch_inv_def by auto
  with assms(1,3) show ?thesis unfolding batch_inv_def by (simp add: state_indexes_def)
qed

lemma keep_inv:
  assumes inv: "batch_inv U B x raws s" and out: "normalize_candidate U B x raw = Inr (Kept p)"
    and n: "raw_index raw = length raws" and new: "duplicate_of s p = None"
  shows "batch_inv U B x (raws @ [raw]) (s\<lparr>bs_products := bs_products s @ [p],
    bs_asins := set_default (pc_asin p) (raw_index raw) (bs_asins s),
    bs_urls := set_default (pc_url p) (raw_index raw) (bs_urls s)\<rparr>)"
proof -
  have p: "kept_from x raw p" using candidate_outcome [OF out] by simp
  have asin: "pc_asin p = Some a \<Longrightarrow> map_of (bs_asins s) a = None" for a
    using new by (auto simp: duplicate_of_def)
  have url: "pc_asin p = None \<Longrightarrow> pc_url p = Some u \<Longrightarrow> map_of (bs_urls s) u = None" for u
    using new by (auto simp: duplicate_of_def)
  have idx: "pv_index (pc_provenance p) = length raws" using p n by (simp add: kept_from_def)
  have seen: "pc_asin q \<noteq> Some a" if "map_of (bs_asins s) a = None" "q \<in> set (bs_products s)" for a q
  proof -
    have "\<forall>a. map_of (bs_asins s) a = None \<longleftrightarrow> Some a \<notin> pc_asin ` set (bs_products s)"
      using inv unfolding batch_inv_def by blast
    with that show ?thesis by (metis imageI)
  qed
  have met: "pc_url q \<noteq> Some u" if "map_of (bs_urls s) u = None" "q \<in> set (bs_products s)" for u q
  proof -
    have "\<forall>u. map_of (bs_urls s) u = None \<longleftrightarrow> Some u \<notin> pc_url ` set (bs_products s)"
      using inv unfolding batch_inv_def by blast
    with that show ?thesis by (metis imageI)
  qed
  have offers: "\<forall>q\<in>set (bs_products s). distinct_offer q p"
  proof (cases "pc_asin p")
    case (Some a)
    then show ?thesis using seen [OF asin [OF Some]] by (simp add: distinct_offer_def)
  next
    case no_asin: None
    show ?thesis
    proof (cases "pc_url p")
      case (Some u)
      then show ?thesis using met [OF url [OF no_asin Some]] by (simp add: distinct_offer_def no_asin)
    qed (simp add: distinct_offer_def no_asin)
  qed
  have less: "\<forall>q\<in>set (bs_products s). pv_index (pc_provenance q) < length raws" using batch_inv_bound [OF inv] by blast
  let ?s = "s\<lparr>bs_products := bs_products s @ [p],
    bs_asins := set_default (pc_asin p) (raw_index raw) (bs_asins s),
    bs_urls := set_default (pc_url p) (raw_index raw) (bs_urls s)\<rparr>"
  from inv have m: "mset (state_indexes s) = mset [0..<length raws]" and k: "\<forall>p\<in>set (bs_products s). \<exists>raw. kept_from x raw p"
    and o: "sorted_wrt (<) (map (pv_index \<circ> pc_provenance) (bs_products s))" and d: "sorted_wrt distinct_offer (bs_products s)"
    and r: "\<forall>raw\<in>set raws. accounted U B x (bs_products s) (bs_rejections s) raw"
    and an: "\<forall>a. map_of (bs_asins s) a = None \<longleftrightarrow> Some a \<notin> pc_asin ` set (bs_products s)"
    and un: "\<forall>u. map_of (bs_urls s) u = None \<longleftrightarrow> Some u \<notin> pc_url ` set (bs_products s)"
    and as: "\<forall>a j. map_of (bs_asins s) a = Some j \<longrightarrow>
       (\<exists>p\<in>set (bs_products s). pc_asin p = Some a \<and> pv_index (pc_provenance p) = j)"
    and us: "\<forall>u j. map_of (bs_urls s) u = Some j \<longrightarrow>
       (\<exists>p\<in>set (bs_products s). pc_url p = Some u \<and> pv_index (pc_provenance p) = j)"
    unfolding batch_inv_def by blast+
  have "mset (state_indexes ?s) = mset [0..<length (raws @ [raw])]" using m by (simp add: state_indexes_def idx)
  moreover have "\<forall>p\<in>set (bs_products ?s). \<exists>raw. kept_from x raw p" using k p by auto
  moreover have "sorted_wrt (<) (map (pv_index \<circ> pc_provenance) (bs_products ?s))"
    using o less by (simp add: sorted_wrt_snoc idx)
  moreover have "sorted_wrt distinct_offer (bs_products ?s)" using d offers by (simp add: sorted_wrt_snoc)
  moreover have "\<forall>raw'\<in>set (raws @ [raw]). accounted U B x (bs_products ?s) (bs_rejections ?s) raw'"
  proof -
    have "accounted U B x (bs_products s @ [p]) (bs_rejections s) raw" using out by (auto simp: accounted_def)
    with r accounted_in_more [where ss = "[]"] show ?thesis by auto
  qed
  moreover have "\<forall>a. map_of (bs_asins ?s) a = None \<longleftrightarrow> Some a \<notin> pc_asin ` set (bs_products ?s)"
    using an by (auto simp: map_of_set_default)
  moreover have "\<forall>u. map_of (bs_urls ?s) u = None \<longleftrightarrow> Some u \<notin> pc_url ` set (bs_products ?s)"
    using un by (auto simp: map_of_set_default)
  moreover have "\<forall>a j. map_of (bs_asins ?s) a = Some j \<longrightarrow>
       (\<exists>p\<in>set (bs_products ?s). pc_asin p = Some a \<and> pv_index (pc_provenance p) = j)"
    using as by (auto simp: map_of_set_default idx n split: if_splits)
  moreover have "\<forall>u j. map_of (bs_urls ?s) u = Some j \<longrightarrow>
       (\<exists>p\<in>set (bs_products ?s). pc_url p = Some u \<and> pv_index (pc_provenance p) = j)"
    using us by (auto simp: map_of_set_default idx n split: if_splits)
  ultimately show ?thesis unfolding batch_inv_def by blast
qed

lemma step_inv:
  assumes inv: "batch_inv U B x raws s" and out: "normalize_candidate U B x raw = Inr out"
    and n: "raw_index raw = length raws" and step: "batch_step raw out s = Inr s'"
  shows "batch_inv U B x (raws @ [raw]) s'"
proof (cases out)
  case (Rejected r)
  with candidate_outcome [OF out] n step have s': "s' = s\<lparr>bs_rejections := bs_rejections s @ [r]\<rparr>"
    "rej_index r = length raws" by (simp_all add: batch_step_def)
  have "accounted U B x (bs_products s) (bs_rejections s @ [r]) raw"
    using out Rejected by (auto simp: accounted_def)
  with s' reject_inv [OF inv n] show ?thesis by simp
next
  case (Kept p)
  show ?thesis
  proof (cases "duplicate_of s p")
    case None
    with step Kept keep_inv [OF inv _ n None] out show ?thesis by (auto simp: batch_step_def)
  next
    case (Some d)
    obtain reason j where d: "d = (reason, j)" by (cases d)
    from step Kept Some obtain r where r: "new_rejection (length raws) reason (Some j) = Inr r"
      and s': "s' = s\<lparr>bs_rejections := bs_rejections s @ [r]\<rparr>" by (auto simp: batch_step_def d n)
    note r = new_rejection_eq [OF r]
    from Some d inv obtain q where q: "q \<in> set (bs_products s)" "pv_index (pc_provenance q) = j" "same_offer q p reason"
      unfolding batch_inv_def
      by (auto simp: duplicate_of_def same_offer_def split: option.splits; metis option.distinct(1))
    with batch_inv_bound [OF inv q(1)] out Kept n
    have "accounted U B x (bs_products s) (bs_rejections s @ [r]) raw"
      unfolding accounted_def r by auto
    then show ?thesis unfolding s' by (intro reject_inv [OF inv n]) (simp_all add: r)
  qed
qed

lemma loop_inv:
  assumes "batch_inv U B x done_raws s" and "map raw_index raws = [length done_raws..<length done_raws + length raws]"
    and "batch_loop U B x s raws = Inr s'"
  shows "batch_inv U B x (done_raws @ raws) s'"
  using assms
proof (induction raws arbitrary: done_raws s)
  case (Cons raw raws)
  from Cons.prems(2) have idx: "raw_index raw = length done_raws"
    "map raw_index raws = [length (done_raws @ [raw])..<length (done_raws @ [raw]) + length raws]"
    by (simp_all add: upt_conv_Cons del: upt_Suc)
  from Cons.prems(3) obtain out s1 where out: "normalize_candidate U B x raw = Inr out"
    and s1: "batch_step raw out s = Inr s1" and rest: "batch_loop U B x s1 raws = Inr s'" by auto
  from Cons.IH [OF step_inv [OF Cons.prems(1) out idx(1) s1] idx(2) rest] show ?case by simp
qed simp

lemma raw_candidates_indexes: "raw_candidates data m = Inr raws \<Longrightarrow> map raw_index raws = [0..<length raws]"
proof -
  have "map raw_index (map (\<lambda>(i, g, v). \<lparr>raw_index = i, raw_query = g, raw_value = v\<rparr>) (enumerate k ms)) =
      [k..<k + length ms]" for k ms
    by (induction ms arbitrary: k) (simp_all add: upt_conv_Cons case_prod_unfold del: upt_Suc)
  from this [of 0] show "raw_candidates data m = Inr raws \<Longrightarrow> map raw_index raws = [0..<length raws]"
    by (auto simp: raw_candidates_def Let_def split: if_splits)
qed

text \<open>A batch that normalisation returned, with the response it was made of.\<close>

lemma normalization_parts:
  assumes "normalize_outscraper_products U B H response r request_id rate = Inr b"
  obtains item data raws s where "response = PDict item" and "get_item item ''data'' = PList data"
    and "raw_candidates data (request_maximum r) = Inr raws"
    and "batch_inv U B \<lparr>nc_request = r, nc_digest = pb_request b, nc_request_id = request_id, nc_rate = rate\<rparr> raws s"
    and "pb_products b = bs_products s" and "pb_rejections b = bs_rejections s"
    and "validate_batch b = Inr ()" and "pb_plan b = request_plan r" and "request_sha256 U B H r = Inr (pb_request b)"
proof -
  from assms obtain item data raws d s where parts: "response = PDict item" "get_item item ''data'' = PList data"
    "raw_candidates data (request_maximum r) = Inr raws" "request_sha256 U B H r = Inr d"
    "batch_loop U B \<lparr>nc_request = r, nc_digest = d, nc_request_id = request_id, nc_rate = rate\<rparr> batch_start raws = Inr s"
    and b: "pb_products b = bs_products s" "pb_rejections b = bs_rejections s" "pb_request b = d" "pb_plan b = request_plan r"
      "validate_batch b = Inr ()"
    unfolding normalize_outscraper_products_def Let_def
    by (auto split: pyvalue.splits if_splits)
  from loop_inv [OF batch_inv_start [of U B] _ parts(5)] raw_candidates_indexes [OF parts(3)]
  have "batch_inv U B \<lparr>nc_request = r, nc_digest = d, nc_request_id = request_id, nc_rate = rate\<rparr> raws s" by simp
  with parts b that show thesis by blast
qed

end
