(* ===== verification/Search_Samples.thy ===== *)
theory Search_Samples
  imports Product_Ranking_Props Product_Normalization_Props Default_Registry "HOL-Library.Multiset"
begin

text \<open>
  Concrete values the witnesses of the search theorems evaluate: an intent for a pen, its query plan
  and a batch of two observed products, a request and the response normalised into a batch, over text functions that treat ASCII text plainly.
\<close>

definition search_hash :: "string \<Rightarrow> string" where
  "search_hash s = replicate 64 CHR ''a''"

definition sample_digest_text :: string where
  "sample_digest_text = replicate 64 CHR ''a''"

definition plain_tokenizer :: tokenizer_library where
  "plain_tokenizer = text_library.extend plain_library \<lparr>sudachi = (\<lambda>s. [])\<rparr>"

definition pen_price :: price_condition where
  "pen_price = \<lparr>price_mode = Price_exact, price_target = Some 1000, price_min = None, price_max = None,
     price_source = Price_explicit, price_confidence = None\<rparr>"

definition pen_provenance :: intent_provenance where
  "pen_provenance = \<lparr>prov_source = sample_digest_text, prov_prompt = sample_digest_text,
     prov_schema = sample_digest_text, prov_response = sample_digest_text\<rparr>"

definition pen_intent :: normalized_intent where
  "pen_intent = \<lparr>product_name_ja = None, product_name_en = Some ''pen'', category_ja = None,
     category_en = None, required_terms_ja = [], required_terms_en = [''red''], preferred_terms_ja = [],
     preferred_terms_en = [], negative_terms_ja = [], negative_terms_en = [''toy''], color_ja = None,
     color_en = None, features_ja = [], features_en = [], intent_brand = None, model_number = None,
     intent_price = pen_price, typed_conditions = [], ambiguities = [], provenance = pen_provenance\<rparr>"

definition pen_plan :: search_query_plan where
  "pen_plan = \<lparr>qp_intent = sample_digest_text,
     qp_queries = [\<lparr>query_language = En, query_value = ''pen red''\<rparr>]\<rparr>"

definition pen_product :: "nat \<Rightarrow> string \<Rightarrow> string option \<Rightarrow> int option \<Rightarrow> product_candidate" where
  "pen_product index title color price =
     \<lparr>pc_asin = None, pc_title = title, pc_store = None, pc_title_en = None, pc_title_en_status = None,
      pc_details_en = None, pc_details_en_status = None, pc_description = None,
      pc_attributes = \<lparr>oa_brand = None, oa_categories = [], oa_color = color, oa_material = None,
        oa_features = [], oa_unknown = unknown_attributes None [] color None []\<rparr>,
      pc_price = price, pc_list_price = None, pc_currency = Some JPY, pc_rating = None,
      pc_reviews = None, pc_prime = None, pc_availability = None, pc_shipping = None, pc_url = None,
      pc_images = [], pc_truncated = [], pc_discarded = [],
      pc_provenance = \<lparr>pv_provider = Outscraper_provider, pv_request = sample_digest_text,
        pv_plan = sample_digest_text, pv_request_id = ''r1'', pv_query_index = 0, pv_language = En,
        pv_index = index\<rparr>\<rparr>"

definition toy_pen :: product_candidate where
  "toy_pen = pen_product 0 ''toy pen'' (Some ''red'') (Some 2000)"

definition red_pen :: product_candidate where
  "red_pen = pen_product 1 ''pen'' (Some ''red'') (Some 1000)"

definition pen_batch :: "product_candidate list \<Rightarrow> product_batch" where
  "pen_batch ps = \<lparr>pb_provider = Outscraper_provider, pb_request = sample_digest_text,
     pb_plan = sample_digest_text, pb_request_id = ''r1'', pb_profile = sample_digest_text,
     pb_maximum = 24, pb_products = ps, pb_rejections = []\<rparr>"

lemma text_functions_plain [simp]: "text_functions plain_tokenizer = plain_library"
  by (simp add: text_functions_def plain_tokenizer_def text_library.defs plain_library_def)

text \<open>Sorting the members of an object leaves the length of its text.\<close>

lemma length_join_comma: "length (join_comma xs) = sum_list (map length xs) + (length xs - 1)"
  by (induction xs rule: join_comma.induct) simp_all

lemma length_plain_sorted: "length (plain (sort_keys j)) = length (plain j)"
proof (induction j)
  case (JArr xs)
  then show ?case by (simp add: length_join_comma comp_def cong: map_cong)
next
  case (JObj kvs)
  let ?len = "\<lambda>(k, v). length (json_string k) + (1 + length (plain v))"
  let ?member = "\<lambda>(k, v). json_string k @ CHR '':'' # plain v"
  have len: "map length (map ?member ms) = map ?len ms" for ms by auto
  have "mset (map ?len (sort_key fst (map (\<lambda>(k, v). (k, sort_keys v)) kvs))) =
      mset (map ?len (map (\<lambda>(k, v). (k, sort_keys v)) kvs))"
    by (simp del: map_map)
  then have "sum_list (map ?len (sort_key fst (map (\<lambda>(k, v). (k, sort_keys v)) kvs))) =
      sum_list (map ?len (map (\<lambda>(k, v). (k, sort_keys v)) kvs))"
    by (metis sum_mset_sum_list)
  also have "map ?len (map (\<lambda>(k, v). (k, sort_keys v)) kvs) = map ?len kvs"
    using JObj by fastforce
  finally show ?case unfolding sort_keys.simps plain.simps
    by (simp only: length_append length_Cons length_join_comma len length_map length_sort)
qed simp_all

lemma length_dumps: "length (dumps j) = length (plain j)"
  by (simp add: dumps_def length_plain_sorted)

text \<open>A bound that needs the lengths of the strings only: an escape is at most six characters.\<close>

fun json_size :: "json \<Rightarrow> nat" where
  "json_size JNull = 4"
| "json_size (JBool b) = 5"
| "json_size (JInt i) = length (dec_int i)"
| "json_size (JReal x) = length (real_string x)"
| "json_size (JStr s) = 6 * length s + 2"
| "json_size (JArr xs) = sum_list (map json_size xs) + length xs + 2"
| "json_size (JObj kvs) = sum_list (map (\<lambda>(k, v). 6 * length k + 3 + json_size v) kvs) + length kvs + 2"

lemma length_escape: "length (escape_char c) \<le> 6"
  by (simp add: escape_char_def Let_def)

lemma length_json_string: "length (json_string s) \<le> 6 * length s + 2"
proof -
  have "length (concat (map escape_char s)) \<le> 6 * length s"
  proof (induction s)
    case (Cons c s)
    with length_escape [of c] show ?case by simp
  qed simp
  then show ?thesis by (simp add: json_string_def)
qed

lemma length_plain_le: "length (plain j) \<le> json_size j"
proof (induction j)
  case (JArr xs)
  then have "sum_list (map (\<lambda>x. length (plain x)) xs) \<le> sum_list (map json_size xs)"
    by (intro sum_list_mono) simp
  then show ?case by (simp add: length_join_comma comp_def)
next
  case (JObj kvs)
  have "sum_list (map (\<lambda>(k, v). length (json_string k) + (1 + length (plain v))) kvs) \<le>
      sum_list (map (\<lambda>(k, v). 6 * length k + 3 + json_size v) kvs)"
  proof (rule sum_list_mono)
    fix m assume "m \<in> set kvs"
    moreover obtain k v where m: "m = (k, v)" by (cases m)
    ultimately have "length (plain v) \<le> json_size v" using JObj by fastforce
    with length_json_string [of k] show "(case m of (k, v) \<Rightarrow> length (json_string k) + (1 + length (plain v))) \<le>
      (case m of (k, v) \<Rightarrow> 6 * length k + 3 + json_size v)" by (simp add: m)
  qed
  moreover have m: "map length (map (\<lambda>(k, v). json_string k @ CHR '':'' # plain v) kvs) =
      map (\<lambda>(k, v). length (json_string k) + (1 + length (plain v))) kvs" by auto
  ultimately show ?case unfolding plain.simps json_size.simps length_append length_Cons length_join_comma m
    by simp
qed (use length_json_string in \<open>simp_all\<close>)

lemma pen_intent_valid: "validate_normalized_intent pen_intent = Inr ()"
proof -
  have "draft_fields pen_intent" "validate_price (intent_price pen_intent) = Inr ()"
    "validate_provenance (provenance pen_intent) = Inr ()" by code_simp+
  moreover have "json_size (search_intent_json pen_intent) \<le> max_intent_json_bytes"
    by (simp add: search_intent_json_def draft_members_def pen_intent_def json_opt_def json_texts_def
        pen_price_def price_json_def pen_provenance_def provenance_json_def sample_digest_text_def
        max_intent_json_bytes_def dec_nat.simps dec_int_def)
  then have "length (dumps (search_intent_json pen_intent)) \<le> max_intent_json_bytes"
    unfolding length_dumps by (rule order_trans [OF length_plain_le])
  ultimately show ?thesis by (simp add: validate_normalized_intent_def validate_size_def)
qed

lemma pen_plan_valid: "validate_search_plan plain_library pen_plan = Inr pen_plan"
  by code_simp

lemma pen_batch_valid: "validate_batch (pen_batch [toy_pen, red_pen]) = Inr ()"
  by code_simp

lemma sample_digest_ok [simp]: "is_digest sample_digest_text" "is_digest (search_hash s)"
  by (simp_all add: sample_digest_text_def search_hash_def hex_chars_def)

lemma hash_digests: "\<forall>s. is_digest (search_hash s)"
  by simp

lemma search_hash_digest [simp]: "canonical_sha256 search_hash d v = sample_digest_text"
  by (simp add: canonical_sha256_def search_hash_def sample_digest_text_def)

lemma pen_bindings:
  "search_intent_sha256 search_hash pen_intent = Inr (qp_intent pen_plan)"
  "search_query_plan_sha256 (text_functions plain_tokenizer) search_hash pen_plan =
    Inr (pb_plan (pen_batch ps))"
  "validate_search_plan (text_functions plain_tokenizer) pen_plan = Inr pen_plan"
  by (simp_all add: search_intent_sha256_def pen_intent_valid search_query_plan_sha256_def pen_plan_valid)
    (simp_all add: pen_plan_def pen_batch_def)

text \<open>The scores of the two products.\<close>

lemma pen_tokens_ja: "safe_tokens plain_tokenizer Ja s = []"
  by (auto simp: safe_tokens_def tokenize_search_text_def tokenize_japanese_def plain_tokenizer_def
      text_library.defs token_start_def bind_def split: sum.splits)

lemmas plain_text_defs = plain_library_def has_newline_def any_control_def char_codes_def continues_def
  code_of_def space_controls_def has_url_def url_here_def scheme_letter_def scheme_char_def word_char_def
  lower_chars_def digit_chars_def text_identity_def strip_text_def is_space_def space_codes_def

lemma pen_tokens:
  "safe_tokens plain_tokenizer En ''toy pen'' = [''toy'', ''pen'']"
  "safe_tokens plain_tokenizer En ''pen'' = [''pen'']" "safe_tokens plain_tokenizer En ''red'' = [''red'']"
  "safe_tokens plain_tokenizer En ''toy'' = [''toy'']"
  by (simp_all add: safe_tokens_def tokenize_search_text_def normalized_input_def plain_text_defs Let_def)

lemmas pen_defs = pen_intent_def toy_pen_def red_pen_def pen_product_def optional_values_def List.map_filter_simps
  tokens_for_values_def pen_tokens pen_tokens_ja float_ratio_def

lemma pen_titles:
  "title_score plain_tokenizer pen_intent toy_pen = (scored 1, Some En)"
  "title_score plain_tokenizer pen_intent red_pen = (scored 1, Some En)"
  by (simp_all add: title_score_def title_scores_def title_targets_def pen_defs)

lemma pen_attribute_terms:
  "attribute_terms plain_tokenizer pen_intent Ja = []"
  "attribute_terms plain_tokenizer pen_intent En = [\<lparr>wt_value = ''red'', wt_tokens = [''red''], wt_weight = 3\<rparr>]"
  by (simp_all add: attribute_terms_def attribute_term_list_def pen_defs required_term_weight_def)

lemma pen_attributes:
  "attribute_score plain_tokenizer pen_intent toy_pen = (scored 1, Some En, [''red''], [])"
  "attribute_score plain_tokenizer pen_intent red_pen = (scored 1, Some En, [''red''], [])"
  by (simp_all add: attribute_score_def language_scores_def pen_attribute_terms observed_attribute_values_def
      language_attribute_score_def term_matches_def Let_def) (simp_all add: pen_defs)

lemma pen_negatives:
  "length (negative_matches plain_tokenizer pen_intent red_pen) \<le> length (negative_matches plain_tokenizer pen_intent toy_pen)"
  by (simp add: negative_matches_def Let_def observed_attribute_values_def pen_defs)

lemma pen_prices:
  "price_score (intent_price pen_intent) (pc_price toy_pen) = Inr (scored (int_ratio 1000 2000))"
  "price_score (intent_price pen_intent) (pc_price red_pen) = Inr (scored 1)"
  by (simp_all add: price_score_def pen_price_def pen_intent_def toy_pen_def red_pen_def pen_product_def
      required_bound_def int_ratio_def)

lemma pen_reviews: "review_quality_score L toy_pen = missing Product_data_missing"
  "review_quality_score L red_pen = missing Product_data_missing"
  by (simp_all add: review_quality_score_def toy_pen_def red_pen_def pen_product_def)

lemma pen_components:
  "score_product plain_tokenizer L pen_intent toy_pen = Inr b \<Longrightarrow> map sc_score (breakdown_components b) =
     [Some 1, Some 1, Some (rounded_score (scored (int_ratio 1000 2000))), None, None]"
  "score_product plain_tokenizer L pen_intent red_pen = Inr b \<Longrightarrow> map sc_score (breakdown_components b) =
     [Some 1, Some 1, Some 1, None, None]"
  by (erule score_product_parts; simp add: raw_components_def pen_titles pen_attributes pen_prices pen_reviews
      base_weights_def component_score is_available_def rounded_score_def scored_def missing_def image_disabled_def
      clip_unit_def)+

section \<open>A response\<close>

definition pen_request :: product_request where
  "pen_request = Playwright_request \<lparr>pr_plan = sample_digest_text,
     pr_queries = [\<lparr>query_language = En, query_value = ''pen red''\<rparr>], pr_postal = ''1000001'',
     pr_maximum = 24, pr_titles = True, pr_details = False\<rparr>"

definition pen_item :: item where
  "pen_item = [(''name'', PText ''pen''), (''asin'', PText ''B000000001'')]"

definition pen_response :: pyvalue where
  "pen_response = PDict [(''data'', PList [PList [PDict pen_item, PDict pen_item], PNone])]"

definition pen_context :: normalization_context where
  "pen_context = \<lparr>nc_request = pen_request, nc_digest = sample_digest_text, nc_request_id = ''r1'', nc_rate = 150\<rparr>"

definition pen_observed :: "nat \<Rightarrow> product_candidate" where
  "pen_observed n =
     \<lparr>pc_asin = Some ''B000000001'', pc_title = ''pen'', pc_store = None, pc_title_en = None,
      pc_title_en_status = None, pc_details_en = None, pc_details_en_status = None, pc_description = None,
      pc_attributes = \<lparr>oa_brand = None, oa_categories = [], oa_color = None, oa_material = None,
        oa_features = [], oa_unknown = unknown_attributes None [] None None []\<rparr>,
      pc_price = None, pc_list_price = None, pc_currency = None, pc_rating = None,
      pc_reviews = None, pc_prime = None, pc_availability = None, pc_shipping = None, pc_url = None,
      pc_images = [], pc_truncated = [], pc_discarded = [],
      pc_provenance = \<lparr>pv_provider = Playwright_provider, pv_request = sample_digest_text,
        pv_plan = sample_digest_text, pv_request_id = ''r1'', pv_query_index = 0, pv_language = En,
        pv_index = n\<rparr>\<rparr>"

lemma pen_request_valid: "validate_request plain_library B pen_request = Inr ()"
proof -
  have "validate_playwright_request plain_library (case pen_request of Playwright_request q \<Rightarrow> q) = Inr ()" by code_simp
  then show ?thesis by (simp add: pen_request_def)
qed

lemma pen_observed_valid: "n < 48 \<Longrightarrow> validate_product (pen_observed n) = Inr ()"
  by (simp add: validate_product_def product_fields_def pen_observed_def validate_attributes_def
      validate_product_provenance_def is_asin_def upper_chars_def digit_chars_def chars_in_def text_between_def
      text_length_def code_of_def max_product_title_def provider_request_id_def max_provider_request_id_def
      sample_digest_text_def hex_chars_def max_product_images_def unknown_attributes_def
      max_product_categories_def max_product_features_def)

lemma pen_item_values: "get_item pen_item ''name'' = PText ''pen''" "get_item pen_item ''asin'' = PText ''B000000001''"
  "k \<notin> {''name'', ''asin''} \<Longrightarrow> get_item pen_item k = PNone"
  by (simp_all add: get_item_def dict_get_def pen_item_def)

lemma absent_text: "get_item d k = PNone \<Longrightarrow> text_item U d k m name n = (None, n)"
  by (simp add: text_item_def normalize_text_field_def)

lemma pen_title: "normalize_text_field plain_library max_product_title ''title'' (PText ''pen'') n = (Some ''pen'', n)"
  by (simp add: normalize_text_field_def max_raw_text_def text_length_def plain_text_defs sanitized_def Let_def
      max_product_title_def)

lemma pen_asin: "normalize_asin plain_library (PText ''B000000001'') = Some ''B000000001''"
  by (simp add: normalize_asin_def max_raw_identifier_def text_length_def plain_text_defs is_asin_def
      upper_chars_def chars_in_def)

lemma pen_candidate:
  assumes "n < 48"
  shows "normalize_candidate plain_library B pen_context \<lparr>raw_index = n, raw_query = Some 0, raw_value = PDict pen_item\<rparr> =
    Inr (Kept (pen_observed n))"
proof -
  let ?raw = "\<lparr>raw_index = n, raw_query = Some 0, raw_value = PDict pen_item\<rparr>"
  let ?n = "\<lparr>fn_truncated = [], fn_discarded = []\<rparr>"
  have q: "query_index_of ?raw pen_item (nc_request pen_context) = Inr 0"
    by (simp add: query_index_of_def pen_item_values pen_context_def pen_request_def)
  have t: "read_texts plain_library pen_item ?n = (\<lparr>it_brand = None, it_store = None, it_description = None,
      it_color = None, it_material = None, it_categories = [], it_features = []\<rparr>, ?n)"
    by (simp add: read_texts_def absent_text pen_item_values normalize_string_collection_def)
  have c: "detect_currency plain_library pen_item = (None, False)"
    by (simp add: detect_currency_def currency_marks_def pen_item_values)
  have v: "build_candidate plain_library B pen_context ?raw pen_item 0 ''pen'' None (None, None)
      (Some ''B000000001'') (None, None) \<lparr>it_brand = None, it_store = None, it_description = None,
      it_color = None, it_material = None, it_categories = [], it_features = []\<rparr> ?n = pen_observed n"
    by (simp add: build_candidate_def read_numbers_def pen_item_values price_to_jpy_def
        bounded_float_def non_negative_integer_def optional_bool_def as_decimal_def note_missing_def absent_text
        product_url_def image_urls_def image_keys_def pen_observed_def pen_context_def pen_request_def
        request_provider_def)
  show ?thesis
    unfolding normalize_candidate_def Let_def
    by (simp add: q pen_item_values pen_title english_title_def availability_status_def pen_asin note_missing_def
        english_details_of_def t c v pen_observed_valid [OF assms])
qed

definition pen_normalized :: product_batch where
  "pen_normalized = \<lparr>pb_provider = Playwright_provider, pb_request = sample_digest_text,
     pb_plan = sample_digest_text, pb_request_id = ''r1'', pb_profile = sample_digest_text, pb_maximum = 24,
     pb_products = [pen_observed 0],
     pb_rejections = [\<lparr>rej_index = 1, rej_reason = Duplicate_asin, rej_duplicate = Some 0\<rparr>,
       \<lparr>rej_index = 2, rej_reason = Not_an_object, rej_duplicate = None\<rparr>]\<rparr>"

lemma pen_loop:
  "batch_loop plain_library B pen_context batch_start
     [\<lparr>raw_index = 0, raw_query = Some 0, raw_value = PDict pen_item\<rparr>,
      \<lparr>raw_index = 1, raw_query = Some 0, raw_value = PDict pen_item\<rparr>,
      \<lparr>raw_index = 2, raw_query = None, raw_value = PNone\<rparr>] =
   Inr \<lparr>bs_products = [pen_observed 0], bs_rejections = pb_rejections pen_normalized,
     bs_asins = [(''B000000001'', 0)], bs_urls = []\<rparr>"
proof -
  have "normalize_candidate plain_library B pen_context \<lparr>raw_index = 2, raw_query = None, raw_value = PNone\<rparr> =
      Inr (Rejected \<lparr>rej_index = 2, rej_reason = Not_an_object, rej_duplicate = None\<rparr>)"
    by (simp add: normalize_candidate_def new_rejection_def validate_rejection_def is_duplicate_def)
  moreover have "pc_asin (pen_observed n) = Some ''B000000001''" "pc_url (pen_observed n) = None" for n
    by (simp_all add: pen_observed_def)
  ultimately show ?thesis
    by (simp add: pen_candidate batch_step_def batch_start_def duplicate_of_def set_default_def new_rejection_def
        validate_rejection_def is_duplicate_def pen_normalized_def)
qed

lemma pen_normalized_valid: "validate_batch pen_normalized = Inr ()"
  by (simp add: validate_batch_def batch_fields_def pen_normalized_def pen_observed_valid validate_rejection_def
      is_duplicate_def response_indexes_def bound_to_batch_def provider_request_id_def max_provider_request_id_def
      code_of_def sample_digest_text_def hex_chars_def) (simp add: pen_observed_def sample_digest_text_def)

lemma pen_normalization:
  "normalize_outscraper_products plain_library B search_hash pen_response pen_request ''r1'' 150 = Inr pen_normalized"
proof -
  have raws: "raw_candidates [PList [PDict pen_item, PDict pen_item], PNone] 24 =
     Inr [\<lparr>raw_index = 0, raw_query = Some 0, raw_value = PDict pen_item\<rparr>,
      \<lparr>raw_index = 1, raw_query = Some 0, raw_value = PDict pen_item\<rparr>,
      \<lparr>raw_index = 2, raw_query = None, raw_value = PNone\<rparr>]"
    by (simp add: raw_candidates_def response_members_def group_members_def)
  have digest: "request_sha256 plain_library B search_hash pen_request = Inr sample_digest_text"
    using pen_request_valid [of B] by (simp add: pen_request_def canonical_sha256_def search_hash_def sample_digest_text_def)
  have profile: "product_normalization_profile_sha256 search_hash 150 = Inr sample_digest_text"
    by (simp add: product_normalization_profile_sha256_def valid_rate_def canonical_sha256_def search_hash_def sample_digest_text_def)
  have id: "valid_rate 150" "provider_request_id ''r1''"
    by (simp_all add: valid_rate_def provider_request_id_def max_provider_request_id_def code_of_def)
  have sel: "request_maximum pen_request = 24" "request_plan pen_request = sample_digest_text"
    "request_provider pen_request ''r1'' = Playwright_provider"
    by (simp_all add: pen_request_def request_provider_def)
  have b: "\<lparr>pb_provider = Playwright_provider, pb_request = sample_digest_text, pb_plan = sample_digest_text,
     pb_request_id = ''r1'', pb_profile = sample_digest_text, pb_maximum = 24, pb_products = [pen_observed 0],
     pb_rejections = pb_rejections pen_normalized\<rparr> = pen_normalized" by (simp add: pen_normalized_def)
  have data: "get_item [(''data'', PList [PList [PDict pen_item, PDict pen_item], PNone])] ''data'' =
    PList [PList [PDict pen_item, PDict pen_item], PNone]" by (simp add: get_item_def dict_get_def)
  show ?thesis
    unfolding normalize_outscraper_products_def pen_response_def pyvalue.case data Let_def sel raws digest bind_Inr
      pen_context_def [symmetric] pen_loop
    by (simp add: id pen_request_valid profile b pen_normalized_valid)
qed

end
