(* ===== verification/Ranking_Theorems.thy ===== *)
theory Ranking_Theorems
  imports Search_Samples
begin

text \<open>
  What the ranking of a batch of observed products guarantees.
\<close>

text \<open>C29. Ranking succeeds on every valid intent, plan and batch bound to each other, whatever the
  tokenizer, the Unicode tables and the logarithm do, and returns exactly the observed products, each
  with the breakdown scoring gives it, ranked from 1 without gaps in strict score order: a greater
  total first, the earlier response on a tie. Every total lies between 0 and 1.\<close>

theorem ranking_succeeds_in_score_order:
  assumes "validate_normalized_intent i = Inr ()"
    and "validate_search_plan (text_functions T) plan = Inr plan'"
    and "validate_batch batch = Inr ()"
    and "search_intent_sha256 H i = Inr (qp_intent plan')"
    and "search_query_plan_sha256 (text_functions T) H plan' = Inr (pb_plan batch)"
    and "\<forall>s. is_digest (H s)"
  shows "\<exists>r. rank_product_batch T L H i plan batch = Inr r \<and>
    mset (map rp_product (rb_products r)) = mset (pb_products batch) \<and>
    map rp_rank (rb_products r) = [1..<Suc (length (pb_products batch))] \<and>
    sorted_wrt ranked_before (rb_products r) \<and>
    (\<forall>x\<in>set (rb_products r). score_product T L i (rp_product x) = Inr (rp_breakdown x) \<and>
      0 \<le> sb_total (rp_breakdown x) \<and> sb_total (rp_breakdown x) \<le> 1)"
proof -
  note i = validate_normalized_intent_parts [OF assms(1)]
  obtain xs where xs: "score_all T L i (pb_products batch) = Inr xs" "map fst xs = pb_products batch"
    "\<forall>(p, b)\<in>set xs. score_product T L i p = Inr b \<and> validate_breakdown (text_functions T) b = Inr ()"
    using score_all_ok [OF i] .
  have good: "\<forall>(p, b)\<in>set xs. validate_breakdown (text_functions T) b = Inr ()" using xs(3) by blast
  let ?rs = "with_ranks (sort_key rank_key xs)"
  have "mset (map rp_product ?rs) = mset (pb_products batch)"
    unfolding with_ranks_sel xs(2) [symmetric] by simp
  moreover have "map rp_rank ?rs = [1..<Suc (length (pb_products batch))]"
    unfolding with_ranks_sel xs(2) [symmetric] by (simp del: upt_Suc)
  moreover have "sorted_wrt ranked_before ?rs"
    by (rule ranked_sorted) (simp add: xs(2) validate_batch_parts(2) [OF assms(3)])
  moreover have "score_product T L i (rp_product x) = Inr (rp_breakdown x)"
    "0 \<le> sb_total (rp_breakdown x)" "sb_total (rp_breakdown x) \<le> 1" if "x \<in> set ?rs" for x
    using xs(3) with_ranks_pair [OF that] breakdown_total(1) by (auto simp: unit_value_def)
  ultimately show ?thesis
    unfolding ranking_result [OF assms xs(1) good]
    by (intro exI [of _ "\<lparr>rb_profile = ranking_profile_digest H, rb_intent = qp_intent plan', rb_plan = pb_plan batch,
     rb_batch = canonical_sha256 H batch_domain (batch_json batch), rb_products = ?rs\<rparr>"] conjI ballI refl)
      (simp_all only: ranked_batch.select_convs)
qed

lemma ranking_succeeds_in_score_order_witness:
  "\<exists>r. rank_product_batch plain_tokenizer (\<lambda>_. 1) search_hash pen_intent pen_plan (pen_batch [toy_pen, red_pen]) = Inr r
     \<and> map rp_rank (rb_products r) = [1, 2]"
  using ranking_succeeds_in_score_order [OF pen_intent_valid pen_bindings(3) pen_batch_valid pen_bindings(1,2)
      hash_digests, of "\<lambda>_. 1"]
  by (elim exE conjE) (auto simp: pen_batch_def)

text \<open>C30. The ranking does not depend on the order in which the products stand in the batch: a batch with
  the same products in another order is ranked to the same list.\<close>

theorem batch_order_irrelevant:
  assumes "validate_normalized_intent i = Inr ()"
    and "validate_search_plan (text_functions T) plan = Inr plan'"
    and "validate_batch batch = Inr ()"
    and "search_intent_sha256 H i = Inr (qp_intent plan')"
    and "search_query_plan_sha256 (text_functions T) H plan' = Inr (pb_plan batch)"
    and "\<forall>s. is_digest (H s)" and "mset ps = mset (pb_products batch)"
  shows "\<exists>r r'. rank_product_batch T L H i plan batch = Inr r \<and>
    rank_product_batch T L H i plan (batch\<lparr>pb_products := ps\<rparr>) = Inr r' \<and> rb_products r' = rb_products r"
proof -
  let ?batch = "batch\<lparr>pb_products := ps\<rparr>"
  note i = validate_normalized_intent_parts [OF assms(1)]
  define g where "g = (\<lambda>p. (p, projr (score_product T L i p)))"
  have scored: "score_all T L i qs = Inr (map g qs) \<and>
      (\<forall>(p, b)\<in>set (map g qs). validate_breakdown (text_functions T) b = Inr ())" for qs
  proof -
    obtain xs where xs: "score_all T L i qs = Inr xs" "map fst xs = qs"
      "\<forall>(p, b)\<in>set xs. score_product T L i p = Inr b \<and> validate_breakdown (text_functions T) b = Inr ()"
      using score_all_ok [OF i] .
    have "xs = map g qs" unfolding xs(2) [symmetric] map_map
      using xs(3) by (intro map_idI [symmetric]) (auto simp: g_def)
    with xs show ?thesis by auto
  qed
  have batch': "validate_batch ?batch = Inr ()" by (rule permuted_batch_valid [OF assms(3,7)])
  have plan': "search_query_plan_sha256 (text_functions T) H plan' = Inr (pb_plan ?batch)" using assms(5) by simp
  have "distinct (map rank_key (map g (pb_products batch)))"
    by (rule keys_distinct) (simp add: g_def comp_def validate_batch_parts(2) [OF assms(3)])
  moreover have "distinct (map rank_key (map g (pb_products ?batch)))"
    by (rule keys_distinct) (simp add: g_def comp_def validate_batch_parts(2) [OF batch', simplified])
  moreover have "set (map g (pb_products ?batch)) = set (map g (pb_products batch))"
    using mset_eq_setD [OF assms(7)] by simp
  ultimately have "sort_key rank_key (map g (pb_products ?batch)) = sort_key rank_key (map g (pb_products batch))"
    by (intro sort_key_unique)
  with ranking_result [OF assms(1-6) conjunct1 [OF scored] conjunct2 [OF scored]]
    ranking_result [OF assms(1,2) batch' assms(4) plan' assms(6) conjunct1 [OF scored] conjunct2 [OF scored]]
  show ?thesis by auto
qed

lemma batch_order_irrelevant_witness:
  "\<exists>r r'. rank_product_batch plain_tokenizer (\<lambda>_. 1) search_hash pen_intent pen_plan (pen_batch [toy_pen, red_pen]) = Inr r
     \<and> rank_product_batch plain_tokenizer (\<lambda>_. 1) search_hash pen_intent pen_plan (pen_batch [red_pen, toy_pen]) = Inr r'
     \<and> rb_products r' = rb_products r"
  using batch_order_irrelevant [OF pen_intent_valid pen_bindings(3) pen_batch_valid pen_bindings(1,2)
      hash_digests, of "[red_pen, toy_pen]" "\<lambda>_. 1"]
  by (simp add: pen_batch_def add_mset_commute)

text \<open>C31. A product is never ranked lower for scoring better: if two products have the same components
  available, none of them scored lower for the second, and the second has no more negative matches,
  then the total of the second is at least that of the first, through all the roundings of the binary64
  arithmetic.\<close>

theorem better_scores_never_lower_total:
  assumes "score_product T L i p = Inr b" and "score_product T' L' j q = Inr c"
    and "list_all2 (rel_option (\<le>)) (map sc_score (breakdown_components b)) (map sc_score (breakdown_components c))"
    and "length (sb_negative c) \<le> length (sb_negative b)"
  shows "sb_total b \<le> sb_total c"
  by (rule better_components [OF assms])

lemma better_scores_never_lower_total_witness:
  "\<exists>b c. score_product plain_tokenizer (\<lambda>_. 1) pen_intent toy_pen = Inr b \<and>
     score_product plain_tokenizer (\<lambda>_. 1) pen_intent red_pen = Inr c \<and> sb_total b \<le> sb_total c"
proof -
  note i = validate_normalized_intent_parts [OF pen_intent_valid]
  obtain b where b: "score_product plain_tokenizer (\<lambda>_. 1) pen_intent toy_pen = Inr b"
    using score_product_ok [OF i] .
  obtain c where c: "score_product plain_tokenizer (\<lambda>_. 1) pen_intent red_pen = Inr c"
    using score_product_ok [OF i] .
  have negatives: "sb_negative b = negative_matches plain_tokenizer pen_intent toy_pen"
    "sb_negative c = negative_matches plain_tokenizer pen_intent red_pen"
    using score_product_parts [OF b] score_product_parts [OF c] by blast+
  have "list_all2 (rel_option (\<le>)) (map sc_score (breakdown_components b)) (map sc_score (breakdown_components c))"
    "length (sb_negative c) \<le> length (sb_negative b)"
    using pen_components(1) [OF b] pen_components(2) [OF c] pen_negatives negatives by simp_all
  with better_scores_never_lower_total [OF b c] b c show ?thesis by blast
qed

end
