(* ===== verification/Normalization_Theorems.thy ===== *)
theory Normalization_Theorems
  imports Search_Samples
begin

text \<open>
  What normalisation of a provider response guarantees, for every response.
\<close>

text \<open>C32. Normalisation accounts for the whole response: the indexes of the batch's products and rejections
  are those of the response's members, each once; products stand in the order of the response; and what
  became of each member is what its own normalisation says. A member whose normalisation rejects it has
  that rejection; any other is a kept product, or a duplicate rejection that names an earlier kept product
  with the very ASIN of the member's product (or, when that has no ASIN, with its very URL). No two kept
  products are the same offer in that sense. The batch is valid and bound to the request it was made for.\<close>

theorem normalization_accounts_for_response:
  assumes "normalize_outscraper_products U B H response r request_id rate = Inr b"
  shows "validate_batch b = Inr () \<and> request_sha256 U B H r = Inr (pb_request b) \<and> pb_plan b = request_plan r \<and>
    (\<exists>item data raws. response = PDict item \<and> get_item item ''data'' = PList data \<and>
       raw_candidates data (request_maximum r) = Inr raws \<and>
       map raw_index raws = [0..<length (response_members data)] \<and>
       mset (response_indexes b) = mset [0..<length (response_members data)] \<and>
       (\<forall>raw\<in>set raws. accounted U B
          \<lparr>nc_request = r, nc_digest = pb_request b, nc_request_id = request_id, nc_rate = rate\<rparr>
          (pb_products b) (pb_rejections b) raw)) \<and>
    sorted_wrt (<) (map (pv_index \<circ> pc_provenance) (pb_products b)) \<and>
    sorted_wrt distinct_offer (pb_products b)"
proof -
  from normalization_parts [OF assms] obtain item data raws s where parts: "response = PDict item"
    "get_item item ''data'' = PList data" "raw_candidates data (request_maximum r) = Inr raws"
    "batch_inv U B \<lparr>nc_request = r, nc_digest = pb_request b, nc_request_id = request_id, nc_rate = rate\<rparr> raws s"
    "pb_products b = bs_products s" "pb_rejections b = bs_rejections s"
    "validate_batch b = Inr ()" "pb_plan b = request_plan r" "request_sha256 U B H r = Inr (pb_request b)" .
  have n: "length raws = length (response_members data)"
    using parts(3) by (auto simp: raw_candidates_def Let_def split: if_splits)
  have "response_indexes b = state_indexes s" by (simp add: response_indexes_def state_indexes_def parts(5,6))
  with parts(4,5,6) n have "mset (response_indexes b) = mset [0..<length (response_members data)]"
    "\<forall>raw\<in>set raws. accounted U B
      \<lparr>nc_request = r, nc_digest = pb_request b, nc_request_id = request_id, nc_rate = rate\<rparr>
      (pb_products b) (pb_rejections b) raw"
    "sorted_wrt (<) (map (pv_index \<circ> pc_provenance) (pb_products b))"
    "sorted_wrt distinct_offer (pb_products b)" unfolding batch_inv_def by auto
  with parts(1-3,7-9) raw_candidates_indexes [OF parts(3)] n show ?thesis by auto
qed

lemma normalization_accounts_for_response_witness:
  "\<exists>b. normalize_outscraper_products plain_library (\<lambda>_. False) search_hash pen_response pen_request ''r1'' 150 = Inr b \<and>
     mset (response_indexes b) = mset [0..<3] \<and> sorted_wrt distinct_offer (pb_products b)"
proof -
  note n = pen_normalization [of "\<lambda>_. False"]
  from normalization_accounts_for_response [OF n] have "sorted_wrt distinct_offer (pb_products pen_normalized)"
    and "\<exists>item data. pen_response = PDict item \<and> get_item item ''data'' = PList data \<and>
       mset (response_indexes pen_normalized) = mset [0..<length (response_members data)]" by blast+
  with n show ?thesis
    by (auto simp: pen_response_def get_item_def dict_get_def response_members_def group_members_def)
qed

end
