(* ===== verification/Regex_Text.thy ===== *)
theory Regex_Text
  imports Utf8_Text
begin

text \<open>
  The regular expressions of the evidence modules, as Python's \<open>re\<close> runs them: a matcher returns,
  for a text and a position, the ends of its matches in the order the backtracking search tries
  them, each with the groups it captured. A text is the list of its characters.
\<close>

section \<open>Matchers\<close>

type_synonym groups = "(string \<times> string) list"
type_synonym matcher = "string list \<Rightarrow> nat \<Rightarrow> (nat \<times> groups) list"

text \<open>One character of a class, a literal, an assertion on the position, a named group.\<close>

definition re_char :: "(string \<Rightarrow> bool) \<Rightarrow> matcher" where
  "re_char p cs i = (if i < length cs \<and> p (cs ! i) then [(Suc i, [])] else [])"

definition re_text :: "string \<Rightarrow> matcher" where
  "re_text w cs i =
     (let ws = chars_of w in
      if take (length ws) (drop i cs) = ws then [(i + length ws, [])] else [])"

definition re_assert :: "(string list \<Rightarrow> nat \<Rightarrow> bool) \<Rightarrow> matcher" where
  "re_assert p cs i = (if p cs i then [(i, [])] else [])"

definition re_group :: "string \<Rightarrow> matcher \<Rightarrow> matcher" where
  "re_group name a cs i =
     map (\<lambda>(j, g). (j, (name, concat (take (j - i) (drop i cs))) # g)) (a cs i)"

text \<open>Concatenation, alternation and greedy repetition: one more round is tried first.\<close>

definition re_seq :: "matcher \<Rightarrow> matcher \<Rightarrow> matcher" where
  "re_seq a b cs i = concat (map (\<lambda>(j, g). map (\<lambda>(k, h). (k, g @ h)) (b cs j)) (a cs i))"

fun re_seqs :: "matcher list \<Rightarrow> matcher" where
  "re_seqs [] cs i = [(i, [])]"
| "re_seqs (a # as) cs i = re_seq a (re_seqs as) cs i"

fun re_alts :: "matcher list \<Rightarrow> matcher" where
  "re_alts [] cs i = []"
| "re_alts (a # as) cs i = a cs i @ re_alts as cs i"

fun re_repeat :: "nat \<Rightarrow> nat \<Rightarrow> matcher \<Rightarrow> matcher" where
  "re_repeat low 0 a cs i = (if low = 0 then [(i, [])] else [])"
| "re_repeat low (Suc n) a cs i =
     re_seq a (re_repeat (low - 1) n a) cs i @ (if low = 0 then [(i, [])] else [])"

text \<open>\<open>*\<close> and \<open>+\<close> over a matcher that consumes a character: the text bounds the rounds.\<close>

definition re_star :: "matcher \<Rightarrow> matcher" where
  "re_star a cs i = re_repeat 0 (length cs) a cs i"

definition re_plus :: "matcher \<Rightarrow> matcher" where
  "re_plus a cs i = re_repeat 1 (length cs) a cs i"

definition re_optional :: "matcher \<Rightarrow> matcher" where
  "re_optional a = re_repeat 0 1 a"

section \<open>Classes and assertions\<close>

text \<open>\<open>\w\<close>: an alphanumeric character or the underscore; \<open>\b\<close> where exactly one side is such a character.\<close>

definition re_word :: "text_library \<Rightarrow> string \<Rightarrow> bool" where
  "re_word U ch \<longleftrightarrow> alphanumeric U ch \<or> ch = ''_''"

definition word_boundary :: "text_library \<Rightarrow> string list \<Rightarrow> nat \<Rightarrow> bool" where
  "word_boundary U cs i \<longleftrightarrow>
     (0 < i \<and> re_word U (cs ! (i - 1))) \<noteq> (i < length cs \<and> re_word U (cs ! i))"

text \<open>\<open>$\<close>: the end of the text, or a newline that ends it.\<close>

definition at_end :: "string list \<Rightarrow> nat \<Rightarrow> bool" where
  "at_end cs i \<longleftrightarrow> i = length cs \<or> (Suc i = length cs \<and> cs ! i = [CHR 0x0A])"

definition re_digit :: "string \<Rightarrow> bool" where
  "re_digit ch \<longleftrightarrow> ch \<in> set (map (\<lambda>c. [c]) digit_chars)"

section \<open>Searching\<close>

text \<open>\<open>fullmatch\<close>, \<open>match\<close> and \<open>search\<close>: the groups of the first match, if there is one.\<close>

definition re_fullmatch :: "matcher \<Rightarrow> string list \<Rightarrow> groups option" where
  "re_fullmatch a cs = map_option snd (find (\<lambda>(j, g). j = length cs) (a cs 0))"

definition re_match :: "matcher \<Rightarrow> string list \<Rightarrow> bool" where
  "re_match a cs \<longleftrightarrow> a cs 0 \<noteq> []"

definition re_search :: "matcher \<Rightarrow> string list \<Rightarrow> bool" where
  "re_search a cs \<longleftrightarrow> list_ex (\<lambda>i. a cs i \<noteq> []) [0..<Suc (length cs)]"

text \<open>\<open>finditer\<close> of a pattern that matches no empty text: after a match the search goes on at its end.\<close>

function re_finditer :: "matcher \<Rightarrow> string list \<Rightarrow> nat \<Rightarrow> groups list" where
  "re_finditer a cs i =
     (if length cs \<le> i then []
      else case a cs i of
        [] \<Rightarrow> re_finditer a cs (Suc i)
      | (j, g) # _ \<Rightarrow> g # re_finditer a cs (max j (Suc i)))"
  by pat_completeness auto
termination
  by (relation "measure (\<lambda>(a, cs, i). length cs - i)") auto

declare re_finditer.simps [simp del]

text \<open>\<open>match.group(name)\<close>.\<close>

definition group_text :: "string \<Rightarrow> groups \<Rightarrow> string" where
  "group_text name g = (case map_of g name of None \<Rightarrow> [] | Some s \<Rightarrow> s)"

end
