(* ===== verification/Specification_Reader.thy ===== *)
theory Specification_Reader
  imports Dynamic_Attributes Regex_Text
begin

text \<open>
  Model of \<open>search_v2/dynamic_product_evidence.py\<close>: reading one labelled specification of a product
  as the value of a search-local attribute.
\<close>

section \<open>Units\<close>

text \<open>The dimension of a unit and its size in the base unit of the dimension.\<close>

definition unit_table :: "(string \<times> string \<times> decimal) list" where
  "unit_table =
     [(''ml'', ''volume'', Dec False 1 0), (''l'', ''volume'', Dec False 1000 0),
      (''mm'', ''length'', Dec False 1 0), (''cm'', ''length'', Dec False 10 0),
      (''m'', ''length'', Dec False 1000 0),
      (''g'', ''mass'', Dec False 1 0), (''kg'', ''mass'', Dec False 1000 0)]"

section \<open>Decimal arithmetic\<close>

text \<open>The default context: 28 digits, rounding half to even. The exponent limits are never met, since a
  specification has at most 200 characters.\<close>

definition decimal_precision :: nat where "decimal_precision = 28"

definition half_even_div :: "nat \<Rightarrow> nat \<Rightarrow> nat" where
  "half_even_div c m =
     (let q = c div m; r = c mod m in
      if m < 2 * r \<or> (2 * r = m \<and> odd q) then Suc q else q)"

text \<open>\<open>_fix\<close>: a coefficient of more than 28 digits is rounded; a round up to \<open>10 ^ 28\<close> drops a zero.\<close>

definition dec_fix :: "decimal \<Rightarrow> decimal" where
  "dec_fix d =
     (case d of Dec neg c e \<Rightarrow>
        let n = length (dec_nat c) in
        if n \<le> decimal_precision then d
        else let k = n - decimal_precision; q = half_even_div c (10 ^ k) in
          if q = 10 ^ decimal_precision then Dec neg (q div 10) (e + int k + 1)
          else Dec neg q (e + int k))"

definition dec_times :: "decimal \<Rightarrow> decimal \<Rightarrow> decimal" where
  "dec_times a b =
     (case (a, b) of (Dec s c e, Dec t d f) \<Rightarrow> dec_fix (Dec (s \<noteq> t) (c * d) (e + f)))"

text \<open>Trailing zeros move to the exponent until it reaches the ideal one.\<close>

fun toward_ideal :: "nat \<Rightarrow> nat \<Rightarrow> int \<Rightarrow> nat \<times> int" where
  "toward_ideal 0 c e = (c, e)"
| "toward_ideal (Suc k) c e = (if c mod 10 = 0 then toward_ideal k (c div 10) (e + 1) else (c, e))"

text \<open>Division by a positive number: the quotient to one digit more than the precision, a remainder
  noted in its last digit, then rounded.\<close>

definition dec_divide :: "decimal \<Rightarrow> decimal \<Rightarrow> decimal" where
  "dec_divide a b =
     (case (a, b) of (Dec s c e, Dec t d f) \<Rightarrow>
        if c = 0 then Dec (s \<noteq> t) 0 (e - f)
        else
          let shift = int (length (dec_nat d)) - int (length (dec_nat c)) + int decimal_precision + 1;
              num = c * 10 ^ nat shift; den = d * 10 ^ nat (- shift);
              q = num div den
          in if num mod den \<noteq> 0
             then dec_fix (Dec (s \<noteq> t) (if q mod 5 = 0 then Suc q else q) (e - f - shift))
             else (case toward_ideal (nat shift) q (e - f - shift) of (c', e') \<Rightarrow>
               dec_fix (Dec (s \<noteq> t) c' e')))"

text \<open>\<open>int(value)\<close> truncates toward zero; \<open>value == value.to_integral_value()\<close> holds exactly when it
  loses nothing.\<close>

definition dec_truncate :: "decimal \<Rightarrow> int" where
  "dec_truncate d =
     (case d of Dec neg c e \<Rightarrow>
        (if neg then - 1 else 1) *
        (if 0 \<le> e then int c * 10 ^ nat e else int (c div 10 ^ nat (- e))))"

definition dec_is_integral :: "decimal \<Rightarrow> bool" where
  "dec_is_integral d \<longleftrightarrow> dec_eq d (decimal_of (dec_truncate d))"

section \<open>Patterns\<close>

text \<open>\<open>_NUMBER_UNIT\<close>, with the groups \<open>1\<close> and \<open>2\<close>.\<close>

definition number_pattern :: matcher where
  "number_pattern =
     re_seqs [re_optional (re_text ''-''),
       re_alts [re_text ''0'',
         re_seq (re_char (\<lambda>ch. re_digit ch \<and> ch \<noteq> ''0'')) (re_star (re_char re_digit))],
       re_optional (re_seq (re_text ''.'') (re_plus (re_char re_digit)))]"

definition unit_character :: "string \<Rightarrow> bool" where
  "unit_character ch \<longleftrightarrow> \<not> is_space ch \<and> ch \<notin> {'':'', '';'', '',''}"

definition number_unit :: matcher where
  "number_unit =
     re_seqs [re_group ''1'' number_pattern, re_star (re_char is_space),
       re_group ''2'' (re_repeat 1 32 (re_char unit_character))]"

text \<open>The Japanese words of the module: yes, corresponding, possible, present and their negations; unclear,
  not stated, unknown in detail, or, not being, other than; and the ideographic comma.\<close>

definition boolean_words :: "(string \<times> bool) list" where
  "boolean_words =
     [([CHR 0xE3, CHR 0x81, CHR 0xAF, CHR 0xE3, CHR 0x81, CHR 0x84], True),
      ([CHR 0xE5, CHR 0xAF, CHR 0xBE, CHR 0xE5, CHR 0xBF, CHR 0x9C], True),
      ([CHR 0xE5, CHR 0x8F, CHR 0xAF, CHR 0xE8, CHR 0x83, CHR 0xBD], True),
      ([CHR 0xE3, CHR 0x81, CHR 0x82, CHR 0xE3, CHR 0x82, CHR 0x8A], True),
      (''true'', True), (''yes'', True),
      ([CHR 0xE3, CHR 0x81, CHR 0x84, CHR 0xE3, CHR 0x81, CHR 0x84, CHR 0xE3, CHR 0x81, CHR 0x88], False),
      ([CHR 0xE9, CHR 0x9D, CHR 0x9E, CHR 0xE5, CHR 0xAF, CHR 0xBE, CHR 0xE5, CHR 0xBF, CHR 0x9C], False),
      ([CHR 0xE4, CHR 0xB8, CHR 0x8D, CHR 0xE5, CHR 0x8F, CHR 0xAF], False),
      ([CHR 0xE3, CHR 0x81, CHR 0xAA, CHR 0xE3, CHR 0x81, CHR 0x97], False),
      (''false'', False), (''no'', False)]"

definition ideographic_comma :: string where
  "ideographic_comma = [CHR 0xE3, CHR 0x80, CHR 0x81]"

definition unclear_words :: "string list" where
  "unclear_words =
     [[CHR 0xE4, CHR 0xB8, CHR 0x8D, CHR 0xE6, CHR 0x98, CHR 0x8E],
      [CHR 0xE6, CHR 0x9C, CHR 0xAA, CHR 0xE8, CHR 0xA8, CHR 0x98, CHR 0xE8, CHR 0xBC, CHR 0x89],
      [CHR 0xE4, CHR 0xB8, CHR 0x8D, CHR 0xE8, CHR 0xA9, CHR 0xB3]]"

definition or_words :: "string list" where
  "or_words =
     [[CHR 0xE3, CHR 0x81, CHR 0xBE, CHR 0xE3, CHR 0x81, CHR 0x9F, CHR 0xE3, CHR 0x81, CHR 0xAF],
      [CHR 0xE5, CHR 0x8F, CHR 0x88, CHR 0xE3, CHR 0x81, CHR 0xAF]]"

definition word_is_not :: string where
  "word_is_not = [CHR 0xE3, CHR 0x81, CHR 0xA7, CHR 0xE3, CHR 0x81, CHR 0xAF, CHR 0xE3, CHR 0x81, CHR 0xAA, CHR 0xE3, CHR 0x81, CHR 0x84]"

definition word_other_than :: string where
  "word_other_than = [CHR 0xE4, CHR 0xBB, CHR 0xA5, CHR 0xE5, CHR 0xA4, CHR 0x96]"

definition ambiguous_value :: "text_library \<Rightarrow> matcher" where
  "ambiguous_value U =
     re_alts (map re_text unclear_words @
       [re_text ''unknown'', re_seqs [re_text ''n'', re_optional (re_text ''/''), re_text ''a''],
        re_char (\<lambda>ch. ch \<in> {'','', '';'', ''/'', ideographic_comma})] @
       map re_text or_words @
       [re_seqs [re_assert (word_boundary U), re_text ''or'', re_assert (word_boundary U)],
        re_text word_is_not, re_text word_other_than])"

section \<open>Reading\<close>

definition unit_dimension :: "string \<Rightarrow> (string \<times> decimal) option" where
  "unit_dimension u = map_of unit_table u"

text \<open>\<open>_numeric_value\<close>. The constructors of the observed values validate their fields.\<close>

definition converted :: "decimal \<Rightarrow> string \<Rightarrow> string \<Rightarrow> decimal result" where
  "converted value unit target =
     (if unit = target then Inr value
      else case (unit_dimension unit, unit_dimension target) of
        (Some (a, x), Some (b, y)) \<Rightarrow>
          if a \<noteq> b then Inl (ValueError ''specification unit is incompatible'')
          else Inr (dec_divide (dec_times value x) y)
      | _ \<Rightarrow> Inl (ValueError ''specification unit is incompatible''))"

definition numeric_value :: "text_library \<Rightarrow> string \<Rightarrow> attribute_definition \<Rightarrow> observed result" where
  "numeric_value U s d =
     (case re_fullmatch number_unit (chars_of s) of
        None \<Rightarrow> Inl (ValueError ''specification has no exact number and unit'')
      | Some g \<Rightarrow>
          (case attr_units d of
             [] \<Rightarrow> Inl IndexError
           | target # _ \<Rightarrow>
               let raw = group_text ''2'' g;
                   unit = (case find (\<lambda>a. identity_of U (alias_text a) = raw) (attr_unit_aliases d) of
                       None \<Rightarrow> raw | Some a \<Rightarrow> alias_canonical a)
               in bind (converted (decimal_of_text (group_text ''1'' g)) unit target) (\<lambda>value.
                  if attr_type d = Integer_type
                  then if \<not> dec_is_integral value
                       then Inl (ValueError ''integer specification has a fractional value'')
                       else validate_observed U (IntegerObserved (dec_truncate value) target)
                  else validate_observed U (DecimalObserved value target))))"

text \<open>\<open>re.split\<close> at commas, ASCII or ideographic.\<close>

fun split_at_commas :: "string list \<Rightarrow> string list" where
  "split_at_commas [] = [[]]"
| "split_at_commas (ch # cs) =
     (if ch \<in> {'','', ideographic_comma} then [] # split_at_commas cs
      else case split_at_commas cs of [] \<Rightarrow> [ch] | w # ws \<Rightarrow> (ch @ w) # ws)"

definition specification_value :: "text_library \<Rightarrow> attribute_definition \<Rightarrow> string \<Rightarrow> observed result" where
  "specification_value U d value =
     (case attr_type d of
        Integer_type \<Rightarrow> numeric_value U value d
      | Decimal_type \<Rightarrow> numeric_value U value d
      | Boolean_type \<Rightarrow>
          (case map_of boolean_words value of
             None \<Rightarrow> Inl (ValueError ''ambiguous boolean specification'')
           | Some b \<Rightarrow> Inr (BooleanObserved b))
      | Enum_type \<Rightarrow>
          (case find (\<lambda>a. identity_of U (alias_text a) = value) (attr_value_aliases d) of
             None \<Rightarrow>
               if re_search (ambiguous_value U) (chars_of value) \<or> 32 < text_length value
               then Inl (ValueError ''ambiguous category specification'')
               else validate_observed U (EnumObserved other_value)
           | Some a \<Rightarrow> validate_observed U (EnumObserved
               (if alias_canonical a = [] then other_value else alias_canonical a)))
      | Text_set_type \<Rightarrow>
          validate_observed U (TextSetObserved (map strip_text (split_at_commas (chars_of value))))
      | Semantic_type \<Rightarrow> Inl (ValueError ''unsupported specification type''))"

text \<open>\<open>str.partition(":")\<close> of the folded text; \<open>None\<close> where the source returns \<open>None\<close>.\<close>

definition read_labelled_specification ::
  "text_library \<Rightarrow> string \<Rightarrow> attribute_definition \<Rightarrow> observed option result" where
  "read_labelled_specification U s d =
     (let t = identity_of U s; label = takeWhile (\<lambda>c. c \<noteq> CHR '':'') t;
          rest = dropWhile (\<lambda>c. c \<noteq> CHR '':'') t
      in if rest = [] \<or> strip_text label \<notin> set (map (identity_of U) (attr_aliases d)) then Inr None
         else let value = strip_text (drop 1 rest) in
           if value = [] then Inl (ValueError ''empty specification value'')
           else bind (specification_value U d value) (\<lambda>v.
             bind (normalize_observed_value U d v) (\<lambda>n. Inr (Some n))))"

end
