(* ===== verification/Product_Evidence.thy ===== *)
theory Product_Evidence
  imports Product_Records Requirement_Evaluation Specification_Reader
begin

text \<open>
  Model of \<open>search_v2/product_evidence.py\<close>: the bounded extraction of typed values from the structured
  fields and the title of an observed product, and the evidence set built of it for the requirements
  of a search. \<open>U\<close> holds the functions of the Unicode tables, \<open>H\<close> is SHA-256.
\<close>

section \<open>Profile and sets\<close>

definition max_matches_per_source :: nat where "max_matches_per_source = 8"
definition max_total_observations :: nat where "max_total_observations = 2048"

text \<open>The profile has literal fields only: there is one.\<close>

definition evidence_profile_json :: json where
  "evidence_profile_json =
     JObj [(''schema_version'', JStr ''1.0''), (''profile_id'', JStr ''bounded-product-evidence-v4''),
           (''structured_parser_version'', JStr ''observed-structured-value-v4''),
           (''title_parser_version'', JStr ''bounded-title-exact-v3''),
           (''maximum_matches_per_source'', JInt (int max_matches_per_source))]"

definition evidence_profile_domain :: string where
  "evidence_profile_domain = ''amazon-explorer-product-evidence-profile-v1'' @ [CHR 0x00]"

definition candidate_domain :: string where
  "candidate_domain = ''amazon-explorer-normalized-product-candidate-v1'' @ [CHR 0x00]"

definition evidence_set_domain :: string where
  "evidence_set_domain = ''amazon-explorer-product-evidence-set-v1'' @ [CHR 0x00]"

definition structured_artifact_domain :: string where
  "structured_artifact_domain = ''amazon-explorer-structured-product-artifact-v1'' @ [CHR 0x00]"

definition title_artifact_domain :: string where
  "title_artifact_domain = ''amazon-explorer-title-product-artifact-v1'' @ [CHR 0x00]"

definition unavailable_artifact_domain :: string where
  "unavailable_artifact_domain = ''amazon-explorer-unavailable-product-artifact-v1'' @ [CHR 0x00]"

definition evidence_profile_digest :: "(string \<Rightarrow> string) \<Rightarrow> string" where
  "evidence_profile_digest H = canonical_sha256 H evidence_profile_domain evidence_profile_json"

definition is_evidence_input_error :: "exn \<Rightarrow> bool" where
  "is_evidence_input_error e \<longleftrightarrow> is_TypeError e \<or> is_ValueError e"

definition normalized_product_candidate_sha256 ::
  "(string \<Rightarrow> string) \<Rightarrow> product_candidate \<Rightarrow> string result" where
  "normalized_product_candidate_sha256 H p =
     rewrap is_evidence_input_error ProductEvidenceError
      (bind (validate_product p) (\<lambda>_. Inr (canonical_sha256 H candidate_domain (product_json p))))"

record evidence_set =
  es_product :: string
  es_registry :: string
  es_requirement_set :: string
  es_profile :: string
  es_requirements :: "string list"
  es_observations :: "observation list"

definition validate_evidence_set ::
  "text_library \<Rightarrow> (string \<Rightarrow> string) \<Rightarrow> evidence_set \<Rightarrow> unit result" where
  "validate_evidence_set U H s =
     (if \<not> (is_digest (es_product s) \<and> is_digest (es_registry s) \<and> is_digest (es_requirement_set s) \<and>
            is_digest (es_profile s) \<and> length (es_requirements s) \<le> 64 \<and>
            list_all is_identifier (es_requirements s) \<and>
            length (es_observations s) \<le> max_total_observations)
      then Inl (ValidationError ''product evidence set field'')
      else bind (check_all (validate_observation U) (es_observations s)) (\<lambda>_.
        if \<not> distinct (es_requirements s)
        then Inl (ValidationError ''evidence set requirement ids must be unique'')
        else if list_ex (\<lambda>b. obs_requirement b \<notin> set (es_requirements s)) (es_observations s)
        then Inl (ValidationError ''evidence references an unknown requirement'')
        else if list_ex (\<lambda>b. obs_product b \<noteq> es_product s) (es_observations s)
        then Inl (ValidationError ''evidence product binding does not match the set'')
        else if list_ex (\<lambda>b. obs_registry b \<noteq> es_registry s) (es_observations s)
        then Inl (ValidationError ''evidence registry binding does not match the set'')
        else if list_ex (\<lambda>b. obs_profile b \<noteq> es_profile s) (es_observations s)
        then Inl (ValidationError ''evidence profile binding does not match the set'')
        else bind (map_result (evidence_observation_sha256 U H) (es_observations s)) (\<lambda>digests.
          if \<not> distinct digests then Inl (ValidationError ''evidence observations must be unique'')
          else Inr ())))"

section \<open>Phrases\<close>

definition normalized_text :: "text_library \<Rightarrow> string \<Rightarrow> string result" where
  "normalized_text U s =
     (let n = text_identity U s in
      if any_control U n then Inl (ValueError ''product evidence text contains a control character'')
      else Inr (join_words (split_words U n)))"

text \<open>One value per canonical JSON text, in the order of the texts.\<close>

definition canonical_values :: "observed list \<Rightarrow> observed list" where
  "canonical_values vs =
     (let unique = map (\<lambda>v. (observed_identity v, v)) vs in
      map (\<lambda>k. the (dict_get unique k)) (sort (remdups (map fst unique))))"

text \<open>\<open>_enum_phrase_map\<close>: a dict, a later phrase replacing the value of an equal earlier one.\<close>

definition enum_phrase_map ::
  "text_library \<Rightarrow> attribute_definition \<Rightarrow> (string \<times> string) list result" where
  "enum_phrase_map U d =
     bind (map_result (\<lambda>(s, v). bind (normalized_text U s) (\<lambda>n. Inr (n, v)))
            (map (\<lambda>v. (v, v)) (attr_values d) @
             map (\<lambda>a. (alias_text a, alias_canonical a)) (attr_value_aliases d)))
       (\<lambda>pairs. Inr (foldl (\<lambda>m (k, v). AList.update k v m) [] pairs))"

definition ascii_word_char :: "string \<Rightarrow> bool" where
  "ascii_word_char ch \<longleftrightarrow> ch \<in> set (map (\<lambda>c. [c]) (alnum_chars @ ''_''))"

definition cjk_char :: "string \<Rightarrow> bool" where
  "cjk_char ch \<longleftrightarrow> (let n = char_code ch in
     (0x3040 \<le> n \<and> n \<le> 0x30FF) \<or> (0x3400 \<le> n \<and> n \<le> 0x4DBF) \<or> (0x4E00 \<le> n \<and> n \<le> 0x9FFF))"

text \<open>A phrase of \<open>text\<close> from \<open>start\<close> to \<open>end\<close>: the characters around it do not continue a word. An
  empty phrase has no first character.\<close>

definition phrase_is_bounded ::
  "text_library \<Rightarrow> string list \<Rightarrow> nat \<Rightarrow> nat \<Rightarrow> string list \<Rightarrow> bool result" where
  "phrase_is_bounded U text start end phrase =
     (if phrase = [] then Inl IndexError
      else let before = (\<lambda>p. 0 < start \<and> p (text ! (start - 1)));
               after = (\<lambda>p. end < length text \<and> p (text ! end))
        in Inr (\<not> (ascii_word_char (hd phrase) \<and> before ascii_word_char) \<and>
                \<not> (ascii_word_char (last phrase) \<and> after ascii_word_char) \<and>
                \<not> (length phrase = 1 \<and> cjk_char (hd phrase) \<and>
                   (before (re_word U) \<or> after (re_word U)))))"

record phrase_match =
  pm_start :: nat
  pm_end :: nat
  pm_value :: string

text \<open>\<open>text.find\<close>, repeated from the next position: every place where the phrase stands.\<close>

definition occurrences :: "string list \<Rightarrow> string list \<Rightarrow> nat list" where
  "occurrences text phrase =
     filter (\<lambda>i. take (length phrase) (drop i text) = phrase) [0..<Suc (length text)]"

definition matches_of ::
  "text_library \<Rightarrow> string list \<Rightarrow> string \<times> string \<Rightarrow> phrase_match list result" where
  "matches_of U text pv =
     bind (normalized_text U (fst pv)) (\<lambda>n.
       let phrase = chars_of n in
       bind (map_result (\<lambda>i. bind (phrase_is_bounded U text i (i + length phrase) phrase) (\<lambda>ok.
               Inr (if ok then [\<lparr>pm_start = i, pm_end = i + length phrase, pm_value = snd pv\<rparr>] else [])))
             (occurrences text phrase))
         (\<lambda>ms. Inr (concat ms)))"

text \<open>The longest matches first; a match that overlaps a selected one is dropped.\<close>

definition overlaps :: "phrase_match \<Rightarrow> phrase_match \<Rightarrow> bool" where
  "overlaps a b \<longleftrightarrow> pm_start a < pm_end b \<and> pm_start b < pm_end a"

fun select_matches :: "phrase_match list \<Rightarrow> phrase_match list \<Rightarrow> phrase_match list" where
  "select_matches selected [] = selected"
| "select_matches selected (m # ms) =
     (if list_ex (overlaps m) selected then select_matches selected ms
      else select_matches (selected @ [m]) ms)"

definition match_order :: "phrase_match \<Rightarrow> int \<times> nat \<times> nat \<times> string" where
  "match_order m = (int (pm_start m) - int (pm_end m), pm_start m, pm_end m, pm_value m)"

definition phrase_matches ::
  "text_library \<Rightarrow> string \<Rightarrow> (string \<times> string) list \<Rightarrow> phrase_match list result" where
  "phrase_matches U text phrases =
     bind (map_result (matches_of U (chars_of text)) phrases) (\<lambda>ms.
       Inr (sort_key (\<lambda>m. (pm_start m, pm_end m, pm_value m))
         (select_matches [] (sort_key match_order (concat ms)))))"

section \<open>Patterns\<close>

definition space_or_hyphen :: "string \<Rightarrow> bool" where
  "space_or_hyphen ch \<longleftrightarrow> is_space ch \<or> ch = ''-''"

text \<open>\<open>[\s-]+(?:soil|clay)\b\<close>.\<close>

definition clay_color_suffix :: "text_library \<Rightarrow> matcher" where
  "clay_color_suffix U =
     re_seqs [re_plus (re_char space_or_hyphen), re_alts [re_text ''soil'', re_text ''clay''],
       re_assert (word_boundary U)]"

text \<open>\<open>(?:\bnon[\s-]+|\bnot\s+|X)$\<close> with the Japanese prefix of a negation, and
  \<open>(?:[\s-]+(?:like|look|style)\b|...)\<close> with the Japanese words for not being, other than, not using,
  in the manner of and toned.\<close>

definition word_negation :: string where
  "word_negation = [CHR 0xE9, CHR 0x9D, CHR 0x9E]"

definition word_not_being :: string where
  "word_not_being = [CHR 0xE3, CHR 0x81, CHR 0xA7, CHR 0xE3, CHR 0x81, CHR 0xAA, CHR 0xE3, CHR 0x81, CHR 0x84]"

definition imitation_words :: "string list" where
  "imitation_words =
     [word_is_not, word_not_being, word_other_than,
      [CHR 0xE4, CHR 0xB8, CHR 0x8D, CHR 0xE4, CHR 0xBD, CHR 0xBF, CHR 0xE7, CHR 0x94, CHR 0xA8],
      [CHR 0xE9, CHR 0xA2, CHR 0xA8], [CHR 0xE8, CHR 0xAA, CHR 0xBF]]"

definition negation_prefix :: "text_library \<Rightarrow> matcher" where
  "negation_prefix U =
     re_seq (re_alts
         [re_seqs [re_assert (word_boundary U), re_text ''non'', re_plus (re_char space_or_hyphen)],
          re_seqs [re_assert (word_boundary U), re_text ''not'', re_plus (re_char is_space)],
          re_text word_negation])
       (re_assert at_end)"

definition imitation_suffix :: "text_library \<Rightarrow> matcher" where
  "imitation_suffix U =
     re_alts (re_seqs [re_plus (re_char space_or_hyphen),
         re_alts [re_text ''like'', re_text ''look'', re_text ''style''], re_assert (word_boundary U)] #
       map re_text imitation_words)"

text \<open>\<open>_DECIMAL_TEXT\<close>: 1 to 12 digits with an optional fraction of as many, not next to a digit or
  point.\<close>

definition digit_or_point :: "string \<Rightarrow> bool" where
  "digit_or_point ch \<longleftrightarrow> re_digit ch \<or> ch = ''.''"

definition decimal_text :: matcher where
  "decimal_text =
     re_seqs [re_assert (\<lambda>cs i. \<not> (0 < i \<and> digit_or_point (cs ! (i - 1)))),
       re_repeat 1 12 (re_char re_digit),
       re_optional (re_seq (re_text ''.'') (re_repeat 1 12 (re_char re_digit))),
       re_assert (\<lambda>cs i. \<not> (i < length cs \<and> digit_or_point (cs ! i)))]"

text \<open>The word width, the full-width colon and millimetre in Japanese.\<close>

definition word_width :: string where
  "word_width = [CHR 0xE5, CHR 0xB9, CHR 0x85]"

definition wide_colon :: string where
  "wide_colon = [CHR 0xEF, CHR 0xBC, CHR 0x9A]"

definition word_millimetre :: string where
  "word_millimetre =
     [CHR 0xE3, CHR 0x83, CHR 0x9F, CHR 0xE3, CHR 0x83, CHR 0xAA, CHR 0xE3, CHR 0x83, CHR 0xA1, CHR 0xE3, CHR 0x83, CHR 0xBC, CHR 0xE3, CHR 0x83, CHR 0x88, CHR 0xE3, CHR 0x83, CHR 0xAB]"

definition unit_pattern :: matcher where
  "unit_pattern =
     re_alts [re_text ''mm'', re_seq (re_text ''millimeter'') (re_optional (re_text ''s'')),
       re_text word_millimetre]"

definition width_patterns :: "matcher list" where
  "width_patterns =
     [re_seqs [re_alts [re_text ''width'', re_text word_width], re_star (re_char is_space),
        re_optional (re_char (\<lambda>ch. ch \<in> {'':'', wide_colon, ''=''})), re_star (re_char is_space),
        re_group ''value'' decimal_text, re_star (re_char is_space), re_group ''unit'' unit_pattern],
      re_seqs [re_group ''value'' decimal_text, re_star (re_char is_space), re_group ''unit'' unit_pattern,
        re_star (re_char is_space), re_alts [re_text ''wide'', re_text word_width]]]"

section \<open>Extraction\<close>

text \<open>The values a source shows, or why it shows none.\<close>

record extraction =
  ex_values :: "observed list"
  ex_unknown :: "unknown_reason option"

definition nothing :: "unknown_reason \<Rightarrow> extraction" where
  "nothing r = \<lparr>ex_values = [], ex_unknown = Some r\<rparr>"

definition found :: "observed list \<Rightarrow> extraction" where
  "found vs = \<lparr>ex_values = vs, ex_unknown = None\<rparr>"

definition found_or_not :: "observed list \<Rightarrow> extraction" where
  "found_or_not vs = (if vs = [] then nothing Not_observed else found (canonical_values vs))"

definition enum_values_from_exact_features ::
  "text_library \<Rightarrow> attribute_definition \<Rightarrow> string list \<Rightarrow> extraction result" where
  "enum_values_from_exact_features U d features =
     (if features = [] then Inr (nothing Source_missing)
      else bind (enum_phrase_map U d) (\<lambda>phrases.
        bind (map_result (normalized_text U) features) (\<lambda>texts.
        bind (map_result (\<lambda>v. validate_observed U (EnumObserved v))
               (List.map_filter (map_of phrases) texts)) (\<lambda>vs. Inr (found_or_not vs)))))"

definition title_match_kept ::
  "text_library \<Rightarrow> string \<Rightarrow> string list \<Rightarrow> phrase_match \<Rightarrow> bool" where
  "title_match_kept U key text m =
     (if key = ''appearance.color'' then \<not> re_match (clay_color_suffix U) (drop (pm_end m) text)
      else if key \<in> {''material.type'', ''form.shape''}
      then \<not> re_search (negation_prefix U) (take (pm_start m) text) \<and>
           \<not> re_match (imitation_suffix U) (drop (pm_end m) text)
      else True)"

definition enum_values_from_title ::
  "text_library \<Rightarrow> attribute_definition \<Rightarrow> string \<Rightarrow> extraction result" where
  "enum_values_from_title U d title =
     bind (enum_phrase_map U d) (\<lambda>phrases.
     bind (normalized_text U title) (\<lambda>text.
     bind (phrase_matches U text phrases) (\<lambda>ms.
     bind (map_result (\<lambda>m. validate_observed U (EnumObserved (pm_value m)))
            (filter (title_match_kept U (attr_key d) (chars_of text)) ms)) (\<lambda>vs.
       Inr (found_or_not vs)))))"

definition pattern_matches :: "string \<Rightarrow> bool \<Rightarrow> groups list" where
  "pattern_matches text full =
     concat (map (\<lambda>a. if full then (case re_fullmatch a (chars_of text) of None \<Rightarrow> [] | Some g \<Rightarrow> [g])
                      else re_finditer a (chars_of text) 0) width_patterns)"

text \<open>A value whose constructor raises marks the texts as invalid.\<close>

definition width_value :: "text_library \<Rightarrow> groups \<Rightarrow> observed option" where
  "width_value U g =
     (case validate_observed U (DecimalObserved (decimal_of_text (group_text ''value'' g)) ''mm'') of
        Inl e \<Rightarrow> None
      | Inr v \<Rightarrow> Some v)"

definition width_values :: "text_library \<Rightarrow> string list \<Rightarrow> bool \<Rightarrow> extraction result" where
  "width_values U texts full =
     (if full \<and> texts = [] then Inr (nothing Source_missing)
      else bind (map_result (normalized_text U) texts) (\<lambda>ns.
        let vs = map (width_value U) (concat (map (\<lambda>n. pattern_matches n full) ns)) in
        Inr (if None \<in> set vs then nothing Invalid_observation
             else found_or_not (List.map_filter (\<lambda>v. v) vs))))"

text \<open>The distinct values read from labelled features; equal numbers count once.\<close>

fun labelled_values ::
  "text_library \<Rightarrow> attribute_definition \<Rightarrow> observed list \<Rightarrow> string list \<Rightarrow> observed list result" where
  "labelled_values U d vs [] = Inr vs"
| "labelled_values U d vs (f # fs) =
     bind (read_labelled_specification U f d) (\<lambda>v.
       labelled_values U d
         (case v of None \<Rightarrow> vs | Some x \<Rightarrow> if list_ex (same_observed x) vs then vs else vs @ [x]) fs)"

definition enum_field ::
  "text_library \<Rightarrow> attribute_definition \<Rightarrow> string option \<Rightarrow> extraction result" where
  "enum_field U d field =
     (case field of
        None \<Rightarrow> Inr (nothing Source_missing)
      | Some s \<Rightarrow>
          bind (validate_observed U (EnumObserved s)) (\<lambda>v.
          case normalize_observed_value U d v of
            Inl e \<Rightarrow> if e = TypedRequirementError then Inr (nothing Invalid_observation) else Inl e
          | Inr n \<Rightarrow> Inr (found [n])))"

definition structured_values ::
  "text_library \<Rightarrow> attribute_definition \<Rightarrow> product_candidate \<Rightarrow> extraction result" where
  "structured_values U d p =
     (let a = pc_attributes p in
      if starts_with ''search.'' (attr_key d)
      then (case labelled_values U d [] (oa_features a) of
              Inl e \<Rightarrow> if is_ValueError e then Inr (nothing Invalid_observation) else Inl e
            | Inr vs \<Rightarrow> Inr (if vs = [] then nothing Source_missing else found vs))
      else if attr_key d = ''appearance.color'' then enum_field U d (oa_color a)
      else if attr_key d = ''material.type'' then enum_field U d (oa_material a)
      else if attr_key d \<in> {''form.shape'', ''form.orientation''}
      then enum_values_from_exact_features U d (oa_features a)
      else if attr_key d = ''dimensions.width'' then width_values U (oa_features a) True
      else Inr (nothing Evaluator_unavailable))"

definition title_values ::
  "text_library \<Rightarrow> attribute_definition \<Rightarrow> product_candidate \<Rightarrow> extraction result" where
  "title_values U d p =
     (if attr_key d \<in> {''appearance.color'', ''material.type'', ''form.shape'', ''form.orientation''}
      then enum_values_from_title U d (pc_title p)
      else if attr_key d = ''dimensions.width'' then width_values U [pc_title p] False
      else Inr (nothing Evaluator_unavailable))"

fun extract_values ::
  "text_library \<Rightarrow> attribute_definition \<Rightarrow> product_candidate \<Rightarrow> evidence_source \<Rightarrow> extraction result" where
  "extract_values U d p Structured = structured_values U d p"
| "extract_values U d p Title_exact = title_values U d p"
| "extract_values U d p Visual_feature = Inr (nothing Evaluator_unavailable)"

fun artifact_digest ::
  "(string \<Rightarrow> string) \<Rightarrow> product_candidate \<Rightarrow> evidence_source \<Rightarrow> string result" where
  "artifact_digest H p Structured =
     Inr (canonical_sha256 H structured_artifact_domain (attributes_json (pc_attributes p)))"
| "artifact_digest H p Title_exact =
     Inr (canonical_sha256 H title_artifact_domain (JObj [(''title'', JStr (pc_title p))]))"
| "artifact_digest H p Visual_feature =
     bind (normalized_product_candidate_sha256 H p) (\<lambda>digest.
       Inr (canonical_sha256 H unavailable_artifact_domain
         (JObj [(''product_sha256'', JStr digest), (''source'', JStr ''visual_feature'')])))"

section \<open>The evidence of a product\<close>

definition observation_order ::
  "string list \<Rightarrow> observation \<Rightarrow> nat \<times> int \<times> string \<times> nat \<times> string" where
  "observation_order ids b =
     (the (dict_get (map (\<lambda>(n, i). (i, n)) (enumerate 0 ids)) (obs_requirement b)),
      obs_priority b, source_name (obs_source b), (if obs_status b = Status_observed then 0 else 1),
      (case obs_value b of None \<Rightarrow> [] | Some v \<Rightarrow> observed_identity v))"

definition rule_order :: "evidence_rule \<Rightarrow> int \<times> string" where
  "rule_order rule = (rule_priority rule, source_name (rule_source rule))"

text \<open>The observations of one requirement from one source, and from all of them.\<close>

definition rule_observations ::
  "text_library \<Rightarrow> (string \<Rightarrow> string) \<Rightarrow> attribute_registry \<Rightarrow> product_candidate \<Rightarrow> string \<Rightarrow>
   typed_requirement \<Rightarrow> attribute_definition \<Rightarrow> evidence_rule \<Rightarrow> observation list result" where
  "rule_observations U H r p product q d rule =
     bind (extract_values U d p (rule_source rule)) (\<lambda>x.
     if max_matches_per_source < length (ex_values x)
     then Inl (ValueError ''product evidence exceeds the match limit'')
     else bind (artifact_digest H p (rule_source rule)) (\<lambda>artifact.
       let build = (\<lambda>v reason. build_evidence_observation U H r q product (rule_source rule) v reason
                      (evidence_profile_digest H) artifact)
       in if ex_values x \<noteq> [] then map_result (\<lambda>v. build (Some v) None) (ex_values x)
          else bind (build None (ex_unknown x)) (\<lambda>b. Inr [b])))"

definition requirement_observations ::
  "text_library \<Rightarrow> (string \<Rightarrow> string) \<Rightarrow> attribute_registry \<Rightarrow> product_candidate \<Rightarrow> string \<Rightarrow>
   typed_requirement \<Rightarrow> observation list result" where
  "requirement_observations U H r p product q =
     bind (attribute_definition_of U r (req_key q)) (\<lambda>d.
     bind (map_result (rule_observations U H r p product q d) (sort_key rule_order (attr_rules d)))
       (\<lambda>bs. Inr (concat bs)))"

definition build_product_evidence ::
  "text_library \<Rightarrow> (string \<Rightarrow> string) \<Rightarrow> attribute_registry \<Rightarrow> typed_requirement list \<Rightarrow>
   product_candidate \<Rightarrow> evidence_set result" where
  "build_product_evidence U H r qs p =
     rewrap is_evidence_input_error ProductEvidenceError
      (bind (validate_product p) (\<lambda>_.
       bind (validate_registry U r) (\<lambda>_.
       bind (typed_requirement_set_sha256 U H r qs) (\<lambda>set_digest.
       bind (attribute_registry_sha256 U H r) (\<lambda>registry.
       bind (normalized_product_candidate_sha256 H p) (\<lambda>product.
       bind (map_result (requirement_observations U H r p product) qs) (\<lambda>bs.
         let ids = map req_id qs;
             s = \<lparr>es_product = product, es_registry = registry, es_requirement_set = set_digest,
                  es_profile = evidence_profile_digest H, es_requirements = ids,
                  es_observations = sort_key (observation_order ids) (concat bs)\<rparr>
         in bind (validate_evidence_set U H s) (\<lambda>_. Inr s))))))))"

definition evidence_set_json :: "evidence_set \<Rightarrow> json" where
  "evidence_set_json s =
     JObj [(''schema_version'', JStr ''1.0''), (''product_sha256'', JStr (es_product s)),
           (''registry_sha256'', JStr (es_registry s)),
           (''requirement_set_sha256'', JStr (es_requirement_set s)),
           (''evaluator_profile_sha256'', JStr (es_profile s)),
           (''requirement_ids'', json_texts (es_requirements s)),
           (''observations'', JArr (map observation_json (es_observations s)))]"

text \<open>Equality of observations compares decimals as numbers.\<close>

definition same_observation :: "observation \<Rightarrow> observation \<Rightarrow> bool" where
  "same_observation a b \<longleftrightarrow> opt_rel same_observed (obs_value a) (obs_value b) \<and>
     a\<lparr>obs_value := None\<rparr> = b\<lparr>obs_value := None\<rparr>"

definition product_evidence_set_sha256 ::
  "text_library \<Rightarrow> (string \<Rightarrow> string) \<Rightarrow> evidence_set \<Rightarrow> string result" where
  "product_evidence_set_sha256 U H s =
     rewrap is_evidence_input_error ProductEvidenceError
      (bind (validate_evidence_set U H s) (\<lambda>_.
       if \<not> list_all2 same_observation
             (sort_key (observation_order (es_requirements s)) (es_observations s)) (es_observations s)
       then Inl (ValueError ''evidence observations are not in canonical order'')
       else Inr (canonical_sha256 H evidence_set_domain (evidence_set_json s))))"

end
