(* ===== verification/Product_Evidence_Props.thy ===== *)
theory Product_Evidence_Props
  imports Product_Evidence Product_Evaluation_Props
begin

text \<open>
  Facts about the evidence of a product: how each observation is bound, that every source of every
  requirement is reported, and the evaluation as a statement about the evidence.
\<close>

section \<open>Observations\<close>

lemma built_fields:
  assumes "build_evidence_observation U H r q product source v why profile artifact = Inr b"
  shows "obs_requirement b = req_id q" "obs_source b = source" "obs_product b = product"
    "obs_profile b = profile" "obs_artifact b = artifact" "obs_value b = None \<longleftrightarrow> v = None"
    "obs_status b = (if v = None then Status_unknown else Status_observed)" "obs_unknown b = why"
    "validate_observation U b = Inr ()" "(v = None) \<noteq> (why = None)"
proof -
  obtain q' d rule n where q: "validated_requirement U H r q = Inr (q', d)" and
    rule: "evidence_rule_for d source = Inr rule" and
    n: "(case v of None \<Rightarrow> Inr None | Some v \<Rightarrow> bind (normalize_observed_value U d v) (\<lambda>n. Inr (Some n))) = Inr n" and
    b: "b = \<lparr>obs_requirement = req_id q', obs_key = req_key q', obs_product = product,
           obs_source = rule_source rule, obs_priority = rule_priority rule,
           obs_status = (if v = None then Status_unknown else Status_observed),
           obs_value = n, obs_unknown = why, obs_registry = canonical_sha256 H registry_domain (registry_json r),
           obs_evaluator = rule_evaluator rule, obs_version = rule_version rule,
           obs_profile = profile, obs_artifact = artifact\<rparr>" and
    ok: "validate_observation U b = Inr ()" and vw: "(v = None) \<noteq> (why = None)"
    using assms by (auto simp: build_evidence_observation_def attribute_registry_sha256_def Let_def split: if_splits)
  have "q' = q" by (rule validated_requirement_id [OF q])
  moreover have "rule_source rule = source"
    using rule by (auto simp: evidence_rule_for_def find_Some_iff split: option.splits)
  moreover have "n = None \<longleftrightarrow> v = None" using n by (auto split: option.splits)
  ultimately show "obs_requirement b = req_id q" "obs_source b = source" "obs_product b = product"
    "obs_profile b = profile" "obs_artifact b = artifact" "obs_value b = None \<longleftrightarrow> v = None"
    "obs_status b = (if v = None then Status_unknown else Status_observed)" "obs_unknown b = why"
    "validate_observation U b = Inr ()" "(v = None) \<noteq> (why = None)"
    using b ok vw by simp_all
qed

text \<open>What one source contributes: observed values, at most eight, or one unknown observation.\<close>

definition source_report :: "observation list \<Rightarrow> bool" where
  "source_report bs \<longleftrightarrow> 1 \<le> length bs \<and> length bs \<le> max_matches_per_source \<and>
     (list_all is_observed bs \<or> (length bs = 1 \<and> \<not> is_observed (hd bs)))"

lemma rule_report:
  assumes "rule_observations U H r p product q d rule = Inr bs"
  shows "source_report bs"
    and "\<forall>b\<in>set bs. obs_requirement b = req_id q \<and> obs_source b = rule_source rule \<and> obs_product b = product"
proof -
  define build where "build artifact v why = build_evidence_observation U H r q product (rule_source rule) v why
      (evidence_profile_digest H) artifact" for artifact v why
  obtain x :: extraction and artifact where x: "length (ex_values x) \<le> max_matches_per_source" and
    bs: "(if ex_values x \<noteq> [] then map_result (\<lambda>v. build artifact (Some v) None) (ex_values x)
         else bind (build artifact None (ex_unknown x)) (\<lambda>b. Inr [b])) = Inr bs"
    using assms unfolding rule_observations_def Let_def bind_eq_Inr if_Inl_eq_Inr build_def [symmetric] not_less
    by blast
  have each: "obs_requirement b = req_id q \<and> obs_source b = rule_source rule \<and> obs_product b = product \<and>
      (is_observed b \<longleftrightarrow> v \<noteq> None)" if "build artifact v why = Inr b" for v why b
    using built_fields [OF that [unfolded build_def]] by (simp add: is_observed_def)
  have "source_report bs \<and>
    (\<forall>b\<in>set bs. obs_requirement b = req_id q \<and> obs_source b = rule_source rule \<and> obs_product b = product)"
  proof (cases "ex_values x = []")
    case True
    with bs obtain b where "bs = [b]" and b: "build artifact None (ex_unknown x) = Inr b" by auto
    with each [OF b] show ?thesis by (simp add: source_report_def max_matches_per_source_def)
  next
    case False
    then have m: "map_result (\<lambda>v. build artifact (Some v) None) (ex_values x) = Inr bs" using bs by simp
    have "obs_requirement b = req_id q \<and> obs_source b = rule_source rule \<and> obs_product b = product \<and>
        is_observed b" if "b \<in> set bs" for b
      using map_result_mem [OF m that] each by blast
    moreover have "length bs = length (ex_values x)" by (rule map_result_length [OF m])
    ultimately show ?thesis using False x by (auto simp: source_report_def list_all_iff Suc_le_eq)
  qed
  then show "source_report bs"
    "\<forall>b\<in>set bs. obs_requirement b = req_id q \<and> obs_source b = rule_source rule \<and> obs_product b = product"
    by blast+
qed

lemma list_all2_mem: "list_all2 P xs ys \<Longrightarrow> y \<in> set ys \<Longrightarrow> \<exists>x\<in>set xs. P x y"
  by (metis in_set_conv_nth list_all2_conv_all_nth)

text \<open>The part of a concatenation that one of its pieces owns.\<close>

lemma filter_concat_own:
  assumes "list_all2 (\<lambda>x bs. \<forall>b\<in>set bs. k b = g x) xs bss" and "distinct (map g xs)" and "(x, bs) \<in> set (zip xs bss)"
  shows "filter (\<lambda>b. k b = g x) (concat bss) = bs"
  using assms
proof (induction rule: list_all2_induct)
  case (Cons y xs cs bss)
  have other: "filter (\<lambda>b. k b = g y) (concat bss) = []" if "g y \<notin> g ` set xs"
  proof -
    have "k b \<noteq> g y" if b: "b \<in> set bs" "bs \<in> set bss" for b bs
    proof -
      obtain x where "x \<in> set xs" "\<forall>b\<in>set bs. k b = g x"
        using list_all2_mem [OF Cons.hyps(2) b(2)] by blast
      with b(1) \<open>g y \<notin> g ` set xs\<close> show ?thesis by (metis image_eqI)
    qed
    then show ?thesis by (auto simp: filter_empty_conv)
  qed
  show ?case
  proof (cases "(x, bs) = (y, cs)")
    case True
    then show ?thesis using Cons.hyps(1) Cons.prems other by (simp add: filter_id_conv)
  next
    case False
    then have mem: "(x, bs) \<in> set (zip xs bss)" using Cons.prems(2) by auto
    then have "g x \<noteq> g y" using Cons.prems(1) set_zip_leftD [OF mem] by (metis distinct.simps(2) image_eqI list.set_map list.simps(9))
    then have "filter (\<lambda>b. k b = g x) cs = []" using Cons.hyps(1) by (auto simp: filter_empty_conv)
    then show ?thesis using Cons.IH [OF _ mem] Cons.prems(1) by simp
  qed
qed simp

lemma requirement_report:
  assumes "requirement_observations U H r p product q = Inr bs"
  obtains d where "attribute_definition_of U r (req_key q) = Inr d" and "length (attr_rules d) \<le> 3"
    and "\<forall>b\<in>set bs. obs_requirement b = req_id q \<and> obs_product b = product \<and> obs_source b \<in> rule_source ` set (attr_rules d)"
    and "\<forall>rule\<in>set (attr_rules d). source_report (filter (\<lambda>b. obs_source b = rule_source rule) bs)"
    and "length bs \<le> 24"
proof -
  obtain d bss where d: "attribute_definition_of U r (req_key q) = Inr d" and
    m: "map_result (rule_observations U H r p product q d) (sort_key rule_order (attr_rules d)) = Inr bss" and
    bs: "bs = concat bss"
    using assms by (auto simp: requirement_observations_def)
  have "validate_definition U d = Inr ()"
    using d lookup_known by (auto simp: attribute_definition_of_def split: option.splits)
  then have rules: "distinct (map rule_source (attr_rules d))" "length (attr_rules d) \<le> 3"
    by (simp_all add: validate_definition_def definition_fields_def if_Inl_eq_Inr max_evidence_rules_def)
  let ?rs = "sort_key rule_order (attr_rules d)"
  have dist: "distinct (map rule_source ?rs)" using rules(1) by (simp add: distinct_map)
  have pieces: "list_all2 (\<lambda>rule cs. source_report cs \<and>
      (\<forall>b\<in>set cs. obs_requirement b = req_id q \<and> obs_source b = rule_source rule \<and> obs_product b = product)) ?rs bss"
    using m unfolding map_result_eq_Inr by (rule list_all2_mono) (use rule_report in blast)
  have own: "list_all2 (\<lambda>rule cs. \<forall>b\<in>set cs. obs_source b = rule_source rule) ?rs bss"
    by (rule list_all2_mono [OF pieces]) blast
  have "source_report (filter (\<lambda>b. obs_source b = rule_source rule) bs)" if rule: "rule \<in> set (attr_rules d)" for rule
  proof -
    obtain n where n: "n < length ?rs" "?rs ! n = rule" using rule by (metis in_set_conv_nth set_sort)
    then have "n < length bss" using list_all2_lengthD [OF pieces] by simp
    with n have "(rule, bss ! n) \<in> set (zip ?rs bss)" by (auto simp: set_zip)
    moreover have "source_report (bss ! n)" using list_all2_nthD [OF pieces n(1)] by blast
    ultimately show ?thesis unfolding bs using filter_concat_own [OF own dist] by simp
  qed
  moreover have "\<forall>b\<in>set bs. obs_requirement b = req_id q \<and> obs_product b = product \<and>
      obs_source b \<in> rule_source ` set (attr_rules d)"
  proof
    fix b assume "b \<in> set bs"
    then obtain cs where cs: "cs \<in> set bss" "b \<in> set cs" unfolding bs by auto
    from list_all2_mem [OF pieces cs(1)] obtain rule where "rule \<in> set (attr_rules d)"
      "obs_requirement b = req_id q \<and> obs_source b = rule_source rule \<and> obs_product b = product"
      using cs(2) by auto
    then show "obs_requirement b = req_id q \<and> obs_product b = product \<and>
      obs_source b \<in> rule_source ` set (attr_rules d)" by blast
  qed
  moreover have "length bs \<le> 24"
  proof -
    have "length bs \<le> 8 * length ?rs" unfolding bs
      using pieces by (induction rule: list_all2_induct) (auto simp: source_report_def max_matches_per_source_def)
    then show ?thesis using rules(2) by simp
  qed
  ultimately show thesis using that d rules(2) by blast
qed

section \<open>Evidence sets\<close>

lemma evidence_parts:
  assumes "build_product_evidence U H r qs p = Inr s"
  obtains bss where "validate_product p = Inr ()" and "validate_registry U r = Inr ()"
    and "typed_requirement_set_sha256 U H r qs = Inr (es_requirement_set s)"
    and "normalized_product_candidate_sha256 H p = Inr (es_product s)"
    and "map_result (requirement_observations U H r p (es_product s)) qs = Inr bss"
    and "es_requirements s = map req_id qs" and "es_profile s = evidence_profile_digest H"
    and "es_registry s = canonical_sha256 H registry_domain (registry_json r)"
    and "es_observations s = sort_key (observation_order (map req_id qs)) (concat bss)"
    and "validate_evidence_set U H s = Inr ()"
  using assms that
  by (auto simp: build_product_evidence_def attribute_registry_sha256_def Let_def)

lemma evidence_set_valid:
  assumes "validate_evidence_set U H s = Inr ()"
  shows "distinct (es_requirements s)" "is_digest (es_product s)"
    "\<forall>b\<in>set (es_observations s). validate_observation U b = Inr ()"
    "distinct (map (evidence_digest H) (es_observations s))"
proof -
  obtain ds where m: "map_result (evidence_observation_sha256 U H) (es_observations s) = Inr ds" "distinct ds"
    and v: "\<forall>b\<in>set (es_observations s). validate_observation U b = Inr ()"
    using assms by (auto simp: validate_evidence_set_def split: if_splits)
  have "map_result (evidence_observation_sha256 U H) (es_observations s) = Inr (map (evidence_digest H) (es_observations s))"
    using v by (intro map_result_fixed) (simp add: evidence_observation_sha256_def evidence_digest_def)
  with m show "distinct (map (evidence_digest H) (es_observations s))" by simp
  show "\<forall>b\<in>set (es_observations s). validate_observation U b = Inr ()" by (rule v)
qed (use assms in \<open>auto simp: validate_evidence_set_def split: if_splits\<close>)

text \<open>The observations of one requirement of a built set.\<close>

lemma filter_sort_key: "mset (filter P (sort_key f xs)) = mset (filter P xs)"
  by simp

lemma source_report_mset:
  assumes "mset bs = mset cs" and "source_report cs"
  shows "source_report bs"
proof -
  have "length bs = length cs" "set bs = set cs" using assms(1) mset_eq_length mset_eq_setD by blast+
  then show ?thesis using assms(2)
    by (auto simp: source_report_def list_all_iff length_Suc_conv)
qed

lemma evidence_of_requirement:
  assumes s: "build_product_evidence U H r qs p = Inr s" and q: "q \<in> set qs"
  obtains bs d where "requirement_observations U H r p (es_product s) q = Inr bs"
    and "mset (filter (\<lambda>b. obs_requirement b = req_id q) (es_observations s)) = mset bs"
    and "attribute_definition_of U r (req_key q) = Inr d"
    and "\<forall>rule\<in>set (attr_rules d).
      source_report (filter (\<lambda>b. obs_requirement b = req_id q \<and> obs_source b = rule_source rule) (es_observations s))"
    and "length (filter (\<lambda>b. obs_requirement b = req_id q) (es_observations s)) \<le> 24"
proof -
  from evidence_parts [OF s] obtain bss where m: "map_result (requirement_observations U H r p (es_product s)) qs = Inr bss"
    and ids: "es_requirements s = map req_id qs" and
    obs: "es_observations s = sort_key (observation_order (map req_id qs)) (concat bss)" and
    valid: "validate_evidence_set U H s = Inr ()" by metis
  have dist: "distinct (map req_id qs)" using evidence_set_valid(1) [OF valid] ids by simp
  have own: "list_all2 (\<lambda>q bs. \<forall>b\<in>set bs. obs_requirement b = req_id q) qs bss"
    using m unfolding map_result_eq_Inr by (rule list_all2_mono) (use requirement_report in blast)
  obtain n where n: "n < length qs" "qs ! n = q" using q by (metis in_set_conv_nth)
  define bs where "bs = bss ! n"
  have "n < length bss" using n list_all2_lengthD [OF own] by simp
  with n have z: "(q, bs) \<in> set (zip qs bss)" by (auto simp: set_zip bs_def)
  have call: "requirement_observations U H r p (es_product s) q = Inr bs"
    using m n list_all2_nthD [of _ qs bss n] unfolding map_result_eq_Inr bs_def by blast
  have ms: "mset (filter (\<lambda>b. obs_requirement b = req_id q) (es_observations s)) = mset bs"
    unfolding obs filter_sort_key using filter_concat_own [OF own dist z] by simp
  from requirement_report [OF call] obtain d where d: "attribute_definition_of U r (req_key q) = Inr d"
    and rep: "\<forall>rule\<in>set (attr_rules d). source_report (filter (\<lambda>b. obs_source b = rule_source rule) bs)"
    and len: "length bs \<le> 24" by metis
  have "source_report (filter (\<lambda>b. obs_requirement b = req_id q \<and> obs_source b = rule_source rule) (es_observations s))"
    if "rule \<in> set (attr_rules d)" for rule
  proof (rule source_report_mset)
    show "source_report (filter (\<lambda>b. obs_source b = rule_source rule) bs)" using rep that by blast
    have "filter (\<lambda>b. obs_requirement b = req_id q \<and> obs_source b = rule_source rule) (es_observations s) =
        filter (\<lambda>b. obs_source b = rule_source rule) (filter (\<lambda>b. obs_requirement b = req_id q) (es_observations s))"
      by (simp add: conj_commute)
    then show "mset (filter (\<lambda>b. obs_requirement b = req_id q \<and> obs_source b = rule_source rule) (es_observations s)) =
        mset (filter (\<lambda>b. obs_source b = rule_source rule) bs)"
      using ms by (metis mset_filter)
  qed
  moreover have "length (filter (\<lambda>b. obs_requirement b = req_id q) (es_observations s)) \<le> 24"
    using len ms mset_eq_length by metis
  ultimately show thesis using that [OF call ms d] by blast
qed

end
