(* ===== verification/Typed_Intent_Adapter.thy ===== *)
theory Typed_Intent_Adapter
  imports Query_Plan Requirement_Evaluation
begin

text \<open>
  Model of \<open>search_v2/typed_intent_adapter.py\<close>: the typed-condition candidates of an intent become
  registry-bound requirements, and every candidate that cannot becomes a blocking issue. A proposal
  is ready exactly when it has no issue.
\<close>

section \<open>Data\<close>

datatype issue_code =
    Upstream_ambiguity
  | Attribute_identity_unresolved
  | Unknown_attribute
  | Invalid_condition
  | Semantic_requires_preferred
  | Duplicate_condition

fun issue_code_name :: "issue_code \<Rightarrow> string" where
  "issue_code_name Upstream_ambiguity = ''upstream_ambiguity''"
| "issue_code_name Attribute_identity_unresolved = ''attribute_identity_unresolved''"
| "issue_code_name Unknown_attribute = ''unknown_attribute''"
| "issue_code_name Invalid_condition = ''invalid_condition''"
| "issue_code_name Semantic_requires_preferred = ''semantic_requires_preferred''"
| "issue_code_name Duplicate_condition = ''duplicate_condition''"

definition max_typed_issues :: nat where "max_typed_issues = max_typed_conditions + 1"

text \<open>\<open>candidate_index\<close> is absent exactly for an ambiguity of the intent itself.\<close>

record condition_issue =
  issue_code :: issue_code
  issue_index :: "nat option"

definition validate_issue :: "condition_issue \<Rightarrow> unit result" where
  "validate_issue x =
     (if \<not> opt_all (\<lambda>n. n < max_typed_conditions) (issue_index x)
      then Inl (ValidationError ''typed condition issue field'')
      else if (issue_code x = Upstream_ambiguity) \<noteq> (issue_index x = None)
      then Inl (ValidationError ''issue source is inconsistent'')
      else Inr ())"

definition new_issue :: "issue_code \<Rightarrow> nat option \<Rightarrow> condition_issue result" where
  "new_issue c i =
     (let x = \<lparr>issue_code = c, issue_index = i\<rparr> in bind (validate_issue x) (\<lambda>_. Inr x))"

datatype proposal_status = Ready | Blocking

record requirement_proposal =
  prop_status :: proposal_status
  prop_intent :: string
  prop_candidates :: string
  prop_registry_sha256 :: string
  prop_registry :: attribute_registry
  prop_profile :: string
  prop_requirement_set :: string
  prop_requirements :: "typed_requirement list"
  prop_issues :: "condition_issue list"

section \<open>Requirement ids\<close>

text \<open>\<open>f"condition-{index + 1:03d}"\<close> and the position read back from \<open>^condition-[0-9]{3}$\<close>.\<close>

definition three_digits :: "nat \<Rightarrow> string" where
  "three_digits n = replicate (3 - length (dec_nat n)) CHR ''0'' @ dec_nat n"

definition condition_id :: "nat \<Rightarrow> string" where
  "condition_id index = ''condition-'' @ three_digits (Suc index)"

definition condition_position :: "string \<Rightarrow> nat option" where
  "condition_position s =
     (case after_prefix ''condition-'' s of
        None \<Rightarrow> None
      | Some d \<Rightarrow> if length d = 3 \<and> chars_in digit_chars d then Some (dec_val d) else None)"

section \<open>Validation\<close>

definition proposal_fields :: "requirement_proposal \<Rightarrow> bool" where
  "proposal_fields p \<longleftrightarrow> is_digest (prop_intent p) \<and> is_digest (prop_candidates p) \<and>
     is_digest (prop_registry_sha256 p) \<and> is_digest (prop_profile p) \<and>
     is_digest (prop_requirement_set p) \<and> length (prop_requirements p) \<le> max_typed_conditions \<and>
     length (prop_issues p) \<le> max_typed_issues"

text \<open>The positions of the requirement ids; the loop raises at the first it refuses.\<close>

definition requirement_position :: "string \<Rightarrow> typed_requirement \<Rightarrow> nat result" where
  "requirement_position registry q =
     (case condition_position (req_id q) of
        None \<Rightarrow> Inl (ValidationError ''requirement id is not adapter-owned'')
      | Some n \<Rightarrow>
          if \<not> (1 \<le> n \<and> n \<le> max_typed_conditions)
          then Inl (ValidationError ''requirement position is outside the candidate set'')
          else if req_registry q \<noteq> registry
          then Inl (ValidationError ''requirement registry binding does not match the proposal'')
          else Inr n)"

definition issue_order :: "condition_issue \<Rightarrow> int" where
  "issue_order x = (case issue_index x of None \<Rightarrow> - 1 | Some n \<Rightarrow> int n)"

definition validate_proposal ::
  "text_library \<Rightarrow> (string \<Rightarrow> string) \<Rightarrow> requirement_proposal \<Rightarrow> unit result" where
  "validate_proposal U H p =
     (if \<not> proposal_fields p then Inl (ValidationError ''typed requirement proposal field'')
      else
      bind (validate_registry U (prop_registry p)) (\<lambda>_.
      bind (check_all (validate_requirement U) (prop_requirements p)) (\<lambda>_.
      bind (check_all validate_issue (prop_issues p)) (\<lambda>_.
      bind (attribute_registry_sha256 U H (prop_registry p)) (\<lambda>digest.
      if prop_registry_sha256 p \<noteq> digest
      then Inl (ValidationError ''proposal registry binding does not match its definitions'')
      else bind (map_result (requirement_position (prop_registry_sha256 p)) (prop_requirements p)) (\<lambda>ns.
        if ns \<noteq> sort ns \<or> \<not> distinct ns
        then Inl (ValidationError ''requirements are not in canonical candidate order'')
        else let is = map issue_order (prop_issues p) in
          if is \<noteq> sort is \<or> \<not> distinct is
          then Inl (ValidationError ''issues are not in canonical candidate order'')
          else if (prop_status p = Blocking) \<noteq> (prop_issues p \<noteq> [])
          then Inl (ValidationError ''proposal status does not match its issues'')
          else Inr ()))))))"

section \<open>Digests\<close>

definition adapter_profile_domain :: string where
  "adapter_profile_domain = ''amazon-explorer-typed-intent-adapter-profile-v1'' @ [CHR 0x00]"

definition candidate_set_domain :: string where
  "candidate_set_domain = ''amazon-explorer-typed-condition-candidate-set-v1'' @ [CHR 0x00]"

definition proposal_domain :: string where
  "proposal_domain = ''amazon-explorer-typed-requirement-proposal-v1'' @ [CHR 0x00]"

text \<open>The profile has literal fields only: there is one.\<close>

definition adapter_profile_json :: json where
  "adapter_profile_json =
     JObj [(''schema_version'', JStr ''1.0''),
           (''profile_id'', JStr ''bonsai-candidate-evidence-gated-v2''),
           (''decimal_parser_version'', JStr ''ascii-fixed-decimal-v1''),
           (''requirement_id_version'', JStr ''candidate-position-v1''),
           (''maximum_candidates'', JInt 64)]"

definition adapter_profile_sha256 :: "(string \<Rightarrow> string) \<Rightarrow> string" where
  "adapter_profile_sha256 H = canonical_sha256 H adapter_profile_domain adapter_profile_json"

definition candidate_set_sha256 :: "(string \<Rightarrow> string) \<Rightarrow> normalized_intent \<Rightarrow> string" where
  "candidate_set_sha256 H i =
     canonical_sha256 H candidate_set_domain (JArr (map candidate_json (typed_conditions i)))"

definition issue_json :: "condition_issue \<Rightarrow> json" where
  "issue_json x =
     JObj [(''code'', JStr (issue_code_name (issue_code x))),
           (''candidate_index'', json_opt (JInt \<circ> int) (issue_index x)), (''blocking'', JBool True)]"

definition proposal_json :: "requirement_proposal \<Rightarrow> json" where
  "proposal_json p =
     JObj [(''schema_version'', JStr ''1.0''),
           (''status'', JStr (if prop_status p = Ready then ''ready'' else ''blocking'')),
           (''intent_sha256'', JStr (prop_intent p)),
           (''candidate_set_sha256'', JStr (prop_candidates p)),
           (''registry_sha256'', JStr (prop_registry_sha256 p)),
           (''registry'', registry_json (prop_registry p)),
           (''adapter_profile_sha256'', JStr (prop_profile p)),
           (''requirement_set_sha256'', JStr (prop_requirement_set p)),
           (''requirements'', JArr (map requirement_json (prop_requirements p))),
           (''issues'', JArr (map issue_json (prop_issues p)))]"

definition typed_requirement_proposal_sha256 ::
  "text_library \<Rightarrow> (string \<Rightarrow> string) \<Rightarrow> requirement_proposal \<Rightarrow> string result" where
  "typed_requirement_proposal_sha256 U H p =
     rewrap is_contract_error TypedIntentAdapterError
      (bind (validate_proposal U H p) (\<lambda>_.
        Inr (canonical_sha256 H proposal_domain (proposal_json p))))"

section \<open>Candidates\<close>

text \<open>\<open>_candidate_target\<close>: the constructors validate their fields.\<close>

fun raw_target :: "candidate_target \<Rightarrow> target" where
  "raw_target (CandidateBoolean b) = BooleanTarget b"
| "raw_target (CandidateEnum vs) = EnumTarget vs"
| "raw_target (CandidateInteger lo hi u) = IntegerTarget lo hi u"
| "raw_target (CandidateDecimal lo hi u) =
     DecimalTarget (map_option decimal_of_text lo) (map_option decimal_of_text hi) u"
| "raw_target (CandidateTextSet vs) = TextSetTarget vs"
| "raw_target (CandidateSemantic l) = SemanticTarget l"

definition candidate_requirement_target :: "text_library \<Rightarrow> condition_candidate \<Rightarrow> target result" where
  "candidate_requirement_target U c = validate_target U (raw_target (cand_target c))"

definition requirement_identity :: "typed_requirement \<Rightarrow> string" where
  "requirement_identity q =
     dumps (JObj [(''schema_version'', JStr ''1.0''), (''attribute_key'', JStr (req_key q)),
       (''operator'', JStr (operator_name (req_operator q))),
       (''expected_value'', target_json (req_target q)),
       (''strength'', JStr (strength_name (req_strength q))),
       (''registry_sha256'', JStr (req_registry q))])"

definition issue_for_invalid_candidate ::
  "text_library \<Rightarrow> attribute_registry \<Rightarrow> condition_candidate \<Rightarrow> nat \<Rightarrow> condition_issue result" where
  "issue_for_invalid_candidate U r c index =
     (case attribute_definition_of U r (cand_key c) of
        Inl e \<Rightarrow> if e = TypedRequirementError then new_issue Unknown_attribute (Some index) else Inl e
      | Inr d \<Rightarrow>
          new_issue (if attr_type d = Semantic_type \<and> cand_strength c \<noteq> Preferred
                     then Semantic_requires_preferred else Invalid_condition) (Some index))"

text \<open>The draft of a candidate and its canonical requirement.\<close>

definition candidate_requirement ::
  "text_library \<Rightarrow> (string \<Rightarrow> string) \<Rightarrow> attribute_registry \<Rightarrow> condition_candidate \<Rightarrow> nat \<Rightarrow>
   typed_requirement result" where
  "candidate_requirement U H r c index =
     bind (candidate_requirement_target U c) (\<lambda>t.
     let d = \<lparr>draft_id = condition_id index, draft_key = search_attribute_key U H c,
              draft_operator = cand_operator c, draft_target = t, draft_strength = cand_strength c\<rparr>
     in bind (validate_draft U d) (\<lambda>_.
        bind (normalize_typed_requirements U H r [d]) (\<lambda>qs. Inr (hd qs))))"

text \<open>The loop over the candidates: \<open>identities\<close> holds the requirements kept so far.\<close>

fun adapt_candidates ::
  "text_library \<Rightarrow> (string \<Rightarrow> string) \<Rightarrow> attribute_registry \<Rightarrow> string list \<Rightarrow> nat \<Rightarrow>
   condition_candidate list \<Rightarrow> (typed_requirement list \<times> condition_issue list) result" where
  "adapt_candidates U H r identities index [] = Inr ([], [])"
| "adapt_candidates U H r identities index (c # cs) =
     (let with_issue = (\<lambda>x. bind x (\<lambda>issue.
            bind (adapt_candidates U H r identities (Suc index) cs) (\<lambda>(qs, is).
              Inr (qs, issue # is))))
      in if numeric_identity_requires_review U H c
         then with_issue (new_issue Attribute_identity_unresolved (Some index))
         else case candidate_requirement U H r c index of
           Inl e \<Rightarrow>
             if is_contract_error e then with_issue (issue_for_invalid_candidate U r c index) else Inl e
         | Inr q \<Rightarrow>
             if requirement_identity q \<in> set identities
             then with_issue (new_issue Duplicate_condition (Some index))
             else bind (adapt_candidates U H r (requirement_identity q # identities) (Suc index) cs)
               (\<lambda>(qs, is). Inr (q # qs, is)))"

text \<open>The registry of the search; a compilation that fails leaves the given one.\<close>

definition proposal_registry ::
  "text_library \<Rightarrow> (string \<Rightarrow> string) \<Rightarrow> attribute_registry \<Rightarrow> normalized_intent \<Rightarrow>
   attribute_registry result" where
  "proposal_registry U H base i =
     (case compile_search_registry U H
        (filter (\<lambda>c. \<not> numeric_identity_requires_review U H c) (typed_conditions i)) base of
        Inl e \<Rightarrow> if is_ValueError e then Inr base else Inl e
      | Inr r \<Rightarrow> Inr r)"

definition build_typed_requirement_proposal ::
  "text_library \<Rightarrow> (string \<Rightarrow> string) \<Rightarrow> attribute_registry \<Rightarrow> normalized_intent \<Rightarrow>
   requirement_proposal result" where
  "build_typed_requirement_proposal U H base i =
     rewrap is_contract_error TypedIntentAdapterError
      (bind (validate_normalized_intent i) (\<lambda>_.
       bind (validate_registry U base) (\<lambda>_.
       bind (proposal_registry U H base i) (\<lambda>r.
       bind (if has_blocking_ambiguity i then bind (new_issue Upstream_ambiguity None) (\<lambda>x. Inr [x])
             else Inr []) (\<lambda>upstream.
       bind (adapt_candidates U H r [] 0 (typed_conditions i)) (\<lambda>(qs, is).
       bind (attribute_registry_sha256 U H r) (\<lambda>digest.
       bind (search_intent_sha256 H i) (\<lambda>intent.
       bind (typed_requirement_set_sha256 U H r qs) (\<lambda>set_digest.
         let issues = upstream @ is;
             p = \<lparr>prop_status = (if issues = [] then Ready else Blocking), prop_intent = intent,
                  prop_candidates = candidate_set_sha256 H i, prop_registry_sha256 = digest,
                  prop_registry = r, prop_profile = adapter_profile_sha256 H,
                  prop_requirement_set = set_digest, prop_requirements = qs, prop_issues = issues\<rparr>
         in bind (validate_proposal U H p) (\<lambda>_. Inr p))))))))))"

end
