(* ===== verification/Typed_Ranking.thy ===== *)
theory Typed_Ranking
  imports Product_Evidence Product_Ranking Typed_Intent_Adapter Default_Registry
begin

text \<open>
  Model of \<open>search_v2/typed_ranking.py\<close>: products ranked by the typed conditions of the search. The
  score of \<open>ranking.py\<close> keeps its title, price and review components; the attribute component is the
  weighted share of satisfied conditions. Products are ordered by the status of their required
  conditions, the two ratios, the total and their place in the response.
\<close>

section \<open>Profile\<close>

definition max_typed_weight :: int where "max_typed_weight = 6400"

definition typed_ranking_profile_json :: "(string \<Rightarrow> string) \<Rightarrow> json" where
  "typed_ranking_profile_json H =
     JObj [(''schema_version'', JStr ''4.0''), (''profile_id'', JStr ''typed-ranking-v4''),
           (''source_ranking_profile_id'', JStr ''ranking-v3''),
           (''source_ranking_profile_sha256'', JStr (ranking_profile_digest H)),
           (''typed_score_version'', JStr ''registry-fixed-denominator-v1''),
           (''sort_key_version'', JStr ''required-preferred-total-response-v1''),
           (''title_weight'', json_float title_weight),
           (''typed_attributes_weight'', json_float attributes_weight),
           (''price_weight'', json_float price_weight), (''image_weight'', json_float image_weight),
           (''review_quality_weight'', json_float review_weight),
           (''negative_match_penalty'', json_float negative_match_penalty),
           (''max_negative_penalty'', json_float max_negative_penalty),
           (''image_scoring_enabled'', JBool False), (''score_decimals'', JInt 4)]"

definition typed_profile_domain :: string where
  "typed_profile_domain = ''amazon-explorer-typed-ranking-profile-v4'' @ [CHR 0x00]"

definition typed_profile_digest :: "(string \<Rightarrow> string) \<Rightarrow> string" where
  "typed_profile_digest H = canonical_sha256 H typed_profile_domain (typed_ranking_profile_json H)"

section \<open>Breakdowns\<close>

record typed_breakdown =
  tb_title :: score_component
  tb_typed :: score_component
  tb_price :: score_component
  tb_image :: score_component
  tb_review :: score_component
  tb_count :: int
  tb_satisfied :: int
  tb_weight :: int
  tb_available :: rat
  tb_pre_penalty :: rat
  tb_penalty :: rat
  tb_total :: rat
  tb_title_language :: "language option"
  tb_negative :: "string list"

definition typed_components :: "typed_breakdown \<Rightarrow> score_component list" where
  "typed_components b = [tb_title b, tb_typed b, tb_price b, tb_image b, tb_review b]"

text \<open>\<open>round(satisfied / total, SCORE_DECIMALS)\<close>.\<close>

definition weight_share :: "int \<Rightarrow> int \<Rightarrow> rat" where
  "weight_share satisfied whole =
     round_to score_decimals (float_of (of_int satisfied / of_int whole))"

definition typed_component_consistent :: "typed_breakdown \<Rightarrow> bool" where
  "typed_component_consistent b \<longleftrightarrow>
     0 < tb_weight b \<and> tb_satisfied b \<le> tb_weight b \<and> sc_status (tb_typed b) = Available \<and>
     sc_reason (tb_typed b) = Scored \<and>
     sc_score (tb_typed b) = Some (weight_share (tb_satisfied b) (tb_weight b))"

definition validate_typed_breakdown :: "text_library \<Rightarrow> typed_breakdown \<Rightarrow> unit result" where
  "validate_typed_breakdown U b =
     (let cs = typed_components b in
      bind (check_all validate_component cs) (\<lambda>_.
      if \<not> (0 \<le> tb_count b \<and> tb_count b \<le> 64 \<and> 0 \<le> tb_satisfied b \<and> tb_satisfied b \<le> max_typed_weight \<and>
             0 \<le> tb_weight b \<and> tb_weight b \<le> max_typed_weight \<and> unit_value (tb_available b) \<and>
             unit_value (tb_pre_penalty b) \<and> unit_value (tb_penalty b) \<and> unit_value (tb_total b) \<and>
             score_terms (tb_negative b))
      then Inl (ValidationError ''typed score breakdown field'')
      else if map sc_base cs \<noteq> base_weights
      then Inl (ValidationError ''typed score base weights do not match the profile'')
      else if sc_status (tb_image b) \<noteq> Disabled
      then Inl (ValidationError ''image ranking must remain disabled'')
      else if sc_status (tb_review b) = Disabled
      then Inl (ValidationError ''review quality ranking must not be disabled'')
      else if tb_count b = 0 \<and> (tb_weight b \<noteq> 0 \<or> tb_satisfied b \<noteq> 0 \<or>
                sc_status (tb_typed b) \<noteq> Missing \<or> sc_reason (tb_typed b) \<noteq> Not_requested)
      then Inl (ValidationError ''empty typed requirements must be not requested'')
      else if tb_count b \<noteq> 0 \<and> \<not> typed_component_consistent b
      then Inl (ValidationError ''typed attribute component is inconsistent'')
      else if tb_available b \<noteq> base_total_of cs
      then Inl (ValidationError ''available typed score weight is inconsistent'')
      else if \<not> effective_normalized (float_of (3 / 10 ^ 6)) cs
      then Inl (ValidationError ''effective typed score weights are not normalized'')
      else if tb_pre_penalty b \<noteq> pre_penalty_of cs
      then Inl (ValidationError ''typed pre-penalty score is inconsistent'')
      else if tb_penalty b \<noteq> penalty_of (length (tb_negative b))
      then Inl (ValidationError ''typed negative penalty is inconsistent'')
      else if tb_total b \<noteq> total_of (tb_pre_penalty b) (tb_penalty b)
      then Inl (ValidationError ''typed total score is inconsistent'')
      else if sc_status (tb_title b) = Available \<and> tb_title_language b = None
      then Inl (ValidationError ''available title score requires a language'')
      else if sc_status (tb_title b) \<noteq> Available \<and> tb_title_language b \<noteq> None
      then Inl (ValidationError ''unavailable title score must not select a language'')
      else if \<not> has_unique_text U (tb_negative b)
      then Inl (ValidationError ''negative matches must be unique'')
      else Inr ()))"

section \<open>Scoring\<close>

definition observations_for :: "evidence_set \<Rightarrow> typed_requirement \<Rightarrow> observation list" where
  "observations_for s q = filter (\<lambda>b. obs_requirement b = req_id q) (es_observations s)"

definition evaluate_product ::
  "text_library \<Rightarrow> (string \<Rightarrow> string) \<Rightarrow> attribute_registry \<Rightarrow> typed_requirement list \<Rightarrow>
   evidence_set \<Rightarrow> evaluation result" where
  "evaluate_product U H r qs s =
     bind (map_result (\<lambda>q. adjudicate_requirement U H r q (es_product s) (observations_for s q)) qs)
       (\<lambda>ds. evaluate_typed_product U H r qs ds (es_product s))"

text \<open>A required or preferred condition is satisfied by a match, an excluded one by a mismatch.\<close>

definition satisfies :: "typed_requirement \<Rightarrow> decision_state \<Rightarrow> bool" where
  "satisfies q s \<longleftrightarrow> (if req_strength q = Excluded then s = Mismatch else s = Match)"

record typed_share =
  ts_count :: int
  ts_satisfied :: int
  ts_total :: int
  ts_score :: "rat option"

definition requirement_weight ::
  "text_library \<Rightarrow> attribute_registry \<Rightarrow> evaluation \<Rightarrow> typed_requirement \<Rightarrow> (int \<times> bool) result" where
  "requirement_weight U r v q =
     bind (attribute_definition_of U r (req_key q)) (\<lambda>d.
       case dict_get (map (\<lambda>e. (dec_requirement e, e)) (ev_decisions v)) (req_id q) of
         None \<Rightarrow> Inl KeyError
       | Some e \<Rightarrow> Inr (attr_weight d, satisfies q (dec_state e)))"

definition typed_score ::
  "text_library \<Rightarrow> attribute_registry \<Rightarrow> typed_requirement list \<Rightarrow> evaluation \<Rightarrow> typed_share result" where
  "typed_score U r qs v =
     (if qs = [] then Inr \<lparr>ts_count = 0, ts_satisfied = 0, ts_total = 0, ts_score = None\<rparr>
      else bind (map_result (requirement_weight U r v) qs) (\<lambda>ws.
        let total = sum_list (map fst ws); satisfied = sum_list (map fst (filter snd ws)) in
        Inr \<lparr>ts_count = int (length qs), ts_satisfied = satisfied, ts_total = total,
             ts_score = Some (weight_share satisfied total)\<rparr>))"

definition raw_source :: "score_component \<Rightarrow> raw_component" where
  "raw_source c = \<lparr>rc_status = sc_status c, rc_reason = sc_reason c, rc_score = sc_score c\<rparr>"

definition raw_typed :: "rat option \<Rightarrow> raw_component" where
  "raw_typed s = (case s of None \<Rightarrow> missing Not_requested | Some x \<Rightarrow> scored x)"

text \<open>\<open>_component\<close> of this module: it raises a value error where the one of \<open>ranking.py\<close> asserts, and
  also refuses an available weight that is not positive.\<close>

definition typed_component :: "raw_component \<Rightarrow> rat \<Rightarrow> rat \<Rightarrow> score_component result" where
  "typed_component raw base available =
     (if rc_status raw = Available \<and> (rc_score raw = None \<or> available \<le> 0)
      then Inl (ValueError ''available score component is missing its score'')
      else build_component raw base available)"

definition score_typed_product ::
  "text_library \<Rightarrow> attribute_registry \<Rightarrow> typed_requirement list \<Rightarrow> evaluation \<Rightarrow> score_breakdown \<Rightarrow>
   typed_breakdown result" where
  "score_typed_product U r qs v source =
     bind (typed_score U r qs v) (\<lambda>share.
     let raws = [raw_source (sb_title source), raw_typed (ts_score share), raw_source (sb_price source),
                 raw_source (sb_image source), raw_source (sb_review source)]
     in bind (map_result (\<lambda>(raw, w). typed_component raw w (available_weight raws base_weights))
               (zip raws base_weights)) (\<lambda>cs.
        let pre = pre_penalty_of cs; penalty = penalty_of (length (sb_negative source));
            b = \<lparr>tb_title = cs ! 0, tb_typed = cs ! 1, tb_price = cs ! 2, tb_image = cs ! 3,
                 tb_review = cs ! 4, tb_count = ts_count share, tb_satisfied = ts_satisfied share,
                 tb_weight = ts_total share,
                 tb_available = round_to score_decimals (available_weight raws base_weights),
                 tb_pre_penalty = pre, tb_penalty = penalty, tb_total = total_of pre penalty,
                 tb_title_language = sb_title_language source, tb_negative = sb_negative source\<rparr>
        in bind (validate_typed_breakdown U b) (\<lambda>_. Inr b)))"

section \<open>Ranked products\<close>

record typed_ranked_product =
  tp_rank :: nat
  tp_product :: product_candidate
  tp_evidence :: evidence_set
  tp_evaluation :: evaluation
  tp_breakdown :: typed_breakdown

record typed_ranked_batch =
  tr_profile :: string
  tr_source_profile :: string
  tr_source_batch :: string
  tr_intent :: string
  tr_plan :: string
  tr_batch :: string
  tr_proposal_sha256 :: string
  tr_registry :: string
  tr_requirement_set :: string
  tr_evidence_profile :: string
  tr_proposal :: requirement_proposal
  tr_products :: "typed_ranked_product list"

definition validate_typed_product ::
  "text_library \<Rightarrow> (string \<Rightarrow> string) \<Rightarrow> typed_ranked_product \<Rightarrow> unit result" where
  "validate_typed_product U H t =
     (if \<not> (1 \<le> tp_rank t \<and> tp_rank t \<le> max_ranked_products)
      then Inl (ValidationError ''typed ranked product field'')
      else bind (validate_product (tp_product t)) (\<lambda>_.
        bind (validate_evidence_set U H (tp_evidence t)) (\<lambda>_.
        bind (validate_evaluation (tp_evaluation t)) (\<lambda>_.
        bind (validate_typed_breakdown U (tp_breakdown t)) (\<lambda>_.
        bind (normalized_product_candidate_sha256 H (tp_product t)) (\<lambda>digest.
        if es_product (tp_evidence t) \<noteq> digest \<or> ev_product (tp_evaluation t) \<noteq> digest
        then Inl (ValidationError ''typed ranked product binding is inconsistent'')
        else Inr ()))))))"

definition typed_sort_key :: "product_candidate \<Rightarrow> evaluation \<Rightarrow> typed_breakdown \<Rightarrow>
    (int \<times> rat \<times> rat \<times> rat \<times> int) result" where
  "typed_sort_key p v b = typed_product_sort_key v (tb_total b) (int (product_index p))"

text \<open>Equality of models compares decimals as numbers.\<close>

definition same_evidence :: "evidence_set \<Rightarrow> evidence_set \<Rightarrow> bool" where
  "same_evidence s t \<longleftrightarrow> list_all2 same_observation (es_observations s) (es_observations t) \<and>
     s\<lparr>es_observations := []\<rparr> = t\<lparr>es_observations := []\<rparr>"

definition same_proposal :: "requirement_proposal \<Rightarrow> requirement_proposal \<Rightarrow> bool" where
  "same_proposal a b \<longleftrightarrow> list_all2 same_requirement (prop_requirements a) (prop_requirements b) \<and>
     a\<lparr>prop_requirements := []\<rparr> = b\<lparr>prop_requirements := []\<rparr>"

text \<open>The loop that recomputes what a ranked product claims.\<close>

definition reproducible ::
  "text_library \<Rightarrow> (string \<Rightarrow> string) \<Rightarrow> string \<Rightarrow> requirement_proposal \<Rightarrow> typed_ranked_product \<Rightarrow>
   unit result" where
  "reproducible U H plan pr t =
     (if pv_plan (pc_provenance (tp_product t)) \<noteq> plan
      then Inl (ValidationError ''typed ranked product query binding is inconsistent'')
      else bind (build_product_evidence U H (prop_registry pr) (prop_requirements pr) (tp_product t)) (\<lambda>s.
        if \<not> same_evidence (tp_evidence t) s
        then Inl (ValidationError ''typed ranked product evidence is not reproducible'')
        else bind (evaluate_product U H (prop_registry pr) (prop_requirements pr) s) (\<lambda>v.
          if tp_evaluation t \<noteq> v
          then Inl (ValidationError ''typed ranked product evaluation is not reproducible'')
          else bind (typed_score U (prop_registry pr) (prop_requirements pr) v) (\<lambda>share.
            let b = tp_breakdown t in
            if tb_count b \<noteq> ts_count share \<or> tb_satisfied b \<noteq> ts_satisfied share \<or>
               tb_weight b \<noteq> ts_total share \<or> sc_score (tb_typed b) \<noteq> ts_score share
            then Inl (ValidationError ''typed ranked product score is not reproducible'')
            else Inr ()))))"

definition validate_typed_batch ::
  "text_library \<Rightarrow> (string \<Rightarrow> string) \<Rightarrow> typed_ranked_batch \<Rightarrow> unit result" where
  "validate_typed_batch U H b =
     (let pr = tr_proposal b; ts = tr_products b in
      if \<not> (list_all is_digest [tr_profile b, tr_source_profile b, tr_source_batch b, tr_intent b, tr_plan b,
              tr_batch b, tr_proposal_sha256 b, tr_registry b, tr_requirement_set b, tr_evidence_profile b] \<and>
             length ts \<le> max_ranked_products)
      then Inl (ValidationError ''typed ranked product batch field'')
      else bind (validate_proposal U H pr) (\<lambda>_.
        bind (check_all (validate_typed_product U H) ts) (\<lambda>_.
        if tr_profile b \<noteq> typed_profile_digest H \<or> tr_source_profile b \<noteq> ranking_profile_digest H
        then Inl (ValidationError ''typed ranking profile binding is unsupported'')
        else if prop_status pr \<noteq> Ready \<or> prop_issues pr \<noteq> []
        then Inl (ValidationError ''typed ranking requires a ready proposal'')
        else bind (typed_requirement_proposal_sha256 U H pr) (\<lambda>digest.
        if tr_proposal_sha256 b \<noteq> digest \<or> tr_intent b \<noteq> prop_intent pr \<or>
           tr_registry b \<noteq> prop_registry_sha256 pr \<or> tr_requirement_set b \<noteq> prop_requirement_set pr
        then Inl (ValidationError ''typed proposal binding is inconsistent'')
        else bind (attribute_registry_sha256 U H (prop_registry pr)) (\<lambda>registry.
        bind (typed_requirement_set_sha256 U H (prop_registry pr) (prop_requirements pr)) (\<lambda>requirements.
        if tr_registry b \<noteq> registry \<or> tr_requirement_set b \<noteq> requirements \<or>
           tr_evidence_profile b \<noteq> evidence_profile_digest H
        then Inl (ValidationError ''typed domain binding is unsupported'')
        else if map tp_rank ts \<noteq> [1..<Suc (length ts)]
        then Inl (ValidationError ''typed ranked products must have contiguous ranks'')
        else if \<not> distinct (map (product_index \<circ> tp_product) ts)
        then Inl (ValidationError ''typed ranked products must have unique response indexes'')
        else bind (check_all (reproducible U H (tr_plan b) pr) ts) (\<lambda>_.
        bind (map_result (\<lambda>t. typed_sort_key (tp_product t) (tp_evaluation t) (tp_breakdown t)) ts) (\<lambda>ks.
        if ks \<noteq> sort ks then Inl (ValidationError ''typed ranked products are not in canonical order'')
        else Inr ()))))))))"

section \<open>Ranking\<close>

record scored_product =
  sp_product :: product_candidate
  sp_evidence :: evidence_set
  sp_evaluation :: evaluation
  sp_breakdown :: typed_breakdown

definition score_with_evidence ::
  "text_library \<Rightarrow> (string \<Rightarrow> string) \<Rightarrow> requirement_proposal \<Rightarrow> ranked_batch \<Rightarrow> product_candidate \<Rightarrow>
   scored_product result" where
  "score_with_evidence U H pr source p =
     bind (build_product_evidence U H (prop_registry pr) (prop_requirements pr) p) (\<lambda>s.
     bind (evaluate_product U H (prop_registry pr) (prop_requirements pr) s) (\<lambda>v.
     case dict_get (map (\<lambda>x. (product_index (rp_product x), x)) (rb_products source)) (product_index p) of
       None \<Rightarrow> Inl KeyError
     | Some x \<Rightarrow>
         bind (score_typed_product U (prop_registry pr) (prop_requirements pr) v (rp_breakdown x)) (\<lambda>b.
           Inr \<lparr>sp_product = p, sp_evidence = s, sp_evaluation = v, sp_breakdown = b\<rparr>)))"

definition with_typed_ranks :: "scored_product list \<Rightarrow> typed_ranked_product list" where
  "with_typed_ranks xs =
     map (\<lambda>(n, x). \<lparr>tp_rank = n, tp_product = sp_product x, tp_evidence = sp_evidence x,
           tp_evaluation = sp_evaluation x, tp_breakdown = sp_breakdown x\<rparr>) (enumerate 1 xs)"

text \<open>\<open>sorted\<close> computes every key, then sorts stably by it.\<close>

definition order_scored :: "scored_product list \<Rightarrow> scored_product list result" where
  "order_scored xs =
     bind (map_result (\<lambda>x. typed_sort_key (sp_product x) (sp_evaluation x) (sp_breakdown x)) xs) (\<lambda>ks.
       Inr (map snd (sort_key fst (zip ks xs))))"

definition is_typed_ranking_failure :: "exn \<Rightarrow> bool" where
  "is_typed_ranking_failure e \<longleftrightarrow> e = AssertionError \<or> e = KeyError \<or> is_TypeError e \<or> is_ValueError e"

definition rank_typed_product_batch ::
  "tokenizer_library \<Rightarrow> (int \<Rightarrow> rat) \<Rightarrow> (string \<Rightarrow> string) \<Rightarrow> normalized_intent \<Rightarrow> search_query_plan \<Rightarrow>
   product_batch \<Rightarrow> requirement_proposal \<Rightarrow> typed_ranked_batch result" where
  "rank_typed_product_batch T L H i plan batch pr =
     (let U = text_functions T in
      rewrap is_typed_ranking_failure TypedRankingError
       (bind (validate_normalized_intent i) (\<lambda>_.
        bind (validate_search_plan U plan) (\<lambda>plan'.
        bind (validate_batch batch) (\<lambda>_.
        bind (validate_proposal U H pr) (\<lambda>_.
        bind (search_intent_sha256 H i) (\<lambda>intent_digest.
        bind (search_query_plan_sha256 U H plan') (\<lambda>plan_digest.
        bind (normalized_product_batch_sha256 H batch) (\<lambda>batch_digest.
        bind (build_typed_requirement_proposal U H default_attribute_registry i) (\<lambda>expected.
        if qp_intent plan' \<noteq> intent_digest \<or> pb_plan batch \<noteq> plan_digest \<or>
           \<not> same_proposal pr expected \<or> prop_status pr \<noteq> Ready \<or> prop_issues pr \<noteq> []
        then Inl TypedRankingError
        else bind (rank_product_batch T L H i plan' batch) (\<lambda>source.
          bind (map_result (score_with_evidence U H pr source) (pb_products batch)) (\<lambda>xs.
          bind (order_scored xs) (\<lambda>ys.
          let ts = with_typed_ranks ys in
          bind (check_all (validate_typed_product U H) ts) (\<lambda>_.
          bind (ranked_product_batch_sha256 U H source) (\<lambda>source_digest.
          bind (typed_requirement_proposal_sha256 U H pr) (\<lambda>proposal_digest.
            let b = \<lparr>tr_profile = typed_profile_digest H, tr_source_profile = ranking_profile_digest H,
                     tr_source_batch = source_digest, tr_intent = intent_digest, tr_plan = plan_digest,
                     tr_batch = batch_digest, tr_proposal_sha256 = proposal_digest,
                     tr_registry = prop_registry_sha256 pr,
                     tr_requirement_set = prop_requirement_set pr,
                     tr_evidence_profile = evidence_profile_digest H, tr_proposal = pr, tr_products = ts\<rparr>
            in bind (validate_typed_batch U H b) (\<lambda>_. Inr b)))))))))))))))))"

section \<open>Digest\<close>

definition typed_breakdown_json :: "typed_breakdown \<Rightarrow> json" where
  "typed_breakdown_json b =
     JObj [(''title'', component_json (tb_title b)), (''typed_attributes'', component_json (tb_typed b)),
           (''price'', component_json (tb_price b)), (''image'', component_json (tb_image b)),
           (''review_quality'', component_json (tb_review b)),
           (''typed_requirement_count'', JInt (tb_count b)),
           (''typed_satisfied_weight'', JInt (tb_satisfied b)),
           (''typed_total_weight'', JInt (tb_weight b)),
           (''available_base_weight'', json_float (tb_available b)),
           (''pre_penalty_score'', json_float (tb_pre_penalty b)),
           (''negative_penalty'', json_float (tb_penalty b)),
           (''total_score'', json_float (tb_total b)),
           (''title_language'', json_opt (JStr \<circ> language_name) (tb_title_language b)),
           (''negative_matches'', json_texts (tb_negative b))]"

fun decision_state_name :: "decision_state \<Rightarrow> string" where
  "decision_state_name Match = ''match''"
| "decision_state_name Mismatch = ''mismatch''"
| "decision_state_name Unknown = ''unknown''"
| "decision_state_name Conflict = ''conflict''"

fun decision_reason_name :: "decision_reason \<Rightarrow> string" where
  "decision_reason_name Reason_matched = ''matched''"
| "decision_reason_name Did_not_match = ''did_not_match''"
| "decision_reason_name No_observed_evidence = ''no_observed_evidence''"
| "decision_reason_name Highest_priority_conflict = ''highest_priority_conflict''"

fun required_status_name :: "required_status \<Rightarrow> string" where
  "required_status_name Confirmed = ''confirmed''"
| "required_status_name Uncertain = ''uncertain''"
| "required_status_name Contradicted = ''contradicted''"

definition decision_json :: "decision \<Rightarrow> json" where
  "decision_json d =
     JObj [(''schema_version'', JStr ''1.0''), (''requirement_id'', JStr (dec_requirement d)),
           (''requirement_sha256'', JStr (dec_requirement_sha256 d)),
           (''product_sha256'', JStr (dec_product d)), (''registry_sha256'', JStr (dec_registry d)),
           (''state'', JStr (decision_state_name (dec_state d))),
           (''reason'', JStr (decision_reason_name (dec_reason d))),
           (''accepted_evidence_sha256'', json_texts (dec_accepted d)),
           (''rejected_evidence_sha256'', json_texts (dec_rejected d))]"

definition evaluation_json :: "evaluation \<Rightarrow> json" where
  "evaluation_json v =
     JObj [(''schema_version'', JStr ''1.0''), (''product_sha256'', JStr (ev_product v)),
           (''registry_sha256'', JStr (ev_registry v)),
           (''requirement_set_sha256'', JStr (ev_requirement_set v)),
           (''required_status'', JStr (required_status_name (ev_status v))),
           (''required_match_ratio'', json_float (ev_required_ratio v)),
           (''preferred_match_ratio'', json_float (ev_preferred_ratio v)),
           (''evidence_coverage'', json_float (ev_coverage v)),
           (''decisions'', JArr (map decision_json (ev_decisions v)))]"

definition typed_product_json :: "typed_ranked_product \<Rightarrow> json" where
  "typed_product_json t =
     JObj [(''schema_version'', JStr ''4.0''), (''rank'', JInt (int (tp_rank t))),
           (''product'', product_json (tp_product t)),
           (''evidence'', evidence_set_json (tp_evidence t)),
           (''evaluation'', evaluation_json (tp_evaluation t)),
           (''breakdown'', typed_breakdown_json (tp_breakdown t))]"

definition typed_batch_json :: "typed_ranked_batch \<Rightarrow> json" where
  "typed_batch_json b =
     JObj [(''schema_version'', JStr ''4.0''), (''ranking_profile_id'', JStr ''typed-ranking-v4''),
           (''ranking_profile_sha256'', JStr (tr_profile b)),
           (''source_ranking_profile_id'', JStr ''ranking-v3''),
           (''source_ranking_profile_sha256'', JStr (tr_source_profile b)),
           (''source_ranked_product_batch_sha256'', JStr (tr_source_batch b)),
           (''intent_sha256'', JStr (tr_intent b)), (''query_plan_sha256'', JStr (tr_plan b)),
           (''normalized_product_batch_sha256'', JStr (tr_batch b)),
           (''typed_requirement_proposal_sha256'', JStr (tr_proposal_sha256 b)),
           (''registry_sha256'', JStr (tr_registry b)),
           (''requirement_set_sha256'', JStr (tr_requirement_set b)),
           (''evidence_profile_sha256'', JStr (tr_evidence_profile b)),
           (''proposal'', proposal_json (tr_proposal b)),
           (''products'', JArr (map typed_product_json (tr_products b)))]"

definition typed_batch_domain :: string where
  "typed_batch_domain = ''amazon-explorer-typed-ranked-product-batch-v4'' @ [CHR 0x00]"

definition typed_ranked_product_batch_sha256 ::
  "text_library \<Rightarrow> (string \<Rightarrow> string) \<Rightarrow> typed_ranked_batch \<Rightarrow> string result" where
  "typed_ranked_product_batch_sha256 U H b =
     rewrap is_contract_error TypedRankingError
      (bind (validate_typed_batch U H b) (\<lambda>_.
        Inr (canonical_sha256 H typed_batch_domain (typed_batch_json b))))"

end
