(* ===== verification/Typed_Ranking_Props.thy ===== *)
theory Typed_Ranking_Props
  imports Product_Evidence_Props Typed_Ranking Product_Ranking_Props
begin

text \<open>
  Facts about the typed ranking: the score of a product exists whenever its evaluation does and its
  breakdown passes the contract, the total keeps the bounds of \<open>ranking.py\<close>, and a ranked batch is the
  products in the order of their keys.
\<close>

section \<open>Components\<close>

lemma valid_component_raw:
  assumes "validate_component c = Inr ()"
  shows "raw_ok (raw_source c)" and "sc_status c = Disabled \<Longrightarrow> raw_source c = image_disabled"
  using assms
  by (cases "sc_status c"; auto simp: validate_component_def raw_ok_def raw_source_def image_disabled_def
      split: if_splits)+

lemma raw_ok_typed: "raw_ok (raw_typed s)" "rc_status (raw_typed s) = (if s = None then Missing else Available)"
  by (cases s; simp add: raw_typed_def)+

lemma effective_positive: "0 < w \<Longrightarrow> 0 < effective_of a w \<Longrightarrow> 0 < a"
proof (rule ccontr)
  assume w: "0 < w" "0 < effective_of a w" and "\<not> 0 < a"
  then have "w / a \<le> 0" by (simp add: divide_nonneg_nonpos)
  then have "float_of (w / a) \<le> 0" by (rule float_of_sign)
  then have "float_of (w / a) * 10 ^ effective_weight_decimals \<le> of_int 0" by (simp add: mult_nonpos_nonneg)
  then have "half_even (float_of (w / a) * 10 ^ effective_weight_decimals) \<le> 0" by (rule half_even_le)
  then have "(of_int (half_even (float_of (w / a) * 10 ^ effective_weight_decimals)) :: rat) / 10 ^ effective_weight_decimals \<le> 0"
    by (simp add: divide_nonpos_pos)
  then have "effective_of a w \<le> 0" unfolding effective_of_def round_to_def by (rule float_of_sign)
  with w show False by simp
qed

text \<open>On valid raw components this module builds what \<open>ranking.py\<close> builds.\<close>

lemma typed_components_built:
  assumes ok: "raw_ok t" "raw_ok a" "raw_ok p" "raw_ok r"
  defines "raws \<equiv> [t, a, p, image_disabled, r]"
  shows "map_result (\<lambda>(raw, w). typed_component raw w (available_weight raws base_weights)) (zip raws base_weights) =
    Inr (map2 (component_of (available_weight raws base_weights)) raws base_weights)"
proof -
  let ?a = "available_weight raws base_weights"
  note cs = components_valid(1,2) [OF ok, folded raws_def]
  have raw: "raw_ok x" if "x \<in> set raws" for x
    using that ok by (auto simp: raws_def raw_ok_def image_disabled_def)
  have "typed_component x w ?a = build_component x w ?a" if z: "(x, w) \<in> set (zip raws base_weights)" for x w
  proof (cases "rc_status x = Available")
    case True
    have "component_of ?a x w \<in> set (map2 (component_of ?a) raws base_weights)" using z by force
    then have "validate_component (component_of ?a x w) = Inr ()" using cs(2) by blast
    then have "0 < effective_of ?a w"
      using True by (auto simp: validate_component_def component_of_def is_available_def split: if_splits)
    moreover have "0 < w" using base_weights_bounds set_zip_rightD [OF z] by blast
    ultimately have "0 < ?a" using effective_positive by blast
    moreover have "rc_score x \<noteq> None" using raw [OF set_zip_leftD [OF z]] True by (simp add: raw_ok_def)
    ultimately show ?thesis by (auto simp: typed_component_def)
  qed (simp add: typed_component_def)
  then have "map_result (\<lambda>(raw, w). typed_component raw w ?a) xs = map_result (\<lambda>(raw, w). build_component raw w ?a) xs"
    if "set xs \<subseteq> set (zip raws base_weights)" for xs
    using that by (induction xs) auto
  then show ?thesis using cs(1) by (simp add: build_components_def)
qed

section \<open>The share of satisfied conditions\<close>

lemma round_to_fixed:
  assumes "0 \<le> y" and "y \<le> 1"
  shows "round_to score_decimals (round_to score_decimals y) = round_to score_decimals y"
proof -
  define k where "k = half_even (y * 10 ^ score_decimals)"
  have "0 \<le> k" "k \<le> 10 ^ score_decimals"
    unfolding k_def using assms by (intro half_even_ge half_even_le; simp add: score_decimals_def)+
  then have k: "0 \<le> (of_int k :: rat)" "(of_int k :: rat) \<le> 10000" by (simp_all add: score_decimals_def)
  define x :: rat where "x = of_int k / 10 ^ score_decimals"
  have x: "0 \<le> x" "x < 2" "x * 10000 = of_int k" unfolding x_def score_decimals_def using k by simp_all
  have "half_even (float_of x * 10 ^ score_decimals) = k"
    using float_of_error [OF x(1,2)] x(3) by (intro half_even_near) (simp_all add: score_decimals_def)
  then show ?thesis unfolding round_to_def k_def [symmetric] x_def [symmetric] by (simp add: x_def)
qed

lemma weight_share_bounds:
  assumes "0 \<le> s" and "s \<le> w" and "0 < w"
  shows "0 \<le> weight_share s w" "weight_share s w \<le> 1"
    and "rounded_score (scored (weight_share s w)) = weight_share s w"
proof -
  have q: "0 \<le> (of_int s :: rat) / of_int w" "(of_int s :: rat) / of_int w \<le> 1" using assms by simp_all
  then have f: "0 \<le> float_of (of_int s / of_int w)" "float_of (of_int s / of_int w) \<le> 1"
    by (simp_all add: float_of_le_1)
  then show b: "0 \<le> weight_share s w" "weight_share s w \<le> 1"
    unfolding weight_share_def by (rule round_to_unit)+
  then have "clip_unit (weight_share s w) = weight_share s w" by (simp add: clip_unit_def)
  then show "rounded_score (scored (weight_share s w)) = weight_share s w"
    using round_to_fixed [OF f] by (simp add: rounded_score_def scored_def weight_share_def)
qed

text \<open>What the shares of at most 64 conditions satisfy.\<close>

definition share_ok :: "typed_share \<Rightarrow> bool" where
  "share_ok t \<longleftrightarrow> 0 \<le> ts_count t \<and> ts_count t \<le> 64 \<and>
     (if ts_count t = 0 then ts_satisfied t = 0 \<and> ts_total t = 0 \<and> ts_score t = None
      else 0 \<le> ts_satisfied t \<and> ts_satisfied t \<le> ts_total t \<and> 0 < ts_total t \<and> ts_total t \<le> max_typed_weight \<and>
        ts_score t = Some (weight_share (ts_satisfied t) (ts_total t)))"

lemma typed_score_share:
  assumes "typed_score U r qs v = Inr t" and "length qs \<le> 64"
  shows "share_ok t"
proof (cases "qs = []")
  case False
  with assms(1) obtain ws where ws: "map_result (requirement_weight U r v) qs = Inr ws" and
    t: "t = \<lparr>ts_count = int (length qs), ts_satisfied = sum_list (map fst (filter snd ws)),
             ts_total = sum_list (map fst ws),
             ts_score = Some (weight_share (sum_list (map fst (filter snd ws))) (sum_list (map fst ws)))\<rparr>"
    by (auto simp: typed_score_def Let_def)
  have w: "\<forall>x\<in>set ws. 1 \<le> fst x \<and> fst x \<le> 100"
  proof
    fix x assume "x \<in> set ws"
    from map_result_mem [OF ws this] obtain q where "requirement_weight U r v q = Inr x" by blast
    then show "1 \<le> fst x \<and> fst x \<le> 100"
      using attribute_definition_weight by (auto simp: requirement_weight_def split: option.splits)
  qed
  have len: "length ws = length qs" by (rule map_result_length [OF ws])
  note sums = weight_sums(1,2) [OF w, where p = snd] weight_sums(3) [OF w]
  have "0 < sum_list (map fst ws)"
    using sums(1,2) weight_sums(5) [OF w, where p = "\<lambda>_. True"] False len
    by (metis filter_True le_neq_trans length_0_conv list.set_sel(1) order_trans)
  moreover have "sum_list (map fst ws) \<le> 6400" using sums(3) assms(2) len by linarith
  ultimately show ?thesis
    using sums(1,2) False assms(2) by (simp add: share_ok_def t max_typed_weight_def)
qed (use assms in \<open>auto simp: typed_score_def share_ok_def\<close>)

section \<open>The breakdown\<close>

definition typed_raws :: "typed_share \<Rightarrow> score_breakdown \<Rightarrow> raw_component list" where
  "typed_raws t source =
     [raw_source (sb_title source), raw_typed (ts_score t), raw_source (sb_price source),
      image_disabled, raw_source (sb_review source)]"

lemma breakdown_source:
  assumes "validate_breakdown U b = Inr ()"
  shows "raw_ok (raw_source (sb_title b))" "raw_ok (raw_source (sb_price b))" "raw_ok (raw_source (sb_review b))"
    "raw_source (sb_image b) = image_disabled" "sc_status (sb_review b) \<noteq> Disabled"
    "sc_status (sb_title b) = Available \<longleftrightarrow> sb_title_language b \<noteq> None"
    "score_terms (sb_negative b)" "has_unique_text U (sb_negative b)"
  using assms valid_component_raw
  by (auto simp: validate_breakdown_def breakdown_components_def Let_def split: if_splits)

lemma close_mono: "is_close a b s \<Longrightarrow> s \<le> t \<Longrightarrow> 0 \<le> t \<Longrightarrow> is_close a b t"
  by (auto simp: is_close_def)

lemma score_typed_ok:
  assumes share: "typed_score U r qs v = Inr t" "share_ok t" and source: "validate_breakdown U source = Inr ()"
  obtains b where "score_typed_product U r qs v source = Inr b" and "validate_typed_breakdown U b = Inr ()"
    and "tb_count b = ts_count t" and "tb_satisfied b = ts_satisfied t" and "tb_weight b = ts_total t"
    and "sc_score (tb_typed b) = ts_score t" and "tb_negative b = sb_negative source"
proof -
  note src = breakdown_source [OF source]
  define raws where "raws = typed_raws t source"
  define cs where "cs = map2 (component_of (available_weight raws base_weights)) raws base_weights"
  note ok = src(1) raw_ok_typed(1) [of "ts_score t"] src(2,3)
  note valid = components_valid [OF ok, folded typed_raws_def [of t source], folded raws_def, folded cs_def]
  note built = typed_components_built [OF ok, folded typed_raws_def [of t source], folded raws_def, folded cs_def]
  define b where "b = \<lparr>tb_title = cs ! 0, tb_typed = cs ! 1, tb_price = cs ! 2, tb_image = cs ! 3,
    tb_review = cs ! 4, tb_count = ts_count t, tb_satisfied = ts_satisfied t, tb_weight = ts_total t,
    tb_available = round_to score_decimals (available_weight raws base_weights),
    tb_pre_penalty = pre_penalty_of cs, tb_penalty = penalty_of (length (sb_negative source)),
    tb_total = total_of (pre_penalty_of cs) (penalty_of (length (sb_negative source))),
    tb_title_language = sb_title_language source, tb_negative = sb_negative source\<rparr>"
  have sel: "tb_title b = cs ! 0" "tb_typed b = cs ! 1" "tb_image b = cs ! 3" "tb_review b = cs ! 4"
    "tb_count b = ts_count t" "tb_satisfied b = ts_satisfied t" "tb_weight b = ts_total t"
    "tb_pre_penalty b = pre_penalty_of cs" "tb_penalty b = penalty_of (length (sb_negative source))"
    "tb_total b = total_of (pre_penalty_of cs) (penalty_of (length (sb_negative source)))"
    "tb_title_language b = sb_title_language source" "tb_negative b = sb_negative source"
    by (simp_all add: b_def)
  have cs5: "cs = [cs ! 0, cs ! 1, cs ! 2, cs ! 3, cs ! 4]"
    unfolding cs_def raws_def typed_raws_def base_weights_def by simp
  have comps: "typed_components b = cs"
    by (simp only: typed_components_def b_def typed_breakdown.select_convs cs5 [symmetric])
  have status: "sc_status (cs ! 0) = sc_status (sb_title source)" "sc_status (cs ! 3) = Disabled"
    "sc_status (cs ! 4) = sc_status (sb_review source)"
    "sc_status (cs ! 1) = (if ts_score t = None then Missing else Available)"
    unfolding cs_def raws_def typed_raws_def base_weights_def
    using raw_ok_typed(2) by (simp_all add: raw_source_def image_disabled_def)
  have typed: "sc_reason (cs ! 1) = (if ts_score t = None then Not_requested else Scored)"
    "sc_score (cs ! 1) = ts_score t"
    using share(2) weight_share_bounds(3) [of "ts_satisfied t" "ts_total t"]
    unfolding cs_def raws_def typed_raws_def base_weights_def share_ok_def
    by (auto simp: component_of_def raw_typed_def is_available_def missing_def scored_def split: if_splits)
  have close: "effective_normalized (float_of (3 / 10 ^ 6)) cs"
    using valid(3) float_of_mono [of "2 / 10 ^ 6" "3 / 10 ^ 6"]
    by (auto simp: effective_normalized_def Let_def intro: close_mono)
  have consistent: "(ts_count t = 0 \<longrightarrow> ts_total t = 0 \<and> ts_satisfied t = 0 \<and> ts_score t = None) \<and>
      (ts_count t \<noteq> 0 \<longrightarrow> typed_component_consistent b)"
    using share(2) status(4) typed
    by (auto simp: share_ok_def typed_component_consistent_def sel)
  have fields: "0 \<le> ts_count t" "ts_count t \<le> 64" "0 \<le> ts_satisfied t" "ts_satisfied t \<le> max_typed_weight"
    "0 \<le> ts_total t" "ts_total t \<le> max_typed_weight"
    using share(2) by (auto simp: share_ok_def max_typed_weight_def split: if_splits)
  have avail: "unit_value (tb_available b)" "tb_available b = base_total_of cs"
    using valid(5,6) unfolding b_def by simp_all
  have good: "validate_typed_breakdown U b = Inr ()"
    unfolding validate_typed_breakdown_def Let_def comps sel
    using valid avail penalty_unit [of "length (sb_negative source)"] total_unit status typed close consistent fields
      src(5-8)
    by auto
  have "score_typed_product U r qs v source = Inr b"
    unfolding score_typed_product_def share(1) bind_Inr Let_def src(4) typed_raws_def [of t source, symmetric]
      raws_def [symmetric] built b_def [symmetric] good ..
  from that [OF this good] typed(2) show thesis by (simp add: sel)
qed

section \<open>The evaluation of a product\<close>

text \<open>The status of a product as a statement about its evidence: \<open>verdict\<close> decides each condition from
  the observed evidence of the highest priority.\<close>

definition verdict_of :: "evidence_set \<Rightarrow> typed_requirement \<Rightarrow> decision_state" where
  "verdict_of s q = verdict q {b \<in> set (es_observations s). obs_requirement b = req_id q}"

lemma verdict_of_observations: "verdict_of s q = verdict q (set (observations_for s q))"
  by (simp add: verdict_of_def observations_for_def)

lemma evaluation_parts:
  assumes "evaluate_product U H r qs s = Inr v"
  obtains ds where "map_result (\<lambda>q. adjudicate_requirement U H r q (es_product s) (observations_for s q)) qs = Inr ds"
    and "evaluate_typed_product U H r qs ds (es_product s) = Inr v"
  using assms by (auto simp: evaluate_product_def)

lemma reported_verdict:
  assumes "evaluate_product U H r qs s = Inr v" and "(q, d) \<in> report qs v"
  shows "q \<in> set qs" and "dec_requirement d = req_id q" and "dec_state d = verdict_of s q"
proof -
  from evaluation_parts [OF assms(1)] obtain ds where
    m: "map_result (\<lambda>q. adjudicate_requirement U H r q (es_product s) (observations_for s q)) qs = Inr ds" and
    e: "evaluate_typed_product U H r qs ds (es_product s) = Inr v" .
  note rep = evaluation_report(1,2) [OF e]
  show q: "q \<in> set qs" using assms(2) unfolding report_def by (rule set_zip_leftD)
  from rep(1) assms(2) have d: "d \<in> set ds" "dec_requirement d = req_id q" by blast+
  then show "dec_requirement d = req_id q" by blast
  from map_result_mem [OF m d(1)] obtain q' where q': "q' \<in> set qs"
    "adjudicate_requirement U H r q' (es_product s) (observations_for s q') = Inr d" by blast
  note spec = adjudicate_spec(1,4) [OF q'(2)]
  from e obtain "distinct (map req_id qs)" by (rule evaluate_parts)
  moreover have "req_id q' = req_id q" using spec(2) d(2) by simp
  ultimately have "q' = q" using q q'(1) by (auto simp: distinct_map dest: inj_onD)
  with spec(1) show "dec_state d = verdict_of s q" by (simp add: verdict_of_observations)
qed

lemma reported_all:
  assumes "evaluate_product U H r qs s = Inr v" and "q \<in> set qs"
  obtains d where "(q, d) \<in> report qs v"
proof -
  from evaluation_parts [OF assms(1)] obtain ds where
    e: "evaluate_typed_product U H r qs ds (es_product s) = Inr v" by metis
  from evaluation_report(2) [OF e] assms(2) have "q \<in> fst ` set (zip qs (ev_decisions v))" by (metis list.set_map)
  then show thesis using that by (auto simp: report_def)
qed

lemma report_verdicts:
  assumes "evaluate_product U H r qs s = Inr v"
  shows "(\<exists>(q, d)\<in>report qs v. P q (dec_state d)) \<longleftrightarrow> (\<exists>q\<in>set qs. P q (verdict_of s q))"
    and "(\<forall>(q, d)\<in>report qs v. P q (dec_state d)) \<longleftrightarrow> (\<forall>q\<in>set qs. P q (verdict_of s q))"
proof -
  let ?f = "\<lambda>x. (fst x, dec_state (snd x))" and ?g = "\<lambda>q. (q, verdict_of s q)"
  have eq: "?f ` report qs v = ?g ` set qs"
  proof (intro equalityI subsetI)
    fix y assume "y \<in> ?f ` report qs v"
    then obtain q d where "(q, d) \<in> report qs v" "y = (q, dec_state d)" by auto
    with reported_verdict(1,3) [OF assms] show "y \<in> ?g ` set qs" by force
  next
    fix y assume "y \<in> ?g ` set qs"
    then obtain q where q: "q \<in> set qs" "y = (q, verdict_of s q)" by blast
    obtain d where d: "(q, d) \<in> report qs v" using reported_all [OF assms q(1)] .
    with q(2) reported_verdict(3) [OF assms d] have "y = ?f (q, d)" by simp
    with d show "y \<in> ?f ` report qs v" by (rule rev_image_eqI)
  qed
  have "(\<exists>(q, d)\<in>report qs v. P q (dec_state d)) \<longleftrightarrow> (\<exists>y\<in>?f ` report qs v. P (fst y) (snd y))"
    by (simp add: case_prod_unfold)
  then show "(\<exists>(q, d)\<in>report qs v. P q (dec_state d)) \<longleftrightarrow> (\<exists>q\<in>set qs. P q (verdict_of s q))"
    unfolding eq by simp
  have "(\<forall>(q, d)\<in>report qs v. P q (dec_state d)) \<longleftrightarrow> (\<forall>y\<in>?f ` report qs v. P (fst y) (snd y))"
    by (simp add: case_prod_unfold)
  then show "(\<forall>(q, d)\<in>report qs v. P q (dec_state d)) \<longleftrightarrow> (\<forall>q\<in>set qs. P q (verdict_of s q))"
    unfolding eq by simp
qed

lemma evaluation_status:
  assumes "evaluate_product U H r qs s = Inr v"
  shows "ev_status v = Contradicted \<longleftrightarrow> (\<exists>q\<in>set qs. contradicts q (verdict_of s q))"
    and "ev_status v = Confirmed \<longleftrightarrow> (\<forall>q\<in>set qs.
      (req_strength q = Required \<longrightarrow> verdict_of s q = Match) \<and> (req_strength q = Excluded \<longrightarrow> verdict_of s q = Mismatch))"
    and "validate_evaluation v = Inr ()" and "ev_product v = es_product s" and "length qs \<le> 64"
proof -
  from evaluation_parts [OF assms] obtain ds where
    e: "evaluate_typed_product U H r qs ds (es_product s) = Inr v" by metis
  note report = evaluation_report [OF e]
  show "ev_status v = Contradicted \<longleftrightarrow> (\<exists>q\<in>set qs. contradicts q (verdict_of s q))"
    using report(3) report_verdicts(1) [OF assms, of contradicts] by simp
  show "ev_status v = Confirmed \<longleftrightarrow> (\<forall>q\<in>set qs.
      (req_strength q = Required \<longrightarrow> verdict_of s q = Match) \<and> (req_strength q = Excluded \<longrightarrow> verdict_of s q = Mismatch))"
    using report(4) report_verdicts(2) [OF assms, of "\<lambda>q x. (req_strength q = Required \<longrightarrow> x = Match) \<and>
      (req_strength q = Excluded \<longrightarrow> x = Mismatch)"] by simp
  show "validate_evaluation v = Inr ()"
    using e by (auto simp: evaluate_typed_product_def Let_def if_Inl_eq_Inr)
  show "ev_product v = es_product s" "length qs \<le> 64" using e by (rule evaluate_parts; simp)+
qed

text \<open>A verdict other than unknown rests on observed evidence.\<close>

lemma verdict_observed: "verdict_of s q \<noteq> Unknown \<Longrightarrow> \<exists>b\<in>set (observations_for s q). is_observed b"
  by (rule ccontr) (simp add: verdict_of_observations verdict_def)

text \<open>The evaluation of built evidence has a share.\<close>

lemma typed_score_exists:
  assumes "build_product_evidence U H r qs p = Inr s" and "evaluate_product U H r qs s = Inr v"
  obtains t where "typed_score U r qs v = Inr t" and "share_ok t"
proof -
  have "\<exists>w. requirement_weight U r v q = Inr w" if q: "q \<in> set qs" for q
  proof -
    obtain d where d: "attribute_definition_of U r (req_key q) = Inr d"
      using evidence_of_requirement [OF assms(1) q] by metis
    obtain e where e: "(q, e) \<in> report qs v" using reported_all [OF assms(2) q] .
    then have "e \<in> set (ev_decisions v)" unfolding report_def by (rule set_zip_rightD)
    moreover have "dec_requirement e = req_id q" by (rule reported_verdict(2) [OF assms(2) e])
    ultimately have "req_id q \<in> fst ` set (map (\<lambda>e. (dec_requirement e, e)) (ev_decisions v))" by force
    then obtain x where "dict_get (map (\<lambda>e. (dec_requirement e, e)) (ev_decisions v)) (req_id q) = Some x"
      using dict_get_exists by metis
    with d show ?thesis by (simp add: requirement_weight_def)
  qed
  then obtain ws where "map_result (requirement_weight U r v) qs = Inr ws"
    using map_result_ex [of qs "requirement_weight U r v" "\<lambda>_ _. True"] by blast
  then have "\<exists>t. typed_score U r qs v = Inr t" by (simp add: typed_score_def Let_def)
  then obtain t where "typed_score U r qs v = Inr t" ..
  with that typed_score_share [OF this evaluation_status(5) [OF assms(2)]] show thesis by blast
qed

section \<open>Scored products\<close>

text \<open>What scoring a product of a batch returns.\<close>

definition scored_ok ::
  "text_library \<Rightarrow> (string \<Rightarrow> string) \<Rightarrow> requirement_proposal \<Rightarrow> product_candidate \<Rightarrow> scored_product \<Rightarrow> bool" where
  "scored_ok U H pr p x \<longleftrightarrow> sp_product x = p \<and>
     build_product_evidence U H (prop_registry pr) (prop_requirements pr) p = Inr (sp_evidence x) \<and>
     evaluate_product U H (prop_registry pr) (prop_requirements pr) (sp_evidence x) = Inr (sp_evaluation x) \<and>
     (\<exists>t. typed_score U (prop_registry pr) (prop_requirements pr) (sp_evaluation x) = Inr t \<and>
        tb_count (sp_breakdown x) = ts_count t \<and> tb_satisfied (sp_breakdown x) = ts_satisfied t \<and>
        tb_weight (sp_breakdown x) = ts_total t \<and> sc_score (tb_typed (sp_breakdown x)) = ts_score t) \<and>
     validate_typed_breakdown U (sp_breakdown x) = Inr ()"

lemma score_with_evidence_ok:
  assumes s: "build_product_evidence U H (prop_registry pr) (prop_requirements pr) p = Inr s"
    and v: "evaluate_product U H (prop_registry pr) (prop_requirements pr) s = Inr v"
    and mem: "p \<in> set (map rp_product (rb_products source))"
    and good: "\<forall>x\<in>set (rb_products source). validate_breakdown U (rp_breakdown x) = Inr ()"
  shows "\<exists>x. score_with_evidence U H pr source p = Inr x \<and> scored_ok U H pr p x"
proof -
  obtain t where t: "typed_score U (prop_registry pr) (prop_requirements pr) v = Inr t" "share_ok t"
    using typed_score_exists [OF s v] .
  have "product_index p \<in> fst ` set (map (\<lambda>x. (product_index (rp_product x), x)) (rb_products source))"
    using mem by force
  then obtain x where x: "dict_get (map (\<lambda>x. (product_index (rp_product x), x)) (rb_products source)) (product_index p) = Some x"
    using dict_get_exists by metis
  from dict_get_mem [OF this] have "x \<in> set (rb_products source)" by auto
  with good have "validate_breakdown U (rp_breakdown x) = Inr ()" by blast
  from score_typed_ok [OF t this] obtain b where b: "score_typed_product U (prop_registry pr) (prop_requirements pr) v
      (rp_breakdown x) = Inr b" "validate_typed_breakdown U b = Inr ()" "tb_count b = ts_count t"
      "tb_satisfied b = ts_satisfied t" "tb_weight b = ts_total t" "sc_score (tb_typed b) = ts_score t" .
  let ?x = "\<lparr>sp_product = p, sp_evidence = s, sp_evaluation = v, sp_breakdown = b\<rparr>"
  have "score_with_evidence U H pr source p = Inr ?x"
    using s v x b(1) by (simp add: score_with_evidence_def)
  moreover have "scored_ok U H pr p ?x" using s v t(1) b(2-6) by (simp add: scored_ok_def)
  ultimately show ?thesis by blast
qed

text \<open>The key of a scored product.\<close>

definition typed_key :: "scored_product \<Rightarrow> int \<times> rat \<times> rat \<times> rat \<times> int" where
  "typed_key x = (status_order (ev_status (sp_evaluation x)), - ev_required_ratio (sp_evaluation x),
     - ev_preferred_ratio (sp_evaluation x), - tb_total (sp_breakdown x), int (product_index (sp_product x)))"

lemma typed_breakdown_total: "validate_typed_breakdown U b = Inr () \<Longrightarrow> unit_value (tb_total b)"
  by (auto simp: validate_typed_breakdown_def Let_def split: if_splits)

lemma product_index_small: "validate_product p = Inr () \<Longrightarrow> product_index p < 48"
  by (auto simp: validate_product_def validate_product_provenance_def product_index_def split: if_splits)

lemma typed_sort_key_ok:
  assumes "scored_ok U H pr p x"
  shows "typed_sort_key (sp_product x) (sp_evaluation x) (sp_breakdown x) = Inr (typed_key x)"
proof -
  have "validate_evaluation (sp_evaluation x) = Inr ()" "unit_value (tb_total (sp_breakdown x))"
    "product_index (sp_product x) < 48"
    using assms evaluation_status(3) typed_breakdown_total product_index_small
    by (auto simp: scored_ok_def elim: evidence_parts)
  then show ?thesis by (simp add: typed_sort_key_def typed_product_sort_key_def typed_key_def unit_value_def)
qed

lemma order_scored_ok:
  assumes "\<forall>x\<in>set xs. typed_sort_key (sp_product x) (sp_evaluation x) (sp_breakdown x) = Inr (typed_key x)"
  shows "order_scored xs = Inr (sort_key typed_key xs)"
proof -
  have keys: "map_result (\<lambda>x. typed_sort_key (sp_product x) (sp_evaluation x) (sp_breakdown x)) xs =
      Inr (map typed_key xs)"
    using assms by (rule map_result_fixed)
  have ins: "insort_key fst (k x, x) (map (\<lambda>x. (k x, x)) ys) = map (\<lambda>x. (k x, x)) (insort_key k x ys)"
    for k :: "scored_product \<Rightarrow> int \<times> rat \<times> rat \<times> rat \<times> int" and x ys
    by (induction ys) simp_all
  have "sort_key fst (map (\<lambda>x. (k x, x)) ys) = map (\<lambda>x. (k x, x)) (sort_key k ys)"
    for k :: "scored_product \<Rightarrow> int \<times> rat \<times> rat \<times> rat \<times> int" and ys
    by (induction ys) (simp_all add: sort_key_def ins)
  then have "map snd (sort_key fst (zip (map typed_key xs) xs)) = sort_key typed_key xs"
    by (simp add: zip_map1 zip_same_conv_map comp_def)
  then show ?thesis by (simp add: order_scored_def keys)
qed

section \<open>Ranked batches\<close>

text \<open>The order of the typed ranking, spelt out: the status of the required conditions first, then the
  ratio of matched required conditions, that of preferred ones, the total, the place in the response.\<close>

definition typed_before :: "typed_ranked_product \<Rightarrow> typed_ranked_product \<Rightarrow> bool" where
  "typed_before x y \<longleftrightarrow>
     (let v = tp_evaluation x; w = tp_evaluation y; a = tp_breakdown x; b = tp_breakdown y in
      status_order (ev_status v) < status_order (ev_status w) \<or>
      (ev_status v = ev_status w \<and>
       (ev_required_ratio w < ev_required_ratio v \<or>
        (ev_required_ratio w = ev_required_ratio v \<and>
         (ev_preferred_ratio w < ev_preferred_ratio v \<or>
          (ev_preferred_ratio w = ev_preferred_ratio v \<and>
           (tb_total b < tb_total a \<or>
            (tb_total b = tb_total a \<and> product_index (tp_product x) < product_index (tp_product y)))))))))"

definition unranked :: "typed_ranked_product \<Rightarrow> scored_product" where
  "unranked t = \<lparr>sp_product = tp_product t, sp_evidence = tp_evidence t, sp_evaluation = tp_evaluation t,
     sp_breakdown = tp_breakdown t\<rparr>"

lemma status_order_inj: "status_order a = status_order b \<longleftrightarrow> a = b"
  by (cases a; cases b) simp_all

lemma typed_before_key: "typed_before x y \<longleftrightarrow> typed_key (unranked x) < typed_key (unranked y)"
  by (auto simp: typed_before_def typed_key_def unranked_def less_prod_def Let_def status_order_inj)

lemma typed_ranks_from:
  "map tp_rank (map (\<lambda>(n, x). \<lparr>tp_rank = n, tp_product = sp_product x, tp_evidence = sp_evidence x,
       tp_evaluation = sp_evaluation x, tp_breakdown = sp_breakdown x\<rparr>) (enumerate n xs)) = [n..<n + length xs] \<and>
   map unranked (map (\<lambda>(n, x). \<lparr>tp_rank = n, tp_product = sp_product x, tp_evidence = sp_evidence x,
       tp_evaluation = sp_evaluation x, tp_breakdown = sp_breakdown x\<rparr>) (enumerate n xs)) = xs"
  by (induction xs arbitrary: n) (simp_all add: unranked_def upt_conv_Cons del: upt_Suc)

lemma with_typed_ranks_sel [simp]:
  "map tp_rank (with_typed_ranks xs) = [1..<Suc (length xs)]" "map unranked (with_typed_ranks xs) = xs"
  "length (with_typed_ranks xs) = length xs" "map tp_product (with_typed_ranks xs) = map sp_product xs"
proof -
  show 1: "map tp_rank (with_typed_ranks xs) = [1..<Suc (length xs)]" "map unranked (with_typed_ranks xs) = xs"
    using typed_ranks_from [of 1 xs] unfolding with_typed_ranks_def by simp_all
  show "length (with_typed_ranks xs) = length xs" by (simp add: with_typed_ranks_def)
  have "map tp_product (with_typed_ranks xs) = map sp_product (map unranked (with_typed_ranks xs))"
    by (simp add: unranked_def)
  then show "map tp_product (with_typed_ranks xs) = map sp_product xs" unfolding 1(2) .
qed

lemma ranked_scored: "t \<in> set (with_typed_ranks xs) \<Longrightarrow> unranked t \<in> set xs"
  using with_typed_ranks_sel(2) [of xs] by (metis image_eqI list.set_map)

lemma ranked_rank:
  assumes "t \<in> set (with_typed_ranks xs)"
  shows "1 \<le> tp_rank t" "tp_rank t \<le> length xs"
proof -
  have "tp_rank t \<in> set [1..<Suc (length xs)]"
    using assms with_typed_ranks_sel(1) by (metis image_eqI list.set_map)
  then show "1 \<le> tp_rank t" "tp_rank t \<le> length xs" by (simp_all del: upt_Suc)
qed

text \<open>What a successful ranking did.\<close>

lemma typed_ranking_steps:
  assumes "rank_typed_product_batch T L H i plan batch pr = Inr r"
  obtains source xs ks where "validate_batch batch = Inr ()"
    and "map_result (score_with_evidence (text_functions T) H pr source) (pb_products batch) = Inr xs"
    and "map_result (\<lambda>x. typed_sort_key (sp_product x) (sp_evaluation x) (sp_breakdown x)) xs = Inr ks"
    and "tr_products r = with_typed_ranks (map snd (sort_key fst (zip ks xs)))" and "tr_proposal r = pr"
    and "validate_typed_batch (text_functions T) H r = Inr ()"
  using assms unfolding rank_typed_product_batch_def Let_def rewrap_eq_Inr bind_eq_Inr if_Inl_eq_Inr order_scored_def
  by (elim exE conjE) (rule that, simp, assumption, assumption, auto)

lemma scored_parts:
  assumes "score_with_evidence U H pr source p = Inr x"
  shows "sp_product x = p"
    and "build_product_evidence U H (prop_registry pr) (prop_requirements pr) p = Inr (sp_evidence x)"
    and "evaluate_product U H (prop_registry pr) (prop_requirements pr) (sp_evidence x) = Inr (sp_evaluation x)"
    and "validate_typed_breakdown U (sp_breakdown x) = Inr ()"
  using assms
  by (auto simp: score_with_evidence_def score_typed_product_def Let_def split: option.splits)

lemma key_defined: "typed_sort_key (sp_product x) (sp_evaluation x) (sp_breakdown x) = Inr k \<Longrightarrow> k = typed_key x"
  by (auto simp: typed_sort_key_def typed_product_sort_key_def typed_key_def split: if_splits)

lemma typed_ranking_parts:
  assumes "rank_typed_product_batch T L H i plan batch pr = Inr r"
  obtains source xs where "validate_batch batch = Inr ()"
    and "map_result (score_with_evidence (text_functions T) H pr source) (pb_products batch) = Inr xs"
    and "map sp_product xs = pb_products batch"
    and "tr_products r = with_typed_ranks (sort_key typed_key xs)"
    and "tr_proposal r = pr" and "validate_typed_batch (text_functions T) H r = Inr ()"
proof -
  from typed_ranking_steps [OF assms] obtain source xs ks where b: "validate_batch batch = Inr ()"
    and m: "map_result (score_with_evidence (text_functions T) H pr source) (pb_products batch) = Inr xs"
    and k: "map_result (\<lambda>x. typed_sort_key (sp_product x) (sp_evaluation x) (sp_breakdown x)) xs = Inr ks"
    and r: "tr_products r = with_typed_ranks (map snd (sort_key fst (zip ks xs)))" "tr_proposal r = pr"
      "validate_typed_batch (text_functions T) H r = Inr ()" .
  have "\<forall>x\<in>set xs. typed_sort_key (sp_product x) (sp_evaluation x) (sp_breakdown x) = Inr (typed_key x)"
    using k unfolding map_result_eq_Inr
    by (induction rule: list_all2_induct) (auto dest: key_defined)
  from order_scored_ok [OF this] k have "map snd (sort_key fst (zip ks xs)) = sort_key typed_key xs"
    by (simp add: order_scored_def)
  moreover have "map sp_product xs = pb_products batch"
    using m unfolding map_result_eq_Inr by (induction rule: list_all2_induct) (auto dest: scored_parts(1))
  ultimately show thesis using that b m r by simp
qed

section \<open>Success of the ranking\<close>

lemma same_evidence_refl [simp]: "same_evidence s s"
proof -
  have "opt_rel same_observed v v" for v by (cases v) simp_all
  then show ?thesis by (simp add: same_evidence_def same_observation_def list_all2_same)
qed

lemma same_proposal_refl [simp]: "same_proposal p p"
proof -
  have "opt_rel dec_eq d d" for d by (cases d) (simp_all add: dec_eq_def)
  then have "same_target t t" for t by (cases t) simp_all
  then show ?thesis by (simp add: same_proposal_def list_all2_same same_requirement_def)
qed

text \<open>What the adapter returns.\<close>

lemma built_proposal_parts:
  assumes "build_typed_requirement_proposal U H base i = Inr pr"
  shows "validate_proposal U H pr = Inr ()" and "search_intent_sha256 H i = Inr (prop_intent pr)"
    and "attribute_registry_sha256 U H (prop_registry pr) = Inr (prop_registry_sha256 pr)"
    and "typed_requirement_set_sha256 U H (prop_registry pr) (prop_requirements pr) = Inr (prop_requirement_set pr)"
    and "prop_status pr = Ready \<longleftrightarrow> prop_issues pr = []"
proof -
  have "validate_proposal U H pr = Inr () \<and> search_intent_sha256 H i = Inr (prop_intent pr) \<and>
    attribute_registry_sha256 U H (prop_registry pr) = Inr (prop_registry_sha256 pr) \<and>
    typed_requirement_set_sha256 U H (prop_registry pr) (prop_requirements pr) = Inr (prop_requirement_set pr) \<and>
    (prop_status pr = Ready \<longleftrightarrow> prop_issues pr = [])"
    using assms unfolding build_typed_requirement_proposal_def Let_def rewrap_eq_Inr bind_eq_Inr
    by (elim exE conjE, simp add: split_beta, elim exE conjE, hypsubst, simp)
  then show "validate_proposal U H pr = Inr ()" "search_intent_sha256 H i = Inr (prop_intent pr)"
    "attribute_registry_sha256 U H (prop_registry pr) = Inr (prop_registry_sha256 pr)"
    "typed_requirement_set_sha256 U H (prop_registry pr) (prop_requirements pr) = Inr (prop_requirement_set pr)"
    "prop_status pr = Ready \<longleftrightarrow> prop_issues pr = []" by blast+
qed

lemma reproducible_scored:
  assumes "scored_ok U H pr p (unranked t)" and "pv_plan (pc_provenance p) = plan"
  shows "reproducible U H plan pr t = Inr ()"
  using assms by (auto simp: reproducible_def scored_ok_def unranked_def)

lemma typed_product_valid:
  assumes "scored_ok U H pr p (unranked t)" and "1 \<le> tp_rank t" "tp_rank t \<le> max_ranked_products"
  shows "validate_typed_product U H t = Inr ()"
proof -
  have t: "tp_product t = p" "validate_typed_breakdown U (tp_breakdown t) = Inr ()"
    "build_product_evidence U H (prop_registry pr) (prop_requirements pr) p = Inr (tp_evidence t)"
    "evaluate_product U H (prop_registry pr) (prop_requirements pr) (tp_evidence t) = Inr (tp_evaluation t)"
    using assms(1) by (simp_all add: scored_ok_def unranked_def)
  from evidence_parts [OF t(3)] have "validate_product p = Inr ()" "validate_evidence_set U H (tp_evidence t) = Inr ()"
    "normalized_product_candidate_sha256 H p = Inr (es_product (tp_evidence t))" by metis+
  moreover note evaluation_status(3,4) [OF t(4)]
  ultimately show ?thesis using t(1,2) assms(2,3) by (simp add: validate_typed_product_def)
qed

lemma typed_batch_valid:
  assumes pr: "build_typed_requirement_proposal U H base i = Inr pr" "prop_status pr = Ready"
    and digests: "\<forall>s. is_digest (H s)" and plan: "is_digest plan"
    and ok: "\<forall>t\<in>set ts. scored_ok U H pr (tp_product t) (unranked t) \<and> pv_plan (pc_provenance (tp_product t)) = plan"
    and ts: "ts = with_typed_ranks (sort_key typed_key xs)" "length xs \<le> max_ranked_products"
    and index: "distinct (map (product_index \<circ> tp_product) ts)"
    and b: "b = \<lparr>tr_profile = typed_profile_digest H, tr_source_profile = ranking_profile_digest H,
      tr_source_batch = H x, tr_intent = prop_intent pr, tr_plan = plan, tr_batch = H y,
      tr_proposal_sha256 = canonical_sha256 H proposal_domain (proposal_json pr),
      tr_registry = prop_registry_sha256 pr, tr_requirement_set = prop_requirement_set pr,
      tr_evidence_profile = evidence_profile_digest H, tr_proposal = pr, tr_products = ts\<rparr>"
  shows "validate_typed_batch U H b = Inr ()"
proof -
  note p = built_proposal_parts [OF pr(1)]
  have dig: "is_digest (typed_profile_digest H)" "is_digest (ranking_profile_digest H)"
    "is_digest (canonical_sha256 H d v)" "is_digest (evidence_profile_digest H)" for d v
    using digests by (simp_all add: typed_profile_digest_def ranking_profile_digest_def evidence_profile_digest_def
        canonical_sha256_def)
  have fields: "is_digest (prop_intent pr)" "is_digest (prop_registry_sha256 pr)" "is_digest (prop_requirement_set pr)"
    using p(1) by (auto simp: validate_proposal_def proposal_fields_def split: if_splits)
  have len: "length ts \<le> max_ranked_products" unfolding ts by (simp add: ts(2))
  have valid: "check_all (validate_typed_product U H) ts = Inr ()"
  proof -
    have "validate_typed_product U H t = Inr ()" if "t \<in> set ts" for t
    proof (rule typed_product_valid)
      show "scored_ok U H pr (tp_product t) (unranked t)" using ok that by blast
      show "1 \<le> tp_rank t" "tp_rank t \<le> max_ranked_products"
        using ranked_rank [of t "sort_key typed_key xs"] that ts by auto
    qed
    then show ?thesis by simp
  qed
  have again: "check_all (reproducible U H plan pr) ts = Inr ()"
    using ok reproducible_scored by fastforce
  have "map_result (\<lambda>t. typed_sort_key (tp_product t) (tp_evaluation t) (tp_breakdown t)) ts =
      Inr (map (typed_key \<circ> unranked) ts)"
    using ok typed_sort_key_ok by (intro map_result_fixed) (fastforce simp: unranked_def)
  moreover have "map (typed_key \<circ> unranked) ts = map typed_key (sort_key typed_key xs)"
    unfolding map_map [symmetric] ts(1) with_typed_ranks_sel ..
  moreover have "map typed_key (sort_key typed_key xs) = sort (map typed_key (sort_key typed_key xs))"
    by (simp add: sorted_sort_id)
  ultimately have keys: "\<exists>ks. map_result (\<lambda>t. typed_sort_key (tp_product t) (tp_evaluation t) (tp_breakdown t)) ts = Inr ks \<and>
      ks = sort ks" by metis
  have ranks: "map tp_rank ts = [1..<Suc (length ts)]" unfolding ts(1) by (simp del: upt_Suc)
  have ready: "prop_issues pr = []" using p(5) pr(2) by simp
  have proposal: "typed_requirement_proposal_sha256 U H pr = Inr (canonical_sha256 H proposal_domain (proposal_json pr))"
    by (simp add: typed_requirement_proposal_sha256_def p(1))
  show ?thesis
    using keys unfolding validate_typed_batch_def Let_def b typed_ranked_batch.select_convs
    using dig fields digests plan len valid again index ranks ready pr(2) p proposal
    by (auto simp del: upt_Suc check_all_eq_Inr)
qed

lemma typed_ranking_succeeds:
  assumes i: "validate_normalized_intent i = Inr ()" and plan: "validate_search_plan (text_functions T) plan = Inr plan"
    and batch: "validate_batch batch = Inr ()" and intent: "search_intent_sha256 H i = Inr (qp_intent plan)"
    and query: "search_query_plan_sha256 (text_functions T) H plan = Inr (pb_plan batch)"
    and digests: "\<forall>s. is_digest (H s)"
    and pr: "build_typed_requirement_proposal (text_functions T) H default_attribute_registry i = Inr pr"
      "prop_status pr = Ready"
    and each: "\<forall>p\<in>set (pb_products batch). \<exists>s v.
      build_product_evidence (text_functions T) H (prop_registry pr) (prop_requirements pr) p = Inr s \<and>
      evaluate_product (text_functions T) H (prop_registry pr) (prop_requirements pr) s = Inr v"
  shows "\<exists>r. rank_typed_product_batch T L H i plan batch pr = Inr r"
proof -
  let ?U = "text_functions T"
  note b = validate_batch_parts [OF batch] and p = built_proposal_parts [OF pr(1)]
  obtain bs where bs: "score_all T L i (pb_products batch) = Inr bs" "map fst bs = pb_products batch"
    "\<forall>(p, b)\<in>set bs. score_product T L i p = Inr b \<and> validate_breakdown ?U b = Inr ()"
    using score_all_ok [OF validate_normalized_intent_parts [OF i]] .
  have good: "\<forall>(p, b)\<in>set bs. validate_breakdown ?U b = Inr ()" using bs(3) by blast
  define source where "source = \<lparr>rb_profile = ranking_profile_digest H, rb_intent = qp_intent plan,
    rb_plan = pb_plan batch, rb_batch = canonical_sha256 H batch_domain (batch_json batch),
    rb_products = with_ranks (sort_key rank_key bs)\<rparr>"
  have source: "rank_product_batch T L H i plan batch = Inr source"
    unfolding source_def by (rule ranking_result [OF i plan batch intent query digests bs(1) good])
  have valid: "validate_ranked_batch ?U H source = Inr ()"
    using source by (auto simp: rank_product_batch_def Let_def if_Inl_eq_Inr)
  have pairs: "\<forall>x\<in>set (rb_products source). validate_breakdown ?U (rp_breakdown x) = Inr ()"
    using with_ranks_pair good by (fastforce simp: source_def)
  have members: "set (map rp_product (rb_products source)) = set (pb_products batch)"
    using bs(2) by (simp add: source_def del: list.set_map) (metis set_map set_sort)
  have "\<exists>x. score_with_evidence ?U H pr source p = Inr x \<and> scored_ok ?U H pr p x"
    if mem: "p \<in> set (pb_products batch)" for p
  proof -
    obtain s v where "build_product_evidence ?U H (prop_registry pr) (prop_requirements pr) p = Inr s"
      "evaluate_product ?U H (prop_registry pr) (prop_requirements pr) s = Inr v" using each mem by blast
    from score_with_evidence_ok [OF this _ pairs] mem members show ?thesis by blast
  qed
  then obtain xs where xs: "map_result (score_with_evidence ?U H pr source) (pb_products batch) = Inr xs"
    "list_all2 (scored_ok ?U H pr) (pb_products batch) xs"
    using map_result_ex [of "pb_products batch" "score_with_evidence ?U H pr source" "scored_ok ?U H pr"] by blast
  have products: "map sp_product xs = pb_products batch"
    using xs(2) by (induction rule: list_all2_induct) (simp_all add: scored_ok_def)
  have scored: "scored_ok ?U H pr (sp_product x) x" if "x \<in> set xs" for x
    using list_all2_mem [OF xs(2) that] by (auto simp: scored_ok_def)
  have order: "order_scored xs = Inr (sort_key typed_key xs)"
    using scored typed_sort_key_ok by (intro order_scored_ok) blast
  define ts where "ts = with_typed_ranks (sort_key typed_key xs)"
  have len: "length xs \<le> max_ranked_products" using b(1) products by (metis length_map)
  have elems: "map tp_product ts = map sp_product (sort_key typed_key xs)" by (simp add: ts_def)
  have prods: "set (map tp_product ts) = set (pb_products batch)"
    unfolding elems using products by (metis list.set_map set_sort)
  have each_t: "scored_ok ?U H pr (tp_product t) (unranked t) \<and> pv_plan (pc_provenance (tp_product t)) = pb_plan batch"
    if t: "t \<in> set ts" for t
  proof
    have "unranked t \<in> set xs" using ranked_scored [of t "sort_key typed_key xs"] t by (simp add: ts_def)
    from scored [OF this] show "scored_ok ?U H pr (tp_product t) (unranked t)" by (simp add: unranked_def)
    show "pv_plan (pc_provenance (tp_product t)) = pb_plan batch" using b(4) prods t by auto
  qed
  have index: "distinct (map (product_index \<circ> tp_product) ts)"
  proof -
    have "distinct (map product_index (map sp_product (sort_key typed_key xs)))"
      using b(2) products by (metis distinct_map distinct_sort map_map set_sort)
    then show ?thesis unfolding elems [symmetric] map_map .
  qed
  have rank: "check_all (validate_typed_product ?U H) ts = Inr ()"
  proof -
    have "validate_typed_product ?U H t = Inr ()" if t: "t \<in> set ts" for t
      using typed_product_valid each_t [OF t] ranked_rank [of t "sort_key typed_key xs"] t len
      by (auto simp: ts_def)
    then show ?thesis by simp
  qed
  have intents: "prop_intent pr = qp_intent plan" using p(2) intent by simp
  note final = typed_batch_valid [OF pr digests b(5) _ ts_def len index refl]
  show ?thesis
    unfolding rank_typed_product_batch_def Let_def
    using i plan batch intent query p(1) pr p(5) source xs(1) order rank valid each_t final intents
    by (simp add: normalized_product_batch_sha256_def ranked_product_batch_sha256_def ts_def [symmetric]
        typed_requirement_proposal_sha256_def canonical_sha256_def del: check_all_eq_Inr)
qed

end
