(* ===== verification/Typed_Ranking_Samples.thy ===== *)
theory Typed_Ranking_Samples
  imports Typed_Ranking_Props Search_Samples Requirement_Samples
begin

text \<open>
  Concrete values for the witnesses of the typed ranking: a search for a black pen, the requirement its
  condition becomes, two observed products, the evidence built for them and its evaluation.
\<close>

section \<open>The search\<close>

definition black_condition :: condition_candidate where
  "black_condition = \<lparr>cand_key = color_name, cand_operator = Equals, cand_target = CandidateEnum [black_alias],
     cand_strength = Required, cand_definition = None\<rparr>"

definition black_intent :: normalized_intent where
  "black_intent = pen_intent\<lparr>typed_conditions := [black_condition]\<rparr>"

definition black_draft :: requirement_draft where
  "black_draft = \<lparr>draft_id = ''condition-001'', draft_key = color_name, draft_operator = Equals,
     draft_target = EnumTarget [black_alias], draft_strength = Required\<rparr>"

definition black_requirement :: typed_requirement where
  "black_requirement = \<lparr>req_id = ''condition-001'', req_key = ''appearance.color'', req_operator = Equals,
     req_target = EnumTarget [''black''], req_strength = Required, req_registry = sample_digest_text\<rparr>"

definition blue_pen :: product_candidate where
  "blue_pen = pen_product 0 ''pen'' (Some ''blue'') (Some 1000)"

definition black_pen :: product_candidate where
  "black_pen = pen_product 1 ''pen'' (Some ''black'') (Some 1000)"

definition title_observation :: observation where
  "title_observation = \<lparr>obs_requirement = ''condition-001'', obs_key = ''appearance.color'',
     obs_product = sample_digest_text, obs_source = Title_exact, obs_priority = 20, obs_status = Status_unknown,
     obs_value = None, obs_unknown = Some Not_observed, obs_registry = sample_digest_text,
     obs_evaluator = ''bounded-title-exact'', obs_version = ''1'', obs_profile = sample_digest_text,
     obs_artifact = sample_digest_text\<rparr>"

definition color_observation :: "string \<Rightarrow> observation" where
  "color_observation c = \<lparr>obs_requirement = ''condition-001'', obs_key = ''appearance.color'',
     obs_product = sample_digest_text, obs_source = Structured, obs_priority = 10, obs_status = Status_observed,
     obs_value = Some (EnumObserved c), obs_unknown = None, obs_registry = sample_digest_text,
     obs_evaluator = ''observed-structured-value'', obs_version = ''1'', obs_profile = sample_digest_text,
     obs_artifact = sample_digest_text\<rparr>"

text \<open>A hash that tells the two observations of a product apart.\<close>

definition pen_hash :: "string \<Rightarrow> string" where
  "pen_hash s = (if s = observation_domain @ dumps (observation_json title_observation)
     then replicate 64 CHR ''b'' else sample_digest_text)"

lemma pen_hash_hex: "hex_hash pen_hash" "\<forall>s. is_digest (pen_hash s)"
  by (simp_all add: hex_hash_def pen_hash_def hex_chars_def)

lemma pen_hash_other: "(\<And>s t. d @ s \<noteq> observation_domain @ t) \<Longrightarrow> canonical_sha256 pen_hash d j = sample_digest_text"
  by (simp add: canonical_sha256_def pen_hash_def)

lemma pen_digests [simp]:
  "canonical_sha256 pen_hash registry_domain j = sample_digest_text"
  "canonical_sha256 pen_hash intent_domain j = sample_digest_text"
  "canonical_sha256 pen_hash query_plan_domain j = sample_digest_text"
  "canonical_sha256 pen_hash evidence_profile_domain j = sample_digest_text"
  "canonical_sha256 pen_hash candidate_domain j = sample_digest_text"
  "canonical_sha256 pen_hash structured_artifact_domain j = sample_digest_text"
  "canonical_sha256 pen_hash title_artifact_domain j = sample_digest_text"
  by (rule pen_hash_other, simp add: observation_domain_def registry_domain_def intent_domain_def
      query_plan_domain_def evidence_profile_domain_def candidate_domain_def structured_artifact_domain_def
      title_artifact_domain_def)+

lemma black_intent_valid: "validate_normalized_intent black_intent = Inr ()"
proof -
  have "draft_fields black_intent" "validate_price (intent_price black_intent) = Inr ()"
    "validate_provenance (provenance black_intent) = Inr ()" by code_simp+
  moreover have "json_size (search_intent_json black_intent) \<le> max_intent_json_bytes"
    by (simp add: search_intent_json_def draft_members_def black_intent_def pen_intent_def json_opt_def json_texts_def
        pen_price_def price_json_def pen_provenance_def provenance_json_def sample_digest_text_def
        max_intent_json_bytes_def dec_nat.simps dec_int_def black_condition_def candidate_json_def
        candidate_target_json.simps color_name_def black_alias_def)
  then have "length (dumps (search_intent_json black_intent)) \<le> max_intent_json_bytes"
    unfolding length_dumps by (rule order_trans [OF length_plain_le])
  ultimately show ?thesis by (simp add: validate_normalized_intent_def validate_size_def)
qed

lemma black_digest: "search_intent_sha256 pen_hash black_intent = Inr sample_digest_text"
  by (simp add: search_intent_sha256_def black_intent_valid)

lemma black_plan: "search_query_plan_sha256 plain_library pen_hash pen_plan = Inr sample_digest_text"
  by (simp add: search_query_plan_sha256_def pen_plan_valid)

lemma black_batch_valid: "validate_batch (pen_batch [blue_pen, black_pen]) = Inr ()"
  by code_simp

lemma pens_valid: "validate_product blue_pen = Inr ()" "validate_product black_pen = Inr ()"
  by code_simp+

section \<open>The requirement\<close>

lemma black_keys: "is_identifier ''condition-001''" "condition_id 0 = ''condition-001''"
  by code_simp+

lemma black_valid: "validate_requirement plain_library black_requirement = Inr ()"
  using black_keys sample_keys sample_validated sample_digest_ok
  by (simp add: validate_requirement_def black_requirement_def)

lemma black_draft_normal:
  "normalize_draft plain_library default_attribute_registry sample_digest_text black_draft = Inr black_requirement"
  unfolding normalize_draft_def black_draft_def requirement_draft.select_convs
  by (simp only: sample_names sample_lookups sample_attributes sample_targets bind_Inr option.case
      not_True_eq_False if_False simp_thms Let_def black_requirement_def [symmetric] black_valid)

lemma black_normalized:
  "normalize_typed_requirements plain_library pen_hash default_attribute_registry [black_draft] = Inr [black_requirement]"
  using black_draft_normal
  by (simp add: normalize_typed_requirements_def default_registry_plain attribute_registry_sha256_def
      max_requirements_def)

lemma black_settled: "\<forall>q\<in>set [black_requirement]. settled_requirement U q"
  by (simp add: settled_requirement_def settled_target_def black_requirement_def)

lemma black_lookup:
  "attribute_definition_of plain_library default_attribute_registry (req_key black_requirement) =
     Inr appearance_color_attribute"
proof -
  have "normalize_text plain_library ''appearance.color'' = Inr ''appearance.color''" by code_simp
  moreover have "definition_lookup plain_library default_attribute_registry ''appearance.color'' = Some appearance_color_attribute"
    using names_resolve [OF default_registry_plain default_members(1), of "''appearance.color''"]
    by (simp add: attr_names_def sample_attributes sample_names)
  ultimately show ?thesis
    by (simp add: attribute_definition_of_def default_registry_plain sample_names black_requirement_def)
qed

lemma black_validated:
  "validated_requirement plain_library pen_hash default_attribute_registry black_requirement =
     Inr (black_requirement, appearance_color_attribute)"
proof -
  obtain a where "attribute_definition_of plain_library default_attribute_registry (req_key black_requirement) = Inr a"
    "validated_requirement plain_library pen_hash default_attribute_registry black_requirement = Inr (black_requirement, a)"
    by (rule normalized_requirement [OF black_normalized ascii_plain_library default_short_keys black_settled,
        of black_requirement]) simp_all
  with black_lookup show ?thesis by simp
qed

lemma black_candidate:
  "candidate_requirement plain_library pen_hash default_attribute_registry black_condition 0 = Inr black_requirement"
proof -
  have t: "validate_target plain_library (EnumTarget [black_alias]) = Inr (EnumTarget [black_alias])" by code_simp
  have "validate_draft plain_library black_draft = Inr ()"
  proof -
    have "bounded_text color_name" by code_simp
    with black_keys(1) t show ?thesis by (simp add: validate_draft_def black_draft_def)
  qed
  then show ?thesis
    by (simp add: candidate_requirement_def candidate_requirement_target_def black_condition_def t Let_def
        black_keys(2) search_attribute_key_def black_draft_def [symmetric] black_normalized)
qed

lemma black_set: "\<exists>h. typed_requirement_set_sha256 plain_library pen_hash default_attribute_registry [black_requirement] = Inr h \<and> is_digest h"
  using normalized_digest(2) [OF black_normalized ascii_plain_library default_short_keys black_settled, of "[black_requirement]"]
    hex_canonical [OF pen_hash_hex(1)] by auto


definition black_proposal :: "string \<Rightarrow> requirement_proposal" where
  "black_proposal h = \<lparr>prop_status = Ready, prop_intent = sample_digest_text,
     prop_candidates = candidate_set_sha256 pen_hash black_intent, prop_registry_sha256 = sample_digest_text,
     prop_registry = default_attribute_registry, prop_profile = adapter_profile_sha256 pen_hash,
     prop_requirement_set = h, prop_requirements = [black_requirement], prop_issues = []\<rparr>"

lemma black_proposal_built:
  obtains h where "build_typed_requirement_proposal plain_library pen_hash default_attribute_registry black_intent =
      Inr (black_proposal h)"
    and "typed_requirement_set_sha256 plain_library pen_hash default_attribute_registry [black_requirement] = Inr h"
proof -
  obtain h where h: "typed_requirement_set_sha256 plain_library pen_hash default_attribute_registry [black_requirement] = Inr h"
    "is_digest h" using black_set by blast
  have conditions: "typed_conditions black_intent = [black_condition]" by (simp add: black_intent_def)
  have key: "\<not> numeric_identity_requires_review plain_library pen_hash black_condition"
    by (simp add: numeric_identity_requires_review_def black_condition_def custom_key_def color_name_def)
  have registry: "proposal_registry plain_library pen_hash default_attribute_registry black_intent =
      Inr default_attribute_registry"
    by (simp add: proposal_registry_def conditions key compile_search_registry_def) (simp add: black_condition_def)
  have adapted: "adapt_candidates plain_library pen_hash default_attribute_registry [] 0 (typed_conditions black_intent) =
      Inr ([black_requirement], [])"
    by (simp add: conditions key black_candidate)
  have free: "\<not> has_blocking_ambiguity black_intent"
    by (simp add: has_blocking_ambiguity_def black_intent_def pen_intent_def)
  have digest: "attribute_registry_sha256 plain_library pen_hash default_attribute_registry = Inr sample_digest_text"
    by (simp add: attribute_registry_sha256_def default_registry_plain)
  have place: "requirement_position sample_digest_text black_requirement = Inr 1" by code_simp
  have "is_digest (candidate_set_sha256 pen_hash black_intent)" "is_digest (adapter_profile_sha256 pen_hash)"
    using pen_hash_hex(2) by (simp_all add: candidate_set_sha256_def adapter_profile_sha256_def canonical_sha256_def)
  then have "validate_proposal plain_library pen_hash (black_proposal h) = Inr ()"
    using h(2) place sample_digest_ok(1)
    by (simp add: validate_proposal_def proposal_fields_def black_proposal_def default_registry_plain black_valid digest
        max_typed_conditions_def max_typed_issues_def)
  then have "build_typed_requirement_proposal plain_library pen_hash default_attribute_registry black_intent =
      Inr (black_proposal h)"
    by (simp add: build_typed_requirement_proposal_def black_intent_valid default_registry_plain registry free adapted
        digest black_digest h(1) Let_def black_proposal_def)
  with h(1) that show thesis by blast
qed

section \<open>The evidence\<close>

lemma color_values:
  assumes "c \<in> {''black'', ''blue''}"
  shows "normalize_observed_value plain_library appearance_color_attribute (EnumObserved c) = Inr (EnumObserved c)"
    and "validate_observed plain_library (EnumObserved c) = Inr (EnumObserved c)"
proof -
  have c: "c \<in> set (attr_values appearance_color_attribute)" "bounded_text c"
    using assms by (auto simp: appearance_color_attribute_def bounded_text_def) code_simp+
  from canonical_name_fixed [OF definition_tables(1) [OF ascii_plain_library appearance_color_valid] c(1)] c(2)
  show "normalize_observed_value plain_library appearance_color_attribute (EnumObserved c) = Inr (EnumObserved c)"
    "validate_observed plain_library (EnumObserved c) = Inr (EnumObserved c)"
    by (simp_all add: normalize_observed_value_def validate_observed_def appearance_color_attribute_def
        normalize_allowed_value_def)
qed

text \<open>The title names no colour: no name of the registry starts with one of its letters.\<close>

definition color_names :: "(string \<times> string) list" where
  "color_names = map (\<lambda>v. (v, v)) (attr_values appearance_color_attribute) @
     map (\<lambda>a. (alias_text a, alias_canonical a)) (attr_value_aliases appearance_color_attribute)"

definition plain_name_text :: "string \<Rightarrow> bool" where
  "plain_name_text s \<longleftrightarrow> s \<noteq> [] \<and> CHR '' '' \<notin> set s \<and> \<not> any_control plain_library s"

lemma normalized_plain_text: "plain_name_text s \<Longrightarrow> normalized_text plain_library s = Inr s"
  by (simp add: normalized_text_def plain_name_text_def sample_names Let_def) (simp add: plain_library_def split_spaces_none)

lemma color_names_plain: "list_all (plain_name_text \<circ> fst) color_names"
  by (simp add: color_names_def appearance_color_attribute_def aliases_of_def plain_name_text_def plain_text_defs)

lemma color_names_start: "list_all (\<lambda>(n, v). hd n \<notin> set ''pen'') color_names"
  by (simp add: color_names_def appearance_color_attribute_def aliases_of_def)

lemma updated_keys: "fst ` set (foldl (\<lambda>m (k, v). AList.update k v m) m ps) = fst ` set m \<union> fst ` set ps"
  by (induction ps arbitrary: m) (simp_all add: dom_update split_beta)

lemma color_phrases:
  obtains ps where "enum_phrase_map plain_library appearance_color_attribute = Inr ps"
    and "fst ` set ps = fst ` set color_names"
proof -
  have "map_result (\<lambda>(s, v). bind (normalized_text plain_library s) (\<lambda>n. Inr (n, v))) color_names = Inr (map (\<lambda>x. x) color_names)"
    using color_names_plain by (intro map_result_fixed) (auto simp: list_all_iff normalized_plain_text)
  then have "enum_phrase_map plain_library appearance_color_attribute =
      Inr (foldl (\<lambda>m (k, v). AList.update k v m) [] color_names)"
    by (simp add: enum_phrase_map_def color_names_def [symmetric])
  then show thesis by (rule that) (simp add: updated_keys)
qed

lemma pen_occurrences:
  assumes "n \<noteq> []" and "hd n \<notin> set ''pen''"
  shows "occurrences (chars_of ''pen'') (chars_of n) = []"
proof -
  obtain c s where n: "n = c # s" using assms(1) by (cases n) auto
  have t: "chars_of ''pen'' = [''p'', ''e'', ''n'']" by code_simp
  obtain x xs where x: "chars_of n = (c # x) # xs" and c: "c \<notin> set ''pen''"
    using assms(2) by (simp add: n)
  have "take (length (chars_of n)) (drop i [''p'', ''e'', ''n'']) \<noteq> chars_of n" if "i < 4" for i
  proof -
    have "i \<in> {0, 1, 2, 3}" using that by auto
    then show ?thesis unfolding x using c by auto
  qed
  then show ?thesis unfolding occurrences_def t filter_empty_conv by (simp del: upt_Suc)
qed

lemma pen_title_values:
  "enum_values_from_title plain_library appearance_color_attribute ''pen'' = Inr (nothing Not_observed)"
proof -
  obtain ps where ps: "enum_phrase_map plain_library appearance_color_attribute = Inr ps"
    "fst ` set ps = fst ` set color_names" using color_phrases .
  have title: "normalized_text plain_library ''pen'' = Inr ''pen''"
    by (rule normalized_plain_text) (simp add: plain_name_text_def plain_text_defs)
  have "matches_of plain_library (chars_of ''pen'') x = Inr []" if "x \<in> set ps" for x
  proof -
    obtain y where y: "y \<in> set color_names" "fst x = fst y" using ps(2) \<open>x \<in> set ps\<close> by (metis image_iff)
    then have "plain_name_text (fst x)" "hd (fst x) \<notin> set ''pen''"
      using color_names_plain color_names_start by (auto simp: list_all_iff split_beta)
    then have "occurrences (chars_of ''pen'') (chars_of (fst x)) = []" "normalized_text plain_library (fst x) = Inr (fst x)"
      by (metis plain_name_text_def pen_occurrences, metis normalized_plain_text)
    then show ?thesis by (simp add: matches_of_def Let_def)
  qed
  then have m: "map_result (matches_of plain_library (chars_of ''pen'')) ps = Inr (map (\<lambda>x. []) ps)"
    by (intro map_result_fixed) blast
  have none: "concat (map (\<lambda>x. []) ps) = ([] :: phrase_match list)" by (induction ps) simp_all
  have "phrase_matches plain_library ''pen'' ps = Inr []"
    unfolding phrase_matches_def m bind_Inr none by simp
  then show ?thesis by (simp add: enum_values_from_title_def ps(1) title found_or_not_def)
qed


text \<open>The observations of a product.\<close>

lemma observations_valid:
  "validate_observation plain_library title_observation = Inr ()"
  "c \<in> {''black'', ''blue''} \<Longrightarrow> validate_observation plain_library (color_observation c) = Inr ()"
  using black_keys(1) sample_keys(3) sample_evaluators sample_digest_ok(1) color_values(2)
  by (simp_all add: validate_observation_def observation_fields_def title_observation_def color_observation_def
      opt_value_ok_def)

lemma title_built:
  "build_evidence_observation plain_library pen_hash default_attribute_registry black_requirement
     sample_digest_text Title_exact None (Some Not_observed) sample_digest_text sample_digest_text = Inr title_observation"
proof -
  have rec: "\<lparr>obs_requirement = req_id black_requirement, obs_key = req_key black_requirement,
      obs_product = sample_digest_text, obs_source = rule_source title_evidence,
      obs_priority = rule_priority title_evidence, obs_status = Status_unknown,
      obs_value = None, obs_unknown = Some Not_observed, obs_registry = sample_digest_text,
      obs_evaluator = rule_evaluator title_evidence, obs_version = rule_version title_evidence,
      obs_profile = sample_digest_text, obs_artifact = sample_digest_text\<rparr> = title_observation"
    by (simp add: title_observation_def black_requirement_def title_evidence_def)
  show ?thesis
    by (simp add: build_evidence_observation_def default_registry_plain black_validated sample_rules
        attribute_registry_sha256_def rec observations_valid(1) Let_def)
qed

lemma color_built:
  assumes "c \<in> {''black'', ''blue''}"
  shows "build_evidence_observation plain_library pen_hash default_attribute_registry black_requirement
     sample_digest_text Structured (Some (EnumObserved c)) None sample_digest_text sample_digest_text =
     Inr (color_observation c)"
proof -
  have rec: "\<lparr>obs_requirement = req_id black_requirement, obs_key = req_key black_requirement,
      obs_product = sample_digest_text, obs_source = rule_source structured_evidence,
      obs_priority = rule_priority structured_evidence, obs_status = Status_observed,
      obs_value = Some (EnumObserved c), obs_unknown = None, obs_registry = sample_digest_text,
      obs_evaluator = rule_evaluator structured_evidence, obs_version = rule_version structured_evidence,
      obs_profile = sample_digest_text, obs_artifact = sample_digest_text\<rparr> = color_observation c"
    by (simp add: color_observation_def black_requirement_def structured_evidence_def)
  show ?thesis
    by (simp add: build_evidence_observation_def default_registry_plain black_validated sample_rules
        attribute_registry_sha256_def rec observations_valid(2) [OF assms] color_values [OF assms] Let_def)
qed

text \<open>The two products differ in their colour and their place only.\<close>

definition pen_of :: "nat \<Rightarrow> string \<Rightarrow> product_candidate" where
  "pen_of n c = pen_product n ''pen'' (Some c) (Some 1000)"

lemma pens: "blue_pen = pen_of 0 ''blue''" "black_pen = pen_of 1 ''black''"
  by (simp_all add: blue_pen_def black_pen_def pen_of_def)

lemma pen_observations:
  assumes c: "c \<in> {''black'', ''blue''}"
  shows "requirement_observations plain_library pen_hash default_attribute_registry (pen_of n c) sample_digest_text
     black_requirement = Inr [color_observation c, title_observation]"
proof -
  have key: "attr_key appearance_color_attribute = ''appearance.color''" by (rule sample_attributes(3))
  have features: "pc_title (pen_of n c) = ''pen''" "oa_color (pc_attributes (pen_of n c)) = Some c"
    by (simp_all add: pen_of_def pen_product_def)
  have structured: "extract_values plain_library appearance_color_attribute (pen_of n c) Structured =
      Inr (found [EnumObserved c])"
    by (simp add: structured_values_def key features enum_field_def color_values [OF c] Let_def starts_with_def)
  have title: "extract_values plain_library appearance_color_attribute (pen_of n c) Title_exact =
      Inr (nothing Not_observed)"
    unfolding extract_values.simps title_values_def key features pen_title_values by simp
  have rules: "sort_key rule_order (attr_rules appearance_color_attribute) = [structured_evidence, title_evidence]"
    by (simp add: appearance_color_attribute_def rule_order_def structured_evidence_def title_evidence_def)
  have sources: "rule_source structured_evidence = Structured" "rule_source title_evidence = Title_exact"
    by (simp_all add: structured_evidence_def title_evidence_def)
  have profile: "evidence_profile_digest pen_hash = sample_digest_text"
    by (simp add: evidence_profile_digest_def)
  have "rule_observations plain_library pen_hash default_attribute_registry (pen_of n c) sample_digest_text
      black_requirement appearance_color_attribute structured_evidence = Inr [color_observation c]"
    unfolding rule_observations_def sources structured profile
    by (simp add: found_def max_matches_per_source_def color_built [OF c])
  moreover have "rule_observations plain_library pen_hash default_attribute_registry (pen_of n c) sample_digest_text
      black_requirement appearance_color_attribute title_evidence = Inr [title_observation]"
    unfolding rule_observations_def sources title profile
    by (simp add: nothing_def max_matches_per_source_def title_built)
  ultimately show ?thesis by (simp add: requirement_observations_def black_lookup rules)
qed

lemma pen_evidence_digests:
  "evidence_digest pen_hash title_observation = replicate 64 CHR ''b''"
  "evidence_digest pen_hash (color_observation c) = sample_digest_text"
proof -
  have "sort_keys (observation_json (color_observation c)) \<noteq> sort_keys (observation_json title_observation)"
    unfolding observation_json_def
    by (subst sort_keys_record) (simp_all add: color_observation_def title_observation_def)
  then show "evidence_digest pen_hash title_observation = replicate 64 CHR ''b''"
    "evidence_digest pen_hash (color_observation c) = sample_digest_text"
    by (simp_all add: evidence_digest_def canonical_sha256_def pen_hash_def dumps_eq_iff)
qed

lemma distinct_digests: "distinct (map (evidence_digest pen_hash) [color_observation c, title_observation])"
  by (simp add: pen_evidence_digests) (simp add: sample_digest_text_def)

definition pen_evidence :: "string \<Rightarrow> string \<Rightarrow> evidence_set" where
  "pen_evidence h c = \<lparr>es_product = sample_digest_text, es_registry = sample_digest_text, es_requirement_set = h,
     es_profile = sample_digest_text, es_requirements = [''condition-001''],
     es_observations = [color_observation c, title_observation]\<rparr>"

lemma pen_evidence_built:
  assumes c: "c \<in> {''black'', ''blue''}" and p: "validate_product (pen_of n c) = Inr ()"
    and h: "typed_requirement_set_sha256 plain_library pen_hash default_attribute_registry [black_requirement] = Inr h"
  shows "build_product_evidence plain_library pen_hash default_attribute_registry [black_requirement] (pen_of n c) =
     Inr (pen_evidence h c)"
proof -
  have order: "observation_order [''condition-001''] (color_observation c) \<le> observation_order [''condition-001''] title_observation"
    by (simp add: observation_order_def color_observation_def title_observation_def dict_get_def less_eq_prod_def)
  have ids: "map req_id [black_requirement] = [''condition-001'']" by (simp add: black_requirement_def)
  have product: "normalized_product_candidate_sha256 pen_hash (pen_of n c) = Inr sample_digest_text"
    by (simp add: normalized_product_candidate_sha256_def p)
  have digest: "attribute_registry_sha256 plain_library pen_hash default_attribute_registry = Inr sample_digest_text"
    by (simp add: attribute_registry_sha256_def default_registry_plain)
  have profile: "evidence_profile_digest pen_hash = sample_digest_text"
    by (simp add: evidence_profile_digest_def)
  have shown: "map_result (evidence_observation_sha256 plain_library pen_hash) [color_observation c, title_observation] =
      Inr (map (evidence_digest pen_hash) [color_observation c, title_observation])"
    using observations_valid c by (intro map_result_fixed) (auto simp: evidence_observation_sha256_def evidence_digest_def)
  have "is_digest h" using black_set h by auto
  then have "validate_evidence_set plain_library pen_hash (pen_evidence h c) = Inr ()"
    using distinct_digests [of c] observations_valid(1) observations_valid(2) [OF c] black_keys(1) sample_digest_ok(1)
    unfolding validate_evidence_set_def pen_evidence_def evidence_set.select_convs shown
    by (simp add: max_total_observations_def) (simp add: color_observation_def title_observation_def)
  then show ?thesis
    unfolding build_product_evidence_def Let_def ids
    by (simp add: p default_registry_plain h digest product pen_observations [OF c] profile order pen_evidence_def)
qed

lemma pen_evaluated:
  assumes c: "c \<in> {''black'', ''blue''}"
  obtains v where "evaluate_product plain_library pen_hash default_attribute_registry [black_requirement]
     (pen_evidence h c) = Inr v"
proof -
  have own: "observations_for (pen_evidence h c) black_requirement = [color_observation c, title_observation]"
    by (simp add: observations_for_def pen_evidence_def color_observation_def title_observation_def black_requirement_def)
  have settled: "opt_all (settled_observed plain_library) (obs_value b)" if "b \<in> {color_observation c, title_observation}" for b
    using that by (auto simp: settled_observed_def color_observation_def title_observation_def)
  have ev: "\<forall>b\<in>set [color_observation c, title_observation].
      evidence_for plain_library pen_hash default_attribute_registry black_requirement sample_digest_text b"
  proof -
    have "evidence_for plain_library pen_hash default_attribute_registry black_requirement sample_digest_text (color_observation c)"
      unfolding evidence_for_def built_evidence_def using color_built [OF c] settled by blast
    moreover have "evidence_for plain_library pen_hash default_attribute_registry black_requirement sample_digest_text title_observation"
      unfolding evidence_for_def built_evidence_def using title_built settled by blast
    ultimately show ?thesis by simp
  qed
  obtain d where d: "adjudicate_requirement plain_library pen_hash default_attribute_registry black_requirement
      sample_digest_text [color_observation c, title_observation] = Inr d"
    using adjudicate_succeeds [OF black_normalized ascii_plain_library default_short_keys black_settled
        default_single_units pen_hash_hex(1) sample_digest_ok(1) _ ev _ distinct_digests]
    by (auto simp: max_evidence_per_requirement_def)
  then have "list_all2 (\<lambda>q d. \<exists>obs. adjudicate_requirement plain_library pen_hash default_attribute_registry q
      sample_digest_text obs = Inr d) [black_requirement] [d]" by auto
  from evaluate_succeeds [OF black_normalized ascii_plain_library default_short_keys black_settled
      pen_hash_hex(1) sample_digest_ok(1) this]
  obtain v where "evaluate_typed_product plain_library pen_hash default_attribute_registry [black_requirement] [d]
      sample_digest_text = Inr v" ..
  then have "evaluate_product plain_library pen_hash default_attribute_registry [black_requirement] (pen_evidence h c) = Inr v"
    unfolding evaluate_product_def map_result.simps own by (simp add: d) (simp add: pen_evidence_def d)
  with that show thesis .
qed

lemma pen_products_evaluated:
  assumes h: "typed_requirement_set_sha256 plain_library pen_hash default_attribute_registry [black_requirement] = Inr h"
  shows "\<forall>p\<in>set (pb_products (pen_batch [blue_pen, black_pen])). \<exists>s v.
     build_product_evidence plain_library pen_hash (prop_registry (black_proposal h)) (prop_requirements (black_proposal h)) p = Inr s \<and>
     evaluate_product plain_library pen_hash (prop_registry (black_proposal h)) (prop_requirements (black_proposal h)) s = Inr v"
proof -
  have "build_product_evidence plain_library pen_hash default_attribute_registry [black_requirement] blue_pen =
      Inr (pen_evidence h ''blue'')"
    "build_product_evidence plain_library pen_hash default_attribute_registry [black_requirement] black_pen =
      Inr (pen_evidence h ''black'')"
    using pen_evidence_built [OF _ _ h] pens_valid by (simp_all add: pens)
  moreover obtain v w where "evaluate_product plain_library pen_hash default_attribute_registry [black_requirement]
      (pen_evidence h ''blue'') = Inr v" "evaluate_product plain_library pen_hash default_attribute_registry
      [black_requirement] (pen_evidence h ''black'') = Inr w"
    using pen_evaluated [of "''blue''" h thesis] pen_evaluated [of "''black''" h thesis] by blast
  ultimately show ?thesis by (simp add: pen_batch_def black_proposal_def)
qed

lemma black_bindings:
  "search_intent_sha256 pen_hash black_intent = Inr (qp_intent pen_plan)"
  "search_query_plan_sha256 (text_functions plain_tokenizer) pen_hash pen_plan = Inr (pb_plan (pen_batch ps))"
  by (simp_all add: black_digest black_plan) (simp_all add: pen_plan_def pen_batch_def)

lemma black_ranking:
  obtains h r where "build_typed_requirement_proposal plain_library pen_hash default_attribute_registry black_intent =
      Inr (black_proposal h)"
    and "rank_typed_product_batch plain_tokenizer L pen_hash black_intent pen_plan (pen_batch [blue_pen, black_pen])
      (black_proposal h) = Inr r"
proof -
  obtain h where h: "build_typed_requirement_proposal plain_library pen_hash default_attribute_registry black_intent =
      Inr (black_proposal h)"
    "typed_requirement_set_sha256 plain_library pen_hash default_attribute_registry [black_requirement] = Inr h"
    by (rule black_proposal_built)
  have "prop_status (black_proposal h) = Ready" by (simp add: black_proposal_def)
  from typed_ranking_succeeds [OF black_intent_valid pen_bindings(3) black_batch_valid black_bindings pen_hash_hex(2) _ this,
      of L] pen_products_evaluated [OF h(2)] h(1)
  obtain r where "rank_typed_product_batch plain_tokenizer L pen_hash black_intent pen_plan (pen_batch [blue_pen, black_pen])
      (black_proposal h) = Inr r" by auto
  with h(1) show thesis by (rule that)
qed

end
