(* ===== verification/Search_Errors.thy ===== *)
theory Search_Errors
  imports Requirement_Errors Product_Normalization Typed_Intent_Adapter Product_Ranking
begin

text \<open>
  Which exceptions escape the calls of the search modules: validators raise a validation error, and
  each public function that catches it raises the fixed-message error of its module.
\<close>

abbreviation value_call :: "'a result \<Rightarrow> bool" where
  "value_call \<equiv> raises_only is_ValueError"

section \<open>Intents and query plans\<close>

lemma intent_checks [raises_rules]: "value_call (validate_price p)" "value_call (validate_size v)"
  "value_call (validate_provenance w)" "value_call (validate_ambiguity a)"
  unfolding validate_price_def validate_size_def validate_provenance_def validate_ambiguity_def
  by (intro raises_rules; simp)+

lemma intent_calls [raises_rules]: "value_call (validate_intent_draft d)" "value_call (validate_normalized_intent i)"
  "value_call (search_intent_sha256 H i)"
  unfolding validate_intent_draft_def validate_normalized_intent_def search_intent_sha256_def
  by (intro raises_rules; simp)+

lemma query_calls [raises_rules]: "value_call (validate_query U q)" "value_call (validate_search_plan U p)"
  "value_call (search_query_plan_sha256 U H p)"
  unfolding validate_query_def normalize_query_value_def validate_search_plan_def search_query_plan_sha256_def Let_def
  by (intro raises_rules; simp)+

lemma token_calls [raises_rules]: "value_call (tokenize_search_text T l s)"
  unfolding tokenize_search_text_def normalized_input_def Let_def by (intro raises_rules; simp)

lemma group_calls [raises_rules]: "value_call (term_group T l t)"
  by (cases "(T, l, t)" rule: term_group.cases) (auto intro!: raises_rules)

lemma plan_query_calls [raises_rules]: "value_call (plan_queries T i seen ls)"
proof (induction ls arbitrary: seen)
  case (Cons l ls)
  show ?case unfolding plan_queries.simps Let_def query_term_groups_def by (intro raises_rules Cons)
qed (simp add: raises_Inr)

lemma plan_calls [raises_rules]: "value_call (build_search_query_plan T H i)"
  unfolding build_search_query_plan_def Let_def by (intro raises_rules; simp)

lemma port_errors: "value_call (url_port u)"
  unfolding url_port_def Let_def by (intro raises_rules; simp)

lemma request_checks: "value_call (validate_request U B r)"
proof -
  have s: "value_call (url_split B s)" for s
    unfolding url_split_def Let_def by (intro raises_rules; simp)
  have e: "value_call (validated_endpoint U B s)" for s
    unfolding validated_endpoint_def by (intro raises_rules s port_errors; simp)
  have q: "value_call (validate_provider_query U q)" for q
    unfolding validate_provider_query_def by (intro raises_rules; simp)
  show ?thesis
    by (cases r; simp only: validate_request.simps validate_outscraper_request_def validate_playwright_request_def)
      (intro raises_rules e q; simp)+
qed

section \<open>Products and ranking\<close>

lemma product_checks [raises_rules]: "value_call (validate_attributes a)" "value_call (validate_product_provenance v)"
  "value_call (validate_rejection r)"
  unfolding validate_attributes_def validate_product_provenance_def validate_rejection_def
  by (intro raises_rules; simp)+

lemma product_calls [raises_rules]: "value_call (validate_product p)" "value_call (validate_batch b)"
  "value_call (normalized_product_batch_sha256 H b)" "value_call (product_normalization_profile_sha256 H rate)"
  unfolding validate_product_def validate_batch_def normalized_product_batch_sha256_def
    product_normalization_profile_sha256_def
  by (intro raises_rules; simp)+

lemma ranking_checks [raises_rules]: "value_call (validate_component c)" "value_call (validate_breakdown U b)"
  "value_call (validate_ranked_product U r)" "value_call (validate_ranked_batch U H k)"
  unfolding validate_component_def validate_breakdown_def validate_ranked_product_def validate_ranked_batch_def Let_def
  by (intro raises_rules; simp)+

lemma ranking_failures [simp]: "is_ranking_failure AssertionError" "is_ranking_failure RankingError"
  by (simp_all add: is_ranking_failure_def)

lemma ranking_call: "value_call r \<Longrightarrow> raises_only is_ranking_failure r"
  by (erule raises_mono) (simp add: is_ranking_failure_def)

lemma price_calls: "raises_only is_ranking_failure (price_score c v)"
  by (auto simp: price_score_def required_bound_def raises_Inr raises_Inl split: option.splits price_mode.splits)

lemma component_calls: "raises_only is_ranking_failure (build_component r w a)"
  unfolding build_component_def Let_def
  by (intro raises_rules ranking_call [OF ranking_checks(1)]; simp)

lemma score_calls: "raises_only is_ranking_failure (score_product T L i p)"
  unfolding score_product_def build_components_def Let_def
  by (intro raises_rules price_calls component_calls ranking_call [OF ranking_checks(2)])

lemma rank_errors: "raises_only (\<lambda>e. e = RankingError) (rank_product_batch T L H i plan batch)"
  unfolding rank_product_batch_def score_all_def Let_def
  by (rule rewrap_raises, intro raises_bind raises_if raises_check_all raises_map_result score_calls raises_Inr
      raises_Inl ranking_call [OF intent_calls(2)] ranking_call [OF intent_calls(3)] ranking_call [OF query_calls(2)]
      ranking_call [OF query_calls(3)] ranking_call [OF product_calls(2)] ranking_call [OF product_calls(3)]
      ranking_call [OF ranking_checks(3)] ranking_call [OF ranking_checks(4)]; simp)

section \<open>The adapter\<close>

lemma issue_calls [raises_rules]: "value_call (new_issue c n)" "value_call (validate_issue x)"
  unfolding new_issue_def validate_issue_def Let_def by (intro raises_rules; simp)+

lemma contract_of_value: "value_call r \<Longrightarrow> contract_call r"
  by (erule raises_mono) (simp add: is_contract_error_def)

lemma invalid_candidate_calls: "contract_call (issue_for_invalid_candidate U r c n)"
proof (cases "attribute_definition_of U r (cand_key c)")
  case (Inl e)
  then have "is_contract_error e" using lookup_calls [of U r "cand_key c"] by (simp add: raises_only_def)
  then show ?thesis using Inl contract_of_value [OF issue_calls(1)]
    by (auto simp: issue_for_invalid_candidate_def raises_only_def)
next
  case (Inr d)
  then show ?thesis using contract_of_value [OF issue_calls(1)] by (simp add: issue_for_invalid_candidate_def)
qed

lemma candidate_calls: "contract_call (candidate_requirement U H r c n)"
  unfolding candidate_requirement_def candidate_requirement_target_def Let_def by (intro raises_rules)

lemma adapt_calls: "contract_call (adapt_candidates U H r ids n cs)"
proof (induction cs arbitrary: ids n)
  case (Cons c cs)
  have e: "is_contract_error e" if "candidate_requirement U H r c n = Inl e" for e
    using candidate_calls [of U H r c n] that by (simp add: raises_only_def)
  have issue: "contract_call (bind x (\<lambda>issue. bind (adapt_candidates U H r ids (Suc n) cs) (\<lambda>(qs, is). Inr (qs, issue # is))))"
    if "contract_call x" for x :: "condition_issue result"
    by (intro raises_bind raises_prod raises_Inr that Cons)
  show ?case
    unfolding adapt_candidates.simps Let_def
    by (auto split: sum.split intro!: issue raises_bind raises_prod raises_Inr Cons invalid_candidate_calls
        contract_of_value [OF issue_calls(1)] dest: e)
qed (simp add: raises_Inr)

lemma definition_errors: "value_call (validate_definition U d)"
  unfolding validate_definition_def by (intro raises_rules; simp)

lemma compile_calls: "value_call (compile_search_registry U H cs r)"
proof -
  have 1: "value_call (generated_definition U H c d)" for c d
    unfolding generated_definition_def unit_key_def Let_def by (intro raises_rules definition_errors; simp)
  have 2: "value_call (generated_definitions U H keys cs)" for keys
  proof (induction cs arbitrary: keys)
    case (Cons c cs)
    show ?case unfolding generated_definitions.simps by (intro raises_rules 1 Cons; simp)
  qed (simp add: raises_Inr)
  show ?thesis unfolding compile_search_registry_def Let_def by (intro raises_rules 2 registry_value_errors)
qed

lemma proposal_registry_calls: "contract_call (proposal_registry U H base i)"
  using compile_calls [of U H "filter (\<lambda>c. \<not> numeric_identity_requires_review U H c) (typed_conditions i)" base]
  by (auto simp: proposal_registry_def raises_only_def split: sum.split)

lemma proposal_calls: "contract_call (validate_proposal U H p)"
proof -
  have "contract_call (requirement_position g q)" for g q
    unfolding requirement_position_def by (intro raises_rules; simp)
  then show ?thesis unfolding validate_proposal_def Let_def
    by (intro raises_rules contract_of_value [OF issue_calls(2)]; simp)
qed

lemma build_proposal_errors: "raises_only (\<lambda>e. e = TypedIntentAdapterError) (build_typed_requirement_proposal U H base i)"
  unfolding build_typed_requirement_proposal_def Let_def
  by (rule rewrap_raises, intro raises_rules contract_of_value [OF intent_calls(2)] contract_of_value [OF intent_calls(3)]
      contract_of_value [OF issue_calls(1)] proposal_registry_calls adapt_calls proposal_calls)

lemma proposal_digest_errors: "raises_only (\<lambda>e. e = TypedIntentAdapterError) (typed_requirement_proposal_sha256 U H p)"
  unfolding typed_requirement_proposal_sha256_def by (rule rewrap_raises, intro raises_rules proposal_calls)

section \<open>Normalisation of a response\<close>

text \<open>\<open>normalize_outscraper_products\<close> catches the validation errors of its inputs and of the batch, but
  not those of a single product, which therefore can escape.\<close>

fun is_normalization_failure :: "exn \<Rightarrow> bool" where
  "is_normalization_failure ProductNormalizationError = True"
| "is_normalization_failure (ValidationError m) = True"
| "is_normalization_failure _ = False"

abbreviation normalization_call :: "'a result \<Rightarrow> bool" where
  "normalization_call \<equiv> raises_only is_normalization_failure"

lemma product_validation: "normalization_call (validate_product p)" "normalization_call (new_rejection n reason d)"
  unfolding validate_product_def validate_attributes_def validate_product_provenance_def new_rejection_def
    validate_rejection_def Let_def
  by (intro raises_rules; simp)+

lemma candidate_validation: "normalization_call (normalize_candidate U B x raw)"
  unfolding normalize_candidate_def Let_def
  by (auto split: pyvalue.split sum.split option.split prod.split intro!: raises_bind raises_Inr product_validation)

lemma step_validation: "normalization_call (batch_step raw out s)"
  unfolding batch_step_def
  by (auto split: outcome.split option.split prod.split intro!: raises_bind raises_Inr product_validation)

lemma loop_validation: "normalization_call (batch_loop U B x s raws)"
  by (induction raws arbitrary: s) (auto intro!: raises_bind raises_Inr candidate_validation step_validation)

lemma raw_candidate_errors: "normalization_call (raw_candidates data n)"
  unfolding raw_candidates_def Let_def by (intro raises_rules; simp)

lemma request_digest_ok: "validate_request U B r = Inr () \<Longrightarrow> normalization_call (request_sha256 U B H r)"
  by (cases r) (auto simp: raises_Inr)

lemma normalization_errors: "normalization_call (normalize_outscraper_products U B H response r request_id rate)"
proof (cases "validate_request U B r")
  case (Inl e)
  have "value_call (validate_request U B r)"
    by (rule request_checks)
  with Inl show ?thesis by (simp add: normalize_outscraper_products_def raises_only_def)
next
  case (Inr u)
  then have "validate_request U B r = Inr ()" by simp
  with request_digest_ok [OF this, of H] show ?thesis
    unfolding normalize_outscraper_products_def Let_def
    by (auto split: pyvalue.split intro!: raises_bind raises_if raises_Inr raises_Inl raw_candidate_errors loop_validation
        raises_rewrap product_calls)
qed

section \<open>The public functions\<close>

text \<open>C33. Whatever their arguments, a failing call of the ranking raises the fixed-message ranking error,
  one of the adapter or of the digest of a proposal the fixed-message adapter error, one of the planner or
  of a request check a value error, and one of the normalisation either its fixed-message error or the
  validation error of a single product.\<close>

theorem search_errors_fixed:
  "raises_only (\<lambda>e. e = RankingError) (rank_product_batch T L H i plan batch) \<and>
   raises_only (\<lambda>e. e = TypedIntentAdapterError) (build_typed_requirement_proposal U H base i) \<and>
   raises_only (\<lambda>e. e = TypedIntentAdapterError) (typed_requirement_proposal_sha256 U H p) \<and>
   raises_only is_ValueError (build_search_query_plan T H i) \<and>
   raises_only is_ValueError (validate_request U B r) \<and>
   raises_only is_normalization_failure (normalize_outscraper_products U B H response r request_id rate)"
  by (intro conjI rank_errors build_proposal_errors proposal_digest_errors plan_calls request_checks
      normalization_errors)

end
