(* ===== verification/Typed_Ranking_Theorems.thy ===== *)
theory Typed_Ranking_Theorems
  imports Typed_Ranking_Samples Search_Errors
begin

text \<open>
  The properties of the typed ranking: when it succeeds, the order of its products, what the evidence of
  a product covers and how it decides the place of the product.
\<close>

lemma strictly_typed_sorted:
  assumes "sorted_wrt (\<le>) (map typed_key xs)" and "distinct (map (product_index \<circ> sp_product) xs)"
  shows "sorted_wrt (\<lambda>x y. typed_key x < typed_key y) xs"
proof (rule sorted_wrt_iff_nth_less [THEN iffD2], intro allI impI)
  fix i j assume ij: "i < j" "j < length xs"
  then have le: "typed_key (xs ! i) \<le> typed_key (xs ! j)"
    using assms(1) by (auto simp: sorted_wrt_iff_nth_less)
  have "product_index (sp_product (xs ! i)) \<noteq> product_index (sp_product (xs ! j))"
    using assms(2) ij by (auto simp: distinct_conv_nth)
  then have "typed_key (xs ! i) \<noteq> typed_key (xs ! j)" by (auto simp: typed_key_def)
  with le show "typed_key (xs ! i) < typed_key (xs ! j)" by simp
qed

lemma typed_ranking_sorted:
  assumes "rank_typed_product_batch T L H i plan batch pr = Inr r"
  shows "sorted_wrt typed_before (tr_products r)"
    and "mset (map tp_product (tr_products r)) = mset (pb_products batch)"
    and "map tp_rank (tr_products r) = [1..<Suc (length (pb_products batch))]"
proof -
  from typed_ranking_parts [OF assms] obtain source xs where batch: "validate_batch batch = Inr ()"
    and xs: "map sp_product xs = pb_products batch" and ts: "tr_products r = with_typed_ranks (sort_key typed_key xs)" .
  have "distinct (map product_index (map sp_product xs))" unfolding xs by (rule validate_batch_parts(2) [OF batch])
  then have "distinct (map (product_index \<circ> sp_product) (sort_key typed_key xs))"
    by (metis distinct_map distinct_sort map_map set_sort)
  then have "sorted_wrt (\<lambda>x y. typed_key x < typed_key y) (sort_key typed_key xs)"
    by (intro strictly_typed_sorted) simp_all
  then have "sorted_wrt (\<lambda>x y. typed_key x < typed_key y) (map unranked (tr_products r))" by (simp add: ts)
  then show "sorted_wrt typed_before (tr_products r)" unfolding sorted_wrt_map typed_before_key [abs_def] .
  have "mset (map tp_product (tr_products r)) = mset (map sp_product xs)"
    unfolding ts with_typed_ranks_sel mset_map by simp
  then show "mset (map tp_product (tr_products r)) = mset (pb_products batch)" unfolding xs .
  have "length xs = length (pb_products batch)" using xs by (metis length_map)
  then show "map tp_rank (tr_products r) = [1..<Suc (length (pb_products batch))]"
    by (simp add: ts del: upt_Suc)
qed

lemma ranked_evidence:
  assumes "rank_typed_product_batch T L H i plan batch pr = Inr r" and "t \<in> set (tr_products r)"
  shows "build_product_evidence (text_functions T) H (prop_registry pr) (prop_requirements pr) (tp_product t) =
      Inr (tp_evidence t)"
    and "evaluate_product (text_functions T) H (prop_registry pr) (prop_requirements pr) (tp_evidence t) =
      Inr (tp_evaluation t)"
    and "validate_typed_breakdown (text_functions T) (tp_breakdown t) = Inr ()"
proof -
  from typed_ranking_parts [OF assms(1)] obtain source xs where
    m: "map_result (score_with_evidence (text_functions T) H pr source) (pb_products batch) = Inr xs"
    and ts: "tr_products r = with_typed_ranks (sort_key typed_key xs)" .
  have "unranked t \<in> set xs" using ranked_scored [of t "sort_key typed_key xs"] assms(2) by (simp add: ts)
  from map_result_mem [OF m this] obtain p where "score_with_evidence (text_functions T) H pr source p = Inr (unranked t)"
    by blast
  from scored_parts [OF this] show
    "build_product_evidence (text_functions T) H (prop_registry pr) (prop_requirements pr) (tp_product t) = Inr (tp_evidence t)"
    "evaluate_product (text_functions T) H (prop_registry pr) (prop_requirements pr) (tp_evidence t) = Inr (tp_evaluation t)"
    "validate_typed_breakdown (text_functions T) (tp_breakdown t) = Inr ()" by (simp_all add: unranked_def)
qed

lemma ranks_increase:
  assumes "sorted_wrt P ts" and "map tp_rank ts = [1..<Suc n]" and "t \<in> set ts" "u \<in> set ts"
    and "\<not> P t u" and "t \<noteq> u"
  shows "tp_rank u < tp_rank t"
proof -
  obtain i j where ij: "i < length ts" "ts ! i = t" "j < length ts" "ts ! j = u"
    using assms(3,4) by (metis in_set_conv_nth)
  have rank: "tp_rank (ts ! k) = Suc k" if "k < length ts" for k
  proof -
    have "length ts = n" using assms(2) by (metis diff_Suc_1 length_map length_upt)
    then have "map tp_rank ts ! k = [1..<Suc n] ! k" "k < n" using assms(2) that by auto
    then show ?thesis using that by (simp del: upt_Suc)
  qed
  have "\<not> i < j" using sorted_wrt_nth_less [OF assms(1)] assms(5) ij by blast
  moreover have "i \<noteq> j" using assms(6) ij by blast
  ultimately have "Suc j < Suc i" by simp
  then show ?thesis using rank [OF ij(1)] rank [OF ij(3)] by (simp add: ij)
qed

lemma typed_ranking_iff:
  assumes "validate_normalized_intent i = Inr ()" and "validate_search_plan (text_functions T) plan = Inr plan"
    and "validate_batch batch = Inr ()" and "search_intent_sha256 H i = Inr (qp_intent plan)"
    and "search_query_plan_sha256 (text_functions T) H plan = Inr (pb_plan batch)"
    and "\<forall>s. is_digest (H s)"
    and "build_typed_requirement_proposal (text_functions T) H default_attribute_registry i = Inr pr"
    and "prop_status pr = Ready"
  shows "(\<exists>r. rank_typed_product_batch T L H i plan batch pr = Inr r) \<longleftrightarrow>
    (\<forall>p\<in>set (pb_products batch). \<exists>s v.
      build_product_evidence (text_functions T) H (prop_registry pr) (prop_requirements pr) p = Inr s \<and>
      evaluate_product (text_functions T) H (prop_registry pr) (prop_requirements pr) s = Inr v)"
proof
  assume "\<exists>r. rank_typed_product_batch T L H i plan batch pr = Inr r"
  then obtain r where r: "rank_typed_product_batch T L H i plan batch pr = Inr r" ..
  have products: "set (map tp_product (tr_products r)) = set (pb_products batch)"
    by (rule mset_eq_setD [OF typed_ranking_sorted(2) [OF r]])
  show "\<forall>p\<in>set (pb_products batch). \<exists>s v.
      build_product_evidence (text_functions T) H (prop_registry pr) (prop_requirements pr) p = Inr s \<and>
      evaluate_product (text_functions T) H (prop_registry pr) (prop_requirements pr) s = Inr v"
  proof
    fix p assume "p \<in> set (pb_products batch)"
    then obtain t where t: "t \<in> set (tr_products r)" "p = tp_product t" unfolding products [symmetric] by auto
    show "\<exists>s v. build_product_evidence (text_functions T) H (prop_registry pr) (prop_requirements pr) p = Inr s \<and>
        evaluate_product (text_functions T) H (prop_registry pr) (prop_requirements pr) s = Inr v"
      unfolding t(2) using ranked_evidence(1,2) [OF r t(1)] by blast
  qed
qed (rule typed_ranking_succeeds [OF assms])

section \<open>The properties\<close>

text \<open>C34. For a valid intent, plan and batch that are bound to each other and the ready proposal the adapter
  builds from the intent, the typed ranking succeeds exactly when the evidence of every product can be
  built and evaluated: no later contract of the ranking can refuse what the earlier steps computed.\<close>

theorem typed_ranking_outcome:
  assumes "validate_normalized_intent i = Inr ()" and "validate_search_plan (text_functions T) plan = Inr plan"
    and "validate_batch batch = Inr ()" and "search_intent_sha256 H i = Inr (qp_intent plan)"
    and "search_query_plan_sha256 (text_functions T) H plan = Inr (pb_plan batch)"
    and "\<forall>s. is_digest (H s)"
    and "build_typed_requirement_proposal (text_functions T) H default_attribute_registry i = Inr pr"
    and "prop_status pr = Ready"
  shows "(\<exists>r. rank_typed_product_batch T L H i plan batch pr = Inr r) \<longleftrightarrow>
    (\<forall>p\<in>set (pb_products batch). \<exists>s v.
      build_product_evidence (text_functions T) H (prop_registry pr) (prop_requirements pr) p = Inr s \<and>
      evaluate_product (text_functions T) H (prop_registry pr) (prop_requirements pr) s = Inr v)"
  by (rule typed_ranking_iff [OF assms])

theorem typed_ranking_outcome_witness:
  "\<exists>h. (\<exists>r. rank_typed_product_batch plain_tokenizer (\<lambda>n. 0) pen_hash black_intent pen_plan
      (pen_batch [blue_pen, black_pen]) (black_proposal h) = Inr r)"
proof -
  obtain h where h: "build_typed_requirement_proposal plain_library pen_hash default_attribute_registry black_intent =
      Inr (black_proposal h)"
    "typed_requirement_set_sha256 plain_library pen_hash default_attribute_registry [black_requirement] = Inr h"
    by (rule black_proposal_built)
  have "prop_status (black_proposal h) = Ready" by (simp add: black_proposal_def)
  from typed_ranking_outcome [OF black_intent_valid pen_bindings(3) black_batch_valid black_bindings pen_hash_hex(2) _ this,
      of "\<lambda>n. 0"] pen_products_evaluated [OF h(2)] h(1)
  show ?thesis by auto
qed

text \<open>C35. A ranked batch holds exactly the products of the batch, ranked from 1 without gaps, strictly
  ordered by the status of the required conditions, then the greater share of required conditions, of
  preferred conditions, the greater total and the earlier place in the response; every total lies in
  \<open>[0, 1]\<close>.\<close>

theorem typed_ranking_order:
  assumes "rank_typed_product_batch T L H i plan batch pr = Inr r"
  shows "mset (map tp_product (tr_products r)) = mset (pb_products batch) \<and>
    map tp_rank (tr_products r) = [1..<Suc (length (pb_products batch))] \<and>
    sorted_wrt typed_before (tr_products r) \<and>
    (\<forall>t\<in>set (tr_products r). 0 \<le> tb_total (tp_breakdown t) \<and> tb_total (tp_breakdown t) \<le> 1)"
  using typed_ranking_sorted [OF assms] ranked_evidence(3) [OF assms] typed_breakdown_total
  by (auto simp: unit_value_def simp del: upt_Suc)

theorem typed_ranking_order_witness:
  "\<exists>h r. rank_typed_product_batch plain_tokenizer (\<lambda>n. 0) pen_hash black_intent pen_plan
      (pen_batch [blue_pen, black_pen]) (black_proposal h) = Inr r \<and>
    sorted_wrt typed_before (tr_products r) \<and> map tp_rank (tr_products r) = [1, 2]"
proof -
  obtain h r where r: "rank_typed_product_batch plain_tokenizer (\<lambda>n. 0) pen_hash black_intent pen_plan
      (pen_batch [blue_pen, black_pen]) (black_proposal h) = Inr r"
    using black_ranking [of "\<lambda>n. 0"] by metis
  from typed_ranking_order [OF r] have "sorted_wrt typed_before (tr_products r) \<and> map tp_rank (tr_products r) = [1, 2]"
    by (simp add: pen_batch_def upt_conv_Cons)
  then show ?thesis by (intro exI) (rule conjI [OF r])
qed

text \<open>C36. In a ranked batch the status of a product follows from the evidence built for it: it is
  contradicted exactly when the observed evidence of the highest priority violates a required or excluded
  condition, confirmed exactly when it settles all of them, and a condition without observed evidence
  neither confirms nor contradicts. Every product of a better status is ranked before it.\<close>

theorem typed_ranking_verdicts:
  assumes "rank_typed_product_batch T L H i plan batch pr = Inr r" and "t \<in> set (tr_products r)"
  shows "build_product_evidence (text_functions T) H (prop_registry pr) (prop_requirements pr) (tp_product t) =
      Inr (tp_evidence t) \<and>
    (ev_status (tp_evaluation t) = Contradicted \<longleftrightarrow>
      (\<exists>q\<in>set (prop_requirements pr). contradicts q (verdict_of (tp_evidence t) q))) \<and>
    (ev_status (tp_evaluation t) = Confirmed \<longleftrightarrow> (\<forall>q\<in>set (prop_requirements pr).
      (req_strength q = Required \<longrightarrow> verdict_of (tp_evidence t) q = Match) \<and>
      (req_strength q = Excluded \<longrightarrow> verdict_of (tp_evidence t) q = Mismatch))) \<and>
    (\<forall>q\<in>set (prop_requirements pr). verdict_of (tp_evidence t) q \<noteq> Unknown \<longrightarrow>
      (\<exists>b\<in>set (es_observations (tp_evidence t)). obs_requirement b = req_id q \<and> is_observed b)) \<and>
    (\<forall>u\<in>set (tr_products r). status_order (ev_status (tp_evaluation u)) < status_order (ev_status (tp_evaluation t)) \<longrightarrow>
      tp_rank u < tp_rank t)"
proof (intro conjI ballI impI)
  note e = ranked_evidence [OF assms] and s = typed_ranking_sorted [OF assms(1)]
  show "build_product_evidence (text_functions T) H (prop_registry pr) (prop_requirements pr) (tp_product t) =
      Inr (tp_evidence t)" by (rule e(1))
  show "ev_status (tp_evaluation t) = Contradicted \<longleftrightarrow>
      (\<exists>q\<in>set (prop_requirements pr). contradicts q (verdict_of (tp_evidence t) q))"
    by (rule evaluation_status(1) [OF e(2)])
  show "ev_status (tp_evaluation t) = Confirmed \<longleftrightarrow> (\<forall>q\<in>set (prop_requirements pr).
      (req_strength q = Required \<longrightarrow> verdict_of (tp_evidence t) q = Match) \<and>
      (req_strength q = Excluded \<longrightarrow> verdict_of (tp_evidence t) q = Mismatch))"
    by (rule evaluation_status(2) [OF e(2)])
  fix q assume "verdict_of (tp_evidence t) q \<noteq> Unknown"
  from verdict_observed [OF this]
  show "\<exists>b\<in>set (es_observations (tp_evidence t)). obs_requirement b = req_id q \<and> is_observed b"
    by (auto simp: observations_for_def)
next
  note s = typed_ranking_sorted [OF assms(1)]
  fix u assume u: "u \<in> set (tr_products r)"
    and less: "status_order (ev_status (tp_evaluation u)) < status_order (ev_status (tp_evaluation t))"
  have "\<not> typed_before t u" "t \<noteq> u" using less by (auto simp: typed_before_def Let_def)
  with ranks_increase [OF s(1,3) assms(2) u] show "tp_rank u < tp_rank t" .
qed

text \<open>C37. Evidence covers its requirements: for every requirement and every source the registry allows for
  its attribute, the set holds one to eight observed values or one observation that says why none was
  found, at most 24 for a requirement; every observation is bound to the product, the registry and the
  profile of the set and to one of its requirements, no two are equal, and they stand in the canonical
  order.\<close>

theorem evidence_covers_requirements:
  assumes "build_product_evidence U H r qs p = Inr s" and "q \<in> set qs"
  shows "\<exists>d. attribute_definition_of U r (req_key q) = Inr d \<and>
      (\<forall>rule\<in>set (attr_rules d). source_report
        (filter (\<lambda>b. obs_requirement b = req_id q \<and> obs_source b = rule_source rule) (es_observations s))) \<and>
      length (filter (\<lambda>b. obs_requirement b = req_id q) (es_observations s)) \<le> 24 \<and>
      normalized_product_candidate_sha256 H p = Inr (es_product s) \<and>
      (\<forall>b\<in>set (es_observations s). obs_product b = es_product s \<and> obs_registry b = es_registry s \<and>
         obs_profile b = es_profile s \<and> obs_requirement b \<in> req_id ` set qs) \<and>
      distinct (map (evidence_digest H) (es_observations s)) \<and>
      sorted (map (observation_order (map req_id qs)) (es_observations s))"
proof -
  from evidence_of_requirement [OF assms] obtain d where d: "attribute_definition_of U r (req_key q) = Inr d"
    "\<forall>rule\<in>set (attr_rules d). source_report
        (filter (\<lambda>b. obs_requirement b = req_id q \<and> obs_source b = rule_source rule) (es_observations s))"
    "length (filter (\<lambda>b. obs_requirement b = req_id q) (es_observations s)) \<le> 24" by metis
  from evidence_parts [OF assms(1)] have p: "normalized_product_candidate_sha256 H p = Inr (es_product s)"
    "es_requirements s = map req_id qs" "validate_evidence_set U H s = Inr ()"
    "sorted (map (observation_order (map req_id qs)) (es_observations s))" by (metis sorted_sort_key)+
  have "\<forall>b\<in>set (es_observations s). obs_product b = es_product s \<and> obs_registry b = es_registry s \<and>
      obs_profile b = es_profile s \<and> obs_requirement b \<in> req_id ` set qs"
    using p(2,3) by (auto simp: validate_evidence_set_def list_ex_iff split: if_splits)
  with d p(1,4) evidence_set_valid(4) [OF p(3)] show ?thesis by blast
qed

theorem evidence_covers_requirements_witness:
  "\<exists>h. build_product_evidence plain_library pen_hash default_attribute_registry [black_requirement] black_pen =
      Inr (pen_evidence h ''black'') \<and>
    length (filter (\<lambda>b. obs_requirement b = req_id black_requirement) (es_observations (pen_evidence h ''black''))) \<le> 24"
proof -
  obtain h where h: "typed_requirement_set_sha256 plain_library pen_hash default_attribute_registry [black_requirement] = Inr h"
    using black_set by blast
  have b: "build_product_evidence plain_library pen_hash default_attribute_registry [black_requirement] black_pen =
      Inr (pen_evidence h ''black'')"
    using pen_evidence_built [OF _ _ h] pens_valid by (simp add: pens)
  from evidence_covers_requirements [OF b, of black_requirement] b show ?thesis by auto
qed

lemma blue_verdict: "verdict_of (pen_evidence h ''blue'') black_requirement = Mismatch"
proof -
  have own: "observations_for (pen_evidence h ''blue'') black_requirement = [color_observation ''blue'', title_observation]"
    by (simp add: observations_for_def pen_evidence_def color_observation_def title_observation_def black_requirement_def)
  have obs: "is_observed (color_observation ''blue'')" "\<not> is_observed title_observation"
    by (simp_all add: is_observed_def color_observation_def title_observation_def)
  have "top_evidence (set [color_observation ''blue'', title_observation]) = {color_observation ''blue''}"
    using obs by (auto simp: top_evidence_def)
  moreover have "obs_value (color_observation ''blue'') = Some (EnumObserved ''blue'')"
    "matches (req_operator black_requirement) (req_target black_requirement) (EnumObserved ''blue'') = Inr False"
    by (simp_all add: color_observation_def black_requirement_def)
  ultimately show ?thesis using obs(1) by (simp add: verdict_of_observations own verdict_def Let_def)
qed

theorem typed_ranking_verdicts_witness:
  "\<exists>h r t. rank_typed_product_batch plain_tokenizer (\<lambda>n. 0) pen_hash black_intent pen_plan
      (pen_batch [blue_pen, black_pen]) (black_proposal h) = Inr r \<and> t \<in> set (tr_products r) \<and>
    tp_product t = blue_pen \<and> ev_status (tp_evaluation t) = Contradicted"
proof -
  obtain h r where h: "build_typed_requirement_proposal plain_library pen_hash default_attribute_registry black_intent =
      Inr (black_proposal h)"
    and r: "rank_typed_product_batch plain_tokenizer (\<lambda>n. 0) pen_hash black_intent pen_plan
      (pen_batch [blue_pen, black_pen]) (black_proposal h) = Inr r" by (rule black_ranking)
  have set: "typed_requirement_set_sha256 plain_library pen_hash default_attribute_registry [black_requirement] = Inr h"
    using built_proposal_parts(4) [OF h] by (simp add: black_proposal_def)
  have "set (map tp_product (tr_products r)) = set (pb_products (pen_batch [blue_pen, black_pen]))"
    by (rule mset_eq_setD [OF typed_ranking_sorted(2) [OF r]])
  then have "blue_pen \<in> tp_product ` set (tr_products r)" by (auto simp: pen_batch_def)
  then obtain t where t: "t \<in> set (tr_products r)" "tp_product t = blue_pen" by auto
  note v = typed_ranking_verdicts [OF r t(1)]
  have "build_product_evidence plain_library pen_hash default_attribute_registry [black_requirement] blue_pen =
      Inr (pen_evidence h ''blue'')"
    using pen_evidence_built [OF _ _ set] pens_valid by (simp add: pens)
  then have "tp_evidence t = pen_evidence h ''blue''" using v t(2) by (simp add: black_proposal_def)
  moreover have "contradicts black_requirement (verdict_of (pen_evidence h ''blue'') black_requirement)"
    unfolding blue_verdict by (simp add: contradicts_def black_requirement_def)
  ultimately have "ev_status (tp_evaluation t) = Contradicted" using v by (simp add: black_proposal_def)
  with r t show ?thesis by (intro exI) (rule conjI [OF r], simp)
qed

section \<open>Errors\<close>

text \<open>A phrase that folds to nothing has no first character and an attribute without units no first unit:
  both are an index error, which the modules do not catch.\<close>

abbreviation evidence_call :: "'a result \<Rightarrow> bool" where
  "evidence_call \<equiv> raises_only (\<lambda>e. is_evidence_input_error e \<or> e = IndexError)"

lemma evidence_of_contract: "contract_call x \<Longrightarrow> evidence_call x"
  by (erule raises_mono) (auto simp: is_evidence_input_error_def is_contract_error_def)

lemma evidence_of_value: "value_call x \<Longrightarrow> evidence_call x"
  by (erule raises_mono) (simp add: is_evidence_input_error_def)

lemma evidence_of_one: "raises_only (\<lambda>e. e = f) x \<Longrightarrow> is_evidence_input_error f \<Longrightarrow> evidence_call x"
  by (erule raises_mono) simp

lemma rewrap_escape:
  assumes "raises_only (\<lambda>e. c e \<or> e = f) x"
  shows "raises_only (\<lambda>e. e = g \<or> e = f) (rewrap c g x)"
  using assms by (cases x) (auto simp: raises_only_def)

lemma evidence_Inl: "is_evidence_input_error e \<or> e = IndexError \<Longrightarrow> evidence_call (Inl e)"
  by (rule raises_Inl)

lemma evidence_errors [simp]: "is_evidence_input_error (ValueError m)" "is_evidence_input_error (ValidationError m)"
  "is_evidence_input_error (TypeError m)" "is_evidence_input_error TypedRequirementError"
  "is_evidence_input_error RequirementEvaluationError" "is_evidence_input_error ProductEvidenceError"
  by (simp_all add: is_evidence_input_error_def)

lemma observed_check: "contract_call (validate_observed U v)"
  by (intro raises_rules)

lemma evidence_texts: "evidence_call (normalized_text U s)"
  unfolding normalized_text_def Let_def by (intro raises_rules; simp)

lemma evidence_reading: "evidence_call (read_labelled_specification U s d)"
proof -
  have c: "evidence_call (converted v unit target)" for v unit target
    unfolding converted_def by (auto simp: raises_only_def split: if_splits option.splits)
  note o = evidence_of_contract [OF observed_check]
  have n: "evidence_call (numeric_value U t d)" for t
    unfolding numeric_value_def Let_def
    by (auto split: option.split list.split intro!: raises_bind raises_if c o evidence_Inl)
  have v: "evidence_call (specification_value U d t)" for t
    unfolding specification_value_def
    by (auto split: value_type.split option.split intro!: raises_if raises_Inr n o evidence_Inl)
  show ?thesis
    unfolding read_labelled_specification_def Let_def
    by (intro raises_if raises_bind raises_Inr v evidence_of_contract [OF observed_calls]) (simp add: evidence_Inl)
qed

lemma evidence_labels: "evidence_call (labelled_values U d vs fs)"
  by (induction fs arbitrary: vs) (auto intro!: raises_bind raises_Inr evidence_reading)

lemma evidence_matches: "evidence_call (phrase_matches U s ps)"
proof -
  have "evidence_call (phrase_is_bounded U text i j ph)" for "text" i j ph
    unfolding phrase_is_bounded_def Let_def by (intro raises_if raises_Inr evidence_Inl) simp
  then have "evidence_call (matches_of U cs pv)" for cs pv
    unfolding matches_of_def Let_def by (intro raises_bind raises_map_result raises_Inr evidence_texts)
  then show ?thesis unfolding phrase_matches_def by (intro raises_bind raises_map_result raises_Inr)
qed

lemma evidence_phrases: "evidence_call (enum_phrase_map U d)"
  unfolding enum_phrase_map_def
  by (intro raises_bind raises_map_result raises_Inr) (auto intro!: raises_bind raises_Inr evidence_texts)

lemma evidence_extraction: "evidence_call (extract_values U d p source)"
proof -
  note o = evidence_of_contract [OF observed_check]
  have w: "evidence_call (width_values U ts full)" for ts full
    unfolding width_values_def Let_def by (intro raises_if raises_bind raises_map_result raises_Inr evidence_texts)
  have f: "evidence_call (enum_values_from_exact_features U d fs)" for fs
    unfolding enum_values_from_exact_features_def
    by (intro raises_if raises_bind raises_map_result raises_Inr evidence_texts evidence_phrases o)
  have t: "evidence_call (enum_values_from_title U d s)" for s
    unfolding enum_values_from_title_def
    by (intro raises_bind raises_map_result raises_Inr evidence_texts evidence_phrases evidence_matches o)
  have e: "evidence_call (enum_field U d x)" for x
  proof -
    have "evidence_call (case normalize_observed_value U d v of Inl e \<Rightarrow> if e = TypedRequirementError
        then Inr (nothing Invalid_observation) else Inl e | Inr n \<Rightarrow> Inr (found [n]))" for v
      using evidence_of_contract [OF observed_calls, of U d v] by (auto simp: raises_only_def split: sum.splits)
    then show ?thesis unfolding enum_field_def
      by (auto split: option.split intro!: raises_Inr raises_bind o)
  qed
  have l: "evidence_call (case labelled_values U d [] fs of Inl e \<Rightarrow> if is_ValueError e
      then Inr (nothing Invalid_observation) else Inl e
      | Inr vs \<Rightarrow> Inr (if vs = [] then nothing Source_missing else found vs))" for fs
    using evidence_labels [of U d "[]" fs] by (auto simp: raises_only_def split: sum.splits)
  show ?thesis
    by (cases source) (auto simp: structured_values_def title_values_def Let_def intro!: raises_if raises_Inr w f t e l)
qed

lemma input_of_value: "value_call x \<Longrightarrow> raises_only is_evidence_input_error x"
  by (erule raises_mono) (simp add: is_evidence_input_error_def)

lemma product_digest_errors: "evidence_call (normalized_product_candidate_sha256 H p)"
proof -
  have "raises_only (\<lambda>e. e = ProductEvidenceError) (normalized_product_candidate_sha256 H p)"
    unfolding normalized_product_candidate_sha256_def
    by (rule rewrap_raises, intro raises_bind raises_Inr input_of_value product_calls)
  then show ?thesis by (rule evidence_of_one) simp
qed

lemma artifact_calls: "evidence_call (artifact_digest H p source)"
  by (cases source) (auto intro!: raises_Inr raises_bind product_digest_errors)

lemma evidence_set_calls: "contract_call (validate_evidence_set U H s)"
  unfolding validate_evidence_set_def by (intro raises_rules; simp)

lemma requirement_observation_calls: "evidence_call (requirement_observations U H r p product q)"
proof -
  have "evidence_call (rule_observations U H r p product q d rule)" for d rule
    unfolding rule_observations_def Let_def
    by (intro raises_bind raises_if raises_map_result raises_Inr evidence_extraction artifact_calls
        evidence_of_one [OF build_errors]) (simp_all add: evidence_Inl)
  then show ?thesis unfolding requirement_observations_def
    by (intro raises_bind raises_map_result raises_Inr evidence_of_contract [OF lookup_calls])
qed

lemma product_evidence_errors:
  "raises_only (\<lambda>e. e = ProductEvidenceError \<or> e = IndexError) (build_product_evidence U H r qs p)"
  unfolding build_product_evidence_def Let_def
  by (rule rewrap_escape, intro raises_bind raises_map_result raises_Inr evidence_of_value [OF product_calls(1)]
      evidence_of_contract [OF registry_calls] evidence_of_contract [OF set_calls] evidence_of_contract [OF digest_calls]
      product_digest_errors requirement_observation_calls evidence_of_contract [OF evidence_set_calls])

section \<open>Errors of the ranking\<close>

abbreviation typed_call :: "'a result \<Rightarrow> bool" where
  "typed_call \<equiv> raises_only (\<lambda>e. is_typed_ranking_failure e \<or> e = IndexError)"

lemma typed_failures [simp]: "is_typed_ranking_failure AssertionError" "is_typed_ranking_failure KeyError"
  "is_typed_ranking_failure (TypeError m)" "is_typed_ranking_failure (ValueError m)"
  "is_typed_ranking_failure (ValidationError m)" "is_typed_ranking_failure TypedRequirementError"
  "is_typed_ranking_failure RequirementEvaluationError" "is_typed_ranking_failure TypedIntentAdapterError"
  "is_typed_ranking_failure RankingError" "is_typed_ranking_failure TypedRankingError"
  "is_typed_ranking_failure ProductEvidenceError"
  by (simp_all add: is_typed_ranking_failure_def)

lemma typed_of_contract: "contract_call x \<Longrightarrow> typed_call x"
  by (erule raises_mono) (auto simp: is_typed_ranking_failure_def is_contract_error_def)

lemma typed_of_value: "value_call x \<Longrightarrow> typed_call x"
  by (erule raises_mono) (simp add: is_typed_ranking_failure_def)

lemma typed_of_one: "raises_only (\<lambda>e. e = f) x \<Longrightarrow> is_typed_ranking_failure f \<Longrightarrow> typed_call x"
  by (erule raises_mono) simp

lemma typed_Inl: "is_typed_ranking_failure e \<or> e = IndexError \<Longrightarrow> typed_call (Inl e)"
  by (rule raises_Inl)

lemma typed_breakdown_calls: "value_call (validate_typed_breakdown U b)"
  unfolding validate_typed_breakdown_def Let_def by (intro raises_rules; simp)

lemma typed_of_evidence: "typed_call (build_product_evidence U H r qs p)"
  by (rule raises_mono [OF product_evidence_errors]) auto

lemma typed_evaluation: "typed_call (evaluate_product U H r qs s)"
  unfolding evaluate_product_def
  by (intro raises_bind raises_map_result typed_of_one [OF adjudicate_errors] typed_of_one [OF evaluate_errors]; simp)

lemma typed_scores: "typed_call (typed_score U r qs v)"
proof -
  have "typed_call (requirement_weight U r v q)" for q
    unfolding requirement_weight_def
    by (intro raises_bind typed_of_contract [OF lookup_calls]) (auto split: option.split intro!: raises_Inr typed_Inl)
  then show ?thesis unfolding typed_score_def Let_def
    by (intro raises_if raises_bind raises_map_result raises_Inr)
qed

lemma typed_product_scores: "typed_call (score_typed_product U r qs v source)"
proof -
  have "typed_call (build_component raw w a)" for raw w a
    by (rule raises_mono [OF component_calls]) (auto simp: is_ranking_failure_def is_typed_ranking_failure_def)
  then have "typed_call (typed_component raw w a)" for raw w a
    unfolding typed_component_def by (intro raises_if typed_Inl) simp_all
  then show ?thesis unfolding score_typed_product_def Let_def
    by (intro raises_bind raises_map_result raises_prod raises_Inr typed_scores typed_of_value [OF typed_breakdown_calls])
qed

lemma typed_keys: "typed_call (typed_sort_key p v b)"
  unfolding typed_sort_key_def by (rule typed_of_one [OF sort_key_errors]) simp

lemma typed_digests: "typed_call (normalized_product_candidate_sha256 H p)"
  by (rule raises_mono [OF product_digest_errors]) (auto simp: is_evidence_input_error_def is_typed_ranking_failure_def)

lemma typed_product_checks: "typed_call (validate_typed_product U H t)"
  unfolding validate_typed_product_def
  by (intro raises_if raises_bind raises_Inr typed_of_value [OF product_calls(1)] typed_of_contract [OF evidence_set_calls]
      typed_of_contract [OF binding_calls(4)] typed_of_value [OF typed_breakdown_calls] typed_digests typed_Inl; simp)

lemma typed_batch_checks: "typed_call (validate_typed_batch U H b)"
proof -
  have again: "typed_call (reproducible U H plan pr t)" for plan pr t
    unfolding reproducible_def Let_def
    by (intro raises_if raises_bind raises_Inr typed_of_evidence typed_evaluation typed_scores typed_Inl; simp)
  show ?thesis unfolding validate_typed_batch_def Let_def
    by (intro raises_if raises_bind raises_check_all raises_map_result raises_Inr typed_of_contract [OF proposal_calls]
        typed_product_checks typed_of_one [OF proposal_digest_errors] typed_of_contract [OF digest_calls]
        typed_of_contract [OF set_calls] again typed_keys typed_Inl; simp)
qed

lemma scored_calls: "typed_call (score_with_evidence U H pr source p)"
  unfolding score_with_evidence_def
  by (intro raises_bind typed_of_evidence typed_evaluation)
    (auto split: option.split intro!: raises_bind raises_Inr typed_product_scores typed_Inl)

lemma order_calls: "typed_call (order_scored xs)"
  unfolding order_scored_def by (intro raises_bind raises_map_result raises_Inr typed_keys)

lemma ranked_digest_calls: "value_call (ranked_product_batch_sha256 U H k)"
  unfolding ranked_product_batch_sha256_def by (intro raises_rules; simp)

text \<open>C38. Whatever their arguments, a failing call that builds the evidence of a product raises the
  fixed-message error of its module or an index error, and so does a failing call of the typed ranking:
  no error of the contracts it composes escapes.\<close>

theorem typed_ranking_errors:
  "raises_only (\<lambda>e. e = ProductEvidenceError \<or> e = IndexError) (build_product_evidence U H r qs p) \<and>
   raises_only (\<lambda>e. e = TypedRankingError \<or> e = IndexError) (rank_typed_product_batch T L H i plan batch pr)"
proof
  show "raises_only (\<lambda>e. e = TypedRankingError \<or> e = IndexError) (rank_typed_product_batch T L H i plan batch pr)"
    unfolding rank_typed_product_batch_def Let_def
    by (rule rewrap_escape, intro raises_if raises_bind raises_check_all raises_map_result raises_Inr
        typed_of_value [OF intent_calls(2)] typed_of_value [OF query_calls(2)] typed_of_value [OF product_calls(2)]
        typed_of_contract [OF proposal_calls] typed_of_value [OF intent_calls(3)] typed_of_value [OF query_calls(3)]
        typed_of_value [OF product_calls(3)] typed_of_one [OF build_proposal_errors] typed_of_one [OF rank_errors]
        scored_calls order_calls typed_product_checks typed_of_value [OF ranked_digest_calls]
        typed_of_one [OF proposal_digest_errors] typed_batch_checks typed_Inl; simp)
qed (rule product_evidence_errors)

end
