(* ===== verification/Request_Authorization.thy ===== *)
theory Request_Authorization
  imports Typed_Ranking Product_Request Session
begin

text \<open>
  Model of \<open>search_v2/outscraper_request.py\<close>: an execution permit for a product request. It composes the
  query planner, the request contract, the approval plan and the consumption of an approval. The record
  \<open>search_planner\<close> gives the planning interface of \<open>approval.py\<close> the modules the code imports.
\<close>

section \<open>The planning modules\<close>

text \<open>The digest functions of a planner are total: the callers digest validated values, and a value that
  does not validate is digested as it is.\<close>

definition query_plan_digest :: "text_library \<Rightarrow> (string \<Rightarrow> string) \<Rightarrow> search_query_plan \<Rightarrow> string" where
  "query_plan_digest U H q =
     canonical_sha256 H query_plan_domain
       (search_plan_json (case validate_search_plan U q of Inl e \<Rightarrow> q | Inr v \<Rightarrow> v))"

definition search_planner ::
  "text_library \<Rightarrow> (string \<Rightarrow> string) \<Rightarrow> (time \<Rightarrow> string) \<Rightarrow>
   (normalized_intent, search_query_plan, requirement_proposal) planner" where
  "search_planner U H D =
     \<lparr>validate_intent = (\<lambda>i. bind (validate_normalized_intent i) (\<lambda>_. Inr i)),
      intent_sha256 = (\<lambda>i. canonical_sha256 H intent_domain (search_intent_json i)),
      intent_prompt_sha256 = (\<lambda>i. prov_prompt (provenance i)),
      intent_schema_sha256 = (\<lambda>i. prov_schema (provenance i)),
      intent_json = search_intent_json,
      validate_query_plan = validate_search_plan U,
      query_plan_sha256 = query_plan_digest U H,
      query_plan_intent_sha256 = qp_intent,
      query_plan_json = search_plan_json,
      build_proposal = build_typed_requirement_proposal U H default_attribute_registry,
      Approval_Plan.planner.validate_proposal =
        (\<lambda>p. bind (Typed_Intent_Adapter.validate_proposal U H p) (\<lambda>_. Inr p)),
      proposal_sha256 = (\<lambda>p. canonical_sha256 H proposal_domain (proposal_json p)),
      proposal_blocking = (\<lambda>p. prop_status p = Typed_Intent_Adapter.Blocking),
      json_time = D,
      ranking_profile_id = ''typed-ranking-v4'',
      ranking_profile_sha256 = typed_profile_digest H,
      evidence_profile_sha256 = evidence_profile_digest H,
      text_tables = U\<rparr>"

section \<open>Authorisation\<close>

record authorized_request =
  au_request :: outscraper_request
  au_session :: session
  au_plan_sha256 :: string
  au_reservation :: string
  au_at :: time

definition is_input_error :: "exn \<Rightarrow> bool" where
  "is_input_error e \<longleftrightarrow> is_TypeError e \<or> is_ValueError e"

text \<open>The checks before the approval is consumed: the request and the plan it is approved by, with the
  digest of the plan.\<close>

definition authorization_checks ::
  "text_library \<Rightarrow> (string \<Rightarrow> bool) \<Rightarrow> (string \<Rightarrow> string) \<Rightarrow> (time \<Rightarrow> string) \<Rightarrow> outscraper_request \<Rightarrow>
   (normalized_intent, search_query_plan) approval_plan \<Rightarrow>
   ((normalized_intent, search_query_plan) approval_plan \<times> string) result" where
  "authorization_checks U B H D request plan =
     (let P = search_planner U H D in
      bind (rewrap is_input_error (OutscraperAuthorizationError ''Outscraper request is invalid'')
             (validate_outscraper_request U B request)) (\<lambda>_.
      bind (rewrap is_input_error (OutscraperAuthorizationError ''Outscraper approval plan is invalid'')
             (validate_plan P plan)) (\<lambda>a.
      bind (search_query_plan_sha256 U H (plan_query a)) (\<lambda>query_digest.
      if or_plan request \<noteq> query_digest
      then Inl (OutscraperAuthorizationError ''Outscraper request query plan does not match approval'')
      else if map (\<lambda>q. (query_language q, query_value q)) (or_queries request) \<noteq>
              map (\<lambda>q. (query_language q, query_value q)) (qp_queries (plan_query a))
      then Inl (OutscraperAuthorizationError ''Outscraper request query batch does not match approval'')
      else bind (request_sha256 U B H (Outscraper_request request)) (\<lambda>request_digest.
        if request_digest \<noteq> plan_request_sha256 a
        then Inl (OutscraperAuthorizationError ''Outscraper request does not match approval'')
        else bind (search_approval_plan_sha256 P H a) (\<lambda>d. Inr (a, d)))))))"

definition authorize_outscraper_request ::
  "text_library \<Rightarrow> (string \<Rightarrow> bool) \<Rightarrow> (string \<Rightarrow> string) \<Rightarrow> (time \<Rightarrow> string) \<Rightarrow> outscraper_request \<Rightarrow>
   session \<Rightarrow> approval_ledger \<Rightarrow> string \<Rightarrow> (normalized_intent, search_query_plan) approval_plan \<Rightarrow>
   usage_reservation \<Rightarrow> string \<Rightarrow> string \<Rightarrow> int \<Rightarrow> time_arg \<Rightarrow>
   authorized_request result \<times> approval_ledger" where
  "authorize_outscraper_request U B H D request s ledger token plan r own sid expected now =
     (case authorization_checks U B H D request plan of
        Inl e \<Rightarrow> (Inl e, ledger)
      | Inr (a, d) \<Rightarrow>
          (case consume_search_approval (search_planner U H D) H s ledger token a r own sid expected now of
             (Inl e, ledger') \<Rightarrow> (Inl e, ledger')
           | (Inr submitted, ledger') \<Rightarrow>
               (case approval submitted of
                  None \<Rightarrow> (Inl AssertionError, ledger')
                | Some g \<Rightarrow>
                    (case consumed_at g of
                       None \<Rightarrow> (Inl AssertionError, ledger')
                     | Some t \<Rightarrow>
                         (Inr \<lparr>au_request = request, au_session = submitted, au_plan_sha256 = d,
                               au_reservation = res_id r, au_at = t\<rparr>, ledger')))))"

end
