(* ===== verification/Approved_Search.thy ===== *)
theory Approved_Search
  imports Request_Authorization Approval_Theorems Typed_Ranking_Theorems
begin

text \<open>
  What an execution permit guarantees, and the whole search: a plan a user approved, the normalised
  response to its request and the typed ranking of the products.
\<close>

section \<open>The planner\<close>

lemma search_planner_sel [simp]:
  "validate_intent (search_planner U H D) i = bind (validate_normalized_intent i) (\<lambda>_. Inr i)"
  "intent_sha256 (search_planner U H D) i = canonical_sha256 H intent_domain (search_intent_json i)"
  "validate_query_plan (search_planner U H D) q = validate_search_plan U q"
  "query_plan_intent_sha256 (search_planner U H D) q = qp_intent q"
  "build_proposal (search_planner U H D) i = build_typed_requirement_proposal U H default_attribute_registry i"
  "proposal_blocking (search_planner U H D) p \<longleftrightarrow> prop_status p = Typed_Intent_Adapter.Blocking"
  by (simp_all add: search_planner_def)

text \<open>A plan that is its own validated form binds an intent, a query plan and a ready proposal the ranking accepts.\<close>

lemma approved_plan_parts:
  assumes "validate_plan (search_planner U H D) a = Inr a"
  obtains pr where "validate_normalized_intent (plan_intent a) = Inr ()"
    and "validate_search_plan U (plan_query a) = Inr (plan_query a)"
    and "search_intent_sha256 H (plan_intent a) = Inr (qp_intent (plan_query a))"
    and "build_typed_requirement_proposal U H default_attribute_registry (plan_intent a) = Inr pr"
    and "prop_status pr = Typed_Intent_Adapter.Ready"
proof -
  note d = validate_planD(4-6) [OF assms]
  from d(3) obtain pr where pr: "build_typed_requirement_proposal U H default_attribute_registry (plan_intent a) = Inr pr"
    "prop_status pr \<noteq> Typed_Intent_Adapter.Blocking" by auto
  from assms obtain q where v: "validate_normalized_intent (plan_intent a) = Inr ()"
    "validate_search_plan U (plan_query a) = Inr q" "a\<lparr>plan_intent := plan_intent a, plan_query := q\<rparr> = a"
    unfolding validate_plan_def Let_def bind_eq_Inr rewrap_eq_Inr search_planner_sel
    by (elim exE conjE) (rule that, simp_all)
  from arg_cong [OF v(3), of plan_query] have "plan_query a = q" by simp
  moreover have "prop_status pr = Typed_Intent_Adapter.Ready" using pr(2) by (cases "prop_status pr") auto
  moreover have "search_intent_sha256 H (plan_intent a) = Inr (qp_intent (plan_query a))"
    using v(1) d(2) by (simp add: search_intent_sha256_def)
  ultimately show thesis using that v pr(1) by simp
qed

section \<open>The permit\<close>

lemma authorization_checks_parts:
  assumes "authorization_checks U B H D request plan = Inr (a, d)"
  shows "validate_outscraper_request U B request = Inr ()" and "validate_plan (search_planner U H D) plan = Inr a"
    and "search_query_plan_sha256 U H (plan_query a) = Inr (or_plan request)"
    and "or_queries request = qp_queries (plan_query a)"
    and "request_sha256 U B H (Outscraper_request request) = Inr (plan_request_sha256 a)"
    and "search_approval_plan_sha256 (search_planner U H D) H a = Inr d"
proof -
  have same: "map (\<lambda>q. (query_language q, query_value q)) xs = map (\<lambda>q. (query_language q, query_value q)) ys \<Longrightarrow> xs = ys"
    for xs ys :: "search_query list"
    by (rule list.inj_map_strong) auto
  show "validate_outscraper_request U B request = Inr ()" "validate_plan (search_planner U H D) plan = Inr a"
    "search_query_plan_sha256 U H (plan_query a) = Inr (or_plan request)"
    "request_sha256 U B H (Outscraper_request request) = Inr (plan_request_sha256 a)"
    "search_approval_plan_sha256 (search_planner U H D) H a = Inr d"
    using assms unfolding authorization_checks_def Let_def
    by (auto simp: rewrap_eq_Inr if_Inl_eq_Inr simp del: request_sha256.simps split: if_splits)
  show "or_queries request = qp_queries (plan_query a)"
    using assms same unfolding authorization_checks_def Let_def
    by (auto simp: rewrap_eq_Inr if_Inl_eq_Inr simp del: request_sha256.simps split: if_splits)
qed

lemma authorization_outcome:
  "(\<exists>e. authorize_outscraper_request U B H D request s l token plan r own sid n now = (Inl e, l)) \<or>
   (\<exists>a d g t. authorization_checks U B H D request plan = Inr (a, d) \<and>
      authorize_outscraper_request U B H D request s l token plan r own sid n now =
      (Inr \<lparr>au_request = request, au_session = stamp t s (submitted g t s), au_plan_sha256 = d,
        au_reservation = res_id r, au_at = t\<rparr>, l @ [(grant_token g, claim_record s g t)]) \<and>
      ready s n [Search_approval] now t \<and> own = owner s \<and> sid = session_id s \<and>
      consumable (search_planner U H D) H s token a r g t \<and> \<not> token_claimed l (grant_token g))"
proof (cases "authorization_checks U B H D request plan")
  case (Inl e)
  then show ?thesis by (simp add: authorize_outscraper_request_def)
next
  case (Inr ad)
  obtain a d where ad: "ad = (a, d)" by (cases ad)
  let ?c = "consume_search_approval (search_planner U H D) H s l token a r own sid n now"
  show ?thesis
  proof (cases ?c)
    case (Pair res l')
    show ?thesis
    proof (cases res)
      case (Inl e)
      with Pair have "l' = l" using consume_error_keeps_ledger by blast
      with Inl Pair Inr ad show ?thesis by (simp add: authorize_outscraper_request_def)
    next
      case (Inr s')
      with Pair have "?c = (Inr s', l')" by simp
      then obtain g t where g: "ready s n [Search_approval] now t" "own = owner s" "sid = session_id s"
        "consumable (search_planner U H D) H s token a r g t" "\<not> token_claimed l (grant_token g)"
        "l' = l @ [(grant_token g, claim_record s g t)]" "s' = stamp t s (submitted g t s)"
        unfolding consume_search_approval_eq by blast
      have "approval s' = Some (g\<lparr>consumed_at := Some t\<rparr>)" by (simp add: g(7) stamp_def submitted_def)
      then show ?thesis using Pair Inr g \<open>authorization_checks U B H D request plan = Inr ad\<close> ad
        by (intro disjI2 exI [of _ a] exI [of _ d] exI [of _ g] exI [of _ t]) (simp add: authorize_outscraper_request_def)
    qed
  qed
qed

section \<open>A search for a pen\<close>

definition pen_proposal :: requirement_proposal where
  "pen_proposal = \<lparr>prop_status = Typed_Intent_Adapter.Ready, prop_intent = sample_digest_text,
     prop_candidates = sample_digest_text, prop_registry_sha256 = sample_digest_text,
     prop_registry = default_attribute_registry, prop_profile = sample_digest_text,
     prop_requirement_set = sample_digest_text, prop_requirements = [], prop_issues = []\<rparr>"

lemma no_requirements:
  "normalize_typed_requirements plain_library search_hash default_attribute_registry [] = Inr []"
  "typed_requirement_set_sha256 plain_library search_hash default_attribute_registry [] = Inr sample_digest_text"
proof -
  show n: "normalize_typed_requirements plain_library search_hash default_attribute_registry [] = Inr []"
    by (simp add: normalize_typed_requirements_def default_registry_plain attribute_registry_sha256_def
        max_requirements_def)
  show "typed_requirement_set_sha256 plain_library search_hash default_attribute_registry [] = Inr sample_digest_text"
    using normalized_digest(2) [OF n ascii_plain_library default_short_keys, of "[]"] by simp
qed

lemma pen_proposal_built:
  "build_typed_requirement_proposal plain_library search_hash default_attribute_registry pen_intent = Inr pen_proposal"
proof -
  have none: "typed_conditions pen_intent = []" "\<not> has_blocking_ambiguity pen_intent"
    by (simp_all add: pen_intent_def has_blocking_ambiguity_def)
  have registry: "proposal_registry plain_library search_hash default_attribute_registry pen_intent = Inr default_attribute_registry"
    by (simp add: proposal_registry_def none compile_search_registry_def)
  have digest: "attribute_registry_sha256 plain_library search_hash default_attribute_registry = Inr sample_digest_text"
    by (simp add: attribute_registry_sha256_def default_registry_plain)
  have "search_intent_sha256 search_hash pen_intent = Inr sample_digest_text"
    by (simp add: search_intent_sha256_def pen_intent_valid)
  moreover have "Typed_Intent_Adapter.validate_proposal plain_library search_hash pen_proposal = Inr ()"
    by (simp add: Typed_Intent_Adapter.validate_proposal_def proposal_fields_def pen_proposal_def default_registry_plain digest
        max_typed_conditions_def max_typed_issues_def)
  ultimately show ?thesis
    by (simp add: build_typed_requirement_proposal_def pen_intent_valid default_registry_plain registry none digest
        no_requirements(2) Let_def pen_proposal_def candidate_set_sha256_def adapter_profile_sha256_def)
qed

definition pen_approval :: "(normalized_intent, search_query_plan) approval_plan" where
  "pen_approval = \<lparr>plan_owner = ''owner'', plan_session = ''session'', plan_intent = pen_intent,
     plan_intent_sha256 = sample_digest_text, plan_proposal_sha256 = sample_digest_text, plan_query = pen_plan,
     plan_request_sha256 = sample_digest_text, plan_image_mode = Images_off, plan_image_set = None,
     plan_image_metadata = None, plan_reference = None, plan_profile = Legacy_four_views,
     plan_allowances = map (\<lambda>(p, n). \<lparr>allow_provider = p, allow_calls = n, allow_tokens = 0,
       allow_cost_microusd = 0, allow_pricing_policy = sample_digest_text\<rparr>)
       [(Bonsai, 1), (Cloudflare, 0), (Outscraper, 1)],
     plan_runtime = \<lparr>rt_bonsai_model = ''bonsai'', rt_bonsai_prompt = sample_digest_text,
       rt_bonsai_schema = sample_digest_text, rt_cloudflare_model = None, rt_image_prompt = None,
       rt_ranking_profile = ''typed-ranking-v4'', rt_ranking_sha256 = sample_digest_text,
       rt_evidence_sha256 = sample_digest_text, rt_implementation = sample_digest_text,
       rt_usage_policy = sample_digest_text\<rparr>,
     plan_created = 10, plan_expires = 10 + approval_ttl\<rparr>"

lemma pen_approval_valid: "validate_plan (search_planner plain_library search_hash D) pen_approval = Inr pen_approval"
proof -
  have profile: "is_bounded_identifier plain_library ''typed-ranking-v4''" "is_bounded_identifier plain_library ''bonsai''"
    by (simp_all add: identifier_defs plain_library_def)
  have fields: "plan_fields_ok pen_approval"
    by (simp add: plan_fields_ok_def pen_approval_def small_strings approved_usage_ok_def max_usage_calls_def
        max_usage_tokens_def max_usage_cost_microusd_def)
  have runtime: "validate_runtime (search_planner plain_library search_hash D) (plan_runtime pen_approval) = Inr ()"
    by (simp add: validate_runtime_def runtime_fields_ok_def pen_approval_def search_planner_def small_strings profile
        typed_profile_digest_def evidence_profile_digest_def)
  have bindings: "check_plan_bindings (search_planner plain_library search_hash D) pen_approval = Inr ()"
    by (simp add: check_plan_bindings_def check_plan_identity_def check_plan_images_def allowance_of_def
        pen_approval_def pen_proposal_built)
      (simp add: search_planner_def pen_proposal_def pen_plan_def pen_intent_def pen_provenance_def)
  have kept: "plan_intent pen_approval = pen_intent" "plan_query pen_approval = pen_plan" by (simp_all add: pen_approval_def)
  have same: "pen_approval\<lparr>plan_intent := pen_intent, plan_query := pen_plan\<rparr> = pen_approval" by (simp add: pen_approval_def)
  show ?thesis
    using fields runtime bindings
    by (simp add: validate_plan_def Let_def kept pen_intent_valid pen_plan_valid same)
qed

lemma no_evidence_needed:
  assumes "validate_product p = Inr ()"
  shows "\<exists>s v. build_product_evidence plain_library search_hash default_attribute_registry [] p = Inr s \<and>
    evaluate_product plain_library search_hash default_attribute_registry [] s = Inr v"
proof -
  let ?s = "\<lparr>es_product = sample_digest_text, es_registry = sample_digest_text, es_requirement_set = sample_digest_text,
    es_profile = sample_digest_text, es_requirements = [], es_observations = []\<rparr>"
  have "build_product_evidence plain_library search_hash default_attribute_registry [] p = Inr ?s"
    by (simp add: build_product_evidence_def assms default_registry_plain no_requirements(2) Let_def
        attribute_registry_sha256_def normalized_product_candidate_sha256_def evidence_profile_digest_def
        validate_evidence_set_def max_total_observations_def)
  moreover have "hex_hash search_hash" by (simp add: hex_hash_def)
  then obtain v where "evaluate_typed_product plain_library search_hash default_attribute_registry [] [] sample_digest_text = Inr v"
    using evaluate_succeeds [OF no_requirements(1) ascii_plain_library default_short_keys, of sample_digest_text "[]"] by auto
  then have "evaluate_product plain_library search_hash default_attribute_registry [] ?s = Inr v"
    by (simp add: evaluate_product_def)
  ultimately show ?thesis by blast
qed

end
