(* ===== verification/Approval_Digest.thy ===== *)
theory Approval_Digest
  imports Approved_Search
begin

text \<open>
  What the digest of an approved plan commits to, for the planning modules of the repository: every field
  of the plan, the intent and the query plan included.
\<close>

section \<open>The JSON form of an intent determines it\<close>

lemma texts_json_inj: "sort_keys (json_texts vs) = sort_keys (json_texts ws) \<longleftrightarrow> vs = ws"
  by (simp only: json_texts_def sort_keys_arr json_texts_inj)

lemma int_opt_inj: "sort_keys (json_opt JInt m) = sort_keys (json_opt JInt n) \<longleftrightarrow> m = n"
  by (rule sort_keys_opt) simp_all

lemma array_json_inj:
  assumes "\<And>x y. sort_keys (f x) = sort_keys (f y) \<longleftrightarrow> x = y"
  shows "sort_keys (JArr (map f xs)) = sort_keys (JArr (map f ys)) \<longleftrightarrow> xs = ys"
proof -
  have "inj (sort_keys \<circ> f)" using assms by (simp add: inj_def)
  then show ?thesis by (simp only: sort_keys_arr list.map_comp inj_map_eq_map)
qed

text \<open>The confidence of a price is a float; its text stands for it.\<close>

definition same_price :: "price_condition \<Rightarrow> price_condition \<Rightarrow> bool" where
  "same_price p q \<longleftrightarrow> p\<lparr>price_confidence := None\<rparr> = q\<lparr>price_confidence := None\<rparr> \<and>
     map_option float_text (price_confidence p) = map_option float_text (price_confidence q)"

lemma price_names_inj:
  "price_mode_name m = price_mode_name n \<longleftrightarrow> m = n" "price_source_name s = price_source_name t \<longleftrightarrow> s = t"
  by ((cases m; cases n; simp), (cases s; cases t; simp))

lemma float_opt_inj:
  "sort_keys (json_opt json_float x) = sort_keys (json_opt json_float y) \<longleftrightarrow> map_option float_text x = map_option float_text y"
  by (cases x; cases y) (simp_all add: json_opt_def json_float_def)

lemma price_json_inj: "sort_keys (price_json p) = sort_keys (price_json q) \<longleftrightarrow> same_price p q"
  unfolding price_json_def
  by (subst sort_keys_record)
    (auto simp: price_names_inj int_opt_inj float_opt_inj same_price_def intro: price_condition.equality
      dest: arg_cong [where f = price_mode] arg_cong [where f = price_target] arg_cong [where f = price_min]
        arg_cong [where f = price_max] arg_cong [where f = price_source])

lemma ambiguity_json_inj: "sort_keys (ambiguity_json a) = sort_keys (ambiguity_json b) \<longleftrightarrow> a = b"
  unfolding ambiguity_json_def by (subst sort_keys_record) (auto intro: intent_ambiguity.equality)

lemma provenance_json_inj: "sort_keys (provenance_json p) = sort_keys (provenance_json q) \<longleftrightarrow> p = q"
  unfolding provenance_json_def by (subst sort_keys_record) (auto intro: intent_provenance.equality)

lemma candidate_definition_json_inj:
  "sort_keys (candidate_definition_json c) = sort_keys (candidate_definition_json d) \<longleftrightarrow> c = d"
  unfolding candidate_definition_json_def by (subst sort_keys_record) (auto intro: candidate_definition.equality)

lemma definition_opt_inj:
  "sort_keys (json_opt candidate_definition_json u) = sort_keys (json_opt candidate_definition_json v) \<longleftrightarrow> u = v"
  by (rule sort_keys_opt [OF candidate_definition_json_inj]) (simp add: candidate_definition_json_def)

fun candidate_type :: "candidate_target \<Rightarrow> value_type" where
  "candidate_type (CandidateBoolean b) = Boolean_type"
| "candidate_type (CandidateEnum vs) = Enum_type"
| "candidate_type (CandidateInteger lo hi u) = Integer_type"
| "candidate_type (CandidateDecimal lo hi u) = Decimal_type"
| "candidate_type (CandidateTextSet vs) = Text_set_type"
| "candidate_type (CandidateSemantic l) = Semantic_type"

lemma candidate_kind:
  assumes "sort_keys (candidate_target_json s) = sort_keys (candidate_target_json t)"
  shows "candidate_type s = candidate_type t"
proof -
  have k: "\<exists>xs. candidate_target_json t = JObj xs \<and> (''value_type'', JStr (value_type_name (candidate_type t))) \<in> set xs \<and>
      (\<forall>w. (''value_type'', w) \<in> set xs \<longrightarrow> w = JStr (value_type_name (candidate_type t)))" for t
    by (cases t) simp_all
  obtain xs where xs: "candidate_target_json s = JObj xs" "(''value_type'', JStr (value_type_name (candidate_type s))) \<in> set xs"
    using k by blast
  obtain ys where ys: "candidate_target_json t = JObj ys"
    "\<forall>w. (''value_type'', w) \<in> set ys \<longrightarrow> w = JStr (value_type_name (candidate_type t))"
    using k by blast
  from sorted_member [OF assms [unfolded xs(1) ys(1)] xs(2)] ys(2) show ?thesis by auto
qed

lemma same_kind_candidate_inj:
  "sort_keys (candidate_target_json (CandidateBoolean b)) = sort_keys (candidate_target_json (CandidateBoolean b')) \<longleftrightarrow> b = b'"
  "sort_keys (candidate_target_json (CandidateEnum vs)) = sort_keys (candidate_target_json (CandidateEnum vs')) \<longleftrightarrow> vs = vs'"
  "sort_keys (candidate_target_json (CandidateInteger m n u)) = sort_keys (candidate_target_json (CandidateInteger m' n' u')) \<longleftrightarrow>
     m = m' \<and> n = n' \<and> u = u'"
  "sort_keys (candidate_target_json (CandidateDecimal c d u)) = sort_keys (candidate_target_json (CandidateDecimal c' d' u')) \<longleftrightarrow>
     c = c' \<and> d = d' \<and> u = u'"
  "sort_keys (candidate_target_json (CandidateTextSet vs)) = sort_keys (candidate_target_json (CandidateTextSet vs')) \<longleftrightarrow> vs = vs'"
  "sort_keys (candidate_target_json (CandidateSemantic l)) = sort_keys (candidate_target_json (CandidateSemantic l')) \<longleftrightarrow> l = l'"
  unfolding candidate_target_json.simps
  by ((subst sort_keys_record, simp, simp,
       simp only: list.map prod.case list.inject prod.inject int_opt_inj str_opt_inj texts_json_inj sort_keys.simps json.inject
         simp_thms)+)

lemma candidate_target_json_inj:
  "sort_keys (candidate_target_json s) = sort_keys (candidate_target_json t) \<longleftrightarrow> s = t"
proof
  assume e: "sort_keys (candidate_target_json s) = sort_keys (candidate_target_json t)"
  from candidate_kind [OF e] e show "s = t"
    by (cases s; cases t; simp only: candidate_type.simps value_type.distinct same_kind_candidate_inj simp_thms)
qed simp

lemma candidate_json_inj: "sort_keys (candidate_json c) = sort_keys (candidate_json d) \<longleftrightarrow> c = d"
  unfolding candidate_json_def
  by (subst sort_keys_record)
    (auto simp: candidate_target_json_inj definition_opt_inj intro: condition_candidate.equality)

text \<open>Two intents the digest does not tell apart: equal but for the floats of their price confidence, which
  have one text.\<close>

definition same_intent :: "normalized_intent \<Rightarrow> normalized_intent \<Rightarrow> bool" where
  "same_intent i j \<longleftrightarrow> i\<lparr>intent_price := intent_price j\<rparr> = j \<and> same_price (intent_price i) (intent_price j)"

lemma intent_json_inj: "sort_keys (search_intent_json i) = sort_keys (search_intent_json j) \<longleftrightarrow> same_intent i j"
proof -
  have "sort_keys (search_intent_json i) = sort_keys (search_intent_json j) \<longleftrightarrow>
      product_name_ja i = product_name_ja j \<and> product_name_en i = product_name_en j \<and>
      category_ja i = category_ja j \<and> category_en i = category_en j \<and>
      required_terms_ja i = required_terms_ja j \<and> required_terms_en i = required_terms_en j \<and>
      preferred_terms_ja i = preferred_terms_ja j \<and> preferred_terms_en i = preferred_terms_en j \<and>
      negative_terms_ja i = negative_terms_ja j \<and> negative_terms_en i = negative_terms_en j \<and>
      color_ja i = color_ja j \<and> color_en i = color_en j \<and> features_ja i = features_ja j \<and>
      features_en i = features_en j \<and> intent_brand i = intent_brand j \<and> model_number i = model_number j \<and>
      same_price (intent_price i) (intent_price j) \<and> typed_conditions i = typed_conditions j \<and>
      ambiguities i = ambiguities j \<and> provenance i = provenance j"
    unfolding search_intent_json_def draft_members_def append_Cons append_Nil
    by (subst sort_keys_record, simp, simp,
      simp only: list.map prod.case list.inject prod.inject str_opt_inj texts_json_inj price_json_inj
        array_json_inj [OF candidate_json_inj] array_json_inj [OF ambiguity_json_inj] provenance_json_inj simp_thms)
  also have "\<dots> \<longleftrightarrow> same_intent i j"
    unfolding same_intent_def by (cases i; cases j) auto
  finally show ?thesis .
qed

lemma language_name_inj: "language_name a = language_name b \<longleftrightarrow> a = b"
  by (cases a; cases b) simp_all

lemma query_json_inj: "sort_keys (query_json q) = sort_keys (query_json r) \<longleftrightarrow> q = r"
  unfolding query_json_def
  by (subst sort_keys_record) (auto simp: language_name_inj intro: search_query.equality)

lemma str_json_inj: "sort_keys (JStr s) = sort_keys (JStr t) \<longleftrightarrow> s = t"
  by simp

lemma plan_query_json_inj: "sort_keys (search_plan_json p) = sort_keys (search_plan_json q) \<longleftrightarrow> p = q"
proof -
  have "sort_keys (search_plan_json p) = sort_keys (search_plan_json q) \<longleftrightarrow>
      qp_intent p = qp_intent q \<and> qp_queries p = qp_queries q"
    unfolding search_plan_json_def
    by (subst sort_keys_record, simp, simp,
      simp only: list.map prod.case list.inject prod.inject array_json_inj [OF query_json_inj] str_json_inj simp_thms)
  then show ?thesis by (cases p; cases q) simp
qed

section \<open>The digest of a plan\<close>

text \<open>Two plans that agree in every field, allowances up to order, intents as above.\<close>

definition same_approval ::
  "(normalized_intent, search_query_plan) approval_plan \<Rightarrow> (normalized_intent, search_query_plan) approval_plan \<Rightarrow> bool" where
  "same_approval a b \<longleftrightarrow> same_intent (plan_intent a) (plan_intent b) \<and>
     plan_canonical (a\<lparr>plan_intent := plan_intent b\<rparr>) = plan_canonical b"

lemma allowances_json_inj:
  "sort_keys (JArr (map allowance_json xs)) = sort_keys (JArr (map allowance_json ys)) \<longleftrightarrow> xs = ys"
  by (rule array_json_inj [OF allowance_json_inj])

lemma search_planner_texts [simp]:
  "intent_json (search_planner U H D) = search_intent_json" "query_plan_json (search_planner U H D) = search_plan_json"
  "json_time (search_planner U H D) = D"
  by (simp_all add: search_planner_def)

lemma search_plan_text_eq_iff:
  assumes "plan_expires a = plan_created a + approval_ttl" and "plan_expires b = plan_created b + approval_ttl"
    and D: "inj_on D {plan_created a, plan_created b}"
  shows "plan_text (search_planner U H D) a = plan_text (search_planner U H D) b \<longleftrightarrow> same_approval a b"
proof -
  let ?as = "\<lambda>a. sort_key allow_provider (plan_allowances a)"
  have D: "D (plan_created a) = D (plan_created b) \<longleftrightarrow> plan_created a = plan_created b"
    by (rule inj_on_eq_iff [OF D]) simp_all
  have "plan_text (search_planner U H D) a = plan_text (search_planner U H D) b \<longleftrightarrow>
      plan_owner a = plan_owner b \<and> plan_session a = plan_session b \<and>
      same_intent (plan_intent a) (plan_intent b) \<and> plan_intent_sha256 a = plan_intent_sha256 b \<and>
      plan_proposal_sha256 a = plan_proposal_sha256 b \<and> plan_query a = plan_query b \<and>
      plan_request_sha256 a = plan_request_sha256 b \<and> plan_image_mode a = plan_image_mode b \<and>
      plan_image_set a = plan_image_set b \<and> plan_image_metadata a = plan_image_metadata b \<and>
      plan_reference a = plan_reference b \<and> plan_profile a = plan_profile b \<and> ?as a = ?as b \<and>
      plan_runtime a = plan_runtime b \<and> D (plan_created a) = D (plan_created b) \<and> D (plan_expires a) = D (plan_expires b)"
    unfolding plan_text_def plan_json_def search_planner_texts append_same_eq list.inject dumps_eq_iff same_append_eq
    by (subst sort_keys_record, simp, simp,
      simp only: list.map prod.case list.inject prod.inject intent_json_inj plan_query_json_inj str_opt_inj
        allowances_json_inj runtime_json_inj str_json_inj image_mode_name_inj image_profile_name_inj simp_thms)
  also have "\<dots> \<longleftrightarrow> same_approval a b"
    using assms(1,2) D unfolding same_approval_def plan_canonical_def by (cases a; cases b) auto
  finally show ?thesis .
qed

text \<open>C16. The digest a user approves determines the plan: for the planning modules of the repository, two
  valid plans have one digest exactly when they agree in every field: owner, session, the whole intent
  (the float of the price confidence by its text), the whole query plan, request, images, runtime
  bindings, allowances (up to their order) and times. The hash must not collide on the two texts, and the
  two creation times must have two texts when they differ.\<close>

theorem approval_digest_binds:
  assumes "validate_plan (search_planner U H D) plan = Inr a" and "validate_plan (search_planner U H D) plan2 = Inr b"
    and "inj_on D {plan_created a, plan_created b}"
    and "inj_on H {plan_text (search_planner U H D) a, plan_text (search_planner U H D) b}"
  shows "search_approval_plan_sha256 (search_planner U H D) H plan =
      search_approval_plan_sha256 (search_planner U H D) H plan2 \<longleftrightarrow> same_approval a b"
proof -
  let ?P = "search_planner U H D"
  have "H (plan_text ?P a) = H (plan_text ?P b) \<longleftrightarrow> plan_text ?P a = plan_text ?P b"
    using assms(4) by (rule inj_on_eq_iff) simp_all
  with assms(1,2) search_plan_text_eq_iff [OF validate_planD(1) [OF assms(1)] validate_planD(1) [OF assms(2)] assms(3)]
  show ?thesis by (simp add: search_approval_plan_sha256_def)
qed

text \<open>The approval of the sample, its allowances listed in another order.\<close>

definition reordered_approval :: "(normalized_intent, search_query_plan) approval_plan" where
  "reordered_approval = pen_approval\<lparr>plan_allowances := rev (plan_allowances pen_approval)\<rparr>"

lemma reordered_approval_valid:
  "validate_plan (search_planner plain_library search_hash D) reordered_approval = Inr reordered_approval"
proof -
  let ?P = "search_planner plain_library search_hash D"
  have v: "validate_plan ?P pen_approval = Inr pen_approval" by (rule pen_approval_valid)
  have kept: "plan_intent reordered_approval = plan_intent pen_approval" "plan_query reordered_approval = plan_query pen_approval"
    "plan_runtime reordered_approval = plan_runtime pen_approval"
    by (simp_all add: reordered_approval_def)
  have fields: "plan_fields_ok reordered_approval \<longleftrightarrow> plan_fields_ok pen_approval"
    by (simp add: plan_fields_ok_def reordered_approval_def list_all_iff)
  have al: "allowance_of (plan_allowances reordered_approval) p = allowance_of (plan_allowances pen_approval) p" for p
    by (cases p) (simp_all add: allowance_of_def reordered_approval_def pen_approval_def)
  have sel: "plan_intent_sha256 reordered_approval = plan_intent_sha256 pen_approval"
    "plan_proposal_sha256 reordered_approval = plan_proposal_sha256 pen_approval"
    "plan_image_set reordered_approval = plan_image_set pen_approval"
    "plan_image_metadata reordered_approval = plan_image_metadata pen_approval"
    "plan_reference reordered_approval = plan_reference pen_approval" "plan_profile reordered_approval = plan_profile pen_approval"
    "plan_image_mode reordered_approval = plan_image_mode pen_approval"
    "plan_created reordered_approval = plan_created pen_approval" "plan_expires reordered_approval = plan_expires pen_approval"
    by (simp_all add: reordered_approval_def)
  have "check_plan_identity ?P reordered_approval = check_plan_identity ?P pen_approval"
    by (simp only: check_plan_identity_def kept sel)
  moreover have "check_plan_images reordered_approval c = check_plan_images pen_approval c" for c
    by (simp only: check_plan_images_def allowed_calls_def kept sel)
  ultimately have bindings: "check_plan_bindings ?P reordered_approval = check_plan_bindings ?P pen_approval"
    by (simp only: check_plan_bindings_def al sel)
  have same: "reordered_approval\<lparr>plan_intent := plan_intent pen_approval, plan_query := plan_query pen_approval\<rparr> = reordered_approval"
    "pen_approval\<lparr>plan_intent := plan_intent pen_approval, plan_query := plan_query pen_approval\<rparr> = pen_approval"
    by (simp_all add: reordered_approval_def)
  have parts: "plan_intent pen_approval = pen_intent" "plan_query pen_approval = pen_plan"
    by (simp_all add: pen_approval_def)
  from v have "plan_fields_ok pen_approval" "validate_runtime ?P (plan_runtime pen_approval) = Inr ()"
    "check_plan_bindings ?P pen_approval = Inr ()"
    by (auto simp: validate_plan_def Let_def parts pen_intent_valid pen_plan_valid same(2) [unfolded parts])
  then show ?thesis
    by (simp add: validate_plan_def Let_def kept fields bindings parts pen_intent_valid pen_plan_valid same(1) [unfolded parts])
qed

theorem approval_digest_binds_witness:
  "reordered_approval \<noteq> pen_approval \<and> same_approval pen_approval reordered_approval \<and>
   search_approval_plan_sha256 (search_planner plain_library search_hash (\<lambda>_. [])) search_hash pen_approval =
     search_approval_plan_sha256 (search_planner plain_library search_hash (\<lambda>_. [])) search_hash reordered_approval"
proof -
  let ?P = "search_planner plain_library search_hash (\<lambda>_. [])"
  have times: "plan_created pen_approval = 10" "plan_created reordered_approval = 10"
    by (simp_all add: reordered_approval_def pen_approval_def)
  have order: "Bonsai \<le> Cloudflare" "Bonsai \<le> Outscraper" "Cloudflare \<le> Outscraper" "\<not> Cloudflare \<le> Bonsai"
    "\<not> Outscraper \<le> Bonsai" "\<not> Outscraper \<le> Cloudflare" by code_simp+
  have "sort_key allow_provider (plan_allowances reordered_approval) = sort_key allow_provider (plan_allowances pen_approval)"
    by (simp add: reordered_approval_def pen_approval_def order)
  then have same_text: "plan_text ?P pen_approval = plan_text ?P reordered_approval"
    by (simp add: plan_text_def plan_json_def reordered_approval_def)
  have differ: "reordered_approval \<noteq> pen_approval"
  proof
    assume "reordered_approval = pen_approval"
    then have "plan_allowances reordered_approval = plan_allowances pen_approval" by simp
    then show False by (simp add: reordered_approval_def pen_approval_def)
  qed
  have digests: "search_approval_plan_sha256 ?P search_hash pen_approval = search_approval_plan_sha256 ?P search_hash reordered_approval"
    by (simp add: search_approval_plan_sha256_def pen_approval_valid reordered_approval_valid same_text)
  moreover from digests have "same_approval pen_approval reordered_approval"
    using approval_digest_binds [OF pen_approval_valid reordered_approval_valid, of "\<lambda>_. []"] times same_text by simp
  ultimately show ?thesis using differ by simp
qed

end
