(* ===== verification/Spec2Isabelle.thy ===== *)
theory Spec2Isabelle
  imports Usage_Ledger_Theorems Approval_Theorems Job_Executor_Theorems Requirement_Theorems
    Ranking_Theorems Normalization_Theorems Typed_Ranking_Theorems Approved_Search Approval_Digest
begin

text \<open>
  Verification library of the core of the search service, the package \<open>src/src/search_v2\<close>.

  \<^bold>\<open>The program.\<close> A user describes a product in Japanese or English. A language model drafts a structured
  intent from the text; the draft is normalised and planned into at most one query per language and a set
  of typed requirements. The user reviews the plan and approves it, with limits on what each paid
  provider may be used for. The approval is a token that starts one search: a request to the product
  provider, whose response is normalised into a bounded batch of observed products, from whose texts
  evidence for each requirement is extracted, adjudicated, and turned into a ranking. Searches run as
  jobs in a SQLite table, one at a time. All data are frozen models with validators, values are bound to
  each other by SHA-256 digests of their canonical JSON, and every module raises an error with a fixed
  message. The modules call one another as functions on immutable values; the state is in the usage
  ledger, the approval ledger, the session snapshots and the job table.

  \<^bold>\<open>Theories and sources.\<close> Each group models a file of \<open>search_v2\<close>: its classes are records or datatypes,
  its validators the functions \<open>validate_\<close>, its functions keep their names. A failing call is
  \<open>Inl\<close> of an exception, with the \<open>except\<close> clauses of the source written as \<open>rewrap\<close>.

  \<^item> Foundations: \<open>Prelude\<close> (exceptions, results, time), \<open>Interfaces\<close> (the contracts below), \<open>Canonical_Json\<close>
    (\<open>json.dumps\<close> with sorted keys and that its text determines the value), \<open>Text_Values\<close>, \<open>Utf8_Text\<close> and
    \<open>Url_Text\<close> (strings as UTF-8 bytes, \<open>str\<close> and \<open>urllib.parse\<close>), \<open>Regex_Text\<close> (\<open>re\<close>), \<open>Decimal_Values\<close>
    (\<open>Decimal\<close>), \<open>Float_Values\<close> (binary64 numbers, \<open>round\<close>, \<open>repr\<close>, \<open>math.fsum\<close>), \<open>Utc_Time\<close> (\<open>isoformat\<close>).
  \<^item> \<open>Usage_Ledger\<close>: \<open>usage_ledger.py\<close>, the policies and reservations of provider usage.
  \<^item> \<open>Approval_Plan\<close>: \<open>approval.py\<close>. \<open>Approval_Ledger\<close> and \<open>Session\<close>: \<open>state_machine.py\<close>, the single-use
    claims, the session snapshot and every transition. \<open>Session_System\<close> is several sessions over one ledger.
  \<^item> \<open>Search_Job\<close> and \<open>Job_Executor\<close>: \<open>search_job.py\<close>, the job table and the background worker.
  \<^item> \<open>Typed_Requirements\<close> and \<open>Default_Registry\<close>: \<open>typed_requirements.py\<close>. \<open>Requirement_Evaluation\<close>:
    \<open>requirement_evaluation.py\<close>. \<open>Typed_Intent_Adapter\<close>: \<open>typed_intent_adapter.py\<close>. \<open>Dynamic_Attributes\<close>:
    \<open>dynamic_attributes.py\<close>.
  \<^item> \<open>Search_Intent\<close>: \<open>intent.py\<close>. \<open>Search_Tokens\<close>: \<open>tokenizer.py\<close>. \<open>Query_Plan\<close>: \<open>query_planner.py\<close>.
    \<open>Product_Request\<close>: \<open>outscraper_contract.py\<close> and \<open>product_request.py\<close>. \<open>Request_Authorization\<close>:
    \<open>outscraper_request.py\<close>, which ties plan, approval and request together.
  \<^item> \<open>Product_Records\<close> and \<open>Product_Normalization\<close>: \<open>product_normalization.py\<close>. \<open>Product_Ranking\<close>:
    \<open>ranking.py\<close>. \<open>Specification_Reader\<close>: \<open>dynamic_product_evidence.py\<close>. \<open>Product_Evidence\<close>:
    \<open>product_evidence.py\<close>. \<open>Typed_Ranking\<close>: \<open>typed_ranking.py\<close>.

  For a model \<open>X\<close>, \<open>X_Props\<close> holds the lemmas, \<open>X_Samples\<close> the concrete values and \<open>X_Theorems\<close> the
  properties; \<open>Requirement_Errors\<close> and \<open>Search_Errors\<close> hold the exceptions that may escape,
  \<open>Score_Weights\<close> the rounding facts behind the scores, \<open>Job_Executor_Runs\<close> whole runs of the executor,
  \<open>Approved_Search\<close> the lemmas of the composition and \<open>Approval_Digest\<close> what the digest of a plan determines.

  \<^bold>\<open>Interfaces.\<close> \<open>guarded_system\<close> (an operation raises and changes nothing, or keeps the invariant) is
  interpreted on the usage ledger, the approval ledger, the session and the job table;
  \<open>versioned_system\<close> (every call names the revision it was computed from) on the session; \<open>claim_store\<close> on
  the approval ledger; \<open>lifecycle\<close> on reservations, executing sessions and jobs; \<open>job_decision\<close> and its
  extensions on the four job transitions; \<open>normaliser\<close> (results are fixed points) on the normalisers of
  names, units, values and targets. The planning modules enter \<open>approval.py\<close> and \<open>state_machine.py\<close> as the
  record \<open>planner\<close>; \<open>search_planner\<close> is that record for the modelled modules.

  \<^bold>\<open>What the theorems show.\<close>
  \<^item> Usage: no sequence of calls exceeds a quota, the ledger survives a snapshot, reservations only move along
    their life cycle, one call writes one reservation of its owner.
  \<^item> Approval: consuming is all or nothing, a token works once across sessions, an issued approval is usable;
    the digest of a plan determines it, with its intent, its query plan and every limit of its runtime, unless
    two texts collide; an execution permit is exactly the approved request.
  \<^item> Session: transitions keep the contract, no update is lost, a submitted search ends.
  \<^item> Jobs: a cancellation wins, recovery ends active jobs, the stored rows refine a map of jobs. Under every
    interleaving of the callers and the worker, and whatever the clock does, runners are called in the order
    of submission and at most once, and every job is waiting, held by the worker, ended, or left by it for
    one of the listed causes; a worker that is not disturbed finishes every job, when no runner raises an
    exception that is no \<open>Exception\<close> and the clock does not go back.
  \<^item> Requirements: decisions meet a specification over the set of observations, do not depend on their
    order, product reports follow from the decisions; the normal form of a set of requirements is stable
    exactly when folding and sorting leave its text sets as they are, which the code does not ensure.
  \<^item> Search: normalisation accounts for every member of a response; both rankings succeed on bound inputs,
    return exactly the products of the batch in their stated order, with all totals in \<open>[0, 1]\<close>; scores are
    monotone through every rounding; evidence reports every source of every requirement and the
    status of a ranked product follows from it; only fixed-message errors escape, up to the listed ones.
  \<^item> Composition, in this theory: a permit is the approved request, once; an approved plan and a normalised
    response can be ranked.

  \<^bold>\<open>Parameters and bounds.\<close> \<open>H\<close> is SHA-256 as a function from texts to lower-case hexadecimal digests; a
  property that needs digests to be 64 digits or not to collide says so. \<open>U\<close> is the Unicode tables
  (\<open>unicodedata\<close>, \<open>casefold\<close>, \<open>isalnum\<close>, \<open>split\<close>), \<open>T\<close> adds the morphological analyser, \<open>B\<close> the check of a bracketed
  host, \<open>L\<close> is \<open>math.log1p\<close>, \<open>D\<close> the JSON text pydantic gives a timestamp; the samples instantiate all of them
  with functions that treat ASCII text plainly. Loops are structural or have a measure; the searches over
  exponents in \<open>Float_Values\<close> run over all binades (1,022 below and 1,023 above one) and 400 decades,
  which cover every finite number, and \<open>repr\<close> tries up to 17 digits, which always suffice. Decimal arithmetic
  has the 28 digits of the default context. The repetitions of a regular expression are bounded by the length
  of the text, since each round consumes a character. Nothing else is bounded.

  \<^bold>\<open>Granularity and numbers.\<close> In \<open>Job_Executor\<close> a step is a reading of the clock, one transaction of the job
  table, one critical section of the lock, or one operation of the queue; the steps of all threads interleave
  freely, and readings of the clock may go back. A finite binary64 number is the rational it denotes, so that
  \<open>-0.0\<close> is \<open>0.0\<close> here: the code keeps the sign (\<open>bounded_float\<close>, \<open>product_normalization.py\<close>) and writes the
  text \<open>-0.0\<close>, so a product with such a number has another digest in the code than in the model; no order,
  bound or total depends on the sign.

  \<^bold>\<open>Not modelled.\<close> Text leaves the program at five boundaries, and the model stops there: the local language
  model (\<open>bonsai_\<close> files, with the regular expressions that constrain its decoder, and
  \<open>custom_condition_grounded\<close> of \<open>dynamic_attributes.py\<close>, which only that adapter calls), the lexical assets and
  translation workers, HTTP and browser retrieval, images (generation, proxy, similarity models and the
  rankings that use them), and storage of display snapshots. The orchestrator, the pipelines and the HTTP
  API sequence threads and clients around the modelled calls. The candidate search and the legacy scripts
  under \<open>src/main\<close>, \<open>src/services\<close> and \<open>src/clients\<close> are separate programs; \<open>tools/\<close> is developer tooling and
  \<open>frontend/\<close> is TypeScript. \<open>query_parameters\<close> of a request, the pairs given to the HTTP client, is left out.
  Checks of Python types that the annotated signatures already guarantee have no counterpart, and object
  identity is not observable because all values are frozen.
\<close>

section \<open>Properties of the composed search\<close>

text \<open>C39. An execution permit is the approved request, once: a call either fails and leaves the approval
  ledger as it was, or the request is valid, carries the digest and exactly the queries of the approved
  query plan and has the digest the approval names; the session was waiting for the approval and is
  submitted at the time of the permit, the token is recorded as claimed, and no later call with the same
  token, for whatever request, session and plan, gets a permit.\<close>

theorem authorized_request_is_approved:
  "(\<exists>e. authorize_outscraper_request U B H D request s l token plan r own sid n now = (Inl e, l)) \<or>
   (\<exists>a g t au. authorize_outscraper_request U B H D request s l token plan r own sid n now =
      (Inr au, l @ [(grant_token g, claim_record s g t)]) \<and>
      au_request au = request \<and> au_session au = stamp t s (submitted g t s) \<and>
      au_reservation au = res_id r \<and> au_at au = t \<and>
      validate_outscraper_request U B request = Inr () \<and>
      validate_plan (search_planner U H D) plan = Inr a \<and>
      search_query_plan_sha256 U H (plan_query a) = Inr (or_plan request) \<and>
      or_queries request = qp_queries (plan_query a) \<and>
      request_sha256 U B H (Outscraper_request request) = Inr (plan_request_sha256 a) \<and>
      search_approval_plan_sha256 (search_planner U H D) H a = Inr (au_plan_sha256 au) \<and>
      ready s n [Search_approval] now t \<and> own = owner s \<and> sid = session_id s \<and>
      consumable (search_planner U H D) H s token a r g t \<and> \<not> token_claimed l (grant_token g) \<and>
      (\<forall>later request2 s2 plan2 r2 own2 sid2 n2 now2. \<exists>e.
         fst (authorize_outscraper_request U B H D request2 s2
           (run_events claim_step (l @ [(grant_token g, claim_record s g t)]) later) token plan2 r2 own2 sid2 n2 now2) = Inl e))"
  (is "?fail \<or> (\<exists>a g t au. ?permit a g t au)")
proof (cases ?fail)
  case False
  with authorization_outcome [of U B H D request s l token plan r own sid n now] obtain a d g t where
    c: "authorization_checks U B H D request plan = Inr (a, d)" and
    au: "authorize_outscraper_request U B H D request s l token plan r own sid n now =
      (Inr \<lparr>au_request = request, au_session = stamp t s (submitted g t s), au_plan_sha256 = d,
        au_reservation = res_id r, au_at = t\<rparr>, l @ [(grant_token g, claim_record s g t)])" and
    g: "ready s n [Search_approval] now t" "own = owner s" "sid = session_id s"
      "consumable (search_planner U H D) H s token a r g t" "\<not> token_claimed l (grant_token g)" by blast
  have "\<exists>e. fst (authorize_outscraper_request U B H D request2 s2
      (run_events claim_step (l @ [(grant_token g, claim_record s g t)]) later) token plan2 r2 own2 sid2 n2 now2) = Inl e"
    for later request2 s2 plan2 r2 own2 sid2 n2 now2
  proof -
    have token: "grant_token g = approval_token_sha256 H token" using g(4) by (simp add: consumable_def)
    have "token_claimed (l @ [(grant_token g, claim_record s g t)]) (approval_token_sha256 H token)"
      by (simp add: token_claimed_def token)
    then have claimed: "token_claimed (run_events claim_step (l @ [(grant_token g, claim_record s g t)]) later)
        (approval_token_sha256 H token)"
      by (rule approvals.claimed_stays)
    show ?thesis
      using authorization_outcome [of U B H D request2 s2 "run_events claim_step (l @ [(grant_token g, claim_record s g t)]) later"
          token plan2 r2 own2 sid2 n2 now2] claimed
      by (auto simp: consumable_def)
  qed
  then have "?permit a g t \<lparr>au_request = request, au_session = stamp t s (submitted g t s), au_plan_sha256 = d,
        au_reservation = res_id r, au_at = t\<rparr>"
    using au g authorization_checks_parts [OF c] by simp
  then show ?thesis by blast
qed simp

text \<open>C40. An approved search can be ranked: when a plan that a user can approve exists and a provider
  response to a request made of its query plan has been normalised, the proposal of the plan is ready and
  the typed ranking of the normalised products succeeds exactly when their evidence can be built and
  evaluated; the ranking then holds exactly the normalised products. No binding between the modules can
  fail in between.\<close>

theorem approved_search_is_ranked:
  assumes "validate_plan (search_planner (text_functions T) H D) a = Inr a"
    and "normalize_outscraper_products (text_functions T) B H response req request_id rate = Inr batch"
    and "search_query_plan_sha256 (text_functions T) H (plan_query a) = Inr (request_plan req)"
    and "\<forall>s. is_digest (H s)"
  shows "\<exists>pr. build_typed_requirement_proposal (text_functions T) H default_attribute_registry (plan_intent a) = Inr pr \<and>
    ((\<exists>r. rank_typed_product_batch T L H (plan_intent a) (plan_query a) batch pr = Inr r \<and>
        mset (map tp_product (tr_products r)) = mset (pb_products batch)) \<longleftrightarrow>
     (\<forall>p\<in>set (pb_products batch). \<exists>s v.
       build_product_evidence (text_functions T) H (prop_registry pr) (prop_requirements pr) p = Inr s \<and>
       evaluate_product (text_functions T) H (prop_registry pr) (prop_requirements pr) s = Inr v))"
proof -
  obtain pr where a: "validate_normalized_intent (plan_intent a) = Inr ()"
    "validate_search_plan (text_functions T) (plan_query a) = Inr (plan_query a)"
    "search_intent_sha256 H (plan_intent a) = Inr (qp_intent (plan_query a))"
    and pr: "build_typed_requirement_proposal (text_functions T) H default_attribute_registry (plan_intent a) = Inr pr"
    "prop_status pr = Typed_Intent_Adapter.Ready" by (rule approved_plan_parts [OF assms(1)])
  have b: "validate_batch batch = Inr ()" "pb_plan batch = request_plan req"
    using normalization_parts [OF assms(2)] by metis+
  have query: "search_query_plan_sha256 (text_functions T) H (plan_query a) = Inr (pb_plan batch)"
    using assms(3) b(2) by simp
  note ranked = typed_ranking_iff [OF a(1,2) b(1) a(3) query assms(4) pr, of L]
  show ?thesis
  proof (intro exI [of _ pr] conjI pr(1))
    show "(\<exists>r. rank_typed_product_batch T L H (plan_intent a) (plan_query a) batch pr = Inr r \<and>
        mset (map tp_product (tr_products r)) = mset (pb_products batch)) \<longleftrightarrow>
     (\<forall>p\<in>set (pb_products batch). \<exists>s v.
       build_product_evidence (text_functions T) H (prop_registry pr) (prop_requirements pr) p = Inr s \<and>
       evaluate_product (text_functions T) H (prop_registry pr) (prop_requirements pr) s = Inr v)"
      using ranked typed_ranking_sorted(2) by blast
  qed
qed

theorem approved_search_is_ranked_witness:
  "\<exists>r. rank_typed_product_batch plain_tokenizer (\<lambda>n. 0) search_hash pen_intent pen_plan pen_normalized pen_proposal = Inr r \<and>
    mset (map tp_product (tr_products r)) = {#pen_observed 0#}"
proof -
  have plan: "validate_plan (search_planner (text_functions plain_tokenizer) search_hash (\<lambda>t. [])) pen_approval = Inr pen_approval"
    by (simp add: pen_approval_valid)
  have response: "normalize_outscraper_products (text_functions plain_tokenizer) (\<lambda>_. False) search_hash pen_response pen_request
      ''r1'' 150 = Inr pen_normalized"
    by (simp add: pen_normalization)
  have sel: "plan_intent pen_approval = pen_intent" "plan_query pen_approval = pen_plan" "pb_products pen_normalized = [pen_observed 0]"
    by (simp_all add: pen_approval_def pen_normalized_def)
  have query: "search_query_plan_sha256 (text_functions plain_tokenizer) search_hash (plan_query pen_approval) =
      Inr (request_plan pen_request)"
    by (simp add: sel search_query_plan_sha256_def pen_plan_valid) (simp add: pen_request_def)
  from approved_search_is_ranked [OF plan response query hash_digests, of "\<lambda>n. 0"] pen_proposal_built
    no_evidence_needed [OF pen_observed_valid, of 0]
  show ?thesis by (auto simp: sel pen_proposal_def)
qed

end
